(* ===== verification/PyJson.thy ===== *)
theory PyJson
  imports PyBase
begin

text \<open>
  Python values as they come out of \<open>json.loads\<close> and the YAML loader, with the operations
  the sources apply to them: truth value, \<open>or\<close>, \<open>.get\<close>, \<open>==\<close>, \<open>str\<close>, \<open>int\<close> and hashability.
  Dictionary keys are strings. An operation that raises in Python is a value of \<open>'a py\<close>.
\<close>

datatype json =
    JNull
  | JBool bool
  | JInt int
  | JStr string
  | JList "json list"
  | JDict "(string \<times> json) list"

type_synonym dict = "(string \<times> json) list"

lemma json_pair_size [termination_simp]:
  "p \<in> set kvs \<Longrightarrow> size (snd p) < Suc (size_list (size_prod (\<lambda>x. 0) size) kvs)"
  by (induction kvs) auto

lemma json_pair_size' [termination_simp]:
  "(k, v) \<in> set kvs \<Longrightarrow> size v < Suc (size_list (size_prod (\<lambda>x. 0) size) kvs)"
  using json_pair_size[of "(k, v)"] by simp

subsection \<open>Types, truth values and defaults\<close>

fun is_dict :: "json \<Rightarrow> bool" where
  "is_dict (JDict d) = True"
| "is_dict _ = False"

fun is_list :: "json \<Rightarrow> bool" where
  "is_list (JList xs) = True"
| "is_list _ = False"

fun is_str :: "json \<Rightarrow> bool" where
  "is_str (JStr s) = True"
| "is_str _ = False"

fun type_name :: "json \<Rightarrow> string" where
  "type_name JNull = ''NoneType''"
| "type_name (JBool _) = ''bool''"
| "type_name (JInt _) = ''int''"
| "type_name (JStr _) = ''str''"
| "type_name (JList _) = ''list''"
| "type_name (JDict _) = ''dict''"

fun truthy :: "json \<Rightarrow> bool" where
  "truthy JNull = False"
| "truthy (JBool b) = b"
| "truthy (JInt i) = (i \<noteq> 0)"
| "truthy (JStr s) = (s \<noteq> [])"
| "truthy (JList xs) = (xs \<noteq> [])"
| "truthy (JDict d) = (d \<noteq> [])"

definition por :: "json \<Rightarrow> json \<Rightarrow> json" where
  "por a b = (if truthy a then a else b)"

definition attr_error :: "json \<Rightarrow> string \<Rightarrow> py_exc" where
  "attr_error v a = Exc ''AttributeError''
     ([CHR 0x27] @ type_name v @ [CHR 0x27] @ '' object has no attribute '' @ [CHR 0x27] @ a @ [CHR 0x27])"

definition dget_def :: "dict \<Rightarrow> string \<Rightarrow> json \<Rightarrow> json" where
  "dget_def d k v = (case map_of d k of None \<Rightarrow> v | Some w \<Rightarrow> w)"

abbreviation dget :: "dict \<Rightarrow> string \<Rightarrow> json" where
  "dget d k \<equiv> dget_def d k JNull"

text \<open>\<open>v.get(k, default)\<close> on a value that need not be a dictionary.\<close>

definition jget_def :: "json \<Rightarrow> string \<Rightarrow> json \<Rightarrow> json py" where
  "jget_def v k dflt =
     (case v of JDict d \<Rightarrow> Inr (dget_def d k dflt) | _ \<Rightarrow> Inl (attr_error v ''get''))"

abbreviation jget :: "json \<Rightarrow> string \<Rightarrow> json py" where
  "jget v k \<equiv> jget_def v k JNull"

lemma jget_JDict [simp]: "jget_def (JDict d) k v = Inr (dget_def d k v)"
  by (simp add: jget_def_def)

lemma dget_update [dict_simps]:
  "dget_def (AList.update k v d) k' w = (if k = k' then v else dget_def d k' w)"
  by (simp add: dget_def_def update_conv')

lemma dget_delete [dict_simps]:
  "dget_def (AList.delete k d) k' w = (if k = k' then w else dget_def d k' w)"
  by (simp add: dget_def_def delete_conv')

lemma dget_Nil [simp]: "dget_def [] k v = v"
  by (simp add: dget_def_def)

lemma dget_Cons [simp]: "dget_def ((k, w) # d) k' v = (if k = k' then w else dget_def d k' v)"
  by (simp add: dget_def_def)

lemma por_simps [simp]:
  "por JNull b = b"
  "truthy a \<Longrightarrow> por a b = a"
  "\<not> truthy a \<Longrightarrow> por a b = b"
  by (simp_all add: por_def)

subsection \<open>Well-formed values: the keys of every dictionary are distinct\<close>

fun wf_json :: "json \<Rightarrow> bool" where
  "wf_json (JList xs) = list_all wf_json xs"
| "wf_json (JDict d) = (distinct (map fst d) \<and> list_all (\<lambda>p. wf_json (snd p)) d)"
| "wf_json _ = True"

subsection \<open>Equality and hashing\<close>

fun num_val :: "json \<Rightarrow> int option" where
  "num_val (JBool b) = Some (if b then 1 else 0)"
| "num_val (JInt i) = Some i"
| "num_val _ = None"

fun py_eq :: "json \<Rightarrow> json \<Rightarrow> bool"
  and py_eq_list :: "json list \<Rightarrow> json list \<Rightarrow> bool"
  and py_eq_dict :: "dict \<Rightarrow> dict \<Rightarrow> bool" where
  "py_eq a b =
     (case a of
        JNull \<Rightarrow> b = JNull
      | JStr s \<Rightarrow> b = JStr s
      | JList xs \<Rightarrow> (case b of JList ys \<Rightarrow> py_eq_list xs ys | _ \<Rightarrow> False)
      | JDict d \<Rightarrow> (case b of JDict e \<Rightarrow> length d = length e \<and> py_eq_dict d e | _ \<Rightarrow> False)
      | _ \<Rightarrow> num_val b = num_val a)"
| "py_eq_list [] ys = (ys = [])"
| "py_eq_list (x # xs) ys = (case ys of [] \<Rightarrow> False | y # ys' \<Rightarrow> py_eq x y \<and> py_eq_list xs ys')"
| "py_eq_dict [] e = True"
| "py_eq_dict ((k, v) # d) e =
     ((case map_of e k of None \<Rightarrow> False | Some w \<Rightarrow> py_eq v w) \<and> py_eq_dict d e)"

declare py_eq.simps [simp del]

lemma py_eq_JStr [simp]: "py_eq (JStr s) b \<longleftrightarrow> b = JStr s"
  by (simp add: py_eq.simps)

lemma py_eq_JNull [simp]: "py_eq JNull b \<longleftrightarrow> b = JNull"
  by (simp add: py_eq.simps)

lemma py_eq_JBool [simp]: "py_eq (JBool c) b \<longleftrightarrow> num_val b = Some (if c then 1 else 0)"
  by (simp add: py_eq.simps)

lemma py_eq_JInt [simp]: "py_eq (JInt i) b \<longleftrightarrow> num_val b = Some i"
  by (simp add: py_eq.simps)

lemma py_eq_JList [simp]:
  "py_eq (JList xs) b \<longleftrightarrow> (case b of JList ys \<Rightarrow> py_eq_list xs ys | _ \<Rightarrow> False)"
  by (simp add: py_eq.simps)

lemma py_eq_JDict [simp]:
  "py_eq (JDict d) b \<longleftrightarrow>
     (case b of JDict e \<Rightarrow> length d = length e \<and> py_eq_dict d e | _ \<Rightarrow> False)"
  by (simp add: py_eq.simps)

fun hashable :: "json \<Rightarrow> bool" where
  "hashable (JList _) = False"
| "hashable (JDict _) = False"
| "hashable _ = True"

definition unhashable_error :: "json \<Rightarrow> py_exc" where
  "unhashable_error v = Exc ''TypeError''
     (''unhashable type: '' @ [CHR 0x27] @ type_name v @ [CHR 0x27])"

lemma py_eq_list_refl: "(\<And>x. x \<in> set xs \<Longrightarrow> py_eq x x) \<Longrightarrow> py_eq_list xs xs"
  by (induction xs) auto

lemma py_eq_dict_refl:
  "(\<forall>(k, v) \<in> set d. py_eq v v \<and> map_of e k = Some v) \<Longrightarrow> py_eq_dict d e"
  by (induction d) auto

text \<open>Python's \<open>v == v\<close> holds for every well-formed value.\<close>

lemma py_eq_refl: "wf_json v \<Longrightarrow> py_eq v v"
proof (induction v)
  case (JList xs)
  then show ?case by (auto intro!: py_eq_list_refl simp: list_all_iff)
next
  case (JDict d)
  have "py_eq v v \<and> map_of d k = Some v" if "(k, v) \<in> set d" for k v
    using JDict that by (fastforce simp: list_all_iff)
  then have "py_eq_dict d d" by (intro py_eq_dict_refl) blast
  then show ?case by simp
qed auto

subsection \<open>Conversion to text and to integers\<close>

definition hex_digit :: "nat \<Rightarrow> char" where
  "hex_digit n = ''0123456789abcdef'' ! n"

definition repr_char :: "char \<Rightarrow> char \<Rightarrow> string" where
  "repr_char q c =
     (if c = q \<or> c = CHR 0x5C then [CHR 0x5C, c]
      else if c = CHR 0x0A then [CHR 0x5C, CHR ''n'']
      else if c = CHR 0x0D then [CHR 0x5C, CHR ''r'']
      else if c = CHR 0x09 then [CHR 0x5C, CHR ''t'']
      else (let n = (of_char c :: nat) in
            if n < 32 \<or> n = 127
            then [CHR 0x5C, CHR ''x'', hex_digit (n div 16), hex_digit (n mod 16)]
            else [c]))"

definition repr_str :: "string \<Rightarrow> string" where
  "repr_str s =
     (let q = (if CHR 0x27 \<in> set s \<and> CHR 0x22 \<notin> set s then CHR 0x22 else CHR 0x27)
      in [q] @ concat (map (repr_char q) s) @ [q])"

fun py_repr :: "json \<Rightarrow> string" where
  "py_repr JNull = ''None''"
| "py_repr (JBool b) = (if b then ''True'' else ''False'')"
| "py_repr (JInt i) = int_str i"
| "py_repr (JStr s) = repr_str s"
| "py_repr (JList xs) = ''['' @ join_str '', '' (map py_repr xs) @ '']''"
| "py_repr (JDict d) =
     ''{'' @ join_str '', '' (map (\<lambda>p. repr_str (fst p) @ '': '' @ py_repr (snd p)) d) @ ''}''"

definition py_str :: "json \<Rightarrow> string" where
  "py_str v = (case v of JStr s \<Rightarrow> s | _ \<Rightarrow> py_repr v)"

lemma py_str_JStr [simp]: "py_str (JStr s) = s"
  by (simp add: py_str_def)

definition int_type_error :: "json \<Rightarrow> py_exc" where
  "int_type_error v = Exc ''TypeError''
     (''int() argument must be a string, a bytes-like object or a real number, not ''
      @ [CHR 0x27] @ type_name v @ [CHR 0x27])"

definition value_error :: "string \<Rightarrow> py_exc" where
  "value_error msg = Exc ''ValueError'' msg"

definition int_value_error :: "string \<Rightarrow> py_exc" where
  "int_value_error s = Exc ''ValueError'' (''invalid literal for int() with base 10: '' @ repr_str s)"

definition py_int :: "json \<Rightarrow> int py" where
  "py_int v =
     (case v of
        JBool b \<Rightarrow> Inr (if b then 1 else 0)
      | JInt i \<Rightarrow> Inr i
      | JStr s \<Rightarrow> (case parse_int s of None \<Rightarrow> Inl (int_value_error s) | Some i \<Rightarrow> Inr i)
      | _ \<Rightarrow> Inl (int_type_error v))"

lemma py_int_JInt [simp]: "py_int (JInt i) = Inr i"
  by (simp add: py_int_def)

text \<open>\<open>str(d.get(k) or default)\<close> and \<open>int(d.get(k) or 0)\<close>, the two idioms of the sources.\<close>

definition str_or :: "dict \<Rightarrow> string \<Rightarrow> string \<Rightarrow> string" where
  "str_or d k dflt = py_str (por (dget d k) (JStr dflt))"

definition int_or0 :: "dict \<Rightarrow> string \<Rightarrow> int py" where
  "int_or0 d k = py_int (por (dget d k) (JInt 0))"

text \<open>Iterating over \<open>v.get(k) or []\<close>: a list, or the keys of a dictionary, or an error.\<close>

definition iter_error :: "json \<Rightarrow> py_exc" where
  "iter_error v = Exc ''TypeError''
     ([CHR 0x27] @ type_name v @ [CHR 0x27] @ '' object is not iterable'')"

definition py_iter :: "json \<Rightarrow> json list py" where
  "py_iter v =
     (case v of
        JList xs \<Rightarrow> Inr xs
      | JDict d \<Rightarrow> Inr (map (JStr \<circ> fst) d)
      | JStr s \<Rightarrow> Inr (map (\<lambda>c. JStr [c]) s)
      | _ \<Rightarrow> Inl (iter_error v))"

lemma py_iter_JList [simp]: "py_iter (JList xs) = Inr xs"
  by (simp add: py_iter_def)

end
