(* ===== verification/Capabilities.thy ===== *)
theory Capabilities
  imports PyJson
begin

text \<open>
  The runtime capability registry of \<open>services/tool_capabilities.py\<close>, the approval rule of
  \<open>services/approvals.py\<close> and the tool exposure of \<open>services/tool_executor.py\<close>: which tools
  exist, which may change infrastructure, and which of them a session may see. MCP tool
  metadata is a Python value (\<open>JNull\<close> for a missing one).
\<close>

subsection \<open>The registry\<close>

datatype tool_effect = READ | MUTATION

record tool_capability =
  effect :: tool_effect
  enabled :: bool
  controlled :: bool
  verification_adapter :: "string option"

definition requires_approval :: "tool_capability \<Rightarrow> bool" where
  "requires_approval c \<longleftrightarrow> effect c = MUTATION"

definition read_cap :: tool_capability where
  "read_cap = \<lparr>effect = READ, enabled = True, controlled = False, verification_adapter = None\<rparr>"

definition controlled_cap :: "string \<Rightarrow> tool_capability" where
  "controlled_cap adapter =
     \<lparr>effect = MUTATION, enabled = True, controlled = True, verification_adapter = Some adapter\<rparr>"

definition disabled_mutation :: tool_capability where
  "disabled_mutation =
     \<lparr>effect = MUTATION, enabled = False, controlled = False, verification_adapter = None\<rparr>"

definition READ_ONLY_TOOLS :: "string list" where
  "READ_ONLY_TOOLS =
   [''k8s_logs'', ''k8s_get'', ''k8s_describe'', ''wait_for_x_seconds'',
    ''k8s_rollout_status'', ''k8s_rollout_history'', ''k8s_cluster_info'', ''k8s_top_pods'',
    ''k8s_top_nodes'', ''helm_list_releases'', ''helm_status'', ''helm_history'',
    ''helm_get_values'', ''helm_get_manifest'', ''helm_show_values'', ''helm_search_repo'',
    ''helm_template'', ''argo_list_rollouts'', ''argo_status'', ''argo_history'',
    ''argo_describe'', ''argo_list_experiments'', ''argo_list_analysisruns'',
    ''jenkins_get_job'', ''jenkins_get_jobs'', ''jenkins_get_build'',
    ''jenkins_get_last_builds'', ''jenkins_get_build_log'', ''jenkins_get_job_scm'',
    ''jenkins_get_build_scm'', ''jenkins_get_build_changesets'', ''jenkins_whoami'',
    ''jenkins_get_job_parameters'']"

definition CONTROLLED_MUTATIONS :: "(string \<times> tool_capability) list" where
  "CONTROLLED_MUTATIONS =
   [(''k8s_apply'', controlled_cap ''kubernetes_apply''),
    (''helm_install'', controlled_cap ''helm_release''),
    (''helm_install_with_values'', controlled_cap ''helm_release''),
    (''helm_upgrade'', controlled_cap ''helm_release''),
    (''helm_rollback'', controlled_cap ''helm_release'')]"

definition UNVERIFIED_MUTATIONS :: "string list" where
  "UNVERIFIED_MUTATIONS =
   [''k8s_patch'', ''k8s_set_image'', ''k8s_rollout_restart'', ''k8s_scale'', ''k8s_delete'',
    ''k8s_rollout_undo'', ''k8s_cordon'', ''k8s_uncordon'', ''k8s_drain'', ''k8s_run_pod'',
    ''k8s_exec'', ''k8s_port_forward'', ''helm_repo_add'', ''helm_repo_update'',
    ''helm_repo_remove'', ''helm_uninstall'', ''argo_promote'', ''argo_pause_rollout'',
    ''argo_resume_rollout'', ''argo_abort_rollout'', ''argo_set_image'',
    ''argo_rollout_restart'', ''argo_undo'', ''jenkins_trigger_build'',
    ''jenkins_update_build'', ''jenkins_stop_build'']"

text \<open>The dict display evaluates left to right and a later key wins, so it is read right to left.\<close>

definition TOOL_CAPABILITIES :: "(string \<times> tool_capability) list" where
  "TOOL_CAPABILITIES =
     map (\<lambda>n. (n, disabled_mutation)) UNVERIFIED_MUTATIONS
     @ CONTROLLED_MUTATIONS
     @ map (\<lambda>n. (n, read_cap)) READ_ONLY_TOOLS"

definition INFRASTRUCTURE_PREFIXES :: "string list" where
  "INFRASTRUCTURE_PREFIXES = [''k8s_'', ''helm_'', ''argo_'', ''jenkins_'']"

definition is_infrastructure_tool :: "string \<Rightarrow> bool" where
  "is_infrastructure_tool name \<longleftrightarrow>
     list_ex (starts_with name) INFRASTRUCTURE_PREFIXES \<or> name = ''wait_for_x_seconds''"

definition get_tool_capability :: "string \<Rightarrow> tool_capability option" where
  "get_tool_capability name = map_of TOOL_CAPABILITIES name"

text \<open>\<open>bool(((metadata or {}).get("annotations") or {}).get(hint, False))\<close>\<close>

definition annotation_hint :: "json \<Rightarrow> string \<Rightarrow> bool py" where
  "annotation_hint metadata hint =
     bindE (jget (por metadata (JDict [])) ''annotations'') (\<lambda>a.
     bindE (jget_def (por a (JDict [])) hint (JBool False)) (\<lambda>v. Inr (truthy v)))"

definition capability_error :: "string \<Rightarrow> json \<Rightarrow> string option py" where
  "capability_error name metadata =
     (if \<not> is_infrastructure_tool name then Inr None
      else if metadata = JNull then
        Inr (Some (''Infrastructure tool '' @ quoted name
          @ '' metadata is unavailable; execution fails closed.''))
      else case get_tool_capability name of
        None \<Rightarrow> Inr (Some (''Infrastructure tool '' @ quoted name
          @ '' is absent from the runtime capability registry.''))
      | Some c \<Rightarrow>
          if \<not> enabled c then
            Inr (Some (''Infrastructure mutation '' @ quoted name
              @ '' is disabled because no deterministic verification adapter is registered.''))
          else bindE (annotation_hint metadata ''readOnlyHint'') (\<lambda>annotated_read_only.
            if annotated_read_only \<noteq> (effect c = READ) then
              Inr (Some (''Infrastructure tool '' @ quoted name
                @ '' metadata conflicts with the runtime capability registry.''))
            else Inr None))"

definition is_effectively_read_only :: "string \<Rightarrow> json \<Rightarrow> bool py" where
  "is_effectively_read_only name metadata =
     (case get_tool_capability name of
        Some c \<Rightarrow> Inr (effect c = READ)
      | None \<Rightarrow> annotation_hint metadata ''readOnlyHint'')"

subsection \<open>Approvals\<close>

text \<open>
  \<open>ApprovalService.need_approval\<close>: the fetcher is \<open>None\<close>, or a function that may raise.
  Every failure asks for approval.
\<close>

definition need_approval :: "(string \<Rightarrow> json py) option \<Rightarrow> string \<Rightarrow> bool" where
  "need_approval fetcher tool =
     (case fetcher of
        None \<Rightarrow> True
      | Some fetch \<Rightarrow>
          (case bindE (fetch tool) (\<lambda>metadata.
             if \<not> truthy metadata then Inr True
             else bindE (jget_def metadata ''annotations'' (JDict [])) (\<lambda>annotations.
                  bindE (jget_def annotations ''systemTool'' (JBool False)) (\<lambda>sys.
                  if truthy sys then Inr False
                  else bindE (jget_def annotations ''readOnlyHint'' (JBool False)) (\<lambda>ro.
                       Inr (\<not> truthy ro)))))
           of Inl _ \<Rightarrow> True | Inr b \<Rightarrow> b))"

subsection \<open>Tool exposure\<close>

definition AVAILABLE_TOOLSETS :: "string list" where
  "AVAILABLE_TOOLSETS = [''k8s'', ''helm'', ''argo'', ''jenkins'', ''memory'']"

definition first_tag :: "json \<Rightarrow> json option" where
  "first_tag tags = (case tags of JList (t # _) \<Rightarrow> Some t | _ \<Rightarrow> None)"

definition tag_of_name :: "json \<Rightarrow> json" where
  "tag_of_name v =
     (case v of
        JStr name \<Rightarrow>
          if starts_with name ''k8s_'' \<or> name = ''wait_for_x_seconds'' then JStr ''k8s''
          else if starts_with name ''helm_'' then JStr ''helm''
          else if starts_with name ''argo_'' then JStr ''argo''
          else if starts_with name ''jenkins_'' then JStr ''jenkins''
          else if starts_with name ''memory_'' then JStr ''memory''
          else JNull
      | _ \<Rightarrow> JNull)"

definition resolve_tool_tag :: "dict \<Rightarrow> json py" where
  "resolve_tool_tag tool =
     (case first_tag (dget tool ''tags'') of
        Some t \<Rightarrow> Inr t
      | None \<Rightarrow>
          bindE (jget (por (dget tool ''meta'') (JDict [])) ''_fastmcp'') (\<lambda>fm.
          bindE (jget (por fm (JDict [])) ''tags'') (\<lambda>fm_tags.
          case first_tag fm_tags of
            Some t \<Rightarrow> Inr t
          | None \<Rightarrow> Inr (tag_of_name (dget_def tool ''name'' (JStr [])))))) "

definition tool_name :: "dict \<Rightarrow> string" where
  "tool_name tool = str_or tool ''name'' []"

text \<open>One round of the loop of \<open>filter_tools_by_loaded_toolsets\<close>: keep the tool or not.\<close>

definition tool_visible :: "(string \<times> bool) list \<Rightarrow> dict \<Rightarrow> bool py" where
  "tool_visible loaded tool =
     bindE (capability_error (tool_name tool) (JDict tool)) (\<lambda>err.
       if err \<noteq> None then Inr False
       else bindE (resolve_tool_tag tool) (\<lambda>tag.
         if tag = JNull then Inr False
         else if \<not> hashable tag then Inl (unhashable_error tag)
         else case tag of
           JStr t \<Rightarrow>
             (if t \<notin> set AVAILABLE_TOOLSETS then Inr False
              else case map_of loaded t of
                None \<Rightarrow> Inr False
              | Some include_write \<Rightarrow>
                  if include_write then Inr True
                  else is_effectively_read_only (tool_name tool) (JDict tool))
         | _ \<Rightarrow> Inr False))"

fun filter_tools_by_loaded_toolsets ::
  "dict list \<Rightarrow> (string \<times> bool) list \<Rightarrow> dict list py" where
  "filter_tools_by_loaded_toolsets [] loaded = Inr []"
| "filter_tools_by_loaded_toolsets (t # ts) loaded =
     bindE (tool_visible loaded t) (\<lambda>keep.
     bindE (filter_tools_by_loaded_toolsets ts loaded) (\<lambda>rest.
     Inr (if keep then t # rest else rest)))"

text \<open>\<open>_strip_internal_memory_params\<close>: parameters the engine owns are hidden from the model.\<close>

definition MEMORY_INTERNAL_PARAMS :: "string list" where
  "MEMORY_INTERNAL_PARAMS = [''_user_id'', ''_conversation_id'', ''_run_id'']"

definition internal_param :: "string \<Rightarrow> string \<Rightarrow> bool" where
  "internal_param fn_name key \<longleftrightarrow>
     (starts_with fn_name ''memory_'' \<and> key \<in> set MEMORY_INTERNAL_PARAMS)
     \<or> starts_with key ''_skyflo_'' \<or> key = ''skyflo_operation_id''"

definition keep_required :: "string \<Rightarrow> json \<Rightarrow> bool" where
  "keep_required fn_name r \<longleftrightarrow>
     (\<not> starts_with fn_name ''memory_'' \<or> r \<notin> JStr ` set MEMORY_INTERNAL_PARAMS)
     \<and> \<not> starts_with (py_str r) ''_skyflo_'' \<and> r \<noteq> JStr ''skyflo_operation_id''"

definition strip_params :: "string \<Rightarrow> dict \<Rightarrow> dict" where
  "strip_params fn_name params =
     (let p1 = (case dget params ''properties'' of
                  JDict props \<Rightarrow> AList.update ''properties''
                    (JDict (filter (\<lambda>(k, v). \<not> internal_param fn_name k) props)) params
                | _ \<Rightarrow> params)
      in case dget params ''required'' of
           JList required \<Rightarrow>
             AList.update ''required'' (JList (filter (keep_required fn_name) required)) p1
         | _ \<Rightarrow> p1)"

definition strip_tool :: "dict \<Rightarrow> dict py" where
  "strip_tool tool =
     bindE (jget (dget_def tool ''function'' (JDict [])) ''name'') (\<lambda>nm.
       case nm of
         JStr fn_name \<Rightarrow>
           (case dget_def tool ''function'' (JDict []) of
              JDict fn \<Rightarrow>
                (case dget_def fn ''parameters'' (JDict []) of
                   JDict params \<Rightarrow>
                     Inr (if map_of fn ''parameters'' = None then tool
                          else AList.update ''function'' (JDict (AList.update ''parameters''
                                 (JDict (strip_params fn_name params)) fn)) tool)
                 | v \<Rightarrow> Inl (attr_error v ''get''))
            | v \<Rightarrow> Inl (attr_error v ''get''))
       | _ \<Rightarrow> Inr tool)"

fun strip_internal_memory_params :: "dict list \<Rightarrow> dict list py" where
  "strip_internal_memory_params [] = Inr []"
| "strip_internal_memory_params (t # ts) =
     bindE (strip_tool t) (\<lambda>t'.
     bindE (strip_internal_memory_params ts) (\<lambda>ts'. Inr (t' # ts')))"

end
