(* ===== verification/MutationUtils.thy ===== *)
theory MutationUtils
  imports Capabilities "HOL-Library.Multiset" "HOL-Library.List_Lexorder" "HOL-Library.Char_ord"
begin

text \<open>
  \<open>services/mutation_utils.py\<close>: redaction of secrets, the canonical JSON text and the
  fingerprint of a mutation intent, the targets of a manifest, and the marker a controlled
  mutation carries. PyYAML is the record \<open>yaml\<close> of its four entry points; the digest of
  \<open>hmac\<close> with SHA-256 is the parameter \<open>hmac\<close> (key, then payload).
\<close>

record yaml =
  safe_load_all :: "string \<Rightarrow> json list py"
  safe_load :: "string \<Rightarrow> json py"
  safe_dump_all :: "json list \<Rightarrow> string"
  safe_dump :: "json \<Rightarrow> string"

text \<open>The classes of PyYAML below \<open>yaml.YAMLError\<close>.\<close>

definition yaml_error :: "py_exc \<Rightarrow> bool" where
  "yaml_error e \<longleftrightarrow> exc_type e \<in> set
     [''YAMLError'', ''MarkedYAMLError'', ''ReaderError'', ''ScannerError'', ''ParserError'',
      ''ComposerError'', ''ConstructorError'', ''ResolverError'']"

subsection \<open>Redaction\<close>

definition SENSITIVE_WORDS :: "string list" where
  "SENSITIVE_WORDS = [''password'', ''passwd'', ''secret'', ''token'', ''api_key'', ''apikey'',
     ''authorization'', ''credential'']"

text \<open>The tail \<open>s?($|_)\<close> of the pattern; \<open>$\<close> also matches before a final newline.\<close>

definition at_end :: "string \<Rightarrow> bool" where
  "at_end r \<longleftrightarrow> r = [] \<or> r = [CHR 0x0A] \<or> hd r = CHR ''_''"

definition tail_matches :: "string \<Rightarrow> bool" where
  "tail_matches r \<longleftrightarrow> at_end r \<or> (case r of [] \<Rightarrow> False | c # r' \<Rightarrow> c = CHR ''s'' \<and> at_end r')"

definition word_matches :: "string \<Rightarrow> bool" where
  "word_matches s \<longleftrightarrow>
     list_ex (\<lambda>w. starts_with s w \<and> tail_matches (drop (length w) s)) SENSITIVE_WORDS"

text \<open>\<open>search\<close>: the first argument says that the position is at the start or behind an underscore.\<close>

fun sensitive_from :: "bool \<Rightarrow> string \<Rightarrow> bool" where
  "sensitive_from boundary [] = False"
| "sensitive_from boundary (c # cs) =
     ((boundary \<and> word_matches (c # cs)) \<or> sensitive_from (c = CHR ''_'') cs)"

definition sensitive_key :: "string \<Rightarrow> bool" where
  "sensitive_key k \<longleftrightarrow> k \<noteq> [] \<and> sensitive_from True (py_lower k)"

definition REDACTED :: json where
  "REDACTED = JStr ''[REDACTED]''"

fun redact_sensitive :: "string \<Rightarrow> json \<Rightarrow> json" where
  "redact_sensitive key (JDict d) =
     (if sensitive_key key then REDACTED
      else JDict (map (\<lambda>p. (fst p, redact_sensitive (fst p) (snd p))) d))"
| "redact_sensitive key (JList xs) =
     (if sensitive_key key then REDACTED else JList (map (redact_sensitive []) xs))"
| "redact_sensitive key v = (if sensitive_key key then REDACTED else v)"

definition redact_dict :: "dict \<Rightarrow> dict" where
  "redact_dict d = map (\<lambda>p. (fst p, redact_sensitive (fst p) (snd p))) d"

subsection \<open>Canonical JSON and fingerprints\<close>

definition json_char :: "char \<Rightarrow> string" where
  "json_char c =
     (if c = CHR 0x22 \<or> c = CHR 0x5C then [CHR 0x5C, c]
      else if c = CHR 0x0A then [CHR 0x5C, CHR ''n'']
      else if c = CHR 0x0D then [CHR 0x5C, CHR ''r'']
      else if c = CHR 0x09 then [CHR 0x5C, CHR ''t'']
      else if c = CHR 0x08 then [CHR 0x5C, CHR ''b'']
      else if c = CHR 0x0C then [CHR 0x5C, CHR ''f'']
      else (let n = (of_char c :: nat) in
            if n < 32 then [CHR 0x5C] @ ''u00'' @ [hex_digit (n div 16), hex_digit (n mod 16)]
            else [c]))"

definition json_str :: "string \<Rightarrow> string" where
  "json_str s = [CHR 0x22] @ concat (map json_char s) @ [CHR 0x22]"

fun canonical_json :: "json \<Rightarrow> string" where
  "canonical_json JNull = ''null''"
| "canonical_json (JBool b) = (if b then ''true'' else ''false'')"
| "canonical_json (JInt i) = int_str i"
| "canonical_json (JStr s) = json_str s"
| "canonical_json (JList xs) = ''['' @ join_str '','' (map canonical_json xs) @ '']''"
| "canonical_json (JDict d) =
     ''{'' @ join_str '',''
       (map (\<lambda>p. json_str (fst p) @ '':'' @ canonical_json (snd p)) (sort_key fst d)) @ ''}''"

definition fingerprint_payload :: "json list \<Rightarrow> string" where
  "fingerprint_payload values = join_str [CHR 0x1F] (map canonical_json values)"

definition hmac_fingerprint ::
  "(string \<Rightarrow> string \<Rightarrow> string) \<Rightarrow> string \<Rightarrow> json list \<Rightarrow> string" where
  "hmac_fingerprint hmac secret values =
     hmac (if secret = [] then ''skyflo-unsafe-development-key'' else secret)
          (fingerprint_payload values)"

subsection \<open>Manifests and tool arguments\<close>

definition redact_document :: "dict \<Rightarrow> json" where
  "redact_document raw =
     redact_sensitive []
       (JDict (if py_lower (str_or raw ''kind'' []) = ''secret'' then
                 (let r1 = (if map_of raw ''data'' \<noteq> None
                            then AList.update ''data'' REDACTED raw else raw)
                  in if map_of r1 ''stringData'' \<noteq> None
                     then AList.update ''stringData'' REDACTED r1 else r1)
               else raw))"

definition redact_documents :: "json list \<Rightarrow> json list" where
  "redact_documents docs =
     concat (map (\<lambda>v. case v of JDict raw \<Rightarrow> [redact_document raw] | _ \<Rightarrow> []) docs)"

definition redact_manifest_content :: "yaml \<Rightarrow> string \<Rightarrow> string py" where
  "redact_manifest_content Y content =
     (case safe_load_all Y content of
        Inr docs \<Rightarrow> Inr (safe_dump_all Y (redact_documents docs))
      | Inl e \<Rightarrow> if yaml_error e then Inr ''[UNPARSEABLE MANIFEST REDACTED]'' else Inl e)"

definition redact_helm_values :: "yaml \<Rightarrow> string \<Rightarrow> string py" where
  "redact_helm_values Y values =
     (case safe_load Y values of
        Inr v \<Rightarrow> Inr (safe_dump Y (redact_sensitive [] v))
      | Inl e \<Rightarrow> if yaml_error e then Inr ''[UNPARSEABLE HELM VALUES REDACTED]'' else Inl e)"

definition redact_tool_args :: "yaml \<Rightarrow> string \<Rightarrow> dict \<Rightarrow> dict py" where
  "redact_tool_args Y tool args =
     (let redacted = redact_dict args in
      bindE (case dget redacted ''content'' of
               JStr content \<Rightarrow>
                 if tool = ''k8s_apply'' then
                   bindE (redact_manifest_content Y content) (\<lambda>c.
                   Inr (AList.update ''content'' (JStr c) redacted))
                 else Inr redacted
             | _ \<Rightarrow> Inr redacted) (\<lambda>r.
      case dget r ''values'' of
        JStr values \<Rightarrow>
          if tool = ''helm_install_with_values'' then
            bindE (redact_helm_values Y values) (\<lambda>v.
            Inr (AList.update ''values'' (JStr v) r))
          else Inr r
      | _ \<Rightarrow> Inr r))"

definition target_of_document :: "string \<Rightarrow> json \<Rightarrow> dict option" where
  "target_of_document default_namespace doc =
     (case doc of
        JDict raw \<Rightarrow>
          (let metadata = (case dget raw ''metadata'' of JDict m \<Rightarrow> m | _ \<Rightarrow> []);
               kind = py_strip (str_or raw ''kind'' []);
               name = py_strip (str_or metadata ''name'' [])
           in if kind = [] \<or> name = [] then None
              else (let target =
                      [(''api_version'', JStr (str_or raw ''apiVersion'' ''v1'')),
                       (''kind'', JStr kind),
                       (''name'', JStr name),
                       (''namespace'',
                          JStr (py_strip (str_or metadata ''namespace'' default_namespace)))]
                    in Some (if py_lower kind \<noteq> ''secret'' \<and> is_dict (dget raw ''spec'')
                             then target @ [(''desired_spec'', dget raw ''spec'')] else target)))
      | _ \<Rightarrow> None)"

definition manifest_targets :: "string \<Rightarrow> json list \<Rightarrow> dict list" where
  "manifest_targets ns docs = List.map_filter (target_of_document ns) docs"

definition parse_manifest_targets :: "yaml \<Rightarrow> string \<Rightarrow> string \<Rightarrow> dict list py" where
  "parse_manifest_targets Y content ns =
     bindE (safe_load_all Y content) (\<lambda>docs. Inr (manifest_targets ns docs))"

definition target_namespaces :: "dict list \<Rightarrow> string list" where
  "target_namespaces targets = remdups (map (\<lambda>t. str_or t ''namespace'' ''default'') targets)"

subsection \<open>Operation markers\<close>

definition item_error :: "json \<Rightarrow> py_exc" where
  "item_error v = Exc ''TypeError'' (quoted (type_name v) @ '' object does not support item assignment'')"

text \<open>The two markers written into one document of a manifest.\<close>

definition mark_document :: "string \<Rightarrow> string \<Rightarrow> dict \<Rightarrow> json py" where
  "mark_document op_id desired raw =
     (case dget_def raw ''metadata'' (JDict []) of
        JDict metadata \<Rightarrow>
          (case dget_def metadata ''annotations'' (JDict []) of
             JDict annotations \<Rightarrow>
               Inr (JDict (AList.update ''metadata'' (JDict (AList.update ''annotations''
                 (JDict (AList.update ''skyflo.ai/desired-state-hmac'' (JStr desired)
                   (AList.update ''skyflo.ai/operation-id'' (JStr op_id) annotations)))
                 metadata)) raw))
           | v \<Rightarrow> Inl (item_error v))
      | v \<Rightarrow> Inl (attr_error v ''setdefault''))"

fun mark_documents :: "string \<Rightarrow> string \<Rightarrow> json list \<Rightarrow> json list py" where
  "mark_documents op_id desired [] = Inr []"
| "mark_documents op_id desired (doc # docs) =
     (case doc of
        JDict raw \<Rightarrow>
          bindE (mark_document op_id desired raw) (\<lambda>d.
          bindE (mark_documents op_id desired docs) (\<lambda>ds. Inr (d # ds)))
      | _ \<Rightarrow> mark_documents op_id desired docs)"

definition HELM_MUTATIONS :: "string list" where
  "HELM_MUTATIONS = [''helm_install'', ''helm_install_with_values'', ''helm_upgrade'', ''helm_rollback'']"

definition attach_operation_metadata ::
  "yaml \<Rightarrow> string \<Rightarrow> dict \<Rightarrow> string \<Rightarrow> string \<Rightarrow> dict py" where
  "attach_operation_metadata Y tool args op_id desired =
     (if tool = ''k8s_apply'' then
        bindE (safe_load_all Y (str_or args ''content'' [])) (\<lambda>docs.
        bindE (mark_documents op_id desired docs) (\<lambda>marked.
        Inr (AList.update ''content'' (JStr (safe_dump_all Y marked)) args)))
      else if tool \<in> set HELM_MUTATIONS then
        Inr (AList.update ''skyflo_operation_id'' (JStr op_id) args)
      else Inr args)"

subsection \<open>What redaction guarantees\<close>

text \<open>A value that shows no secret: every entry under a sensitive key is the placeholder.\<close>

fun leak_free :: "json \<Rightarrow> bool" where
  "leak_free (JDict d) =
     list_all (\<lambda>p. (sensitive_key (fst p) \<longrightarrow> snd p = REDACTED) \<and> leak_free (snd p)) d"
| "leak_free (JList xs) = list_all leak_free xs"
| "leak_free _ = True"

lemma leak_free_REDACTED [simp]: "leak_free REDACTED"
  by (simp add: REDACTED_def)

lemma redact_sensitive_key: "sensitive_key k \<Longrightarrow> redact_sensitive k v = REDACTED"
  by (cases v) simp_all

lemma redact_sensitive_leak_free: "leak_free (redact_sensitive k v)"
  by (induction k v rule: redact_sensitive.induct)
     (auto simp: list_all_iff redact_sensitive_key)

lemma not_sensitive_Nil [simp]: "\<not> sensitive_key []"
  by (simp add: sensitive_key_def)

lemma redact_REDACTED [simp]: "redact_sensitive k REDACTED = REDACTED"
  by (simp add: REDACTED_def)

lemma redact_sensitive_idem: "redact_sensitive k (redact_sensitive k v) = redact_sensitive k v"
  by (induction k v rule: redact_sensitive.induct) (auto simp: redact_sensitive_key)

lemma redact_dict_leak_free: "leak_free (JDict (redact_dict d))"
  by (auto simp: redact_dict_def list_all_iff redact_sensitive_leak_free redact_sensitive_key)

lemma redact_dict_keys: "map fst (redact_dict d) = map fst d"
  by (simp add: redact_dict_def)

lemma redact_dict_get:
  "dget_def (redact_dict d) k JNull = (if map_of d k = None then JNull else redact_sensitive k (dget d k))"
proof -
  have "map_of (redact_dict d) k = map_option (redact_sensitive k) (map_of d k)"
    by (induction d) (auto simp: redact_dict_def)
  then show ?thesis by (simp add: dget_def_def split: option.splits)
qed

subsection \<open>The canonical text\<close>

text \<open>No control character survives in the canonical text, so the separator is unambiguous.\<close>

definition printable :: "string \<Rightarrow> bool" where
  "printable s \<longleftrightarrow> (CHR 0x1F) \<notin> set s"

lemma printable_append [simp]: "printable (a @ b) \<longleftrightarrow> printable a \<and> printable b"
  by (simp add: printable_def)

lemma printable_Cons: "printable (c # s) \<longleftrightarrow> c \<noteq> CHR 0x1F \<and> printable s"
  by (auto simp: printable_def)

lemma printable_Nil [simp]: "printable []"
  by (simp add: printable_def)

lemma hex_digit_printable: "n < 16 \<Longrightarrow> hex_digit n \<noteq> CHR 0x1F"
proof -
  have "list_all (\<lambda>n. hex_digit n \<noteq> CHR 0x1F) [0..<16]" by code_simp
  then show "n < 16 \<Longrightarrow> ?thesis" by (auto simp: list_all_iff)
qed

lemma json_char_printable: "printable (json_char c)"
proof (cases "c = CHR 0x1F")
  case True
  show ?thesis unfolding True by code_simp
next
  case False
  have "(of_char c :: nat) < 256" by (rule nat_of_char_less_256)
  then have "of_char c div 16 < (16::nat)" and "of_char c mod 16 < (16::nat)"
    by (simp_all add: less_mult_imp_div_less)
  then show ?thesis
    using False by (auto simp: json_char_def Let_def printable_Cons hex_digit_printable)
qed

lemma json_str_printable: "printable (json_str s)"
  by (induction s) (auto simp: json_str_def printable_Cons json_char_printable)

lemma nat_str_printable: "printable (nat_str n)"
proof (induction n rule: nat_str.induct)
  case (1 n)
  have digit: "digit_chars ! k \<noteq> CHR 0x1F" if "k < 10" for k
  proof -
    have "list_all (\<lambda>n. digit_chars ! n \<noteq> CHR 0x1F) [0..<10]" by code_simp
    then show ?thesis using that by (auto simp: list_all_iff)
  qed
  show ?case
  proof (cases "n < 10")
    case True
    then show ?thesis using digit by (simp add: nat_str.simps[of n] printable_Cons)
  next
    case False
    then have "printable (nat_str (n div 10))" using "1.IH" by simp
    with False digit[of "n mod 10"] show ?thesis
      by (simp add: nat_str.simps[of n] printable_Cons)
  qed
qed

lemma int_str_printable: "printable (int_str i)"
  by (simp add: int_str_def nat_str_printable printable_Cons)

lemma join_str_printable:
  "printable sep \<Longrightarrow> (\<And>s. s \<in> set ss \<Longrightarrow> printable s) \<Longrightarrow> printable (join_str sep ss)"
  by (induction sep ss rule: join_str.induct) auto

lemma canonical_json_printable: "printable (canonical_json v)"
proof (induction v rule: canonical_json.induct)
  case (6 d)
  show ?case
    using "6.IH"
    by (auto simp: printable_Cons json_str_printable intro!: join_str_printable)
qed (auto simp: printable_Cons json_str_printable int_str_printable intro!: join_str_printable)

lemma split_join:
  "ss \<noteq> [] \<Longrightarrow> (\<And>s. s \<in> set ss \<Longrightarrow> c \<notin> set s) \<Longrightarrow> split_char c (join_str [c] ss) = ss"
  by (induction "[c]" ss rule: join_str.induct) (auto simp: split_char_no_sep split_char_append)

lemma fingerprint_payload_split:
  "vs \<noteq> [] \<Longrightarrow> split_char (CHR 0x1F) (fingerprint_payload vs) = map canonical_json vs"
  unfolding fingerprint_payload_def
  by (rule split_join) (auto simp: canonical_json_printable printable_def[symmetric])

lemma sort_key_unique:
  "distinct (map fst d) \<Longrightarrow> mset d = mset d' \<Longrightarrow> sort_key fst d = sort_key fst d'"
  by (rule sort_key_eq_sort_key) (simp_all add: distinct_map)

lemma canonical_json_order:
  "distinct (map fst d) \<Longrightarrow> mset d = mset d' \<Longrightarrow> canonical_json (JDict d) = canonical_json (JDict d')"
  using sort_key_unique[of d d'] by simp

subsection \<open>Markers\<close>

definition annotations_of :: "json \<Rightarrow> dict" where
  "annotations_of doc =
     (case doc of
        JDict raw \<Rightarrow> (case dget raw ''metadata'' of
            JDict m \<Rightarrow> (case dget m ''annotations'' of JDict a \<Rightarrow> a | _ \<Rightarrow> [])
          | _ \<Rightarrow> [])
      | _ \<Rightarrow> [])"

lemma mark_document_markers:
  assumes "mark_document op_id desired raw = Inr doc"
  shows "dget (annotations_of doc) ''skyflo.ai/operation-id'' = JStr op_id"
    and "dget (annotations_of doc) ''skyflo.ai/desired-state-hmac'' = JStr desired"
  using assms
  by (auto simp: mark_document_def annotations_of_def dict_simps split: json.splits)

lemma mark_document_frame:
  assumes "mark_document op_id desired raw = Inr (JDict out)" and "k \<noteq> ''metadata''"
  shows "dget out k = dget raw k"
  using assms by (auto simp: mark_document_def dict_simps split: json.splits)

lemma mark_documents_all:
  "mark_documents op_id desired docs = Inr out \<Longrightarrow> doc \<in> set out \<Longrightarrow>
     \<exists>raw. JDict raw \<in> set docs \<and> mark_document op_id desired raw = Inr doc"
proof (induction docs arbitrary: out)
  case Nil
  then show ?case by simp
next
  case (Cons v docs)
  show ?case
  proof (cases v)
    case (JDict raw)
    with Cons.prems obtain d ds where
      "mark_document op_id desired raw = Inr d" "mark_documents op_id desired docs = Inr ds"
      "out = d # ds"
      by (auto simp: bindE_Inr_iff)
    then show ?thesis using Cons.IH[of ds] Cons.prems(2) JDict by auto
  qed (use Cons in auto)
qed

end
