(* ===== verification/Policy.thy ===== *)
theory Policy
  imports MutationUtils Config
begin

text \<open>
  \<open>services/mutation_policy.py\<close>: the fail-closed decision whether a user may run a mutation
  with the given arguments. Approval is not an input: it cannot override a denial.
\<close>

record policy_decision =
  allowed :: bool
  rule :: string
  reason :: string
  risk_level :: string
  targets :: "dict list"

definition FORBIDDEN_KINDS :: "string list" where
  "FORBIDDEN_KINDS = [''namespace'', ''customresourcedefinition'', ''clusterrole'',
     ''clusterrolebinding'', ''role'', ''rolebinding'', ''validatingwebhookconfiguration'',
     ''mutatingwebhookconfiguration'']"

definition CLUSTER_MUTATION_TOOLS :: "string list" where
  "CLUSTER_MUTATION_TOOLS = [''k8s_cordon'', ''k8s_uncordon'', ''k8s_drain'']"

definition allowed_namespaces :: "settings \<Rightarrow> string list" where
  "allowed_namespaces S =
     filter (\<lambda>n. n \<noteq> []) (map py_strip (split_char (CHR '','') (MUTATION_ALLOWED_NAMESPACES S)))"

definition deny :: "string \<Rightarrow> string \<Rightarrow> string \<Rightarrow> dict list \<Rightarrow> policy_decision" where
  "deny rl why risk ts =
     \<lparr>allowed = False, rule = rl, reason = why, risk_level = risk, targets = ts\<rparr>"

definition exc_text :: "py_exc \<Rightarrow> string" where
  "exc_text e = exc_msg e"

definition str_opt :: "string option \<Rightarrow> string" where
  "str_opt v = (case v of None \<Rightarrow> [] | Some s \<Rightarrow> s)"

text \<open>The kinds of the manifest the policy forbids, as spelled there, without duplicates.\<close>

definition forbidden_kinds :: "dict list \<Rightarrow> string list" where
  "forbidden_kinds ts =
     sort (remdups (map (\<lambda>t. py_str (dget t ''kind''))
       (filter (\<lambda>t. py_lower (py_str (dget_def t ''kind'' (JStr []))) \<in> set FORBIDDEN_KINDS) ts)))"

text \<open>The first half of \<open>evaluate\<close>: the targets of the manifest, or the denial they lead to.\<close>

definition manifest_check :: "yaml \<Rightarrow> string \<Rightarrow> dict \<Rightarrow> policy_decision + dict list" where
  "manifest_check Y tool args =
     (if tool \<noteq> ''k8s_apply'' then Inr []
      else case parse_manifest_targets Y (str_or args ''content'' [])
                  (str_or args ''namespace'' ''default'') of
        Inl e \<Rightarrow> Inl (deny ''manifest_parse_failed''
          (''Mutation denied: manifest could not be parsed safely ('' @ exc_text e @ '').'') ''high'' [])
      | Inr ts \<Rightarrow>
          if ts = [] then Inl (deny ''manifest_has_no_targets''
            ''Mutation denied: manifest contains no identifiable Kubernetes resources.'' ''high'' [])
          else if forbidden_kinds ts \<noteq> [] then Inl (deny ''cluster_or_rbac_resource_denied''
            (''Mutation denied by policy for resource kinds: '' @ join_str '', '' (forbidden_kinds ts))
            ''critical'' ts)
          else Inr ts)"

definition resource_type_of :: "dict \<Rightarrow> string" where
  "resource_type_of args =
     filter (\<lambda>c. c \<noteq> CHR ''-'') (py_lower (str_or args ''resource_type'' []))"

definition mutation_namespaces :: "dict \<Rightarrow> dict list \<Rightarrow> string list" where
  "mutation_namespaces args ts =
     (if ts \<noteq> [] then target_namespaces ts else [str_or args ''namespace'' ''default''])"

definition disallowed_namespaces :: "settings \<Rightarrow> dict \<Rightarrow> dict list \<Rightarrow> string list" where
  "disallowed_namespaces S args ts =
     sort (filter (\<lambda>n. n \<notin> set (allowed_namespaces S)) (mutation_namespaces args ts))"

text \<open>The second half: resource type, production, namespaces, and the risk of what is allowed.\<close>

definition scope_check ::
  "settings \<Rightarrow> string \<Rightarrow> dict \<Rightarrow> string \<Rightarrow> dict list \<Rightarrow> policy_decision" where
  "scope_check S tool args environment ts =
     (if rstrip_char (CHR ''s'') (resource_type_of args) \<in> set FORBIDDEN_KINDS then
        deny ''cluster_or_rbac_resource_denied''
          (''Mutation denied by policy for resource type '' @ quoted (resource_type_of args) @ ''.'')
          ''critical'' []
      else if tool \<in> set CLUSTER_MUTATION_TOOLS \<and> environment = ''production'' then
        deny ''production_cluster_mutation_denied''
          (''Mutation tool '' @ quoted tool @ '' is disabled in production.'') ''critical'' []
      else if disallowed_namespaces S args ts \<noteq> [] then
        deny ''namespace_not_allowed''
          (''Mutation denied outside namespace allowlist: ''
            @ join_str '', '' (disallowed_namespaces S args ts)) ''high'' ts
      else
        \<lparr>allowed = True, rule = ''admin_allowed_namespace'',
         reason = ''Authenticated admin mutation allowed in '' @ environment @ '' for namespaces: ''
           @ join_str '', '' (sort (mutation_namespaces args ts)),
         risk_level = (if starts_with tool ''helm_'' \<or> contains_str tool ''delete''
                       then ''high'' else ''medium''),
         targets = ts\<rparr>)"

definition evaluate_policy ::
  "settings \<Rightarrow> yaml \<Rightarrow> string \<Rightarrow> dict \<Rightarrow> string option \<Rightarrow> string option \<Rightarrow> string option
     \<Rightarrow> policy_decision" where
  "evaluate_policy S Y tool args user_id user_role env =
     (let environment = py_lower (py_strip
            (if str_opt env \<noteq> [] then str_opt env else SKYFLO_ENVIRONMENT S));
          role = py_lower (py_strip (str_opt user_role))
      in if str_opt user_id = [] then
           deny ''authenticated_mutation_required''
             ''Mutation denied: an authenticated user is required.'' ''high'' []
         else if role \<notin> {''admin'', ''superuser''} then
           deny ''admin_mutation_required''
             (''Mutation denied: role '' @ quoted (if role = [] then ''unknown'' else role)
               @ '' is not allowed to mutate infrastructure.'') ''high'' []
         else case manifest_check Y tool args of
           Inl d \<Rightarrow> d
         | Inr ts \<Rightarrow> scope_check S tool args environment ts)"

subsection \<open>What an allowed decision implies\<close>

lemma deny_not_allowed [simp]: "\<not> allowed (deny a b c d)"
  by (simp add: deny_def)

lemma manifest_check_Inl: "manifest_check Y tool args = Inl d \<Longrightarrow> \<not> allowed d"
  by (auto simp: manifest_check_def split: if_splits sum.splits)

lemma evaluate_allowed_cases:
  assumes "allowed (evaluate_policy S Y tool args uid role env)"
  obtains ts e where "manifest_check Y tool args = Inr ts"
    and "str_opt uid \<noteq> []" and "py_lower (py_strip (str_opt role)) \<in> {''admin'', ''superuser''}"
    and "evaluate_policy S Y tool args uid role env = scope_check S tool args e ts"
    and "allowed (scope_check S tool args e ts)"
  using assms
  by (auto simp: evaluate_policy_def Let_def dest: manifest_check_Inl split: if_splits sum.splits)

lemma manifest_check_Inr:
  assumes "manifest_check Y ''k8s_apply'' args = Inr ts"
  shows "parse_manifest_targets Y (str_or args ''content'' []) (str_or args ''namespace'' ''default'') = Inr ts"
    and "ts \<noteq> []" and "forbidden_kinds ts = []"
  using assms by (auto simp: manifest_check_def split: if_splits sum.splits)

lemma forbidden_kinds_empty:
  "forbidden_kinds ts = [] \<longleftrightarrow>
     (\<forall>t\<in>set ts. py_lower (py_str (dget_def t ''kind'' (JStr []))) \<notin> set FORBIDDEN_KINDS)"
  by (simp add: forbidden_kinds_def filter_empty_conv)

lemma scope_check_allowed:
  "allowed (scope_check S tool args env ts) \<longleftrightarrow>
     rstrip_char (CHR ''s'') (resource_type_of args) \<notin> set FORBIDDEN_KINDS
     \<and> \<not> (tool \<in> set CLUSTER_MUTATION_TOOLS \<and> env = ''production'')
     \<and> set (mutation_namespaces args ts) \<subseteq> set (allowed_namespaces S)"
  by (auto simp: scope_check_def disallowed_namespaces_def filter_empty_conv)

lemma scope_check_targets:
  "allowed (scope_check S tool args env ts) \<Longrightarrow> targets (scope_check S tool args env ts) = ts"
  by (auto simp: scope_check_def split: if_splits)

end
