(* ===== verification/Journal.thy ===== *)
theory Journal
  imports Policy
begin

text \<open>
  The durable mutation journal: the row of \<open>models/mutation.py\<close> and the service of
  \<open>services/mutation_journal.py\<close> that owns every transition of it. The table is a list of rows
  in insertion order; every method runs its reads and writes in one transaction under a row
  lock, so it is one function from the table to its result and the new table. Clock readings
  are microseconds; a method that reads the clock twice takes two of them.
\<close>

subsection \<open>Rows\<close>

datatype execution_status =
  PREPARED | EXECUTING | REPORTED_SUCCESS | EXEC_FAILED | UNKNOWN | CANCELLED

datatype verification_status =
  NOT_REQUIRED | PENDING | VERIFYING | PASSED | FAILED | INCONCLUSIVE | NEEDS_REVIEW

fun exec_value :: "execution_status \<Rightarrow> string" where
  "exec_value PREPARED = ''prepared''"
| "exec_value EXECUTING = ''executing''"
| "exec_value REPORTED_SUCCESS = ''reported_success''"
| "exec_value EXEC_FAILED = ''failed''"
| "exec_value UNKNOWN = ''unknown''"
| "exec_value CANCELLED = ''cancelled''"

fun ver_value :: "verification_status \<Rightarrow> string" where
  "ver_value NOT_REQUIRED = ''not_required''"
| "ver_value PENDING = ''pending''"
| "ver_value VERIFYING = ''verifying''"
| "ver_value PASSED = ''passed''"
| "ver_value FAILED = ''failed''"
| "ver_value INCONCLUSIVE = ''inconclusive''"
| "ver_value NEEDS_REVIEW = ''needs_review''"

datatype approval_status = AP_NOT_REQUIRED | AP_PENDING | AP_APPROVED | AP_DENIED
datatype policy_outcome = ALLOW | DENY

record mutation_operation =
  op_id :: string
  idempotency_key :: string
  workspace_id :: json
  conversation_id :: json
  op_run_id :: string
  op_call_id :: string
  user_id :: json
  user_role :: json
  op_tool :: string
  tool_category :: string
  target_identity :: json
  redacted_args :: dict
  args_hmac :: string
  desired_state_hmac :: string
  policy_decision :: policy_outcome
  policy_reason :: string
  approval_status :: approval_status
  approved_by :: json
  approved_at :: "int option"
  approval_reason :: json
  execution_status :: execution_status
  verification_status :: verification_status
  attempt_count :: int
  verification_attempt_count :: int
  external_reference :: json
  execution_result :: json
  execution_error :: json
  verification_plan :: dict
  verification_result :: json
  lease_owner :: "string option"
  lease_expires_at :: "int option"
  verification_lease_owner :: "string option"
  verification_lease_expires_at :: "int option"
  started_at :: "int option"
  finished_at :: "int option"
  created_at :: int
  updated_at :: int
  version :: int

type_synonym journal = "mutation_operation list"

definition invalid_transition :: "string \<Rightarrow> py_exc" where
  "invalid_transition msg = Exc ''InvalidMutationTransition'' msg"

definition does_not_exist :: py_exc where
  "does_not_exist = Exc ''DoesNotExist'' ''Object does not exist''"

definition seconds :: "int \<Rightarrow> int" where
  "seconds s = s * 1000000"

definition find_row :: "string \<Rightarrow> journal \<Rightarrow> mutation_operation option" where
  "find_row oid J = find (\<lambda>r. op_id r = oid) J"

definition save_row :: "mutation_operation \<Rightarrow> journal \<Rightarrow> journal" where
  "save_row r J = map (\<lambda>x. if op_id x = op_id r then r else x) J"

text \<open>\<open>async with in_transaction(): row = filter(id=...).select_for_update().get()\<close>\<close>

definition with_row ::
  "string \<Rightarrow> journal \<Rightarrow> (mutation_operation \<Rightarrow> 'a py \<times> journal) \<Rightarrow> 'a py \<times> journal" where
  "with_row oid J f = (case find_row oid J of None \<Rightarrow> (Inl does_not_exist, J) | Some r \<Rightarrow> f r)"

text \<open>\<open>QuerySet.update\<close>: every row that satisfies the filter, and how many there were.\<close>

definition update_where ::
  "(mutation_operation \<Rightarrow> bool) \<Rightarrow> (mutation_operation \<Rightarrow> mutation_operation) \<Rightarrow> journal
     \<Rightarrow> nat \<times> journal" where
  "update_where P f J = (length (filter P J), map (\<lambda>r. if P r then f r else r) J)"

definition bump :: "int \<Rightarrow> mutation_operation \<Rightarrow> mutation_operation" where
  "bump now r = r\<lparr>version := version r + 1, updated_at := now\<rparr>"

subsection \<open>Budget\<close>

definition verification_budget_exhausted :: "settings \<Rightarrow> mutation_operation \<Rightarrow> int \<Rightarrow> bool" where
  "verification_budget_exhausted S r now \<longleftrightarrow>
     MUTATION_MAX_VERIFICATION_ATTEMPTS S \<le> verification_attempt_count r
     \<or> seconds (MUTATION_MAX_VERIFICATION_AGE_SECONDS S) \<le> now - created_at r"

text \<open>\<open>int(timedelta.total_seconds())\<close>: whole seconds, towards zero.\<close>

definition trunc_seconds :: "int \<Rightarrow> int" where
  "trunc_seconds us = (if 0 \<le> us then us div 1000000 else - ((- us) div 1000000))"

subsection \<open>Preparing an operation\<close>

definition same_intent :: "string \<Rightarrow> string \<Rightarrow> mutation_operation \<Rightarrow> bool" where
  "same_intent tool ahmac r \<longleftrightarrow> op_tool r = tool \<and> args_hmac r = ahmac"

definition reuse_row ::
  "string \<Rightarrow> string \<Rightarrow> journal \<Rightarrow> mutation_operation \<Rightarrow> (mutation_operation \<times> bool) py \<times> journal" where
  "reuse_row tool ahmac J r =
     (if \<not> same_intent tool ahmac r
      then (Inl (invalid_transition ''Idempotency key collision with different mutation intent''), J)
      else (Inr (r, False), J))"

definition idempotency_key_of ::
  "(string \<Rightarrow> string \<Rightarrow> string) \<Rightarrow> settings \<Rightarrow> dict \<Rightarrow> string \<Rightarrow> string \<Rightarrow> dict \<Rightarrow> string" where
  "idempotency_key_of hmac S context call_id tool args =
     py_str (por (dget context ''idempotency_key'')
       (JStr (hmac_fingerprint hmac (INTERNAL_API_KEY S)
          [dget context ''conversation_id'', JStr call_id, JStr tool, JDict args])))"

definition intent_hmac ::
  "(string \<Rightarrow> string \<Rightarrow> string) \<Rightarrow> settings \<Rightarrow> string \<Rightarrow> dict \<Rightarrow> string" where
  "intent_hmac hmac S tool args =
     hmac_fingerprint hmac (INTERNAL_API_KEY S) [JStr tool, JDict args]"

definition new_row ::
  "string \<Rightarrow> string \<Rightarrow> string \<Rightarrow> string \<Rightarrow> string \<Rightarrow> string \<Rightarrow> dict \<Rightarrow> dict \<Rightarrow> json
     \<Rightarrow> policy_decision \<Rightarrow> dict \<Rightarrow> int \<Rightarrow> mutation_operation" where
  "new_row oid key run call tool ahmac context rargs approval policy plan now =
     \<lparr>op_id = oid, idempotency_key = key,
      workspace_id = dget context ''workspace_id'',
      conversation_id = dget context ''conversation_id'',
      op_run_id = run, op_call_id = call,
      user_id = dget context ''user_id'', user_role = dget context ''user_role'',
      op_tool = tool, tool_category = fst (split_once (CHR ''_'') tool),
      target_identity = JDict [(''targets'', JList (map JDict (targets policy)))],
      redacted_args = rargs, args_hmac = ahmac, desired_state_hmac = ahmac,
      policy_decision = ALLOW, policy_reason = reason policy,
      approval_status = AP_APPROVED, approved_by = dget context ''user_id'',
      approved_at = Some now, approval_reason = approval,
      execution_status = PREPARED,
      verification_status = (if truthy (dget plan ''supported'') then PENDING else NOT_REQUIRED),
      attempt_count = 0, verification_attempt_count = 0,
      external_reference = JDict [], execution_result = JDict [], execution_error = JDict [],
      verification_plan = plan, verification_result = JDict [],
      lease_owner = None, lease_expires_at = None,
      verification_lease_owner = None, verification_lease_expires_at = None,
      started_at = None, finished_at = None,
      created_at = now, updated_at = now, version = 1\<rparr>"

text \<open>
  \<open>MutationOperation.create\<close>, whose unique columns are the primary key and the idempotency
  key. On an \<open>IntegrityError\<close> the row another worker inserted since the lookup is reused.
\<close>

definition create_row ::
  "string \<Rightarrow> string \<Rightarrow> mutation_operation \<Rightarrow> journal \<Rightarrow> (mutation_operation \<times> bool) py \<times> journal" where
  "create_row tool ahmac r J =
     (if list_ex (\<lambda>x. op_id x = op_id r \<or> idempotency_key x = idempotency_key r) J then
        (case find (\<lambda>x. idempotency_key x = idempotency_key r) J of
           None \<Rightarrow> (Inl does_not_exist, J)
         | Some x \<Rightarrow> reuse_row tool ahmac J x)
      else (Inr (r, True), J @ [r]))"

text \<open>
  \<open>prepare\<close>: the table is read (\<open>J\<close>) before the row is created (in \<open>J'\<close>, the table by then).
  \<open>uuid\<close> is the constructor \<open>uuid.UUID\<close> composed with \<open>str\<close>.
\<close>

definition prepare ::
  "(string \<Rightarrow> string \<Rightarrow> string) \<Rightarrow> (string \<Rightarrow> string py) \<Rightarrow> settings \<Rightarrow> yaml
     \<Rightarrow> string \<Rightarrow> string \<Rightarrow> string \<Rightarrow> string \<Rightarrow> dict \<Rightarrow> dict \<Rightarrow> policy_decision \<Rightarrow> dict \<Rightarrow> int
     \<Rightarrow> journal \<Rightarrow> journal \<Rightarrow> (mutation_operation \<times> bool) py \<times> journal" where
  "prepare hmac uuid S Y oid run call tool args context policy plan now J J' =
     (case uuid oid of Inl e \<Rightarrow> (Inl e, J') | Inr op_uuid \<Rightarrow>
      (let key = idempotency_key_of hmac S context call tool args;
           ahmac = intent_hmac hmac S tool args
       in case find (\<lambda>r. op_id r = op_uuid \<or> idempotency_key r = key) J of
            Some existing \<Rightarrow> reuse_row tool ahmac J' existing
          | None \<Rightarrow>
              (case redact_tool_args Y tool args of Inl e \<Rightarrow> (Inl e, J') | Inr rargs \<Rightarrow>
               (case jget (por (dget context ''approval_reasons'') (JDict [])) call of
                  Inl e \<Rightarrow> (Inl e, J')
                | Inr approval \<Rightarrow>
                    create_row tool ahmac
                      (new_row op_uuid key run call tool ahmac context rargs approval policy plan now)
                      J'))))"

subsection \<open>Execution\<close>

definition executing_row ::
  "settings \<Rightarrow> string \<Rightarrow> int \<Rightarrow> int \<Rightarrow> mutation_operation \<Rightarrow> mutation_operation" where
  "executing_row S owner t1 t2 r =
     bump t2 (r\<lparr>execution_status := EXECUTING,
       attempt_count := attempt_count r + 1,
       started_at := (case started_at r of None \<Rightarrow> Some t1 | Some t \<Rightarrow> Some t),
       lease_owner := Some owner,
       lease_expires_at := Some (t2 + seconds (MUTATION_LEASE_SECONDS S))\<rparr>)"

definition mark_executing ::
  "settings \<Rightarrow> string \<Rightarrow> string \<Rightarrow> int \<Rightarrow> int \<Rightarrow> journal \<Rightarrow> mutation_operation py \<times> journal" where
  "mark_executing S oid owner t1 t2 J =
     with_row oid J (\<lambda>r.
       if execution_status r \<noteq> PREPARED then
         (Inl (invalid_transition (''Cannot execute operation '' @ oid @ '' from ''
            @ exec_value (execution_status r))), J)
       else (Inr (executing_row S owner t1 t2 r), save_row (executing_row S owner t1 t2 r) J))"

definition outcome_row ::
  "execution_status \<Rightarrow> dict \<Rightarrow> dict \<Rightarrow> int \<Rightarrow> mutation_operation \<Rightarrow> mutation_operation" where
  "outcome_row status result error now r =
     (let r1 = r\<lparr>execution_status := status,
                 execution_result := JDict (redact_dict result),
                 execution_error := JDict (redact_dict error),
                 lease_owner := None, lease_expires_at := None,
                 finished_at := Some now\<rparr>
      in bump now (if status \<in> {EXEC_FAILED, CANCELLED} then
                     r1\<lparr>verification_status := NOT_REQUIRED,
                        verification_lease_owner := None,
                        verification_lease_expires_at := None\<rparr>
                   else r1))"

definition OUTCOMES :: "execution_status set" where
  "OUTCOMES = {REPORTED_SUCCESS, EXEC_FAILED, UNKNOWN, CANCELLED}"

definition record_execution ::
  "string \<Rightarrow> execution_status \<Rightarrow> dict \<Rightarrow> dict \<Rightarrow> int \<Rightarrow> journal \<Rightarrow> mutation_operation py \<times> journal" where
  "record_execution oid status result error now J =
     (if status \<notin> OUTCOMES then
        (Inl (invalid_transition (''Invalid execution outcome: '' @ exec_value status)), J)
      else with_row oid J (\<lambda>r.
        if execution_status r \<noteq> EXECUTING then
          (Inl (invalid_transition (''Cannot record outcome for '' @ oid @ '' from ''
             @ exec_value (execution_status r))), J)
        else (Inr (outcome_row status result error now r),
              save_row (outcome_row status result error now r) J)))"

subsection \<open>Verification\<close>

definition VERIFIABLE :: "execution_status set" where
  "VERIFIABLE = {REPORTED_SUCCESS, UNKNOWN}"

definition TERMINAL :: "verification_status set" where
  "TERMINAL = {PASSED, FAILED, NOT_REQUIRED, NEEDS_REVIEW}"

definition verification_lease_seconds :: "settings \<Rightarrow> int" where
  "verification_lease_seconds S =
     max (MUTATION_VERIFICATION_LEASE_SECONDS S)
         (trunc_seconds (seconds (MUTATION_VERIFICATION_TIMEOUT_SECONDS S)
                         + MUTATION_VERIFICATION_INTERVAL_US S + seconds 5))"

definition lease_active :: "mutation_operation \<Rightarrow> int \<Rightarrow> bool" where
  "lease_active r now \<longleftrightarrow>
     verification_status r = VERIFYING
     \<and> (case verification_lease_expires_at r of None \<Rightarrow> False | Some t \<Rightarrow> now < t)"

text \<open>The row after the budget is exhausted, and the row a successful claim leaves.\<close>

definition exhaust_row :: "mutation_operation \<Rightarrow> int \<Rightarrow> int \<Rightarrow> mutation_operation" where
  "exhaust_row r now saved_at =
     bump saved_at (r\<lparr>verification_status := NEEDS_REVIEW,
       verification_result := JDict
         [(''reason'', JStr ''verification_budget_exhausted''),
          (''verification_attempt_count'', JInt (verification_attempt_count r)),
          (''age_seconds'', JInt (trunc_seconds (now - created_at r))),
          (''manual_review_required'', JBool True)],
       verification_lease_owner := None, verification_lease_expires_at := None\<rparr>)"

definition claim_row ::
  "settings \<Rightarrow> string \<Rightarrow> int \<Rightarrow> int \<Rightarrow> mutation_operation \<Rightarrow> mutation_operation" where
  "claim_row S owner now saved_at r =
     bump saved_at (r\<lparr>verification_status := VERIFYING,
       verification_attempt_count := verification_attempt_count r + 1,
       verification_lease_owner := Some owner,
       verification_lease_expires_at := Some (now + seconds (verification_lease_seconds S))\<rparr>)"

definition claim_verification ::
  "settings \<Rightarrow> string \<Rightarrow> string \<Rightarrow> int \<Rightarrow> int \<Rightarrow> journal
     \<Rightarrow> (mutation_operation \<times> bool) py \<times> journal" where
  "claim_verification S oid owner now saved_at J =
     with_row oid J (\<lambda>r.
       if execution_status r \<notin> VERIFIABLE then
         (Inl (invalid_transition (''Cannot verify operation '' @ oid @ '' from ''
            @ exec_value (execution_status r))), J)
       else if verification_status r \<in> TERMINAL then (Inr (r, False), J)
       else if verification_budget_exhausted S r now then
         (Inr (exhaust_row r now saved_at, False), save_row (exhaust_row r now saved_at) J)
       else if lease_active r now \<and> verification_lease_owner r \<noteq> Some owner then
         (Inr (r, False), J)
       else (Inr (claim_row S owner now saved_at r, True),
             save_row (claim_row S owner now saved_at r) J))"

definition VERDICTS :: "verification_status set" where
  "VERDICTS = {PASSED, FAILED, INCONCLUSIVE}"

definition verdict_row ::
  "verification_status \<Rightarrow> dict \<Rightarrow> json \<Rightarrow> int \<Rightarrow> mutation_operation \<Rightarrow> mutation_operation" where
  "verdict_row status result ext now r =
     bump now (r\<lparr>verification_status := status,
       verification_result := JDict (redact_dict result),
       external_reference := (if truthy ext then redact_sensitive [] ext else external_reference r),
       verification_lease_owner := None, verification_lease_expires_at := None\<rparr>)"

definition record_verification ::
  "string \<Rightarrow> string \<Rightarrow> verification_status \<Rightarrow> dict \<Rightarrow> json \<Rightarrow> int \<Rightarrow> journal
     \<Rightarrow> mutation_operation py \<times> journal" where
  "record_verification oid owner status result ext now J =
     (if status \<notin> VERDICTS then
        (Inl (invalid_transition (''Invalid verification outcome: '' @ ver_value status)), J)
      else with_row oid J (\<lambda>r.
        if verification_status r \<noteq> VERIFYING then
          (Inl (invalid_transition (''Cannot record verification for '' @ oid @ '' from ''
             @ ver_value (verification_status r))), J)
        else if verification_lease_owner r \<noteq> Some owner then
          (Inl (invalid_transition (''Verification lease for '' @ oid
             @ '' is owned by another worker'')), J)
        else (Inr (verdict_row status result ext now r),
              save_row (verdict_row status result ext now r) J)))"

definition release_row :: "dict \<Rightarrow> int \<Rightarrow> mutation_operation \<Rightarrow> mutation_operation" where
  "release_row result now r =
     bump now (r\<lparr>verification_status := INCONCLUSIVE, verification_result := JDict result,
       verification_lease_owner := None, verification_lease_expires_at := None\<rparr>)"

definition abandon_verification ::
  "string \<Rightarrow> string \<Rightarrow> string \<Rightarrow> int \<Rightarrow> journal \<Rightarrow> bool py \<times> journal" where
  "abandon_verification oid owner why now J =
     with_row oid J (\<lambda>r.
       if verification_status r \<noteq> VERIFYING \<or> verification_lease_owner r \<noteq> Some owner then
         (Inr False, J)
       else (Inr True, save_row (release_row (redact_dict [(''reason'', JStr why)]) now r) J))"

subsection \<open>Recovery\<close>

definition expired :: "int option \<Rightarrow> int \<Rightarrow> bool" where
  "expired t now \<longleftrightarrow> (case t of None \<Rightarrow> True | Some e \<Rightarrow> e < now)"

definition stale_execution :: "int \<Rightarrow> mutation_operation \<Rightarrow> bool" where
  "stale_execution now r \<longleftrightarrow> execution_status r = EXECUTING \<and> expired (lease_expires_at r) now"

definition abandoned_row :: "int \<Rightarrow> mutation_operation \<Rightarrow> mutation_operation" where
  "abandoned_row now r =
     bump now (r\<lparr>execution_status := UNKNOWN, verification_status := PENDING,
       lease_owner := None, lease_expires_at := None,
       verification_lease_owner := None, verification_lease_expires_at := None\<rparr>)"

definition recover_stale_executions :: "int \<Rightarrow> journal \<Rightarrow> nat \<times> journal" where
  "recover_stale_executions now =
     update_where (stale_execution now)
       (abandoned_row now)"

definition stale_verification :: "int \<Rightarrow> mutation_operation \<Rightarrow> bool" where
  "stale_verification now r \<longleftrightarrow>
     verification_status r = VERIFYING \<and> expired (verification_lease_expires_at r) now"

definition recover_stale_verifications :: "int \<Rightarrow> journal \<Rightarrow> nat \<times> journal" where
  "recover_stale_verifications now =
     update_where (stale_verification now)
       (release_row [(''reason'', JStr ''verification_lease_expired'')] now)"

definition cancel_row :: "int \<Rightarrow> mutation_operation \<Rightarrow> mutation_operation" where
  "cancel_row now r =
     bump now (r\<lparr>execution_status := CANCELLED, verification_status := NOT_REQUIRED,
       execution_error := JDict [(''error_type'', JStr ''cancelled_before_execution'')],
       finished_at := Some now, lease_owner := None, lease_expires_at := None,
       verification_lease_owner := None, verification_lease_expires_at := None\<rparr>)"

definition interrupt_row :: "int \<Rightarrow> mutation_operation \<Rightarrow> mutation_operation" where
  "interrupt_row now r =
     bump now (r\<lparr>execution_status := UNKNOWN, verification_status := PENDING,
       execution_error := JDict [(''error_type'', JStr ''cancelled''), (''ambiguous_outcome'', JBool True)],
       finished_at := Some now, lease_owner := None, lease_expires_at := None,
       verification_lease_owner := None, verification_lease_expires_at := None\<rparr>)"

text \<open>
  The stop of a run: one statement for the operations that were only prepared, then another for those that
  were executing. \<open>converge_stopped_run\<close> runs them one after the other; each is a step of its own in theory
  JournalLife, so other methods may come between them.
\<close>

definition cancel_prepared :: "string \<Rightarrow> int \<Rightarrow> journal \<Rightarrow> nat \<times> journal" where
  "cancel_prepared run now =
     update_where (\<lambda>r. op_run_id r = run \<and> execution_status r = PREPARED) (cancel_row now)"

definition interrupt_executing :: "string \<Rightarrow> int \<Rightarrow> journal \<Rightarrow> nat \<times> journal" where
  "interrupt_executing run now =
     update_where (\<lambda>r. op_run_id r = run \<and> execution_status r = EXECUTING) (interrupt_row now)"

definition converge_stopped_run :: "string \<Rightarrow> int \<Rightarrow> journal \<Rightarrow> (nat \<times> nat) \<times> journal" where
  "converge_stopped_run run now J =
     (let (cancelled, J1) = cancel_prepared run now J;
          (unknown, J2) = interrupt_executing run now J1
      in ((cancelled, unknown), J2))"

definition public_summary :: "mutation_operation \<Rightarrow> dict" where
  "public_summary r =
     [(''operation_id'', JStr (op_id r)),
      (''tool'', JStr (op_tool r)),
      (''execution_status'', JStr (exec_value (execution_status r))),
      (''verification_status'', JStr (ver_value (verification_status r))),
      (''attempt_count'', JInt (attempt_count r)),
      (''verification_attempt_count'', JInt (verification_attempt_count r))]"

end
