(* ===== verification/Tables.thy ===== *)
theory Tables
  imports PyBase
begin

text \<open>
  A table of rows with a key column, as the services keep them: a method replaces the row it
  locked, or updates every row a filter selects. The locale states what a component promises
  of its row transitions; the client gets the invariant of the whole table and of every run.
\<close>

locale keyed_table =
  fixes key :: "'r \<Rightarrow> 'k"
    and step :: "'r \<Rightarrow> 'r \<Rightarrow> bool"
    and inv :: "'r \<Rightarrow> bool"
  assumes step_refl: "step r r"
    and step_key: "step r r' \<Longrightarrow> key r' = key r"
    and step_inv: "inv r \<Longrightarrow> step r r' \<Longrightarrow> inv r'"
begin

lemma table_refl: "list_all2 step J J"
  by (simp add: list_all2_refl step_refl)

lemma table_keys: "list_all2 step J J' \<Longrightarrow> map key J' = map key J"
  by (induction rule: list_all2_induct) (auto simp: step_key)

lemma table_inv: "list_all2 step J J' \<Longrightarrow> list_all inv J \<Longrightarrow> list_all inv J'"
  by (induction rule: list_all2_induct) (auto intro: step_inv)

lemma table_update:
  assumes "\<And>r. r \<in> set J \<Longrightarrow> P r \<Longrightarrow> step r (f r)"
  shows "list_all2 step J (map (\<lambda>r. if P r then f r else r) J)"
  using assms by (induction J) (auto simp: step_refl)

lemma table_save:
  assumes "distinct (map key J)" and "find (\<lambda>r. key r = k) J = Some r" and "step r r'"
  shows "list_all2 step J (map (\<lambda>x. if key x = key r' then r' else x) J)"
proof -
  have r: "r \<in> set J" using assms(2) by (auto simp: find_Some_iff)
  have "x = r" if "x \<in> set J" "key x = key r'" for x
    using that assms(1,3) r by (auto simp: step_key distinct_map dest: inj_onD)
  then show ?thesis using assms(3) by (intro table_update) auto
qed

lemma find_after:
  "list_all2 step J J' \<Longrightarrow> find (\<lambda>r. key r = k) J = Some r \<Longrightarrow>
     \<exists>r'. find (\<lambda>r. key r = k) (J' @ K) = Some r' \<and> step r r'"
  by (induction rule: list_all2_induct) (auto simp: step_key)

end

end
