(* ===== verification/JournalLife.thy ===== *)
theory JournalLife
  imports Journal Tables
begin

text \<open>
  The life of a journal row: the transitions the service performs on one row, the invariant
  they keep, the abstract life cycle they refine, and the runs of the whole table under any
  interleaving of its methods.
\<close>

subsection \<open>Transitions of one row\<close>

inductive row_step :: "settings \<Rightarrow> mutation_operation \<Rightarrow> mutation_operation \<Rightarrow> bool"
  for S where
  stutter: "row_step S r r"
| executing: "execution_status r = PREPARED \<Longrightarrow> row_step S r (executing_row S owner t1 t2 r)"
| outcome: "execution_status r = EXECUTING \<Longrightarrow> status \<in> OUTCOMES \<Longrightarrow>
    row_step S r (outcome_row status result error now r)"
| exhaust: "execution_status r \<in> VERIFIABLE \<Longrightarrow> verification_status r \<notin> TERMINAL \<Longrightarrow>
    verification_budget_exhausted S r now \<Longrightarrow> row_step S r (exhaust_row r now now')"
| claim: "execution_status r \<in> VERIFIABLE \<Longrightarrow> verification_status r \<notin> TERMINAL \<Longrightarrow>
    \<not> verification_budget_exhausted S r now \<Longrightarrow> row_step S r (claim_row S owner now now' r)"
| verdict: "verification_status r = VERIFYING \<Longrightarrow> status \<in> VERDICTS \<Longrightarrow>
    row_step S r (verdict_row status result ext now r)"
| release: "verification_status r = VERIFYING \<Longrightarrow> leak_free (JDict result) \<Longrightarrow>
    row_step S r (release_row result now r)"
| abandoned: "execution_status r = EXECUTING \<Longrightarrow> row_step S r (abandoned_row now r)"
| cancel: "execution_status r = PREPARED \<Longrightarrow> row_step S r (cancel_row now r)"
| interrupt: "execution_status r = EXECUTING \<Longrightarrow> row_step S r (interrupt_row now r)"

lemmas row_defs = executing_row_def outcome_row_def exhaust_row_def claim_row_def verdict_row_def
  release_row_def abandoned_row_def cancel_row_def interrupt_row_def bump_def Let_def

definition lease_inv :: "mutation_operation \<Rightarrow> bool" where
  "lease_inv r \<longleftrightarrow>
     (lease_owner r \<noteq> None \<longleftrightarrow> execution_status r = EXECUTING)
     \<and> (lease_expires_at r \<noteq> None \<longleftrightarrow> execution_status r = EXECUTING)
     \<and> (verification_lease_owner r \<noteq> None \<longleftrightarrow> verification_status r = VERIFYING)
     \<and> (verification_lease_expires_at r \<noteq> None \<longleftrightarrow> verification_status r = VERIFYING)"

definition status_inv :: "mutation_operation \<Rightarrow> bool" where
  "status_inv r \<longleftrightarrow>
     (execution_status r \<notin> VERIFIABLE \<longrightarrow> verification_status r \<in> {PENDING, NOT_REQUIRED})
     \<and> (execution_status r = PREPARED \<longrightarrow> attempt_count r = 0)
     \<and> (execution_status r \<notin> {PREPARED, CANCELLED} \<longrightarrow> attempt_count r = 1)
     \<and> attempt_count r \<in> {0, 1}"

definition budget_inv :: "settings \<Rightarrow> mutation_operation \<Rightarrow> bool" where
  "budget_inv S r \<longleftrightarrow>
     0 \<le> verification_attempt_count r
     \<and> verification_attempt_count r \<le> MUTATION_MAX_VERIFICATION_ATTEMPTS S
     \<and> (verification_status r \<in> {VERIFYING, PASSED, FAILED, INCONCLUSIVE} \<longrightarrow>
          1 \<le> verification_attempt_count r)"

definition audit_inv :: "mutation_operation \<Rightarrow> bool" where
  "audit_inv r \<longleftrightarrow> leak_free (JDict (redacted_args r)) \<and> leak_free (execution_result r)
     \<and> leak_free (execution_error r) \<and> leak_free (verification_result r)
     \<and> leak_free (external_reference r)"

definition row_inv :: "settings \<Rightarrow> mutation_operation \<Rightarrow> bool" where
  "row_inv S r \<longleftrightarrow> lease_inv r \<and> status_inv r \<and> budget_inv S r \<and> audit_inv r"

lemma plain_keys [simp]:
  "\<not> sensitive_key ''reason''" "\<not> sensitive_key ''verification_attempt_count''"
  "\<not> sensitive_key ''age_seconds''" "\<not> sensitive_key ''manual_review_required''"
  "\<not> sensitive_key ''error_type''" "\<not> sensitive_key ''ambiguous_outcome''"
  "\<not> sensitive_key ''content''" "\<not> sensitive_key ''values''"
  by code_simp+

lemma row_step_id: "row_step S r r' \<Longrightarrow> op_id r' = op_id r"
  by (induction rule: row_step.induct) (simp_all add: row_defs)

lemma row_step_key: "row_step S r r' \<Longrightarrow> idempotency_key r' = idempotency_key r"
  by (induction rule: row_step.induct) (simp_all add: row_defs)

lemma row_step_lease: "row_step S r r' \<Longrightarrow> lease_inv r \<Longrightarrow> status_inv r \<Longrightarrow> lease_inv r'"
  by (induction rule: row_step.induct)
     (auto simp: row_defs lease_inv_def status_inv_def VERIFIABLE_def TERMINAL_def VERDICTS_def OUTCOMES_def)

lemma row_step_status: "row_step S r r' \<Longrightarrow> status_inv r \<Longrightarrow> status_inv r'"
  by (induction rule: row_step.induct)
     (auto simp: row_defs status_inv_def VERIFIABLE_def TERMINAL_def VERDICTS_def OUTCOMES_def)

lemma row_step_budget: "row_step S r r' \<Longrightarrow> budget_inv S r \<Longrightarrow> budget_inv S r'"
  by (induction rule: row_step.induct)
     (auto simp: row_defs budget_inv_def VERDICTS_def OUTCOMES_def verification_budget_exhausted_def)

lemma row_step_audit: "row_step S r r' \<Longrightarrow> audit_inv r \<Longrightarrow> audit_inv r'"
  by (induction rule: row_step.induct)
     (simp_all add: row_defs audit_inv_def redact_dict_leak_free redact_sensitive_leak_free
        del: leak_free.simps(1), simp_all)

lemma row_step_inv: "row_inv S r \<Longrightarrow> row_step S r r' \<Longrightarrow> row_inv S r'"
  by (simp add: row_inv_def row_step_lease row_step_status row_step_budget row_step_audit)

interpretation jrows: keyed_table op_id "row_step S" "row_inv S" for S
  by unfold_locales (auto intro: row_step.stutter row_step_id row_step_inv)

subsection \<open>The abstract life cycle\<close>

text \<open>
  What the journal promises of an operation, as the pair of its statuses: it is executed at
  most once, an interrupted execution becomes unknown, only a reported or unknown outcome is
  verified, and a verdict other than inconclusive is final.
\<close>

type_synonym life = "execution_status \<times> verification_status"

definition abs_life :: "mutation_operation \<Rightarrow> life" where
  "abs_life r = (execution_status r, verification_status r)"

inductive life_step :: "life \<Rightarrow> life \<Rightarrow> bool" where
  begin_execution: "life_step (PREPARED, v) (EXECUTING, v)"
| reported: "life_step (EXECUTING, v) (REPORTED_SUCCESS, v)"
| ambiguous: "life_step (EXECUTING, v) (UNKNOWN, v)"
| failed: "life_step (EXECUTING, v) (EXEC_FAILED, NOT_REQUIRED)"
| cancelled: "life_step (EXECUTING, v) (CANCELLED, NOT_REQUIRED)"
| lost: "life_step (EXECUTING, v) (UNKNOWN, PENDING)"
| withdrawn: "life_step (PREPARED, v) (CANCELLED, NOT_REQUIRED)"
| claimed: "e \<in> VERIFIABLE \<Longrightarrow> v \<notin> TERMINAL \<Longrightarrow> life_step (e, v) (e, VERIFYING)"
| exhausted: "e \<in> VERIFIABLE \<Longrightarrow> v \<notin> TERMINAL \<Longrightarrow> life_step (e, v) (e, NEEDS_REVIEW)"
| judged: "w \<in> VERDICTS \<Longrightarrow> life_step (e, VERIFYING) (e, w)"

inductive_cases life_stepE: "life_step (e, v) (e', v')"
inductive_simps life_step_iff: "life_step (e, v) (e', v')"

lemma row_step_refines:
  "row_step S r r' \<Longrightarrow> abs_life r' = abs_life r \<or> life_step (abs_life r) (abs_life r')"
  by (induction rule: row_step.induct)
     (auto simp: abs_life_def row_defs life_step_iff OUTCOMES_def VERDICTS_def)

definition FINAL_VERDICTS :: "verification_status set" where
  "FINAL_VERDICTS = {PASSED, FAILED, NEEDS_REVIEW}"

lemma life_final:
  "life_step (e, v) (e', v') \<Longrightarrow> e \<in> VERIFIABLE \<Longrightarrow> v \<in> FINAL_VERDICTS \<Longrightarrow> False"
  by (auto simp: life_step_iff VERIFIABLE_def FINAL_VERDICTS_def TERMINAL_def)

lemma row_step_final:
  assumes "row_step S r r'" and "execution_status r \<in> VERIFIABLE"
    and "verification_status r \<in> FINAL_VERDICTS"
  shows "r' = r"
  using assms
  by (induction rule: row_step.induct)
     (auto simp: VERIFIABLE_def FINAL_VERDICTS_def TERMINAL_def)

lemma row_step_started:
  "row_step S r r' \<Longrightarrow> execution_status r \<noteq> PREPARED \<Longrightarrow> execution_status r' \<noteq> PREPARED"
  by (induction rule: row_step.induct) (auto simp: row_defs OUTCOMES_def)

lemma row_step_version: "row_step S r r' \<Longrightarrow> r' = r \<or> version r' = version r + 1"
  by (induction rule: row_step.induct) (auto simp: row_defs)

subsection \<open>The methods as steps of the table\<close>

text \<open>A method under the row lock leaves the table alone or saves one transition of the row.\<close>

definition saves :: "settings \<Rightarrow> journal \<Rightarrow> mutation_operation \<Rightarrow> journal \<Rightarrow> bool" where
  "saves S J r J' \<longleftrightarrow> J' = J \<or> (\<exists>r'. row_step S r r' \<and> J' = save_row r' J)"

lemma saves_same [simp]: "saves S J r J"
  by (simp add: saves_def)

lemma saves_row: "row_step S r r' \<Longrightarrow> saves S J r (save_row r' J)"
  by (auto simp: saves_def)

lemma with_row_step:
  assumes "distinct (map op_id J)"
    and "\<And>r. find_row oid J = Some r \<Longrightarrow> saves S J r (snd (f r))"
  shows "list_all2 (row_step S) J (snd (with_row oid J f))"
proof (cases "find_row oid J")
  case None
  then show ?thesis by (simp add: with_row_def jrows.table_refl)
next
  case (Some r)
  with assms(2)[OF Some] show ?thesis
    using assms(1) jrows.table_save[of J oid r S]
    by (auto simp: with_row_def find_row_def save_row_def saves_def jrows.table_refl)
qed

lemma mark_executing_step:
  "distinct (map op_id J) \<Longrightarrow> list_all2 (row_step S) J (snd (mark_executing S oid owner t1 t2 J))"
  unfolding mark_executing_def
  by (rule with_row_step) (auto intro!: saves_row row_step.executing)

lemma record_execution_step:
  "distinct (map op_id J) \<Longrightarrow>
     list_all2 (row_step S) J (snd (record_execution oid status result error now J))"
  unfolding record_execution_def
  by (auto simp: jrows.table_refl intro!: with_row_step saves_row row_step.outcome)

lemma claim_verification_step:
  "distinct (map op_id J) \<Longrightarrow>
     list_all2 (row_step S) J (snd (claim_verification S oid owner now now' J))"
  unfolding claim_verification_def
  by (rule with_row_step) (auto intro!: saves_row row_step.claim row_step.exhaust)

lemma record_verification_step:
  "distinct (map op_id J) \<Longrightarrow>
     list_all2 (row_step S) J (snd (record_verification oid owner status result ext now J))"
  unfolding record_verification_def
  by (auto simp: jrows.table_refl intro!: with_row_step saves_row row_step.verdict)

lemma abandon_verification_step:
  "distinct (map op_id J) \<Longrightarrow>
     list_all2 (row_step S) J (snd (abandon_verification oid owner why now J))"
  unfolding abandon_verification_def
  by (rule with_row_step)
     (auto intro!: saves_row row_step.release simp: redact_dict_leak_free simp del: leak_free.simps)

lemma update_where_step:
  assumes "\<And>r. r \<in> set J \<Longrightarrow> P r \<Longrightarrow> row_step S r (f r)"
  shows "list_all2 (row_step S) J (snd (update_where P f J))"
  unfolding update_where_def using jrows.table_update[of J P S f] assms by simp

lemma recover_stale_executions_step:
  "list_all2 (row_step S) J (snd (recover_stale_executions now J))"
  unfolding recover_stale_executions_def
  by (rule update_where_step) (auto simp: stale_execution_def intro: row_step.abandoned)

lemma recover_stale_verifications_step:
  "list_all2 (row_step S) J (snd (recover_stale_verifications now J))"
  unfolding recover_stale_verifications_def
  by (rule update_where_step) (auto simp: stale_verification_def intro!: row_step.release)

lemma stop_statements_step:
  "list_all2 (row_step S) J (snd (cancel_prepared run now J))"
  "list_all2 (row_step S) J (snd (interrupt_executing run now J))"
  unfolding cancel_prepared_def interrupt_executing_def
  by (auto intro!: update_where_step intro: row_step.cancel row_step.interrupt)

lemmas method_steps = mark_executing_step record_execution_step claim_verification_step
  record_verification_step abandon_verification_step recover_stale_executions_step
  recover_stale_verifications_step stop_statements_step

lemma reuse_row_same: "snd (reuse_row tool ahmac J r) = J"
  by (simp add: reuse_row_def)

lemma create_row_cases:
  "snd (create_row tool ahmac r J) = J
   \<or> (snd (create_row tool ahmac r J) = J @ [r] \<and> op_id r \<notin> op_id ` set J
      \<and> idempotency_key r \<notin> idempotency_key ` set J)"
  by (auto simp: create_row_def reuse_row_same list_ex_iff split: option.splits)

definition fresh_row :: "mutation_operation \<Rightarrow> bool" where
  "fresh_row r \<longleftrightarrow> execution_status r = PREPARED \<and> verification_status r \<in> {PENDING, NOT_REQUIRED}
     \<and> attempt_count r = 0 \<and> verification_attempt_count r = 0 \<and> version r = 1
     \<and> lease_owner r = None \<and> lease_expires_at r = None
     \<and> verification_lease_owner r = None \<and> verification_lease_expires_at r = None
     \<and> audit_inv r"

lemma fresh_row_inv: "valid_settings S \<Longrightarrow> fresh_row r \<Longrightarrow> row_inv S r"
  by (auto simp: fresh_row_def row_inv_def lease_inv_def status_inv_def budget_inv_def
      VERIFIABLE_def valid_settings_def)

lemma leak_free_update:
  "leak_free (JDict d) \<Longrightarrow> \<not> sensitive_key k \<Longrightarrow> leak_free v \<Longrightarrow> leak_free (JDict (AList.update k v d))"
  by (induction d) auto

lemma redact_tool_args_leak_free:
  assumes "redact_tool_args Y tool args = Inr out"
  shows "leak_free (JDict out)"
proof -
  have base: "leak_free (JDict (redact_dict args))" by (rule redact_dict_leak_free)
  have set_str: "leak_free (JDict d) \<Longrightarrow> \<not> sensitive_key k \<Longrightarrow> leak_free (JDict (AList.update k (JStr s) d))"
    for d k s by (simp add: leak_free_update del: leak_free.simps(1))
  let ?d = "redact_dict args"
  obtain r where r: "(case dget ?d ''content'' of
        JStr content \<Rightarrow>
          if tool = ''k8s_apply'' then
            bindE (redact_manifest_content Y content)
              (\<lambda>c. Inr (AList.update ''content'' (JStr c) ?d))
          else Inr ?d
      | _ \<Rightarrow> Inr ?d) = Inr r" and out: "(case dget r ''values'' of
        JStr values \<Rightarrow>
          if tool = ''helm_install_with_values'' then
            bindE (redact_helm_values Y values) (\<lambda>v. Inr (AList.update ''values'' (JStr v) r))
          else Inr r
      | _ \<Rightarrow> Inr r) = Inr out"
    using assms unfolding redact_tool_args_def Let_def bindE_Inr_iff by blast
  from r base have "leak_free (JDict r)"
    by (cases "dget ?d ''content''")
       (auto simp: bindE_Inr_iff set_str simp del: leak_free.simps(1) split: if_splits)
  with out show ?thesis
    by (cases "dget r ''values''")
       (auto simp: bindE_Inr_iff set_str simp del: leak_free.simps(1) split: if_splits)
qed

lemma new_row_fresh:
  assumes "redact_tool_args Y tool args = Inr rargs"
  shows "fresh_row (new_row oid key run call tool ahmac context rargs approval policy plan now)"
  using redact_tool_args_leak_free[OF assms]
  by (simp add: fresh_row_def new_row_def audit_inv_def del: leak_free.simps(1)) simp

definition appends_fresh :: "journal \<Rightarrow> journal \<Rightarrow> bool" where
  "appends_fresh J J' \<longleftrightarrow> J' = J \<or> (\<exists>r. J' = J @ [r] \<and> fresh_row r \<and> op_id r \<notin> op_id ` set J
      \<and> idempotency_key r \<notin> idempotency_key ` set J)"

lemma appends_fresh_same [simp]: "appends_fresh J J"
  by (simp add: appends_fresh_def)

lemma create_row_appends: "fresh_row r \<Longrightarrow> appends_fresh J (snd (create_row tool ahmac r J))"
  using create_row_cases[of tool ahmac r J] by (auto simp: appends_fresh_def)

lemma prepare_appends:
  "appends_fresh J (snd (prepare hmac uuid S Y oid run call tool args context policy plan now J0 J))"
  unfolding prepare_def Let_def
  by (auto simp: reuse_row_same intro!: create_row_appends new_row_fresh
      split: sum.splits option.splits)

subsection \<open>Runs of the table\<close>

text \<open>
  One step of the journal: a method called by any worker with any arguments at any time. The
  parameters are those of \<open>prepare\<close>.
\<close>

inductive jstep ::
  "(string \<Rightarrow> string \<Rightarrow> string) \<Rightarrow> (string \<Rightarrow> string py) \<Rightarrow> settings \<Rightarrow> yaml \<Rightarrow> journal \<Rightarrow> journal \<Rightarrow> bool"
  for hmac uuid S Y where
  prepare: "jstep hmac uuid S Y J
     (snd (prepare hmac uuid S Y oid run call tool args context policy plan now J0 J))"
| mark_executing: "jstep hmac uuid S Y J (snd (mark_executing S oid owner t1 t2 J))"
| record_execution: "jstep hmac uuid S Y J (snd (record_execution oid status result error now J))"
| claim: "jstep hmac uuid S Y J (snd (claim_verification S oid owner now now' J))"
| record_verification: "jstep hmac uuid S Y J
     (snd (record_verification oid owner verdict result ext now J))"
| abandon: "jstep hmac uuid S Y J (snd (abandon_verification oid owner why now J))"
| recover_executions: "jstep hmac uuid S Y J (snd (recover_stale_executions now J))"
| recover_verifications: "jstep hmac uuid S Y J (snd (recover_stale_verifications now J))"
| converge: "jstep hmac uuid S Y J (snd (converge_stopped_run run now J))"
| cancel_prepared: "jstep hmac uuid S Y J (snd (cancel_prepared run now J))"
| interrupt_executing: "jstep hmac uuid S Y J (snd (interrupt_executing run now J))"

text \<open>Rows a run keeps, in order, each moved by its own transitions, and new rows behind them.\<close>

interpretation jruns: keyed_table op_id "(row_step S)\<^sup>*\<^sup>*" "row_inv S" for S
proof
  fix r r' assume run: "(row_step S)\<^sup>*\<^sup>* r r'"
  then show "op_id r' = op_id r"
    by (induction rule: rtranclp_induct) (auto dest: row_step_id)
  show "row_inv S r \<Longrightarrow> row_inv S r'"
    using run by (induction rule: rtranclp_induct) (auto intro: row_step_inv)
qed simp

interpretation jkeys: keyed_table idempotency_key "(row_step S)\<^sup>*\<^sup>*" "row_inv S" for S
proof
  fix r r' assume run: "(row_step S)\<^sup>*\<^sup>* r r'"
  then show "idempotency_key r' = idempotency_key r"
    by (induction rule: rtranclp_induct) (auto dest: row_step_key)
  show "row_inv S r \<Longrightarrow> row_inv S r'"
    using run by (rule jruns.step_inv[rotated])
qed simp

definition jmoves :: "settings \<Rightarrow> journal \<Rightarrow> journal \<Rightarrow> bool" where
  "jmoves S J J' \<longleftrightarrow>
     (\<exists>K rs. J' = K @ rs \<and> list_all2 ((row_step S)\<^sup>*\<^sup>*) J K \<and> list_all (row_inv S) rs)"

definition journal_inv :: "settings \<Rightarrow> journal \<Rightarrow> bool" where
  "journal_inv S J \<longleftrightarrow>
     distinct (map op_id J) \<and> distinct (map idempotency_key J) \<and> list_all (row_inv S) J"

lemma step_run: "list_all2 (row_step S) J K \<Longrightarrow> list_all2 ((row_step S)\<^sup>*\<^sup>*) J K"
  by (erule list_all2_mono) (rule r_into_rtranclp)

lemma run_trans:
  "list_all2 ((row_step S)\<^sup>*\<^sup>*) J K \<Longrightarrow> list_all2 ((row_step S)\<^sup>*\<^sup>*) K L
     \<Longrightarrow> list_all2 ((row_step S)\<^sup>*\<^sup>*) J L"
  by (rule list_all2_trans[of "(row_step S)\<^sup>*\<^sup>*"]) (auto intro: rtranclp_trans)

lemma converge_run: "list_all2 ((row_step S)\<^sup>*\<^sup>*) J (snd (converge_stopped_run run now J))"
  using run_trans[OF step_run[OF stop_statements_step(1)] step_run[OF stop_statements_step(2)]]
  by (simp add: converge_stopped_run_def case_prod_unfold Let_def)

lemma run_moves: "list_all2 ((row_step S)\<^sup>*\<^sup>*) J K \<Longrightarrow> jmoves S J K"
  unfolding jmoves_def by (rule exI[of _ K]) simp

lemma run_inv:
  assumes "list_all2 ((row_step S)\<^sup>*\<^sup>*) J K" and "journal_inv S J"
  shows "journal_inv S K"
  using assms jruns.table_keys[OF assms(1)] jkeys.table_keys[OF assms(1)]
    jruns.table_inv[OF assms(1)]
  by (simp add: journal_inv_def)

lemma appends_moves:
  assumes "appends_fresh J J'" and "valid_settings S" and "journal_inv S J"
  shows "jmoves S J J' \<and> journal_inv S J'"
proof (cases "J' = J")
  case True
  with assms(3) show ?thesis by (simp add: run_moves jruns.table_refl)
next
  case False
  then obtain r where r: "J' = J @ [r]" "fresh_row r" "op_id r \<notin> op_id ` set J"
      "idempotency_key r \<notin> idempotency_key ` set J"
    using assms(1) by (auto simp: appends_fresh_def)
  have "row_inv S r" using assms(2) r(2) by (rule fresh_row_inv)
  moreover from this have "jmoves S J J'"
    unfolding jmoves_def using r(1) jruns.table_refl[of S J]
    by (intro exI[of _ J] exI[of _ "[r]"]) simp
  ultimately show ?thesis using r assms(3) by (simp add: journal_inv_def)
qed

lemma row_steps_moves:
  "list_all2 (row_step S) J K \<Longrightarrow> journal_inv S J \<Longrightarrow> jmoves S J K \<and> journal_inv S K"
  using run_moves[OF step_run] run_inv[OF step_run] by blast

lemma jstep_moves:
  assumes "jstep hmac uuid S Y J J'" and "valid_settings S" and "journal_inv S J"
  shows "jmoves S J J' \<and> journal_inv S J'"
  using assms
proof (induction rule: jstep.induct)
  case (prepare J oid run call tool args ctx policy plan now J0)
  then show ?case using appends_moves[OF prepare_appends] by blast
next
  case (converge run now J)
  then show ?case using run_moves[OF converge_run] run_inv[OF converge_run] by blast
qed (rule row_steps_moves, rule method_steps, simp add: journal_inv_def, assumption
    | rule row_steps_moves, rule method_steps, assumption)+

lemma jmoves_trans:
  assumes "jmoves S J K" and "jmoves S K L"
  shows "jmoves S J L"
proof -
  obtain J1 rs where 1: "K = J1 @ rs" "list_all2 ((row_step S)\<^sup>*\<^sup>*) J J1" "list_all (row_inv S) rs"
    using assms(1) by (auto simp: jmoves_def)
  obtain K1 ss where 2: "L = K1 @ ss" "list_all2 ((row_step S)\<^sup>*\<^sup>*) K K1" "list_all (row_inv S) ss"
    using assms(2) by (auto simp: jmoves_def)
  obtain A B where 3: "K1 = A @ B" "list_all2 ((row_step S)\<^sup>*\<^sup>*) J1 A"
      "list_all2 ((row_step S)\<^sup>*\<^sup>*) rs B"
    using 2(2) 1(1) by (auto simp: list_all2_append1)
  have "list_all (row_inv S) B" using jruns.table_inv[OF 3(3) 1(3)] .
  then show ?thesis
    unfolding jmoves_def using 1 2 3 run_trans[OF 1(2) 3(2)]
    by (intro exI[of _ A] exI[of _ "B @ ss"]) simp
qed

lemma jruns_moves:
  assumes "(jstep hmac uuid S Y)\<^sup>*\<^sup>* J J'" and "valid_settings S" and "journal_inv S J"
  shows "jmoves S J J' \<and> journal_inv S J'"
  using assms(1)
proof (induction rule: rtranclp_induct)
  case base
  then show ?case using assms(3) run_moves[OF jruns.table_refl] by simp
next
  case (step K L)
  then show ?case using jstep_moves[OF step.hyps(2) assms(2)] jmoves_trans by blast
qed

text \<open>What becomes of the row of an operation in a run.\<close>

lemma jruns_row:
  assumes "(jstep hmac uuid S Y)\<^sup>*\<^sup>* J J'" and "valid_settings S" and "journal_inv S J"
    and "find_row oid J = Some r"
  shows "\<exists>r'. find_row oid J' = Some r' \<and> (row_step S)\<^sup>*\<^sup>* r r'"
proof -
  obtain K rs where "J' = K @ rs" "list_all2 ((row_step S)\<^sup>*\<^sup>*) J K"
    using jruns_moves[OF assms(1-3)] by (auto simp: jmoves_def)
  then show ?thesis
    using jruns.find_after[of S J K oid r rs] assms(4) by (simp add: find_row_def)
qed

lemma empty_journal [simp]: "journal_inv S []"
  by (simp add: journal_inv_def)

lemma find_row_inv: "journal_inv S J \<Longrightarrow> find_row oid J = Some r \<Longrightarrow> row_inv S r"
  by (auto simp: journal_inv_def find_row_def find_Some_iff list_all_length)

lemma row_run_final:
  assumes "(row_step S)\<^sup>*\<^sup>* r r'" and "execution_status r \<in> VERIFIABLE"
    and "verification_status r \<in> FINAL_VERDICTS"
  shows "r' = r"
  using assms(1) by (induction rule: rtranclp_induct) (auto dest: row_step_final[OF _ assms(2,3)])

lemma row_run_started:
  "(row_step S)\<^sup>*\<^sup>* r r' \<Longrightarrow> execution_status r \<noteq> PREPARED \<Longrightarrow> execution_status r' \<noteq> PREPARED"
  by (induction rule: rtranclp_induct) (auto dest: row_step_started)

lemma row_run_refines: "(row_step S)\<^sup>*\<^sup>* r r' \<Longrightarrow> life_step\<^sup>*\<^sup>* (abs_life r) (abs_life r')"
  by (induction rule: rtranclp_induct) (auto dest: row_step_refines intro: rtranclp.rtrancl_into_rtrancl)

end
