(* ===== verification/IoBase.thy ===== *)
theory IoBase
  imports PyBase
begin

text \<open>
  Coroutines as functions from a state to their result and the next state, with Python's
  exceptions as results. \<open>CancelledError\<close> is the one exception that \<open>except Exception\<close> does
  not catch.
\<close>

type_synonym ('s, 'a) st = "'s \<Rightarrow> 'a py \<times> 's"

definition ret :: "'a \<Rightarrow> ('s, 'a) st" where
  "ret a w = (Inr a, w)"

definition raise :: "py_exc \<Rightarrow> ('s, 'a) st" where
  "raise e w = (Inl e, w)"

definition lift :: "'a py \<Rightarrow> ('s, 'a) st" where
  "lift m w = (m, w)"

definition bindW :: "('s, 'a) st \<Rightarrow> ('a \<Rightarrow> ('s, 'b) st) \<Rightarrow> ('s, 'b) st" where
  "bindW m f w = (case m w of (Inl e, w') \<Rightarrow> (Inl e, w') | (Inr a, w') \<Rightarrow> f a w')"

definition cancelled :: "py_exc \<Rightarrow> bool" where
  "cancelled e \<longleftrightarrow> exc_type e = ''CancelledError''"

text \<open>\<open>try: m except Exception as e: h\<close>\<close>

definition catchW :: "('s, 'a) st \<Rightarrow> (py_exc \<Rightarrow> ('s, 'a) st) \<Rightarrow> ('s, 'a) st" where
  "catchW m h w = (case m w of
     (Inl e, w') \<Rightarrow> if cancelled e then (Inl e, w') else h e w'
   | (Inr a, w') \<Rightarrow> (Inr a, w'))"

text \<open>\<open>try: m except CancelledError: h; raise\<close>: the handler's own exception replaces it.\<close>

definition on_cancel :: "('s, 'a) st \<Rightarrow> ('s, 'b) st \<Rightarrow> ('s, 'a) st" where
  "on_cancel m h w = (case m w of
     (Inl e, w') \<Rightarrow> if cancelled e then
         (case h w' of (Inl e', w'') \<Rightarrow> (Inl e', w'') | (Inr _, w'') \<Rightarrow> (Inl e, w''))
       else (Inl e, w')
   | (Inr a, w') \<Rightarrow> (Inr a, w'))"

lemma ret_simp [simp]: "ret a w = (Inr a, w)"
  by (simp add: ret_def)

lemma raise_simp [simp]: "raise e w = (Inl e, w)"
  by (simp add: raise_def)

lemma lift_simp [simp]: "lift m w = (m, w)"
  by (simp add: lift_def)

lemma bindW_eq: "bindW m f w = (r, w'') \<longleftrightarrow>
    (\<exists>e. m w = (Inl e, w'') \<and> r = Inl e) \<or> (\<exists>a w'. m w = (Inr a, w') \<and> f a w' = (r, w''))"
  by (auto simp: bindW_def split: prod.splits sum.splits)

lemma bindW_Inr: "bindW m f w = (Inr b, w'') \<longleftrightarrow> (\<exists>a w'. m w = (Inr a, w') \<and> f a w' = (Inr b, w''))"
  by (auto simp: bindW_eq)

lemma bindW_ret [simp]: "bindW (ret a) f = f a"
  by (rule ext) (simp add: bindW_def)

lemma bindW_raise [simp]: "bindW (raise e) f = raise e"
  by (rule ext) (simp add: bindW_def)

lemma bindW_cong: "(\<And>w. m w = m' w) \<Longrightarrow> (\<And>a w. f a w = f' a w) \<Longrightarrow> bindW m f = bindW m' f'"
  by (rule ext) (simp add: bindW_def split: prod.splits sum.splits)

text \<open>
  Two operations that behave alike from every world that satisfies \<open>P\<close>, and what holds after
  them: \<open>Q\<close> behind a result, \<open>R\<close> behind an exception.
\<close>

definition agree ::
  "('s \<Rightarrow> bool) \<Rightarrow> ('s, 'a) st \<Rightarrow> ('s, 'a) st \<Rightarrow> ('a \<Rightarrow> 's \<Rightarrow> bool) \<Rightarrow> ('s \<Rightarrow> bool) \<Rightarrow> bool" where
  "agree P m m' Q R \<longleftrightarrow> (\<forall>w. P w \<longrightarrow> m w = m' w
     \<and> (case m w of (Inr a, w') \<Rightarrow> Q a w' | (Inl e, w') \<Rightarrow> R w'))"

lemma agreeD: "agree P m m' Q R \<Longrightarrow> P w \<Longrightarrow> m w = m' w"
  by (simp add: agree_def)

lemma agree_bind:
  assumes "agree P m m' Q R" and "\<And>a. agree (Q a) (f a) (f' a) Q' R"
  shows "agree P (bindW m f) (bindW m' f') Q' R"
  unfolding agree_def
proof (intro allI impI)
  fix w assume "P w"
  then have 1: "m w = m' w" "case m w of (Inr a, w') \<Rightarrow> Q a w' | (Inl e, w') \<Rightarrow> R w'"
    using assms(1) by (auto simp: agree_def)
  show "bindW m f w = bindW m' f' w
      \<and> (case bindW m f w of (Inr a, w') \<Rightarrow> Q' a w' | (Inl e, w') \<Rightarrow> R w')"
  proof (cases "m w")
    case (Pair r w')
    show ?thesis
      using 1 Pair assms(2)[unfolded agree_def, rule_format, of "projr r" w']
      by (cases r) (auto simp: bindW_def)
  qed
qed

lemma agree_catch:
  assumes "agree P m m' Q R" and "\<And>e. agree R (h e) (h' e) Q R"
  shows "agree P (catchW m h) (catchW m' h') Q R"
  unfolding agree_def
proof (intro allI impI)
  fix w assume "P w"
  then have 1: "m w = m' w" "case m w of (Inr a, w') \<Rightarrow> Q a w' | (Inl e, w') \<Rightarrow> R w'"
    using assms(1) by (auto simp: agree_def)
  show "catchW m h w = catchW m' h' w
      \<and> (case catchW m h w of (Inr a, w') \<Rightarrow> Q a w' | (Inl e, w') \<Rightarrow> R w')"
  proof (cases "m w")
    case (Pair r w')
    show ?thesis
      using 1 Pair assms(2)[unfolded agree_def, rule_format, of w' "projl r"]
      by (cases r) (auto simp: catchW_def split: if_splits sum.splits prod.splits)
  qed
qed

lemma agree_same: "(\<And>a w. Q a w) \<Longrightarrow> (\<And>w. R w) \<Longrightarrow> agree P m m Q R"
  by (auto simp: agree_def split: prod.splits sum.splits)

lemma agree_weaken:
  assumes "agree P m m' Q R" and "\<And>w. P' w \<Longrightarrow> P w" and "\<And>a w. Q a w \<Longrightarrow> Q' a w"
  shows "agree P' m m' Q' R"
  unfolding agree_def
proof (intro allI impI)
  fix w assume "P' w"
  then have 1: "m w = m' w \<and> (case m w of (Inr a, w') \<Rightarrow> Q a w' | (Inl e, w') \<Rightarrow> R w')"
    by (rule assms(1)[unfolded agree_def, THEN spec, THEN mp, OF assms(2)])
  obtain r v where rv: "m w = (r, v)" by (cases "m w")
  with 1 have "m' w = (r, v)" by simp
  with 1 rv assms(3) show "m w = m' w \<and> (case m w of (Inr a, w') \<Rightarrow> Q' a w' | (Inl e, w') \<Rightarrow> R w')"
    by (cases r) simp_all
qed

text \<open>
  What an operation may do to one part of the state: \<open>moves\<close> says that it changes \<open>obs\<close> only
  along \<open>step\<close>. The environment may do the same while it is awaited.
\<close>

locale state_moves =
  fixes obs :: "'s \<Rightarrow> 'o"
    and step :: "'o \<Rightarrow> 'o \<Rightarrow> bool"
  assumes step_refl: "step x x"
    and step_trans: "step x y \<Longrightarrow> step y z \<Longrightarrow> step x z"
begin

definition moves :: "('s, 'a) st \<Rightarrow> bool" where
  "moves m \<longleftrightarrow> (\<forall>w. step (obs w) (obs (snd (m w))))"

lemma moves_eq: "moves m \<Longrightarrow> m w = (r, w') \<Longrightarrow> step (obs w) (obs w')"
  by (metis moves_def snd_conv)

lemma moves_ret [simp]: "moves (ret a)"
  by (simp add: moves_def step_refl)

lemma moves_raise [simp]: "moves (raise e)"
  by (simp add: moves_def step_refl)

lemma moves_lift [simp]: "moves (lift m)"
  by (simp add: moves_def step_refl)

lemma moves_bind [intro]:
  assumes "moves m" and "\<And>a. moves (f a)"
  shows "moves (bindW m f)"
  unfolding moves_def
proof
  fix w
  show "step (obs w) (obs (snd (bindW m f w)))"
  proof (cases "m w")
    case (Pair r w')
    have "step (obs w) (obs w')" using assms(1) Pair by (metis moves_def snd_conv)
    moreover have "step (obs w') (obs (snd (f a w')))" for a
      using assms(2) by (simp add: moves_def)
    ultimately show ?thesis
      by (cases r) (auto simp: bindW_def Pair intro: step_trans)
  qed
qed

lemma moves_catch [intro]:
  assumes "moves m" and "\<And>e. moves (h e)"
  shows "moves (catchW m h)"
  unfolding moves_def
proof
  fix w
  show "step (obs w) (obs (snd (catchW m h w)))"
  proof (cases "m w")
    case (Pair r w')
    have "step (obs w) (obs w')" using assms(1) Pair by (metis moves_def snd_conv)
    moreover have "step (obs w') (obs (snd (h e w')))" for e
      using assms(2) by (simp add: moves_def)
    ultimately show ?thesis
      by (cases r) (auto simp: catchW_def Pair intro: step_trans)
  qed
qed

lemma moves_on_cancel [intro]:
  assumes "moves m" and "moves h"
  shows "moves (on_cancel m h)"
  unfolding moves_def
proof
  fix w
  show "step (obs w) (obs (snd (on_cancel m h w)))"
  proof (cases "m w")
    case (Pair r w')
    have 1: "step (obs w) (obs w')" using assms(1) Pair by (metis moves_def snd_conv)
    have 2: "step (obs w') (obs (snd (h w')))" using assms(2) by (simp add: moves_def)
    obtain r' w'' where "h w' = (r', w'')" by (cases "h w'")
    with 1 2 show ?thesis
      by (cases r; cases r') (auto simp: on_cancel_def Pair intro: step_trans)
  qed
qed

end

end
