(* ===== verification/World.thy ===== *)
theory World
  imports JournalLife IoBase
begin

text \<open>
  What a coroutine of the engine can see and change: the journal table, the clocks, the events
  it published, and an environment of its own choosing (the MCP server, the cluster, other
  workers). An awaited operation is a function from the world to its result and the next
  world, so whatever other workers do while it is awaited is part of it.
\<close>

record 'e world =
  wj :: journal
  wnow :: int
  wmono :: int
  wevents :: "(string \<times> dict) list"
  wenv :: 'e

type_synonym ('e, 'a) io = "('e world, 'a) st"

text \<open>A method of the journal, run in one transaction of the table.\<close>

definition on_journal :: "(int \<Rightarrow> journal \<Rightarrow> 'a \<times> journal) \<Rightarrow> 'e world \<Rightarrow> 'a \<times> 'e world" where
  "on_journal f w = (case f (wnow w) (wj w) of (r, J) \<Rightarrow> (r, w\<lparr>wj := J\<rparr>))"

definition publish :: "string \<Rightarrow> dict \<Rightarrow> ('e, unit) io" where
  "publish name payload w = (Inr (), w\<lparr>wevents := wevents w @ [(name, payload)]\<rparr>)"

text \<open>
  An MCP client: \<open>call_tool(tool, args, conversation_id)\<close> and \<open>asyncio.sleep\<close> in
  microseconds. Both are awaited, so both may change the world and be cancelled.
\<close>

record 'e mcp =
  mcp_call :: "string \<Rightarrow> dict \<Rightarrow> string \<Rightarrow> ('e, dict) io"
  mcp_sleep :: "int \<Rightarrow> ('e, unit) io"

text \<open>Operations of the world that change one part of it only along a relation.\<close>

locale world_moves = state_moves obs step
  for obs :: "'e world \<Rightarrow> 'o" and step :: "'o \<Rightarrow> 'o \<Rightarrow> bool" +
  assumes obs_events: "obs (w\<lparr>wevents := evs\<rparr>) = obs w"
begin

lemma moves_publish [simp]: "moves (publish n p)"
  by (simp add: moves_def publish_def step_refl obs_events)

end

interpretation jm: world_moves wj "(jstep hmac uuid S Y)\<^sup>*\<^sup>*" for hmac uuid S Y
  by unfold_locales (auto intro: rtranclp_trans)

interpretation clock: world_moves wmono "(\<le>)"
  by unfold_locales auto

lemma moves_journal:
  "(\<And>now J. jstep hmac uuid S Y J (snd (f now J))) \<Longrightarrow> jm.moves hmac uuid S Y (on_journal f)"
  by (auto simp: jm.moves_def on_journal_def split: prod.splits) (metis r_into_rtranclp snd_conv)

end
