(* ===== verification/Verifier.thy ===== *)
theory Verifier
  imports World
begin

text \<open>
  \<open>services/mutation_verifier.py\<close>: the read-only postcondition checks of a controlled mutation
  (subset match, workload health, the Kubernetes and Helm adapters), the polling loop that
  runs them under a verification lease, and the recovery worker. \<open>json.loads\<close> is the
  parameter \<open>loads\<close>.
\<close>

subsection \<open>Plans and results\<close>

definition build_verification_plan :: "yaml \<Rightarrow> string \<Rightarrow> dict \<Rightarrow> string \<Rightarrow> dict py" where
  "build_verification_plan Y tool args oid =
     (if tool = ''k8s_apply'' then
        bindE (parse_manifest_targets Y (str_or args ''content'' [])
                 (str_or args ''namespace'' ''default'')) (\<lambda>ts.
        Inr [(''supported'', JBool (ts \<noteq> [])), (''adapter'', JStr ''kubernetes_apply''),
             (''operation_id'', JStr oid), (''targets'', JList (map JDict ts))])
      else if tool \<in> set HELM_MUTATIONS then
        Inr [(''supported'', JBool (truthy (dget args ''release_name''))),
             (''adapter'', JStr ''helm_release''), (''operation_id'', JStr oid),
             (''release_name'', dget args ''release_name''),
             (''namespace'', por (dget args ''namespace'') (JStr ''default''))]
      else Inr [(''supported'', JBool False), (''adapter'', JStr ''unsupported''),
                (''operation_id'', JStr oid)])"

definition text_part :: "json \<Rightarrow> string list" where
  "text_part block =
     (case block of
        JDict b \<Rightarrow> if dget b ''type'' = JStr ''text'' then [str_or b ''text'' []] else []
      | _ \<Rightarrow> [])"

definition result_text :: "dict \<Rightarrow> string py" where
  "result_text result =
     bindE (py_iter (dget_def result ''content'' (JList []))) (\<lambda>blocks.
     Inr (py_strip (join_str [CHR 0x0A] (concat (map text_part blocks)))))"

definition read_error_type :: "dict \<Rightarrow> json" where
  "read_error_type result =
     (let rel = por (dget result ''reliability'') (JDict []);
          rel1 = (case rel of JList [] \<Rightarrow> JDict [] | JList (r # _) \<Rightarrow> r | _ \<Rightarrow> rel)
      in case rel1 of JDict d \<Rightarrow> dget d ''error_type'' | _ \<Rightarrow> JNull)"

definition terminal_read_error :: "dict \<Rightarrow> bool py" where
  "terminal_read_error result =
     (let t = read_error_type result in
      if \<not> hashable t then Inl (unhashable_error t)
      else Inr (t \<in> {JStr ''authorization'', JStr ''invalid_input'', JStr ''executable_not_found''}))"

subsection \<open>Desired state\<close>

definition named :: "json \<Rightarrow> bool" where
  "named v = (case v of JDict d \<Rightarrow> truthy (dget d ''name'') | _ \<Rightarrow> False)"

definition name_of :: "json \<Rightarrow> json" where
  "name_of v = (case v of JDict d \<Rightarrow> dget d ''name'' | _ \<Rightarrow> JNull)"

text \<open>\<open>{item["name"]: item}\<close> over the named items of the list: the last item of a name wins.\<close>

definition actual_by_name :: "json list \<Rightarrow> (json \<Rightarrow> json option) py" where
  "actual_by_name ys =
     (case find (\<lambda>y. named y \<and> \<not> hashable (name_of y)) ys of
        Some y \<Rightarrow> Inl (unhashable_error (name_of y))
      | None \<Rightarrow> Inr (\<lambda>n. find (\<lambda>y. named y \<and> py_eq (name_of y) n) (rev ys)))"

fun subset_matches :: "json \<Rightarrow> json \<Rightarrow> bool py"
  and subset_dict :: "dict \<Rightarrow> dict \<Rightarrow> bool py"
  and subset_named :: "json list \<Rightarrow> (json \<Rightarrow> json option) \<Rightarrow> bool py"
  and subset_items :: "json list \<Rightarrow> json list \<Rightarrow> bool py" where
  "subset_matches (JDict d) a = (case a of JDict e \<Rightarrow> subset_dict d e | _ \<Rightarrow> Inr False)"
| "subset_matches (JList xs) a =
     (case a of
        JList ys \<Rightarrow>
          if length ys < length xs then Inr False
          else if list_all named xs then bindE (actual_by_name ys) (subset_named xs)
          else subset_items xs ys
      | _ \<Rightarrow> Inr False)"
| "subset_matches JNull a = Inr (py_eq JNull a)"
| "subset_matches (JBool b) a = Inr (py_eq (JBool b) a)"
| "subset_matches (JInt i) a = Inr (py_eq (JInt i) a)"
| "subset_matches (JStr s) a = Inr (py_eq (JStr s) a)"
| "subset_dict [] e = Inr True"
| "subset_dict ((k, v) # d) e =
     (case map_of e k of
        None \<Rightarrow> Inr False
      | Some w \<Rightarrow> bindE (subset_matches v w) (\<lambda>b. if b then subset_dict d e else Inr False))"
| "subset_named [] look = Inr True"
| "subset_named (x # xs) look =
     (if \<not> hashable (name_of x) then Inl (unhashable_error (name_of x))
      else case look (name_of x) of
        None \<Rightarrow> Inr False
      | Some y \<Rightarrow> bindE (subset_matches x y) (\<lambda>b. if b then subset_named xs look else Inr False))"
| "subset_items [] ys = Inr True"
| "subset_items (x # xs) ys =
     (case ys of
        [] \<Rightarrow> Inl (Exc ''IndexError'' ''list index out of range'')
      | y # ys' \<Rightarrow> bindE (subset_matches x y) (\<lambda>b. if b then subset_items xs ys' else Inr False))"

subsection \<open>Workload health\<close>

text \<open>\<open>v.get(k) or {}\<close>, \<open>int(v.get(k) or 0)\<close> on a value that need not be a dictionary.\<close>

definition get_or_dict :: "json \<Rightarrow> string \<Rightarrow> json py" where
  "get_or_dict v k = bindE (jget v k) (\<lambda>x. Inr (por x (JDict [])))"

definition get_int0 :: "json \<Rightarrow> string \<Rightarrow> int py" where
  "get_int0 v k = bindE (jget v k) (\<lambda>x. py_int (por x (JInt 0)))"

definition get_items :: "json \<Rightarrow> string \<Rightarrow> json list py" where
  "get_items v k = bindE (jget v k) (\<lambda>x. py_iter (por x (JList [])))"

definition deadline_exceeded :: "json \<Rightarrow> bool py" where
  "deadline_exceeded c =
     bindE (jget c ''type'') (\<lambda>t. if t \<noteq> JStr ''Progressing'' then Inr False else
     bindE (jget c ''status'') (\<lambda>s. if s \<noteq> JStr ''False'' then Inr False else
     bindE (jget c ''reason'') (\<lambda>r. Inr (r = JStr ''ProgressDeadlineExceeded''))))"

fun any_py :: "('a \<Rightarrow> bool py) \<Rightarrow> 'a list \<Rightarrow> bool py" where
  "any_py P [] = Inr False"
| "any_py P (x # xs) = bindE (P x) (\<lambda>b. if b then Inr True else any_py P xs)"

fun all_py :: "('a \<Rightarrow> bool py) \<Rightarrow> 'a list \<Rightarrow> bool py" where
  "all_py P [] = Inr True"
| "all_py P (x # xs) = bindE (P x) (\<lambda>b. if b then all_py P xs else Inr False)"

definition ratio :: "int \<Rightarrow> int \<Rightarrow> string" where
  "ratio a b = int_str a @ ''/'' @ int_str b"

definition bool_text :: "bool \<Rightarrow> string" where
  "bool_text b = (if b then ''True'' else ''False'')"

definition deployment_health :: "json \<Rightarrow> json \<Rightarrow> int \<Rightarrow> int \<Rightarrow> (bool \<times> bool \<times> string) py" where
  "deployment_health spec status generation observed =
     bindE (get_items status ''conditions'') (\<lambda>conditions.
     bindE (any_py deadline_exceeded conditions) (\<lambda>exceeded.
     if exceeded then Inr (False, True, ''deployment exceeded its progress deadline'') else
     bindE (bindE (jget_def spec ''replicas'' (JInt 1)) py_int) (\<lambda>replicas.
     bindE (get_int0 status ''availableReplicas'') (\<lambda>ready.
     bindE (get_int0 status ''updatedReplicas'') (\<lambda>updated.
     bindE (get_int0 status ''unavailableReplicas'') (\<lambda>unavailable.
     Inr (generation \<le> observed \<and> replicas \<le> ready \<and> replicas \<le> updated \<and> unavailable = 0, False,
          ''deployment observed='' @ ratio observed generation @ '', updated='' @ ratio updated replicas
          @ '', available='' @ ratio ready replicas @ '', unavailable='' @ int_str unavailable)))))))"

definition statefulset_health :: "json \<Rightarrow> json \<Rightarrow> int \<Rightarrow> int \<Rightarrow> (bool \<times> bool \<times> string) py" where
  "statefulset_health spec status generation observed =
     bindE (bindE (jget_def spec ''replicas'' (JInt 1)) py_int) (\<lambda>replicas.
     bindE (get_int0 status ''readyReplicas'') (\<lambda>ready.
     bindE (get_int0 status ''updatedReplicas'') (\<lambda>updated.
     bindE (jget status ''currentRevision'') (\<lambda>current.
     bindE (jget status ''updateRevision'') (\<lambda>update.
     Inr (generation \<le> observed \<and> replicas \<le> ready \<and> replicas \<le> updated \<and> py_eq current update,
          False,
          ''statefulset ready='' @ ratio ready replicas @ '', updated='' @ ratio updated replicas))))))"

definition daemonset_health :: "json \<Rightarrow> int \<Rightarrow> int \<Rightarrow> (bool \<times> bool \<times> string) py" where
  "daemonset_health status generation observed =
     bindE (get_int0 status ''desiredNumberScheduled'') (\<lambda>desired.
     bindE (get_int0 status ''numberReady'') (\<lambda>ready.
     bindE (get_int0 status ''updatedNumberScheduled'') (\<lambda>updated.
     Inr (generation \<le> observed \<and> 0 < desired \<and> desired \<le> ready \<and> desired \<le> updated, False,
          ''daemonset ready='' @ ratio ready desired @ '', updated='' @ ratio updated desired))))"

definition pod_health :: "json \<Rightarrow> (bool \<times> bool \<times> string) py" where
  "pod_health status =
     bindE (jget status ''phase'') (\<lambda>phase.
     bindE (bindE (jget status ''containerStatuses'') (\<lambda>c. Inr (por c (JList [])))) (\<lambda>containers.
     bindE (if truthy containers then
              bindE (py_iter containers)
                (all_py (\<lambda>c. bindE (jget c ''ready'') (\<lambda>r. Inr (truthy r))))
            else Inr False) (\<lambda>ready.
     Inr (phase = JStr ''Running'' \<and> ready, phase = JStr ''Failed'',
          ''pod phase='' @ py_str phase @ '', ready='' @ bool_text ready))))"

text \<open>\<open>{item.get("type"): item.get("status")}\<close>: later conditions of a type win.\<close>

fun job_conditions :: "json list \<Rightarrow> (json \<times> json) list py" where
  "job_conditions [] = Inr []"
| "job_conditions (c # cs) =
     bindE (jget c ''type'') (\<lambda>t. bindE (jget c ''status'') (\<lambda>s.
     if \<not> hashable t then Inl (unhashable_error t)
     else bindE (job_conditions cs) (\<lambda>rest. Inr (rest @ [(t, s)]))))"

definition job_health :: "json \<Rightarrow> (bool \<times> bool \<times> string) py" where
  "job_health status =
     bindE (get_items status ''conditions'') (\<lambda>items.
     bindE (job_conditions items) (\<lambda>conditions.
     if map_of conditions (JStr ''Failed'') = Some (JStr ''True'')
     then Inr (False, True, ''job reported Failed=True'')
     else (let completed = (map_of conditions (JStr ''Complete'') = Some (JStr ''True''))
           in Inr (completed, False, ''job complete='' @ bool_text completed))))"

definition workload_health :: "json \<Rightarrow> (bool \<times> bool \<times> string) py" where
  "workload_health resource =
     bindE (bindE (jget resource ''kind'') (\<lambda>k. Inr (py_lower (py_str (por k (JStr [])))))) (\<lambda>kind.
     bindE (get_or_dict resource ''metadata'') (\<lambda>metadata.
     bindE (get_or_dict resource ''spec'') (\<lambda>spec.
     bindE (get_or_dict resource ''status'') (\<lambda>status.
     bindE (get_int0 metadata ''generation'') (\<lambda>generation.
     bindE (get_int0 status ''observedGeneration'') (\<lambda>observed.
     if kind = ''deployment'' then deployment_health spec status generation observed
     else if kind = ''statefulset'' then statefulset_health spec status generation observed
     else if kind = ''daemonset'' then daemonset_health status generation observed
     else if kind = ''pod'' then pod_health status
     else if kind = ''job'' then job_health status
     else Inr (True, False, ''resource exists and desired fields match'')))))))"

subsection \<open>The Kubernetes adapter\<close>

definition subscript :: "json \<Rightarrow> string \<Rightarrow> json py" where
  "subscript v k =
     (case v of
        JDict d \<Rightarrow> (case map_of d k of Some x \<Rightarrow> Inr x | None \<Rightarrow> Inl (Exc ''KeyError'' (repr_str k)))
      | _ \<Rightarrow> Inl (Exc ''TypeError'' (quoted (type_name v) @ '' object is not subscriptable'')))"

definition target_item :: "json \<Rightarrow> dict py" where
  "target_item t =
     bindE (jget t ''kind'') (\<lambda>k. bindE (jget t ''name'') (\<lambda>n. bindE (jget t ''namespace'') (\<lambda>ns.
     Inr [(''target'', JDict [(''kind'', k), (''name'', n), (''namespace'', ns)])])))"

definition k8s_get_args :: "json \<Rightarrow> json \<Rightarrow> dict py" where
  "k8s_get_args t default_ns =
     bindE (subscript t ''kind'') (\<lambda>k. bindE (subscript t ''name'') (\<lambda>n.
     bindE (jget t ''namespace'') (\<lambda>ns.
     Inr [(''resource_type'', k), (''name'', n), (''namespace'', por ns default_ns),
          (''output'', JStr ''json'')])))"

definition is_error :: "dict \<Rightarrow> bool" where
  "is_error result = truthy (dget result ''isError'')"

definition detail_of :: "string \<Rightarrow> dict" where
  "detail_of text = [(''passed'', JBool False), (''detail'', JStr (take 500 text))]"

text \<open>What the adapter accumulates over the targets of the plan.\<close>

record read_state =
  evidence :: "dict list"
  references :: "dict list"
  all_passed :: bool
  terminal_failure :: bool
  committed_count :: nat
  missing_count :: nat

definition start_read :: read_state where
  "start_read = \<lparr>evidence = [], references = [], all_passed = True, terminal_failure = False,
     committed_count = 0, missing_count = 0\<rparr>"

text \<open>What one parsed resource says about the operation.\<close>

record observation =
  op_marker :: bool
  state_marker :: bool
  conflicting :: bool
  desired_ok :: bool
  healthy :: bool
  health_terminal :: bool
  health_detail :: string

definition obs_passed :: "observation \<Rightarrow> bool" where
  "obs_passed b \<longleftrightarrow> op_marker b \<and> state_marker b \<and> desired_ok b \<and> healthy b"

definition desired_check :: "json \<Rightarrow> json \<Rightarrow> bool py" where
  "desired_check t resource =
     bindE (jget_def t ''desired_spec'' (JDict [])) (\<lambda>desired.
     bindE (jget_def resource ''spec'' (JDict [])) (\<lambda>actual. subset_matches desired actual))"

definition observe :: "mutation_operation \<Rightarrow> json \<Rightarrow> json \<Rightarrow> observation py" where
  "observe r t resource =
     bindE (get_or_dict resource ''metadata'') (\<lambda>metadata.
     bindE (get_or_dict metadata ''annotations'') (\<lambda>annotations.
     bindE (jget annotations ''skyflo.ai/operation-id'') (\<lambda>opid.
     bindE (jget annotations ''skyflo.ai/desired-state-hmac'') (\<lambda>dsh.
     bindE (desired_check t resource) (\<lambda>desired.
     bindE (workload_health resource) (\<lambda>(ok, terminal, detail).
     Inr \<lparr>op_marker = (opid = JStr (op_id r)), state_marker = (dsh = JStr (desired_state_hmac r)),
          conflicting = (truthy opid \<and> opid \<noteq> JStr (op_id r)), desired_ok = desired,
          healthy = ok, health_terminal = terminal, health_detail = detail\<rparr>))))))"

definition obs_item :: "observation \<Rightarrow> dict" where
  "obs_item b =
     [(''passed'', JBool (obs_passed b)),
      (''marker_matches'', JBool (op_marker b \<and> state_marker b)),
      (''operation_marker_matches'', JBool (op_marker b)),
      (''desired_marker_matches'', JBool (state_marker b)),
      (''desired_spec_matches'', JBool (desired_ok b)),
      (''detail'', JStr (health_detail b))]"

definition reference_of :: "json \<Rightarrow> dict py" where
  "reference_of resource =
     bindE (get_or_dict resource ''metadata'') (\<lambda>m.
     bindE (jget resource ''apiVersion'') (\<lambda>av. bindE (jget resource ''kind'') (\<lambda>k.
     bindE (jget m ''namespace'') (\<lambda>ns. bindE (jget m ''name'') (\<lambda>n. bindE (jget m ''uid'') (\<lambda>uid.
     bindE (jget m ''resourceVersion'') (\<lambda>rv. bindE (jget m ''generation'') (\<lambda>g.
     Inr [(''api_version'', av), (''kind'', k), (''namespace'', ns), (''name'', n), (''uid'', uid),
          (''resource_version'', rv), (''generation'', g)]))))))))"

text \<open>\<open>json.loads\<close> raises \<open>TypeError\<close> or \<open>JSONDecodeError\<close> on what is not JSON.\<close>

definition decode_error :: "py_exc \<Rightarrow> bool" where
  "decode_error e \<longleftrightarrow> exc_type e \<in> {''TypeError'', ''JSONDecodeError''}"

definition read_error_step :: "dict \<Rightarrow> dict \<Rightarrow> string \<Rightarrow> read_state \<Rightarrow> read_state py" where
  "read_error_step item result text acc =
     (let acc1 = acc\<lparr>evidence := evidence acc @ [item @ detail_of text], all_passed := False,
            missing_count := missing_count acc
              + (if read_error_type result = JStr ''not_found''
                    \<or> contains_str (py_lower text) ''not found'' then 1 else 0)\<rparr>
      in if terminal_failure acc then Inr acc1
         else bindE (terminal_read_error result) (\<lambda>t. Inr (acc1\<lparr>terminal_failure := t\<rparr>)))"

definition bad_json_step :: "dict \<Rightarrow> read_state \<Rightarrow> read_state" where
  "bad_json_step item acc =
     acc\<lparr>evidence := evidence acc @ [item @ [(''passed'', JBool False),
            (''detail'', JStr ''invalid Kubernetes JSON response'')]], all_passed := False\<rparr>"

definition observed_step :: "dict \<Rightarrow> observation \<Rightarrow> dict \<Rightarrow> read_state \<Rightarrow> read_state" where
  "observed_step item b ref acc =
     \<lparr>evidence = evidence acc @ [item @ obs_item b], references = references acc @ [ref],
      all_passed = (all_passed acc \<and> obs_passed b),
      terminal_failure = (terminal_failure acc \<or> health_terminal b \<or> conflicting b),
      committed_count = committed_count acc
        + (if op_marker b \<and> state_marker b \<and> desired_ok b then 1 else 0),
      missing_count = missing_count acc\<rparr>"

text \<open>The body of the loop over the targets, from the result of the read.\<close>

definition judge_target ::
  "(string \<Rightarrow> json py) \<Rightarrow> mutation_operation \<Rightarrow> json \<Rightarrow> dict \<Rightarrow> read_state \<Rightarrow> read_state py" where
  "judge_target loads r t result acc =
     bindE (result_text result) (\<lambda>text.
     bindE (target_item t) (\<lambda>item.
     if is_error result then read_error_step item result text acc
     else case loads text of
       Inl e \<Rightarrow> if decode_error e then Inr (bad_json_step item acc) else Inl e
     | Inr resource \<Rightarrow>
         bindE (observe r t resource) (\<lambda>b.
         bindE (reference_of resource) (\<lambda>ref. Inr (observed_step item b ref acc)))))"

definition read_target ::
  "'e mcp \<Rightarrow> (string \<Rightarrow> json py) \<Rightarrow> mutation_operation \<Rightarrow> string \<Rightarrow> json \<Rightarrow> read_state
     \<Rightarrow> ('e, read_state) io" where
  "read_target M loads r run t acc =
     bindW (lift (k8s_get_args t (JStr ''default''))) (\<lambda>args.
     bindW (mcp_call M ''k8s_get'' args run) (\<lambda>result.
     lift (judge_target loads r t result acc)))"

fun read_targets ::
  "'e mcp \<Rightarrow> (string \<Rightarrow> json py) \<Rightarrow> mutation_operation \<Rightarrow> string \<Rightarrow> json list \<Rightarrow> read_state
     \<Rightarrow> ('e, read_state) io" where
  "read_targets M loads r run [] acc = ret acc"
| "read_targets M loads r run (t # ts) acc =
     bindW (read_target M loads r run t acc) (read_targets M loads r run ts)"

definition kube_result :: "read_state \<Rightarrow> bool \<times> bool \<times> dict" where
  "kube_result acc =
     (all_passed acc \<and> evidence acc \<noteq> [], terminal_failure acc,
      [(''targets'', JList (map JDict (evidence acc))),
       (''partial_commit_detected'', JBool (0 < committed_count acc \<and> 0 < missing_count acc)),
       (''external_reference'', JDict [(''resources'', JList (map JDict (references acc)))])])"

definition verify_kubernetes ::
  "'e mcp \<Rightarrow> (string \<Rightarrow> json py) \<Rightarrow> mutation_operation \<Rightarrow> string
     \<Rightarrow> ('e, bool \<times> bool \<times> dict) io" where
  "verify_kubernetes M loads r run =
     bindW (lift (py_iter (dget_def (verification_plan r) ''targets'' (JList [])))) (\<lambda>ts.
     bindW (read_targets M loads r run ts start_read) (\<lambda>acc. ret (kube_result acc)))"

subsection \<open>The Helm adapter\<close>

record helm_read =
  release_name :: json
  release_namespace :: json
  helm_state :: string
  helm_marker :: bool
  helm_version :: json

definition helm_passed :: "helm_read \<Rightarrow> bool" where
  "helm_passed h \<longleftrightarrow> helm_state h = ''deployed'' \<and> helm_marker h"

definition helm_terminal :: "helm_read \<Rightarrow> bool" where
  "helm_terminal h \<longleftrightarrow> helm_state h \<in> {''failed'', ''uninstalled''}"

definition helm_head :: "helm_read \<Rightarrow> dict" where
  "helm_head h =
     [(''release'', release_name h), (''namespace'', release_namespace h),
      (''status'', JStr (helm_state h)), (''marker_matches'', JBool (helm_marker h))]"

definition helm_reference :: "helm_read \<Rightarrow> dict" where
  "helm_reference h =
     [(''release'', release_name h), (''namespace'', release_namespace h), (''version'', helm_version h)]"

text \<open>The parsed status: its state, and whether its description carries the operation marker.\<close>

definition read_helm_status :: "mutation_operation \<Rightarrow> json \<Rightarrow> json \<Rightarrow> json \<Rightarrow> helm_read py" where
  "read_helm_status r rel ns payload =
     bindE (get_or_dict payload ''info'') (\<lambda>info.
     bindE (jget info ''status'') (\<lambda>s1.
     bindE (jget payload ''status'') (\<lambda>s2.
     bindE (jget info ''description'') (\<lambda>d.
     bindE (jget payload ''version'') (\<lambda>v.
     Inr \<lparr>release_name = rel, release_namespace = ns,
          helm_state = py_lower (py_str (por (por s1 s2) (JStr []))),
          helm_marker = contains_str (py_str (por d (JStr []))) (''skyflo-operation:'' @ op_id r),
          helm_version = v\<rparr>)))))"

definition WORKLOAD_KINDS :: "string list" where
  "WORKLOAD_KINDS = [''deployment'', ''statefulset'', ''daemonset'', ''pod'', ''job'']"

definition workload_targets :: "dict list \<Rightarrow> dict list" where
  "workload_targets ts = filter (\<lambda>t. py_lower (str_or t ''kind'' []) \<in> set WORKLOAD_KINDS) ts"

record workload_state =
  w_evidence :: "dict list"
  w_references :: "dict list"
  w_passed :: bool
  w_terminal :: bool

definition workload_reference :: "json \<Rightarrow> dict py" where
  "workload_reference resource =
     bindE (get_or_dict resource ''metadata'') (\<lambda>m.
     bindE (jget resource ''kind'') (\<lambda>k.
     bindE (jget m ''namespace'') (\<lambda>ns. bindE (jget m ''name'') (\<lambda>n. bindE (jget m ''uid'') (\<lambda>uid.
     bindE (jget m ''generation'') (\<lambda>g.
     Inr [(''kind'', k), (''namespace'', ns), (''name'', n), (''uid'', uid), (''generation'', g)]))))))"

definition judge_workload ::
  "(string \<Rightarrow> json py) \<Rightarrow> dict \<Rightarrow> dict \<Rightarrow> workload_state \<Rightarrow> workload_state py" where
  "judge_workload loads t result acc =
     bindE (target_item (JDict t)) (\<lambda>item.
     bindE (result_text result) (\<lambda>text.
     if is_error result then
       (let acc1 = acc\<lparr>w_evidence := w_evidence acc @ [item @ detail_of text], w_passed := False\<rparr>
        in if w_terminal acc then Inr acc1
           else bindE (terminal_read_error result) (\<lambda>b. Inr (acc1\<lparr>w_terminal := b\<rparr>)))
     else case loads text of
       Inl e \<Rightarrow> if decode_error e then
           Inr (acc\<lparr>w_evidence := w_evidence acc @ [item @ [(''passed'', JBool False),
                  (''detail'', JStr ''invalid Kubernetes JSON response'')]], w_passed := False\<rparr>)
         else Inl e
     | Inr resource \<Rightarrow>
         bindE (desired_check (JDict t) resource) (\<lambda>desired.
         bindE (workload_health resource) (\<lambda>(ok, health_terminal, detail).
         bindE (workload_reference resource) (\<lambda>ref.
         Inr \<lparr>w_evidence = w_evidence acc @ [item @ [(''passed'', JBool (desired \<and> ok)),
                (''desired_spec_matches'', JBool desired), (''detail'', JStr detail)]],
              w_references = w_references acc @ [ref],
              w_passed = (w_passed acc \<and> desired \<and> ok),
              w_terminal = (w_terminal acc \<or> health_terminal)\<rparr>)))))"

fun read_workloads ::
  "'e mcp \<Rightarrow> (string \<Rightarrow> json py) \<Rightarrow> json \<Rightarrow> string \<Rightarrow> dict list \<Rightarrow> workload_state
     \<Rightarrow> ('e, workload_state) io" where
  "read_workloads M loads ns run [] acc = ret acc"
| "read_workloads M loads ns run (t # ts) acc =
     bindW (lift (k8s_get_args (JDict t) ns)) (\<lambda>args.
     bindW (mcp_call M ''k8s_get'' args run) (\<lambda>result.
     bindW (lift (judge_workload loads t result acc)) (read_workloads M loads ns run ts)))"

definition helm_result :: "helm_read \<Rightarrow> dict list \<Rightarrow> workload_state \<Rightarrow> bool \<times> bool \<times> dict" where
  "helm_result h workloads acc =
     (helm_passed h \<and> (workloads = [] \<or> w_passed acc), helm_terminal h \<or> w_terminal acc,
      helm_head h
      @ [(''verification_scope'', JStr (if workloads \<noteq> [] then ''release_and_workloads''
                                        else ''release_no_workloads_declared'')),
         (''workloads'', JList (map JDict (w_evidence acc))),
         (''external_reference'', JDict (helm_reference h
            @ [(''workloads'', JList (map JDict (w_references acc)))]))])"

text \<open>The second half: the release is deployed by this operation, its workloads are checked.\<close>

definition verify_release_workloads ::
  "'e mcp \<Rightarrow> (string \<Rightarrow> json py) \<Rightarrow> yaml \<Rightarrow> helm_read \<Rightarrow> string \<Rightarrow> ('e, bool \<times> bool \<times> dict) io" where
  "verify_release_workloads M loads Y h run =
     bindW (mcp_call M ''helm_get_manifest''
        [(''release_name'', release_name h), (''namespace'', release_namespace h)] run) (\<lambda>result.
     bindW (lift (result_text result)) (\<lambda>text.
     if is_error result then
       bindW (lift (terminal_read_error result)) (\<lambda>t.
       ret (False, t, helm_head h @ [(''verification_scope'', JStr ''release_and_workloads''),
         (''reason'', JStr ''helm_manifest_unavailable''), (''detail'', JStr (take 500 text))]))
     else case parse_manifest_targets Y text (py_str (release_namespace h)) of
       Inl e \<Rightarrow> ret (False, False, helm_head h
         @ [(''verification_scope'', JStr ''release_and_workloads''),
            (''reason'', JStr ''helm_manifest_invalid''), (''detail'', JStr (exc_type e))])
     | Inr ts \<Rightarrow>
         bindW (read_workloads M loads (release_namespace h) run (workload_targets ts)
           \<lparr>w_evidence = [], w_references = [], w_passed = True, w_terminal = False\<rparr>) (\<lambda>acc.
         ret (helm_result h (workload_targets ts) acc))))"

definition verify_helm ::
  "'e mcp \<Rightarrow> (string \<Rightarrow> json py) \<Rightarrow> yaml \<Rightarrow> mutation_operation \<Rightarrow> string
     \<Rightarrow> ('e, bool \<times> bool \<times> dict) io" where
  "verify_helm M loads Y r run =
     bindW (lift (subscript (JDict (verification_plan r)) ''release_name'')) (\<lambda>rel.
     bindW (lift (subscript (JDict (verification_plan r)) ''namespace'')) (\<lambda>ns.
     bindW (mcp_call M ''helm_status''
        [(''release_name'', rel), (''namespace'', ns), (''output'', JStr ''json'')] run) (\<lambda>result.
     bindW (lift (result_text result)) (\<lambda>text.
     if is_error result then
       bindW (lift (terminal_read_error result)) (\<lambda>t.
       ret (False, t, [(''reason'', JStr ''helm_status_error''), (''detail'', JStr (take 500 text))]))
     else case loads text of
       Inl e \<Rightarrow> if decode_error e then
           ret (False, False, [(''reason'', JStr ''invalid_helm_status_json''),
                               (''detail'', JStr (take 500 text))])
         else raise e
     | Inr payload \<Rightarrow>
         bindW (lift (read_helm_status r rel ns payload)) (\<lambda>h.
         if helm_passed h then verify_release_workloads M loads Y h run
         else ret (False, helm_terminal h, helm_head h
           @ [(''verification_scope'', JStr ''release''),
              (''external_reference'', JDict (helm_reference h))]))))))"

subsection \<open>Polling under the verification lease\<close>

text \<open>One round: an adapter's error is not terminal, the next round may succeed.\<close>

definition verify_round ::
  "'e mcp \<Rightarrow> (string \<Rightarrow> json py) \<Rightarrow> yaml \<Rightarrow> mutation_operation \<Rightarrow> string
     \<Rightarrow> ('e, bool \<times> bool \<times> dict) io" where
  "verify_round M loads Y r run =
     catchW
       (if dget (verification_plan r) ''adapter'' = JStr ''kubernetes_apply''
        then verify_kubernetes M loads r run
        else if dget (verification_plan r) ''adapter'' = JStr ''helm_release''
        then verify_helm M loads Y r run
        else ret (False, True, [(''reason'', JStr ''verification_adapter_not_supported'')]))
       (\<lambda>e. ret (False, False, [(''reason'', JStr ''verification_adapter_error''),
                                (''detail'', JStr (exc_type e))]))"

text \<open>
  The verdict of a round, if it ends the loop at the monotonic time \<open>now\<close>.
\<close>

definition round_verdict ::
  "int \<Rightarrow> int \<Rightarrow> bool \<times> bool \<times> dict \<Rightarrow> (verification_status \<times> dict) option" where
  "round_verdict deadline now round =
     (case round of (passed, terminal, result) \<Rightarrow>
        if passed then Some (PASSED, result)
        else if terminal then Some (FAILED, result)
        else if deadline \<le> now then
          (if truthy (dget result ''partial_commit_detected'')
           then Some (FAILED, AList.update ''reason'' (JStr ''partial_commit_detected'') result)
           else Some (INCONCLUSIVE, AList.update ''reason'' (JStr ''verification_timeout'') result))
        else None)"

partial_function (option) poll ::
  "('e, bool \<times> bool \<times> dict) io \<Rightarrow> ('e, unit) io \<Rightarrow> int \<Rightarrow> 'e world
     \<Rightarrow> ((verification_status \<times> dict) py \<times> 'e world) option" where
  "poll check pause deadline w =
     (case check w of
        (Inl e, w1) \<Rightarrow> Some (Inl e, w1)
      | (Inr round, w1) \<Rightarrow>
          (case round_verdict deadline (wmono w1) round of
             Some v \<Rightarrow> Some (Inr v, w1)
           | None \<Rightarrow>
               (case pause w1 of
                  (Inl e, w2) \<Rightarrow> Some (Inl e, w2)
                | (Inr _, w2) \<Rightarrow> poll check pause deadline w2)))"

definition bool_result :: "bool \<Rightarrow> bool \<Rightarrow> dict" where
  "bool_result passed inconclusive =
     [(''passed'', JBool passed), (''inconclusive'', JBool inconclusive)]"

definition summary_result :: "bool \<Rightarrow> bool \<Rightarrow> verification_status \<Rightarrow> mutation_operation \<Rightarrow> json \<Rightarrow> dict" where
  "summary_result passed inconclusive status r ev =
     bool_result passed inconclusive
     @ [(''status'', JStr (ver_value status)), (''operation'', JDict (public_summary r)),
        (''evidence'', ev)]"

text \<open>The answer when the lease could not be claimed.\<close>

definition unclaimed_result :: "mutation_operation \<Rightarrow> dict" where
  "unclaimed_result r =
     (let status = verification_status r in
      if status = PASSED
      then summary_result True False status r (por (verification_result r) (JDict []))
      else summary_result False (status \<notin> {FAILED, NEEDS_REVIEW}) status r
             (por (verification_result r) (JDict [(''reason'', JStr ''verification_already_in_progress'')])))"

definition verification_run_id :: "mutation_operation \<Rightarrow> string \<Rightarrow> string" where
  "verification_run_id r owner =
     (if starts_with owner ''recovery:'' then ''verification:'' @ op_id r @ '':'' @ owner
      else op_run_id r)"

text \<open>From the outcome of the polling loop: record the verdict, or release the lease.\<close>

definition conclude ::
  "string \<Rightarrow> string \<Rightarrow> (verification_status \<times> dict) py \<Rightarrow> ('e, dict) io" where
  "conclude oid owner outcome =
     (case outcome of
        Inl e \<Rightarrow>
          if cancelled e then
            bindW (on_journal (\<lambda>now. abandon_verification oid owner ''verification_cancelled'' now))
              (\<lambda>_. raise e)
          else raise e
      | Inr (status, result) \<Rightarrow>
          bindW (on_journal (\<lambda>now. record_verification oid owner status result
                   (dget result ''external_reference'') now)) (\<lambda>r.
          ret (summary_result (status = PASSED) (status = INCONCLUSIVE) status r (JDict result))))"

definition verify ::
  "'e mcp \<Rightarrow> (string \<Rightarrow> json py) \<Rightarrow> yaml \<Rightarrow> settings \<Rightarrow> string \<Rightarrow> string \<Rightarrow> 'e world
     \<Rightarrow> (dict py \<times> 'e world) option" where
  "verify M loads Y S oid owner w =
     (case find_row oid (wj w) of
        None \<Rightarrow> Some (Inr (bool_result False True @ [(''reason'', JStr ''operation_not_found'')]), w)
      | Some r0 \<Rightarrow>
          (case on_journal (\<lambda>now. claim_verification S oid owner now now) w of
             (Inl e, w1) \<Rightarrow> Some (Inl e, w1)
           | (Inr (r, claimed), w1) \<Rightarrow>
               if \<not> claimed then Some (Inr (unclaimed_result r), w1)
               else (case poll (verify_round M loads Y r (verification_run_id r0 owner))
                            (mcp_sleep M (MUTATION_VERIFICATION_INTERVAL_US S))
                            (wmono w1 + seconds (MUTATION_VERIFICATION_TIMEOUT_SECONDS S)) w1 of
                       None \<Rightarrow> None
                     | Some (outcome, w2) \<Rightarrow> Some (conclude oid owner outcome w2))))"

subsection \<open>The recovery worker\<close>

definition recovery_candidate :: "int \<Rightarrow> mutation_operation \<Rightarrow> bool" where
  "recovery_candidate cutoff r \<longleftrightarrow>
     execution_status r \<in> {UNKNOWN, REPORTED_SUCCESS}
     \<and> verification_status r \<in> {PENDING, INCONCLUSIVE} \<and> updated_at r < cutoff"

definition publishes :: "dict \<Rightarrow> bool" where
  "publishes result \<longleftrightarrow> dget result ''status'' \<in>
     {JStr (ver_value PASSED), JStr (ver_value FAILED), JStr (ver_value NEEDS_REVIEW)}"

text \<open>One operation of the batch: everything but a cancellation is logged and swallowed.\<close>

definition reconcile_one ::
  "(mutation_operation \<Rightarrow> dict \<Rightarrow> ('e, unit) io) option
     \<Rightarrow> ('e world \<Rightarrow> (dict py \<times> 'e world) option) \<Rightarrow> string \<Rightarrow> 'e world \<Rightarrow> (nat py \<times> 'e world) option" where
  "reconcile_one callback check oid w =
     (case check w of
        None \<Rightarrow> None
      | Some (Inl e, w1) \<Rightarrow> Some (if cancelled e then Inl e else Inr 0, w1)
      | Some (Inr result, w1) \<Rightarrow>
          (case callback of
             None \<Rightarrow> Some (Inr 1, w1)
           | Some report \<Rightarrow>
               if \<not> publishes result then Some (Inr 1, w1)
               else (case find_row oid (wj w1) of
                  None \<Rightarrow> Some (Inr 1, w1)
                | Some current \<Rightarrow>
                    (case report current result w1 of
                       (Inl e, w2) \<Rightarrow> Some (if cancelled e then Inl e else Inr 1, w2)
                     | (Inr _, w2) \<Rightarrow> Some (Inr 1, w2)))))"

fun reconcile_batch ::
  "(mutation_operation \<Rightarrow> dict \<Rightarrow> ('e, unit) io) option
     \<Rightarrow> (string \<Rightarrow> string \<Rightarrow> 'e world \<Rightarrow> (dict py \<times> 'e world) option)
     \<Rightarrow> (string \<times> string) list \<Rightarrow> nat \<Rightarrow> 'e world \<Rightarrow> (nat py \<times> 'e world) option" where
  "reconcile_batch callback check [] n w = Some (Inr n, w)"
| "reconcile_batch callback check ((oid, owner) # ops) n w =
     (case reconcile_one callback (check oid owner) oid w of
        None \<Rightarrow> None
      | Some (Inl e, w1) \<Rightarrow> Some (Inl e, w1)
      | Some (Inr k, w1) \<Rightarrow> reconcile_batch callback check ops (n + k) w1)"

text \<open>\<open>uuids\<close> are the values of \<open>uuid4()\<close> in the order the pass draws them.\<close>

definition recovery_ops :: "settings \<Rightarrow> string list \<Rightarrow> 'e world \<Rightarrow> (string \<times> string) list" where
  "recovery_ops S uuids w =
     zip (map op_id (take (nat (MUTATION_RECOVERY_BATCH_SIZE S))
           (filter (recovery_candidate (wnow w - seconds (MUTATION_RECOVERY_GRACE_SECONDS S))) (wj w))))
         (map (\<lambda>u. ''recovery:'' @ u) uuids)"

definition start_recovery :: "'e world \<Rightarrow> 'e world" where
  "start_recovery w =
     snd (on_journal recover_stale_verifications (snd (on_journal recover_stale_executions w)))"

definition reconcile_once ::
  "'e mcp \<Rightarrow> (string \<Rightarrow> json py) \<Rightarrow> yaml \<Rightarrow> settings
     \<Rightarrow> (mutation_operation \<Rightarrow> dict \<Rightarrow> ('e, unit) io) option \<Rightarrow> string list \<Rightarrow> 'e world
     \<Rightarrow> (nat py \<times> 'e world) option" where
  "reconcile_once M loads Y S callback uuids w =
     (let w1 = start_recovery w
      in reconcile_batch callback (verify M loads Y S) (recovery_ops S uuids w1) 0 w1)"

end
