(* ===== verification/Jenkins.thy ===== *)
theory Jenkins
  imports Capabilities
begin

text \<open>
  \<open>integrations/jenkins/jenkins.py\<close>: which Jenkins tools the model sees, with which parameters
  hidden, and the stored connection data put into a call.
\<close>

record integration =
  int_status :: string
  int_metadata :: dict
  int_credentials_ref :: json

definition is_jenkins_tool_name :: "json \<Rightarrow> bool" where
  "is_jenkins_tool_name v = (case v of JStr s \<Rightarrow> starts_with s ''jenkins_'' | _ \<Rightarrow> False)"

definition has_tag :: "json \<Rightarrow> bool" where
  "has_tag tags = (case tags of JList ts \<Rightarrow> JStr ''jenkins'' \<in> set ts | _ \<Rightarrow> False)"

text \<open>Any exception while looking at the tags means no tag.\<close>

definition tool_has_jenkins_tag :: "dict \<Rightarrow> bool" where
  "tool_has_jenkins_tag tool =
     (if is_jenkins_tool_name (dget tool ''name'') then True
      else if has_tag (dget tool ''tags'') then True
      else case bindE (jget (por (dget_def tool ''meta'' (JDict [])) (JDict [])) ''_fastmcp'') (\<lambda>fm.
                jget (por fm (JDict [])) ''tags'') of
             Inl _ \<Rightarrow> False
           | Inr tags \<Rightarrow> has_tag tags)"

definition STRIPPED_PARAMS :: "string list" where
  "STRIPPED_PARAMS = [''api_url'', ''credentials_ref'']"

text \<open>\<open>if p in props: props.pop(p, None)\<close>; a list has no two-argument \<open>pop\<close>.\<close>

definition pop_prop :: "string \<Rightarrow> json \<Rightarrow> json py" where
  "pop_prop p props =
     (case props of
        JDict d \<Rightarrow> Inr (JDict (AList.delete p d))
      | JList xs \<Rightarrow> if JStr p \<in> set xs
          then Inl (Exc ''TypeError'' ''pop expected at most 1 argument, got 2'') else Inr props
      | JStr s \<Rightarrow> if contains_str s p then Inl (attr_error props ''pop'') else Inr props
      | _ \<Rightarrow> Inl (iter_error props))"

definition strip_jenkins_input_params :: "dict \<Rightarrow> dict py" where
  "strip_jenkins_input_params tool =
     (case por (dget tool ''inputSchema'') (dget tool ''input_schema'') of
        JDict schema \<Rightarrow>
          bindE (py_iter (por (dget_def schema ''required'' (JList [])) (JList []))) (\<lambda>required.
          bindE (pop_prop ''api_url'' (por (dget_def schema ''properties'' (JDict [])) (JDict []))) (\<lambda>props1.
          bindE (pop_prop ''credentials_ref'' props1) (\<lambda>props.
          let kept = filter (\<lambda>r. r \<notin> JStr ` set STRIPPED_PARAMS) required;
              schema1 = AList.update ''properties'' props schema;
              schema2 = (if kept \<noteq> [] then AList.update ''required'' (JList kept) schema1
                         else AList.delete ''required'' schema1)
          in Inr (AList.update ''input_schema'' (JDict schema2)
                   (AList.update ''inputSchema'' (JDict schema2) tool)))))
      | _ \<Rightarrow> Inr tool)"

fun transform_jenkins_tools :: "dict list \<Rightarrow> dict list py" where
  "transform_jenkins_tools [] = Inr []"
| "transform_jenkins_tools (t # ts) =
     bindE (if tool_has_jenkins_tag t then strip_jenkins_input_params t else Inr t) (\<lambda>t'.
     bindE (transform_jenkins_tools ts) (\<lambda>ts'. Inr (t' # ts')))"

definition filter_jenkins_tools :: "dict list \<Rightarrow> string option \<Rightarrow> bool \<Rightarrow> dict list py" where
  "filter_jenkins_tools tools status configured =
     (if \<not> configured \<or> status = Some ''disabled''
      then Inr (filter (\<lambda>t. \<not> tool_has_jenkins_tag t) tools)
      else transform_jenkins_tools tools)"

definition is_jenkins_tool :: "json \<Rightarrow> string \<Rightarrow> bool py" where
  "is_jenkins_tool metadata name =
     (if \<not> truthy metadata then Inr (starts_with name ''jenkins_'')
      else case metadata of
        JDict m \<Rightarrow> Inr (tool_has_jenkins_tag m \<or> starts_with name ''jenkins_'')
      | _ \<Rightarrow> Inr (starts_with name ''jenkins_''))"

definition not_configured :: string where
  "not_configured = ''Jenkins integration is not configured. ''
     @ ''Admins can create one via /api/v1/integrations.''"

definition inject_jenkins_metadata_tool_args ::
  "string \<Rightarrow> dict \<Rightarrow> json \<Rightarrow> integration option \<Rightarrow> (dict \<times> string option) py" where
  "inject_jenkins_metadata_tool_args name args metadata integ =
     bindE (is_jenkins_tool metadata name) (\<lambda>jenkins.
     if \<not> jenkins then Inr (args, None)
     else case integ of
       None \<Rightarrow> Inr (args, Some not_configured)
     | Some i \<Rightarrow>
         if int_status i = ''disabled'' then Inr (args, Some not_configured)
         else
           (let p1 = (if map_of args ''api_url'' = None
                      then (case map_of (int_metadata i) ''api_url'' of
                              Some u \<Rightarrow> AList.update ''api_url'' u args | None \<Rightarrow> args)
                      else args)
            in Inr (if map_of p1 ''credentials_ref'' = None \<and> truthy (int_credentials_ref i)
                    then AList.update ''credentials_ref'' (int_credentials_ref i) p1 else p1, None)))"

definition strip_jenkins_metadata_tool_args :: "dict \<Rightarrow> dict" where
  "strip_jenkins_metadata_tool_args args = filter (\<lambda>(k, v). k \<notin> set STRIPPED_PARAMS) args"

subsection \<open>What the model sees and sends\<close>

lemma strip_no_metadata:
  "map_of (strip_jenkins_metadata_tool_args args) ''api_url'' = None
   \<and> map_of (strip_jenkins_metadata_tool_args args) ''credentials_ref'' = None"
  by (auto simp: strip_jenkins_metadata_tool_args_def STRIPPED_PARAMS_def map_of_eq_None_iff)

lemma strip_undoes_inject:
  assumes "inject_jenkins_metadata_tool_args name args metadata integ = Inr (out, None)"
    and "map_of args ''api_url'' = None" and "map_of args ''credentials_ref'' = None"
  shows "strip_jenkins_metadata_tool_args out = args"
proof -
  have upd: "map_of d k = None \<Longrightarrow> AList.update k v d = d @ [(k, v)]" for d :: dict and k v
    by (induction d) (auto split: if_splits)
  have args: "filter (\<lambda>(k, v). k \<notin> set STRIPPED_PARAMS) args = args"
    using assms(2,3) by (auto simp: STRIPPED_PARAMS_def map_of_eq_None_iff filter_id_conv image_iff)
  have "out \<in> {args} \<union> {args @ [(''api_url'', u)] | u. True} \<union> {args @ [(''credentials_ref'', c)] | c. True}
      \<union> {args @ [(''api_url'', u), (''credentials_ref'', c)] | u c. True}"
    using assms
    by (auto simp: inject_jenkins_metadata_tool_args_def bindE_Inr_iff Let_def upd
        split: if_splits option.splits json.splits)
  then show ?thesis using args by (auto simp: strip_jenkins_metadata_tool_args_def STRIPPED_PARAMS_def)
qed

end
