(* ===== verification/Executor.thy ===== *)
theory Executor
  imports Verifier Jenkins
begin

text \<open>
  \<open>ToolExecutor.execute\<close> of \<open>services/tool_executor.py\<close>, stage by stage: the registry check,
  integration parameters and validation, the policy, the approval, the journal, the call and
  the recording of its outcome. A stage either ends the execution with the content blocks it
  returns (\<open>Stop\<close>) or goes on.
\<close>

datatype 'a stage = Stop json | Go 'a

definition bindS :: "('e, 'a stage) io \<Rightarrow> ('a \<Rightarrow> ('e, json) io) \<Rightarrow> ('e, json) io" where
  "bindS m f = bindW m (\<lambda>s. case s of Stop blocks \<Rightarrow> ret blocks | Go a \<Rightarrow> f a)"

text \<open>
  What the executor works with: the settings, the libraries, whether events are published, the
  cached tool metadata, the stored integration and the MCP client. An event is published through
  Redis and the database, and a method of the journal first waits for its transaction: what
  happens meanwhile, in the journal too, is \<open>en_publish\<close> and \<open>en_transaction\<close>, which may also fail.
\<close>

record 'e engine =
  en_settings :: settings
  en_yaml :: yaml
  en_hmac :: "string \<Rightarrow> string \<Rightarrow> string"
  en_uuid :: "string \<Rightarrow> string py"
  en_sse :: bool
  en_metadata :: "string \<Rightarrow> ('e, json) io"
  en_integration :: "('e, integration option) io"
  en_mcp :: "'e mcp"
  en_publish :: "('e, unit) io"
  en_transaction :: "('e, unit) io"

record tool_call =
  tc_run :: string
  tc_name :: string
  tc_call :: string
  tc_op :: string
  tc_context :: dict

definition emit :: "'e engine \<Rightarrow> bool \<Rightarrow> string \<Rightarrow> dict \<Rightarrow> ('e, unit) io" where
  "emit E on type payload w =
     (if on then bindW (publish type (payload @ [(''timestamp'', JInt (wnow w div 1000))])) (\<lambda>_. en_publish E) w
      else ret () w)"

definition transact :: "'e engine \<Rightarrow> (int \<Rightarrow> journal \<Rightarrow> 'a py \<times> journal) \<Rightarrow> ('e, 'a) io" where
  "transact E f = bindW (en_transaction E) (\<lambda>_. on_journal f)"

definition read_journal :: "'e engine \<Rightarrow> ('e, journal) io" where
  "read_journal E = bindW (en_transaction E) (\<lambda>_ w. (Inr (wj w), w))"

definition text_block :: "string \<Rightarrow> json" where
  "text_block s = JDict [(''type'', JStr ''text''), (''text'', JStr s)]"

definition get_tool_metadata :: "'e engine \<Rightarrow> string \<Rightarrow> ('e, json) io" where
  "get_tool_metadata E name = catchW (en_metadata E name) (\<lambda>e. ret JNull)"

definition is_system_tool :: "json \<Rightarrow> bool py" where
  "is_system_tool metadata =
     (if \<not> truthy metadata then Inr False
      else bindE (jget metadata ''annotations'') (\<lambda>a.
           bindE (jget_def (por a (JDict [])) ''systemTool'' (JBool False)) (\<lambda>v. Inr (truthy v))))"

definition tool_title :: "json \<Rightarrow> string \<Rightarrow> json py" where
  "tool_title metadata name =
     (if truthy metadata then jget_def metadata ''title'' (JStr name) else Inr (JStr name))"

definition mutation_meta_block ::
  "mutation_operation \<Rightarrow> bool \<Rightarrow> json \<Rightarrow> json list option \<Rightarrow> json" where
  "mutation_meta_block r requires title display =
     JDict ([(''type'', JStr ''skyflo.mutation''), (''operation_id'', JStr (op_id r)),
             (''call_id'', JStr (op_call_id r)), (''tool'', JStr (op_tool r)),
             (''execution_status'', JStr (exec_value (execution_status r))),
             (''verification_status'', JStr (ver_value (verification_status r))),
             (''requires_verification'', JBool requires)]
            @ (if truthy title then [(''title'', title)] else [])
            @ (case display of None \<Rightarrow> [] | Some d \<Rightarrow> [(''display_result'', JList d)]))"

definition reliability_dict :: "dict \<Rightarrow> dict" where
  "reliability_dict result =
     (let rel = por (dget result ''reliability'') (JDict []);
          rel1 = (case rel of JList [] \<Rightarrow> JDict [] | JList (r # _) \<Rightarrow> r | _ \<Rightarrow> rel)
      in case rel1 of JDict d \<Rightarrow> d | _ \<Rightarrow> [])"

subsection \<open>Checks before the policy\<close>

definition tool_event :: "tool_call \<Rightarrow> json \<Rightarrow> dict \<Rightarrow> dict" where
  "tool_event c title extra =
     [(''call_id'', JStr (tc_call c)), (''tool'', JStr (tc_name c)), (''title'', title),
      (''run_id'', JStr (tc_run c))] @ extra"

definition registry_stage :: "'e engine \<Rightarrow> tool_call \<Rightarrow> json \<Rightarrow> json \<Rightarrow> bool \<Rightarrow> ('e, unit stage) io" where
  "registry_stage E c metadata title on =
     bindW (lift (capability_error (tc_name c) metadata)) (\<lambda>err.
       case err of
         None \<Rightarrow> ret (Go ())
       | Some msg \<Rightarrow>
           bindW (emit E on ''tool.error'' (tool_event c title [(''error'', JStr msg)])) (\<lambda>_.
           ret (Stop (JList [text_block msg]))))"

definition inject_stage ::
  "'e engine \<Rightarrow> tool_call \<Rightarrow> json \<Rightarrow> json \<Rightarrow> dict \<Rightarrow> ('e, dict stage) io" where
  "inject_stage E c metadata title args =
     bindW (en_integration E) (\<lambda>integ.
     bindW (lift (inject_jenkins_metadata_tool_args (tc_name c) args metadata integ)) (\<lambda>(args', err).
       case err of
         None \<Rightarrow> ret (Go args')
       | Some msg \<Rightarrow>
           bindW (emit E (en_sse E) ''tool.error'' (tool_event c title [(''error'', JStr msg)])) (\<lambda>_.
           ret (Stop (JList [text_block msg])))))"

text \<open>\<open>", ".join(missing)\<close> raises unless every item is a string.\<close>

fun str_items :: "nat \<Rightarrow> json list \<Rightarrow> string list py" where
  "str_items n [] = Inr []"
| "str_items n (v # vs) =
     (case v of
        JStr s \<Rightarrow> bindE (str_items (Suc n) vs) (\<lambda>ss. Inr (s # ss))
      | _ \<Rightarrow> Inl (Exc ''TypeError'' (''sequence item '' @ nat_str n
               @ '': expected str instance, '' @ type_name v @ '' found'')))"

definition missing_params :: "json \<Rightarrow> dict \<Rightarrow> string option py" where
  "missing_params schema args =
     (case schema of
        JDict s \<Rightarrow>
          (case map_of s ''required'' of
             None \<Rightarrow> Inr None
           | Some v \<Rightarrow>
               bindE (py_iter v) (\<lambda>required.
               case find (\<lambda>p. \<not> hashable p) required of
                 Some p \<Rightarrow> Inl (unhashable_error p)
               | None \<Rightarrow>
                   (let missing = filter (\<lambda>p. p \<notin> JStr ` fst ` set args) required in
                    if missing = [] then Inr None
                    else bindE (str_items 0 missing) (\<lambda>ss.
                         Inr (Some (''Missing required parameters: '' @ join_str '', '' ss))))))
      | _ \<Rightarrow> Inr None)"

definition validate_tool_parameters ::
  "'e engine \<Rightarrow> string \<Rightarrow> dict \<Rightarrow> json \<Rightarrow> ('e, string option) io" where
  "validate_tool_parameters E name args metadata =
     catchW
       (bindW (if truthy metadata then ret metadata else get_tool_metadata E name) (\<lambda>schema.
        if \<not> truthy schema then
          ret (Some (''Tool '' @ quoted name @ '' not found in available tools''))
        else bindW (lift (jget schema ''inputSchema'')) (\<lambda>s1.
             bindW (lift (jget schema ''input_schema'')) (\<lambda>s2.
             lift (missing_params (por s1 s2) args)))))
       (\<lambda>e. ret (Some (''Parameter validation error: '' @ exc_msg e)))"

definition validate_stage :: "'e engine \<Rightarrow> tool_call \<Rightarrow> dict \<Rightarrow> json \<Rightarrow> ('e, unit stage) io" where
  "validate_stage E c args metadata =
     bindW (validate_tool_parameters E (tc_name c) args metadata) (\<lambda>err.
       case err of
         Some (m # ms) \<Rightarrow> ret (Stop (JList [text_block (''Tool validation failed: '' @ m # ms)]))
       | _ \<Rightarrow> ret (Go ()))"

subsection \<open>Policy and approval\<close>

text \<open>\<open>(v or "").strip()\<close>: nothing but a string has \<open>strip\<close>.\<close>

definition opt_text :: "json \<Rightarrow> string option py" where
  "opt_text v =
     (if \<not> truthy v then Inr None
      else case v of JStr s \<Rightarrow> Inr (Some s) | _ \<Rightarrow> Inl (attr_error v ''strip''))"

definition approval_needed :: "'e engine \<Rightarrow> string \<Rightarrow> ('e, bool) io" where
  "approval_needed E name =
     (case get_tool_capability name of
        Some cap \<Rightarrow>
          if is_infrastructure_tool name then ret (requires_approval cap)
          else bindW (get_tool_metadata E name) (\<lambda>m. ret (need_approval (Some (\<lambda>_. Inr m)) name))
      | None \<Rightarrow> bindW (get_tool_metadata E name) (\<lambda>m. ret (need_approval (Some (\<lambda>_. Inr m)) name)))"

definition CONTROLLED_MUTATION_TOOLS :: "string list" where
  "CONTROLLED_MUTATION_TOOLS =
     [''k8s_apply'', ''helm_install'', ''helm_install_with_values'', ''helm_upgrade'', ''helm_rollback'']"

definition infrastructure_mutation :: "settings \<Rightarrow> bool \<Rightarrow> string \<Rightarrow> bool" where
  "infrastructure_mutation S needs name \<longleftrightarrow>
     MUTATION_CONTROL_ENABLED S \<and> needs \<and> is_infrastructure_tool name"

definition controlled_mutation :: "settings \<Rightarrow> bool \<Rightarrow> string \<Rightarrow> bool" where
  "controlled_mutation S needs name \<longleftrightarrow>
     infrastructure_mutation S needs name
     \<and> (case get_tool_capability name of None \<Rightarrow> False | Some cap \<Rightarrow> controlled cap)
     \<and> name \<in> set CONTROLLED_MUTATION_TOOLS"

definition context_policy :: "'e engine \<Rightarrow> tool_call \<Rightarrow> dict \<Rightarrow> policy_decision py" where
  "context_policy E c args =
     (let ctx = tc_context c; uid = dget ctx ''user_id'' in
      bindE (opt_text (dget ctx ''environment'')) (\<lambda>env.
      bindE (opt_text (dget ctx ''user_role'')) (\<lambda>role.
      Inr (evaluate_policy (en_settings E) (en_yaml E) (tc_name c) args
             (if truthy uid then Some (py_str uid) else None) role env))))"

definition unsupported_reason :: "string \<Rightarrow> string" where
  "unsupported_reason name =
     ''Mutation blocked: deterministic authorization and verification ''
     @ ''adapters are not registered for '' @ name @ ''.''"

definition policy_stage ::
  "'e engine \<Rightarrow> tool_call \<Rightarrow> json \<Rightarrow> bool \<Rightarrow> dict \<Rightarrow> ('e, (policy_decision \<times> dict) stage) io" where
  "policy_stage E c title on args =
     bindW (lift (context_policy E c args)) (\<lambda>d.
     if \<not> allowed d then
       bindW (emit E on ''mutation.policy_denied''
         [(''run_id'', JStr (tc_run c)), (''call_id'', JStr (tc_call c)), (''operation_id'', JStr (tc_op c)),
          (''tool'', JStr (tc_name c)), (''rule'', JStr (rule d)), (''reason'', JStr (reason d))]) (\<lambda>_.
       bindW (emit E on ''tool.error'' (tool_event c title [(''error'', JStr (reason d))])) (\<lambda>_.
       ret (Stop (JList [text_block (''Tool policy denied: '' @ reason d)]))))
     else
       bindW (lift (build_verification_plan (en_yaml E) (tc_name c) args (tc_op c))) (\<lambda>plan.
       if \<not> truthy (dget plan ''supported'') then
         bindW (emit E on ''tool.error''
           (tool_event c title [(''error'', JStr (unsupported_reason (tc_name c)))])) (\<lambda>_.
         ret (Stop (JList [text_block (unsupported_reason (tc_name c))])))
       else ret (Go (d, plan))))"

text \<open>\<open>context.get("approval_decisions", {}).get(call_id)\<close>, and None on any exception.\<close>

definition approval_decision :: "tool_call \<Rightarrow> json" where
  "approval_decision c =
     (case jget (dget_def (tc_context c) ''approval_decisions'' (JDict [])) (tc_call c) of
        Inl _ \<Rightarrow> JNull
      | Inr v \<Rightarrow> v)"

definition approval_pending :: "tool_call \<Rightarrow> py_exc" where
  "approval_pending c = Exc ''ApprovalPending''
     (''Approval pending for '' @ tc_name c @ '' ('' @ tc_call c @ '')'')"

definition approval_stage :: "'e engine \<Rightarrow> tool_call \<Rightarrow> json \<Rightarrow> bool \<Rightarrow> dict \<Rightarrow> ('e, unit stage) io" where
  "approval_stage E c title on event_args =
     (let args_event = tool_event c title [(''args'', JDict event_args)] in
      case approval_decision c of
        JNull \<Rightarrow>
          bindW (emit E on ''tool.awaiting_approval'' (args_event @ [(''context'', JDict (tc_context c))])) (\<lambda>_.
          raise (approval_pending c))
      | JBool False \<Rightarrow>
          bindW (emit E on ''tool.denied'' args_event) (\<lambda>_.
          ret (Stop (JList [text_block ''Tool call was denied by the user''])))
      | _ \<Rightarrow> bindW (emit E on ''tool.approved'' args_event) (\<lambda>_. ret (Go ())))"

subsection \<open>The journal\<close>

definition duplicate_text :: "string \<Rightarrow> mutation_operation \<Rightarrow> string" where
  "duplicate_text oid r =
     (if verification_status r = PASSED then
        ''Duplicate execution suppressed. The existing operation is already verified: '' @ oid @ ''.''
      else if verification_status r = NEEDS_REVIEW then
        ''Duplicate mutation execution suppressed. The existing operation requires manual review: ''
        @ oid @ ''.''
      else if execution_status r \<in> VERIFIABLE then
        ''Duplicate mutation execution suppressed; the existing operation will be verified: '' @ oid @ ''.''
      else ''Duplicate mutation execution suppressed because operation '' @ oid @ '' is ''
        @ exec_value (execution_status r) @ ''.'')"

text \<open>The blocks for an operation that exists already, unless it is still only prepared.\<close>

definition duplicate_blocks :: "string \<Rightarrow> json \<Rightarrow> mutation_operation \<Rightarrow> json option" where
  "duplicate_blocks oid title r =
     (let line = text_block (duplicate_text oid r);
          requires = (verification_status r \<in> {PENDING, VERIFYING, INCONCLUSIVE}
                      \<and> execution_status r \<in> VERIFIABLE)
      in if verification_status r \<in> {PASSED, NEEDS_REVIEW} then
           Some (JList [line, mutation_meta_block r False title None])
         else if execution_status r \<in> VERIFIABLE then
           Some (JList [line, mutation_meta_block r requires title None])
         else if execution_status r \<noteq> PREPARED then Some (JList [line])
         else None)"

text \<open>
  \<open>prepare\<close> reads the table and then writes it, and others may run before each; the model waits for the
  second also where the row that was read is reused.
\<close>

definition prepare_call ::
  "'e engine \<Rightarrow> tool_call \<Rightarrow> dict \<Rightarrow> policy_decision \<Rightarrow> dict \<Rightarrow> ('e, mutation_operation \<times> bool) io" where
  "prepare_call E c args d plan =
     bindW (read_journal E) (\<lambda>J0.
     transact E (\<lambda>now. prepare (en_hmac E) (en_uuid E) (en_settings E) (en_yaml E)
       (tc_op c) (tc_run c) (tc_call c) (tc_name c) args (tc_context c) d plan now J0))"

definition journal_unavailable :: "py_exc \<Rightarrow> json" where
  "journal_unavailable e = JList [text_block
     (''Mutation blocked before execution because the durable journal is unavailable: '' @ exc_msg e)]"

text \<open>\<open>try: prepare except Exception\<close>: nothing is executed without its row.\<close>

definition prepare_stage ::
  "'e engine \<Rightarrow> tool_call \<Rightarrow> dict \<Rightarrow> policy_decision \<Rightarrow> dict \<Rightarrow> json
     \<Rightarrow> ('e, mutation_operation stage) io" where
  "prepare_stage E c args d plan title =
     catchW
       (bindW (prepare_call E c args d plan) (\<lambda>(r, created).
        ret (if created then Go r
             else case duplicate_blocks (op_id r) title r of Some blocks \<Rightarrow> Stop blocks | None \<Rightarrow> Go r)))
       (\<lambda>e. ret (Stop (journal_unavailable e)))"

text \<open>Mark the row executing, put the marker into the arguments, announce the mutation.\<close>

definition mark_stage ::
  "'e engine \<Rightarrow> tool_call \<Rightarrow> bool \<Rightarrow> dict \<Rightarrow> mutation_operation \<Rightarrow> ('e, string \<times> dict) io" where
  "mark_stage E c on args r0 =
     bindW (transact E (\<lambda>now. mark_executing (en_settings E) (op_id r0) (tc_run c) now now)) (\<lambda>r.
     bindW (lift (attach_operation_metadata (en_yaml E) (tc_name c) args (op_id r0)
                    (desired_state_hmac r))) (\<lambda>args'.
     bindW (emit E on ''mutation.prepared''
       [(''run_id'', JStr (tc_run c)), (''call_id'', JStr (tc_call c)), (''operation_id'', JStr (op_id r0)),
        (''tool'', JStr (tc_name c))]) (\<lambda>_.
     ret (op_id r0, args'))))"

subsection \<open>The call\<close>

definition cancelled_error :: dict where
  "cancelled_error = [(''error_type'', JStr ''cancelled''), (''ambiguous_outcome'', JBool True)]"

text \<open>
  A cancelled call of a controlled mutation is recorded as unknown; a failure to record it is
  logged, and the cancellation goes on.
\<close>

definition send ::
  "'e engine \<Rightarrow> tool_call \<Rightarrow> string option \<Rightarrow> dict \<Rightarrow> ('e, dict) io" where
  "send E c operation args =
     on_cancel (mcp_call (en_mcp E) (tc_name c) args (tc_run c))
       (case operation of
          None \<Rightarrow> ret ()
        | Some oid \<Rightarrow>
            catchW (bindW (transact E (\<lambda>now. record_execution oid UNKNOWN [] cancelled_error now)) (\<lambda>_. ret ()))
              (\<lambda>e. ret ()))"

definition error_part :: "json \<Rightarrow> json list" where
  "error_part block =
     (case block of
        JDict b \<Rightarrow> if dget b ''type'' = JStr ''text'' then [dget_def b ''text'' (JStr [])] else []
      | _ \<Rightarrow> [])"

definition error_message :: "dict \<Rightarrow> string py" where
  "error_message result =
     (if truthy (dget result ''content'') then
        bindE (py_iter (dget result ''content'')) (\<lambda>blocks.
        let parts = concat (map error_part blocks) in
        if parts = [] then Inr ''Tool execution failed''
        else bindE (str_items 0 parts) (\<lambda>ss. Inr (join_str [CHR 0x0A] ss)))
      else Inr ''Tool execution failed'')"

definition AMBIGUOUS_NOTICE :: string where
  "AMBIGUOUS_NOTICE = ''The command result was ambiguous. Skyflo is verifying the ''
     @ ''real infrastructure state and will not repeat the mutation.''"

text \<open>The tool answered with an error: a controlled mutation becomes unknown, never failed.\<close>

definition finish_error ::
  "'e engine \<Rightarrow> tool_call \<Rightarrow> json \<Rightarrow> bool \<Rightarrow> string option \<Rightarrow> dict \<Rightarrow> ('e, json) io" where
  "finish_error E c title on operation result =
     bindW (lift (error_message result)) (\<lambda>msg.
     case operation of
       None \<Rightarrow>
         bindW (emit E on ''tool.error'' (tool_event c title
           [(''error'', JStr msg), (''reliability'', dget result ''reliability'')])) (\<lambda>_.
         ret (JList [text_block (''Tool error: '' @ msg)]))
     | Some oid \<Rightarrow>
         bindW (transact E (\<lambda>now. record_execution oid UNKNOWN []
           [(''error_hmac'', JStr (hmac_fingerprint (en_hmac E) (INTERNAL_API_KEY (en_settings E)) [JStr msg])),
            (''reliability'', JDict (AList.update ''external_execution_started'' (JBool True)
               (AList.update ''ambiguous_outcome'' (JBool True) (reliability_dict result))))] now)) (\<lambda>r.
         bindW (emit E on ''mutation.outcome''
           [(''run_id'', JStr (tc_run c)), (''call_id'', JStr (tc_call c)), (''operation_id'', JStr oid),
            (''tool'', JStr (tc_name c)), (''execution_status'', JStr (exec_value UNKNOWN))]) (\<lambda>_.
         ret (JList [text_block (''Tool error: '' @ msg),
                     mutation_meta_block r True title (Some [text_block AMBIGUOUS_NOTICE])]))))"

subsection \<open>Results\<close>

text \<open>\<open>json.dumps(v, indent=2)\<close>: the first argument is the current indentation.\<close>

definition json_char_ascii :: "char \<Rightarrow> string" where
  "json_char_ascii c =
     (let n = (of_char c :: nat) in
      if 126 < n then [CHR 0x5C] @ ''u00'' @ [hex_digit (n div 16), hex_digit (n mod 16)]
      else json_char c)"

definition json_ascii :: "string \<Rightarrow> string" where
  "json_ascii s = [CHR 0x22] @ concat (map json_char_ascii s) @ [CHR 0x22]"

definition newline :: "nat \<Rightarrow> string" where
  "newline n = CHR 0x0A # replicate n (CHR '' '')"

fun json_indent :: "nat \<Rightarrow> json \<Rightarrow> string" where
  "json_indent n JNull = ''null''"
| "json_indent n (JBool b) = (if b then ''true'' else ''false'')"
| "json_indent n (JInt i) = int_str i"
| "json_indent n (JStr s) = json_ascii s"
| "json_indent n (JList xs) =
     (if xs = [] then ''[]''
      else ''['' @ newline (n + 2)
        @ join_str ('','' @ newline (n + 2)) (map (json_indent (n + 2)) xs) @ newline n @ '']'')"
| "json_indent n (JDict d) =
     (if d = [] then ''{}''
      else ''{'' @ newline (n + 2)
        @ join_str ('','' @ newline (n + 2))
            (map (\<lambda>p. json_ascii (fst p) @ '': '' @ json_indent (n + 2) (snd p)) d) @ newline n @ ''}'')"

definition result_item :: "json \<Rightarrow> json" where
  "result_item v =
     (case v of
        JDict d \<Rightarrow> if map_of d ''type'' \<noteq> None then v else text_block (py_str v)
      | _ \<Rightarrow> text_block (py_str v))"

definition content_blocks :: "dict \<Rightarrow> json" where
  "content_blocks result =
     (case map_of result ''content'' of
        Some v \<Rightarrow> v
      | None \<Rightarrow>
          (case map_of result ''result'' of
             None \<Rightarrow> JList [text_block (json_indent 0 (JDict result))]
           | Some actual \<Rightarrow>
               (case actual of
                  JDict d \<Rightarrow> JList [text_block (json_indent 0 actual)]
                | JList items \<Rightarrow> JList (map result_item items)
                | _ \<Rightarrow> JList [text_block (py_str actual)])))"

definition py_len :: "json \<Rightarrow> int py" where
  "py_len v =
     (case v of
        JList xs \<Rightarrow> Inr (int (length xs))
      | JDict d \<Rightarrow> Inr (int (length d))
      | JStr s \<Rightarrow> Inr (int (length s))
      | _ \<Rightarrow> Inl (Exc ''TypeError'' (''object of type '' @ quoted (type_name v) @ '' has no len()'')))"

definition append_block :: "json \<Rightarrow> (json list \<Rightarrow> json) \<Rightarrow> json py" where
  "append_block v block =
     (case v of JList xs \<Rightarrow> Inr (JList (xs @ [block xs])) | _ \<Rightarrow> Inl (attr_error v ''append''))"

definition finish_success ::
  "'e engine \<Rightarrow> tool_call \<Rightarrow> json \<Rightarrow> bool \<Rightarrow> string option \<Rightarrow> dict \<Rightarrow> ('e, json) io" where
  "finish_success E c title on operation result =
     (let blocks = content_blocks result in
      case operation of
        None \<Rightarrow>
          bindW (emit E on ''tool.result'' (tool_event c title
            [(''result'', blocks), (''reliability'', dget result ''reliability'')])) (\<lambda>_. ret blocks)
      | Some oid \<Rightarrow>
          bindW (lift (py_len blocks)) (\<lambda>n.
          bindW (transact E (\<lambda>now. record_execution oid REPORTED_SUCCESS
            [(''result_hmac'', JStr (hmac_fingerprint (en_hmac E) (INTERNAL_API_KEY (en_settings E)) [blocks])),
             (''content_block_count'', JInt n)] [] now)) (\<lambda>r.
          bindW (lift (append_block blocks (\<lambda>xs. mutation_meta_block r True title (Some xs)))) (\<lambda>all.
          bindW (emit E on ''mutation.outcome'' (tool_event c title
            [(''operation_id'', JStr oid), (''execution_status'', JStr (exec_value REPORTED_SUCCESS))])) (\<lambda>_.
          ret all)))))"

subsection \<open>The whole execution\<close>

definition call_stage ::
  "'e engine \<Rightarrow> tool_call \<Rightarrow> json \<Rightarrow> bool \<Rightarrow> dict \<Rightarrow> string option \<Rightarrow> dict \<Rightarrow> ('e, json) io" where
  "call_stage E c title on event_args operation args =
     bindW (emit E on ''tool.executing'' (tool_event c title [(''args'', JDict event_args)])) (\<lambda>_.
     bindW (send E c operation args) (\<lambda>result.
     if truthy (dget_def result ''isError'' (JBool False))
     then finish_error E c title on operation result
     else finish_success E c title on operation result))"

definition journal_stage ::
  "'e engine \<Rightarrow> tool_call \<Rightarrow> json \<Rightarrow> bool \<Rightarrow> dict \<Rightarrow> (policy_decision \<times> dict) \<Rightarrow> dict \<Rightarrow> ('e, json) io" where
  "journal_stage E c title on event_args policy args =
     bindS (prepare_stage E c args (fst policy) (snd policy) title) (\<lambda>r.
     bindW (mark_stage E c on args r) (\<lambda>(oid, args').
     call_stage E c title on event_args (Some oid) args'))"

definition gated_stage ::
  "'e engine \<Rightarrow> tool_call \<Rightarrow> json \<Rightarrow> bool \<Rightarrow> dict \<Rightarrow> dict \<Rightarrow> bool \<Rightarrow> ('e, json) io" where
  "gated_stage E c title on event_args args needs =
     (let S = en_settings E; name = tc_name c;
          approve = (\<lambda>k. if needs then bindS (approval_stage E c title on event_args) (\<lambda>_. k) else k)
      in if infrastructure_mutation S needs name then
           bindS (policy_stage E c title on args) (\<lambda>policy.
           approve (if controlled_mutation S needs name
                    then journal_stage E c title on event_args policy args
                    else call_stage E c title on event_args None args))
         else approve (call_stage E c title on event_args None args))"

definition execute_body :: "'e engine \<Rightarrow> tool_call \<Rightarrow> dict \<Rightarrow> json \<Rightarrow> ('e, json) io" where
  "execute_body E c args metadata =
     bindW (lift (tool_title metadata (tc_name c))) (\<lambda>title.
     bindW (lift (is_system_tool metadata)) (\<lambda>sys.
     let on = (en_sse E \<and> \<not> sys) in
     bindS (registry_stage E c metadata title on) (\<lambda>_.
     bindS (inject_stage E c metadata title args) (\<lambda>args1.
     bindS (validate_stage E c args1 metadata) (\<lambda>_.
     bindW (lift (redact_tool_args (en_yaml E) (tc_name c) args1)) (\<lambda>event_args.
     bindW (approval_needed E (tc_name c)) (\<lambda>needs.
     gated_stage E c title on event_args args1 needs)))))))"

definition failure_text :: "string \<Rightarrow> py_exc \<Rightarrow> string" where
  "failure_text name e = ''Error executing '' @ name @ '': '' @ exc_msg e"

text \<open>
  The outer handler: a pending approval goes on to the caller, any other exception becomes a
  text block, announced unless the tool is a system tool.
\<close>

definition execution_failed :: "'e engine \<Rightarrow> tool_call \<Rightarrow> json \<Rightarrow> py_exc \<Rightarrow> ('e, json) io" where
  "execution_failed E c metadata e =
     (if exc_type e = ''ApprovalPending'' then raise e
      else bindW (lift (if en_sse E then is_system_tool metadata else Inr True)) (\<lambda>sys.
           bindW (emit E (en_sse E \<and> \<not> sys) ''tool.error''
             (tool_event c (case tool_title metadata (tc_name c) of Inr t \<Rightarrow> t | Inl _ \<Rightarrow> JStr (tc_name c))
                [(''error'', JStr (exc_msg e))])) (\<lambda>_.
           ret (JList [text_block (failure_text (tc_name c) e)]))))"

definition execute :: "'e engine \<Rightarrow> tool_call \<Rightarrow> dict \<Rightarrow> ('e, json) io" where
  "execute E c args =
     bindW (get_tool_metadata E (tc_name c)) (\<lambda>metadata.
     catchW (execute_body E c args metadata) (execution_failed E c metadata))"

end
