(* ===== verification/AgentGraph.thy ===== *)
theory AgentGraph
  imports Executor MemoryBase
begin

text \<open>
  \<open>agent/state.py\<close>, \<open>agent/stop.py\<close> and \<open>agent/graph.py\<close>: the state of a workflow, its nodes and
  its routes. A node returns updates, which LangGraph merges into the state: \<open>messages\<close> is
  appended to, every other field replaced. Verification may wait forever on a clock that stands
  still, so the verification node, and what runs it, has the result \<open>None\<close> when it does not end.
\<close>

subsection \<open>State\<close>

text \<open>A tool call as \<open>run_model_turn\<close> leaves it in \<open>pending_tools\<close>.\<close>

record pending_tool =
  pt_id :: string
  pt_call_id :: string
  pt_operation :: string
  pt_name :: string
  pt_args :: dict

record agent_state =
  st_run :: string
  st_messages :: "json list"
  st_pending :: "pending_tool list"
  st_start_time :: int
  st_end_time :: int
  st_duration :: int
  st_done :: bool
  st_conversation :: "string option"
  st_user :: "string option"
  st_role :: "string option"
  st_environment :: string
  st_error :: "string option"
  st_awaiting_approval :: bool
  st_suppress_pending :: bool
  st_ttft_emitted :: bool
  st_decisions :: "(string \<times> bool) list"
  st_reasons :: "(string \<times> string) list"
  st_operations :: "dict list"
  st_verification_required :: bool
  st_verification_blocked :: bool
  st_evidence :: "dict list"
  st_toolsets :: "(string \<times> bool) list"
  st_memory_loaded :: bool
  st_memory_hits :: "dict list"
  st_memory_msg :: "json option"

datatype update =
    Messages "json list"
  | Pending_tools "pending_tool list"
  | Error_is "string option"
  | Ttft_emitted bool
  | Awaiting_approval bool
  | Suppress_pending bool
  | Operations "dict list"
  | Verification_required bool
  | Verification_blocked bool
  | Evidence "dict list"
  | Toolsets "(string \<times> bool) list"
  | Memory_loaded bool
  | Memory_hits "dict list"
  | Memory_msg "json option"
  | Done
  | End_time int
  | Duration int

fun apply_update :: "agent_state \<Rightarrow> update \<Rightarrow> agent_state" where
  "apply_update s (Messages ms) = s\<lparr>st_messages := st_messages s @ ms\<rparr>"
| "apply_update s (Pending_tools ts) = s\<lparr>st_pending := ts\<rparr>"
| "apply_update s (Error_is e) = s\<lparr>st_error := e\<rparr>"
| "apply_update s (Ttft_emitted b) = s\<lparr>st_ttft_emitted := b\<rparr>"
| "apply_update s (Awaiting_approval b) = s\<lparr>st_awaiting_approval := b\<rparr>"
| "apply_update s (Suppress_pending b) = s\<lparr>st_suppress_pending := b\<rparr>"
| "apply_update s (Operations ops) = s\<lparr>st_operations := ops\<rparr>"
| "apply_update s (Verification_required b) = s\<lparr>st_verification_required := b\<rparr>"
| "apply_update s (Verification_blocked b) = s\<lparr>st_verification_blocked := b\<rparr>"
| "apply_update s (Evidence ev) = s\<lparr>st_evidence := ev\<rparr>"
| "apply_update s (Toolsets l) = s\<lparr>st_toolsets := l\<rparr>"
| "apply_update s (Memory_loaded b) = s\<lparr>st_memory_loaded := b\<rparr>"
| "apply_update s (Memory_hits hs) = s\<lparr>st_memory_hits := hs\<rparr>"
| "apply_update s (Memory_msg m) = s\<lparr>st_memory_msg := m\<rparr>"
| "apply_update s Done = s\<lparr>st_done := True\<rparr>"
| "apply_update s (End_time t) = s\<lparr>st_end_time := t\<rparr>"
| "apply_update s (Duration t) = s\<lparr>st_duration := t\<rparr>"

definition merge :: "agent_state \<Rightarrow> update list \<Rightarrow> agent_state" where
  "merge s us = foldl apply_update s us"

subsection \<open>The workflow's collaborators\<close>

text \<open>
  The executor's environment, the JSON reader of the verifier, whether there is an event
  callback, the stop flag, the model node and the retrieval of memory. The stop flag is awaited;
  \<open>should_stop\<close> itself answers false when the flag cannot be read.
\<close>

record 'e agent =
  ag_engine :: "'e engine"
  ag_loads :: "string \<Rightarrow> json py"
  ag_callback :: bool
  ag_should_stop :: "string \<Rightarrow> ('e, bool) io"
  ag_model :: "agent_state \<Rightarrow> ('e, update list) io"
  ag_retrieve :: "string \<Rightarrow> agent_state \<Rightarrow> ('e, memory_hit list) io"

definition stop_requested :: py_exc where
  "stop_requested = Exc ''StopRequested'' []"

definition check_stop :: "'e agent \<Rightarrow> agent_state \<Rightarrow> ('e, unit) io" where
  "check_stop A s =
     bindW (ag_should_stop A (st_run s)) (\<lambda>stop. if stop then raise stop_requested else ret ())"

subsection \<open>Routes\<close>

datatype agent_node = Entry | Memory_prepare | Model | Gate | Verification | Final | End

definition requires_verification :: "dict \<Rightarrow> bool" where
  "requires_verification op \<longleftrightarrow> truthy (dget op ''requires_verification'')"

definition route_after_model :: "agent_state \<Rightarrow> agent_node" where
  "route_after_model s =
     (if st_pending s \<noteq> [] then Gate
      else if st_verification_required s then Verification else Final)"

definition route_from_entry :: "agent_state \<Rightarrow> agent_node" where
  "route_from_entry s =
     (if st_pending s \<noteq> [] then Gate
      else if st_verification_required s then Verification else Memory_prepare)"

definition route_after_gate :: "agent_state \<Rightarrow> agent_node" where
  "route_after_gate s =
     (if st_awaiting_approval s then Final
      else if st_error s \<noteq> None \<and> st_error s \<noteq> Some [] then Final
      else if st_verification_required s then Verification else Model)"

definition route_after_verification :: "agent_state \<Rightarrow> agent_node" where
  "route_after_verification s =
     (if st_verification_blocked s \<or> st_verification_required s then Final else Model)"

fun next_node :: "agent_node \<Rightarrow> agent_state \<Rightarrow> agent_node" where
  "next_node Entry s = route_from_entry s"
| "next_node Memory_prepare s = Model"
| "next_node Model s = route_after_model s"
| "next_node Gate s = route_after_gate s"
| "next_node Verification s = route_after_verification s"
| "next_node Final s = End"
| "next_node End s = End"

subsection \<open>Entry, memory, model and final\<close>

definition entry_node :: "'e agent \<Rightarrow> agent_state \<Rightarrow> ('e, update list) io" where
  "entry_node A s =
     bindW (check_stop A s) (\<lambda>_. ret
       ([Ttft_emitted False, Memory_loaded False, Memory_msg None, Error_is None, Verification_blocked False]
        @ (if st_awaiting_approval s then [Awaiting_approval False] else [])))"

text \<open>The text of the latest user message that has one.\<close>

definition first_text_part :: "json list \<Rightarrow> json" where
  "first_text_part parts =
     (case find (\<lambda>p. case p of JDict d \<Rightarrow> dget d ''type'' = JStr ''text'' | _ \<Rightarrow> False) parts of
        Some (JDict d) \<Rightarrow> dget_def d ''text'' (JStr [])
      | _ \<Rightarrow> JStr [])"

definition user_text :: "json \<Rightarrow> string" where
  "user_text msg =
     (case msg of
        JDict m \<Rightarrow>
          if dget m ''role'' = JStr ''user'' then
            (case dget_def m ''content'' (JStr []) of
               JStr t \<Rightarrow> t
             | JList parts \<Rightarrow> (case first_text_part parts of JStr t \<Rightarrow> t | _ \<Rightarrow> [])
             | _ \<Rightarrow> [])
          else []
      | _ \<Rightarrow> [])"

definition latest_user_text :: "json list \<Rightarrow> string" where
  "latest_user_text msgs =
     (case filter (\<lambda>t. t \<noteq> []) (map user_text (rev msgs)) of [] \<Rightarrow> [] | t # _ \<Rightarrow> t)"

definition memory_prepare_node :: "'e agent \<Rightarrow> agent_state \<Rightarrow> ('e, update list) io" where
  "memory_prepare_node A s =
     (if \<not> MEMORY_ENABLED (en_settings (ag_engine A)) \<or> st_memory_loaded s then ret []
      else let query = latest_user_text (st_messages s) in
        if query = [] then ret [Memory_loaded True]
        else bindW (catchW (ag_retrieve A query s) (\<lambda>e. ret [])) (\<lambda>hits.
          if hits = [] then ret [Memory_loaded True]
          else bindW (catchW (emit_memory_context_loaded (ag_callback A) (st_run s) hits) (\<lambda>e. ret ())) (\<lambda>_.
            ret [Memory_loaded True, Memory_hits (map minimal_hit hits), Memory_msg (Some (format_context hits))])))"

definition is_stop :: "py_exc \<Rightarrow> bool" where
  "is_stop e \<longleftrightarrow> exc_type e = ''StopRequested''"

text \<open>Of what the model node returns, the graph keeps four fields.\<close>

fun model_update :: "update \<Rightarrow> bool" where
  "model_update (Messages ms) = True"
| "model_update (Pending_tools ts) = True"
| "model_update (Error_is e) = True"
| "model_update (Ttft_emitted b) = True"
| "model_update _ = False"

definition model_node :: "'e agent \<Rightarrow> agent_state \<Rightarrow> ('e, update list) io" where
  "model_node A s =
      catchW (bindW (check_stop A s) (\<lambda>_. bindW (ag_model A s) (\<lambda>us. ret (filter model_update us))))
       (\<lambda>e. if is_stop e then raise e else ret [Error_is (Some (exc_msg e))])"

definition final_node :: "agent_state \<Rightarrow> ('e, update list) io" where
  "final_node s w = (Inr [Done, End_time (wnow w), Duration (wnow w - st_start_time s)], w)"

subsection \<open>Gate\<close>

definition MEMORY_TOOL_NAMES :: "string list" where
  "MEMORY_TOOL_NAMES = [''memory_search'', ''memory_read'', ''memory_list'', ''memory_history'',
     ''memory_remember'', ''memory_patch'', ''memory_propose_promotion'']"

definition INTERNAL_META_TOOLS :: "string list" where
  "INTERNAL_META_TOOLS = ''load_toolset'' # MEMORY_TOOL_NAMES"

text \<open>The identity a memory tool runs under is the engine's, whatever the model supplied.\<close>

definition context_key :: "string \<Rightarrow> bool" where
  "context_key key \<longleftrightarrow> key \<in> {''_user_id'', ''_conversation_id'', ''_run_id''}
     \<or> lstrip_char (CHR ''_'') key \<in> {''user_id'', ''conversation_id'', ''run_id''}"

definition set_if :: "string \<Rightarrow> string option \<Rightarrow> dict \<Rightarrow> dict" where
  "set_if key v d = (case v of Some (c # cs) \<Rightarrow> AList.update key (JStr (c # cs)) d | _ \<Rightarrow> d)"

definition inject_memory_context :: "agent_state \<Rightarrow> dict \<Rightarrow> dict" where
  "inject_memory_context s args =
     set_if ''_run_id'' (Some (st_run s))
       (set_if ''_conversation_id'' (st_conversation s)
         (set_if ''_user_id'' (st_user s) (filter (\<lambda>(k, v). \<not> context_key k) args)))"

definition include_write :: "dict \<Rightarrow> string + bool" where
  "include_write args =
     (case dget args ''include_write_tools'' of
        JBool b \<Rightarrow> Inr b
      | JNull \<Rightarrow> Inl (''Missing required argument '' @ quoted ''include_write_tools'' @ '' (boolean). ''
          @ ''Pass true to load write/mutation tools, false for read-only.'')
      | v \<Rightarrow>
          (case v of
             JStr t \<Rightarrow>
               if py_lower (py_strip t) \<in> {''true'', ''false''}
               then Inr (py_lower (py_strip t) = ''true'')
               else Inl (''Invalid '' @ quoted ''include_write_tools'' @ '' value: '' @ py_repr v
                 @ ''. Must be a boolean.'')
           | _ \<Rightarrow> Inl (''Invalid '' @ quoted ''include_write_tools'' @ '' value: '' @ py_repr v
               @ ''. Must be a boolean.'')))"

text \<open>\<open>(args.get("toolset") or "").strip().lower()\<close> needs a text or a false value.\<close>

definition toolset_name :: "dict \<Rightarrow> string py" where
  "toolset_name args =
     (case por (dget args ''toolset'') (JStr []) of
        JStr t \<Rightarrow> Inr (py_lower (py_strip t))
      | v \<Rightarrow> Inl (attr_error v ''strip''))"

definition handle_load_toolset ::
  "dict \<Rightarrow> (string \<times> bool) list \<Rightarrow> (string \<times> (string \<times> bool) list) py" where
  "handle_load_toolset args loaded =
     bindE (toolset_name args) (\<lambda>toolset. Inr
       (if toolset \<notin> set AVAILABLE_TOOLSETS then
          (''Unknown toolset '' @ quoted toolset @ ''. Available: '' @ join_str '', '' AVAILABLE_TOOLSETS, loaded)
        else case include_write args of
          Inl msg \<Rightarrow> (msg, loaded)
        | Inr write \<Rightarrow>
            (let had = (case map_of loaded toolset of None \<Rightarrow> False | Some b \<Rightarrow> b);
                 mode = (if had \<or> write then ''read and write'' else ''read-only'')
             in ((if map_of loaded toolset \<noteq> None \<and> \<not> (write \<and> \<not> had)
                  then ''Toolset '' @ quoted toolset @ '' is already loaded ('' @ mode @ '').''
                  else ''Toolset '' @ quoted toolset @ '' loaded ('' @ mode @ ''). You can now use ''
                    @ toolset @ '' tools.''),
                 AList.update toolset (had \<or> write) loaded))))"

subsubsection \<open>The announcement of the pending tools\<close>

definition display_id :: "pending_tool \<Rightarrow> string" where
  "display_id t = (if pt_call_id t = [] then pt_id t else pt_call_id t)"

definition metadata_title :: "json \<Rightarrow> string \<Rightarrow> json" where
  "metadata_title m name =
     (case m of JDict d \<Rightarrow> if d = [] then JStr name else dget_def d ''title'' (JStr name) | _ \<Rightarrow> JStr name)"

definition pending_entry :: "'e agent \<Rightarrow> pending_tool \<Rightarrow> ('e, dict list) io" where
  "pending_entry A t =
     (if pt_name t \<in> set INTERNAL_META_TOOLS then ret []
      else catchW
        (bindW (get_tool_metadata (ag_engine A) (pt_name t)) (\<lambda>m.
         bindW (get_tool_metadata (ag_engine A) (pt_name t)) (\<lambda>m'.
         bindW (lift (redact_tool_args (en_yaml (ag_engine A)) (pt_name t) (pt_args t))) (\<lambda>args w.
           (Inr [[(''call_id'', JStr (display_id t)), (''tool'', JStr (pt_name t)),
                  (''title'', metadata_title m (pt_name t)), (''args'', JDict args),
                  (''requires_approval'', JBool (need_approval (Some (\<lambda>_. Inr m')) (pt_name t))),
                  (''timestamp'', JInt (wnow w div 1000))]], w)))))
        (\<lambda>e. ret []))"

fun pending_entries :: "'e agent \<Rightarrow> pending_tool list \<Rightarrow> ('e, dict list) io" where
  "pending_entries A [] = ret []"
| "pending_entries A (t # ts) =
     bindW (pending_entry A t) (\<lambda>e. bindW (pending_entries A ts) (\<lambda>es. ret (e @ es)))"

definition announce_pending :: "'e agent \<Rightarrow> agent_state \<Rightarrow> ('e, unit) io" where
  "announce_pending A s =
     (if ag_callback A \<and> \<not> st_suppress_pending s then
        bindW (pending_entries A (st_pending s)) (\<lambda>es.
          if es = [] then ret ()
          else notify True ''tools.pending'' [(''run_id'', JStr (st_run s)), (''tools'', JList (map JDict es))])
      else ret ())"

subsubsection \<open>Executing the tools\<close>

record gate_acc =
  ga_messages :: "json list"
  ga_operations :: "dict list"
  ga_required :: bool
  ga_toolsets :: "(string \<times> bool) list"
  ga_changed :: bool

definition tool_message :: "pending_tool \<Rightarrow> string \<Rightarrow> json" where
  "tool_message t content =
     JDict [(''role'', JStr ''tool''), (''tool_call_id'', JStr (pt_id t)), (''name'', JStr (pt_name t)),
       (''content'', JStr content)]"

definition answer_tool :: "pending_tool \<Rightarrow> string \<Rightarrow> gate_acc \<Rightarrow> gate_acc" where
  "answer_tool t content acc = acc\<lparr>ga_messages := ga_messages acc @ [tool_message t content]\<rparr>"

definition fail_tool :: "pending_tool \<Rightarrow> py_exc \<Rightarrow> gate_acc \<Rightarrow> gate_acc" where
  "fail_tool t e acc = answer_tool t (''Error executing tool '' @ pt_name t @ '': '' @ exc_msg e) acc"

definition record_mutation :: "dict \<Rightarrow> gate_acc \<Rightarrow> gate_acc" where
  "record_mutation block acc =
     acc\<lparr>ga_operations := filter (\<lambda>op. dget op ''operation_id'' \<noteq> dget block ''operation_id'') (ga_operations acc)
            @ [block],
         ga_required := ga_required acc \<or> requires_verification block\<rparr>"

text \<open>
  The blocks of one result: the mutation blocks go to the operations, the rest is the content.
  What was recorded before an exception stays recorded.
\<close>

fun process_blocks :: "json list \<Rightarrow> string \<Rightarrow> gate_acc \<Rightarrow> string py \<times> gate_acc" where
  "process_blocks [] content acc = (Inr content, acc)"
| "process_blocks (JDict b # bs) content acc =
     (if dget b ''type'' = JStr ''skyflo.mutation'' then process_blocks bs content (record_mutation b acc)
      else if dget b ''type'' = JStr ''text'' then
        (case dget_def b ''text'' (JStr []) of
           JStr t \<Rightarrow> process_blocks bs (content @ t) acc
         | v \<Rightarrow> (Inl (Exc ''TypeError'' (''can only concatenate str (not '' @ [CHR 0x22] @ type_name v
                  @ [CHR 0x22] @ '') to str'')), acc))
      else process_blocks bs (content @ py_repr (JDict b)) acc)"
| "process_blocks (v # bs) content acc = (Inl (attr_error v ''get''), acc)"

definition decisions_json :: "(string \<times> bool) list \<Rightarrow> json" where
  "decisions_json ds = JDict (map (\<lambda>(k, b). (k, JBool b)) ds)"

definition execution_context :: "agent_state \<Rightarrow> dict" where
  "execution_context s =
     [(''conversation_id'', or_null (st_conversation s)), (''user_id'', or_null (st_user s)),
      (''user_role'', or_null (st_role s)), (''environment'', JStr (st_environment s)),
      (''approval_decisions'', decisions_json (st_decisions s)),
      (''approval_reasons'', JDict (map (\<lambda>(k, r). (k, JStr r)) (st_reasons s)))]"

definition call_of :: "agent_state \<Rightarrow> pending_tool \<Rightarrow> tool_call" where
  "call_of s t = \<lparr>tc_run = st_run s, tc_name = pt_name t, tc_call = display_id t, tc_op = pt_operation t,
     tc_context = execution_context s\<rparr>"

definition args_of :: "agent_state \<Rightarrow> pending_tool \<Rightarrow> dict" where
  "args_of s t = (if pt_name t \<in> set MEMORY_TOOL_NAMES then inject_memory_context s (pt_args t) else pt_args t)"

text \<open>A tool is answered, with a result or an error, or pauses the batch for an approval.\<close>

datatype gate_step = Answered gate_acc | Paused

definition settle_result :: "pending_tool \<Rightarrow> json \<Rightarrow> gate_acc \<Rightarrow> gate_acc" where
  "settle_result t blocks acc =
     (case py_iter blocks of
        Inl e \<Rightarrow> fail_tool t e acc
      | Inr bs \<Rightarrow>
          (case process_blocks bs [] acc of
             (Inr content, acc') \<Rightarrow> answer_tool t content acc'
           | (Inl e, acc') \<Rightarrow> fail_tool t e acc'))"

definition gate_tool :: "'e agent \<Rightarrow> agent_state \<Rightarrow> pending_tool \<Rightarrow> gate_acc \<Rightarrow> ('e, gate_step) io" where
  "gate_tool A s t acc w =
     (if pt_name t = ''load_toolset'' then
        (Inr (Answered (case handle_load_toolset (pt_args t) (ga_toolsets acc) of
            Inl e \<Rightarrow> fail_tool t e acc
          | Inr (content, l) \<Rightarrow> answer_tool t content (acc\<lparr>ga_toolsets := l, ga_changed := True\<rparr>))), w)
      else case execute (ag_engine A) (call_of s t) (args_of s t) w of
        (Inr blocks, w') \<Rightarrow> (Inr (Answered (settle_result t blocks acc)), w')
      | (Inl e, w') \<Rightarrow>
          if cancelled e then (Inl e, w')
          else if exc_type e = ''ApprovalPending'' then (Inr Paused, w')
          else (Inr (Answered (fail_tool t e acc)), w'))"

text \<open>The whole batch: what was gathered, and the tools left when it paused.\<close>

fun gate_tools ::
  "'e agent \<Rightarrow> agent_state \<Rightarrow> pending_tool list \<Rightarrow> gate_acc \<Rightarrow> ('e, gate_acc \<times> pending_tool list) io" where
  "gate_tools A s [] acc = ret (acc, [])"
| "gate_tools A s (t # ts) acc =
     bindW (gate_tool A s t acc) (\<lambda>r. case r of
       Paused \<Rightarrow> ret (acc, t # ts)
     | Answered acc' \<Rightarrow> gate_tools A s ts acc')"

definition gate_start :: "agent_state \<Rightarrow> gate_acc" where
  "gate_start s = \<lparr>ga_messages = [], ga_operations = st_operations s,
     ga_required = list_ex requires_verification (st_operations s), ga_toolsets = st_toolsets s,
     ga_changed = False\<rparr>"

definition gate_updates :: "gate_acc \<times> pending_tool list \<Rightarrow> update list" where
  "gate_updates r =
     (case r of (acc, remaining) \<Rightarrow>
        [Messages (ga_messages acc), Pending_tools remaining, Awaiting_approval (remaining \<noteq> []),
         Suppress_pending False, Operations (ga_operations acc), Verification_required (ga_required acc),
         Verification_blocked False]
        @ (if ga_changed acc then [Toolsets (ga_toolsets acc)] else []))"

definition gate_failed :: "py_exc \<Rightarrow> update list" where
  "gate_failed e =
     [Messages [JDict [(''role'', JStr ''assistant''), (''name'', JNull),
        (''content'', JStr (''Error in tool execution gate: '' @ exc_msg e))]],
      Pending_tools [], Error_is (Some (exc_msg e)), Suppress_pending False]"

definition gate_node :: "'e agent \<Rightarrow> agent_state \<Rightarrow> ('e, update list) io" where
  "gate_node A s =
     catchW
       (bindW (check_stop A s) (\<lambda>_.
        if st_pending s = [] then ret [Pending_tools [], Suppress_pending False]
        else bindW (catchW (announce_pending A s) (\<lambda>e. ret ())) (\<lambda>_.
             bindW (gate_tools A s (st_pending s) (gate_start s)) (\<lambda>r. ret (gate_updates r)))))
       (\<lambda>e. ret (gate_failed e))"

subsection \<open>Verification\<close>

type_synonym ('e, 'a) wait = "'e world \<Rightarrow> ('a py \<times> 'e world) option"

definition at_once :: "('e, 'a) io \<Rightarrow> ('e, 'a) wait" where
  "at_once m w = Some (m w)"

definition bindO :: "('e, 'a) wait \<Rightarrow> ('a \<Rightarrow> ('e, 'b) wait) \<Rightarrow> ('e, 'b) wait" where
  "bindO m f w =
     (case m w of
        None \<Rightarrow> None
      | Some (Inl e, w') \<Rightarrow> Some (Inl e, w')
      | Some (Inr a, w') \<Rightarrow> f a w')"

definition verify_owner :: "agent_state \<Rightarrow> string" where
  "verify_owner s = ''foreground:'' @ st_run s"

definition runtime_error_result :: "json \<Rightarrow> py_exc \<Rightarrow> dict" where
  "runtime_error_result oid e =
     [(''passed'', JBool False), (''inconclusive'', JBool True), (''status'', JStr ''inconclusive''),
      (''operation'', JDict [(''operation_id'', oid)]),
      (''evidence'', JDict [(''reason'', JStr ''verification_runtime_error''), (''detail'', JStr (exc_type e))])]"

text \<open>\<open>verify\<close> with every exception but a cancellation turned into a result.\<close>

definition verify_or_report :: "'e agent \<Rightarrow> agent_state \<Rightarrow> json \<Rightarrow> ('e, dict) wait" where
  "verify_or_report A s oid w =
     (let E = ag_engine A in
      case verify (en_mcp E) (ag_loads A) (en_yaml E) (en_settings E) (py_str oid) (verify_owner s) w of
        None \<Rightarrow> None
      | Some (Inr result, w') \<Rightarrow> Some (Inr result, w')
      | Some (Inl e, w') \<Rightarrow>
          Some (if cancelled e then Inl e else Inr (runtime_error_result oid e), w'))"

definition passed_result :: "dict \<Rightarrow> bool" where
  "passed_result result \<longleftrightarrow> truthy (dget result ''passed'')"

definition verified_item :: "dict \<Rightarrow> dict \<Rightarrow> dict" where
  "verified_item item result =
     (let status = dget_def result ''status'' (JStr ''inconclusive'') in
      AList.update ''requires_verification''
        (JBool (status \<in> {JStr ''pending'', JStr ''verifying'', JStr ''inconclusive''}))
        (AList.update ''verification_status'' status item))"

definition replace_operation :: "dict \<Rightarrow> dict \<Rightarrow> dict list \<Rightarrow> dict list" where
  "replace_operation item result ops =
     map (\<lambda>op. if dget op ''operation_id'' = dget item ''operation_id'' then verified_item item result else op) ops"

definition verdict_event :: "dict \<Rightarrow> string" where
  "verdict_event result =
     (if passed_result result then ''mutation.verified''
      else if dget result ''status'' = JStr ''needs_review'' then ''mutation.manual_review_required''
      else if dget result ''status'' = JStr ''failed'' then ''mutation.verification_failed''
      else ''mutation.inconclusive'')"

definition outcome_event :: "agent_state \<Rightarrow> dict \<Rightarrow> dict \<Rightarrow> string \<times> dict" where
  "outcome_event s item result =
     (let head = [(''run_id'', JStr (st_run s)), (''call_id'', dget item ''call_id''), (''tool'', dget item ''tool''),
                  (''title'', por (dget item ''title'') (dget item ''tool''))]
      in if passed_result result
         then (''tool.result'', head @ [(''result'', por (dget item ''display_result'')
                (JList [text_block ''Mutation completed and deterministic runtime verification passed.'']))])
         else (''tool.error'', head @ [(''error'',
                JStr ''Mutation outcome could not be verified; success reporting is blocked.'')]))"

definition verify_item :: "'e agent \<Rightarrow> agent_state \<Rightarrow> dict \<Rightarrow> ('e, dict) wait" where
  "verify_item A s item =
     (let oid = dget item ''operation_id''; on = ag_callback A in
      bindO (at_once (notify on ''mutation.verifying''
        [(''run_id'', JStr (st_run s)), (''call_id'', dget item ''call_id''), (''operation_id'', oid),
         (''tool'', dget item ''tool'')])) (\<lambda>_.
      bindO (verify_or_report A s oid) (\<lambda>result.
      bindO (at_once (notify on (verdict_event result)
        [(''run_id'', JStr (st_run s)), (''operation_id'', oid), (''tool'', dget item ''tool''),
         (''verification_status'', dget result ''status''), (''evidence'', dget result ''evidence'')])) (\<lambda>_.
      bindO (at_once (notify on (fst (outcome_event s item result)) (snd (outcome_event s item result)))) (\<lambda>_.
      at_once (ret result))))))"

fun verify_items ::
  "'e agent \<Rightarrow> agent_state \<Rightarrow> dict list \<Rightarrow> dict list \<Rightarrow> ('e, dict list \<times> dict list) wait" where
  "verify_items A s [] ops = at_once (ret ([], ops))"
| "verify_items A s (item # items) ops =
     bindO (verify_item A s item) (\<lambda>result.
     bindO (verify_items A s items (replace_operation item result ops)) (\<lambda>(results, ops').
     at_once (ret (result # results, ops'))))"

definition joined :: "json list \<Rightarrow> string py" where
  "joined ids = bindE (str_items 0 ids) (\<lambda>ss. Inr (join_str '', '' ss))"

definition result_id :: "dict \<Rightarrow> json py" where
  "result_id result =
     bindE (subscript (JDict result) ''operation'') (\<lambda>op. subscript op ''operation_id'')"

definition failed_id :: "dict \<Rightarrow> json py" where
  "failed_id result =
     bindE (jget_def (JDict result) ''operation'' (JDict [])) (\<lambda>op.
     jget_def op ''operation_id'' (JStr ''unknown''))"

definition all_verified :: "dict list \<Rightarrow> dict list \<Rightarrow> update list py" where
  "all_verified results ops =
     bindE (each_py result_id results) (\<lambda>ids. bindE (joined ids) (\<lambda>text. Inr
       [Messages [JDict [(''role'', JStr ''system''),
          (''content'', JStr (''Skyflo deterministic runtime verification passed for mutation operations: ''
             @ text @ ''. You may report success using this evidence.''))]],
        Operations ops, Verification_required False, Verification_blocked False, Evidence results, Error_is None]))"

definition blocked_message :: "dict list \<Rightarrow> string py" where
  "blocked_message results =
     bindE (each_py failed_id (filter (\<lambda>r. \<not> passed_result r) results)) (\<lambda>ids. bindE (joined ids) (\<lambda>text. Inr
       (''Mutation result was not verified. Skyflo runtime blocks any success claim. Operation IDs: '' @ text)))"

definition not_verified :: "string \<Rightarrow> dict list \<Rightarrow> dict list \<Rightarrow> update list" where
  "not_verified message results ops =
     [Messages [JDict [(''role'', JStr ''assistant''), (''content'', JStr message)]], Operations ops,
      Verification_required (list_ex requires_verification ops), Verification_blocked True,
      Evidence results, Error_is (Some message)]"

definition announce_blocked :: "'e agent \<Rightarrow> agent_state \<Rightarrow> string \<Rightarrow> ('e, unit) io" where
  "announce_blocked A s message =
     bindW (if ag_callback A then publish ''token''
         [(''text'', JStr message), (''conversation_id'', or_null (st_conversation s)), (''run_id'', JStr (st_run s))]
       else ret ()) (\<lambda>_.
     notify (ag_callback A) ''workflow.error'' [(''run_id'', JStr (st_run s)), (''error'', JStr message)])"

definition verification_verdict ::
  "'e agent \<Rightarrow> agent_state \<Rightarrow> dict list \<Rightarrow> dict list \<Rightarrow> ('e, update list) io" where
  "verification_verdict A s results ops =
     (if list_all passed_result results then lift (all_verified results ops)
      else bindW (lift (blocked_message results)) (\<lambda>message.
           bindW (announce_blocked A s message) (\<lambda>_. ret (not_verified message results ops))))"

definition verification_node :: "'e agent \<Rightarrow> agent_state \<Rightarrow> ('e, update list) wait" where
  "verification_node A s =
     bindO (at_once (check_stop A s)) (\<lambda>_.
     let items = filter requires_verification (st_operations s) in
     if items = [] then at_once (ret [Verification_required False, Verification_blocked False])
     else bindO (verify_items A s items (st_operations s)) (\<lambda>(results, ops).
          at_once (verification_verdict A s results ops)))"

subsection \<open>The workflow\<close>

fun run_node :: "'e agent \<Rightarrow> agent_node \<Rightarrow> agent_state \<Rightarrow> ('e, update list) wait" where
  "run_node A Entry s = at_once (entry_node A s)"
| "run_node A Memory_prepare s = at_once (memory_prepare_node A s)"
| "run_node A Model s = at_once (model_node A s)"
| "run_node A Gate s = at_once (gate_node A s)"
| "run_node A Verification s = verification_node A s"
| "run_node A Final s = at_once (final_node s)"
| "run_node A End s = at_once (ret [])"

definition recursion_error :: py_exc where
  "recursion_error = Exc ''GraphRecursionError'' []"

text \<open>
  LangGraph's loop over the nodes; it raises \<open>GraphRecursionError\<close> when the limit of node runs
  is used up before the end.
\<close>

fun graph_loop :: "nat \<Rightarrow> 'e agent \<Rightarrow> agent_node \<Rightarrow> agent_state \<Rightarrow> ('e, agent_state) wait" where
  "graph_loop 0 A node s = at_once (if node = End then ret s else raise recursion_error)"
| "graph_loop (Suc n) A node s =
     (if node = End then at_once (ret s)
      else bindO (run_node A node s) (\<lambda>us. graph_loop n A (next_node node (merge s us)) (merge s us)))"

text \<open>The final state; the duration of a stopped run; the message of a failed one.\<close>

datatype run_result = Completed agent_state | Was_stopped int | Failed_with string

definition iterations_message :: "int \<Rightarrow> string" where
  "iterations_message n =
     ''The AI Agent has reached the maximum number of iterations of '' @ int_str n
     @ '' for the current prompt. You can continue the conversation. If you want to update ''
     @ ''the max iterations, update the LLM_MAX_ITERATIONS environment variable.''"

definition report_failure :: "'e agent \<Rightarrow> agent_state \<Rightarrow> string \<Rightarrow> ('e, run_result) io" where
  "report_failure A s message =
     bindW (if ag_callback A
            then publish ''workflow.error'' [(''run_id'', JStr (st_run s)), (''error'', JStr message)]
            else ret ()) (\<lambda>_. ret (Failed_with message))"

text \<open>\<open>invoke\<close>; \<open>clear_stop\<close> swallows its own failures.\<close>

definition invoke :: "'e agent \<Rightarrow> (string \<Rightarrow> ('e, unit) io) \<Rightarrow> agent_state \<Rightarrow> ('e, run_result) wait" where
  "invoke A clear_stop s w =
     (let S = en_settings (ag_engine A) in
      case graph_loop (nat (LLM_MAX_ITERATIONS S)) A Entry s w of
        None \<Rightarrow> None
      | Some (Inr s', w') \<Rightarrow> Some (Inr (Completed s'), w')
      | Some (Inl e, w') \<Rightarrow>
          Some (if cancelled e then (Inl e, w')
                else if is_stop e then
                  bindW (catchW (clear_stop (st_run s)) (\<lambda>e. ret ())) (\<lambda>_. ret (Was_stopped (wnow w' - st_start_time s))) w'
                else if exc_type e = ''GraphRecursionError''
                then report_failure A s (iterations_message (LLM_MAX_ITERATIONS S)) w'
                else report_failure A s
                  (''An unknown error occurred while executing the workflow: '' @ exc_msg e) w'))"

end
