(* ===== verification/JournalProps.thy ===== *)
theory JournalProps
  imports JournalLife
begin

text \<open>
  What the mutation journal guarantees its clients: the properties of the service's methods
  that the executor, the verifier and the recovery worker rely on, for a table any number of
  workers have been calling into.
\<close>

subsection \<open>Rows and their keys in a run\<close>

lemma row_step_intent:
  "row_step S r r' \<Longrightarrow> op_tool r' = op_tool r \<and> args_hmac r' = args_hmac r \<and> op_run_id r' = op_run_id r"
  by (induction rule: row_step.induct) (simp_all add: row_defs)

lemma row_run_intent:
  "(row_step S)\<^sup>*\<^sup>* r r' \<Longrightarrow>
     op_tool r' = op_tool r \<and> args_hmac r' = args_hmac r \<and> op_run_id r' = op_run_id r"
  by (induction rule: rtranclp_induct) (auto dest: row_step_intent)

lemma find_save_row [simp]:
  "find_row oid J = Some r \<Longrightarrow> op_id r' = op_id r \<Longrightarrow> find_row oid (save_row r' J) = Some r'"
  by (induction J) (auto simp: find_row_def save_row_def split: if_splits)

lemma find_row_id: "find_row oid J = Some r \<Longrightarrow> op_id r = oid"
  by (auto simp: find_row_def find_Some_iff)

lemma with_row_found:
  "with_row oid J f = (res, J') \<Longrightarrow> res \<noteq> Inl does_not_exist \<Longrightarrow>
     \<exists>r. find_row oid J = Some r \<and> f r = (res, J')"
  by (auto simp: with_row_def split: option.splits)

lemma find_run:
  "list_all2 ((row_step S)\<^sup>*\<^sup>*) J K \<Longrightarrow>
     find (\<lambda>r. op_id r = oid \<or> idempotency_key r = key) J = Some r \<Longrightarrow>
     \<exists>r'. find (\<lambda>r. op_id r = oid \<or> idempotency_key r = key) (K @ L) = Some r'
        \<and> (row_step S)\<^sup>*\<^sup>* r r'"
  by (induction rule: list_all2_induct)
     (auto simp: jruns.step_key jkeys.step_key split: if_splits)

lemma find_row_mem: "distinct (map op_id J) \<Longrightarrow> r \<in> set J \<Longrightarrow> find_row (op_id r) J = Some r"
  by (induction J) (auto simp: find_row_def image_iff)

lemma find_none_append: "find P J = None \<Longrightarrow> find P (J @ K) = find P K"
  by (induction J) (auto split: if_splits)

subsection \<open>A journal to try the methods on\<close>

definition demo_row :: mutation_operation where
  "demo_row = new_row ''op'' ''key'' ''run'' ''call'' ''k8s_apply'' ''h'' [] [] JNull
     \<lparr>allowed = True, rule = [], reason = [], risk_level = [], targets = []\<rparr>
     [(''supported'', JBool True)] 0"

definition demo_yaml :: yaml where
  "demo_yaml = \<lparr>safe_load_all = \<lambda>_. Inr [], safe_load = \<lambda>_. Inr JNull,
     safe_dump_all = \<lambda>_. [], safe_dump = \<lambda>_. []\<rparr>"

definition reported_row :: mutation_operation where
  "reported_row = outcome_row REPORTED_SUCCESS [] [] 3 (executing_row default_settings ''w'' 1 2 demo_row)"

definition passed_row :: mutation_operation where
  "passed_row = verdict_row PASSED [] JNull 5 (claim_row default_settings ''w'' 4 4 reported_row)"

lemmas demo_defs = demo_row_def reported_row_def passed_row_def new_row_def row_defs

lemma default_valid [simp]: "valid_settings default_settings"
  by (simp add: valid_settings_def default_settings_def)

lemma demo_fresh: "fresh_row demo_row"
  unfolding demo_row_def by (rule new_row_fresh[where args = "[]" and Y = demo_yaml])
    (simp add: redact_tool_args_def redact_dict_def Let_def)

lemma demo_inv [simp]: "journal_inv default_settings [demo_row]"
  by (simp add: journal_inv_def fresh_row_inv demo_fresh)

lemma singleton_inv: "row_inv S r \<Longrightarrow> journal_inv S [r]"
  by (simp add: journal_inv_def)

lemma reported_step: "(row_step default_settings)\<^sup>*\<^sup>* demo_row reported_row"
proof (rule rtranclp.rtrancl_into_rtrancl)
  show "(row_step default_settings)\<^sup>*\<^sup>* demo_row (executing_row default_settings ''w'' 1 2 demo_row)"
    by (rule r_into_rtranclp, rule row_step.executing) (simp add: demo_defs)
  show "row_step default_settings (executing_row default_settings ''w'' 1 2 demo_row) reported_row"
    unfolding reported_row_def by (rule row_step.outcome) (simp_all add: demo_defs OUTCOMES_def)
qed

lemma passed_step: "(row_step default_settings)\<^sup>*\<^sup>* reported_row passed_row"
proof (rule rtranclp.rtrancl_into_rtrancl)
  show "(row_step default_settings)\<^sup>*\<^sup>* reported_row (claim_row default_settings ''w'' 4 4 reported_row)"
    by (rule r_into_rtranclp, rule row_step.claim)
       (simp_all add: demo_defs VERIFIABLE_def TERMINAL_def verification_budget_exhausted_def
          default_settings_def seconds_def)
  show "row_step default_settings (claim_row default_settings ''w'' 4 4 reported_row) passed_row"
    unfolding passed_row_def by (rule row_step.verdict) (simp_all add: demo_defs VERDICTS_def)
qed

lemma reported_inv [simp]: "journal_inv default_settings [reported_row]"
  by (rule run_inv[OF _ demo_inv]) (simp add: reported_step)

lemma passed_inv [simp]: "journal_inv default_settings [passed_row]"
  by (rule run_inv[OF _ reported_inv]) (simp add: passed_step)

lemma demo_prepare:
  "prepare (\<lambda>k s. ''h'') Inr default_settings demo_yaml ''op'' ''run'' ''call''
     ''k8s_apply'' [] [(''idempotency_key'', JStr ''key'')]
     \<lparr>allowed = True, rule = [], reason = [], risk_level = [], targets = []\<rparr>
     [(''supported'', JBool True)] 0 [] [] = (Inr (demo_row, True), [demo_row])"
  by (simp add: prepare_def idempotency_key_of_def intent_hmac_def hmac_fingerprint_def
      redact_tool_args_def redact_dict_def create_row_def demo_row_def new_row_def Let_def por_def)

lemma demo_reachable:
  "(jstep (\<lambda>k s. ''h'') Inr default_settings demo_yaml)\<^sup>*\<^sup>* [] [demo_row]"
proof -
  have "(jstep (\<lambda>k s. ''h'') Inr default_settings demo_yaml)\<^sup>*\<^sup>* []
     (snd (Inr (demo_row, True) :: (mutation_operation \<times> bool) py, [demo_row]))"
    unfolding demo_prepare[symmetric] by (rule r_into_rtranclp, rule jstep.prepare)
  then show ?thesis by simp
qed

subsection \<open>Properties\<close>

text \<open>
  C3: Every reachable journal, whatever methods the workers call in whatever order, keeps its
  rows well formed: identifiers and idempotency keys are unique, a lease is held exactly while
  its status says so, an operation is attempted at most once, only a reported or unknown
  outcome carries a verification verdict, and the verification budget is respected.
\<close>

theorem journal_reachable:
  assumes "valid_settings S" and "(jstep hmac uuid S Y)\<^sup>*\<^sup>* [] J"
  shows "distinct (map op_id J) \<and> distinct (map idempotency_key J)
    \<and> list_all (\<lambda>r. lease_inv r \<and> status_inv r \<and> budget_inv S r) J"
  using jruns_moves[OF assms(2,1) empty_journal]
  by (auto simp: journal_inv_def row_inv_def list_all_length)

theorem journal_reachable_witness:
  "distinct (map op_id [demo_row]) \<and> distinct (map idempotency_key [demo_row])
    \<and> list_all (\<lambda>r. lease_inv r \<and> status_inv r \<and> budget_inv default_settings r) [demo_row]"
  by (rule journal_reachable[OF default_valid demo_reachable])

text \<open>
  C4: An operation is executed at most once. After a worker has marked it executing, no worker
  can do so again, however the journal moved on meanwhile: the call raises and changes nothing.
\<close>

theorem executed_at_most_once:
  assumes "valid_settings S" and "journal_inv S J"
    and "mark_executing S oid owner t1 t2 J = (Inr r, J1)"
    and "(jstep hmac uuid S Y)\<^sup>*\<^sup>* J1 J2"
  shows "\<exists>msg. mark_executing S oid owner' t1' t2' J2 = (Inl (invalid_transition msg), J2)"
proof -
  obtain r0 where r0: "find_row oid J = Some r0" "r = executing_row S owner t1 t2 r0" "J1 = save_row r J"
    using with_row_found[OF assms(3)[unfolded mark_executing_def]]
    by (auto simp: does_not_exist_def split: if_splits)
  have J1: "journal_inv S J1"
    using row_steps_moves[OF mark_executing_step] assms(2,3)
    by (metis journal_inv_def snd_conv)
  have "find_row oid J1 = Some r" "execution_status r \<noteq> PREPARED"
    using r0 by (simp_all add: row_defs)
  then obtain r2 where "find_row oid J2 = Some r2" "execution_status r2 \<noteq> PREPARED"
    using jruns_row[OF assms(4,1) J1] row_run_started by blast
  then show ?thesis by (auto simp: mark_executing_def with_row_def)
qed

theorem executed_at_most_once_witness:
  "\<exists>msg. mark_executing default_settings ''op'' ''b'' 3 4
      [executing_row default_settings ''a'' 1 2 demo_row]
    = (Inl (invalid_transition msg), [executing_row default_settings ''a'' 1 2 demo_row])"
proof (rule executed_at_most_once[OF default_valid demo_inv])
  show "mark_executing default_settings ''op'' ''a'' 1 2 [demo_row]
      = (Inr (executing_row default_settings ''a'' 1 2 demo_row),
         [executing_row default_settings ''a'' 1 2 demo_row])"
    by (simp add: mark_executing_def with_row_def find_row_def save_row_def demo_defs)
qed (rule rtranclp.rtrancl_refl)

lemma verdict_stays:
  assumes "valid_settings S" and "journal_inv S J" and "(jstep hmac uuid S Y)\<^sup>*\<^sup>* J J'"
    and "find_row oid J = Some r" and "verification_status r \<in> {PASSED, FAILED, NEEDS_REVIEW}"
  shows "find_row oid J' = Some r"
proof -
  have "execution_status r \<in> VERIFIABLE"
    using find_row_inv[OF assms(2,4)] assms(5) by (auto simp: row_inv_def status_inv_def)
  then have "r' = r" if "(row_step S)\<^sup>*\<^sup>* r r'" for r'
    using row_run_final[OF that] assms(5) by (simp add: FINAL_VERDICTS_def)
  then show ?thesis using jruns_row[OF assms(3,1,2,4)] by auto
qed

text \<open>
  C5: A verdict is final: once verification has passed, failed or been referred to a human,
  no method of the journal changes the row any more.
\<close>

theorem verdict_final:
  assumes "valid_settings S" and "journal_inv S J" and "(jstep hmac uuid S Y)\<^sup>*\<^sup>* J J'"
    and "find_row oid J = Some r" and "verification_status r \<in> {PASSED, FAILED, NEEDS_REVIEW}"
  shows "find_row oid J' = Some r"
  by (rule verdict_stays[OF assms])

theorem verdict_final_witness:
  "find_row ''op'' (snd (converge_stopped_run ''run'' 9 [passed_row])) = Some passed_row"
proof (rule verdict_final[OF default_valid passed_inv])
  show "(jstep (\<lambda>k s. []) Inr default_settings demo_yaml)\<^sup>*\<^sup>* [passed_row]
      (snd (converge_stopped_run ''run'' 9 [passed_row]))"
    by (rule r_into_rtranclp, rule jstep.converge)
  show "find_row ''op'' [passed_row] = Some passed_row"
    by (simp add: find_row_def demo_defs)
  show "verification_status passed_row \<in> {PASSED, FAILED, NEEDS_REVIEW}"
    by (simp add: demo_defs)
qed

text \<open>
  C6: The journal implements the abstract life cycle: seen through its two statuses, the row
  of an operation moves only along the steps of the life cycle, and never disappears.
\<close>

theorem journal_refines_life_cycle:
  assumes "valid_settings S" and "journal_inv S J" and "(jstep hmac uuid S Y)\<^sup>*\<^sup>* J J'"
    and "find_row oid J = Some r"
  shows "\<exists>r'. find_row oid J' = Some r' \<and> life_step\<^sup>*\<^sup>* (abs_life r) (abs_life r')"
  using jruns_row[OF assms(3,1,2,4)] row_run_refines by blast

theorem journal_refines_life_cycle_witness:
  "\<exists>r'. find_row ''op'' (snd (converge_stopped_run ''run'' 9 [demo_row])) = Some r'
      \<and> life_step\<^sup>*\<^sup>* (abs_life demo_row) (abs_life r')"
proof (rule journal_refines_life_cycle[OF default_valid demo_inv])
  show "(jstep (\<lambda>k s. []) Inr default_settings demo_yaml)\<^sup>*\<^sup>* [demo_row]
      (snd (converge_stopped_run ''run'' 9 [demo_row]))"
    by (rule r_into_rtranclp, rule jstep.converge)
  show "find_row ''op'' [demo_row] = Some demo_row" by (simp add: find_row_def demo_defs)
qed

lemma claim_row_simps [simp]:
  "verification_status (claim_row S owner now t r) = VERIFYING"
  "execution_status (claim_row S owner now t r) = execution_status r"
  "verification_lease_owner (claim_row S owner now t r) = Some owner"
  "verification_lease_expires_at (claim_row S owner now t r)
     = Some (now + seconds (verification_lease_seconds S))"
  "verification_attempt_count (claim_row S owner now t r) = verification_attempt_count r + 1"
  "created_at (claim_row S owner now t r) = created_at r"
  "op_id (claim_row S owner now t r) = op_id r"
  by (simp_all add: row_defs)

lemma claim_found:
  assumes "claim_verification S oid owner now saved_at J = (Inr (r, True), J1)"
  obtains r0 where "find_row oid J = Some r0" "r = claim_row S owner now saved_at r0"
    "J1 = save_row r J" "find_row oid J1 = Some r"
    "execution_status r0 \<in> VERIFIABLE" "verification_status r0 \<notin> TERMINAL"
    "\<not> verification_budget_exhausted S r0 now"
proof -
  obtain r0 where "find_row oid J = Some r0"
    and b: "(if execution_status r0 \<notin> VERIFIABLE then
         (Inl (invalid_transition (''Cannot verify operation '' @ oid @ '' from ''
            @ exec_value (execution_status r0))), J)
       else if verification_status r0 \<in> TERMINAL then (Inr (r0, False), J)
       else if verification_budget_exhausted S r0 now then
         (Inr (exhaust_row r0 now saved_at, False), save_row (exhaust_row r0 now saved_at) J)
       else if lease_active r0 now \<and> verification_lease_owner r0 \<noteq> Some owner then
         (Inr (r0, False), J)
       else (Inr (claim_row S owner now saved_at r0, True),
             save_row (claim_row S owner now saved_at r0) J)) = (Inr (r, True), J1)"
    using with_row_found[OF assms[unfolded claim_verification_def]] by auto
  moreover from b have "r = claim_row S owner now saved_at r0" "J1 = save_row r J"
      "execution_status r0 \<in> VERIFIABLE" "verification_status r0 \<notin> TERMINAL"
      "\<not> verification_budget_exhausted S r0 now"
    by (auto split: if_splits)
  ultimately show ?thesis using that by simp
qed

text \<open>
  C7: The verification lease is exclusive. While the lease a worker has just claimed has not
  expired, no other worker's claim succeeds, and no other worker can record a verdict.
\<close>

theorem verification_lease_exclusive:
  assumes "claim_verification S oid a now saved_at J = (Inr (r, True), J1)"
    and "b \<noteq> a" and "now' < now + seconds (verification_lease_seconds S)"
  shows "(\<exists>r'. fst (claim_verification S oid b now' saved_at' J1) = Inr (r', False))
    \<and> (\<exists>e. record_verification oid b verdict result ext now' J1 = (Inl e, J1))"
proof -
  obtain r0 where r0: "find_row oid J1 = Some r" "r = claim_row S a now saved_at r0"
      "execution_status r0 \<in> VERIFIABLE"
    using claim_found[OF assms(1)] by metis
  have "lease_active r now'"
    using r0(2) assms(3) by (simp add: lease_active_def)
  with r0 assms(2) show ?thesis
    by (auto simp: claim_verification_def record_verification_def with_row_def TERMINAL_def)
qed

theorem verification_lease_exclusive_witness:
  "(\<exists>r'. fst (claim_verification default_settings ''op'' ''b'' 5 5
       [claim_row default_settings ''a'' 4 4 reported_row]) = Inr (r', False))
   \<and> (\<exists>e. record_verification ''op'' ''b'' PASSED [] JNull 5
       [claim_row default_settings ''a'' 4 4 reported_row]
       = (Inl e, [claim_row default_settings ''a'' 4 4 reported_row]))"
proof (rule verification_lease_exclusive)
  show "claim_verification default_settings ''op'' ''a'' 4 4 [reported_row]
      = (Inr (claim_row default_settings ''a'' 4 4 reported_row, True),
         [claim_row default_settings ''a'' 4 4 reported_row])"
    by (simp add: claim_verification_def with_row_def find_row_def save_row_def
        demo_defs VERIFIABLE_def TERMINAL_def verification_budget_exhausted_def
        lease_active_def default_settings_def seconds_def)
  show "(5::int) < 4 + seconds (verification_lease_seconds default_settings)"
    by (simp add: verification_lease_seconds_def default_settings_def seconds_def trunc_seconds_def)
qed simp

text \<open>
  The last attempt the budget allows can be lost to a race: if another worker claims while
  that attempt still runs under its lease, the claim refers the operation to a human instead
  of reporting that the lease is held, and the verdict the first worker then records, passed
  or failed, is refused.
\<close>

theorem last_attempt_lost_to_race:
  assumes "claim_verification S oid a now saved_at J = (Inr (r, True), J1)"
    and "MUTATION_MAX_VERIFICATION_ATTEMPTS S \<le> verification_attempt_count r"
  shows "let J2 = snd (claim_verification S oid b now' saved_at' J1) in
    (\<exists>r'. find_row oid J2 = Some r' \<and> verification_status r' = NEEDS_REVIEW)
    \<and> (\<exists>e. record_verification oid a verdict result ext t J2 = (Inl e, J2))"
proof -
  obtain r0 where r0: "find_row oid J1 = Some r" "r = claim_row S a now saved_at r0"
      "execution_status r0 \<in> VERIFIABLE"
    using claim_found[OF assms(1)] by metis
  define J2 where "J2 = snd (claim_verification S oid b now' saved_at' J1)"
  have "J2 = save_row (exhaust_row r now' saved_at') J1"
    using assms(2) r0 unfolding J2_def
    by (simp add: claim_verification_def with_row_def TERMINAL_def verification_budget_exhausted_def)
  then have "find_row oid J2 = Some (exhaust_row r now' saved_at')"
    using r0(1) by (simp add: row_defs)
  then show ?thesis
    unfolding Let_def J2_def[symmetric]
    by (simp add: record_verification_def with_row_def) (simp add: row_defs)
qed

definition one_attempt :: settings where
  "one_attempt = default_settings\<lparr>MUTATION_MAX_VERIFICATION_ATTEMPTS := 1\<rparr>"

theorem last_attempt_lost_to_race_witness:
  "let J2 = snd (claim_verification one_attempt ''op'' ''b'' 5 5
          [claim_row one_attempt ''a'' 4 4 reported_row]) in
   (\<exists>r'. find_row ''op'' J2 = Some r' \<and> verification_status r' = NEEDS_REVIEW)
   \<and> (\<exists>e. record_verification ''op'' ''a'' PASSED [] JNull 6 J2 = (Inl e, J2))"
proof (rule last_attempt_lost_to_race)
  show "claim_verification one_attempt ''op'' ''a'' 4 4 [reported_row]
      = (Inr (claim_row one_attempt ''a'' 4 4 reported_row, True),
         [claim_row one_attempt ''a'' 4 4 reported_row])"
    by (simp add: claim_verification_def with_row_def find_row_def save_row_def
        demo_defs VERIFIABLE_def TERMINAL_def verification_budget_exhausted_def
        lease_active_def one_attempt_def default_settings_def seconds_def)
qed (simp add: one_attempt_def demo_defs default_settings_def)

lemma prepare_created:
  assumes "prepare hmac uuid S Y oid run call tool args ctx policy plan now J J = (Inr (r, True), J1)"
  obtains u where "uuid oid = Inr u" "op_id r = u" "J1 = J @ [r]"
    "idempotency_key r = idempotency_key_of hmac S ctx call tool args"
    "op_tool r = tool" "args_hmac r = intent_hmac hmac S tool args"
    "find (\<lambda>x. op_id x = u \<or> idempotency_key x = idempotency_key r) J = None"
proof -
  obtain u where u: "uuid oid = Inr u"
    using assms by (auto simp: prepare_def split: sum.splits)
  let ?key = "idempotency_key_of hmac S ctx call tool args"
  have none: "find (\<lambda>x. op_id x = u \<or> idempotency_key x = ?key) J = None"
    using assms u by (auto simp: prepare_def Let_def reuse_row_def split: option.splits if_splits)
  obtain rargs approval where
    "create_row tool (intent_hmac hmac S tool args)
       (new_row u ?key run call tool (intent_hmac hmac S tool args) ctx rargs approval policy plan now) J
     = (Inr (r, True), J1)"
    using assms u none by (auto simp: prepare_def Let_def split: sum.splits)
  then have "r = new_row u ?key run call tool (intent_hmac hmac S tool args) ctx rargs approval policy plan now"
    and "J1 = J @ [r]"
    by (auto simp: create_row_def reuse_row_def split: if_splits option.splits)
  with u none show ?thesis by (intro that) (simp_all add: new_row_def)
qed

text \<open>
  Preparing is idempotent: calling \<open>prepare\<close> again for the same operation, at any later
  time and however the journal moved on, returns the row already there, says that it is not
  new, and leaves the journal as it is.
\<close>

theorem prepare_idempotent:
  assumes "valid_settings S" and "journal_inv S J"
    and "prepare hmac uuid S Y oid run call tool args ctx policy plan now J J = (Inr (r, True), J1)"
    and "(jstep hmac uuid S Y)\<^sup>*\<^sup>* J1 J2"
  shows "\<exists>r'. prepare hmac uuid S Y oid run call tool args ctx policy' plan' now' J2 J2
      = (Inr (r', False), J2) \<and> find_row (op_id r) J2 = Some r'"
proof -
  obtain u where u: "uuid oid = Inr u" "op_id r = u" "J1 = J @ [r]"
    "idempotency_key r = idempotency_key_of hmac S ctx call tool args"
    "op_tool r = tool" "args_hmac r = intent_hmac hmac S tool args"
    "find (\<lambda>x. op_id x = u \<or> idempotency_key x = idempotency_key r) J = None"
    by (rule prepare_created[OF assms(3)]) (rule that; assumption)
  have J1: "journal_inv S J1"
    using appends_moves[OF prepare_appends assms(1,2)] assms(3) by (metis snd_conv)
  then have J1_moves: "jmoves S J1 J2" and J2: "journal_inv S J2"
    using jruns_moves[OF assms(4,1)] by auto
  have "find (\<lambda>x. op_id x = u \<or> idempotency_key x = idempotency_key r) J1 = Some r"
    using u by (simp add: find_none_append)
  then obtain r' where r': "find (\<lambda>x. op_id x = u \<or> idempotency_key x = idempotency_key r) J2 = Some r'"
      "(row_step S)\<^sup>*\<^sup>* r r'"
    using find_run[of S J1 _ u "idempotency_key r"] J1_moves unfolding jmoves_def by blast
  have intent: "op_id r' = u" "op_tool r' = tool" "args_hmac r' = args_hmac r"
    using jruns.step_key[OF r'(2)] row_run_intent[OF r'(2)] u by auto
  have "r' \<in> set J2" using r'(1) by (auto simp: find_Some_iff)
  moreover have "distinct (map op_id J2)" using J2 by (simp add: journal_inv_def)
  ultimately have "find_row u J2 = Some r'" using find_row_mem intent(1) by blast
  with r'(1) intent u show ?thesis
    by (auto simp: prepare_def Let_def reuse_row_def same_intent_def)
qed

theorem prepare_idempotent_witness:
  "\<exists>r'. prepare (\<lambda>k s. ''h'') Inr default_settings demo_yaml ''op'' ''run'' ''call''
     ''k8s_apply'' [] [(''idempotency_key'', JStr ''key'')]
     \<lparr>allowed = True, rule = [], reason = [], risk_level = [], targets = []\<rparr> [] 8
     (snd (converge_stopped_run ''run'' 7 [demo_row])) (snd (converge_stopped_run ''run'' 7 [demo_row]))
   = (Inr (r', False), snd (converge_stopped_run ''run'' 7 [demo_row]))
   \<and> find_row (op_id demo_row) (snd (converge_stopped_run ''run'' 7 [demo_row])) = Some r'"
  by (rule prepare_idempotent[OF default_valid empty_journal demo_prepare])
     (rule r_into_rtranclp, rule jstep.converge)

text \<open>
  An idempotency key names one intent: preparing a different tool call or different
  arguments under a key the journal already holds is refused, and the journal is unchanged.
\<close>

theorem prepare_collision:
  assumes "uuid oid = Inr u"
    and "find (\<lambda>x. op_id x = u \<or> idempotency_key x = idempotency_key_of hmac S ctx call tool args) J
      = Some r"
    and "op_tool r \<noteq> tool \<or> args_hmac r \<noteq> intent_hmac hmac S tool args"
  shows "prepare hmac uuid S Y oid run call tool args ctx policy plan now J J'
    = (Inl (invalid_transition ''Idempotency key collision with different mutation intent''), J')"
  using assms by (auto simp: prepare_def Let_def reuse_row_def same_intent_def)

theorem prepare_collision_witness:
  "prepare (\<lambda>k s. ''h'') Inr default_settings demo_yaml ''op2'' ''run'' ''call'' ''k8s_delete'' []
     [(''idempotency_key'', JStr ''key'')]
     \<lparr>allowed = True, rule = [], reason = [], risk_level = [], targets = []\<rparr> [] 7 [demo_row] [demo_row]
   = (Inl (invalid_transition ''Idempotency key collision with different mutation intent''), [demo_row])"
  by (rule prepare_collision[where u = "''op2''" and r = demo_row])
     (simp_all add: idempotency_key_of_def por_def demo_defs)

lemma settle_simps [simp]:
  "execution_status (cancel_row now r) = CANCELLED" "op_run_id (cancel_row now r) = op_run_id r"
  "execution_status (interrupt_row now r) = UNKNOWN" "op_run_id (interrupt_row now r) = op_run_id r"
  by (simp_all add: row_defs)

definition settled :: "string \<Rightarrow> int \<Rightarrow> mutation_operation \<Rightarrow> mutation_operation" where
  "settled run now r =
     (if op_run_id r = run \<and> execution_status r = PREPARED then cancel_row now r
      else if op_run_id r = run \<and> execution_status r = EXECUTING then interrupt_row now r
      else r)"

text \<open>
  Stopping a run settles every operation of it that had not finished: a prepared one is
  cancelled, one in flight becomes unknown and awaits verification, and every other row stays
  as it is.
\<close>

theorem stopped_run_converges:
  "converge_stopped_run run now J =
     ((length (filter (\<lambda>r. op_run_id r = run \<and> execution_status r = PREPARED) J),
       length (filter (\<lambda>r. op_run_id r = run \<and> execution_status r = EXECUTING) J)),
      map (settled run now) J)
   \<and> filter (\<lambda>r. op_run_id r = run \<and> execution_status r \<in> {PREPARED, EXECUTING})
       (snd (converge_stopped_run run now J)) = []"
proof -
  let ?P = "\<lambda>r. op_run_id r = run \<and> execution_status r = PREPARED"
  let ?E = "\<lambda>r. op_run_id r = run \<and> execution_status r = EXECUTING"
  have "filter ?E (map (\<lambda>r. if ?P r then cancel_row now r else r) J) = filter ?E J"
    by (induction J) auto
  moreover have "map (\<lambda>r. if ?E r then interrupt_row now r else r)
      (map (\<lambda>r. if ?P r then cancel_row now r else r) J) = map (settled run now) J"
    by (induction J) (auto simp: settled_def)
  ultimately have run: "converge_stopped_run run now J =
     ((length (filter ?P J), length (filter ?E J)), map (settled run now) J)"
    by (simp only: converge_stopped_run_def cancel_prepared_def interrupt_executing_def update_where_def Let_def prod.case)
  have "\<not> (op_run_id (settled run now r) = run
      \<and> execution_status (settled run now r) \<in> {PREPARED, EXECUTING})" for r
    by (simp add: settled_def)
  then show ?thesis
    unfolding run snd_conv filter_empty_conv set_map by (intro conjI refl ballI) (elim imageE, simp)
qed

lemma recover_simps [simp]:
  "execution_status (abandoned_row now r) = UNKNOWN"
  "verification_status (abandoned_row now r) = PENDING"
  "verification_status (release_row d now r) = INCONCLUSIVE"
  "execution_status (release_row d now r) = execution_status r"
  by (simp_all add: row_defs)

text \<open>
  Recovery after a crash never repeats a mutation: an execution whose lease ran out
  becomes unknown and pending verification, so no worker can execute it again, every other
  row is untouched, and nothing stale is left behind.
\<close>

theorem recovery_never_reexecutes:
  assumes "r \<in> set J" and "r' = (if stale_execution now r then abandoned_row now r else r)"
  shows "r' \<in> set (snd (recover_stale_executions now J))
    \<and> (execution_status r' = PREPARED \<longleftrightarrow> execution_status r = PREPARED)
    \<and> (stale_execution now r \<longrightarrow> execution_status r' = UNKNOWN \<and> verification_status r' = PENDING)
    \<and> filter (stale_execution now) (snd (recover_stale_executions now J)) = []"
proof -
  have "\<not> stale_execution now (abandoned_row now x)" for x
    by (simp add: stale_execution_def)
  moreover have "stale_execution now x \<Longrightarrow> execution_status x \<noteq> PREPARED" for x
    by (auto simp: stale_execution_def)
  ultimately show ?thesis
    using assms by (auto simp: recover_stale_executions_def update_where_def filter_empty_conv)
qed

definition stuck_row :: mutation_operation where
  "stuck_row = executing_row default_settings ''w'' 1 2 demo_row"

theorem recovery_never_reexecutes_witness:
  "abandoned_row (10 ^ 12) stuck_row \<in> set (snd (recover_stale_executions (10 ^ 12) [stuck_row]))
   \<and> execution_status (abandoned_row (10 ^ 12) stuck_row) = UNKNOWN"
proof -
  have stale: "stale_execution (10 ^ 12) stuck_row"
    by (simp add: stale_execution_def expired_def stuck_row_def demo_defs default_settings_def seconds_def)
  have "abandoned_row (10 ^ 12) stuck_row
      = (if stale_execution (10 ^ 12) stuck_row then abandoned_row (10 ^ 12) stuck_row else stuck_row)"
    using stale by simp
  from recovery_never_reexecutes[OF _ this, of "[stuck_row]"] stale show ?thesis by simp
qed

text \<open>
  C24: The redacted fields of the journal hold no credential: in every reachable journal, no value stored
  under a sensitive key of the recorded arguments, result, error, verification result or external
  reference is anything but the redaction mark. The identity of the target and the verification plan are
  not among these fields: they are stored as they are given (lemma \<open>plan_stored_unredacted\<close>).
\<close>

theorem redacted_fields_hold_no_secrets:
  assumes "valid_settings S" and "(jstep hmac uuid S Y)\<^sup>*\<^sup>* [] J" and "r \<in> set J"
  shows "leak_free (JDict (redacted_args r)) \<and> leak_free (execution_result r)
     \<and> leak_free (execution_error r) \<and> leak_free (verification_result r)
     \<and> leak_free (external_reference r)"
proof -
  have "row_inv S r"
    using jruns_moves[OF assms(2,1) empty_journal] assms(3)
    by (auto simp: journal_inv_def list_all_iff)
  then show ?thesis by (simp add: row_inv_def audit_inv_def)
qed

definition leaking_result :: dict where
  "leaking_result = [(''stdout'', JStr ''ok''), (''Api_Key'', JStr ''hunter2'')]"

definition redacted_row :: mutation_operation where
  "redacted_row = outcome_row REPORTED_SUCCESS leaking_result [] 3 stuck_row"

lemma redacted_reachable:
  "(jstep (\<lambda>k s. ''h'') Inr default_settings demo_yaml)\<^sup>*\<^sup>* [] [redacted_row]"
proof -
  have 1: "[stuck_row] = snd (mark_executing default_settings ''op'' ''w'' 1 2 [demo_row])"
    by (simp add: stuck_row_def mark_executing_def with_row_def find_row_def save_row_def demo_defs)
  have 2: "[redacted_row] = snd (record_execution ''op'' REPORTED_SUCCESS leaking_result [] 3 [stuck_row])"
    by (simp add: redacted_row_def stuck_row_def record_execution_def OUTCOMES_def with_row_def
        find_row_def save_row_def demo_defs)
  have "jstep (\<lambda>k s. ''h'') Inr default_settings demo_yaml [demo_row] [stuck_row]"
    unfolding 1 by (rule jstep.mark_executing)
  moreover have "jstep (\<lambda>k s. ''h'') Inr default_settings demo_yaml [stuck_row] [redacted_row]"
    unfolding 2 by (rule jstep.record_execution)
  ultimately show ?thesis
    using demo_reachable by (meson rtranclp.rtrancl_into_rtrancl)
qed

theorem redacted_fields_hold_no_secrets_witness:
  "leak_free (execution_result redacted_row)
   \<and> execution_result redacted_row
      = JDict [(''stdout'', JStr ''ok''), (''Api_Key'', REDACTED)]"
proof
  show "leak_free (execution_result redacted_row)"
    using redacted_fields_hold_no_secrets[OF default_valid redacted_reachable, of redacted_row] by simp
  show "execution_result redacted_row = JDict [(''stdout'', JStr ''ok''), (''Api_Key'', REDACTED)]"
    unfolding redacted_row_def leaking_result_def by (simp add: row_defs) code_simp
qed

text \<open>
  A plan is stored as it is given: a reachable journal holds, in the plan of a row, the value a sensitive
  key has in the desired state of the target.
\<close>

definition revealing_plan :: dict where
  "revealing_plan = [(''supported'', JBool True), (''targets'', JList [JDict
     [(''desired_spec'', JDict [(''password'', JStr ''hunter2'')])]])]"

lemma plan_stored_unredacted:
  "\<exists>J r. (jstep (\<lambda>k s. ''h'') Inr default_settings demo_yaml)\<^sup>*\<^sup>* [] J \<and> r \<in> set J
     \<and> verification_plan r = revealing_plan \<and> \<not> leak_free (JDict (verification_plan r))"
proof -
  define r where "r = demo_row\<lparr>verification_plan := revealing_plan\<rparr>"
  have "prepare (\<lambda>k s. ''h'') Inr default_settings demo_yaml ''op'' ''run'' ''call''
     ''k8s_apply'' [] [(''idempotency_key'', JStr ''key'')]
     \<lparr>allowed = True, rule = [], reason = [], risk_level = [], targets = []\<rparr>
     revealing_plan 0 [] [] = (Inr (r, True), [r])"
    by (simp add: prepare_def idempotency_key_of_def intent_hmac_def hmac_fingerprint_def redact_tool_args_def
        redact_dict_def create_row_def demo_row_def new_row_def Let_def por_def r_def revealing_plan_def dget_def_def)
  then have "[r] = snd (prepare (\<lambda>k s. ''h'') Inr default_settings demo_yaml ''op'' ''run'' ''call''
     ''k8s_apply'' [] [(''idempotency_key'', JStr ''key'')]
     \<lparr>allowed = True, rule = [], reason = [], risk_level = [], targets = []\<rparr> revealing_plan 0 [] [])"
    by simp
  then have "(jstep (\<lambda>k s. ''h'') Inr default_settings demo_yaml)\<^sup>*\<^sup>* [] [r]"
    by (metis jstep.prepare r_into_rtranclp)
  moreover have "sensitive_key ''password''" by code_simp
  moreover have "\<not> leak_free (JDict revealing_plan)"
    using \<open>sensitive_key ''password''\<close> by (simp add: revealing_plan_def REDACTED_def)
  ultimately show ?thesis by (intro exI[of _ "[r]"] exI[of _ r]) (simp add: r_def)
qed

end
