(* ===== verification/VerifierProps.thy ===== *)
theory VerifierProps
  imports Verifier JournalProps
begin

text \<open>
  What a verification establishes: it returns, it only reads, it moves the journal by the
  journal's own methods, it reports a pass only when the journal says so, and a pass of the
  Kubernetes adapter means every target was read back as this operation left it.
\<close>

subsection \<open>The polling loop returns\<close>

lemma poll_returns:
  assumes "\<And>w. wmono w \<le> wmono (snd (check w))"
    and "\<And>w. wmono w + interval \<le> wmono (snd (pause w))" and "0 < interval"
  shows "\<exists>y. poll check pause deadline w = Some y"
proof (induction "nat (deadline - wmono w)" arbitrary: w rule: less_induct)
  case less
  obtain res w1 where w1: "check w = (res, w1)" by (cases "check w")
  obtain res2 w2 where w2: "pause w1 = (res2, w2)" by (cases "pause w1")
  have mono: "wmono w \<le> wmono w1" "wmono w1 + interval \<le> wmono w2"
    using assms(1)[of w] assms(2)[of w1] w1 w2 by auto
  have cont: "wmono w1 < deadline" if "round_verdict deadline (wmono w1) round = None" for round
    using that by (auto simp: round_verdict_def split: prod.splits if_splits)
  have "\<exists>y. poll check pause deadline w2 = Some y" if "wmono w1 < deadline"
    using mono that assms(3) by (intro less) auto
  with cont show ?case
    by (subst poll.simps) (auto simp: w1 w2 split: sum.splits option.splits)
qed

context world_moves
begin

lemma moves_read_targets:
  assumes "\<And>tool args run. moves (mcp_call M tool args run)"
  shows "moves (read_targets M loads r run ts acc)"
  by (induction ts arbitrary: acc) (auto simp: read_target_def intro!: moves_bind assms)

lemma moves_read_workloads:
  assumes "\<And>tool args run. moves (mcp_call M tool args run)"
  shows "moves (read_workloads M loads ns run ts acc)"
  by (induction ts arbitrary: acc) (auto intro!: moves_bind assms)

lemma moves_verify_helm:
  assumes "\<And>tool args run. moves (mcp_call M tool args run)"
  shows "moves (verify_helm M loads Y r run)"
  unfolding verify_helm_def verify_release_workloads_def
  by (auto intro!: moves_bind moves_read_workloads assms split: sum.splits)

lemma moves_verify_round:
  assumes "\<And>tool args run. moves (mcp_call M tool args run)"
  shows "moves (verify_round M loads Y r run)"
  unfolding verify_round_def verify_kubernetes_def
  by (auto intro!: moves_catch moves_bind moves_read_targets moves_verify_helm assms)

lemma poll_moves_raw:
  assumes "poll check pause deadline w = Some y"
  shows "moves check \<longrightarrow> moves pause \<longrightarrow> step (obs w) (obs (snd y))"
proof (rule poll.raw_induct[where P = "\<lambda>check pause deadline w y.
      moves check \<longrightarrow> moves pause \<longrightarrow> step (obs w) (obs (snd y))", OF _ assms], intro impI)
  fix self check pause deadline w y
  assume IH: "\<And>check pause deadline w y. self check pause deadline w = Some y \<Longrightarrow>
      moves check \<longrightarrow> moves pause \<longrightarrow> step (obs w) (obs (snd y))"
    and eq: "(case check w of (Inl e, w1) \<Rightarrow> Some (Inl e, w1)
        | (Inr round, w1) \<Rightarrow>
            case round_verdict deadline (wmono w1) round of
            None \<Rightarrow>
              case pause w1 of (Inl e, w2) \<Rightarrow> Some (Inl e, w2)
              | (Inr x, w2) \<Rightarrow> self check pause deadline w2
            | Some v \<Rightarrow> Some (Inr v, w1)) = Some y"
    and m: "moves check" "moves pause"
  obtain r1 w1 where w1: "check w = (r1, w1)" by (cases "check w")
  obtain r2 w2 where w2: "pause w1 = (r2, w2)" by (cases "pause w1")
  have "step (obs w) (obs w1)" and "step (obs w1) (obs w2)"
    using m w1 w2 by (metis moves_def snd_conv)+
  moreover have "step (obs w2) (obs (snd y))" if "self check pause deadline w2 = Some y"
    using IH[OF that] m by simp
  ultimately show "step (obs w) (obs (snd y))"
    using eq by (auto simp: w1 w2 intro: step_trans split: sum.splits option.splits)
qed

lemma poll_moves:
  "poll check pause deadline w = Some (res, w') \<Longrightarrow> moves check \<Longrightarrow> moves pause \<Longrightarrow>
     step (obs w) (obs w')"
  using poll_moves_raw by fastforce

end

subsection \<open>A quiet cluster\<close>

text \<open>An environment for examples: every read fails, a pause lets the clocks advance.\<close>

definition quiet_mcp :: "unit mcp" where
  "quiet_mcp = \<lparr>mcp_call = \<lambda>tool args run. ret [(''isError'', JBool True)],
     mcp_sleep = \<lambda>us w. (Inr (), w\<lparr>wmono := wmono w + us, wnow := wnow w + us\<rparr>)\<rparr>"

definition quiet_world :: "unit world" where
  "quiet_world = \<lparr>wj = [reported_row], wnow = 4, wmono = 0, wevents = [], wenv = ()\<rparr>"

definition no_json :: "string \<Rightarrow> json py" where
  "no_json s = Inl (Exc ''JSONDecodeError'' [])"

lemma verify_cases:
  assumes "verify M loads Y S oid owner w = Some (res, w')"
  obtains (missing) "find_row oid (wj w) = None" "w' = w"
      "res = Inr (bool_result False True @ [(''reason'', JStr ''operation_not_found'')])"
  | (failed) e where "on_journal (\<lambda>now. claim_verification S oid owner now now) w = (Inl e, w')"
      "res = Inl e"
  | (unclaimed) r where
      "on_journal (\<lambda>now. claim_verification S oid owner now now) w = (Inr (r, False), w')"
      "res = Inr (unclaimed_result r)"
  | (claimed) r r0 w1 out w2 where
      "on_journal (\<lambda>now. claim_verification S oid owner now now) w = (Inr (r, True), w1)"
      "poll (verify_round M loads Y r (verification_run_id r0 owner))
         (mcp_sleep M (MUTATION_VERIFICATION_INTERVAL_US S))
         (wmono w1 + seconds (MUTATION_VERIFICATION_TIMEOUT_SECONDS S)) w1 = Some (out, w2)"
      "conclude oid owner out w2 = (res, w')"
  using assms unfolding verify_def
  by (auto split: option.splits prod.splits sum.splits if_splits)

lemma verify_some:
  assumes "\<And>r run d w'. poll (verify_round M loads Y r run)
      (mcp_sleep M (MUTATION_VERIFICATION_INTERVAL_US S)) d w' \<noteq> None"
  shows "\<exists>y. verify M loads Y S oid owner w = Some y"
  using assms unfolding verify_def
  by (auto simp del: not_None_eq split: option.split prod.split sum.split)

lemma rounds_return:
  assumes "valid_settings S"
    and "\<And>tool args run w. wmono w \<le> wmono (snd (mcp_call M tool args run w))"
    and "\<And>us w. wmono w + us \<le> wmono (snd (mcp_sleep M us w))"
  shows "poll (verify_round M loads Y r run) (mcp_sleep M (MUTATION_VERIFICATION_INTERVAL_US S)) d w \<noteq> None"
proof -
  have "clock.moves (verify_round M loads Y r run)"
    using assms(2) by (intro clock.moves_verify_round) (simp add: clock.moves_def)
  moreover have "0 < MUTATION_VERIFICATION_INTERVAL_US S"
    using assms(1) by (simp add: valid_settings_def)
  ultimately have "\<exists>y. poll (verify_round M loads Y r run)
      (mcp_sleep M (MUTATION_VERIFICATION_INTERVAL_US S)) d w = Some y"
    using assms(3) by (intro poll_returns) (auto simp: clock.moves_def)
  then show ?thesis by simp
qed

lemma quiet_rounds:
  "poll (verify_round quiet_mcp no_json demo_yaml r run)
     (mcp_sleep quiet_mcp (MUTATION_VERIFICATION_INTERVAL_US default_settings)) d w \<noteq> None"
  by (rule rounds_return[OF default_valid]) (simp_all add: quiet_mcp_def)

subsection \<open>Properties\<close>

text \<open>
  C12: Verification returns: when reading does not turn the monotonic clock back and every
  pause advances it by the interval, the polling loop ends and \<open>verify\<close> has a result,
  whatever the cluster answers.
\<close>

theorem verify_returns:
  assumes "valid_settings S"
    and "\<And>tool args run w. wmono w \<le> wmono (snd (mcp_call M tool args run w))"
    and "\<And>us w. wmono w + us \<le> wmono (snd (mcp_sleep M us w))"
  shows "\<exists>y. verify M loads Y S oid owner w = Some y"
  by (rule verify_some) (rule rounds_return[OF assms])

theorem verify_returns_witness:
  "\<exists>y. verify quiet_mcp no_json demo_yaml default_settings ''op'' ''v'' quiet_world = Some y"
  by (rule verify_returns[OF default_valid]) (simp_all add: quiet_mcp_def)

lemma verify_moves_journal:
  assumes "\<And>tool args run w. (jstep hmac uuid S Y)\<^sup>*\<^sup>* (wj w) (wj (snd (mcp_call M tool args run w)))"
    and "\<And>us w. (jstep hmac uuid S Y)\<^sup>*\<^sup>* (wj w) (wj (snd (mcp_sleep M us w)))"
    and "verify M loads Y S oid owner w = Some (res, w')"
  shows "(jstep hmac uuid S Y)\<^sup>*\<^sup>* (wj w) (wj w')"
proof -
  have claim: "jm.moves hmac uuid S Y (on_journal (\<lambda>now. claim_verification S oid owner now now))"
    by (rule moves_journal) (rule jstep.claim)
  have round: "jm.moves hmac uuid S Y (verify_round M loads Y r run)" for r run
    using assms(1) by (intro jm.moves_verify_round) (simp add: jm.moves_def)
  have pause: "jm.moves hmac uuid S Y (mcp_sleep M us)" for us
    using assms(2) by (simp add: jm.moves_def)
  have conclude: "jm.moves hmac uuid S Y (conclude oid owner out)" for out
    by (auto simp: conclude_def intro!: jm.moves_bind moves_journal jstep.abandon
        jstep.record_verification split: sum.splits prod.splits)
  from assms(3) show ?thesis
  proof (cases rule: verify_cases)
    case (claimed r r0 w1 out w2)
    from jm.moves_eq[OF claim claimed(1)] jm.poll_moves[OF claimed(2) round pause]
      jm.moves_eq[OF conclude claimed(3)]
    show ?thesis by (meson rtranclp_trans)
  qed (use jm.moves_eq[OF claim] in auto)
qed

text \<open>
  Verification respects the journal's protocol: if the environment moves the journal only
  by the journal's methods while verification waits for it, verification as a whole does too,
  so every guarantee of the journal holds across it.
\<close>

theorem verify_keeps_protocol:
  assumes "\<And>tool args run w. (jstep hmac uuid S Y)\<^sup>*\<^sup>* (wj w) (wj (snd (mcp_call M tool args run w)))"
    and "\<And>us w. (jstep hmac uuid S Y)\<^sup>*\<^sup>* (wj w) (wj (snd (mcp_sleep M us w)))"
    and "verify M loads Y S oid owner w = Some (res, w')"
  shows "(jstep hmac uuid S Y)\<^sup>*\<^sup>* (wj w) (wj w')"
  by (rule verify_moves_journal[OF assms])

theorem verify_keeps_protocol_witness:
  "\<exists>res w'. verify quiet_mcp no_json demo_yaml default_settings ''op'' ''v'' quiet_world = Some (res, w')
     \<and> (jstep (\<lambda>k s. []) Inr default_settings demo_yaml)\<^sup>*\<^sup>* (wj quiet_world) (wj w')"
proof -
  obtain res w' where v: "verify quiet_mcp no_json demo_yaml default_settings ''op'' ''v'' quiet_world
      = Some (res, w')"
    using verify_some[OF quiet_rounds] by (metis surj_pair)
  have "(jstep (\<lambda>k s. []) Inr default_settings demo_yaml)\<^sup>*\<^sup>* (wj quiet_world) (wj w')"
    by (rule verify_keeps_protocol[OF _ _ v]) (simp_all add: quiet_mcp_def)
  with v show ?thesis by blast
qed

lemma claim_result_found:
  assumes "claim_verification S oid owner now saved_at J = (Inr (r, b), J')"
  shows "find_row oid J' = Some r"
proof -
  obtain r0 where r0: "find_row oid J = Some r0"
    using with_row_found[OF assms[unfolded claim_verification_def]] by auto
  have ids: "op_id (exhaust_row r0 now saved_at) = op_id r0"
    by (simp add: row_defs)
  from assms r0 ids show ?thesis
    by (auto simp: claim_verification_def with_row_def split: if_splits)
qed

lemma record_result_found:
  assumes "record_verification oid owner status result ext now J = (Inr r, J')"
  shows "find_row oid J' = Some r \<and> verification_status r = status"
proof -
  obtain r0 where r0: "find_row oid J = Some r0"
    using assms with_row_found by (fastforce simp: record_verification_def split: if_splits)
  have ids: "op_id (verdict_row status result ext now r0) = op_id r0"
      "verification_status (verdict_row status result ext now r0) = status"
    by (simp_all add: row_defs)
  from assms r0 ids show ?thesis
    by (auto simp: record_verification_def with_row_def split: if_splits)
qed

lemma on_journal_eq:
  "on_journal f w = (c, w') \<longleftrightarrow> (\<exists>J. f (wnow w) (wj w) = (c, J) \<and> w' = w\<lparr>wj := J\<rparr>)"
  by (auto simp: on_journal_def split: prod.splits)

lemma dget_append: "dget_def (d @ e) k v = (case map_of d k of None \<Rightarrow> dget_def e k v | Some x \<Rightarrow> x)"
  by (auto simp: dget_def_def map_add_def split: option.splits)

lemma result_passed:
  "dget (bool_result p i @ rest) ''passed'' = JBool p"
  "dget (summary_result p i st r ev) ''passed'' = JBool p"
  by (simp_all add: summary_result_def bool_result_def)

lemma verify_passed_status:
  assumes "verify M loads Y S oid owner w = Some (Inr res, w')" and "truthy (dget res ''passed'')"
  shows "dget res ''passed'' = JBool True \<and> map_of res ''status'' = Some (JStr ''passed'')"
  using assms(1)
proof (cases rule: verify_cases)
  case missing
  then show ?thesis using assms(2) by (simp add: result_passed)
next
  case (unclaimed r)
  then show ?thesis using assms(2)
    by (auto simp: unclaimed_result_def Let_def result_passed summary_result_def bool_result_def split: if_splits)
next
  case (claimed r r0 w1 out w2)
  then show ?thesis using assms(2)
    by (auto simp: conclude_def bindW_eq result_passed summary_result_def bool_result_def
        split: sum.splits if_splits prod.splits)
qed auto

lemma verify_passed_row:
  assumes "verify M loads Y S oid owner w = Some (Inr res, w')"
    and "dget res ''passed'' = JBool True"
  shows "\<exists>r. find_row oid (wj w') = Some r \<and> verification_status r = PASSED"
  using assms(1)
proof (cases rule: verify_cases)
  case missing
  then show ?thesis using assms(2) by (simp add: result_passed)
next
  case (unclaimed r)
  then have "find_row oid (wj w') = Some r" using claim_result_found by (auto simp: on_journal_eq)
  moreover have "verification_status r = PASSED"
    using unclaimed(2) assms(2) by (auto simp: unclaimed_result_def Let_def result_passed split: if_splits)
  ultimately show ?thesis by blast
next
  case (claimed r r0 w1 out w2)
  then obtain status result r' J where "out = Inr (status, result)"
    "record_verification oid owner status result (dget result ''external_reference'') (wnow w2) (wj w2)
      = (Inr r', J)" "w' = w2\<lparr>wj := J\<rparr>"
    "res = summary_result (status = PASSED) (status = INCONCLUSIVE) status r' (JDict result)"
    by (auto simp: conclude_def bindW_eq on_journal_eq split: sum.splits if_splits prod.splits)
  with record_result_found assms(2) show ?thesis by (fastforce simp: result_passed)
qed auto

text \<open>
  A pass is never reported without being recorded: when \<open>verify\<close> answers that the
  operation passed, the journal holds the operation as passed.
\<close>

theorem verify_pass_recorded:
  assumes "verify M loads Y S oid owner w = Some (Inr res, w')"
    and "dget res ''passed'' = JBool True"
  shows "\<exists>r. find_row oid (wj w') = Some r \<and> verification_status r = PASSED"
  by (rule verify_passed_row[OF assms])

theorem verify_pass_recorded_witness:
  "\<exists>r. find_row ''op'' (wj (quiet_world\<lparr>wj := [passed_row]\<rparr>)) = Some r \<and> verification_status r = PASSED"
proof (rule verify_pass_recorded)
  show "verify quiet_mcp no_json demo_yaml default_settings ''op'' ''v'' (quiet_world\<lparr>wj := [passed_row]\<rparr>)
      = Some (Inr (unclaimed_result passed_row), quiet_world\<lparr>wj := [passed_row]\<rparr>)"
    by (simp add: verify_def on_journal_def quiet_world_def find_row_def claim_verification_def
        with_row_def demo_defs VERIFIABLE_def TERMINAL_def)
  show "dget (unclaimed_result passed_row) ''passed'' = JBool True"
    by (simp add: unclaimed_result_def result_passed demo_defs)
qed

lemma reads_in_registry: "{''k8s_get'', ''helm_status'', ''helm_get_manifest''} \<subseteq> set READ_ONLY_TOOLS"
  by code_simp

text \<open>
  Verification only reads: its result and its effect depend on the MCP server only
  through the tools the capability registry lists as read-only.
\<close>

theorem verification_reads_only:
  assumes "\<And>tool. tool \<in> set READ_ONLY_TOOLS \<Longrightarrow> mcp_call M tool = mcp_call M' tool"
    and "mcp_sleep M = mcp_sleep M'"
  shows "verify M loads Y S oid owner = verify M' loads Y S oid owner"
proof -
  have calls: "mcp_call M ''k8s_get'' = mcp_call M' ''k8s_get''"
      "mcp_call M ''helm_status'' = mcp_call M' ''helm_status''"
      "mcp_call M ''helm_get_manifest'' = mcp_call M' ''helm_get_manifest''"
    using assms(1) reads_in_registry by auto
  have "read_targets M loads r run ts = read_targets M' loads r run ts" for r run ts
    by (induction ts) (rule ext, simp add: read_target_def calls)+
  moreover have "read_workloads M loads ns run ts = read_workloads M' loads ns run ts" for ns run ts
    by (induction ts) (rule ext, simp add: calls)+
  ultimately have "verify_kubernetes M loads r run = verify_kubernetes M' loads r run"
      and "verify_release_workloads M loads Y h run = verify_release_workloads M' loads Y h run" for r h run
    by (simp_all only: verify_kubernetes_def verify_release_workloads_def calls)
  then have "verify_round M loads Y r run = verify_round M' loads Y r run" for r run
    by (simp only: verify_round_def verify_helm_def calls)
  then show ?thesis by (intro ext) (simp only: verify_def assms(2))
qed

theorem verification_reads_only_witness:
  "verify (quiet_mcp\<lparr>mcp_call := \<lambda>tool args run. if tool = ''k8s_delete'' then raise (Exc [] [])
       else mcp_call quiet_mcp tool args run\<rparr>) no_json demo_yaml default_settings ''op'' ''v''
   = verify quiet_mcp no_json demo_yaml default_settings ''op'' ''v''"
proof (rule verification_reads_only)
  have "''k8s_delete'' \<notin> set READ_ONLY_TOOLS" by code_simp
  then show "tool \<in> set READ_ONLY_TOOLS \<Longrightarrow>
      mcp_call (quiet_mcp\<lparr>mcp_call := \<lambda>tool args run. if tool = ''k8s_delete'' then raise (Exc [] [])
       else mcp_call quiet_mcp tool args run\<rparr>) tool = mcp_call quiet_mcp tool" for tool
    by (cases "tool = ''k8s_delete''") simp_all
qed simp

subsection \<open>What a Kubernetes pass says\<close>

text \<open>The evidence behind one target: what was read back, and what it shows.\<close>

definition confirmed ::
  "'e mcp \<Rightarrow> (string \<Rightarrow> json py) \<Rightarrow> mutation_operation \<Rightarrow> string \<Rightarrow> json \<Rightarrow> bool" where
  "confirmed M loads r run t \<longleftrightarrow>
     (\<exists>w1 w2 args result text resource terminal detail.
        k8s_get_args t (JStr ''default'') = Inr args
        \<and> mcp_call M ''k8s_get'' args run w1 = (Inr result, w2) \<and> \<not> is_error result
        \<and> result_text result = Inr text \<and> loads text = Inr resource
        \<and> dget (annotations_of resource) ''skyflo.ai/operation-id'' = JStr (op_id r)
        \<and> dget (annotations_of resource) ''skyflo.ai/desired-state-hmac'' = JStr (desired_state_hmac r)
        \<and> desired_check t resource = Inr True
        \<and> workload_health resource = Inr (True, terminal, detail))"

lemma get_or_dict_marker:
  assumes "get_or_dict resource ''metadata'' = Inr m" and "get_or_dict m ''annotations'' = Inr a"
    and "jget a k = Inr (JStr s)"
  shows "dget (annotations_of resource) k = JStr s"
  using assms
  by (auto simp: get_or_dict_def jget_def_def bindE_Inr_iff annotations_of_def por_def
      split: json.splits if_splits)

lemma observe_passed:
  assumes "observe r t resource = Inr b" and "obs_passed b"
  shows "dget (annotations_of resource) ''skyflo.ai/operation-id'' = JStr (op_id r)
    \<and> dget (annotations_of resource) ''skyflo.ai/desired-state-hmac'' = JStr (desired_state_hmac r)
    \<and> desired_check t resource = Inr True
    \<and> (\<exists>terminal detail. workload_health resource = Inr (True, terminal, detail))"
proof -
  obtain m a i d ok desired tm detail where o: "get_or_dict resource ''metadata'' = Inr m"
      "get_or_dict m ''annotations'' = Inr a" "jget a ''skyflo.ai/operation-id'' = Inr i"
      "jget a ''skyflo.ai/desired-state-hmac'' = Inr d" "desired_check t resource = Inr desired"
      "workload_health resource = Inr (ok, tm, detail)"
    and b: "b = \<lparr>op_marker = (i = JStr (op_id r)), state_marker = (d = JStr (desired_state_hmac r)),
          conflicting = (truthy i \<and> i \<noteq> JStr (op_id r)), desired_ok = desired,
          healthy = ok, health_terminal = tm, health_detail = detail\<rparr>"
    using assms(1) unfolding observe_def bindE_Inr_iff by (auto simp del: dget_Cons)
  then show ?thesis
    using assms(2) get_or_dict_marker[OF o(1,2)] by (auto simp: obs_passed_def)
qed

lemma judge_target_confirms:
  assumes "k8s_get_args t (JStr ''default'') = Inr args"
    and "mcp_call M ''k8s_get'' args run w1 = (Inr result, w2)"
    and "judge_target loads r t result acc = Inr acc'"
  shows "evidence acc' \<noteq> [] \<and> (all_passed acc' \<longrightarrow> all_passed acc \<and> confirmed M loads r run t)"
proof -
  obtain tx item where ti: "result_text result = Inr tx" "target_item t = Inr item"
    using assms(3) unfolding judge_target_def bindE_Inr_iff by blast
  show ?thesis
  proof (cases "is_error result")
    case True
    with assms(3) ti show ?thesis
      by (auto simp: judge_target_def read_error_step_def Let_def bindE_Inr_iff split: if_splits)
  next
    case False
    show ?thesis
    proof (cases "loads tx")
      case (Inl e)
      with False assms(3) ti show ?thesis
        by (auto simp: judge_target_def bad_json_step_def split: if_splits)
    next
      case (Inr resource)
      then obtain b ref where b: "observe r t resource = Inr b" "acc' = observed_step item b ref acc"
        using False assms(3) ti unfolding judge_target_def by (auto simp: bindE_Inr_iff)
      have "confirmed M loads r run t" if "obs_passed b"
        unfolding confirmed_def
        using observe_passed[OF b(1) that] assms(1,2) ti(1) False Inr by blast
      then show ?thesis by (simp add: b(2) observed_step_def)
    qed
  qed
qed

lemma read_targets_confirm:
  assumes "read_targets M loads r run ts acc w = (Inr acc', w')" and "all_passed acc'"
  shows "all_passed acc \<and> (\<forall>t\<in>set ts. confirmed M loads r run t)
    \<and> (evidence acc' \<noteq> [] \<longrightarrow> evidence acc \<noteq> [] \<or> ts \<noteq> [])"
  using assms
proof (induction ts arbitrary: acc w)
  case Nil
  then show ?case by simp
next
  case (Cons t ts)
  then obtain acc1 w1 where 1: "read_target M loads r run t acc w = (Inr acc1, w1)"
      "read_targets M loads r run ts acc1 w1 = (Inr acc', w')"
    by (auto simp: bindW_Inr)
  then obtain args result w2 w3 where "k8s_get_args t (JStr ''default'') = Inr args"
      "mcp_call M ''k8s_get'' args run w2 = (Inr result, w3)"
      "judge_target loads r t result acc = Inr acc1"
    by (auto simp: read_target_def bindW_Inr)
  from judge_target_confirms[OF this] Cons.IH[OF 1(2) Cons.prems(2)] show ?case by auto
qed

text \<open>
  C14: The Kubernetes adapter passes an operation only on evidence: the plan has targets, and
  for each of them some read came back without an error and parsed to a resource that carries
  both markers of this operation, contains the desired spec and is healthy.
\<close>

theorem kubernetes_pass_is_evidence:
  assumes "verify_kubernetes M loads r run w = (Inr (True, terminal, res), w')"
  shows "\<exists>ts. py_iter (dget_def (verification_plan r) ''targets'' (JList [])) = Inr ts
    \<and> ts \<noteq> [] \<and> (\<forall>t\<in>set ts. confirmed M loads r run t)"
proof -
  obtain ts acc w1 where "py_iter (dget_def (verification_plan r) ''targets'' (JList [])) = Inr ts"
    and "read_targets M loads r run ts start_read w1 = (Inr acc, w')"
    and "kube_result acc = (True, terminal, res)"
    using assms by (auto simp: verify_kubernetes_def bindW_Inr)
  moreover from this have "all_passed acc" "evidence acc \<noteq> []"
    by (auto simp: kube_result_def)
  ultimately show ?thesis
    using read_targets_confirm by (fastforce simp: start_read_def)
qed

definition config_target :: json where
  "config_target = JDict [(''kind'', JStr ''ConfigMap''), (''name'', JStr ''app''),
     (''namespace'', JStr ''default'')]"

definition config_resource :: json where
  "config_resource = JDict [(''kind'', JStr ''ConfigMap''), (''metadata'', JDict [(''annotations'', JDict
     [(''skyflo.ai/operation-id'', JStr ''op''), (''skyflo.ai/desired-state-hmac'', JStr ''h'')])])]"

definition config_row :: mutation_operation where
  "config_row = demo_row\<lparr>verification_plan := [(''targets'', JList [config_target])]\<rparr>"

definition config_mcp :: "unit mcp" where
  "config_mcp = \<lparr>mcp_call = \<lambda>tool args run. ret [(''content'', JList [JDict
       [(''type'', JStr ''text''), (''text'', JStr ''{}'')]])], mcp_sleep = \<lambda>us. ret ()\<rparr>"

lemma config_verified:
  "\<exists>res w. verify_kubernetes config_mcp (\<lambda>s. Inr config_resource) config_row ''run'' quiet_world
      = (Inr (True, False, res), w)"
proof -
  have "(case verify_kubernetes config_mcp (\<lambda>s. Inr config_resource) config_row ''run'' quiet_world of
      (Inr (p, t, res), w) \<Rightarrow> p \<and> \<not> t | _ \<Rightarrow> False)"
    by code_simp
  then show ?thesis by (auto split: prod.splits sum.splits)
qed

theorem kubernetes_pass_is_evidence_witness:
  "confirmed config_mcp (\<lambda>s. Inr config_resource) config_row ''run'' config_target"
proof -
  obtain res w where "verify_kubernetes config_mcp (\<lambda>s. Inr config_resource) config_row ''run'' quiet_world
      = (Inr (True, False, res), w)"
    using config_verified by blast
  from kubernetes_pass_is_evidence[OF this] show ?thesis by (simp add: config_row_def)
qed

subsection \<open>The subset match\<close>

text \<open>
  Values the match treats as Kubernetes does: no key twice, and the items of a list keyed by
  name have hashable, pairwise different names.
\<close>

fun clean :: "json \<Rightarrow> bool" where
  "clean (JList xs) \<longleftrightarrow> list_all clean xs
     \<and> (list_all named xs \<longrightarrow> list_all (\<lambda>x. hashable (name_of x)) xs
          \<and> sorted_wrt (\<lambda>x y. \<not> py_eq (name_of y) (name_of x)) xs)"
| "clean (JDict d) \<longleftrightarrow> distinct (map fst d) \<and> list_all (\<lambda>p. clean (snd p)) d"
| "clean v \<longleftrightarrow> True"

lemma subset_items_refl:
  "(\<And>x. x \<in> set xs \<Longrightarrow> subset_matches x x = Inr True) \<Longrightarrow> subset_items xs xs = Inr True"
  by (induction xs) auto

lemma subset_dict_refl:
  "\<forall>p\<in>set d. map_of e (fst p) = Some (snd p) \<and> subset_matches (snd p) (snd p) = Inr True \<Longrightarrow>
     subset_dict d e = Inr True"
  by (induction d) auto

lemma find_by_name:
  assumes "sorted_wrt (\<lambda>x y. \<not> py_eq (name_of y) (name_of x)) xs" and "x \<in> set xs" and "named x"
    and "py_eq (name_of x) (name_of x)"
  shows "find (\<lambda>y. named y \<and> py_eq (name_of y) (name_of x)) (rev xs) = Some x"
  using assms(1,2)
proof (induction xs rule: rev_induct)
  case Nil
  then show ?case by simp
next
  case (snoc y ys)
  then show ?case using assms(3,4) by (auto simp: sorted_wrt_append)
qed

lemma subset_named_refl:
  "(\<And>x. x \<in> set xs \<Longrightarrow> hashable (name_of x) \<and> look (name_of x) = Some x \<and> subset_matches x x = Inr True)
    \<Longrightarrow> subset_named xs look = Inr True"
  by (induction xs) auto

lemma hashable_eq_refl: "hashable v \<Longrightarrow> py_eq v v"
  by (cases v) auto

text \<open>
  The desired state matches itself: a value whose lists keyed by name repeat no name is
  matched by an identical actual value, however deep, without an error.
\<close>

theorem subset_matches_refl:
  assumes "clean v"
  shows "subset_matches v v = Inr True"
  using assms
proof (induction v)
  case (JList xs)
  have items: "\<And>x. x \<in> set xs \<Longrightarrow> subset_matches x x = Inr True"
    using JList by (auto simp: list_all_iff)
  show ?case
  proof (cases "list_all named xs")
    case True
    then have h: "\<And>x. x \<in> set xs \<Longrightarrow> hashable (name_of x)"
      and srt: "sorted_wrt (\<lambda>x y. \<not> py_eq (name_of y) (name_of x)) xs"
      using JList.prems by (auto simp: list_all_iff)
    have "find (\<lambda>y. named y \<and> \<not> hashable (name_of y)) xs = None"
      using h by (auto simp: find_None_iff)
    then obtain look where look: "actual_by_name xs = Inr look"
      and def: "look = (\<lambda>n. find (\<lambda>y. named y \<and> py_eq (name_of y) n) (rev xs))"
      by (simp add: actual_by_name_def)
    have "subset_named xs look = Inr True"
      unfolding def using True h items
      by (intro subset_named_refl conjI find_by_name[OF srt]) (auto simp: list_all_iff hashable_eq_refl)
    with True look show ?thesis by simp
  next
    case False
    with subset_items_refl[OF items] show ?thesis by simp
  qed
next
  case (JDict d)
  have "map_of d k = Some v \<and> subset_matches v v = Inr True" if "(k, v) \<in> set d" for k v
    using JDict that by (fastforce simp: list_all_iff)
  then have "subset_dict d d = Inr True" by (intro subset_dict_refl) auto
  then show ?case by simp
qed simp_all

definition two_containers :: json where
  "two_containers = JDict [(''replicas'', JInt 2), (''containers'', JList
     [JDict [(''name'', JStr ''web''), (''image'', JStr ''nginx'')],
      JDict [(''name'', JStr ''log''), (''image'', JStr ''fluentd'')]])]"

theorem subset_matches_refl_witness:
  "subset_matches two_containers two_containers = Inr True"
proof (rule subset_matches_refl)
  show "clean two_containers" by code_simp
qed

text \<open>Without the side condition it fails: of two items of one name only the last is looked at.\<close>

lemma duplicate_names_no_match:
  "subset_matches
     (JList [JDict [(''name'', JStr ''A''), (''value'', JInt 1)], JDict [(''name'', JStr ''A''), (''value'', JInt 2)]])
     (JList [JDict [(''name'', JStr ''A''), (''value'', JInt 1)], JDict [(''name'', JStr ''A''), (''value'', JInt 2)]])
   = Inr False"
  by code_simp

text \<open>
  Fields the server adds do no harm: a desired object that matches an actual one still
  matches it after any keys have been added.
\<close>

theorem subset_matches_extended:
  assumes "subset_matches (JDict d) (JDict e) = Inr True" and "map_of e \<subseteq>\<^sub>m map_of e'"
  shows "subset_matches (JDict d) (JDict e') = Inr True"
proof -
  have "subset_dict d e = Inr True \<Longrightarrow> subset_dict d e' = Inr True"
  proof (induction d)
    case (Cons p d)
    obtain k v where p: "p = (k, v)" by (cases p)
    with Cons.prems obtain x where x: "map_of e k = Some x" by (auto split: option.splits)
    then have "map_of e' k = Some x" using assms(2) by (auto simp: map_le_def dom_def)
    moreover from Cons.prems x p have "subset_matches v x = Inr True \<and> subset_dict d e = Inr True"
      by (cases "subset_matches v x") (simp_all split: if_splits)
    ultimately show ?case using Cons.IH p by simp
  qed simp
  with assms(1) show ?thesis by simp
qed

theorem subset_matches_extended_witness:
  "subset_matches (JDict [(''replicas'', JInt 2)])
     (JDict [(''strategy'', JStr ''RollingUpdate''), (''replicas'', JInt 2)]) = Inr True"
  by (rule subset_matches_extended[of _ "[(''replicas'', JInt 2)]"]) (simp_all add: map_le_def)

end
