(* ===== verification/ExecutorProps.thy ===== *)
theory ExecutorProps
  imports Executor VerifierProps
begin

text \<open>
  What stands between the model and the cluster: without an approval, without an admin, or
  without a journal row that is executing, \<open>execute\<close> never reaches the MCP server. A property
  of this kind says that the execution is the same whatever the server would do.
\<close>

definition with_mcp :: "'e mcp \<Rightarrow> 'e engine \<Rightarrow> 'e engine" where
  "with_mcp M E = E\<lparr>en_mcp := M\<rparr>"

lemma with_mcp_simps [simp]:
  "en_settings (with_mcp M E) = en_settings E" "en_yaml (with_mcp M E) = en_yaml E"
  "en_hmac (with_mcp M E) = en_hmac E" "en_uuid (with_mcp M E) = en_uuid E"
  "en_sse (with_mcp M E) = en_sse E" "en_metadata (with_mcp M E) = en_metadata E"
  "en_integration (with_mcp M E) = en_integration E" "en_mcp (with_mcp M E) = M"
  "en_publish (with_mcp M E) = en_publish E" "en_transaction (with_mcp M E) = en_transaction E"
  by (simp_all add: with_mcp_def)

lemma waits_with_mcp [simp]: "emit (with_mcp M E) = emit E" "transact (with_mcp M E) = transact E"
    "read_journal (with_mcp M E) = read_journal E"
  by (intro ext, simp add: emit_def transact_def read_journal_def)+

lemma stages_with_mcp [simp]:
  "registry_stage (with_mcp M E) = registry_stage E"
  "approval_stage (with_mcp M E) = approval_stage E"
  "get_tool_metadata (with_mcp M E) = get_tool_metadata E"
  "inject_stage (with_mcp M E) = inject_stage E"
  "validate_stage (with_mcp M E) = validate_stage E"
  "approval_needed (with_mcp M E) = approval_needed E"
  "policy_stage (with_mcp M E) = policy_stage E"
  "prepare_stage (with_mcp M E) = prepare_stage E"
  "mark_stage (with_mcp M E) = mark_stage E"
  "execution_failed (with_mcp M E) = execution_failed E"
  by ((intro ext)?, simp only: registry_stage_def approval_stage_def waits_with_mcp get_tool_metadata_def inject_stage_def validate_stage_def
      validate_tool_parameters_def approval_needed_def policy_stage_def context_policy_def
      prepare_stage_def prepare_call_def mark_stage_def execution_failed_def with_mcp_simps)+

lemma bindS_never:
  assumes "\<And>w a w'. m w \<noteq> (Inr (Go a), w')"
  shows "bindS m f = bindS m g"
proof
  fix w
  show "bindS m f w = bindS m g w"
  proof (cases "m w")
    case (Pair r w')
    with assms[of w] show ?thesis
      by (cases r) (auto simp: bindS_def bindW_def split: stage.splits)
  qed
qed

lemma mutation_needs_approval:
  assumes "get_tool_capability (tc_name c) = Some cap" and "effect cap = MUTATION"
    and "is_infrastructure_tool (tc_name c)"
  shows "approval_needed E (tc_name c) = ret True"
  using assms by (simp add: approval_needed_def requires_approval_def)

lemma execute_cong:
  assumes "approval_needed E (tc_name c) = ret needs"
    and "\<And>title on event_args args1. gated_stage (with_mcp M E) c title on event_args args1 needs
      = gated_stage (with_mcp M' E) c title on event_args args1 needs"
  shows "execute (with_mcp M E) c args = execute (with_mcp M' E) c args"
  unfolding execute_def execute_body_def
  by (simp only: stages_with_mcp with_mcp_simps assms Let_def bindW_ret)

lemma approval_never:
  assumes "approval_decision c \<in> {JNull, JBool False}"
  shows "approval_stage E c title on event_args w \<noteq> (Inr (Go a), w')"
  using assms
  by (auto simp: approval_stage_def Let_def bindW_eq split: json.splits bool.splits)

text \<open>
  C8: No mutation without approval: while the user has not decided, or has denied the call,
  executing a tool the registry lists as a mutation does not depend on the MCP server at all;
  nothing is sent.
\<close>

theorem unapproved_mutation_not_sent:
  fixes E :: "'e engine"
  assumes "get_tool_capability (tc_name c) = Some cap" and "effect cap = MUTATION"
    and "is_infrastructure_tool (tc_name c)" and "approval_decision c \<in> {JNull, JBool False}"
  shows "execute (with_mcp M E) c args = execute (with_mcp M' E) c args"
proof (rule execute_cong[OF mutation_needs_approval[OF assms(1-3)]])
  fix title on event_args args1
  define dead :: "('e, json) io" where "dead = bindS (approval_stage E c title on event_args) (\<lambda>_. raise (approval_pending c))"
  have "bindS (approval_stage E c title on event_args) f = dead" for f
    unfolding dead_def by (rule bindS_never) (rule approval_never[OF assms(4)])
  then show "gated_stage (with_mcp M E) c title on event_args args1 True
      = gated_stage (with_mcp M' E) c title on event_args args1 True"
    by (simp only: gated_stage_def Let_def with_mcp_simps stages_with_mcp if_True)
qed

definition demo_engine :: "unit engine" where
  "demo_engine = \<lparr>en_settings = default_settings, en_yaml = demo_yaml, en_hmac = \<lambda>k s. ''h'', en_uuid = Inr,
     en_sse = True, en_metadata = \<lambda>n. ret JNull, en_integration = ret None, en_mcp = quiet_mcp,
     en_publish = ret (), en_transaction = ret ()\<rparr>"

definition upgrade_call :: "dict \<Rightarrow> tool_call" where
  "upgrade_call ctx = \<lparr>tc_run = ''run'', tc_name = ''helm_upgrade'', tc_call = ''call'', tc_op = ''op'', tc_context = ctx\<rparr>"

lemma upgrade_registered:
  "get_tool_capability ''helm_upgrade'' = Some (controlled_cap ''helm_release'')"
  "is_infrastructure_tool ''helm_upgrade''"
  by code_simp+

theorem unapproved_mutation_not_sent_witness:
  "execute (with_mcp quiet_mcp demo_engine) (upgrade_call []) [] = execute (with_mcp config_mcp demo_engine) (upgrade_call []) []"
  by (rule unapproved_mutation_not_sent[where cap = "controlled_cap ''helm_release''"])
     (simp_all add: upgrade_call_def upgrade_registered controlled_cap_def approval_decision_def)

lemma policy_never:
  assumes "\<And>args d. context_policy E c args = Inr d \<Longrightarrow> \<not> allowed d"
  shows "policy_stage E c title on args w \<noteq> (Inr (Go a), w')"
  using assms by (fastforce simp: policy_stage_def bindW_eq split: if_splits)

text \<open>
  C9: Under mutation control only an administrator mutates infrastructure: with
  \<open>MUTATION_CONTROL_ENABLED\<close> on, a tool the registry lists as a mutation of the infrastructure, called without
  the role admin or superuser (with another role, with none, with one that is no text), approved or not,
  does not depend on the MCP server; nothing is sent. With the setting off, and for the other tools, the
  policy is not asked.
\<close>

theorem non_admin_mutation_not_sent:
  fixes E :: "'e engine"
  assumes "get_tool_capability (tc_name c) = Some cap" and "effect cap = MUTATION"
    and "is_infrastructure_tool (tc_name c)" and "MUTATION_CONTROL_ENABLED (en_settings E)"
    and "\<And>role. dget (tc_context c) ''user_role'' = JStr role \<Longrightarrow>
      py_lower (py_strip role) \<notin> {''admin'', ''superuser''}"
  shows "execute (with_mcp M E) c args = execute (with_mcp M' E) c args"
proof (rule execute_cong[OF mutation_needs_approval[OF assms(1-3)]])
  fix title on event_args args1
  have never: "\<not> allowed d" if "context_policy E c args = Inr d" for args d
  proof
    assume "allowed d"
    from that obtain uid r env where "d = evaluate_policy (en_settings E) (en_yaml E) (tc_name c) args uid r env"
      "opt_text (dget (tc_context c) ''user_role'') = Inr r"
      by (auto simp: context_policy_def Let_def bindE_Inr_iff)
    with \<open>allowed d\<close> assms(5) show False
      by (auto simp: opt_text_def str_opt_def py_strip_def py_lstrip_def py_rstrip_def py_lower_def
          elim!: evaluate_allowed_cases split: if_splits json.splits)
  qed
  define dead :: "('e, json) io" where "dead = bindS (policy_stage E c title on args1) (\<lambda>_. ret JNull)"
  have "bindS (policy_stage E c title on args1) f = dead" for f
    unfolding dead_def by (rule bindS_never) (rule policy_never[OF never])
  then show "gated_stage (with_mcp M E) c title on event_args args1 True
      = gated_stage (with_mcp M' E) c title on event_args args1 True"
    using assms(3,4) by (simp add: gated_stage_def Let_def infrastructure_mutation_def)
qed

theorem non_admin_mutation_not_sent_witness:
  "execute (with_mcp quiet_mcp demo_engine)
     (upgrade_call [(''user_id'', JStr ''u''), (''user_role'', JStr ''Viewer''),
                   (''approval_decisions'', JDict [(''call'', JBool True)])]) []
   = execute (with_mcp config_mcp demo_engine)
     (upgrade_call [(''user_id'', JStr ''u''), (''user_role'', JStr ''Viewer''),
                   (''approval_decisions'', JDict [(''call'', JBool True)])]) []"
proof (rule non_admin_mutation_not_sent[where cap = "controlled_cap ''helm_release''"])
  fix role
  assume "dget (tc_context (upgrade_call [(''user_id'', JStr ''u''), (''user_role'', JStr ''Viewer''),
    (''approval_decisions'', JDict [(''call'', JBool True)])])) ''user_role'' = JStr role"
  then have "role = ''Viewer''" by (simp add: upgrade_call_def dget_def_def)
  moreover have "py_lower (py_strip ''Viewer'') \<notin> {''admin'', ''superuser''}" by code_simp
  ultimately show "py_lower (py_strip role) \<notin> {''admin'', ''superuser''}" by simp
qed (simp_all add: upgrade_call_def upgrade_registered controlled_cap_def demo_engine_def default_settings_def)

subsection \<open>The journal stands before the server\<close>

lemma finish_with_mcp [simp]:
  "finish_error (with_mcp M E) = finish_error E"
  "finish_success (with_mcp M E) = finish_success E"
  by ((intro ext)?, simp only: finish_error_def finish_success_def with_mcp_simps waits_with_mcp)+

text \<open>
  The journal comes, by methods of the journal that any worker called since, from one that holds a row
  which is executing under the lease of this run.
\<close>

definition marked_by :: "'e engine \<Rightarrow> string \<Rightarrow> journal \<Rightarrow> bool" where
  "marked_by E run K \<longleftrightarrow>
     (\<exists>J oid r. find_row oid J = Some r \<and> execution_status r = EXECUTING \<and> lease_owner r = Some run
        \<and> (jstep (en_hmac E) (en_uuid E) (en_settings E) (en_yaml E))\<^sup>*\<^sup>* J K)"

text \<open>What the others do while an event is published, or a transaction waited for, are methods of the journal.\<close>

definition others_keep_protocol :: "'e engine \<Rightarrow> bool" where
  "others_keep_protocol E \<longleftrightarrow> (\<forall>w.
     (jstep (en_hmac E) (en_uuid E) (en_settings E) (en_yaml E))\<^sup>*\<^sup>* (wj w) (wj (snd (en_publish E w)))
     \<and> (jstep (en_hmac E) (en_uuid E) (en_settings E) (en_yaml E))\<^sup>*\<^sup>* (wj w) (wj (snd (en_transaction E w))))"

lemma marked_moves: "marked_by E run J \<Longrightarrow>
    (jstep (en_hmac E) (en_uuid E) (en_settings E) (en_yaml E))\<^sup>*\<^sup>* J K \<Longrightarrow> marked_by E run K"
  unfolding marked_by_def by (meson rtranclp_trans)

text \<open>No method of the journal loses a row, and none moves it but by the transitions of a row.\<close>

definition row_kept :: "settings \<Rightarrow> string \<Rightarrow> journal \<Rightarrow> journal \<Rightarrow> bool" where
  "row_kept S oid J J' \<longleftrightarrow>
     (\<forall>r. find_row oid J = Some r \<longrightarrow> (\<exists>r'. find_row oid J' = Some r' \<and> (row_step S)\<^sup>*\<^sup>* r r'))"

lemma row_kept_same [simp]: "row_kept S oid J J"
  by (auto simp: row_kept_def)

lemma row_kept_trans: "row_kept S oid J K \<Longrightarrow> row_kept S oid K L \<Longrightarrow> row_kept S oid J L"
  unfolding row_kept_def by (meson rtranclp_trans)

lemma row_kept_run:
  assumes "list_all2 ((row_step S)\<^sup>*\<^sup>*) J K" shows "row_kept S oid J (K @ rs)"
  using jruns.find_after[OF assms] by (auto simp: row_kept_def find_row_def)

lemma row_kept_append: "row_kept S oid J (J @ rs)"
  by (rule row_kept_run) (rule jruns.table_refl)

lemma save_kept:
  assumes "find_row k J = Some r" and "saves S J r J'" shows "row_kept S oid J J'"
proof -
  have "row_kept S oid J (save_row r' J)" if "row_step S r r'" for r'
  proof (cases "oid = k")
    case True
    have "find_row oid (save_row r' J) = Some r'"
      using find_save_row[OF assms(1) row_step_id[OF that]] True by simp
    then show ?thesis using assms(1) that True by (auto simp: row_kept_def)
  next
    case False
    then have "op_id r' \<noteq> oid" using row_step_id[OF that] find_row_id[OF assms(1)] by simp
    then have "find_row oid (save_row r' J) = find_row oid J"
      unfolding find_row_def save_row_def by (induction J) auto
    then show ?thesis by (auto simp: row_kept_def)
  qed
  then show ?thesis using assms(2) by (auto simp: saves_def)
qed

lemma with_row_kept:
  assumes "\<And>r. find_row k J = Some r \<Longrightarrow> saves S J r (snd (f r))"
  shows "row_kept S oid J (snd (with_row k J f))"
  using assms save_kept by (cases "find_row k J") (auto simp: with_row_def)

lemma methods_kept:
  "row_kept S oid J (snd (mark_executing S k owner t1 t2 J))"
  "row_kept S oid J (snd (record_execution k status result error now J))"
  "row_kept S oid J (snd (claim_verification S k owner now now' J))"
  "row_kept S oid J (snd (record_verification k owner verdict result ext now J))"
  "row_kept S oid J (snd (abandon_verification k owner why now J))"
  unfolding mark_executing_def record_execution_def claim_verification_def record_verification_def
    abandon_verification_def
  by (auto intro!: with_row_kept saves_row redact_dict_leak_free intro: row_step.intros
      simp del: leak_free.simps)

lemma jstep_kept:
  assumes "jstep hmac uuid S Y J J'" shows "row_kept S oid J J'"
  using assms
proof (induction rule: jstep.induct)
  case (prepare J k run call tool args ctx policy plan now J0)
  from prepare_appends[of J hmac uuid S Y k run call tool args ctx policy plan now J0] show ?case
    by (auto simp: appends_fresh_def row_kept_append)
qed (rule methods_kept
    | rule row_kept_run[where rs = "[]", unfolded append_Nil2], rule step_run,
      rule recover_stale_executions_step recover_stale_verifications_step stop_statements_step
    | rule row_kept_run[where rs = "[]", unfolded append_Nil2], rule converge_run)+

lemma jsteps_kept: "(jstep hmac uuid S Y)\<^sup>*\<^sup>* J J' \<Longrightarrow> row_kept S oid J J'"
  by (induction rule: rtranclp_induct) (auto intro: row_kept_trans jstep_kept)

lemma marked_started: "marked_by E run K \<Longrightarrow> \<exists>r \<in> set K. execution_status r \<noteq> PREPARED"
proof -
  assume "marked_by E run K"
  then obtain J oid r where "find_row oid J = Some r" "execution_status r = EXECUTING"
      "(jstep (en_hmac E) (en_uuid E) (en_settings E) (en_yaml E))\<^sup>*\<^sup>* J K"
    by (auto simp: marked_by_def)
  then obtain r' where "find_row oid K = Some r'" "execution_status r' \<noteq> PREPARED"
    using jsteps_kept row_run_started unfolding row_kept_def by (metis execution_status.distinct(1))
  then show ?thesis by (auto simp: find_row_def find_Some_iff)
qed

abbreviation marked :: "'e engine \<Rightarrow> tool_call \<Rightarrow> 'e world \<Rightarrow> bool" where
  "marked E c w \<equiv> marked_by E (tc_run c) (wj w)"

lemma controlled_registered:
  assumes "name \<in> set CONTROLLED_MUTATION_TOOLS"
  shows "is_infrastructure_tool name
    \<and> (\<exists>cap. get_tool_capability name = Some cap \<and> effect cap = MUTATION \<and> controlled cap
         \<and> verification_adapter cap \<noteq> None)"
proof -
  have "list_all (\<lambda>name. is_infrastructure_tool name \<and> (case get_tool_capability name of
      None \<Rightarrow> False | Some cap \<Rightarrow> effect cap = MUTATION \<and> controlled cap
        \<and> \<not> Option.is_none (verification_adapter cap)))
      CONTROLLED_MUTATION_TOOLS" by code_simp
  then have "is_infrastructure_tool name" and "case get_tool_capability name of
      None \<Rightarrow> False | Some cap \<Rightarrow> effect cap = MUTATION \<and> controlled cap
        \<and> \<not> Option.is_none (verification_adapter cap)"
    using assms by (auto simp: list_all_iff)
  then show ?thesis by (cases "get_tool_capability name") (auto simp: Option.is_none_def)
qed

lemma emit_marked:
  assumes "others_keep_protocol E"
  shows "agree (marked E c) (emit E on t d) (emit E on t d) (\<lambda>_. marked E c) (\<lambda>_. True)"
  unfolding agree_def
proof (intro allI impI conjI refl)
  fix w assume m: "marked E c w"
  show "case emit E on t d w of (Inr a, w') \<Rightarrow> marked E c w' | (Inl e, w') \<Rightarrow> True"
  proof (cases on)
    case True
    define v where "v = w\<lparr>wevents := wevents w @ [(t, d @ [(''timestamp'', JInt (wnow w div 1000))])]\<rparr>"
    obtain r w' where p: "en_publish E v = (r, w')" by (cases "en_publish E v")
    have "marked E c v" using m by (simp add: v_def)
    then have "marked E c (snd (en_publish E v))"
      using assms marked_moves unfolding others_keep_protocol_def by blast
    moreover have "emit E on t d w = (r, w')"
      using True by (simp add: emit_def publish_def bindW_def p[unfolded v_def])
    ultimately show ?thesis by (simp add: p split: sum.splits)
  qed (simp add: emit_def m)
qed

lemma mark_marked:
  "agree (\<lambda>_. True) (transact E (\<lambda>now. mark_executing S oid (tc_run c) now now))
     (transact E (\<lambda>now. mark_executing S oid (tc_run c) now now)) (\<lambda>_. marked E c) (\<lambda>_. True)"
proof -
  have "marked E c w'" if m: "on_journal (\<lambda>now. mark_executing S oid (tc_run c) now now) w = (Inr r, w')" for w r and w' :: "'a world"
  proof -
    obtain r0 J where r0: "find_row oid (wj w) = Some r0"
        "r = executing_row S (tc_run c) (wnow w) (wnow w) r0" "J = save_row r (wj w)" "w' = w\<lparr>wj := J\<rparr>"
      using m by (auto simp: on_journal_eq mark_executing_def with_row_def split: option.splits if_splits)
    then have "find_row oid (wj w') = Some r" by (simp add: row_defs)
    moreover have "execution_status r = EXECUTING" "lease_owner r = Some (tc_run c)"
      by (simp_all add: r0(2) row_defs)
    ultimately show ?thesis unfolding marked_by_def by blast
  qed
  then show ?thesis by (auto simp: agree_def transact_def bindW_def split: prod.splits sum.splits)
qed

lemma mark_stage_marked:
  assumes "others_keep_protocol E"
  shows "agree (\<lambda>_. True) (mark_stage E c on args r0) (mark_stage E c on args r0) (\<lambda>_. marked E c) (\<lambda>_. True)"
proof -
  have pure: "agree (marked E c) (lift m) (lift m) (\<lambda>_. marked E c) (\<lambda>_. True)" for m :: "'x py"
    by (auto simp: agree_def split: sum.splits)
  have fin: "agree (marked E c) (ret x) (ret x) (\<lambda>_. marked E c) (\<lambda>_. True)" for x :: 'y
    by (simp add: agree_def)
  show ?thesis
    unfolding mark_stage_def
    by (rule agree_bind[OF mark_marked]) (intro agree_bind[OF pure] agree_bind[OF emit_marked[OF assms]] fin)
qed

lemma send_marked:
  assumes "\<And>args run w. marked E c w \<Longrightarrow> mcp_call M (tc_name c) args run w = mcp_call M' (tc_name c) args run w"
  shows "agree (marked E c) (send (with_mcp M E) c operation args) (send (with_mcp M' E) c operation args)
    (\<lambda>_ _. True) (\<lambda>_. True)"
  unfolding send_def waits_with_mcp
  using assms by (auto simp: agree_def on_cancel_def split: prod.splits sum.splits)

text \<open>
  C10: A controlled mutation reaches the server only behind the journal: the execution depends on what the
  server does for the tool only in worlds whose journal comes, by methods of the journal, from one that
  held a row executing under the lease of this run. Other workers may have moved the row on since, while
  the events of the call were published (lemma \<open>call_after_recovery\<close>), but never before it was marked.
\<close>

theorem controlled_call_behind_journal:
  fixes E :: "'e engine"
  assumes "tc_name c \<in> set CONTROLLED_MUTATION_TOOLS" and "MUTATION_CONTROL_ENABLED (en_settings E)"
    and "others_keep_protocol E"
    and "\<And>args run w. marked_by E (tc_run c) (wj w)
      \<Longrightarrow> mcp_call M (tc_name c) args run w = mcp_call M' (tc_name c) args run w"
  shows "execute (with_mcp M E) c args = execute (with_mcp M' E) c args"
proof -
  obtain cap where cap: "is_infrastructure_tool (tc_name c)" "get_tool_capability (tc_name c) = Some cap"
      "effect cap = MUTATION" "controlled cap"
    using controlled_registered[OF assms(1)] by blast
  have call: "agree (marked E c) (call_stage (with_mcp M E) c title on event_args operation args)
      (call_stage (with_mcp M' E) c title on event_args operation args) (\<lambda>_ _. True) (\<lambda>_. True)"
    for title on event_args operation args
    unfolding call_stage_def finish_with_mcp waits_with_mcp
    by (intro agree_bind[OF emit_marked[OF assms(3)]] agree_bind[OF send_marked] agree_same assms(4)) simp_all
  have "agree (\<lambda>_. True)
      (bindW (mark_stage E c on args r) (\<lambda>(oid, args'). call_stage (with_mcp M E) c title on event_args (Some oid) args'))
      (bindW (mark_stage E c on args r) (\<lambda>(oid, args'). call_stage (with_mcp M' E) c title on event_args (Some oid) args'))
      (\<lambda>_ _. True) (\<lambda>_. True)" for title on event_args args r
    by (rule agree_bind[OF mark_stage_marked[OF assms(3)]]) (auto intro: call split: prod.splits)
  from agreeD[OF this] have "journal_stage (with_mcp M E) c title on event_args policy args
      = journal_stage (with_mcp M' E) c title on event_args policy args" for title on event_args policy args
    unfolding journal_stage_def stages_with_mcp by (intro arg_cong[where f = "bindS _"] ext) simp
  then show ?thesis
    using cap assms(1,2)
    by (intro execute_cong[OF mutation_needs_approval[OF cap(2,3,1)]])
       (simp add: gated_stage_def Let_def infrastructure_mutation_def controlled_mutation_def)
qed

text \<open>
  A server that answers only behind a row that is not merely prepared, and an engine whose leases run out
  while an event is published: every publication takes 1000 seconds and lets the recovery of stale executions
  run.
\<close>

definition guarded_mcp :: "unit mcp" where
  "guarded_mcp = quiet_mcp\<lparr>mcp_call := \<lambda>tool args run w.
     if \<exists>r\<in>set (wj w). execution_status r \<noteq> PREPARED
     then mcp_call quiet_mcp tool args run w else (Inl (Exc ''AssertionError'' []), w)\<rparr>"

definition recover_now :: "unit world \<Rightarrow> unit world" where
  "recover_now w = (let t = wnow w + seconds 1000 in w\<lparr>wnow := t, wj := snd (recover_stale_executions t (wj w))\<rparr>)"

definition recovering_engine :: "unit engine" where
  "recovering_engine = demo_engine\<lparr>en_publish := \<lambda>w. (Inr (), recover_now w)\<rparr>"

lemma recovering_protocol: "others_keep_protocol recovering_engine"
  by (auto simp: others_keep_protocol_def recovering_engine_def demo_engine_def recover_now_def Let_def
      intro: r_into_rtranclp jstep.recover_executions)

theorem controlled_call_behind_journal_witness:
  "execute (with_mcp guarded_mcp recovering_engine) (upgrade_call []) []
   = execute (with_mcp quiet_mcp recovering_engine) (upgrade_call []) []"
proof (rule controlled_call_behind_journal[OF _ _ recovering_protocol])
  show "tc_name (upgrade_call []) \<in> set CONTROLLED_MUTATION_TOOLS"
    by (simp add: upgrade_call_def CONTROLLED_MUTATION_TOOLS_def)
  show "MUTATION_CONTROL_ENABLED (en_settings recovering_engine)"
    by (simp add: recovering_engine_def demo_engine_def default_settings_def)
next
  fix args run and w :: "unit world"
  assume "marked_by recovering_engine (tc_run (upgrade_call [])) (wj w)"
  then show "mcp_call guarded_mcp (tc_name (upgrade_call [])) args run w
      = mcp_call quiet_mcp (tc_name (upgrade_call [])) args run w"
    using marked_started[of recovering_engine _ "wj w"] by (auto simp: guarded_mcp_def)
qed

text \<open>
  The lease is not asked again: between the mark and the call the executor publishes two events, and when the
  recovery takes the row meanwhile, the mutation is sent all the same, although its row is unknown by then.
\<close>

lemma call_after_recovery:
  "\<exists>w' r'. mark_stage recovering_engine (upgrade_call []) True [] demo_row (quiet_world\<lparr>wj := [demo_row]\<rparr>)
      = (Inr (''op'', [(''skyflo_operation_id'', JStr ''op'')]), w')
    \<and> find_row ''op'' (wj w') = Some r' \<and> execution_status r' = UNKNOWN"
proof -
  have attach: "attach_operation_metadata demo_yaml ''helm_upgrade'' [] ''op'' ''h''
      = Inr [(''skyflo_operation_id'', JStr ''op'')]"
    by (simp add: attach_operation_metadata_def HELM_MUTATIONS_def)
  show ?thesis
    by (simp add: mark_stage_def transact_def recovering_engine_def demo_engine_def upgrade_call_def bindW_def
        on_journal_def mark_executing_def with_row_def find_row_def quiet_world_def emit_def publish_def
        recover_now_def recover_stale_executions_def update_where_def stale_execution_def expired_def save_row_def
        default_settings_def seconds_def demo_defs attach Let_def)
qed

text \<open>
  A repeated call is suppressed: when the journal already holds the operation under its
  identifier or its idempotency key, with the same intent and beyond the prepared state, the
  journal stage answers at once and leaves journal, events and environment as they are, when nobody
  else runs while it waits for the table.
\<close>

theorem duplicate_suppressed:
  assumes "en_uuid E (tc_op c) = Inr u"
    and "find (\<lambda>r. op_id r = u \<or> idempotency_key r = idempotency_key_of (en_hmac E) (en_settings E)
           (tc_context c) (tc_call c) (tc_name c) args) (wj w) = Some r"
    and "op_tool r = tc_name c" and "args_hmac r = intent_hmac (en_hmac E) (en_settings E) (tc_name c) args"
    and "execution_status r \<noteq> PREPARED" and "en_transaction E w = (Inr (), w)"
  shows "\<exists>blocks. journal_stage E c title on event_args policy args w = (Inr blocks, w)"
proof -
  have "prepare_call E c args d plan w = (Inr (r, False), w)" for d plan
    using assms(1-4,6) by (simp add: prepare_call_def read_journal_def transact_def bindW_def on_journal_def prepare_def Let_def reuse_row_def same_intent_def)
  moreover have "duplicate_blocks (op_id r) title r \<noteq> None"
    using assms(5) by (simp add: duplicate_blocks_def Let_def)
  ultimately show ?thesis
    by (auto simp: journal_stage_def prepare_stage_def bindS_def catchW_def bindW_def)
qed

definition k8s_call :: tool_call where
  "k8s_call = \<lparr>tc_run = ''run'', tc_name = ''k8s_apply'', tc_call = ''call'', tc_op = ''op'',
     tc_context = [(''idempotency_key'', JStr ''key'')]\<rparr>"

definition some_policy :: policy_decision where
  "some_policy = \<lparr>allowed = True, rule = [], reason = [], risk_level = [], targets = []\<rparr>"

theorem duplicate_suppressed_witness:
  "\<exists>blocks. journal_stage demo_engine k8s_call JNull True [] (some_policy, []) [] quiet_world
     = (Inr blocks, quiet_world)"
  by (rule duplicate_suppressed[where u = "''op''" and r = reported_row])
     (simp_all add: demo_engine_def k8s_call_def quiet_world_def demo_defs intent_hmac_def hmac_fingerprint_def)

text \<open>
  An operation can be left executing although it was never sent: if the marker cannot be
  put into the arguments, the stage fails after the row has been marked, and the row stays
  executing under its lease until recovery calls its outcome unknown.
\<close>

theorem unsent_operation_left_executing:
  assumes "find_row (op_id r0) (wj w) = Some r" and "execution_status r = PREPARED"
    and "attach_operation_metadata (en_yaml E) (tc_name c) args (op_id r0) (desired_state_hmac r) = Inl e"
    and "en_transaction E w = (Inr (), w)"
  shows "\<exists>w' r'. mark_stage E c on args r0 w = (Inl e, w') \<and> wenv w' = wenv w \<and> wevents w' = wevents w
    \<and> find_row (op_id r0) (wj w') = Some r' \<and> execution_status r' = EXECUTING"
proof -
  let ?r = "executing_row (en_settings E) (tc_run c) (wnow w) (wnow w) r"
  have r: "op_id ?r = op_id r" "desired_state_hmac ?r = desired_state_hmac r" "execution_status ?r = EXECUTING"
    by (simp_all add: row_defs)
  have "on_journal (\<lambda>now. mark_executing (en_settings E) (op_id r0) (tc_run c) now now) w
      = (Inr ?r, w\<lparr>wj := save_row ?r (wj w)\<rparr>)"
    using assms(1,2) by (simp add: on_journal_def mark_executing_def with_row_def)
  then have "mark_stage E c on args r0 w = (Inl e, w\<lparr>wj := save_row ?r (wj w)\<rparr>)"
    using assms(3,4) by (simp add: mark_stage_def transact_def bindW_def r(2))
  moreover have "find_row (op_id r0) (save_row ?r (wj w)) = Some ?r"
    using assms(1) r(1) by simp
  ultimately show ?thesis using r(3) by (intro exI[of _ "w\<lparr>wj := save_row ?r (wj w)\<rparr>"] exI[of _ ?r]) simp
qed

text \<open>A manifest with \<open>annotations: null\<close>, which the policy accepts and \<open>kubectl\<close> would too.\<close>

definition null_annotations :: json where
  "null_annotations = JDict [(''kind'', JStr ''ConfigMap''), (''metadata'', JDict
     [(''name'', JStr ''app''), (''annotations'', JNull)])]"

theorem unsent_operation_left_executing_witness:
  "parse_manifest_targets (demo_yaml\<lparr>safe_load_all := \<lambda>s. Inr [null_annotations]\<rparr>) [] ''default'' \<noteq> Inr []
   \<and> (\<exists>w' r' e. mark_stage (demo_engine\<lparr>en_yaml := demo_yaml\<lparr>safe_load_all := \<lambda>s. Inr [null_annotations]\<rparr>\<rparr>)
          k8s_call True [] demo_row (quiet_world\<lparr>wj := [demo_row]\<rparr>) = (Inl e, w')
        \<and> find_row ''op'' (wj w') = Some r' \<and> execution_status r' = EXECUTING)"
proof
  let ?Y = "demo_yaml\<lparr>safe_load_all := \<lambda>s. Inr [null_annotations]\<rparr>"
  show "parse_manifest_targets ?Y [] ''default'' \<noteq> Inr []"
    by (simp add: parse_manifest_targets_def manifest_targets_def List.map_filter_simps target_of_document_def
        null_annotations_def Let_def) code_simp
  obtain e where e: "attach_operation_metadata ?Y ''k8s_apply'' [] ''op'' ''h'' = Inl e"
    by (simp add: attach_operation_metadata_def null_annotations_def mark_document_def)
  have id: "op_id demo_row = ''op''" by (simp add: demo_defs)
  have "\<exists>w' r'. mark_stage (demo_engine\<lparr>en_yaml := ?Y\<rparr>) k8s_call True [] demo_row (quiet_world\<lparr>wj := [demo_row]\<rparr>)
      = (Inl e, w') \<and> wenv w' = wenv (quiet_world\<lparr>wj := [demo_row]\<rparr>)
      \<and> wevents w' = wevents (quiet_world\<lparr>wj := [demo_row]\<rparr>)
      \<and> find_row (op_id demo_row) (wj w') = Some r' \<and> execution_status r' = EXECUTING"
    by (rule unsent_operation_left_executing[where r = demo_row])
       (simp_all add: find_row_def quiet_world_def k8s_call_def e id, simp_all add: demo_defs demo_engine_def e)
  then show "\<exists>w' r' e. mark_stage (demo_engine\<lparr>en_yaml := ?Y\<rparr>) k8s_call True [] demo_row (quiet_world\<lparr>wj := [demo_row]\<rparr>)
      = (Inl e, w') \<and> find_row ''op'' (wj w') = Some r' \<and> execution_status r' = EXECUTING"
    unfolding id by blast
qed

subsection \<open>Execution and the journal's protocol\<close>

context world_moves
begin

lemma moves_emit: "moves (en_publish E) \<Longrightarrow> moves (emit E on t d)"
  unfolding moves_def
proof
  fix w
  assume "\<forall>w. step (obs w) (obs (snd (en_publish E w)))"
  then have "step (obs w) (obs (snd (en_publish E (w\<lparr>wevents := es\<rparr>))))" for es
    using obs_events by metis
  then show "step (obs w) (obs (snd (emit E on t d w)))"
    by (simp add: emit_def publish_def bindW_def step_refl)
qed

lemma moves_read_journal: "moves (en_transaction E) \<Longrightarrow> moves (read_journal E)"
  unfolding read_journal_def by (rule moves_bind) (simp_all add: moves_def step_refl)

lemma moves_bindS: "moves m \<Longrightarrow> (\<And>a. moves (f a)) \<Longrightarrow> moves (bindS m f)"
  unfolding bindS_def by (rule moves_bind) (auto split: stage.splits)

lemma moves_checks:
  assumes "\<And>name. moves (en_metadata E name)" and "moves (en_integration E)" and "moves (en_publish E)"
  shows "moves (get_tool_metadata E name)" "moves (registry_stage E c md title on)"
    "moves (inject_stage E c md title args)" "moves (validate_stage E c args md)"
    "moves (approval_needed E name)" "moves (policy_stage E c title on args)"
    "moves (approval_stage E c title on ev)" "moves (execution_failed E c md e)"
  unfolding get_tool_metadata_def registry_stage_def inject_stage_def validate_stage_def
    validate_tool_parameters_def approval_needed_def policy_stage_def approval_stage_def
    execution_failed_def Let_def
  by (auto intro!: moves_bind moves_catch moves_emit assms split: option.splits list.splits json.splits bool.splits prod.splits)

end

lemma others_move:
  assumes "others_keep_protocol E"
  shows "jm.moves (en_hmac E) (en_uuid E) (en_settings E) (en_yaml E) (en_publish E)"
    "jm.moves (en_hmac E) (en_uuid E) (en_settings E) (en_yaml E) (en_transaction E)"
  using assms by (simp_all add: others_keep_protocol_def jm.moves_def)

lemma transact_moves:
  assumes "others_keep_protocol E"
    and "\<And>now J. jstep (en_hmac E) (en_uuid E) (en_settings E) (en_yaml E) J (snd (f now J))"
  shows "jm.moves (en_hmac E) (en_uuid E) (en_settings E) (en_yaml E) (transact E f)"
  unfolding transact_def by (intro jm.moves_bind others_move[OF assms(1)] moves_journal assms(2))

lemma execute_moves:
  assumes "\<And>name. jm.moves (en_hmac E) (en_uuid E) (en_settings E) (en_yaml E) (en_metadata E name)"
    and "jm.moves (en_hmac E) (en_uuid E) (en_settings E) (en_yaml E) (en_integration E)"
    and "\<And>tool args run. jm.moves (en_hmac E) (en_uuid E) (en_settings E) (en_yaml E)
           (mcp_call (en_mcp E) tool args run)"
    and "others_keep_protocol E"
  shows "jm.moves (en_hmac E) (en_uuid E) (en_settings E) (en_yaml E) (execute E c args)"
proof -
  note journal = transact_moves[OF assms(4)]
  note tell = jm.moves_emit[OF others_move(1)[OF assms(4)]]
  note reads = jm.moves_read_journal[OF others_move(2)[OF assms(4)]]
  note checks = jm.moves_checks[OF assms(1,2) others_move(1)[OF assms(4)]]
  let ?moves = "jm.moves (en_hmac E) (en_uuid E) (en_settings E) (en_yaml E)"
  have prep: "?moves (prepare_stage E c args d plan title)" for args d plan title
    unfolding prepare_stage_def prepare_call_def
    by (auto intro!: jm.moves_catch jm.moves_bind journal reads jstep.prepare split: prod.splits)
  have mark: "?moves (mark_stage E c on args r0)" for on args r0
    unfolding mark_stage_def by (intro jm.moves_bind journal tell jstep.mark_executing) simp_all
  have send: "?moves (send E c operation args)" for operation args
    unfolding send_def
    by (auto intro!: jm.moves_on_cancel jm.moves_catch jm.moves_bind journal jstep.record_execution assms(3)
        split: option.splits)
  have ferr: "?moves (finish_error E c title on operation result)" for title on operation result
    unfolding finish_error_def
    by (auto intro!: jm.moves_bind journal tell jstep.record_execution split: option.splits)
  have fok: "?moves (finish_success E c title on operation result)" for title on operation result
    unfolding finish_success_def Let_def
    by (auto intro!: jm.moves_bind journal tell jstep.record_execution split: option.splits)
  have call: "?moves (call_stage E c title on ev operation args)" for title on ev operation args
    unfolding call_stage_def by (auto intro!: jm.moves_bind tell send ferr fok)
  have gated: "?moves (gated_stage E c title on ev args needs)" for title on ev args needs
    unfolding gated_stage_def journal_stage_def Let_def
    by (auto intro!: jm.moves_bindS jm.moves_bind checks prep mark call split: prod.splits)
  show ?thesis
    unfolding execute_def execute_body_def Let_def
    by (intro jm.moves_bind jm.moves_catch jm.moves_bindS checks gated) simp_all
qed

text \<open>
  Executing a tool respects the journal's protocol: as long as the environment moves the
  journal only by the journal's methods, the whole execution, its failures and cancellation
  included, does too, so no execution can break a guarantee of the journal.
\<close>

theorem execute_keeps_protocol:
  assumes "\<And>name w. (jstep (en_hmac E) (en_uuid E) (en_settings E) (en_yaml E))\<^sup>*\<^sup>*
             (wj w) (wj (snd (en_metadata E name w)))"
    and "\<And>w. (jstep (en_hmac E) (en_uuid E) (en_settings E) (en_yaml E))\<^sup>*\<^sup>*
             (wj w) (wj (snd (en_integration E w)))"
    and "\<And>tool args run w. (jstep (en_hmac E) (en_uuid E) (en_settings E) (en_yaml E))\<^sup>*\<^sup>*
             (wj w) (wj (snd (mcp_call (en_mcp E) tool args run w)))"
    and "others_keep_protocol E"
  shows "(jstep (en_hmac E) (en_uuid E) (en_settings E) (en_yaml E))\<^sup>*\<^sup>* (wj w) (wj (snd (execute E c args w)))"
  using execute_moves[of E c args] assms by (simp add: jm.moves_def)

theorem execute_keeps_protocol_witness:
  "(jstep (\<lambda>k s. ''h'') Inr default_settings demo_yaml)\<^sup>*\<^sup>* (wj quiet_world)
     (wj (snd (execute demo_engine (upgrade_call []) [] quiet_world)))"
  using execute_keeps_protocol[of demo_engine quiet_world "upgrade_call []" "[]"]
  by (simp add: demo_engine_def quiet_mcp_def others_keep_protocol_def)

end
