(* ===== verification/AgentProps.thy ===== *)
theory AgentProps
  imports AgentGraph ExecutorProps
begin

text \<open>
  What the workflow guarantees: no answer of the model before the mutations are verified, no
  success message without a recorded pass, no tool call lost in the gate, and an end.
\<close>

subsection \<open>Steps of the workflow\<close>

text \<open>A configuration is the node to run next, the state and the world.\<close>

inductive agent_step ::
  "'e agent \<Rightarrow> agent_node \<times> agent_state \<times> 'e world \<Rightarrow> agent_node \<times> agent_state \<times> 'e world \<Rightarrow> bool"
  for A :: "'e agent" where
  step: "node \<noteq> End \<Longrightarrow> run_node A node s w = Some (Inr us, w') \<Longrightarrow>
    agent_step A (node, s, w) (next_node node (merge s us), merge s us, w')"

inductive_cases agent_stepE: "agent_step A (node, s, w) c"

lemma bindO_eq: "bindO m f w = Some (Inr b, w'') \<longleftrightarrow>
    (\<exists>a w'. m w = Some (Inr a, w') \<and> f a w' = Some (Inr b, w''))"
  by (auto simp: bindO_def split: option.splits sum.splits)

lemma at_once_eq: "at_once m w = Some (r, w') \<longleftrightarrow> m w = (r, w')"
  by (auto simp: at_once_def)

lemma graph_loop_steps:
  "graph_loop n A node s w = Some (Inr s', w') \<Longrightarrow> (agent_step A)\<^sup>*\<^sup>* (node, s, w) (End, s', w')"
proof (induction n arbitrary: node s w)
  case 0
  then show ?case by (auto simp: at_once_eq split: if_splits)
next
  case (Suc n)
  show ?case
  proof (cases "node = End")
    case True
    then show ?thesis using Suc.prems by (simp add: at_once_eq)
  next
    case False
    then obtain us w1 where us: "run_node A node s w = Some (Inr us, w1)"
      and rest: "graph_loop n A (next_node node (merge s us)) (merge s us) w1 = Some (Inr s', w')"
      using Suc.prems by (auto simp: bindO_eq)
    from agent_step.step[OF False us] Suc.IH[OF rest] show ?thesis
      by (rule converse_rtranclp_into_rtranclp)
  qed
qed

subsection \<open>Operations that await verification\<close>

text \<open>Whatever awaits verification is announced by the state's flag.\<close>

definition flagged :: "agent_state \<Rightarrow> bool" where
  "flagged s \<longleftrightarrow> (list_ex requires_verification (st_operations s) \<longrightarrow> st_verification_required s)"

fun touches_verification :: "update \<Rightarrow> bool" where
  "touches_verification (Operations ops) = True"
| "touches_verification (Verification_required b) = True"
| "touches_verification _ = False"

lemma merge_Nil [simp]: "merge s [] = s"
  by (simp add: merge_def)

lemma merge_Cons [simp]: "merge s (u # us) = merge (apply_update s u) us"
  by (simp add: merge_def)

lemma merge_append [simp]: "merge s (us @ vs) = merge (merge s us) vs"
  by (simp add: merge_def)

lemma apply_untouched:
  "\<not> touches_verification u \<Longrightarrow>
     st_operations (apply_update s u) = st_operations s
     \<and> st_verification_required (apply_update s u) = st_verification_required s"
  by (cases u) simp_all

lemma merge_untouched:
  "list_all (\<lambda>u. \<not> touches_verification u) us \<Longrightarrow>
     st_operations (merge s us) = st_operations s
     \<and> st_verification_required (merge s us) = st_verification_required s"
  by (induction us arbitrary: s) (auto simp: apply_untouched)

lemma merge_untouched_flagged: "list_all (\<lambda>u. \<not> touches_verification u) us \<Longrightarrow> flagged s \<Longrightarrow> flagged (merge s us)"
  using merge_untouched[of us s] by (simp add: flagged_def)

subsubsection \<open>The gate\<close>

definition acc_flagged :: "gate_acc \<Rightarrow> bool" where
  "acc_flagged acc \<longleftrightarrow> (list_ex requires_verification (ga_operations acc) \<longrightarrow> ga_required acc)"

lemma record_mutation_flagged: "acc_flagged acc \<Longrightarrow> acc_flagged (record_mutation b acc)"
  by (auto simp: acc_flagged_def record_mutation_def list_ex_iff)

lemma process_blocks_flagged: "acc_flagged acc \<Longrightarrow> acc_flagged (snd (process_blocks bs content acc))"
  by (induction bs content acc rule: process_blocks.induct)
    (auto simp: record_mutation_flagged split: json.splits)

lemma answer_flagged [simp]: "acc_flagged (answer_tool t c acc) = acc_flagged acc"
  by (simp add: acc_flagged_def answer_tool_def)

lemma fail_flagged [simp]: "acc_flagged (fail_tool t e acc) = acc_flagged acc"
  by (simp add: fail_tool_def)

lemma toolsets_flagged [simp]: "acc_flagged (acc\<lparr>ga_toolsets := l, ga_changed := b\<rparr>) = acc_flagged acc"
  by (simp add: acc_flagged_def)

lemma settle_flagged: "acc_flagged acc \<Longrightarrow> acc_flagged (settle_result t blocks acc)"
proof -
  assume acc: "acc_flagged acc"
  have "acc_flagged acc'" if "process_blocks bs [] acc = (r, acc')" for bs r acc'
    using process_blocks_flagged[OF acc, of bs "[]"] that by simp
  then show ?thesis
    using acc by (auto simp: settle_result_def split: sum.splits prod.splits)
qed

lemma gate_tool_flagged:
  assumes "gate_tool A s t acc w = (Inr (Answered acc'), w')" and "acc_flagged acc"
  shows "acc_flagged acc'"
  using assms by (auto simp: gate_tool_def settle_flagged split: if_splits sum.splits prod.splits)

lemma gate_tools_flagged:
  "gate_tools A s ts acc w = (Inr (acc', rest), w') \<Longrightarrow> acc_flagged acc \<Longrightarrow> acc_flagged acc'"
proof (induction ts arbitrary: acc w)
  case (Cons t ts)
  then obtain r w1 where "gate_tool A s t acc w = (Inr r, w1)"
    and "(case r of Paused \<Rightarrow> ret (acc, t # ts) | Answered acc1 \<Rightarrow> gate_tools A s ts acc1) w1 = (Inr (acc', rest), w')"
    by (auto simp: bindW_Inr)
  then show ?case
    using Cons.prems(2) Cons.IH[of _ w1] gate_tool_flagged[of A s t acc w _ w1] by (cases r) simp_all
qed simp

lemma gate_start_flagged: "acc_flagged (gate_start s)"
  by (simp add: acc_flagged_def gate_start_def)

lemma catchW_Inr: "catchW m h w = (Inr a, w') \<longleftrightarrow>
    m w = (Inr a, w') \<or> (\<exists>e w1. m w = (Inl e, w1) \<and> \<not> cancelled e \<and> h e w1 = (Inr a, w'))"
  by (auto simp: catchW_def split: prod.splits sum.splits if_splits)

text \<open>What the gate returns: nothing to do, the outcome of the batch, or its failure.\<close>

lemma gate_node_cases:
  assumes "gate_node A s w = (Inr us, w')"
  obtains (idle) "us = [Pending_tools [], Suppress_pending False]"
  | (batch) acc rest w1 where "gate_tools A s (st_pending s) (gate_start s) w1 = (Inr (acc, rest), w')"
      "us = gate_updates (acc, rest)"
  | (failed) e where "us = gate_failed e"
  using assms by (fastforce simp: gate_node_def catchW_Inr bindW_Inr bindW_eq split: if_splits)

lemma gate_node_flagged:
  assumes "gate_node A s w = (Inr us, w')" and "flagged s"
  shows "flagged (merge s us)"
  using assms(1)
proof (cases rule: gate_node_cases)
  case idle
  then show ?thesis using merge_untouched_flagged[OF _ assms(2), of us] by simp
next
  case (batch acc rest w1)
  from gate_tools_flagged[OF batch(1) gate_start_flagged] batch(2) show ?thesis
    by (simp add: gate_updates_def flagged_def acc_flagged_def)
next
  case (failed e)
  then show ?thesis using merge_untouched_flagged[OF _ assms(2), of us] by (simp add: gate_failed_def)
qed

subsubsection \<open>Verification\<close>

lemma verify_or_report_status:
  assumes "verify_or_report A s oid w = Some (Inr result, w')" and "passed_result result"
  shows "map_of result ''status'' = Some (JStr ''passed'')"
    and "verify (en_mcp (ag_engine A)) (ag_loads A) (en_yaml (ag_engine A)) (en_settings (ag_engine A))
           (py_str oid) (verify_owner s) w = Some (Inr result, w')"
proof -
  show verified: "verify (en_mcp (ag_engine A)) (ag_loads A) (en_yaml (ag_engine A)) (en_settings (ag_engine A))
      (py_str oid) (verify_owner s) w = Some (Inr result, w')"
    using assms by (auto simp: verify_or_report_def Let_def passed_result_def runtime_error_result_def
        split: option.splits sum.splits if_splits)
  show "map_of result ''status'' = Some (JStr ''passed'')"
    using verify_passed_status[OF verified] assms(2) by (simp add: passed_result_def)
qed

lemma verify_item_cases:
  assumes "verify_item A s item w = Some (Inr result, w')"
  obtains w1 w2 where "verify_or_report A s (dget item ''operation_id'') w1 = Some (Inr result, w2)"
    and "wj w1 = wj w" and "wj w' = wj w2"
  using assms
  by (auto simp: verify_item_def Let_def bindO_eq at_once_eq notify_def publish_def split: if_splits)

lemma verified_item_settled:
  "map_of result ''status'' = Some (JStr ''passed'') \<Longrightarrow> \<not> requires_verification (verified_item item result)"
  by (simp add: verified_item_def requires_verification_def update_conv Let_def dget_def_def)

lemma verified_item_id [simp]: "dget (verified_item item result) ''operation_id'' = dget item ''operation_id''"
  by (simp add: verified_item_def dget_update Let_def)

text \<open>When all have passed, what still awaits verification awaited it before and was not asked about.\<close>

lemma verify_items_settled:
  "verify_items A s items ops w = Some (Inr (results, ops'), w') \<Longrightarrow> list_all passed_result results \<Longrightarrow>
     op \<in> set ops' \<Longrightarrow> requires_verification op \<Longrightarrow>
     op \<in> set ops \<and> dget op ''operation_id'' \<notin> (\<lambda>i. dget i ''operation_id'') ` set items"
proof (induction items arbitrary: ops w results)
  case Nil
  then show ?case by (simp add: at_once_eq)
next
  case (Cons item items)
  then obtain result w1 rs where item: "verify_item A s item w = Some (Inr result, w1)"
    and rest: "verify_items A s items (replace_operation item result ops) w1 = Some (Inr (rs, ops'), w')"
    and results: "results = result # rs"
    by (auto simp: bindO_eq at_once_eq split: prod.splits)
  from item obtain w2 w3 where "verify_or_report A s (dget item ''operation_id'') w2 = Some (Inr result, w3)"
    by (rule verify_item_cases)
  from verify_or_report_status(1)[OF this] Cons.prems(2) results
  have settled: "\<not> requires_verification (verified_item item result)"
    using verified_item_settled by simp
  have "op \<in> set (replace_operation item result ops)
      \<and> dget op ''operation_id'' \<notin> (\<lambda>i. dget i ''operation_id'') ` set items"
    using Cons.IH[OF rest] Cons.prems results by simp
  then show ?case
    using settled Cons.prems(4) by (auto simp: replace_operation_def split: if_splits)
qed

lemma lift_Inr: "lift m w = (Inr a, w') \<longleftrightarrow> m = Inr a \<and> w' = w"
  by auto

text \<open>What the verification node returns.\<close>

lemma verification_node_cases:
  assumes "verification_node A s w = Some (Inr us, w')"
  obtains (idle) "filter requires_verification (st_operations s) = []"
      "us = [Verification_required False, Verification_blocked False]"
  | (passed) w1 results ops w2 where
      "check_stop A s w = (Inr (), w1)"
      "verify_items A s (filter requires_verification (st_operations s)) (st_operations s) w1
         = Some (Inr (results, ops), w2)"
      "list_all passed_result results" "all_verified results ops = Inr us" "w' = w2"
  | (blocked) results ops message where "us = not_verified message results ops"
proof -
  let ?items = "filter requires_verification (st_operations s)"
  from assms obtain w1 where stop: "check_stop A s w = (Inr (), w1)"
    and body: "(if ?items = [] then at_once (ret [Verification_required False, Verification_blocked False])
       else bindO (verify_items A s ?items (st_operations s)) (\<lambda>(results, ops).
          at_once (verification_verdict A s results ops))) w1 = Some (Inr us, w')"
    by (auto simp: verification_node_def Let_def bindO_eq at_once_eq)
  show ?thesis
  proof (cases "?items = []")
    case True
    then show ?thesis using body idle by (simp add: at_once_eq)
  next
    case False
    then obtain results ops w2 where
      items: "verify_items A s ?items (st_operations s) w1 = Some (Inr (results, ops), w2)"
      and verdict: "verification_verdict A s results ops w2 = (Inr us, w')"
      using body by (auto simp: bindO_eq at_once_eq)
    show ?thesis
    proof (cases "list_all passed_result results")
      case True
      then show ?thesis using verdict passed[OF stop items] by (simp add: verification_verdict_def)
    next
      case False
      then show ?thesis using verdict blocked by (auto simp: verification_verdict_def bindW_Inr lift_Inr)
    qed
  qed
qed

lemma all_verified_merge:
  assumes "all_verified results ops = Inr us"
  shows "st_operations (merge s us) = ops" and "\<not> st_verification_required (merge s us)"
    and "\<not> st_verification_blocked (merge s us)"
  using assms by (auto simp: all_verified_def bindE_Inr_iff)

lemma verification_node_flagged:
  assumes "verification_node A s w = Some (Inr us, w')"
  shows "flagged (merge s us)"
  using assms
proof (cases rule: verification_node_cases)
  case idle
  then show ?thesis by (simp add: flagged_def list_ex_iff filter_empty_conv)
next
  case (passed w1 results ops w2)
  have "\<not> list_ex requires_verification ops"
    using verify_items_settled[OF passed(2,3)] by (force simp: list_ex_iff)
  with all_verified_merge[OF passed(4)] show ?thesis by (simp add: flagged_def)
next
  case (blocked results ops message)
  then show ?thesis by (simp add: not_verified_def flagged_def)
qed

subsection \<open>The model never answers over an unverified mutation\<close>

lemma model_updates_untouched: "list_all (\<lambda>u. \<not> touches_verification u) (filter model_update us)"
proof -
  have "model_update u \<Longrightarrow> \<not> touches_verification u" for u by (cases u) simp_all
  then show ?thesis by (simp add: list_all_iff)
qed

lemma run_node_flagged:
  assumes "run_node A node s w = Some (Inr us, w')" and "flagged s"
  shows "flagged (merge s us)"
proof -
  have *: "flagged (merge s us)" if "list_all (\<lambda>u. \<not> touches_verification u) us"
    using that assms(2) by (rule merge_untouched_flagged)
  show ?thesis
  proof (cases node)
    case Entry
    then show ?thesis using assms(1) by (intro *) (auto simp: at_once_eq entry_node_def bindW_Inr)
  next
    case Memory_prepare
    then show ?thesis using assms(1)
      by (intro *) (auto simp: at_once_eq memory_prepare_node_def Let_def bindW_Inr split: if_splits)
  next
    case Model
    then show ?thesis using assms(1) model_updates_untouched
      by (intro *) (auto simp: at_once_eq model_node_def catchW_Inr bindW_Inr split: if_splits)
  next
    case Gate
    then show ?thesis using assms gate_node_flagged by (simp add: at_once_eq)
  next
    case Verification
    then show ?thesis using assms verification_node_flagged by simp
  next
    case Final
    then show ?thesis using assms(1) by (intro *) (auto simp: at_once_eq final_node_def)
  next
    case End
    then show ?thesis using assms by (simp add: at_once_eq)
  qed
qed

lemma into_model:
  assumes "run_node A node s w = Some (Inr us, w')" and "next_node node (merge s us) = Model"
    and "node = Memory_prepare \<longrightarrow> \<not> st_verification_required s"
  shows "\<not> st_verification_required (merge s us)"
proof (cases node)
  case Memory_prepare
  have "list_all (\<lambda>u. \<not> touches_verification u) us"
    using assms(1) Memory_prepare
    by (auto simp: at_once_eq memory_prepare_node_def Let_def bindW_Inr split: if_splits)
  then show ?thesis using assms(3) Memory_prepare merge_untouched by simp
qed (use assms(2) in \<open>auto simp: route_from_entry_def route_after_model_def route_after_gate_def
  route_after_verification_def split: if_splits\<close>)

lemma into_memory: "next_node node s = Memory_prepare \<Longrightarrow> \<not> st_verification_required s"
  by (cases node) (auto simp: route_from_entry_def route_after_model_def route_after_gate_def
    route_after_verification_def split: if_splits)

lemma steps_flagged:
  assumes "(agent_step A)\<^sup>*\<^sup>* (Entry, s, w) (node, s', w')" and "flagged s"
  shows "flagged s' \<and> (node \<in> {Memory_prepare, Model} \<longrightarrow> \<not> st_verification_required s')"
proof -
  have "flagged (fst (snd c)) \<and> (fst c \<in> {Memory_prepare, Model} \<longrightarrow> \<not> st_verification_required (fst (snd c)))"
    if "(agent_step A)\<^sup>*\<^sup>* (Entry, s, w) c" for c
    using that
  proof (induction rule: rtranclp_induct)
    case base
    then show ?case using assms(2) by simp
  next
    case (step c d)
    obtain n t v where c: "c = (n, t, v)" by (cases c)
    from step.hyps(2)[unfolded c] obtain us v' where
      run: "run_node A n t v = Some (Inr us, v')" and d: "d = (next_node n (merge t us), merge t us, v')"
      by (rule agent_stepE) auto
    from step.IH c have "flagged t" "n = Memory_prepare \<longrightarrow> \<not> st_verification_required t" by auto
    with run_node_flagged[OF run] into_model[OF run] into_memory show ?case by (auto simp: d)
  qed
  from this[OF assms(1)] show ?thesis by simp
qed

text \<open>
  C1: the model is never called over an unverified mutation. In every run of the workflow, from a
  state whose flag is set when an operation awaits verification (a new conversation, or a
  checkpoint of this workflow), the model node is reached only when no operation awaits
  verification: no success can be claimed before the verification node has seen to it. The
  state left behind satisfies the same condition, so it holds across turns.
\<close>

theorem unverified_mutation_blocks_model:
  assumes "(agent_step A)\<^sup>*\<^sup>* (Entry, s, w) (node, s', w')"
    and "list_ex requires_verification (st_operations s) \<longrightarrow> st_verification_required s"
  shows "(node = Model \<longrightarrow> \<not> list_ex requires_verification (st_operations s'))
    \<and> (list_ex requires_verification (st_operations s') \<longrightarrow> st_verification_required s')"
  using steps_flagged[OF assms(1)] assms(2) by (auto simp: flagged_def)

text \<open>A workflow without callback, memory or tools, for the concrete instances.\<close>

definition demo_agent :: "unit agent" where
  "demo_agent = \<lparr>ag_engine = demo_engine, ag_loads = no_json, ag_callback = False,
     ag_should_stop = (\<lambda>_. ret False), ag_model = (\<lambda>_. ret []), ag_retrieve = (\<lambda>_ _. ret [])\<rparr>"

definition demo_state :: agent_state where
  "demo_state = \<lparr>st_run = ''run'', st_messages = [], st_pending = [], st_start_time = 0, st_end_time = 0,
     st_duration = 0, st_done = False, st_conversation = None, st_user = None, st_role = None,
     st_environment = ''development'', st_error = None, st_awaiting_approval = False,
     st_suppress_pending = False, st_ttft_emitted = False, st_decisions = [], st_reasons = [],
     st_operations = [], st_verification_required = False, st_verification_blocked = False,
     st_evidence = [], st_toolsets = [(''k8s'', False)], st_memory_loaded = False, st_memory_hits = [],
     st_memory_msg = None\<rparr>"

lemmas demo_agent_simps = demo_agent_def demo_state_def check_stop_def

lemma demo_run_to_model:
  "\<exists>s'. (agent_step demo_agent)\<^sup>*\<^sup>* (Entry, demo_state, quiet_world) (Model, s', quiet_world)
     \<and> st_operations s' = []"
proof -
  let ?us = "[Ttft_emitted False, Memory_loaded False, Memory_msg None, Error_is None, Verification_blocked False]"
  let ?s = "merge demo_state ?us"
  have "run_node demo_agent Entry demo_state quiet_world = Some (Inr ?us, quiet_world)"
    by (simp add: at_once_eq entry_node_def bindW_Inr demo_agent_simps)
  from agent_step.step[OF _ this]
  have 1: "agent_step demo_agent (Entry, demo_state, quiet_world) (Memory_prepare, ?s, quiet_world)"
    by (simp add: route_from_entry_def demo_state_def)
  have "run_node demo_agent Memory_prepare ?s quiet_world = Some (Inr [Memory_loaded True], quiet_world)"
    by (simp add: at_once_eq memory_prepare_node_def demo_agent_simps latest_user_text_def demo_engine_def
        default_settings_def)
  from agent_step.step[OF _ this]
  have 2: "agent_step demo_agent (Memory_prepare, ?s, quiet_world) (Model, merge ?s [Memory_loaded True], quiet_world)"
    by simp
  from 1 2 show ?thesis
    by (intro exI[of _ "merge ?s [Memory_loaded True]"] conjI)
      (auto simp: demo_state_def intro: converse_rtranclp_into_rtranclp)
qed

theorem unverified_mutation_blocks_model_witness:
  "\<exists>s'. (agent_step demo_agent)\<^sup>*\<^sup>* (Entry, demo_state, quiet_world) (Model, s', quiet_world)
     \<and> \<not> list_ex requires_verification (st_operations s')"
proof -
  obtain s' where run: "(agent_step demo_agent)\<^sup>*\<^sup>* (Entry, demo_state, quiet_world) (Model, s', quiet_world)"
    using demo_run_to_model by blast
  have "list_ex requires_verification (st_operations demo_state) \<longrightarrow> st_verification_required demo_state"
    by (simp add: demo_state_def)
  from unverified_mutation_blocks_model[OF run this] run show ?thesis by blast
qed

subsection \<open>No tool call is lost in the gate\<close>

definition answered_id :: "json \<Rightarrow> json" where
  "answered_id m = (case m of JDict d \<Rightarrow> dget d ''tool_call_id'' | _ \<Rightarrow> JNull)"

lemma answered_id_tool [simp]: "answered_id (tool_message t content) = JStr (pt_id t)"
  by (simp add: answered_id_def tool_message_def)

lemma ga_messages_simps [simp]:
  "ga_messages (answer_tool t content acc) = ga_messages acc @ [tool_message t content]"
  "ga_messages (record_mutation b acc) = ga_messages acc"
  by (simp_all add: answer_tool_def record_mutation_def)

lemma process_blocks_messages: "ga_messages (snd (process_blocks bs content acc)) = ga_messages acc"
  by (induction bs content acc rule: process_blocks.induct) (auto split: json.splits)

text \<open>One message, which answers the tool.\<close>

definition answers :: "pending_tool \<Rightarrow> gate_acc \<Rightarrow> gate_acc \<Rightarrow> bool" where
  "answers t acc acc' \<longleftrightarrow> (\<exists>content. ga_messages acc' = ga_messages acc @ [tool_message t content])"

lemma answers_answer: "ga_messages acc = ga_messages acc0 \<Longrightarrow> answers t acc0 (answer_tool t content acc)"
  unfolding answers_def by (rule exI[of _ content]) simp

lemma answers_fail: "ga_messages acc = ga_messages acc0 \<Longrightarrow> answers t acc0 (fail_tool t e acc)"
  unfolding fail_tool_def by (rule answers_answer)

lemma settle_answers: "answers t acc (settle_result t blocks acc)"
proof -
  have "ga_messages acc' = ga_messages acc" if "process_blocks bs [] acc = (r, acc')" for bs r acc'
    using process_blocks_messages[of bs "[]" acc] that by simp
  then show ?thesis
    by (auto simp: settle_result_def intro!: answers_answer answers_fail split: sum.splits prod.splits)
qed

lemma gate_tool_answers: "gate_tool A s t acc w = (Inr (Answered acc'), w') \<Longrightarrow> answers t acc acc'"
  by (auto simp: gate_tool_def settle_answers intro: answers_answer answers_fail
      split: if_splits sum.splits prod.splits)

lemma gate_tools_answers:
  "gate_tools A s ts acc w = (Inr (acc', rest), w') \<Longrightarrow>
     \<exists>ms. ga_messages acc' = ga_messages acc @ ms
        \<and> map answered_id ms @ map (\<lambda>t. JStr (pt_id t)) rest = map (\<lambda>t. JStr (pt_id t)) ts"
proof (induction ts arbitrary: acc w)
  case (Cons t ts)
  then obtain r w1 where r: "gate_tool A s t acc w = (Inr r, w1)"
    and rest: "(case r of Paused \<Rightarrow> ret (acc, t # ts) | Answered acc1 \<Rightarrow> gate_tools A s ts acc1) w1 = (Inr (acc', rest), w')"
    by (auto simp: bindW_Inr)
  show ?case
  proof (cases r)
    case (Answered acc1)
    from gate_tool_answers[OF r[unfolded Answered]] obtain content
      where "ga_messages acc1 = ga_messages acc @ [tool_message t content]" by (auto simp: answers_def)
    moreover from rest Answered Cons.IH obtain ms where "ga_messages acc' = ga_messages acc1 @ ms"
      "map answered_id ms @ map (\<lambda>t. JStr (pt_id t)) rest = map (\<lambda>t. JStr (pt_id t)) ts" by fastforce
    ultimately show ?thesis by (intro exI[of _ "tool_message t content # ms"]) simp
  next
    case Paused
    then show ?thesis using rest by simp
  qed
qed simp

lemma gate_node_batch:
  assumes "ag_should_stop A (st_run s) w = (Inr False, w1)" and "st_pending s \<noteq> []"
    and "gate_node A s w = (Inr us, w')"
  shows "\<exists>acc rest w2. gate_tools A s (st_pending s) (gate_start s) w2 = (Inr (acc, rest), w')
    \<and> us = gate_updates (acc, rest)"
proof -
  obtain q w2 where q: "catchW (announce_pending A s) (\<lambda>e. ret ()) w1 = (q, w2)"
    by (cases "catchW (announce_pending A s) (\<lambda>e. ret ()) w1")
  have body: "gate_tools A s (st_pending s) (gate_start s) w2 = (Inr (acc, rest), w')
      \<and> us = gate_updates (acc, rest)"
    if "(bindW (gate_tools A s (st_pending s) (gate_start s)) (\<lambda>r. ret (gate_updates r))) w2 = (Inr us, w')"
      "gate_tools A s (st_pending s) (gate_start s) w2 = (Inr (acc, rest), w3)" for acc rest w3
    using that by (auto simp: bindW_Inr)
  have errors: "cancelled e" if "gate_tools A s ts acc w = (Inl e, v)" for ts acc w e v
    using that
  proof (induction ts arbitrary: acc w)
    case (Cons t ts)
    then show ?case
      by (auto simp: bindW_eq gate_tool_def split: if_splits sum.splits prod.splits gate_step.splits)
  qed simp
  have announced: "cancelled e" if "catchW (announce_pending A s) (\<lambda>e. ret ()) w1 = (Inl e, v)" for e v
    using that by (auto simp: catchW_def split: prod.splits sum.splits if_splits)
  from assms(3) show ?thesis
    using assms(1, 2) q errors announced
    by (fastforce simp: gate_node_def check_stop_def catchW_Inr bindW_Inr bindW_eq)
qed

lemma gate_node_stopped:
  assumes "ag_should_stop A (st_run s) w = (v, w1)" and "v \<noteq> Inr False" and "gate_node A s w = (Inr us, w')"
  shows "w' = w1 \<and> (\<exists>e. us = gate_failed e)"
  using assms by (cases v) (auto simp: gate_node_def check_stop_def catchW_def bindW_def split: if_splits)

text \<open>
  C26: the gate answers or keeps every tool call, unless a Stop comes first. When the check at its start finds
  no Stop, each pending tool is either answered by exactly one tool message with its id or still pending, in the
  order of the model's calls; tools stay pending exactly when the batch waits for an approval. When it finds a
  Stop (or the check fails), nothing is announced and nothing executed: the world is as the check left it, the
  calls are dropped without an answer of their own, one assistant message and the error take their place, and the
  mutations recorded before stay.
\<close>

theorem gate_answers_each_call:
  assumes "st_pending s \<noteq> []" and "gate_node A s w = (Inr us, w')"
  shows "case ag_should_stop A (st_run s) w of (v, w1) \<Rightarrow>
    if v = Inr False then
      (\<exists>ms. st_messages (merge s us) = st_messages s @ ms
        \<and> map answered_id ms @ map (\<lambda>t. JStr (pt_id t)) (st_pending (merge s us)) = map (\<lambda>t. JStr (pt_id t)) (st_pending s)
        \<and> (st_awaiting_approval (merge s us) \<longleftrightarrow> st_pending (merge s us) \<noteq> []))
    else w' = w1 \<and> st_pending (merge s us) = [] \<and> st_operations (merge s us) = st_operations s
      \<and> (\<exists>text. st_error (merge s us) = Some text \<and> st_messages (merge s us) = st_messages s @
            [JDict [(''role'', JStr ''assistant''), (''name'', JNull),
              (''content'', JStr (''Error in tool execution gate: '' @ text))]])"
proof (cases "ag_should_stop A (st_run s) w")
  case (Pair v w1)
  show ?thesis
  proof (cases "v = Inr False")
    case True
    then obtain acc rest w2 where "gate_tools A s (st_pending s) (gate_start s) w2 = (Inr (acc, rest), w')"
      and us: "us = gate_updates (acc, rest)"
      using gate_node_batch[OF _ assms] Pair by blast
    from gate_tools_answers[OF this(1)] obtain ms where "ga_messages acc = ms"
      "map answered_id ms @ map (\<lambda>t. JStr (pt_id t)) rest = map (\<lambda>t. JStr (pt_id t)) (st_pending s)"
      by (auto simp: gate_start_def)
    then show ?thesis by (simp add: Pair True us gate_updates_def)
  next
    case False
    with gate_node_stopped[OF Pair this assms(2)] show ?thesis by (auto simp: Pair gate_failed_def)
  qed
qed

definition load_helm :: pending_tool where
  "load_helm = \<lparr>pt_id = ''c1'', pt_call_id = ''c1'', pt_operation = ''o1'', pt_name = ''load_toolset'',
     pt_args = [(''toolset'', JStr ''helm''), (''include_write_tools'', JBool False)]\<rparr>"

lemma demo_gate:
  "\<exists>us. gate_node demo_agent (demo_state\<lparr>st_pending := [load_helm]\<rparr>) quiet_world = (Inr us, quiet_world)"
  by (simp add: gate_node_def check_stop_def demo_agent_def announce_pending_def catchW_def bindW_def
      load_helm_def gate_tool_def)

theorem gate_answers_each_call_witness:
  "\<exists>us ms. gate_node demo_agent (demo_state\<lparr>st_pending := [load_helm]\<rparr>) quiet_world = (Inr us, quiet_world)
     \<and> map answered_id ms @ map (\<lambda>t. JStr (pt_id t)) (st_pending (merge (demo_state\<lparr>st_pending := [load_helm]\<rparr>) us))
         = [JStr ''c1'']"
proof -
  let ?s = "demo_state\<lparr>st_pending := [load_helm]\<rparr>"
  obtain us where us: "gate_node demo_agent ?s quiet_world = (Inr us, quiet_world)"
    using demo_gate by blast
  have go: "ag_should_stop demo_agent (st_run ?s) quiet_world = (Inr False, quiet_world)" and "st_pending ?s \<noteq> []"
    by (simp_all add: demo_agent_def)
  from gate_answers_each_call[OF this(2) us] us go show ?thesis by (simp add: load_helm_def) blast
qed

subsection \<open>Success is reported only from the journal\<close>

text \<open>The environment moves the journal only by the journal's methods.\<close>

definition journal_safe :: "'e agent \<Rightarrow> bool" where
  "journal_safe A \<longleftrightarrow>
     (let E = ag_engine A; move = (jstep (en_hmac E) (en_uuid E) (en_settings E) (en_yaml E))\<^sup>*\<^sup>* in
      (\<forall>tool args run w. move (wj w) (wj (snd (mcp_call (en_mcp E) tool args run w))))
      \<and> (\<forall>us w. move (wj w) (wj (snd (mcp_sleep (en_mcp E) us w))))
      \<and> (\<forall>run w. move (wj w) (wj (snd (ag_should_stop A run w)))))"

lemma verify_or_report_moves:
  assumes "journal_safe A" and "verify_or_report A s oid w = Some (res, w')"
  shows "(jstep (en_hmac (ag_engine A)) (en_uuid (ag_engine A)) (en_settings (ag_engine A)) (en_yaml (ag_engine A)))\<^sup>*\<^sup>*
    (wj w) (wj w')"
proof -
  let ?E = "ag_engine A"
  from assms(2) obtain r where
    "verify (en_mcp ?E) (ag_loads A) (en_yaml ?E) (en_settings ?E) (py_str oid) (verify_owner s) w = Some (r, w')"
    by (auto simp: verify_or_report_def Let_def split: option.splits sum.splits)
  from verify_moves_journal[OF _ _ this] assms(1) show ?thesis
    by (simp add: journal_safe_def Let_def)
qed

lemma verify_items_recorded:
  assumes safe: "journal_safe A" and valid: "valid_settings (en_settings (ag_engine A))"
  shows "verify_items A s items ops w = Some (Inr (results, ops'), w') \<Longrightarrow> list_all passed_result results \<Longrightarrow>
    journal_inv (en_settings (ag_engine A)) (wj w) \<Longrightarrow>
    (jstep (en_hmac (ag_engine A)) (en_uuid (ag_engine A)) (en_settings (ag_engine A)) (en_yaml (ag_engine A)))\<^sup>*\<^sup>*
       (wj w) (wj w')
    \<and> (\<forall>item\<in>set items. \<exists>r. find_row (py_str (dget item ''operation_id'')) (wj w') = Some r
         \<and> verification_status r = PASSED)"
proof (induction items arbitrary: ops w results)
  case Nil
  then show ?case by (simp add: at_once_eq)
next
  case (Cons item items)
  let ?E = "ag_engine A" and ?id = "py_str (dget item ''operation_id'')"
  let ?move = "(jstep (en_hmac ?E) (en_uuid ?E) (en_settings ?E) (en_yaml ?E))\<^sup>*\<^sup>*"
  obtain result w1 rs where item: "verify_item A s item w = Some (Inr result, w1)"
    and rest: "verify_items A s items (replace_operation item result ops) w1 = Some (Inr (rs, ops'), w')"
    and results: "results = result # rs"
    using Cons.prems(1) by (auto simp: bindO_eq at_once_eq split: prod.splits)
  from item obtain w2 w3 where ver: "verify_or_report A s (dget item ''operation_id'') w2 = Some (Inr result, w3)"
    and w2: "wj w2 = wj w" and w3: "wj w1 = wj w3"
    by (rule verify_item_cases)
  have passed: "passed_result result" "list_all passed_result rs"
    using Cons.prems(2) results by simp_all
  have moved: "?move (wj w) (wj w1)"
    using verify_or_report_moves[OF safe ver] w2 w3 by simp
  have inv: "journal_inv (en_settings ?E) (wj w1)"
    using jruns_moves[OF moved valid Cons.prems(3)] by simp
  have "dget result ''passed'' = JBool True"
    using verify_passed_status[OF verify_or_report_status(2)[OF ver passed(1)]] passed(1)
    by (simp add: passed_result_def)
  with verify_passed_row[OF verify_or_report_status(2)[OF ver passed(1)]] w3
  obtain r where r: "find_row ?id (wj w1) = Some r" "verification_status r = PASSED" by auto
  note tail = Cons.IH[OF rest passed(2) inv]
  have "find_row ?id (wj w') = Some r"
    using verdict_stays[OF valid inv conjunct1[OF tail] r(1)] r(2) by simp
  with tail moved r(2) show ?case by (auto intro: rtranclp_trans)
qed

text \<open>
  C2: success is reported only from the journal. When the verification node ends without blocking
  the success report, every operation that awaited verification is in the journal, as passed:
  the message that lets the model report success is backed by recorded verdicts, even if the
  verdict of one operation came long before the end of the node.
\<close>

theorem success_report_backed_by_journal:
  assumes "verification_node A s w = Some (Inr us, w')" and "\<not> st_verification_blocked (merge s us)"
    and "op \<in> set (st_operations s)" and "requires_verification op"
    and "journal_safe A" and "valid_settings (en_settings (ag_engine A))"
    and "journal_inv (en_settings (ag_engine A)) (wj w)"
  shows "\<exists>r. find_row (py_str (dget op ''operation_id'')) (wj w') = Some r \<and> verification_status r = PASSED"
  using assms(1)
proof (cases rule: verification_node_cases)
  case idle
  then show ?thesis using assms(3, 4) by (auto simp: filter_empty_conv)
next
  case (passed w1 results ops w2)
  have "wj w1 = wj (snd (ag_should_stop A (st_run s) w))"
    using passed(1) by (auto simp: check_stop_def bindW_Inr split: if_splits)
  moreover have "(jstep (en_hmac (ag_engine A)) (en_uuid (ag_engine A)) (en_settings (ag_engine A))
      (en_yaml (ag_engine A)))\<^sup>*\<^sup>* (wj w) (wj (snd (ag_should_stop A (st_run s) w)))"
    using assms(5) by (simp add: journal_safe_def Let_def)
  ultimately have "journal_inv (en_settings (ag_engine A)) (wj w1)"
    using jruns_moves[OF _ assms(6, 7)] by simp
  from verify_items_recorded[OF assms(5, 6) passed(2, 3) this] assms(3, 4) passed(5)
  show ?thesis by simp
next
  case (blocked results ops message)
  then show ?thesis using assms(2) by (simp add: not_verified_def)
qed

definition awaiting_op :: dict where
  "awaiting_op = [(''operation_id'', JStr ''op''), (''tool'', JStr ''k8s_apply''),
     (''requires_verification'', JBool True)]"

definition awaiting_state :: agent_state where
  "awaiting_state = demo_state\<lparr>st_operations := [awaiting_op], st_verification_required := True\<rparr>"

abbreviation passed_world :: "unit world" where
  "passed_world \<equiv> quiet_world\<lparr>wj := [passed_row]\<rparr>"

lemma awaiting_requires: "requires_verification awaiting_op" "dget awaiting_op ''operation_id'' = JStr ''op''"
  by (simp_all add: requires_verification_def awaiting_op_def)

lemma demo_verify:
  "verify quiet_mcp no_json demo_yaml default_settings ''op'' ow passed_world
     = Some (Inr (unclaimed_result passed_row), passed_world)"
  by (simp add: verify_def on_journal_def quiet_world_def find_row_def claim_verification_def
      with_row_def demo_defs VERIFIABLE_def TERMINAL_def)

lemma demo_summary: "dget (public_summary passed_row) ''operation_id'' = JStr ''op''"
    "map_of (public_summary passed_row) ''operation_id'' = Some (JStr ''op'')"
  by (simp_all add: public_summary_def demo_defs)

lemma demo_result:
  "passed_result (unclaimed_result passed_row)"
  "result_id (unclaimed_result passed_row) = Inr (JStr ''op'')"
proof -
  have "verification_status passed_row = PASSED" by (simp add: demo_defs)
  then show "passed_result (unclaimed_result passed_row)"
    "result_id (unclaimed_result passed_row) = Inr (JStr ''op'')"
    by (simp_all add: passed_result_def result_id_def unclaimed_result_def Let_def subscript_def
        summary_result_def bool_result_def demo_summary)
qed

lemma demo_verification:
  "\<exists>us. verification_node demo_agent awaiting_state passed_world = Some (Inr us, passed_world)
     \<and> \<not> st_verification_blocked (merge awaiting_state us)"
proof -
  have report: "verify_or_report demo_agent awaiting_state (JStr ''op'') passed_world
      = Some (Inr (unclaimed_result passed_row), passed_world)"
    by (simp add: verify_or_report_def demo_agent_def demo_engine_def demo_verify)
  have item: "verify_item demo_agent awaiting_state awaiting_op passed_world
      = Some (Inr (unclaimed_result passed_row), passed_world)"
    unfolding verify_item_def Let_def awaiting_requires(2)
    by (simp add: bindO_def at_once_def notify_def demo_agent_def report[unfolded demo_agent_def])
  have "filter requires_verification (st_operations awaiting_state) = [awaiting_op]"
    by (simp add: awaiting_state_def awaiting_requires(1))
  then show ?thesis
    using item
    by (simp add: verification_node_def bindO_def at_once_def check_stop_def verification_verdict_def
        demo_result all_verified_def joined_def demo_agent_def)
qed

theorem success_report_backed_by_journal_witness:
  "\<exists>r. find_row ''op'' (wj passed_world) = Some r \<and> verification_status r = PASSED"
proof -
  obtain us where us: "verification_node demo_agent awaiting_state passed_world = Some (Inr us, passed_world)"
    "\<not> st_verification_blocked (merge awaiting_state us)"
    using demo_verification by blast
  have op: "awaiting_op \<in> set (st_operations awaiting_state)" by (simp add: awaiting_state_def)
  have "journal_safe demo_agent"
    by (simp add: journal_safe_def demo_agent_def demo_engine_def quiet_mcp_def)
  from success_report_backed_by_journal[OF us op awaiting_requires(1) this] show ?thesis
    by (simp add: demo_agent_def demo_engine_def awaiting_requires(2))
qed

subsection \<open>The workflow ends\<close>

definition clock_advances :: "'e mcp \<Rightarrow> bool" where
  "clock_advances M \<longleftrightarrow> (\<forall>tool args run w. wmono w \<le> wmono (snd (mcp_call M tool args run w)))
     \<and> (\<forall>us w. wmono w + us \<le> wmono (snd (mcp_sleep M us w)))"

definition ends :: "('e, 'a) wait \<Rightarrow> bool" where
  "ends m \<longleftrightarrow> (\<forall>w. m w \<noteq> None)"

lemma endsD: "ends m \<Longrightarrow> \<exists>r w'. m w = Some (r, w')"
  by (auto simp: ends_def)

lemma ends_bind:
  assumes "ends m" and "\<And>a. ends (f a)"
  shows "ends (bindO m f)"
  unfolding ends_def
proof
  fix w
  obtain r w' where "m w = Some (r, w')" using endsD[OF assms(1)] by blast
  then show "bindO m f w \<noteq> None"
    using assms(2)[unfolded ends_def] by (cases r) (simp_all add: bindO_def)
qed

lemma ends_at_once: "ends (at_once m)"
  by (simp add: ends_def at_once_def)

text \<open>A workflow whose verifications end.\<close>

definition steady :: "'e agent \<Rightarrow> bool" where
  "steady A \<longleftrightarrow> valid_settings (en_settings (ag_engine A)) \<and> clock_advances (en_mcp (ag_engine A))"

lemma ends_verify:
  assumes "steady A"
  shows "ends (verify_or_report A s oid)"
  unfolding ends_def
proof
  fix w
  let ?E = "ag_engine A"
  have "\<exists>y. verify (en_mcp ?E) (ag_loads A) (en_yaml ?E) (en_settings ?E) (py_str oid) (verify_owner s) w = Some y"
    using assms by (intro verify_some rounds_return) (auto simp: clock_advances_def steady_def)
  then show "verify_or_report A s oid w \<noteq> None"
    by (auto simp: verify_or_report_def Let_def split: sum.splits prod.splits)
qed

lemma ends_items: "steady A \<Longrightarrow> ends (verify_items A s items ops)"
proof (induction items arbitrary: ops)
  case (Cons i items)
  have "ends (verify_item A s i)"
    unfolding verify_item_def Let_def by (intro ends_bind ends_at_once ends_verify Cons.prems)
  then show ?case
    unfolding verify_items.simps by (intro ends_bind) (auto intro!: ends_bind Cons.IH Cons.prems ends_at_once)
qed (simp add: ends_at_once)

lemma ends_node:
  assumes "steady A"
  shows "ends (run_node A node s)"
proof (cases node)
  case Verification
  then show ?thesis
    unfolding Verification run_node.simps verification_node_def Let_def
    by (auto intro!: ends_bind ends_at_once ends_items assms)
qed (simp_all add: ends_at_once)

lemma ends_loop: "steady A \<Longrightarrow> ends (graph_loop n A node s)"
  by (induction n arbitrary: node s) (auto intro!: ends_bind ends_node ends_at_once)

text \<open>
  C18: the workflow ends. As long as the monotonic clock does not go back and advances while
  verification pauses, \<open>invoke\<close> has a result for every state, tool, model and cluster: the run is
  over after at most \<open>LLM_MAX_ITERATIONS\<close> nodes, each of which ends, and unless the task is
  cancelled the result is a report (completed, stopped, or failed with a message), not an
  exception.
\<close>

theorem workflow_ends:
  assumes "valid_settings (en_settings (ag_engine A))" and "clock_advances (en_mcp (ag_engine A))"
    and "\<And>run w e. fst (clear_stop run w) = Inl e \<Longrightarrow> \<not> cancelled e"
  shows "\<exists>r w'. invoke A clear_stop s w = Some (r, w') \<and> (\<forall>e. r = Inl e \<longrightarrow> cancelled e)"
proof -
  let ?n = "nat (LLM_MAX_ITERATIONS (en_settings (ag_engine A)))"
  have "steady A" using assms(1, 2) by (simp add: steady_def)
  from endsD[OF ends_loop[OF this]]
  obtain r w' where loop: "graph_loop ?n A Entry s w = Some (r, w')" by blast
  show ?thesis
  proof (cases r)
    case (Inr s')
    then show ?thesis by (simp add: invoke_def loop Let_def)
  next
    case (Inl e)
    obtain q v where q: "clear_stop (st_run s) w' = (q, v)" by (cases "clear_stop (st_run s) w'")
    then have "catchW (clear_stop (st_run s)) (\<lambda>e. ret ()) w' = (Inr (), v)"
      using assms(3)[of "st_run s" w'] by (cases q) (auto simp: catchW_def)
    then show ?thesis
      using Inl by (auto simp: invoke_def loop Let_def bindW_def report_failure_def publish_def)
  qed
qed

theorem workflow_ends_witness:
  "\<exists>r w'. invoke demo_agent (\<lambda>_. ret ()) demo_state quiet_world = Some (r, w') \<and> (\<forall>e. r = Inl e \<longrightarrow> cancelled e)"
  by (rule workflow_ends) (simp_all add: demo_agent_def demo_engine_def default_valid clock_advances_def quiet_mcp_def)

end
