(* ===== verification/Commands.thy ===== *)
theory Commands
  imports PyJson IoBase Complex_Main
begin

text \<open>
  \<open>mcp/utils/commands.py\<close>: bounded, run-aware execution of child processes in the MCP server.
  The operating system is a record of the calls the module makes; durations and clock readings
  are rational numbers of seconds. A process is known by its number.
\<close>

subsection \<open>Classification\<close>

definition KUBECTL_READ_ONLY :: "string list" where
  "KUBECTL_READ_ONLY = [''api-resources'', ''api-versions'', ''auth'', ''cluster-info'', ''describe'',
     ''diff'', ''explain'', ''get'', ''logs'', ''top'', ''version'']"

definition KUBECTL_ROLLOUT_READ_ONLY :: "string list" where
  "KUBECTL_ROLLOUT_READ_ONLY = [''history'', ''status'']"

definition ARGO_READ_ONLY :: "string list" where
  "ARGO_READ_ONLY = [''get'', ''history'', ''list'', ''status'']"

definition HELM_READ_ONLY :: "string list" where
  "HELM_READ_ONLY = [''env'', ''get'', ''history'', ''list'', ''search'', ''show'', ''status'']"

definition is_retry_safe :: "string \<Rightarrow> string list \<Rightarrow> bool" where
  "is_retry_safe cmd args =
     (case args of
        [] \<Rightarrow> False
      | a # rest \<Rightarrow>
          if cmd = ''kubectl'' then
            (if take 2 args = [''argo'', ''rollouts'']
             then (case drop 2 args of [] \<Rightarrow> False | b # _ \<Rightarrow> b \<in> set ARGO_READ_ONLY)
             else if a = ''rollout''
             then (case rest of [] \<Rightarrow> False | b # _ \<Rightarrow> b \<in> set KUBECTL_ROLLOUT_READ_ONLY)
             else a \<in> set KUBECTL_READ_ONLY)
          else if cmd = ''helm'' then a \<in> set HELM_READ_ONLY
          else False)"

definition TRANSIENT_MARKERS :: "string list" where
  "TRANSIENT_MARKERS =
     [''connection refused'', ''connection reset'', ''context deadline exceeded'', ''gateway timeout'',
      ''i/o timeout'', ''no route to host'', ''service unavailable'', ''server is currently unable'',
      ''temporarily unavailable'', ''tls handshake timeout'', ''transport is closing'', ''unexpected eof'']"

definition RATE_LIMIT_MARKERS :: "string list" where
  "RATE_LIMIT_MARKERS = [''429'', ''rate limit'', ''too many requests'', ''throttl'']"

definition AUTH_MARKERS :: "string list" where
  "AUTH_MARKERS =
     [''access denied'', ''authentication required'', ''forbidden'', ''permission denied'', ''unauthorized'']"

definition CONFLICT_MARKERS :: "string list" where
  "CONFLICT_MARKERS = [''already exists'', ''conflict'', ''object has been modified'']"

definition NOT_FOUND_MARKERS :: "string list" where
  "NOT_FOUND_MARKERS = [''not found'', ''notfound'', ''no such file or directory'']"

definition INVALID_MARKERS :: "string list" where
  "INVALID_MARKERS = [''invalid argument'', ''required flag'', ''unknown flag'', ''unknown command'']"

definition any_marker :: "string list \<Rightarrow> string \<Rightarrow> bool" where
  "any_marker markers text \<longleftrightarrow> list_ex (contains_str text) markers"

definition classify_error :: "string \<Rightarrow> bool \<Rightarrow> string \<times> bool" where
  "classify_error message timed_out =
     (if timed_out then (''timeout'', True)
      else let normalized = py_lower message in
           if any_marker RATE_LIMIT_MARKERS normalized then (''rate_limited'', True)
           else if any_marker AUTH_MARKERS normalized then (''authorization'', False)
           else if any_marker CONFLICT_MARKERS normalized then (''conflict'', False)
           else if any_marker NOT_FOUND_MARKERS normalized then (''not_found'', False)
           else if any_marker INVALID_MARKERS normalized then (''invalid_input'', False)
           else if any_marker TRANSIENT_MARKERS normalized then (''transient'', True)
           else (''command_failed'', False))"

subsection \<open>State\<close>

record limits =
  READ_TIMEOUT :: rat
  MUTATION_TIMEOUT :: rat
  TERMINATE_GRACE :: rat
  MAX_ATTEMPTS :: nat
  RETRY_BASE_DELAY :: rat
  RETRY_MAX_DELAY :: rat
  RETRY_EXPONENTIAL_BASE :: rat
  TOMBSTONE_TTL :: rat

definition default_limits :: limits where
  "default_limits = \<lparr>READ_TIMEOUT = 30, MUTATION_TIMEOUT = 120, TERMINATE_GRACE = 2, MAX_ATTEMPTS = 3,
     RETRY_BASE_DELAY = 1 / 2, RETRY_MAX_DELAY = 5, RETRY_EXPONENTIAL_BASE = 2, TOMBSTONE_TTL = 900\<rparr>"

record tool_output =
  out_text :: string
  error :: bool
  attempts :: nat
  duration_ms :: int
  retryable :: bool
  fallback_used :: bool
  ambiguous_outcome :: bool
  external_execution_started :: bool
  error_type :: "string option"

text \<open>\<open>_active_processes\<close>, \<open>_cancelled_runs\<close>, and the host the processes run on.\<close>

record 'o server =
  active :: "(string \<times> nat list) list"
  cancelled_runs :: "(string \<times> rat) list"
  host :: 'o

type_synonym ('o, 'a) op = "('o server, 'a) st"

text \<open>
  What the module asks of the host, each an awaited operation during which the rest of the
  server may run: spawning a process, talking to it until it exits (its exit code, output and
  error text) under a timeout, signals, waiting under an optional timeout, and sleeping; its
  exit code if it has exited, and the monotonic clock. A timeout is the exception
  \<open>TimeoutError\<close>. \<open>fmt_g\<close> is the \<open>g\<close> format of a number.
\<close>

record 'o host_ops =
  os_spawn :: "string \<Rightarrow> string list \<Rightarrow> string option \<Rightarrow> ('o, nat) op"
  os_communicate :: "nat \<Rightarrow> string option \<Rightarrow> rat \<Rightarrow> ('o, int \<times> string \<times> string) op"
  os_returncode :: "nat \<Rightarrow> 'o server \<Rightarrow> int option"
  os_signal :: "nat \<Rightarrow> string \<Rightarrow> ('o, unit) op"
  os_wait :: "nat \<Rightarrow> rat option \<Rightarrow> ('o, unit) op"
  os_sleep :: "rat \<Rightarrow> ('o, unit) op"
  monotonic :: "'o server \<Rightarrow> rat"
  fmt_g :: "rat \<Rightarrow> string"

subsection \<open>The process registry\<close>

definition prune_cancelled_runs :: "limits \<Rightarrow> rat \<Rightarrow> (string \<times> rat) list \<Rightarrow> (string \<times> rat) list" where
  "prune_cancelled_runs L now runs = filter (\<lambda>(run, since). \<not> TOMBSTONE_TTL L \<le> now - since) runs"

definition processes_of :: "string \<Rightarrow> 'o server \<Rightarrow> nat list" where
  "processes_of run s = (case map_of (active s) run of None \<Rightarrow> [] | Some ps \<Rightarrow> ps)"

text \<open>A run of \<open>None\<close> or of the empty name is not tracked.\<close>

definition untracked :: "string option \<Rightarrow> bool" where
  "untracked run \<longleftrightarrow> run = None \<or> run = Some []"

definition register_process :: "limits \<Rightarrow> 'o host_ops \<Rightarrow> string option \<Rightarrow> nat \<Rightarrow> 'o server \<Rightarrow> bool \<times> 'o server" where
  "register_process L H run proc s =
     (case run of
        None \<Rightarrow> (True, s)
      | Some r \<Rightarrow>
          if r = [] then (True, s)
          else (let s1 = s\<lparr>cancelled_runs := prune_cancelled_runs L (monotonic H s) (cancelled_runs s)\<rparr>
                in if map_of (cancelled_runs s1) r \<noteq> None then (False, s1)
                   else (True, s1\<lparr>active := AList.update r (List.insert proc (processes_of r s1)) (active s1)\<rparr>)))"

definition unregister_process :: "string option \<Rightarrow> nat \<Rightarrow> 'o server \<Rightarrow> 'o server" where
  "unregister_process run proc s =
     (case run of
        None \<Rightarrow> s
      | Some r \<Rightarrow>
          if r = [] \<or> processes_of r s = [] then s
          else (let ps = removeAll proc (processes_of r s)
                in s\<lparr>active := (if ps = [] then AList.delete r (active s)
                                 else AList.update r ps (active s))\<rparr>))"

definition lookup_error :: "py_exc \<Rightarrow> bool" where
  "lookup_error e \<longleftrightarrow> exc_type e = ''ProcessLookupError''"

text \<open>\<open>_terminate_process\<close>: SIGTERM, a grace period, SIGKILL.\<close>

definition terminate_process :: "limits \<Rightarrow> 'o host_ops \<Rightarrow> nat \<Rightarrow> ('o, string) op" where
  "terminate_process L H proc s =
     (if os_returncode H proc s \<noteq> None then (Inr ''already_exited'', s)
      else case os_signal H proc ''SIGTERM'' s of
        (Inl e, s1) \<Rightarrow> if lookup_error e then (Inr ''already_exited'', s1) else (Inl e, s1)
      | (Inr _, s1) \<Rightarrow>
          (case os_wait H proc (Some (TERMINATE_GRACE L)) s1 of
             (Inr _, s2) \<Rightarrow> (Inr ''terminated'', s2)
           | (Inl e, s2) \<Rightarrow>
               if exc_type e \<noteq> ''TimeoutError'' then (Inl e, s2)
               else (case os_signal H proc ''SIGKILL'' s2 of
                  (Inl e', s3) \<Rightarrow> if lookup_error e' then (Inr ''already_exited'', s3) else (Inl e', s3)
                | (Inr _, s3) \<Rightarrow>
                    (case os_wait H proc None s3 of
                       (Inl e', s4) \<Rightarrow> (Inl e', s4)
                     | (Inr _, s4) \<Rightarrow> (Inr ''killed'', s4)))))"

fun terminate_all :: "limits \<Rightarrow> 'o host_ops \<Rightarrow> nat list \<Rightarrow> 'o server \<Rightarrow> string py list \<times> 'o server" where
  "terminate_all L H [] s = ([], s)"
| "terminate_all L H (p # ps) s =
     (case terminate_process L H p s of (r, s1) \<Rightarrow>
      case terminate_all L H ps s1 of (rs, s2) \<Rightarrow> (r # rs, s2))"

record cancel_report =
  matched :: nat
  terminated :: nat
  killed :: nat
  was_cancelled :: nat

text \<open>The tombstone and the snapshot of the processes, taken under the registry's lock.\<close>

definition tombstone :: "limits \<Rightarrow> 'o host_ops \<Rightarrow> string \<Rightarrow> 'o server \<Rightarrow> 'o server" where
  "tombstone L H run s =
     s\<lparr>cancelled_runs := AList.update run (monotonic H s)
         (prune_cancelled_runs L (monotonic H s) (cancelled_runs s))\<rparr>"

definition cancel_run_processes :: "limits \<Rightarrow> 'o host_ops \<Rightarrow> string \<Rightarrow> 'o server \<Rightarrow> cancel_report \<times> 'o server" where
  "cancel_run_processes L H run s =
     (let s1 = tombstone L H run s; ps = processes_of run s1 in
      if ps = [] then (\<lparr>matched = 0, terminated = 0, killed = 0, was_cancelled = 1\<rparr>, s1)
      else case terminate_all L H ps s1 of (rs, s2) \<Rightarrow>
        (\<lparr>matched = length ps,
          terminated = length (filter (\<lambda>r. r = Inr ''terminated'') rs),
          killed = length (filter (\<lambda>r. r = Inr ''killed'') rs), was_cancelled = 1\<rparr>, s2))"

subsection \<open>Running a command\<close>

definition make_result ::
  "'o host_ops \<Rightarrow> 'o server \<Rightarrow> string \<Rightarrow> bool \<Rightarrow> nat \<Rightarrow> rat \<Rightarrow> tool_output" where
  "make_result H s text err n started_at =
     \<lparr>out_text = text, error = err, attempts = n,
      duration_ms = \<lfloor>(monotonic H s - started_at) * 1000\<rfloor>,
      retryable = False, fallback_used = False, ambiguous_outcome = False,
      external_execution_started = False, error_type = None\<rparr>"

record invocation =
  iv_cmd :: string
  iv_args :: "string list"
  iv_stdin :: "string option"
  iv_run :: "string option"
  iv_timeout :: rat
  iv_safe :: bool
  iv_max :: nat
  iv_started :: rat

text \<open>What one attempt ends with: the answer, or what went wrong (type, retryable, message).\<close>

datatype attempt = Answer tool_output | Failure string bool string

definition exit_message :: "int \<times> string \<times> string \<Rightarrow> string" where
  "exit_message r =
     (case r of (code, out, err) \<Rightarrow>
        if py_strip err \<noteq> [] then py_strip err
        else if py_strip out \<noteq> [] then py_strip out
        else ''exit code '' @ int_str code)"

definition success_text :: "string \<Rightarrow> string \<Rightarrow> string" where
  "success_text out err =
     (if py_strip out \<noteq> [] then py_strip out
      else if py_strip err \<noteq> [] then py_strip err
      else ''The command was executed successfully, but no output was returned.'')"

definition failure_of :: "string \<Rightarrow> bool \<Rightarrow> string \<Rightarrow> attempt" where
  "failure_of message timed_out shown =
     (case classify_error message timed_out of (t, r) \<Rightarrow> Failure t r shown)"

text \<open>The run was stopped before the process could be registered.\<close>

definition refused :: "'o host_ops \<Rightarrow> invocation \<Rightarrow> nat \<Rightarrow> 'o server \<Rightarrow> tool_output" where
  "refused H v n s =
     (make_result H s (''Command was cancelled because its workflow run had already ''
        @ ''received a Stop request.'') True n (iv_started v))
       \<lparr>error_type := Some ''cancelled'', ambiguous_outcome := \<not> iv_safe v,
        external_execution_started := True\<rparr>"

text \<open>From the spawned process to its end.\<close>

definition attend ::
  "limits \<Rightarrow> 'o host_ops \<Rightarrow> invocation \<Rightarrow> nat \<Rightarrow> nat \<Rightarrow> ('o, attempt) op" where
  "attend L H v n proc s =
     (case register_process L H (iv_run v) proc s of
        (False, s1) \<Rightarrow>
          bindW (terminate_process L H proc) (\<lambda>_ s2. (Inr (Answer (refused H v n s2)), s2)) s1
      | (True, s1) \<Rightarrow>
          (case os_communicate H proc (iv_stdin v) (iv_timeout v) s1 of
             (Inl e, s2) \<Rightarrow>
               if exc_type e = ''TimeoutError'' then
                 bindW (terminate_process L H proc) (\<lambda>_. ret (failure_of [] True
                   (''Command exceeded timeout of '' @ fmt_g H (iv_timeout v) @ ''s''))) s2
               else (Inl e, s2)
           | (Inr (code, out, err), s2) \<Rightarrow>
               (Inr (if code = 0
                     then Answer (make_result H s2 (success_text out err) False n (iv_started v))
                     else failure_of (exit_message (code, out, err)) False (exit_message (code, out, err))),
                s2)))"

text \<open>
  \<open>try ... except ... finally\<close> of one attempt: a cancellation terminates the process and goes
  on; a missing executable is not retryable; any other exception is classified by its text.
\<close>

definition handle_attempt :: "py_exc \<Rightarrow> attempt" where
  "handle_attempt e =
     (if exc_type e = ''FileNotFoundError'' then Failure ''executable_not_found'' False (exc_msg e)
      else failure_of (exc_msg e) False (exc_msg e))"

definition with_cleanup :: "('s, 'a) st \<Rightarrow> ('s \<Rightarrow> 's) \<Rightarrow> ('s, 'a) st" where
  "with_cleanup m f s = (case m s of (r, s') \<Rightarrow> (r, f s'))"

definition run_attempt :: "limits \<Rightarrow> 'o host_ops \<Rightarrow> invocation \<Rightarrow> nat \<Rightarrow> ('o, attempt) op" where
  "run_attempt L H v n s =
     (case os_spawn H (iv_cmd v) (iv_args v) (iv_stdin v) s of
        (Inl e, s1) \<Rightarrow> if cancelled e then (Inl e, s1) else (Inr (handle_attempt e), s1)
      | (Inr proc, s1) \<Rightarrow>
          with_cleanup
            (on_cancel
              (catchW (attend L H v n proc) (\<lambda>e. ret (handle_attempt e)))
              (terminate_process L H proc))
            (unregister_process (iv_run v) proc) s1)"

definition retry_delay :: "limits \<Rightarrow> nat \<Rightarrow> rat" where
  "retry_delay L n = min (RETRY_BASE_DELAY L * RETRY_EXPONENTIAL_BASE L ^ (n - 1)) (RETRY_MAX_DELAY L)"

text \<open>
  The loop over the attempts \<open>n .. iv_max\<close>: the answer, or the last failure with the number of
  the attempt it happened in. The first argument is the number of attempts left.
\<close>

fun run_attempts ::
  "nat \<Rightarrow> limits \<Rightarrow> 'o host_ops \<Rightarrow> invocation \<Rightarrow> nat \<Rightarrow> ('o, nat \<times> attempt) op" where
  "run_attempts 0 L H v n = ret (n, Failure ''command_failed'' False ''Command failed without diagnostic output.'')"
| "run_attempts (Suc left) L H v n =
     bindW (run_attempt L H v n) (\<lambda>a.
       case a of
         Answer out \<Rightarrow> ret (n, a)
       | Failure t retry msg \<Rightarrow>
           if iv_safe v \<and> retry \<and> n < iv_max v
           then bindW (os_sleep H (retry_delay L n)) (\<lambda>_. run_attempts left L H v (Suc n))
           else ret (n, a))"

definition failure_output ::
  "'o host_ops \<Rightarrow> invocation \<Rightarrow> nat \<Rightarrow> string \<Rightarrow> bool \<Rightarrow> string \<Rightarrow> 'o server \<Rightarrow> tool_output" where
  "failure_output H v n t retry msg s =
     (make_result H s (''Error executing command '' @ iv_cmd v @ '' with args ''
        @ py_repr (JList (map JStr (iv_args v))) @ '' [type='' @ t @ '', attempts='' @ nat_str n
        @ '', retryable='' @ (if retry then ''true'' else ''false'') @ '']: '' @ msg) True n (iv_started v))
       \<lparr>error_type := (if t = [] then None else Some t), retryable := retry\<rparr>"

definition invocation_of ::
  "limits \<Rightarrow> 'o host_ops \<Rightarrow> string \<Rightarrow> string list \<Rightarrow> string option \<Rightarrow> rat option \<Rightarrow> bool option
     \<Rightarrow> string option \<Rightarrow> 'o server \<Rightarrow> invocation" where
  "invocation_of L H cmd args stdin timeout retry run s =
     (let safe = (case retry of None \<Rightarrow> is_retry_safe cmd args | Some b \<Rightarrow> b) in
      \<lparr>iv_cmd = cmd, iv_args = args, iv_stdin = stdin, iv_run = run,
       iv_timeout = (case timeout of
           Some t \<Rightarrow> if t \<noteq> 0 then t else if safe then READ_TIMEOUT L else MUTATION_TIMEOUT L
         | None \<Rightarrow> if safe then READ_TIMEOUT L else MUTATION_TIMEOUT L),
       iv_safe = safe, iv_max = (if safe then MAX_ATTEMPTS L else 1), iv_started = monotonic H s\<rparr>)"

definition run_without_fallback :: "limits \<Rightarrow> 'o host_ops \<Rightarrow> invocation \<Rightarrow> ('o, tool_output) op" where
  "run_without_fallback L H v =
     bindW (run_attempts (iv_max v) L H v 1) (\<lambda>(n, a) s.
       case a of
         Answer out \<Rightarrow> (Inr out, s)
       | Failure t retry msg \<Rightarrow> (Inr (failure_output H v n t retry msg s), s))"

definition fallback_output ::
  "'o host_ops \<Rightarrow> invocation \<Rightarrow> string \<Rightarrow> string \<Rightarrow> tool_output \<Rightarrow> 'o server \<Rightarrow> tool_output" where
  "fallback_output H v t msg fb s =
     fb\<lparr>out_text := ''Primary command failed ('' @ t @ '': '' @ msg @ ''). ''
          @ ''Safe fallback evidence follows:'' @ [CHR 0x0A] @ out_text fb,
        fallback_used := True, attempts := iv_max v + attempts fb,
        duration_ms := \<lfloor>(monotonic H s - iv_started v) * 1000\<rfloor>\<rparr>"

definition run_command ::
  "limits \<Rightarrow> 'o host_ops \<Rightarrow> string \<Rightarrow> string list \<Rightarrow> string option \<Rightarrow> rat option \<Rightarrow> bool option
     \<Rightarrow> (string \<times> string list) option \<Rightarrow> string option \<Rightarrow> ('o, tool_output) op" where
  "run_command L H cmd args stdin timeout retry fallback run s0 =
     (let v = invocation_of L H cmd args stdin timeout retry run s0 in
      bindW (run_attempts (iv_max v) L H v 1) (\<lambda>(n, a) s1.
        case a of
          Answer out \<Rightarrow> (Inr out, s1)
        | Failure t retry msg \<Rightarrow>
            (case fallback of
               Some (fcmd, fargs) \<Rightarrow>
                 if iv_safe v then
                   bindW (run_without_fallback L H
                       (invocation_of L H fcmd fargs None (Some (iv_timeout v)) (Some False) run s1))
                     (\<lambda>fb s2. (Inr (if error fb then failure_output H v n t retry msg s2
                                   else fallback_output H v t msg fb s2), s2)) s1
                 else (Inr (failure_output H v n t retry msg s1), s1)
             | None \<Rightarrow> (Inr (failure_output H v n t retry msg s1), s1))) s0)"

text \<open>A host whose state is its clock, for the concrete instances.\<close>

definition demo_host :: "rat host_ops" where
  "demo_host = \<lparr>os_spawn = (\<lambda>_ _ _. ret 7), os_communicate = (\<lambda>_ _ _. ret (0, ''ok'', [])),
     os_returncode = (\<lambda>_ _. None), os_signal = (\<lambda>_ _. ret ()), os_wait = (\<lambda>_ _. ret ()),
     os_sleep = (\<lambda>d s. (Inr (), s\<lparr>host := host s + d\<rparr>)), monotonic = host, fmt_g = (\<lambda>_. ''120'')\<rparr>"

definition demo_server :: "rat server" where
  "demo_server = \<lparr>active = [(''run-1'', [7])], cancelled_runs = [], host = 10\<rparr>"

end
