(* ===== verification/McpTools.thy ===== *)
theory McpTools
  imports Commands
begin

text \<open>
  The tools of the MCP server that run a command line: \<open>mcp/tools/kubectl.py\<close>,
  \<open>mcp/tools/helm.py\<close> and \<open>mcp/tools/argo.py\<close>. A tool is the function from its parameters to
  the command it hands to \<open>run_command\<close>, or the exception it raises instead; what it does with
  the answer is a function of the answer. Optional parameters are options.
\<close>

record command =
  c_cmd :: string
  c_args :: "string list"
  c_stdin :: "string option"
  c_fallback :: "(string \<times> string list) option"

definition command_of :: "string \<Rightarrow> string list \<Rightarrow> command" where
  "command_of cmd args = \<lparr>c_cmd = cmd, c_args = args, c_stdin = None, c_fallback = None\<rparr>"

text \<open>\<open>f"{before}{v}" if v else ""\<close>, and a pair of arguments for a value that is set.\<close>

definition text_if :: "string \<Rightarrow> string option \<Rightarrow> string" where
  "text_if before v = (case v of Some (c # cs) \<Rightarrow> before @ c # cs | _ \<Rightarrow> [])"

definition opt_args :: "string \<Rightarrow> string option \<Rightarrow> string list" where
  "opt_args flag v = (case v of Some (c # cs) \<Rightarrow> [flag, c # cs] | _ \<Rightarrow> [])"

definition is_set :: "string option \<Rightarrow> bool" where
  "is_set v \<longleftrightarrow> v \<noteq> None \<and> v \<noteq> Some []"

definition flag_text :: "string \<Rightarrow> bool option \<Rightarrow> string" where
  "flag_text t b = (if b = Some True then t else [])"

definition flag_args :: "string \<Rightarrow> bool option \<Rightarrow> string list" where
  "flag_args t b = (if b = Some True then [t] else [])"

text \<open>\<open>f"{before}{n}" if n is not None\<close>, and \<open>if n\<close>, which also leaves out zero.\<close>

definition opt_int :: "string \<Rightarrow> int option \<Rightarrow> string" where
  "opt_int before n = (case n of None \<Rightarrow> [] | Some i \<Rightarrow> before @ int_str i)"

definition opt_pos :: "string \<Rightarrow> int option \<Rightarrow> string" where
  "opt_pos before n = (case n of None \<Rightarrow> [] | Some i \<Rightarrow> if i = 0 then [] else before @ int_str i)"

subsection \<open>Helm\<close>

definition run_helm_command :: "string \<Rightarrow> command" where
  "run_helm_command line = command_of ''helm'' (words_of line)"

definition exclusive :: "string option \<Rightarrow> bool option \<Rightarrow> command \<Rightarrow> command py" where
  "exclusive ns all cmd =
     (if is_set ns \<and> all = Some True
      then Inl (value_error ''namespace and all_namespaces are mutually exclusive'') else Inr cmd)"

definition helm_list_releases :: "string option \<Rightarrow> bool option \<Rightarrow> command py" where
  "helm_list_releases ns all =
     exclusive ns all (run_helm_command (''list '' @ text_if ''-n '' ns @ '' '' @ flag_text ''-A'' all))"

definition helm_repo_add :: "string \<Rightarrow> string \<Rightarrow> command" where
  "helm_repo_add name url = run_helm_command (''repo add '' @ name @ '' '' @ url)"

definition helm_repo_update :: command where
  "helm_repo_update = run_helm_command ''repo update''"

definition helm_repo_remove :: "string \<Rightarrow> command" where
  "helm_repo_remove name = run_helm_command (''repo remove '' @ name)"

definition helm_marker_text :: "string option \<Rightarrow> string" where
  "helm_marker_text oid = text_if '' --description skyflo-operation:'' oid"

definition helm_install ::
  "string \<Rightarrow> string \<Rightarrow> string option \<Rightarrow> bool option \<Rightarrow> bool option \<Rightarrow> string option \<Rightarrow> command" where
  "helm_install release chart ns create wait oid =
     run_helm_command (''install '' @ release @ '' '' @ chart @ text_if '' -n '' ns
       @ flag_text '' --create-namespace'' create @ flag_text '' --wait'' wait @ helm_marker_text oid)"

text \<open>The command once the values have been written to the temporary file.\<close>

definition helm_install_with_values ::
  "string \<Rightarrow> string \<Rightarrow> string \<Rightarrow> string option \<Rightarrow> bool option \<Rightarrow> bool option \<Rightarrow> string option \<Rightarrow> command" where
  "helm_install_with_values release chart file ns create wait oid =
     run_helm_command (''install '' @ release @ '' '' @ chart @ '' -f '' @ file @ text_if '' -n '' ns
       @ flag_text '' --create-namespace'' create @ flag_text '' --wait'' wait @ helm_marker_text oid)"

definition helm_upgrade ::
  "string \<Rightarrow> string \<Rightarrow> string option \<Rightarrow> bool option \<Rightarrow> bool option \<Rightarrow> string option \<Rightarrow> command" where
  "helm_upgrade release chart ns install wait oid =
     run_helm_command (''upgrade '' @ release @ '' '' @ chart @ text_if '' -n '' ns
       @ flag_text '' --install'' install @ flag_text '' --wait'' wait @ helm_marker_text oid)"

definition helm_uninstall :: "string \<Rightarrow> string option \<Rightarrow> bool option \<Rightarrow> command" where
  "helm_uninstall release ns keep =
     run_helm_command (''uninstall '' @ release @ text_if '' -n '' ns @ flag_text '' --keep-history'' keep)"

definition helm_rollback ::
  "string \<Rightarrow> int \<Rightarrow> string option \<Rightarrow> bool option \<Rightarrow> string option \<Rightarrow> command" where
  "helm_rollback release revision ns wait oid =
     run_helm_command (''rollback '' @ release @ '' '' @ int_str revision @ text_if '' -n '' ns
       @ flag_text '' --wait'' wait @ helm_marker_text oid)"

definition helm_status :: "string \<Rightarrow> string option \<Rightarrow> string option \<Rightarrow> command" where
  "helm_status release ns out =
     run_helm_command (''status '' @ release @ text_if '' -n '' ns @ text_if '' -o '' out)"

definition helm_history :: "string \<Rightarrow> string option \<Rightarrow> int option \<Rightarrow> command" where
  "helm_history release ns max_revisions =
     run_helm_command (''history '' @ release @ text_if '' -n '' ns @ opt_pos '' --max '' max_revisions)"

definition helm_get_values :: "string \<Rightarrow> string option \<Rightarrow> string option \<Rightarrow> command" where
  "helm_get_values release ns out =
     run_helm_command (''get values '' @ release @ text_if '' -n '' ns @ text_if '' -o '' out)"

definition helm_get_manifest :: "string \<Rightarrow> string option \<Rightarrow> command" where
  "helm_get_manifest release ns = run_helm_command (''get manifest '' @ release @ text_if '' -n '' ns)"

definition helm_show_values :: "string \<Rightarrow> command" where
  "helm_show_values chart = run_helm_command (''show values '' @ chart)"

definition helm_search_repo :: "string \<Rightarrow> string option \<Rightarrow> int option \<Rightarrow> command" where
  "helm_search_repo keyword ver width =
     run_helm_command (''search repo '' @ keyword @ text_if '' --version '' ver
       @ opt_pos '' --max-col-width '' width)"

definition helm_template ::
  "string \<Rightarrow> string \<Rightarrow> string option \<Rightarrow> string option \<Rightarrow> bool option \<Rightarrow> string \<Rightarrow> command" where
  "helm_template release chart ns vals crds file =
     run_helm_command (''template '' @ release @ '' '' @ chart @ text_if '' -n '' ns
       @ flag_text '' --include-crds'' crds @ (if is_set vals then '' -f '' @ file else []))"

subsection \<open>Argo Rollouts\<close>

definition run_argo_command :: "string \<Rightarrow> (string \<times> string list) option \<Rightarrow> command" where
  "run_argo_command line fb =
     (command_of ''kubectl'' ([''argo'', ''rollouts''] @ words_of line))\<lparr>c_fallback := fb\<rparr>"

definition scope_args :: "string option \<Rightarrow> bool option \<Rightarrow> string list" where
  "scope_args ns all = (if all = Some True then [''-A''] else opt_args ''-n'' ns)"

definition argo_list_rollouts :: "string option \<Rightarrow> bool option \<Rightarrow> command" where
  "argo_list_rollouts ns all =
     command_of ''kubectl'' ([''get'', ''rollouts.argoproj.io'', ''-o'', ''wide''] @ scope_args ns all)"

definition argo_promote :: "string \<Rightarrow> string option \<Rightarrow> bool option \<Rightarrow> command" where
  "argo_promote name ns full =
     run_argo_command (''promote '' @ name @ text_if '' -n '' ns @ flag_text '' --full'' full) None"

definition argo_pause_rollout :: "string \<Rightarrow> string option \<Rightarrow> command" where
  "argo_pause_rollout name ns = run_argo_command (''pause '' @ name @ text_if '' -n '' ns) None"

definition argo_resume_rollout :: "string \<Rightarrow> string option \<Rightarrow> command" where
  "argo_resume_rollout name ns = run_argo_command (''resume '' @ name @ text_if '' -n '' ns) None"

definition argo_abort_rollout :: "string \<Rightarrow> string option \<Rightarrow> command" where
  "argo_abort_rollout name ns = run_argo_command (''abort '' @ name @ text_if '' -n '' ns) None"

definition argo_set_image :: "string \<Rightarrow> string \<Rightarrow> string option \<Rightarrow> string option \<Rightarrow> command py" where
  "argo_set_image name img ns container =
     (let go = (\<lambda>ci. Inr (run_argo_command (''set image '' @ name @ '' '' @ ci @ text_if '' -n '' ns) None))
      in if is_set container then go (the container @ ''='' @ img)
         else if (CHR ''='') \<in> set img then go img
         else Inl (value_error (''When container_name is omitted, image must be in '' @ quoted ''container=image''
           @ '' format (e.g. '' @ quoted ''myapp=nginx:1.25''
           @ ''). Alternatively, specify container_name explicitly.'')))"

definition argo_rollout_restart :: "string \<Rightarrow> string option \<Rightarrow> command" where
  "argo_rollout_restart name ns = run_argo_command (''restart '' @ name @ text_if '' -n '' ns) None"

definition argo_status :: "string \<Rightarrow> string option \<Rightarrow> bool option \<Rightarrow> command" where
  "argo_status name ns watch =
     run_argo_command (''status '' @ name @ text_if '' -n '' ns @ flag_text '' --watch'' watch)
       (if watch = Some True then None
        else Some (''kubectl'', [''get'', ''rollouts.argoproj.io'', name, ''-o'', ''yaml''] @ opt_args ''-n'' ns))"

definition argo_history :: "string \<Rightarrow> string option \<Rightarrow> int option \<Rightarrow> command" where
  "argo_history name ns revision =
     run_argo_command (''history '' @ name @ text_if '' -n '' ns @ opt_pos '' --revision '' revision) None"

definition argo_undo :: "string \<Rightarrow> string option \<Rightarrow> int option \<Rightarrow> command" where
  "argo_undo name ns revision =
     run_argo_command (''undo '' @ name @ text_if '' -n '' ns @ opt_pos '' --to-revision '' revision) None"

text \<open>\<open>s.split()\<close>: runs of white space separate.\<close>

definition split_ws :: "string \<Rightarrow> string list" where
  "split_ws s = words_of (map (\<lambda>c. if is_space c then CHR '' '' else c) s)"

definition argo_describe :: "string \<Rightarrow> string option \<Rightarrow> command" where
  "argo_describe name ns =
     command_of ''kubectl'' (split_ws (''describe rollouts.argoproj.io '' @ name @ text_if '' -n '' ns))"

text \<open>
  Listing experiments: for one rollout the JSON list is fetched and filtered by its owner
  references, otherwise the wide list is the answer.
\<close>

definition argo_list_experiments :: "string option \<Rightarrow> string option \<Rightarrow> bool option \<Rightarrow> command py" where
  "argo_list_experiments rollout ns all =
     exclusive ns all (command_of ''kubectl''
       ([''get'', ''experiments.argoproj.io'', ''-o'', if is_set rollout then ''json'' else ''wide'']
        @ scope_args ns all))"

definition owned_by :: "string \<Rightarrow> json \<Rightarrow> bool py" where
  "owned_by rollout ref =
     bindE (jget ref ''kind'') (\<lambda>k. if k \<noteq> JStr ''Rollout'' then Inr False else
     bindE (jget ref ''name'') (\<lambda>n. Inr (n = JStr rollout)))"

fun any_owner :: "string \<Rightarrow> json list \<Rightarrow> bool py" where
  "any_owner rollout [] = Inr False"
| "any_owner rollout (r # rs) =
     bindE (owned_by rollout r) (\<lambda>b. if b then Inr True else any_owner rollout rs)"

fun experiments_of :: "string \<Rightarrow> json list \<Rightarrow> json list py" where
  "experiments_of rollout [] = Inr []"
| "experiments_of rollout (i # is) =
     bindE (jget_def i ''metadata'' (JDict [])) (\<lambda>m.
     bindE (jget m ''ownerReferences'') (\<lambda>refs.
     bindE (py_iter (por refs (JList []))) (\<lambda>rs.
     bindE (any_owner rollout rs) (\<lambda>b.
     bindE (experiments_of rollout is) (\<lambda>rest. Inr (if b then i # rest else rest))))))"

definition argo_list_analysisruns :: "string option \<Rightarrow> bool option \<Rightarrow> command py" where
  "argo_list_analysisruns ns all =
     exclusive ns all (command_of ''kubectl''
       ([''get'', ''analysisruns.argoproj.io'', ''-o'', ''wide''] @ scope_args ns all))"

end
