(* ===== verification/KubectlTools.thy ===== *)
theory KubectlTools
  imports McpTools
begin

text \<open>
  \<open>mcp/tools/kubectl.py\<close>: the Kubernetes tools of the MCP server. Parameters declared
  \<open>Optional[str]\<close> and the like arrive validated, as options.
\<close>

subsection \<open>Arguments\<close>

text \<open>The members of \<open>_VALID_OUTPUT_FORMATS\<close> and \<open>_VALID_PATCH_TYPES\<close>, sorted.\<close>

definition VALID_OUTPUT_FORMATS :: "string list" where
  "VALID_OUTPUT_FORMATS = [''json'', ''name'', ''wide'', ''yaml'']"

definition VALID_PATCH_TYPES :: "string list" where
  "VALID_PATCH_TYPES = [''json'', ''merge'', ''strategic'']"

definition enum_error :: "string \<Rightarrow> string \<Rightarrow> string list \<Rightarrow> py_exc" where
  "enum_error param shown allowed =
     value_error (''Invalid '' @ param @ '' '' @ shown @ ''. Must be one of: '' @ join_str '', '' allowed)"

definition normalize_enum_arg ::
  "json \<Rightarrow> string \<Rightarrow> string list \<Rightarrow> string option \<Rightarrow> string option py" where
  "normalize_enum_arg v param allowed dflt =
     (case v of
        JNull \<Rightarrow> Inr dflt
      | JStr s \<Rightarrow>
          (let normalized = py_lower (py_strip s) in
           if normalized = [] then Inl (enum_error param (quoted s) allowed)
           else if normalized \<notin> set allowed then Inl (enum_error param (quoted (py_strip s)) allowed)
           else Inr (Some normalized))
      | _ \<Rightarrow> Inl (enum_error param (py_repr v) allowed))"

definition opt_json :: "string option \<Rightarrow> json" where
  "opt_json v = (case v of None \<Rightarrow> JNull | Some s \<Rightarrow> JStr s)"

definition run_kubectl_command :: "string \<Rightarrow> string option \<Rightarrow> command" where
  "run_kubectl_command line stdin = (command_of ''kubectl'' (words_of line))\<lparr>c_stdin := stdin\<rparr>"

subsection \<open>Reading\<close>

definition k8s_logs ::
  "string \<Rightarrow> string option \<Rightarrow> int option \<Rightarrow> string option \<Rightarrow> string option \<Rightarrow> bool option \<Rightarrow> command" where
  "k8s_logs pod ns lines container since previous =
     command_of ''kubectl'' ([''logs'', pod] @ opt_args ''-n'' ns @ opt_args ''-c'' container
       @ opt_args ''--since'' since @ flag_args ''--previous'' previous
       @ (case lines of None \<Rightarrow> [] | Some n \<Rightarrow> [''--tail'', int_str n]))"

text \<open>\<open>_redact_secret_payload\<close>\<close>

definition drop_secret_data :: "dict \<Rightarrow> dict" where
  "drop_secret_data d =
     (if py_lower (str_or d ''kind'' []) = ''secret''
      then AList.delete ''stringData'' (AList.delete ''data'' d) else d)"

function (sequential) redact_secret_payload :: "json \<Rightarrow> json" where
  "redact_secret_payload (JDict d) =
     (let sanitized = drop_secret_data d in
      case map_of sanitized ''items'' of
        Some (JList items) \<Rightarrow>
          JDict (AList.update ''items'' (JList (map redact_secret_payload items)) sanitized)
      | _ \<Rightarrow> JDict sanitized)"
| "redact_secret_payload v = v"
  by pat_completeness auto

lemma map_of_size: "map_of d k = Some v \<Longrightarrow> size v < size (JDict d)"
  by (drule map_of_SomeD) (auto dest!: json_pair_size')

lemma drop_secret_items: "map_of (drop_secret_data d) ''items'' = map_of d ''items''"
  by (simp add: drop_secret_data_def delete_conv)

lemma items_size:
  assumes "map_of d ''items'' = Some (JList items)" and "i \<in> set items"
  shows "size i < size (JDict d)"
  using map_of_size[OF assms(1)] size_list_estimation'[OF assms(2), of "size i" size] by simp

termination redact_secret_payload
  by (relation "measure size") (auto simp: drop_secret_items dest: items_size)

definition is_secret_type :: "string \<Rightarrow> bool" where
  "is_secret_type resource \<longleftrightarrow> py_lower (py_strip resource) \<in> {''secret'', ''secrets''}"

text \<open>\<open>k8s_get\<close> up to the command: the command and the normalized output format.\<close>

definition k8s_get_command ::
  "string \<Rightarrow> string option \<Rightarrow> bool option \<Rightarrow> string option \<Rightarrow> string option \<Rightarrow> string option
     \<Rightarrow> (command \<times> string option) py" where
  "k8s_get_command resource name all ns out selector =
     (if resource = [] then Inl (value_error ''resource_type is required'')
      else if is_set ns \<and> all = Some True
      then Inl (value_error ''namespace and all_namespaces are mutually exclusive'')
      else bindE (normalize_enum_arg (opt_json out) ''output format'' VALID_OUTPUT_FORMATS None) (\<lambda>fmt.
        Inr (command_of ''kubectl''
          ([''get'', resource] @ (case name of Some (c # cs) \<Rightarrow> [c # cs] | _ \<Rightarrow> [])
           @ opt_args ''-n'' ns @ (case fmt of None \<Rightarrow> [] | Some f \<Rightarrow> [''-o'', f])
           @ flag_args ''-A'' (if is_set name \<and> all = Some True then Some False else all)
           @ opt_args ''-l'' selector), fmt)))"

text \<open>An answer of a tool: the result of \<open>run_command\<close>, or one the tool gives itself.\<close>

datatype answer = Ran tool_output | Told string "string option"

definition k8s_get_blocked :: "string \<Rightarrow> string option \<Rightarrow> answer option" where
  "k8s_get_blocked resource fmt =
     (if is_secret_type resource \<and> fmt = Some ''yaml''
      then Some (Told (''Structured YAML output for Secrets is blocked because it may expose ''
        @ ''credential values. Use JSON for redacted metadata or table/name output.'') (Some ''authorization''))
      else None)"

text \<open>
  What happens to the output: \<open>json.loads\<close> and \<open>json.dumps\<close> of the standard library are the
  arguments \<open>loads\<close> and \<open>dumps\<close>; \<open>loads\<close> fails on text that is no JSON.
\<close>

definition k8s_get_output ::
  "(string \<Rightarrow> json option) \<Rightarrow> (json \<Rightarrow> string) \<Rightarrow> string \<Rightarrow> string option \<Rightarrow> tool_output \<Rightarrow> answer" where
  "k8s_get_output loads dumps resource fmt result =
     (if \<not> error result \<and> is_secret_type resource \<and> fmt = Some ''json''
      then (case loads (out_text result) of
              None \<Rightarrow> Told ''Secret output could not be safely redacted.'' (Some ''redaction_failed'')
            | Some payload \<Rightarrow> Ran (result\<lparr>out_text := dumps (redact_secret_payload payload)\<rparr>))
      else Ran result)"

definition run_tool :: "limits \<Rightarrow> 'o host_ops \<Rightarrow> string option \<Rightarrow> command \<Rightarrow> ('o, tool_output) op" where
  "run_tool L H run c = run_command L H (c_cmd c) (c_args c) (c_stdin c) None None (c_fallback c) run"

definition k8s_get ::
  "limits \<Rightarrow> 'o host_ops \<Rightarrow> (string \<Rightarrow> json option) \<Rightarrow> (json \<Rightarrow> string) \<Rightarrow> string option
     \<Rightarrow> string \<Rightarrow> string option \<Rightarrow> bool option \<Rightarrow> string option \<Rightarrow> string option \<Rightarrow> string option
     \<Rightarrow> ('o, answer) op" where
  "k8s_get L H loads dumps run resource name all ns out selector =
     bindW (lift (k8s_get_command resource name all ns out selector)) (\<lambda>(c, fmt).
       case k8s_get_blocked resource fmt of
         Some told \<Rightarrow> ret told
       | None \<Rightarrow> bindW (run_tool L H run c) (\<lambda>result. ret (k8s_get_output loads dumps resource fmt result)))"

definition k8s_describe :: "string \<Rightarrow> string \<Rightarrow> string option \<Rightarrow> command" where
  "k8s_describe name resource ns =
     run_kubectl_command (''describe '' @ resource @ '' '' @ name @ '' '' @ text_if ''-n '' ns) None"

definition k8s_rollout_status :: "string \<Rightarrow> string option \<Rightarrow> command" where
  "k8s_rollout_status name ns =
     run_kubectl_command (''rollout status deployment/'' @ name @ '' '' @ text_if ''-n '' ns) None"

definition k8s_cluster_info :: command where
  "k8s_cluster_info = run_kubectl_command ''cluster-info'' None"

definition rollout_type_error :: "string \<Rightarrow> py_exc" where
  "rollout_type_error resource = value_error (''Invalid resource_type '' @ quoted resource
     @ ''. Must be one of: deployment, daemonset, statefulset'')"

definition VALID_ROLLOUT_TYPES :: "string list" where
  "VALID_ROLLOUT_TYPES = [''deployment'', ''daemonset'', ''statefulset'']"

definition k8s_rollout_history ::
  "string \<Rightarrow> string \<Rightarrow> string option \<Rightarrow> int option \<Rightarrow> command py" where
  "k8s_rollout_history name resource ns revision =
     (if py_lower resource \<notin> set VALID_ROLLOUT_TYPES then Inl (rollout_type_error resource)
      else Inr (run_kubectl_command (''rollout history '' @ py_lower resource @ ''/'' @ name
        @ text_if '' -n '' ns @ opt_int '' --revision='' revision) None))"

definition build_kubectl_top_args ::
  "string \<Rightarrow> string option \<Rightarrow> string option \<Rightarrow> bool option \<Rightarrow> bool option \<Rightarrow> string option
     \<Rightarrow> string option \<Rightarrow> bool option \<Rightarrow> string list py" where
  "build_kubectl_top_args resource name ns all containers selector sort_by no_headers =
     (let args = [''top'', resource] @ (case name of Some (c # cs) \<Rightarrow> [c # cs] | _ \<Rightarrow> [])
          @ scope_args ns all @ flag_args ''--containers'' containers
          @ flag_args ''--no-headers'' no_headers @ opt_args ''-l'' selector
      in if \<not> is_set sort_by then Inr args
         else if the sort_by \<notin> {''cpu'', ''memory''}
         then Inl (value_error (''sort_by must be '' @ quoted ''cpu'' @ '' or '' @ quoted ''memory''
                @ '', got: '' @ the sort_by))
         else Inr (args @ [''--sort-by'', the sort_by]))"

definition k8s_top_pods ::
  "string option \<Rightarrow> string option \<Rightarrow> bool option \<Rightarrow> bool option \<Rightarrow> string option \<Rightarrow> string option
     \<Rightarrow> bool option \<Rightarrow> command py" where
  "k8s_top_pods pod ns all containers selector sort_by no_headers =
     (if is_set ns \<and> all = Some True
      then Inl (value_error ''namespace and all_namespaces are mutually exclusive'')
      else bindE (build_kubectl_top_args ''pods'' pod ns all containers selector sort_by no_headers)
        (\<lambda>args. Inr (command_of ''kubectl'' args)))"

definition k8s_top_nodes ::
  "string option \<Rightarrow> string option \<Rightarrow> string option \<Rightarrow> bool option \<Rightarrow> command py" where
  "k8s_top_nodes node sort_by selector no_headers =
     (if is_set node \<and> is_set selector
      then Inl (value_error ''node_name and label_selector are mutually exclusive'')
      else bindE (build_kubectl_top_args ''nodes'' node None None None selector sort_by no_headers)
        (\<lambda>args. Inr (command_of ''kubectl'' args)))"

text \<open>Waiting: the answer and whether it is an error.\<close>

definition MAX_SLEEP_SECONDS :: int where
  "MAX_SLEEP_SECONDS = 300"

definition wait_for_x_seconds :: "'o host_ops \<Rightarrow> json \<Rightarrow> ('o, string \<times> bool) op" where
  "wait_for_x_seconds H v =
     (case py_int v of
        Inl _ \<Rightarrow> ret (''Invalid seconds value: must be an integer'', True)
      | Inr n \<Rightarrow>
          if n < 0 then ret (''Invalid seconds value: must be non-negative'', True)
          else if n > MAX_SLEEP_SECONDS
          then ret (''Requested '' @ int_str n @ ''s exceeds maximum allowed ('' @ int_str MAX_SLEEP_SECONDS @ ''s)'', True)
          else bindW (os_sleep H (of_int n)) (\<lambda>_. ret (''Waited for '' @ int_str n @ '' seconds'', False)))"

subsection \<open>Mutating\<close>

definition k8s_apply :: "string \<Rightarrow> string option \<Rightarrow> command" where
  "k8s_apply content ns = run_kubectl_command (''apply -f - '' @ text_if ''-n '' ns) (Some content)"

definition k8s_patch ::
  "string \<Rightarrow> string \<Rightarrow> string \<Rightarrow> string option \<Rightarrow> string option \<Rightarrow> command py" where
  "k8s_patch name resource patch ns patch_type =
     bindE (normalize_enum_arg (opt_json patch_type) ''patch_type'' VALID_PATCH_TYPES (Some ''strategic'')) (\<lambda>t.
     Inr (command_of ''kubectl'' ([''patch'', resource, name] @ opt_args ''-n'' ns
       @ [''--patch'', patch, ''--type='' @ (case t of None \<Rightarrow> ''None'' | Some p \<Rightarrow> p)])))"

definition k8s_set_image :: "string \<Rightarrow> string \<Rightarrow> string \<Rightarrow> string option \<Rightarrow> command" where
  "k8s_set_image name resource images ns =
     run_kubectl_command (''set image '' @ resource @ ''/'' @ name @ '' '' @ images @ '' ''
       @ text_if ''-n '' ns) None"

definition k8s_rollout_restart :: "string \<Rightarrow> string option \<Rightarrow> command" where
  "k8s_rollout_restart name ns =
     run_kubectl_command (''rollout restart deployment/'' @ name @ '' '' @ text_if ''-n '' ns) None"

definition k8s_scale :: "string \<Rightarrow> string \<Rightarrow> int \<Rightarrow> string option \<Rightarrow> command" where
  "k8s_scale name resource replicas ns =
     run_kubectl_command (''scale '' @ resource @ ''/'' @ name @ '' --replicas='' @ int_str replicas @ '' ''
       @ (if is_set ns then text_if ''-n '' ns @ '' '' else [])) None"

definition k8s_delete :: "string \<Rightarrow> string \<Rightarrow> string option \<Rightarrow> command" where
  "k8s_delete name resource ns =
     run_kubectl_command (''delete '' @ resource @ '' '' @ name @ '' '' @ text_if ''-n '' ns) None"

definition k8s_rollout_undo ::
  "string \<Rightarrow> string \<Rightarrow> string option \<Rightarrow> int option \<Rightarrow> command py" where
  "k8s_rollout_undo name resource ns revision =
     (if py_lower resource \<notin> set VALID_ROLLOUT_TYPES then Inl (rollout_type_error resource)
      else Inr (run_kubectl_command (''rollout undo '' @ py_lower resource @ ''/'' @ name
        @ text_if '' -n '' ns @ opt_int '' --to-revision='' revision) None))"

definition k8s_cordon :: "string \<Rightarrow> command" where
  "k8s_cordon node = run_kubectl_command (''cordon '' @ node) None"

definition k8s_uncordon :: "string \<Rightarrow> command" where
  "k8s_uncordon node = run_kubectl_command (''uncordon '' @ node) None"

definition k8s_drain :: "string \<Rightarrow> bool option \<Rightarrow> bool option \<Rightarrow> command" where
  "k8s_drain node ignore_ds delete_data =
     run_kubectl_command (''drain '' @ node @ flag_text '' --ignore-daemonsets'' ignore_ds
       @ flag_text '' --delete-emptydir-data'' delete_data) None"

text \<open>
  \<open>shlex.split\<close>: outside quotes, inside a quotation, or behind a backslash (in a double quotation
  or not). A word is \<open>None\<close> until it has begun, so an empty quotation is a word.
\<close>

datatype lex_mode = Plain | Inside char | Behind "char option"

definition put_char :: "char list \<Rightarrow> string option \<Rightarrow> string option" where
  "put_char cs w = Some ((case w of None \<Rightarrow> [] | Some t \<Rightarrow> t) @ cs)"

abbreviation backslash :: char where
  "backslash \<equiv> CHR 0x5C"

fun lex_words :: "lex_mode \<Rightarrow> string option \<Rightarrow> string \<Rightarrow> string list py" where
  "lex_words Plain w [] = Inr (case w of None \<Rightarrow> [] | Some t \<Rightarrow> [t])"
| "lex_words (Inside q) w [] = Inl (value_error ''No closing quotation'')"
| "lex_words (Behind q) w [] = Inl (value_error ''No escaped character'')"
| "lex_words Plain w (c # cs) =
     (if c \<in> set [CHR 0x20, CHR 0x09, CHR 0x0D, CHR 0x0A]
      then bindE (lex_words Plain None cs) (\<lambda>ws. Inr ((case w of None \<Rightarrow> [] | Some t \<Rightarrow> [t]) @ ws))
      else if c = CHR 0x27 \<or> c = CHR 0x22 then lex_words (Inside c) (put_char [] w) cs
      else if c = backslash then lex_words (Behind None) w cs
      else lex_words Plain (put_char [c] w) cs)"
| "lex_words (Inside q) w (c # cs) =
     (if c = q then lex_words Plain w cs
      else if c = backslash \<and> q = CHR 0x22 then lex_words (Behind (Some q)) w cs
      else lex_words (Inside q) (put_char [c] w) cs)"
| "lex_words (Behind q) w (c # cs) =
     (case q of
        None \<Rightarrow> lex_words Plain (put_char [c] w) cs
      | Some p \<Rightarrow> lex_words (Inside p) (put_char (if c = backslash \<or> c = p then [c] else [backslash, c]) w) cs)"

definition sh_split :: "string \<Rightarrow> string list py" where
  "sh_split s = lex_words Plain None s"

definition k8s_run_pod :: "string \<Rightarrow> string \<Rightarrow> string option \<Rightarrow> string option \<Rightarrow> command py" where
  "k8s_run_pod name img ns line =
     bindE (if is_set line then bindE (sh_split (the line)) (\<lambda>ws. Inr ([''--command'', ''--''] @ ws)) else Inr [])
       (\<lambda>rest. Inr (command_of ''kubectl'' ([''run'', name, ''--image='' @ img] @ opt_args ''-n'' ns @ rest)))"

definition k8s_exec :: "string \<Rightarrow> string \<Rightarrow> string option \<Rightarrow> string option \<Rightarrow> command py" where
  "k8s_exec pod line ns container =
     bindE (sh_split line) (\<lambda>ws.
     Inr (command_of ''kubectl'' ([''exec'', pod] @ opt_args ''-n'' ns @ opt_args ''-c'' container @ [''--''] @ ws)))"

text \<open>A resource type of \<open>None\<close> is rendered as the text \<open>None\<close>.\<close>

definition k8s_port_forward :: "string \<Rightarrow> string \<Rightarrow> string option \<Rightarrow> string option \<Rightarrow> command" where
  "k8s_port_forward name ports ns resource =
     run_kubectl_command (''port-forward ''
       @ (if resource \<noteq> Some ''pod''
          then (case resource of None \<Rightarrow> ''None'' | Some r \<Rightarrow> r) @ ''/'' @ name else name)
       @ '' '' @ ports @ '' '' @ text_if ''-n '' ns) None"

end
