(* ===== verification/CommandProps.thy ===== *)
theory CommandProps
  imports KubectlTools
begin

text \<open>
  What \<open>run_command\<close> guarantees: how often it starts a process, and what a Stop prevents. The
  processes it starts are observed on a host that keeps a log of the spawn calls and otherwise
  behaves like the given one.
\<close>

subsection \<open>A host with a log\<close>

type_synonym 'o logged = "'o \<times> (string \<times> string list) list"

definition unlogged :: "'o logged server \<Rightarrow> 'o server" where
  "unlogged s = \<lparr>active = active s, cancelled_runs = cancelled_runs s, host = fst (host s)\<rparr>"

definition spawns :: "'o logged server \<Rightarrow> (string \<times> string list) list" where
  "spawns s = snd (host s)"

definition relogged :: "(string \<times> string list) list \<Rightarrow> 'o server \<Rightarrow> 'o logged server" where
  "relogged l s = \<lparr>active = active s, cancelled_runs = cancelled_runs s, host = (host s, l)\<rparr>"

definition on_host :: "('o, 'a) op \<Rightarrow> ('o logged, 'a) op" where
  "on_host m s = (case m (unlogged s) of (r, s') \<Rightarrow> (r, relogged (spawns s) s'))"

definition logging :: "'o host_ops \<Rightarrow> 'o logged host_ops" where
  "logging H = \<lparr>
     os_spawn = (\<lambda>cmd args stdin s. on_host (os_spawn H cmd args stdin) (relogged (spawns s @ [(cmd, args)]) (unlogged s))),
     os_communicate = (\<lambda>p i t. on_host (os_communicate H p i t)),
     os_returncode = (\<lambda>p s. os_returncode H p (unlogged s)),
     os_signal = (\<lambda>p g. on_host (os_signal H p g)),
     os_wait = (\<lambda>p t. on_host (os_wait H p t)),
     os_sleep = (\<lambda>d. on_host (os_sleep H d)),
     monotonic = (\<lambda>s. monotonic H (unlogged s)),
     fmt_g = fmt_g H\<rparr>"

lemma relogged_simps [simp]:
  "spawns (relogged l s) = l" "unlogged (relogged l s) = s"
  "active (relogged l s) = active s" "cancelled_runs (relogged l s) = cancelled_runs s"
  by (simp_all add: relogged_def spawns_def unlogged_def)

lemma spawns_update [simp]:
  "spawns (s\<lparr>active := a\<rparr>) = spawns s" "spawns (s\<lparr>cancelled_runs := c\<rparr>) = spawns s"
  by (simp_all add: spawns_def)

subsection \<open>Operations that start no process\<close>

interpretation quiet: state_moves spawns "(=)"
  by unfold_locales auto

lemma quiet_on_host [simp]: "quiet.moves (on_host m)"
  by (auto simp: quiet.moves_def on_host_def split: prod.splits)

lemma quiet_host [simp]:
  "quiet.moves (os_communicate (logging H) p i t)" "quiet.moves (os_signal (logging H) p g)"
  "quiet.moves (os_wait (logging H) p t')" "quiet.moves (os_sleep (logging H) d)"
  by (simp_all add: logging_def)

lemma quiet_same: "quiet.moves m \<Longrightarrow> m s = (r, s') \<Longrightarrow> spawns s' = spawns s"
  by (drule (1) quiet.moves_eq) simp

lemma quiet_terminate [simp]: "quiet.moves (terminate_process L (logging H) p)"
  unfolding quiet.moves_def terminate_process_def
  by (auto split: prod.splits sum.splits dest!: quiet_same[OF quiet_host(2)] quiet_same[OF quiet_host(3)])

lemma spawns_register [simp]: "spawns (snd (register_process L H run p s)) = spawns s"
  by (simp add: register_process_def Let_def split: option.splits)

lemma spawns_unregister [simp]: "spawns (unregister_process run p s) = spawns s"
  by (simp add: unregister_process_def Let_def split: option.splits)

lemma quiet_attend [simp]: "quiet.moves (attend L (logging H) v n p)"
  unfolding quiet.moves_def
proof
  fix s
  obtain b s1 where reg: "register_process L (logging H) (iv_run v) p s = (b, s1)"
    by (cases "register_process L (logging H) (iv_run v) p s")
  then have "spawns s1 = spawns s"
    using spawns_register[of L "logging H" "iv_run v" p s] by simp
  then show "spawns s = spawns (snd (attend L (logging H) v n p s))"
    by (auto simp: attend_def reg bindW_def split: bool.splits prod.splits sum.splits
        dest!: quiet_same[OF quiet_terminate] quiet_same[OF quiet_host(1)])
qed

subsection \<open>The log only observes\<close>

text \<open>An operation on the logging host does to the rest of the state what it does without the log.\<close>

definition observes :: "('o logged, 'a) op \<Rightarrow> ('o, 'a) op \<Rightarrow> bool" where
  "observes m m' \<longleftrightarrow> (\<forall>s. m' (unlogged s) = (fst (m s), unlogged (snd (m s))))"

lemma observesD: "observes m m' \<Longrightarrow> m s = (r, s') \<Longrightarrow> m' (unlogged s) = (r, unlogged s')"
  by (simp add: observes_def)

lemma observes_ret: "observes (ret a) (ret a)"
  by (simp add: observes_def)

lemma observes_bind:
  assumes "observes m m'" and "\<And>a. observes (f a) (f' a)"
  shows "observes (bindW m f) (bindW m' f')"
  using assms by (auto simp: observes_def bindW_def split: prod.splits sum.splits)

lemma observes_catch:
  assumes "observes m m'" and "\<And>e. observes (h e) (h' e)"
  shows "observes (catchW m h) (catchW m' h')"
  using assms by (auto simp: observes_def catchW_def split: prod.splits sum.splits)

lemma observes_on_cancel:
  assumes "observes m m'" and "observes h h'"
  shows "observes (on_cancel m h) (on_cancel m' h')"
  unfolding observes_def
proof
  fix s
  obtain r s1 where m: "m s = (r, s1)" by (cases "m s")
  obtain q s2 where h: "h s1 = (q, s2)" by (cases "h s1")
  from observesD[OF assms(1) m] observesD[OF assms(2) h]
  show "on_cancel m' h' (unlogged s) = (fst (on_cancel m h s), unlogged (snd (on_cancel m h s)))"
    by (auto simp: on_cancel_def m h split: sum.splits)
qed

lemma observes_host:
  "observes (os_communicate (logging H) p i t) (os_communicate H p i t)"
  "observes (os_signal (logging H) p g) (os_signal H p g)"
  "observes (os_wait (logging H) p t') (os_wait H p t')"
  "observes (os_sleep (logging H) d) (os_sleep H d)"
  "observes (os_spawn (logging H) cmd args i) (os_spawn H cmd args i)"
  by (auto simp: observes_def logging_def on_host_def split: prod.splits)

lemma logging_simps [simp]:
  "os_returncode (logging H) p s = os_returncode H p (unlogged s)"
  "monotonic (logging H) s = monotonic H (unlogged s)"
  "fmt_g (logging H) = fmt_g H"
  by (simp_all add: logging_def)

lemma unlogged_update [simp]:
  "unlogged (s\<lparr>active := a\<rparr>) = (unlogged s)\<lparr>active := a\<rparr>"
  "unlogged (s\<lparr>cancelled_runs := c\<rparr>) = (unlogged s)\<lparr>cancelled_runs := c\<rparr>"
  "active (unlogged s) = active s" "cancelled_runs (unlogged s) = cancelled_runs s"
  by (simp_all add: unlogged_def)

lemma processes_of_unlogged [simp]: "processes_of run (unlogged s) = processes_of run s"
  by (simp add: processes_of_def)

lemma observes_register:
  "register_process L H run p (unlogged s)
     = (fst (register_process L (logging H) run p s), unlogged (snd (register_process L (logging H) run p s)))"
  by (simp add: register_process_def Let_def processes_of_def split: option.splits)

lemma observes_unregister: "unregister_process run p (unlogged s) = unlogged (unregister_process run p s)"
  by (simp add: unregister_process_def Let_def split: option.splits)

lemma observes_terminate: "observes (terminate_process L (logging H) p) (terminate_process L H p)"
  unfolding observes_def
proof
  fix s
  obtain r1 s1 where 1: "os_signal (logging H) p ''SIGTERM'' s = (r1, s1)"
    by (cases "os_signal (logging H) p ''SIGTERM'' s")
  obtain r2 s2 where 2: "os_wait (logging H) p (Some (TERMINATE_GRACE L)) s1 = (r2, s2)"
    by (cases "os_wait (logging H) p (Some (TERMINATE_GRACE L)) s1")
  obtain r3 s3 where 3: "os_signal (logging H) p ''SIGKILL'' s2 = (r3, s3)"
    by (cases "os_signal (logging H) p ''SIGKILL'' s2")
  obtain r4 s4 where 4: "os_wait (logging H) p None s3 = (r4, s4)"
    by (cases "os_wait (logging H) p None s3")
  note h = observes_host[THEN observesD]
  show "terminate_process L H p (unlogged s)
      = (fst (terminate_process L (logging H) p s), unlogged (snd (terminate_process L (logging H) p s)))"
    by (auto simp: terminate_process_def 1 2 3 4 h(2)[OF 1] h(3)[OF 2] h(2)[OF 3] h(3)[OF 4] split: sum.splits)
qed

lemma make_result_unlogged [simp]:
  "make_result (logging H) s t e n st = make_result H (unlogged s) t e n st"
  "refused (logging H) v n s = refused H v n (unlogged s)"
  "failure_output (logging H) v n t' b msg s = failure_output H v n t' b msg (unlogged s)"
  "fallback_output (logging H) v t' msg fb s = fallback_output H v t' msg fb (unlogged s)"
  by (simp_all add: make_result_def refused_def failure_output_def fallback_output_def)

lemma observes_attend: "observes (attend L (logging H) v n p) (attend L H v n p)"
  unfolding observes_def
proof
  fix s
  obtain b s1 where reg: "register_process L (logging H) (iv_run v) p s = (b, s1)"
    by (cases "register_process L (logging H) (iv_run v) p s")
  have reg': "register_process L H (iv_run v) p (unlogged s) = (b, unlogged s1)"
    using observes_register[of L H "iv_run v" p s] by (simp add: reg)
  obtain r t where t: "terminate_process L (logging H) p s1 = (r, t)"
    by (cases "terminate_process L (logging H) p s1")
  obtain q u where u: "os_communicate (logging H) p (iv_stdin v) (iv_timeout v) s1 = (q, u)"
    by (cases "os_communicate (logging H) p (iv_stdin v) (iv_timeout v) s1")
  obtain r' t' where t': "terminate_process L (logging H) p u = (r', t')"
    by (cases "terminate_process L (logging H) p u")
  note h = observesD[OF observes_terminate t] observesD[OF observes_terminate t']
    observesD[OF observes_host(1) u]
  show "attend L H v n p (unlogged s)
      = (fst (attend L (logging H) v n p s), unlogged (snd (attend L (logging H) v n p s)))"
    by (auto simp: attend_def reg reg' bindW_def t u t' h split: bool.splits sum.splits prod.splits)
qed

lemma observes_attempt: "observes (run_attempt L (logging H) v n) (run_attempt L H v n)"
  unfolding observes_def
proof
  fix s
  obtain q s1 where q: "os_spawn (logging H) (iv_cmd v) (iv_args v) (iv_stdin v) s = (q, s1)"
    by (cases "os_spawn (logging H) (iv_cmd v) (iv_args v) (iv_stdin v) s")
  note q' = observesD[OF observes_host(5) q]
  have body: "observes
      (on_cancel (catchW (attend L (logging H) v n p) (\<lambda>e. ret (handle_attempt e))) (terminate_process L (logging H) p))
      (on_cancel (catchW (attend L H v n p) (\<lambda>e. ret (handle_attempt e))) (terminate_process L H p))" for p
    by (intro observes_on_cancel observes_catch observes_attend observes_ret observes_terminate)
  show "run_attempt L H v n (unlogged s)
      = (fst (run_attempt L (logging H) v n s), unlogged (snd (run_attempt L (logging H) v n s)))"
    using body[unfolded observes_def, rule_format, of "projr q" s1]
    by (cases q) (auto simp: run_attempt_def q q' with_cleanup_def observes_unregister split: prod.splits)
qed

lemma observes_attempts: "observes (run_attempts left L (logging H) v n) (run_attempts left L H v n)"
proof (induction left arbitrary: n)
  case 0
  show ?case unfolding run_attempts.simps(1) by (rule observes_ret)
next
  case (Suc left)
  have "observes
      (case a of Answer out \<Rightarrow> ret (n, a) | Failure t retry msg \<Rightarrow>
         if iv_safe v \<and> retry \<and> n < iv_max v
         then bindW (os_sleep (logging H) (retry_delay L n)) (\<lambda>_. run_attempts left L (logging H) v (Suc n))
         else ret (n, a))
      (case a of Answer out \<Rightarrow> ret (n, a) | Failure t retry msg \<Rightarrow>
         if iv_safe v \<and> retry \<and> n < iv_max v
         then bindW (os_sleep H (retry_delay L n)) (\<lambda>_. run_attempts left L H v (Suc n))
         else ret (n, a))" for a
    by (cases a) (auto intro: observes_ret observes_bind observes_host Suc.IH)
  then show ?case by (simp add: observes_bind[OF observes_attempt])
qed

lemma invocation_of_unlogged [simp]:
  "invocation_of L (logging H) cmd args i t retry run s = invocation_of L H cmd args i t retry run (unlogged s)"
  by (simp add: invocation_of_def)

lemma observes_without_fallback: "observes (run_without_fallback L (logging H) v) (run_without_fallback L H v)"
  unfolding run_without_fallback_def
  by (rule observes_bind[OF observes_attempts]) (auto simp: observes_def split: attempt.splits)

lemma observes_command:
  "observes (run_command L (logging H) cmd args i t retry fallback run)
     (run_command L H cmd args i t retry fallback run)"
  unfolding observes_def
proof
  fix s
  define v where "v = invocation_of L H cmd args i t retry run (unlogged s)"
  obtain q s1 where q: "run_attempts (iv_max v) L (logging H) v 1 s = (q, s1)"
    by (cases "run_attempts (iv_max v) L (logging H) v 1 s")
  note q' = observesD[OF observes_attempts q]
  note fb = observes_without_fallback[unfolded observes_def, rule_format, of L H _ s1]
  show "run_command L H cmd args i t retry fallback run (unlogged s)
      = (fst (run_command L (logging H) cmd args i t retry fallback run s),
         unlogged (snd (run_command L (logging H) cmd args i t retry fallback run s)))"
    unfolding run_command_def Let_def invocation_of_unlogged v_def[symmetric] bindW_def q q'
    by (cases q)
      (auto simp: fb bindW_def split: sum.splits attempt.splits option.splits prod.splits)
qed

subsection \<open>How often a command is started\<close>

lemma quiet_catch_ret: "quiet.moves m \<Longrightarrow> quiet.moves (catchW m (\<lambda>e. ret (f e)))"
  by (rule quiet.moves_catch) simp_all

lemma run_attempt_spawns:
  "run_attempt L (logging H) v n s = (r, s') \<Longrightarrow> spawns s' = spawns s @ [(iv_cmd v, iv_args v)]"
proof -
  assume run: "run_attempt L (logging H) v n s = (r, s')"
  let ?start = "os_spawn (logging H) (iv_cmd v) (iv_args v) (iv_stdin v) s"
  obtain q s1 where start: "?start = (q, s1)" by (cases ?start)
  have s1: "spawns s1 = spawns s @ [(iv_cmd v, iv_args v)]"
    using start quiet_same[OF quiet_on_host] by (fastforce simp: logging_def)
  show ?thesis
  proof (cases q)
    case (Inl e)
    then show ?thesis using run s1 by (auto simp: run_attempt_def start split: if_splits)
  next
    case (Inr p)
    let ?m = "on_cancel (catchW (attend L (logging H) v n p) (\<lambda>e. ret (handle_attempt e)))
                (terminate_process L (logging H) p)"
    have quiet: "quiet.moves ?m"
      by (rule quiet.moves_on_cancel) (simp_all add: quiet_catch_ret)
    obtain q' s2 where m: "?m s1 = (q', s2)" by (cases "?m s1")
    show ?thesis
      using run s1 quiet_same[OF quiet m] by (auto simp: run_attempt_def start Inr with_cleanup_def m)
  qed
qed

definition budget :: "invocation \<Rightarrow> nat \<Rightarrow> nat" where
  "budget v left = (if iv_safe v then left else min left 1)"

lemma run_attempts_spawns:
  "run_attempts left L (logging H) v n s = (r, s') \<Longrightarrow>
     \<exists>k\<le>budget v left. spawns s' = spawns s @ replicate k (iv_cmd v, iv_args v) \<and> (0 < left \<longrightarrow> 0 < k)"
proof (induction left arbitrary: n s)
  case 0
  then show ?case by (auto simp: budget_def)
next
  case (Suc left)
  let ?x = "(iv_cmd v, iv_args v)"
  obtain a s1 where a: "run_attempt L (logging H) v n s = (a, s1)"
    by (cases "run_attempt L (logging H) v n s")
  note s1 = run_attempt_spawns[OF a]
  have once: "\<exists>k\<le>budget v (Suc left). spawns s' = spawns s @ replicate k ?x \<and> 0 < k" if "spawns s' = spawns s1"
    using that s1 by (intro exI[of _ 1]) (simp add: budget_def)
  show ?case
  proof (cases "\<exists>t msg. a = Inr (Failure t True msg) \<and> iv_safe v \<and> n < iv_max v")
    case False
    then have "s' = s1"
      using Suc.prems by (auto simp: bindW_def a split: sum.splits attempt.splits if_splits)
    with once show ?thesis by simp
  next
    case True
    then obtain t msg where retry: "a = Inr (Failure t True msg)" "iv_safe v" "n < iv_max v" by blast
    obtain q s2 where q: "os_sleep (logging H) (retry_delay L n) s1 = (q, s2)"
      by (cases "os_sleep (logging H) (retry_delay L n) s1")
    note s2 = quiet_same[OF quiet_host(4) q]
    show ?thesis
    proof (cases q)
      case (Inl e)
      then have "s' = s2" using Suc.prems retry by (simp add: bindW_def a q)
      with once s2 show ?thesis by simp
    next
      case (Inr u)
      then have "run_attempts left L (logging H) v (Suc n) s2 = (r, s')"
        using Suc.prems retry by (simp add: bindW_def a q)
      from Suc.IH[OF this] obtain k where "k \<le> budget v left" "spawns s' = spawns s2 @ replicate k ?x"
        by blast
      with s1 s2 retry(2) show ?thesis
        by (intro exI[of _ "Suc k"]) (simp add: budget_def)
    qed
  qed
qed

lemma invocation_of_simps [simp]:
  "iv_cmd (invocation_of L H cmd args stdin t retry run s) = cmd"
  "iv_args (invocation_of L H cmd args stdin t retry run s) = args"
  "iv_safe (invocation_of L H cmd args stdin t retry run s)
     = (case retry of None \<Rightarrow> is_retry_safe cmd args | Some b \<Rightarrow> b)"
  "iv_max (invocation_of L H cmd args stdin t retry run s)
     = (if (case retry of None \<Rightarrow> is_retry_safe cmd args | Some b \<Rightarrow> b) then MAX_ATTEMPTS L else 1)"
  by (simp_all add: invocation_of_def Let_def)

lemma run_without_fallback_spawns:
  assumes "run_without_fallback L (logging H) v s = (r, s')"
  shows "\<exists>k\<le>budget v (iv_max v). spawns s' = spawns s @ replicate k (iv_cmd v, iv_args v)"
proof -
  obtain q s1 where "run_attempts (iv_max v) L (logging H) v 1 s = (q, s1)"
    by (cases "run_attempts (iv_max v) L (logging H) v 1 s")
  moreover from this have "s' = s1"
    using assms by (auto simp: run_without_fallback_def bindW_def split: sum.splits attempt.splits)
  ultimately show ?thesis by (metis run_attempts_spawns)
qed

text \<open>
  The processes one \<open>run_command\<close> starts: the command itself, at most \<open>MAX_ATTEMPTS\<close> times and
  only once unless it is safe to retry; then at most once the fallback, again only if safe.
\<close>

lemma run_command_spawns:
  assumes "run_command L (logging H) cmd args stdin timeout retry fallback run s = (r, s')"
    and safe: "safe = (case retry of None \<Rightarrow> is_retry_safe cmd args | Some b \<Rightarrow> b)"
  shows "\<exists>k fb. spawns s' = spawns s @ replicate k (cmd, args) @ fb
     \<and> k \<le> (if safe then MAX_ATTEMPTS L else 1) \<and> (\<not> safe \<longrightarrow> k = 1)
     \<and> (fb = [] \<or> safe \<and> (\<exists>f. fallback = Some f \<and> fb = [f]))"
proof -
  define v where "v = invocation_of L (logging H) cmd args stdin timeout retry run s"
  have v: "iv_cmd v = cmd" "iv_args v = args" "iv_safe v = safe"
    "iv_max v = (if safe then MAX_ATTEMPTS L else 1)"
    by (simp_all add: v_def safe)
  obtain q s1 where q: "run_attempts (iv_max v) L (logging H) v 1 s = (q, s1)"
    by (cases "run_attempts (iv_max v) L (logging H) v 1 s")
  note run = assms(1)[unfolded run_command_def Let_def v_def[symmetric] bindW_def q]
  from run_attempts_spawns[OF q] obtain k
    where k: "k \<le> budget v (iv_max v)" "spawns s1 = spawns s @ replicate k (cmd, args)" "0 < iv_max v \<longrightarrow> 0 < k"
    by (auto simp: v)
  have "k \<le> (if safe then MAX_ATTEMPTS L else 1) \<and> (\<not> safe \<longrightarrow> k = 1)"
    using k(1, 3) by (auto simp: budget_def v split: if_splits)
  moreover have "\<exists>fb. spawns s' = spawns s1 @ fb \<and> (fb = [] \<or> safe \<and> (\<exists>f. fallback = Some f \<and> fb = [f]))"
  proof (cases "\<exists>n t b msg fcmd fargs. q = Inr (n, Failure t b msg) \<and> fallback = Some (fcmd, fargs) \<and> safe")
    case False
    then have "s' = s1"
      using run by (auto simp: v split: sum.splits attempt.splits if_splits option.splits)
    then show ?thesis by simp
  next
    case True
    then obtain n t b msg fcmd fargs
      where fb: "q = Inr (n, Failure t b msg)" "fallback = Some (fcmd, fargs)" "safe" by blast
    let ?w = "invocation_of L (logging H) fcmd fargs None (Some (iv_timeout v)) (Some False) run s1"
    obtain q2 s2 where q2: "run_without_fallback L (logging H) ?w s1 = (q2, s2)"
      by (cases "run_without_fallback L (logging H) ?w s1")
    then have "s' = s2"
      using run fb v by (auto split: sum.splits)
    moreover from run_without_fallback_spawns[OF q2] obtain j
      where "j \<le> 1" "spawns s2 = spawns s1 @ replicate j (fcmd, fargs)"
      by (auto simp: budget_def)
    ultimately show ?thesis using fb by (cases j) auto
  qed
  ultimately show ?thesis using k(2) by (metis append_assoc)
qed

subsection \<open>The command lines of the mutating tools\<close>

text \<open>Splitting a line from the left: \<open>word_from w rest\<close> splits \<open>rest\<close> while \<open>w\<close> is being read.\<close>

definition word_from :: "string \<Rightarrow> string \<Rightarrow> string list" where
  "word_from w rest = (case split_char (CHR '' '') rest of
     [] \<Rightarrow> [w] | f # fs \<Rightarrow> (w @ f) # filter (\<lambda>p. p \<noteq> []) fs)"

lemma words_of_Cons: "words_of (c # cs) = (if c = CHR '' '' then words_of cs else word_from [c] cs)"
  by (simp add: words_of_def word_from_def split: list.splits)

lemma word_from_simps:
  "word_from w [] = [w]"
  "word_from w (c # cs) = (if c = CHR '' '' then w # words_of cs else word_from (w @ [c]) cs)"
  by (auto simp: words_of_def word_from_def split_char_nonempty split: list.splits)

lemmas line_simps = words_of_Cons word_from_simps

text \<open>What a mutating tool of \<open>kubectl.py\<close>, \<open>helm.py\<close> or \<open>argo.py\<close> may hand to \<open>run_command\<close>.\<close>

inductive mutation_command :: "command \<Rightarrow> bool" where
  "mutation_command (k8s_apply content ns)"
| "k8s_patch name resource patch ns patch_type = Inr c \<Longrightarrow> mutation_command c"
| "mutation_command (k8s_set_image name resource images ns)"
| "mutation_command (k8s_rollout_restart name ns)"
| "mutation_command (k8s_scale name resource replicas ns)"
| "mutation_command (k8s_delete name resource ns)"
| "k8s_rollout_undo name resource ns revision = Inr c \<Longrightarrow> mutation_command c"
| "mutation_command (k8s_cordon node)"
| "mutation_command (k8s_uncordon node)"
| "mutation_command (k8s_drain node ignore_ds delete_data)"
| "k8s_run_pod name img ns line = Inr c \<Longrightarrow> mutation_command c"
| "k8s_exec pod line ns container = Inr c \<Longrightarrow> mutation_command c"
| "mutation_command (k8s_port_forward name ports ns kind)"
| "mutation_command (helm_repo_add name url)"
| "mutation_command helm_repo_update"
| "mutation_command (helm_repo_remove name)"
| "mutation_command (helm_install release chart ns create wait oid)"
| "mutation_command (helm_install_with_values release chart file ns create wait oid)"
| "mutation_command (helm_upgrade release chart ns install wait oid)"
| "mutation_command (helm_uninstall release ns keep)"
| "mutation_command (helm_rollback release rev_no ns wait oid)"
| "mutation_command (argo_promote name ns full)"
| "mutation_command (argo_pause_rollout name ns)"
| "mutation_command (argo_resume_rollout name ns)"
| "mutation_command (argo_abort_rollout name ns)"
| "argo_set_image name img ns container = Inr c \<Longrightarrow> mutation_command c"
| "mutation_command (argo_rollout_restart name ns)"
| "mutation_command (argo_undo name ns revision)"

lemmas kubectl_mutations = k8s_apply_def k8s_patch_def k8s_set_image_def k8s_rollout_restart_def
  k8s_scale_def k8s_delete_def k8s_rollout_undo_def k8s_cordon_def k8s_uncordon_def k8s_drain_def
  k8s_run_pod_def k8s_exec_def k8s_port_forward_def run_kubectl_command_def

lemmas helm_mutations = helm_repo_add_def helm_repo_update_def helm_repo_remove_def helm_install_def
  helm_install_with_values_def helm_upgrade_def helm_uninstall_def helm_rollback_def run_helm_command_def

lemmas argo_mutations = argo_promote_def argo_pause_rollout_def argo_resume_rollout_def
  argo_abort_rollout_def argo_set_image_def argo_rollout_restart_def argo_undo_def run_argo_command_def

lemmas retry_lists = KUBECTL_READ_ONLY_def KUBECTL_ROLLOUT_READ_ONLY_def ARGO_READ_ONLY_def HELM_READ_ONLY_def

text \<open>A mutating command is never safe to retry, and has no fallback.\<close>

lemma mutation_not_retry_safe:
  "mutation_command c \<Longrightarrow> \<not> is_retry_safe (c_cmd c) (c_args c) \<and> c_fallback c = None"
  by (induction rule: mutation_command.induct)
    (auto simp: kubectl_mutations helm_mutations argo_mutations retry_lists is_retry_safe_def
      command_of_def line_simps bindE_Inr_iff Let_def split: if_splits)

text \<open>
  C15: a mutating tool starts its command exactly once. However the process fails, times out or is
  stopped, \<open>run_command\<close> neither retries it nor falls back to another command: the spawn calls
  it makes are exactly one, with the tool's arguments.
\<close>

theorem mutation_started_once:
  assumes "mutation_command c" and "run_tool L (logging H) run c s = (r, s')"
  shows "spawns s' = spawns s @ [(c_cmd c, c_args c)]"
  using run_command_spawns[OF assms(2)[unfolded run_tool_def] refl] mutation_not_retry_safe[OF assms(1)]
  by auto

theorem mutation_started_once_witness:
  "\<exists>r s'. run_tool default_limits (logging demo_host) None (k8s_cordon ''node-1'') (relogged [] demo_server) = (r, s')
     \<and> spawns s' = [(''kubectl'', [''cordon'', ''node-1''])]"
proof -
  obtain r s' where run: "run_tool default_limits (logging demo_host) None (k8s_cordon ''node-1'')
      (relogged [] demo_server) = (r, s')"
    by (cases "run_tool default_limits (logging demo_host) None (k8s_cordon ''node-1'') (relogged [] demo_server)")
  have "spawns s' = [(''kubectl'', [''cordon'', ''node-1''])]"
    using mutation_started_once[OF mutation_command.intros(8) run]
    by (simp add: k8s_cordon_def run_kubectl_command_def command_of_def line_simps)
  with run show ?thesis by blast
qed

text \<open>
  a command is started at most \<open>MAX_ATTEMPTS\<close> times and its fallback at most once more;
  nothing else is started.
\<close>

theorem command_starts_bounded:
  assumes "run_command L (logging H) cmd args stdin timeout retry fallback run s = (r, s')"
  shows "\<exists>new. spawns s' = spawns s @ new \<and> length new \<le> Suc (max 1 (MAX_ATTEMPTS L))
     \<and> set new \<subseteq> insert (cmd, args) (set_option fallback)"
proof -
  from run_command_spawns[OF assms refl] obtain k fb
    where "spawns s' = spawns s @ replicate k (cmd, args) @ fb" "k \<le> max 1 (MAX_ATTEMPTS L)"
      and "length fb \<le> 1" "set fb \<subseteq> set_option fallback"
    by (fastforce split: if_splits)
  then show ?thesis by (intro exI[of _ "replicate k (cmd, args) @ fb"]) auto
qed

theorem command_starts_bounded_witness:
  "\<exists>r s' new. run_command default_limits (logging demo_host) ''helm'' [''list''] None None None None None
       (relogged [] demo_server) = (r, s') \<and> spawns s' = new \<and> length new \<le> 4
       \<and> set new \<subseteq> {(''helm'', [''list''])}"
proof -
  let ?m = "run_command default_limits (logging demo_host) ''helm'' [''list''] None None None None None
      (relogged [] demo_server)"
  obtain r s' where run: "?m = (r, s')" by (cases ?m)
  from command_starts_bounded[OF run] show ?thesis
    using run by (auto simp: default_limits_def)
qed

end
