(* ===== verification/CommandStop.thy ===== *)
theory CommandStop
  imports Commands
begin

text \<open>
  What a Stop guarantees in the MCP server. The registry's methods and the host interleave
  freely between the Stop and a later registration; the tombstone must outlive all of them for
  its time to live.
\<close>

text \<open>One atomic step of the server: a method under the registry's lock, or the host moving on.\<close>

inductive registry_step :: "limits \<Rightarrow> 'o host_ops \<Rightarrow> 'o server \<Rightarrow> 'o server \<Rightarrow> bool"
  for L :: limits and H :: "'o host_ops" where
  register: "registry_step L H s (snd (register_process L H run p s))"
| unregister: "registry_step L H s (unregister_process run p s)"
| stop: "registry_step L H s (tombstone L H run s)"
| host_moves: "monotonic H s \<le> monotonic H (s\<lparr>host := h\<rparr>) \<Longrightarrow> registry_step L H s (s\<lparr>host := h\<rparr>)"

inductive_cases registry_stepE: "registry_step L H s s'"

text \<open>The clock is the host's: the registry's own tables do not move it.\<close>

definition host_clock :: "'o host_ops \<Rightarrow> bool" where
  "host_clock H \<longleftrightarrow> (\<forall>s a c. monotonic H (s\<lparr>active := a, cancelled_runs := c\<rparr>) = monotonic H s)"

lemma host_clock_simps:
  assumes "host_clock (H :: 'a host_ops)"
  shows "monotonic H (s\<lparr>active := a\<rparr>) = monotonic H s"
    and "monotonic H (s\<lparr>cancelled_runs := c\<rparr>) = monotonic H s"
    and "monotonic H (s\<lparr>cancelled_runs := c, active := a\<rparr>) = monotonic H s"
proof -
  have *: "monotonic H (s\<lparr>active := a, cancelled_runs := c\<rparr>) = monotonic H s" for s :: "'a server" and a c
    using assms by (simp add: host_clock_def)
  show "monotonic H (s\<lparr>active := a\<rparr>) = monotonic H s"
    using *[where s = s and a = a and c = "cancelled_runs s"] by simp
  show "monotonic H (s\<lparr>cancelled_runs := c\<rparr>) = monotonic H s"
    using *[where s = s and a = "active s" and c = c] by simp
  show "monotonic H (s\<lparr>cancelled_runs := c, active := a\<rparr>) = monotonic H s"
    using *[where s = s and a = a and c = c] by (cases s) simp
qed

lemma registry_clock:
  "host_clock H \<Longrightarrow> registry_step L H s s' \<Longrightarrow> monotonic H s \<le> monotonic H s'"
  by (erule registry_stepE)
    (auto simp: host_clock_simps register_process_def unregister_process_def tombstone_def Let_def
      split: option.splits)

subsection \<open>Tombstones\<close>

lemma map_of_filter_kept: "map_of xs k = Some v \<Longrightarrow> P (k, v) \<Longrightarrow> map_of (filter P xs) k = Some v"
  by (induction xs) (auto split: if_splits)

lemma prune_keeps:
  "map_of runs run = Some t \<Longrightarrow> now - t < TOMBSTONE_TTL L \<Longrightarrow>
     map_of (prune_cancelled_runs L now runs) run = Some t"
  by (simp add: prune_cancelled_runs_def map_of_filter_kept)

text \<open>The run was stopped at \<open>t\<^sub>0\<close> or later, and it has no more processes than \<open>ps\<close>.\<close>

definition stopped :: "string \<Rightarrow> rat \<Rightarrow> nat list \<Rightarrow> 'o server \<Rightarrow> bool" where
  "stopped run t0 ps s \<longleftrightarrow>
     (\<exists>t. map_of (cancelled_runs s) run = Some t \<and> t0 \<le> t) \<and> set (processes_of run s) \<subseteq> set ps"

lemma stopped_tombstone: "stopped run (monotonic H s) (processes_of run s) (tombstone L H run s)"
  by (simp add: stopped_def tombstone_def processes_of_def update_conv)

lemma stopped_pruned:
  assumes "stopped run t0 ps s" and "monotonic H s - t0 < TOMBSTONE_TTL L"
  shows "\<exists>t. map_of (prune_cancelled_runs L (monotonic H s) (cancelled_runs s)) run = Some t \<and> t0 \<le> t"
proof -
  from assms(1) obtain t where "map_of (cancelled_runs s) run = Some t" "t0 \<le> t"
    by (auto simp: stopped_def)
  with assms(2) show ?thesis using prune_keeps[of "cancelled_runs s" run t "monotonic H s" L] by auto
qed

lemma stopped_refuses:
  assumes "stopped run t0 ps s" and "monotonic H s - t0 < TOMBSTONE_TTL L" and "run \<noteq> []"
  shows "fst (register_process L H (Some run) p s) = False"
  using stopped_pruned[OF assms(1, 2)] assms(3) by (auto simp: register_process_def Let_def)

lemma stopped_register:
  assumes s: "stopped run t0 ps s" and ttl: "monotonic H s - t0 < TOMBSTONE_TTL L" and run: "run \<noteq> []"
  shows "stopped run t0 ps (snd (register_process L H r p s))"
proof (cases "untracked r")
  case True
  then show ?thesis using s by (auto simp: untracked_def register_process_def)
next
  case False
  then obtain q where r: "r = Some q" "q \<noteq> []" by (auto simp: untracked_def)
  note pruned = stopped_pruned[OF s ttl]
  show ?thesis
    using s pruned r
    by (auto simp: register_process_def Let_def stopped_def processes_of_def update_conv
        split: option.splits if_splits)
qed

lemma stopped_unregister: "stopped run t0 ps s \<Longrightarrow> stopped run t0 ps (unregister_process r p s)"
  by (auto simp: stopped_def unregister_process_def processes_of_def Let_def update_conv delete_conv
      split: option.splits if_splits)

lemma stopped_step:
  assumes "registry_step L H s s'" and "stopped run t0 ps s" and "t0 \<le> monotonic H s"
    and "monotonic H s - t0 < TOMBSTONE_TTL L" and "run \<noteq> []"
  shows "stopped run t0 ps s'"
  using assms(1)
proof (cases rule: registry_step.cases)
  case (register r p)
  then show ?thesis using stopped_register[OF assms(2, 4, 5)] by simp
next
  case (unregister r p)
  then show ?thesis using stopped_unregister[OF assms(2)] by simp
next
  case (stop r)
  then show ?thesis
    using stopped_pruned[OF assms(2, 4)] assms(2, 3)
    by (auto simp: tombstone_def stopped_def processes_of_def update_conv)
next
  case (host_moves h)
  then show ?thesis using assms(2) by (simp add: stopped_def processes_of_def)
qed

lemma stopped_reachable:
  assumes "(registry_step L H)\<^sup>*\<^sup>* (tombstone L H run s) s'" and clock: "host_clock H" and "run \<noteq> []"
  shows "monotonic H s \<le> monotonic H s' \<and>
     (monotonic H s' - monotonic H s < TOMBSTONE_TTL L \<longrightarrow>
        stopped run (monotonic H s) (processes_of run s) s')"
  using assms(1)
proof (induction rule: rtranclp_induct)
  case base
  then show ?case using stopped_tombstone by (auto simp: tombstone_def host_clock_simps[OF clock])
next
  case (step u v)
  from registry_clock[OF clock step.hyps(2)] step.IH
  show ?case using stopped_step[OF step.hyps(2)] assms(3) by auto
qed

subsection \<open>The guarantees\<close>

text \<open>
  C16: from a Stop until its tombstone expires, whatever the server does in between, no process of
  the run can be registered, so no process of the run exists beside those the Stop found. A
  process that was being started meanwhile is terminated at once, and its command answers that
  it was cancelled.
\<close>

theorem stopped_run_starts_nothing:
  assumes "(registry_step L H)\<^sup>*\<^sup>* (tombstone L H run s) s'" and "host_clock H" and "run \<noteq> []"
    and "monotonic H s' - monotonic H s < TOMBSTONE_TTL L"
  shows "fst (register_process L H (Some run) p s') = False
    \<and> set (processes_of run s') \<subseteq> set (processes_of run s)
    \<and> (iv_run v = Some run \<longrightarrow>
        attend L H v n p s' = bindW (terminate_process L H p) (\<lambda>_ u. (Inr (Answer (refused H v n u)), u))
          (snd (register_process L H (Some run) p s')))"
proof -
  have stop: "stopped run (monotonic H s) (processes_of run s) s'"
    using stopped_reachable[OF assms(1-3)] assms(4) by blast
  have start: "monotonic H s \<le> monotonic H s'"
    using stopped_reachable[OF assms(1-3)] by blast
  from stopped_refuses[OF stop assms(4, 3)] have "fst (register_process L H (Some run) p s') = False" .
  then show ?thesis
    using stop
    by (cases "register_process L H (Some run) p s'") (auto simp: attend_def stopped_def)
qed

theorem stopped_run_starts_nothing_witness:
  "fst (register_process default_limits demo_host (Some ''run-1'') 8
      (tombstone default_limits demo_host ''run-1'' demo_server)) = False"
proof -
  have clock: "host_clock demo_host" by (simp add: host_clock_def demo_host_def)
  have "monotonic demo_host (tombstone default_limits demo_host ''run-1'' demo_server)
      - monotonic demo_host demo_server < TOMBSTONE_TTL default_limits"
    by (simp add: demo_host_def tombstone_def default_limits_def)
  from stopped_run_starts_nothing[OF rtranclp.rtrancl_refl clock _ this]
  show ?thesis by blast
qed

end
