(* ===== verification/ToolProps.thy ===== *)
theory ToolProps
  imports CommandProps Policy
begin

text \<open>
  What the MCP tools promise about secrets and scope, and where the promise ends: the redaction
  of Secret output, and the gap between the namespace the policy checks and the command line a
  Helm tool builds.
\<close>

subsection \<open>Secret output\<close>

text \<open>No Secret, at the top or nested in lists of items, still has its values.\<close>

function (sequential) secret_free :: "json \<Rightarrow> bool" where
  "secret_free (JDict d) \<longleftrightarrow>
     (py_lower (str_or d ''kind'' []) = ''secret'' \<longrightarrow> map_of d ''data'' = None \<and> map_of d ''stringData'' = None)
     \<and> (case map_of d ''items'' of Some (JList items) \<Rightarrow> (\<forall>i\<in>set items. secret_free i) | _ \<Rightarrow> True)"
| "secret_free v \<longleftrightarrow> True"
  by pat_completeness auto

termination secret_free
  by (relation "measure size") (auto dest: items_size)

lemma kind_of_dropped: "str_or (drop_secret_data d) ''kind'' e = str_or d ''kind'' e"
  by (simp add: drop_secret_data_def str_or_def dget_def_def delete_conv)

lemma redacted_secret_free: "secret_free (redact_secret_payload v)"
proof (induction v rule: redact_secret_payload.induct)
  case (1 d)
  let ?s = "drop_secret_data d"
  have dropped: "py_lower (str_or ?s ''kind'' []) = ''secret'' \<Longrightarrow>
      map_of ?s ''data'' = None \<and> map_of ?s ''stringData'' = None"
    unfolding kind_of_dropped by (simp add: drop_secret_data_def delete_conv)
  show ?case
  proof (cases "\<exists>items. map_of ?s ''items'' = Some (JList items)")
    case True
    then obtain items where items: "map_of ?s ''items'' = Some (JList items)" by blast
    let ?r = "AList.update ''items'' (JList (map redact_secret_payload items)) ?s"
    have "str_or ?r ''kind'' [] = str_or ?s ''kind'' []"
      by (simp add: str_or_def dget_def_def update_conv)
    moreover have "redact_secret_payload (JDict d) = JDict ?r"
      by (simp add: items)
    ultimately show ?thesis
      using dropped 1[OF refl items refl] by (auto simp: update_conv)
  next
    case False
    then have "redact_secret_payload (JDict d) = JDict ?s"
      by (auto simp: Let_def split: option.splits json.splits)
    then show ?thesis using dropped False by (auto split: option.splits json.splits)
  qed
qed simp_all

lemma in_dropWhile: "c \<in> set s \<Longrightarrow> \<not> P c \<Longrightarrow> c \<in> set (dropWhile P s)"
  by (induction s) auto

lemma in_strip: "c \<in> set s \<Longrightarrow> \<not> is_space c \<Longrightarrow> c \<in> set (py_strip s)"
  by (simp add: py_strip_def py_lstrip_def py_rstrip_def in_dropWhile)

text \<open>
  C25: when \<open>k8s_get\<close> is asked, as JSON or YAML, for the resource type \<open>secret\<close> or \<open>secrets\<close> itself (in any
  case, with spaces around it) and passes on a successful result of kubectl, it is JSON, and the text is the
  printed form of the payload without the \<open>data\<close> and \<open>stringData\<close> of its Secrets: none is left at the top or in
  the lists of items. Asked for any other type, also for \<open>secret/<name>\<close> or \<open>secrets,configmaps\<close>, it passes on what
  kubectl printed, and what else a Secret holds, its annotations included, stays
  (lemmas \<open>secret_by_name_not_redacted\<close>, \<open>redacted_keeps_metadata\<close>).
\<close>

theorem secret_output_redacted:
  assumes "k8s_get L H loads dumps run resource name all ns (Some fmt) selector s = (Inr (Ran r), s')"
    and "py_lower (py_strip fmt) \<in> {''json'', ''yaml''}" and "\<not> error r"
  shows "\<exists>c f out. k8s_get_command resource name all ns (Some fmt) selector = Inr (c, f) \<and> run_tool L H run c s = (Inr out, s') \<and>
    (if py_lower (py_strip resource) \<in> {''secret'', ''secrets''} then
       py_lower (py_strip fmt) = ''json''
       \<and> (\<exists>payload. loads (out_text out) = Some payload \<and> out_text r = dumps (redact_secret_payload payload)
            \<and> secret_free (redact_secret_payload payload))
     else r = out)"
proof -
  obtain c f where c: "k8s_get_command resource name all ns (Some fmt) selector = Inr (c, f)"
    using assms(1) by (cases "k8s_get_command resource name all ns (Some fmt) selector") (auto simp: k8s_get_def bindW_def)
  then have f: "f = Some (py_lower (py_strip fmt))"
    using assms(2) by (auto simp: k8s_get_command_def bindE_Inr_iff normalize_enum_arg_def opt_json_def Let_def split: if_splits)
  obtain out where out: "run_tool L H run c s = (Inr out, s')" "k8s_get_output loads dumps resource f out = Ran r"
    and go: "k8s_get_blocked resource f = None"
    using assms(1) c by (auto simp: k8s_get_def bindW_def split: sum.splits prod.splits option.splits)
      (auto simp: k8s_get_blocked_def split: if_splits)
  show ?thesis
  proof (cases "is_secret_type resource")
    case True
    then have json: "f = Some ''json''" using go f assms(2) by (auto simp: k8s_get_blocked_def)
    moreover have "\<not> error out" using out(2) assms(3) by (auto simp: k8s_get_output_def split: if_splits option.splits)
    ultimately obtain payload where "loads (out_text out) = Some payload"
        "r = out\<lparr>out_text := dumps (redact_secret_payload payload)\<rparr>"
      using out(2) True by (auto simp: k8s_get_output_def split: option.splits)
    then show ?thesis
      using c out(1) f json True by (intro exI[of _ c] exI[of _ f] exI[of _ out])
        (auto simp: redacted_secret_free is_secret_type_def)
  next
    case False
    then have "r = out" using out(2) by (simp add: k8s_get_output_def)
    then show ?thesis using c out(1) False by (auto simp: is_secret_type_def)
  qed
qed

definition demo_loads :: "string \<Rightarrow> json option" where
  "demo_loads s = (if s = ''ok''
     then Some (JDict [(''kind'', JStr ''Secret''), (''data'', JDict [(''password'', JStr ''aHVudGVyMg=='')])])
     else None)"

lemma demo_secret_read:
  "\<exists>r s'. k8s_get default_limits demo_host demo_loads dumps None ''secret'' None None None (Some ''json'') None
       demo_server = (Inr (Ran r), s') \<and> \<not> error r"
proof -
  have type: "is_secret_type ''secret''" by code_simp
  have cmd: "k8s_get_command ''secret'' None None None (Some ''json'') None
      = Inr (command_of ''kubectl'' [''get'', ''secret'', ''-o'', ''json''], Some ''json'')"
    by code_simp
  have safe: "is_retry_safe ''kubectl'' [''get'', ''secret'', ''-o'', ''json'']" by code_simp
  have ok: "success_text ''ok'' [] = ''ok''" by code_simp
  show ?thesis
    by (simp add: k8s_get_def cmd bindW_def k8s_get_blocked_def run_tool_def command_of_def run_command_def
        invocation_of_def safe default_limits_def numeral_3_eq_3 run_attempt_def demo_host_def on_cancel_def
        catchW_def attend_def register_process_def with_cleanup_def unregister_process_def make_result_def
        k8s_get_output_def ok type demo_loads_def)
qed

theorem secret_output_redacted_witness:
  "\<exists>r. (\<exists>s'. k8s_get default_limits demo_host demo_loads canonical_json None ''secret'' None None None
       (Some ''json'') None demo_server = (Inr (Ran r), s'))
     \<and> (\<exists>payload. out_text r = canonical_json (redact_secret_payload payload) \<and> secret_free (redact_secret_payload payload))"
proof -
  obtain r s' where run: "k8s_get default_limits demo_host demo_loads canonical_json None ''secret'' None None None
       (Some ''json'') None demo_server = (Inr (Ran r), s')" and ok: "\<not> error r"
    using demo_secret_read by blast
  have "py_lower (py_strip ''json'') \<in> {''json'', ''yaml''}" and secret: "py_lower (py_strip ''secret'') \<in> {''secret'', ''secrets''}"
    by code_simp+
  from secret_output_redacted[OF run this(1) ok] run show ?thesis unfolding if_P[OF secret] by blast
qed

text \<open>
  What the redaction leaves: every other entry of a Secret, so the annotation in which \<open>kubectl apply\<close> keeps
  the manifest it was given last, \<open>stringData\<close> and all, leaves the tool as it is.
\<close>

lemma redacted_keeps_metadata:
  assumes "k \<notin> {''data'', ''stringData'', ''items''}"
  shows "\<exists>d'. redact_secret_payload (JDict d) = JDict d' \<and> map_of d' k = map_of d k"
  using assms by (auto simp: Let_def drop_secret_data_def delete_conv update_conv' split: option.splits json.splits)

text \<open>
  the check for Secrets compares the resource type as a whole, so the resource/name form
  escapes it: \<open>k8s_get\<close> of \<open>secret/<name>\<close> as YAML is neither blocked nor redacted, and the output
  of kubectl is passed on as it is.
\<close>

theorem secret_by_name_not_redacted:
  "k8s_get L H loads dumps run (''secret/'' @ name) None None None (Some ''yaml'') None s =
     bindW (run_tool L H run (command_of ''kubectl'' [''get'', ''secret/'' @ name, ''-o'', ''yaml'']))
       (\<lambda>result. ret (Ran result)) s"
proof -
  have "CHR ''/'' \<in> set (py_lower (py_strip (''secret/'' @ name)))"
  proof -
    have "char_lower (CHR ''/'') = CHR ''/''" by code_simp
    moreover have "\<not> is_space (CHR ''/'')" by code_simp
    then have "CHR ''/'' \<in> set (py_strip (''secret/'' @ name))" by (rule in_strip[rotated]) simp
    ultimately show ?thesis unfolding py_lower_def set_map by (metis imageI)
  qed
  then have "\<not> is_secret_type (''secret/'' @ name)"
    by (auto simp: is_secret_type_def)
  moreover have "k8s_get_command (''secret/'' @ name) None None None (Some ''yaml'') None
      = Inr (command_of ''kubectl'' [''get'', ''secret/'' @ name, ''-o'', ''yaml''], Some ''yaml'')"
    by (simp add: k8s_get_command_def normalize_enum_arg_def opt_json_def VALID_OUTPUT_FORMATS_def
        py_strip_def py_lstrip_def py_rstrip_def is_space_def py_lower_def char_lower_def is_set_def
        opt_args_def flag_args_def)
  ultimately show ?thesis
    by (simp add: k8s_get_def bindW_def k8s_get_blocked_def k8s_get_output_def split: sum.splits prod.splits)
qed

subsection \<open>Scope of the Helm tools\<close>

text \<open>
  the namespace allowlist can be left through a text parameter. The policy allows an
  administrator's \<open>helm_upgrade\<close> whose arguments name no namespace, and looks no further; the tool
  splits its command line at spaces, so a chart of \<open>nginx -n <ns>\<close> makes Helm act in any namespace
  \<open>ns\<close>, on the allowlist or not.
\<close>

theorem helm_chart_leaves_allowlist:
  assumes "uid \<noteq> []" and "ns \<noteq> []" and "CHR '' '' \<notin> set ns"
  shows "allowed (evaluate_policy default_settings Y ''helm_upgrade''
      [(''release_name'', JStr ''web''), (''chart'', JStr (''nginx -n '' @ ns))] (Some uid) (Some ''admin'') env)
    \<and> c_args (helm_upgrade ''web'' (''nginx -n '' @ ns) None None None None)
        = [''upgrade'', ''web'', ''nginx'', ''-n'', ns]"
proof
  let ?args = "[(''release_name'', JStr ''web''), (''chart'', JStr (''nginx -n '' @ ns))]"
  have role: "py_lower (py_strip ''admin'') = ''admin''" by code_simp
  have rt: "resource_type_of ?args = []"
    by (simp add: resource_type_of_def str_or_def py_lower_def)
  have rs: "rstrip_char (CHR ''s'') [] \<notin> set FORBIDDEN_KINDS" by code_simp
  have tool: "''helm_upgrade'' \<notin> set CLUSTER_MUTATION_TOOLS" by code_simp
  have nss: "''default'' \<in> set (allowed_namespaces default_settings)" by code_simp
  have "mutation_namespaces ?args [] = [''default'']"
    by (simp add: mutation_namespaces_def str_or_def)
  with rt rs tool nss
  have "allowed (scope_check default_settings ''helm_upgrade'' ?args e [])" for e
    by (simp add: scope_check_allowed)
  then show "allowed (evaluate_policy default_settings Y ''helm_upgrade'' ?args (Some uid) (Some ''admin'') env)"
    using assms(1) by (simp add: evaluate_policy_def Let_def str_opt_def role manifest_check_def)
  show "c_args (helm_upgrade ''web'' (''nginx -n '' @ ns) None None None None)
        = [''upgrade'', ''web'', ''nginx'', ''-n'', ns]"
    using words_of_single[OF assms(3, 2)]
    by (simp add: helm_upgrade_def run_helm_command_def command_of_def text_if_def flag_text_def
        helm_marker_text_def line_simps)
qed

theorem helm_chart_leaves_allowlist_witness:
  "(\<forall>Y. allowed (evaluate_policy default_settings Y ''helm_upgrade''
      [(''release_name'', JStr ''web''), (''chart'', JStr ''nginx -n kube-system'')]
      (Some ''u1'') (Some ''admin'') None))
    \<and> ''kube-system'' \<notin> set (allowed_namespaces default_settings)"
proof -
  have "''kube-system'' \<notin> set (allowed_namespaces default_settings)" by code_simp
  then show ?thesis
    using helm_chart_leaves_allowlist[of "''u1''" "''kube-system''" _ None] by simp
qed

end
