(* ===== verification/MemoryTables.thy ===== *)
theory MemoryTables
  imports MemoryBase Config
begin

text \<open>
  The tables of \<open>models/memory.py\<close> and the queries of \<open>memory/repository.py\<close>. The database is a
  record of tables in insertion order with a clock (microseconds) and the values \<open>uuid4\<close> will
  draw; every query and every \<open>create\<close> or \<open>save\<close> is one step of it. \<open>create\<close> refuses a primary
  key or a unique column that is taken (\<open>IntegrityError\<close>), \<open>save\<close> writes every column of the
  object in memory. The digest SHA-256 is a parameter, as is the constructor \<open>uuid.UUID\<close>.
\<close>

datatype evidence_kind = USER_STATEMENT | TOOL_RESULT | APPROVED_MUTATION | VERIFICATION_RESULT
  | INCIDENT_SUMMARY | ADMIN_ENTRY | DREAM_INFERENCE

datatype risk_level = LOW_RISK | MEDIUM_RISK | HIGH_RISK

datatype usage_kind = INJECTED | READ_USE | WRITTEN | PROPOSED

datatype dream_type = SESSION_REFLECTION | INCIDENT_REFLECTION | STORE_COMPACTION
  | RUNBOOK_PROMOTION | USER_MEMORY_CLEANUP

datatype dream_status = DREAM_PENDING | DREAM_RUNNING | DREAM_COMPLETED | DREAM_FAILED | DREAM_CANCELED

datatype review_action = CREATE_REVIEW | UPDATE_REVIEW | ARCHIVE_REVIEW | MERGE_REVIEW
  | PROMOTE_REVIEW | REJECT_EXISTING

datatype review_status = REVIEW_PENDING | REVIEW_APPROVED | REVIEW_REJECTED | REVIEW_APPLIED
  | REVIEW_SUPERSEDED

record memory_store =
  store_id :: string
  store_name :: string
  slug :: string
  store_description :: string
  scope :: scope_type
  store_trust :: trust_level
  default_access :: access_mode
  owner_user :: "string option"
  store_archived_at :: "int option"
  store_created_at :: int
  store_updated_at :: int

record memory_document =
  doc_id :: string
  doc_store :: string
  doc_path :: string
  doc_title :: "string option"
  doc_content :: string
  doc_sha :: string
  doc_size :: int
  doc_type :: document_type
  doc_status :: document_status
  doc_tags :: "string list"
  doc_entities :: dict
  doc_confidence :: int
  current_version :: "string option"
  created_by_user :: "string option"
  created_by_run :: "string option"
  created_by_conversation :: "string option"
  doc_deleted_at :: "int option"
  doc_created_at :: int
  doc_updated_at :: int

record memory_version =
  ver_id :: string
  ver_store :: string
  ver_document :: "string option"
  ver_path :: string
  ver_operation :: memory_operation
  ver_content :: "string option"
  ver_sha :: "string option"
  ver_size :: "int option"
  previous_version :: "string option"
  ver_actor :: actor_type
  ver_actor_user :: "string option"
  ver_actor_run :: "string option"
  ver_actor_conversation :: "string option"
  ver_actor_dream :: "string option"
  ver_redacted_at :: "int option"
  ver_redacted_by :: "string option"
  redaction_reason :: "string option"
  ver_created_at :: int

record memory_source_ref =
  ref_id :: string
  ref_document :: string
  ref_version :: "string option"
  ref_conversation :: "string option"
  ref_run :: "string option"
  ref_tool_call :: "string option"
  ref_tool_name :: "string option"
  ref_args_hash :: "string option"
  ref_result_hash :: "string option"
  evidence_summary :: string
  evidence_kind :: evidence_kind
  ref_created_at :: int

record memory_usage =
  use_id :: string
  use_conversation :: string
  use_run :: "string option"
  use_document :: string
  use_version :: "string option"
  use_kind :: usage_kind
  use_created_at :: int

record dream_job =
  dream_id :: string
  dream_workspace :: "string option"
  dream_type :: dream_type
  dream_status :: dream_status
  dream_input_stores :: "string list"
  dream_input_conversations :: "string list"
  dream_input_runs :: "string list"
  dream_output_store :: "string option"
  dream_model :: string
  dream_instructions :: "string option"
  dream_usage :: dict
  dream_error :: "string option"
  dream_created_by :: "string option"
  dream_started_at :: "int option"
  dream_ended_at :: "int option"
  dream_canceled_at :: "int option"
  dream_archived_at :: "int option"
  dream_created_at :: int

record review_item =
  item_id :: string
  item_dream :: string
  item_source :: "string option"
  item_candidate :: "string option"
  item_target_store :: "string option"
  item_target_path :: string
  item_action :: review_action
  item_status :: review_status
  item_diff :: dict
  rationale :: string
  item_risk :: risk_level
  item_reviewed_by :: "string option"
  item_reviewed_at :: "int option"
  item_created_at :: int

record memory =
  stores :: "memory_store list"
  documents :: "memory_document list"
  versions :: "memory_version list"
  source_refs :: "memory_source_ref list"
  usages :: "memory_usage list"
  dreams :: "dream_job list"
  review_items :: "review_item list"
  mem_now :: int
  uuid4 :: "nat \<Rightarrow> string"
  drawn :: nat

type_synonym 'a mem = "(memory, 'a) st"

definition integrity_error :: py_exc where
  "integrity_error = Exc ''IntegrityError'' ''duplicate key value violates unique constraint''"

text \<open>\<open>async with in_transaction()\<close>: an exception that leaves the block rolls it back.\<close>

definition in_transaction :: "'a mem \<Rightarrow> 'a mem" where
  "in_transaction m db = (case m db of (Inl e, _) \<Rightarrow> (Inl e, db) | (Inr a, db') \<Rightarrow> (Inr a, db'))"

text \<open>What the other requests commit while this one awaits.\<close>

definition interleave :: "(memory \<Rightarrow> memory) \<Rightarrow> unit mem" where
  "interleave env db = (Inr (), env db)"

definition query :: "(memory \<Rightarrow> 'a) \<Rightarrow> 'a mem" where
  "query f db = (Inr (f db), db)"

definition fresh_id :: "string mem" where
  "fresh_id db = (Inr (uuid4 db (drawn db)), db\<lparr>drawn := Suc (drawn db)\<rparr>)"

lemma query_simp [simp]: "query f db = (Inr (f db), db)"
  by (simp add: query_def)

lemma interleave_simp [simp]: "interleave env db = (Inr (), env db)"
  by (simp add: interleave_def)

lemma fresh_id_simp [simp]:
  "fresh_id db = (Inr (uuid4 db (drawn db)), db\<lparr>drawn := Suc (drawn db)\<rparr>)"
  by (simp add: fresh_id_def)

subsection \<open>Stores\<close>

definition get_store_by_id :: "string \<Rightarrow> memory_store option mem" where
  "get_store_by_id sid = query (\<lambda>db. find (\<lambda>s. store_id s = sid) (stores db))"

definition get_store_by_slug :: "string \<Rightarrow> memory_store option mem" where
  "get_store_by_slug sl =
     query (\<lambda>db. find (\<lambda>s. slug s = sl \<and> store_archived_at s = None) (stores db))"

fun scope_value :: "scope_type \<Rightarrow> string" where
  "scope_value WORKSPACE = ''workspace''"
| "scope_value USER = ''user''"
| "scope_value CONVERSATION = ''conversation''"

text \<open>The order of text columns: by character code, a prefix first.\<close>

fun text_le :: "string \<Rightarrow> string \<Rightarrow> bool" where
  "text_le [] t = True"
| "text_le (c # s) [] = False"
| "text_le (c # s) (d # t) =
     ((of_char c :: nat) < of_char d \<or> (c = d \<and> text_le s t))"

fun insert_by :: "('a \<Rightarrow> 'a \<Rightarrow> bool) \<Rightarrow> 'a \<Rightarrow> 'a list \<Rightarrow> 'a list" where
  "insert_by le x [] = [x]"
| "insert_by le x (y # ys) = (if le x y then x # y # ys else y # insert_by le x ys)"

definition order_by :: "('a \<Rightarrow> 'a \<Rightarrow> bool) \<Rightarrow> 'a list \<Rightarrow> 'a list" where
  "order_by le xs = foldr (insert_by le) xs []"

definition store_le :: "memory_store \<Rightarrow> memory_store \<Rightarrow> bool" where
  "store_le s t \<longleftrightarrow>
     (if scope_value (scope s) = scope_value (scope t) then text_le (slug s) (slug t)
      else text_le (scope_value (scope s)) (scope_value (scope t)))"

definition list_stores :: "string option \<Rightarrow> bool \<Rightarrow> memory_store list mem" where
  "list_stores owner include_archived = query (\<lambda>db.
     order_by store_le
       (filter (\<lambda>s. (include_archived \<or> store_archived_at s = None)
                  \<and> (owner = None \<or> owner_user s = owner \<or> owner_user s = None)) (stores db)))"

definition create_store_row :: "memory_store \<Rightarrow> memory_store mem" where
  "create_store_row s db =
     (if list_ex (\<lambda>x. store_id x = store_id s \<or> slug x = slug s) (stores db) then (Inl integrity_error, db)
      else (let s' = s\<lparr>store_created_at := mem_now db, store_updated_at := mem_now db\<rparr>
            in (Inr s', db\<lparr>stores := stores db @ [s']\<rparr>)))"

definition save_store :: "memory_store \<Rightarrow> memory_store mem" where
  "save_store s db =
     (let s' = s\<lparr>store_updated_at := mem_now db\<rparr>
      in (Inr s', db\<lparr>stores := map (\<lambda>x. if store_id x = store_id s then s' else x) (stores db)\<rparr>))"

subsection \<open>Documents\<close>

definition get_document_by_id :: "string \<Rightarrow> memory_document option mem" where
  "get_document_by_id did =
     query (\<lambda>db. find (\<lambda>d. doc_id d = did \<and> doc_deleted_at d = None) (documents db))"

definition multiple_objects :: py_exc where
  "multiple_objects = Exc ''MultipleObjectsReturned'' ''Multiple objects returned, expected exactly one''"

text \<open>\<open>get\<close> raises when several live documents share a path, which the partial unique index excludes.\<close>

definition get_document_by_store_path :: "string \<Rightarrow> string \<Rightarrow> memory_document option mem" where
  "get_document_by_store_path sid path db =
     (case filter (\<lambda>d. doc_store d = sid \<and> doc_path d = path \<and> doc_deleted_at d = None) (documents db) of
        [] \<Rightarrow> (Inr None, db)
      | [d] \<Rightarrow> (Inr (Some d), db)
      | _ \<Rightarrow> (Inl multiple_objects, db))"

definition list_documents ::
  "string \<Rightarrow> string \<Rightarrow> document_type list \<Rightarrow> bool \<Rightarrow> nat \<Rightarrow> nat \<Rightarrow> memory_document list mem" where
  "list_documents sid path_prefix types include_deleted limit offset = query (\<lambda>db.
     take limit (drop offset (order_by (\<lambda>d e. text_le (doc_path d) (doc_path e))
       (filter (\<lambda>d. doc_store d = sid \<and> (include_deleted \<or> doc_deleted_at d = None)
                  \<and> (path_prefix = [] \<or> path_prefix = ''/'' \<or> starts_with (doc_path d) path_prefix)
                  \<and> (types = [] \<or> doc_type d \<in> set types)) (documents db)))))"

text \<open>The partial unique index on the store and the path of the live documents.\<close>

definition path_taken :: "memory_document \<Rightarrow> memory \<Rightarrow> bool" where
  "path_taken d db \<longleftrightarrow> doc_deleted_at d = None \<and>
     list_ex (\<lambda>x. doc_id x \<noteq> doc_id d \<and> doc_store x = doc_store d \<and> doc_path x = doc_path d
                \<and> doc_deleted_at x = None) (documents db)"

definition create_document_row :: "memory_document \<Rightarrow> memory_document mem" where
  "create_document_row d db =
     (if list_ex (\<lambda>x. doc_id x = doc_id d) (documents db) \<or> path_taken d db then (Inl integrity_error, db)
      else (let d' = d\<lparr>doc_created_at := mem_now db, doc_updated_at := mem_now db\<rparr>
            in (Inr d', db\<lparr>documents := documents db @ [d']\<rparr>)))"

definition save_document :: "memory_document \<Rightarrow> memory_document mem" where
  "save_document d db =
     (if list_ex (\<lambda>x. doc_id x = doc_id d) (documents db) \<and> path_taken d db then (Inl integrity_error, db)
      else (let d' = d\<lparr>doc_updated_at := mem_now db\<rparr>
            in (Inr d', db\<lparr>documents := map (\<lambda>x. if doc_id x = doc_id d then d' else x) (documents db)\<rparr>)))"

subsection \<open>Versions, source references and usage\<close>

record actor =
  act_type :: actor_type
  act_user :: "string option"
  act_run :: "string option"
  act_conversation :: "string option"

definition get_versions_for_document :: "string \<Rightarrow> nat \<Rightarrow> memory_version list mem" where
  "get_versions_for_document did limit = query (\<lambda>db.
     take limit (order_by (\<lambda>v w. ver_created_at w \<le> ver_created_at v)
       (filter (\<lambda>v. ver_document v = Some did) (versions db))))"

definition new_version ::
  "(string \<Rightarrow> string) \<Rightarrow> string \<Rightarrow> string option \<Rightarrow> string \<Rightarrow> memory_operation \<Rightarrow> string option
     \<Rightarrow> actor \<Rightarrow> string option \<Rightarrow> string \<Rightarrow> int \<Rightarrow> memory_version" where
  "new_version sha sid did path operation content who previous vid now =
     \<lparr>ver_id = vid, ver_store = sid, ver_document = did, ver_path = path,
      ver_operation = operation, ver_content = content,
      ver_sha = map_option sha content,
      ver_size = Some (case content of None \<Rightarrow> 0 | Some c \<Rightarrow> int (length c)),
      previous_version = previous, ver_actor = act_type who, ver_actor_user = act_user who,
      ver_actor_run = act_run who, ver_actor_conversation = act_conversation who, ver_actor_dream = None,
      ver_redacted_at = None, ver_redacted_by = None, redaction_reason = None,
      ver_created_at = now\<rparr>"

lemma new_version_simps [simp]:
  "ver_id (new_version sha sid did path operation content who previous vid now) = vid"
  "ver_document (new_version sha sid did path operation content who previous vid now) = did"
  "ver_content (new_version sha sid did path operation content who previous vid now) = content"
  "ver_sha (new_version sha sid did path operation content who previous vid now) = map_option sha content"
  "ver_redacted_at (new_version sha sid did path operation content who previous vid now) = None"
  by (simp_all add: new_version_def)

definition create_version ::
  "(string \<Rightarrow> string) \<Rightarrow> string \<Rightarrow> string option \<Rightarrow> string \<Rightarrow> memory_operation \<Rightarrow> string option
     \<Rightarrow> actor \<Rightarrow> string option \<Rightarrow> memory_version mem" where
  "create_version sha sid did path operation content who previous =
     bindW fresh_id (\<lambda>vid db.
       if list_ex (\<lambda>x. ver_id x = vid) (versions db) then (Inl integrity_error, db)
       else
         (let v = new_version sha sid did path operation content who previous vid (mem_now db)
          in (Inr v, db\<lparr>versions := versions db @ [v]\<rparr>)))"

definition save_version :: "memory_version \<Rightarrow> memory_version mem" where
  "save_version v db =
     (Inr v, db\<lparr>versions := map (\<lambda>x. if ver_id x = ver_id v then v else x) (versions db)\<rparr>)"

definition create_source_ref ::
  "string \<Rightarrow> string option \<Rightarrow> string \<Rightarrow> evidence_kind \<Rightarrow> string option \<Rightarrow> string option
     \<Rightarrow> string option \<Rightarrow> string option \<Rightarrow> memory_source_ref mem" where
  "create_source_ref did vid summary kind conversation run call tool =
     bindW fresh_id (\<lambda>rid db.
       if list_ex (\<lambda>x. ref_id x = rid) (source_refs db) then (Inl integrity_error, db)
       else
         (let r = \<lparr>ref_id = rid, ref_document = did, ref_version = vid, ref_conversation = conversation,
                   ref_run = run, ref_tool_call = call, ref_tool_name = tool,
                   ref_args_hash = None, ref_result_hash = None,
                   evidence_summary = summary, evidence_kind = kind, ref_created_at = mem_now db\<rparr>
          in (Inr r, db\<lparr>source_refs := source_refs db @ [r]\<rparr>)))"

definition get_source_refs_for_document :: "string \<Rightarrow> memory_source_ref list mem" where
  "get_source_refs_for_document did = query (\<lambda>db.
     order_by (\<lambda>r s. ref_created_at s \<le> ref_created_at r)
       (filter (\<lambda>r. ref_document r = did) (source_refs db)))"

definition create_usage ::
  "string \<Rightarrow> string option \<Rightarrow> string \<Rightarrow> string option \<Rightarrow> usage_kind \<Rightarrow> unit mem" where
  "create_usage conversation run did vid kind =
     bindW fresh_id (\<lambda>uid db.
       if list_ex (\<lambda>x. use_id x = uid) (usages db) \<or> run = None then (Inl integrity_error, db)
       else
         (Inr (), db\<lparr>usages := usages db @
            [\<lparr>use_id = uid, use_conversation = conversation, use_run = run, use_document = did,
              use_version = vid, use_kind = kind, use_created_at = mem_now db\<rparr>]\<rparr>))"

definition record_memory_usage ::
  "string \<Rightarrow> string option \<Rightarrow> string \<Rightarrow> string option \<Rightarrow> usage_kind \<Rightarrow> unit mem" where
  "record_memory_usage conversation run did vid kind =
     catchW (create_usage conversation run did vid kind) (\<lambda>e. ret ())"

fun create_usages ::
  "string \<Rightarrow> string \<Rightarrow> (string \<times> string option \<times> usage_kind) list \<Rightarrow> unit mem" where
  "create_usages conversation run [] = ret ()"
| "create_usages conversation run ((did, vid, kind) # es) =
     bindW (create_usage conversation (Some run) did vid kind)
       (\<lambda>_. create_usages conversation run es)"

definition record_memory_usage_bulk ::
  "string \<Rightarrow> string \<Rightarrow> (string \<times> string option \<times> usage_kind) list \<Rightarrow> unit mem" where
  "record_memory_usage_bulk conversation run es =
     (if es = [] then ret ()
      else catchW (in_transaction (create_usages conversation run es)) (\<lambda>e. ret ()))"

definition get_memory_usage_for_run :: "string \<Rightarrow> memory_usage list mem" where
  "get_memory_usage_for_run run = query (\<lambda>db.
     order_by (\<lambda>u v. use_created_at u \<le> use_created_at v)
       (filter (\<lambda>u. use_run u = Some run) (usages db)))"

subsection \<open>Full-text search\<close>

text \<open>
  The row the raw SQL query returns: the document joined with its store, and the rank Postgres
  gives it. Ranking and matching are Postgres' own: \<open>rank\<close> is the score of a document the query
  matches. The rank is a rational number here.
\<close>

record search_row =
  row_doc :: memory_document
  row_store :: memory_store

definition search_statuses :: "bool \<Rightarrow> document_status list" where
  "search_statuses include_drafts =
     (if include_drafts then [ACTIVE_DOC, DRAFT_DOC, CANDIDATE_DOC] else [ACTIVE_DOC])"

definition joined_rows :: "memory \<Rightarrow> search_row list" where
  "joined_rows db =
     concat (map (\<lambda>d. map (\<lambda>s. \<lparr>row_doc = d, row_store = s\<rparr>)
       (filter (\<lambda>s. store_id s = doc_store d) (stores db))) (documents db))"

lemma order_by_set [simp]: "set (order_by le xs) = set xs"
proof -
  have ins: "set (insert_by le x ys) = insert x (set ys)" for x ys
    by (induction ys) auto
  show ?thesis
    by (induction xs) (auto simp: order_by_def ins)
qed

end
