(* ===== verification/MemoryPolicy.thy ===== *)
theory MemoryPolicy
  imports MemoryTables
begin

text \<open>
  \<open>memory/policy.py\<close>: who may read and write a store. \<open>requires_review\<close> is always false in
  these decisions and is left out.
\<close>

record memory_decision =
  allowed :: bool
  decision_reason :: string
  effective_access :: access_mode

definition decide :: "bool \<Rightarrow> string \<Rightarrow> access_mode \<Rightarrow> memory_decision" where
  "decide ok why mode = \<lparr>allowed = ok, decision_reason = why, effective_access = mode\<rparr>"

abbreviation no_access :: "string \<Rightarrow> memory_decision" where
  "no_access why \<equiv> decide False why READ_ONLY"

definition WORKSPACE_READ_ONLY_SLUGS :: "string list" where
  "WORKSPACE_READ_ONLY_SLUGS = [''workspace_conventions'', ''workspace_runbooks'']"

definition other_owner :: "string option \<Rightarrow> memory_store \<Rightarrow> bool" where
  "other_owner user store \<longleftrightarrow> owner_user store \<noteq> None \<and> owner_user store \<noteq> user"

definition resolve_read :: "string option \<Rightarrow> memory_store \<Rightarrow> memory_decision" where
  "resolve_read user store =
     (if store_archived_at store \<noteq> None then no_access ''Store is archived''
      else case scope store of
        WORKSPACE \<Rightarrow>
          (if user = None then
             decide (slug store = ''workspace_conventions'')
               (if slug store = ''workspace_conventions'' then ''Public workspace convention''
                else ''Unauthenticated access'') READ_ONLY
           else decide True ''Authenticated user can read workspace stores'' READ_ONLY)
      | USER \<Rightarrow>
          (if user = None then no_access ''Unauthenticated cannot read user memory''
           else if other_owner user store then
             no_access (''Cannot read another user'' @ [CHR 0x27] @ ''s memory'')
           else decide True ''User owns this store'' READ_WRITE)
      | CONVERSATION \<Rightarrow>
          (if user = None then no_access ''Unauthenticated cannot access conversation memory''
           else decide True ''Authenticated user can read conversation memory'' READ_WRITE))"

definition resolve_write ::
  "string option \<Rightarrow> memory_store \<Rightarrow> document_type option \<Rightarrow> memory_decision" where
  "resolve_write user store dtype =
     (if store_archived_at store \<noteq> None then no_access ''Store is archived''
      else if slug store \<in> set WORKSPACE_READ_ONLY_SLUGS then
        no_access (''Store '' @ quoted (slug store)
          @ '' is read-only. Use memory_propose_promotion to suggest changes.'')
      else case scope store of
        WORKSPACE \<Rightarrow> no_access ''Workspace stores require admin write access''
      | CONVERSATION \<Rightarrow>
          (if user = None then no_access ''Unauthenticated cannot write conversation memory''
           else decide True ''Agent can write conversation memory'' READ_WRITE)
      | USER \<Rightarrow>
          (if user = None then no_access ''Unauthenticated cannot write user memory''
           else if other_owner user store then
             no_access (''Cannot write to another user'' @ [CHR 0x27] @ ''s memory store'')
           else if dtype \<noteq> Some USER_PREFERENCE then
             no_access (''Agent can only write user_preference to user_memory; got ''
               @ (case dtype of None \<Rightarrow> ''None'' | Some t \<Rightarrow> document_type_value t))
           else decide True ''Agent can write user preferences'' READ_WRITE))"

definition resolve_admin_write :: "bool \<Rightarrow> memory_store \<Rightarrow> memory_decision" where
  "resolve_admin_write is_admin store =
     (if \<not> is_admin then no_access ''Admin role required for direct store write''
      else decide True ''Admin write permitted'' READ_WRITE)"

definition can_delete :: "bool \<Rightarrow> memory_decision" where
  "can_delete is_admin =
     (if is_admin then decide True ''Admin can delete'' READ_WRITE
      else no_access ''Only admins can delete memory documents'')"

definition can_redact :: "bool \<Rightarrow> memory_decision" where
  "can_redact is_admin =
     (if is_admin then decide True ''Admin can redact versions'' READ_WRITE
      else no_access ''Only admins can redact memory versions'')"

lemma allowed_decide [simp]: "allowed (decide ok why mode) = ok"
  by (simp add: decide_def)

subsection \<open>What the policy admits\<close>

lemma resolve_read_allowed_iff:
  "allowed (resolve_read user store) \<longleftrightarrow>
     store_archived_at store = None
     \<and> (scope store = WORKSPACE \<and> (user \<noteq> None \<or> slug store = ''workspace_conventions'')
        \<or> scope store = USER \<and> user \<noteq> None \<and> \<not> other_owner user store
        \<or> scope store = CONVERSATION \<and> user \<noteq> None)"
  by (cases "scope store") (auto simp: resolve_read_def)

lemma resolve_write_allowed_iff:
  "allowed (resolve_write user store dtype) \<longleftrightarrow>
     store_archived_at store = None \<and> slug store \<notin> set WORKSPACE_READ_ONLY_SLUGS \<and> user \<noteq> None
     \<and> (scope store = CONVERSATION
        \<or> scope store = USER \<and> \<not> other_owner user store \<and> dtype = Some USER_PREFERENCE)"
  by (cases "scope store") (auto simp: resolve_write_def)

text \<open>What the agent may write it may read.\<close>

lemma write_implies_read:
  "allowed (resolve_write user store dtype) \<Longrightarrow> allowed (resolve_read user store)"
  by (auto simp: resolve_write_allowed_iff resolve_read_allowed_iff)

end
