(* ===== verification/Regex.thy ===== *)
theory Regex
  imports PyBase
begin

text \<open>
  The part of Python's \<open>re\<close> the sources use: patterns as a datatype and the backtracking
  matcher as a list of the positions a match can end at, the preferred one first (greedy
  repetition, left alternative first), which is the order \<open>re\<close> tries them in. A position is the
  character before it and the text from it on. Every repeated part of a pattern used here
  consumes a character, so the length of the text bounds the repetitions.
\<close>

type_synonym pos = "char option \<times> string"

datatype re =
    Eps
  | Cls "char \<Rightarrow> bool"
  | Seq re re
  | Alt re re
  | Rep nat "nat option" re
  | Not_behind "char \<Rightarrow> bool"
  | Not_ahead "char \<Rightarrow> bool"
  | Word_boundary

primrec iterate :: "nat \<Rightarrow> (pos \<Rightarrow> pos list) \<Rightarrow> pos \<Rightarrow> pos list" where
  "iterate 0 f p = [p]"
| "iterate (Suc n) f p = concat (map (iterate n f) (f p))"

primrec greedy :: "nat \<Rightarrow> (pos \<Rightarrow> pos list) \<Rightarrow> pos \<Rightarrow> pos list" where
  "greedy 0 f p = [p]"
| "greedy (Suc n) f p = concat (map (greedy n f) (f p)) @ [p]"

definition word_char :: "char \<Rightarrow> bool" where
  "word_char c \<longleftrightarrow> is_alnum c \<or> c = CHR ''_''"

definition at_word_boundary :: "pos \<Rightarrow> bool" where
  "at_word_boundary p \<longleftrightarrow>
     (case fst p of None \<Rightarrow> False | Some c \<Rightarrow> word_char c)
     \<noteq> (case snd p of [] \<Rightarrow> False | c # cs \<Rightarrow> word_char c)"

primrec re_run :: "re \<Rightarrow> pos \<Rightarrow> pos list" where
  "re_run Eps p = [p]"
| "re_run (Cls f) p = (case snd p of [] \<Rightarrow> [] | c # cs \<Rightarrow> if f c then [(Some c, cs)] else [])"
| "re_run (Seq a b) p = concat (map (re_run b) (re_run a p))"
| "re_run (Alt a b) p = re_run a p @ re_run b p"
| "re_run (Rep n m a) p =
     concat (map (greedy (case m of None \<Rightarrow> length (snd p) | Some k \<Rightarrow> k - n) (re_run a))
       (iterate n (re_run a) p))"
| "re_run (Not_behind f) p = (case fst p of None \<Rightarrow> [p] | Some c \<Rightarrow> if f c then [] else [p])"
| "re_run (Not_ahead f) p = (case snd p of [] \<Rightarrow> [p] | c # cs \<Rightarrow> if f c then [] else [p])"
| "re_run Word_boundary p = (if at_word_boundary p then [p] else [])"

text \<open>\<open>re.match\<close>, \<open>re.search\<close>, and the first group of every match \<open>finditer\<close> yields.\<close>

definition match_at_start :: "re \<Rightarrow> string \<Rightarrow> bool" where
  "match_at_start r s \<longleftrightarrow> re_run r (None, s) \<noteq> []"

fun search_from :: "re \<Rightarrow> char option \<Rightarrow> string \<Rightarrow> bool" where
  "search_from r b [] = (re_run r (b, []) \<noteq> [])"
| "search_from r b (c # cs) = (re_run r (b, c # cs) \<noteq> [] \<or> search_from r (Some c) cs)"

definition re_search :: "re \<Rightarrow> string \<Rightarrow> bool" where
  "re_search r s = search_from r None s"

definition group_matches :: "re \<Rightarrow> re \<Rightarrow> re \<Rightarrow> pos \<Rightarrow> (string \<times> pos) list" where
  "group_matches before grp after p =
     concat (map (\<lambda>q. concat (map (\<lambda>r. map (\<lambda>e. (take (length (snd q) - length (snd r)) (snd q), e))
       (re_run after r)) (re_run grp q))) (re_run before p))"

fun find_groups :: "nat \<Rightarrow> re \<Rightarrow> re \<Rightarrow> re \<Rightarrow> pos \<Rightarrow> string list" where
  "find_groups 0 before grp after p = []"
| "find_groups (Suc n) before grp after p =
     (case group_matches before grp after p of
        (g, e) # _ \<Rightarrow> g # find_groups n before grp after e
      | [] \<Rightarrow> (case snd p of [] \<Rightarrow> [] | c # cs \<Rightarrow> find_groups n before grp after (Some c, cs)))"

definition re_groups :: "re \<Rightarrow> re \<Rightarrow> re \<Rightarrow> string \<Rightarrow> string list" where
  "re_groups before grp after s = find_groups (Suc (length s)) before grp after (None, s)"

subsection \<open>Character classes and literals\<close>

definition any_char :: "char \<Rightarrow> bool" where
  "any_char c = True"

definition one_of :: "string \<Rightarrow> char \<Rightarrow> bool" where
  "one_of cs c \<longleftrightarrow> c \<in> set cs"

definition none_of :: "string \<Rightarrow> char \<Rightarrow> bool" where
  "none_of cs c \<longleftrightarrow> c \<notin> set cs"

primrec lit :: "string \<Rightarrow> re" where
  "lit [] = Eps"
| "lit (c # cs) = Seq (Cls (\<lambda>x. x = c)) (lit cs)"

text \<open>A literal under \<open>re.IGNORECASE\<close>, written in lower case.\<close>

primrec lit_i :: "string \<Rightarrow> re" where
  "lit_i [] = Eps"
| "lit_i (c # cs) = Seq (Cls (\<lambda>x. char_lower x = c)) (lit_i cs)"

primrec seqs :: "re list \<Rightarrow> re" where
  "seqs [] = Eps"
| "seqs (r # rs) = Seq r (seqs rs)"

fun alts :: "re list \<Rightarrow> re" where
  "alts [] = Eps"
| "alts [r] = r"
| "alts (r # s # rs) = Alt r (alts (s # rs))"

definition exactly :: "nat \<Rightarrow> (char \<Rightarrow> bool) \<Rightarrow> re" where
  "exactly n f = Rep n (Some n) (Cls f)"

definition at_least :: "nat \<Rightarrow> (char \<Rightarrow> bool) \<Rightarrow> re" where
  "at_least n f = Rep n None (Cls f)"

definition between :: "nat \<Rightarrow> nat \<Rightarrow> (char \<Rightarrow> bool) \<Rightarrow> re" where
  "between n m f = Rep n (Some m) (Cls f)"

subsection \<open>What a match is\<close>

text \<open>Every position the matcher returns is reached by reading a part of the text.\<close>

definition reads :: "pos \<Rightarrow> pos \<Rightarrow> bool" where
  "reads p q \<longleftrightarrow> (\<exists>u. snd p = u @ snd q \<and> fst q = (if u = [] then fst p else Some (last u)))"

lemma reads_refl: "reads p p"
  by (simp add: reads_def)

lemma reads_trans:
  assumes "reads p q" and "reads q r" shows "reads p r"
proof -
  obtain u v where u: "snd p = u @ snd q" "fst q = (if u = [] then fst p else Some (last u))"
    and v: "snd q = v @ snd r" "fst r = (if v = [] then fst q else Some (last v))"
    using assms by (auto simp: reads_def)
  have "snd p = (u @ v) @ snd r" using u(1) v(1) by simp
  moreover have "fst r = (if u @ v = [] then fst p else Some (last (u @ v)))"
    using u(2) v(2) by simp
  ultimately show ?thesis unfolding reads_def by blast
qed

lemma iterate_reads:
  assumes "\<And>p q. q \<in> set (f p) \<Longrightarrow> reads p q"
  shows "q \<in> set (iterate n f p) \<Longrightarrow> reads p q"
proof (induction n arbitrary: p)
  case (Suc n)
  then obtain r where "r \<in> set (f p)" "q \<in> set (iterate n f r)" by auto
  then show ?case using assms Suc.IH reads_trans by blast
qed (simp add: reads_refl)

lemma greedy_reads:
  assumes "\<And>p q. q \<in> set (f p) \<Longrightarrow> reads p q"
  shows "q \<in> set (greedy n f p) \<Longrightarrow> reads p q"
proof (induction n arbitrary: p)
  case (Suc n)
  then consider "q = p" | r where "r \<in> set (f p)" "q \<in> set (greedy n f r)" by auto
  then show ?case using assms Suc.IH reads_trans reads_refl by cases blast+
qed (simp add: reads_refl)

lemma re_run_reads: "q \<in> set (re_run r p) \<Longrightarrow> reads p q"
proof (induction r arbitrary: p q)
  case (Cls f)
  then have "\<exists>c cs. snd p = c # cs \<and> q = (Some c, cs)"
    by (cases "snd p") (auto split: if_splits)
  then obtain c cs where "snd p = c # cs" "q = (Some c, cs)" by blast
  then have "snd p = [c] @ snd q" "fst q = Some (last [c])" by simp_all
  then show ?case unfolding reads_def by (metis list.distinct(1))
next
  case (Seq a b)
  then obtain r where "r \<in> set (re_run a p)" "q \<in> set (re_run b r)" by auto
  then show ?case using Seq.IH reads_trans by blast
next
  case (Rep n m a)
  then obtain r k where "r \<in> set (iterate n (re_run a) p)" "q \<in> set (greedy k (re_run a) r)" by auto
  then have "reads p r" "reads r q"
    using iterate_reads[of "re_run a"] greedy_reads[of "re_run a"] Rep.IH by blast+
  then show ?case by (rule reads_trans)
qed (auto simp: reads_refl split: option.splits list.splits if_splits)

text \<open>\<open>re.search\<close> finds nothing exactly if the pattern matches at no position of the text.\<close>

lemma search_from_iff:
  "search_from r b s \<longleftrightarrow> (\<exists>p. reads (b, s) p \<and> re_run r p \<noteq> [])"
proof (induction s arbitrary: b)
  case Nil
  have "reads (b, []) p \<longleftrightarrow> p = (b, [])" for p
    by (cases p) (auto simp: reads_def)
  then show ?case by auto
next
  case (Cons c cs)
  have "reads (b, c # cs) p \<longleftrightarrow> p = (b, c # cs) \<or> reads (Some c, cs) p" for p
  proof
    assume "reads (b, c # cs) p"
    then obtain u where u: "c # cs = u @ snd p" "fst p = (if u = [] then b else Some (last u))"
      by (auto simp: reads_def)
    show "p = (b, c # cs) \<or> reads (Some c, cs) p"
    proof (cases u)
      case Nil
      then show ?thesis using u by (cases p) simp
    next
      case (Cons d v)
      then have "cs = v @ snd p" "fst p = (if v = [] then Some c else Some (last v))"
        using u by auto
      then show ?thesis unfolding reads_def by auto
    qed
  next
    assume "p = (b, c # cs) \<or> reads (Some c, cs) p"
    moreover have "reads (b, c # cs) (Some c, cs)"
      unfolding reads_def by (rule exI[of _ "[c]"]) simp
    ultimately show "reads (b, c # cs) p" by (auto intro: reads_refl reads_trans)
  qed
  then show ?case using Cons.IH by auto
qed

end
