(* ===== verification/MemorySafety.thy ===== *)
theory MemorySafety
  imports Complex_Main Config MemoryBase Regex
begin

text \<open>
  \<open>memory/safety.py\<close>: the scanner every agent write to the memory passes. The entropy of a
  token is a real number in the source; the test against the threshold is computed in integers
  here, and \<open>high_entropy_iff\<close> says that it is the same test.
\<close>

subsection \<open>Severities\<close>

datatype severity = SEV_NONE | SEV_LOW | SEV_MEDIUM | SEV_HIGH | SEV_CRITICAL

fun severity_rank :: "severity \<Rightarrow> nat" where
  "severity_rank SEV_NONE = 0"
| "severity_rank SEV_LOW = 1"
| "severity_rank SEV_MEDIUM = 2"
| "severity_rank SEV_HIGH = 3"
| "severity_rank SEV_CRITICAL = 4"

fun severity_value :: "severity \<Rightarrow> string" where
  "severity_value SEV_NONE = ''none''"
| "severity_value SEV_LOW = ''low''"
| "severity_value SEV_MEDIUM = ''medium''"
| "severity_value SEV_HIGH = ''high''"
| "severity_value SEV_CRITICAL = ''critical''"

instantiation severity :: linorder
begin

definition less_eq_severity :: "severity \<Rightarrow> severity \<Rightarrow> bool" where
  "less_eq_severity a b \<longleftrightarrow> severity_rank a \<le> severity_rank b"

definition less_severity :: "severity \<Rightarrow> severity \<Rightarrow> bool" where
  "less_severity a b \<longleftrightarrow> severity_rank a < severity_rank b"

instance
proof
  fix a b :: severity
  show "a \<le> b \<Longrightarrow> b \<le> a \<Longrightarrow> a = b"
    by (cases a; cases b) (simp_all add: less_eq_severity_def)
qed (auto simp: less_eq_severity_def less_severity_def)

end

record safety_finding =
  pattern_name :: string
  finding_severity :: severity
  finding_description :: string

record safety_result =
  scan_allowed :: bool
  scan_findings :: "safety_finding list"
  scan_severity :: severity

subsection \<open>Secret patterns\<close>

abbreviation upper_digit :: "char \<Rightarrow> bool" where
  "upper_digit \<equiv> one_of (upper_letters @ digit_chars)"

abbreviation letters_digits :: string where
  "letters_digits \<equiv> upper_letters @ lower_letters @ digit_chars"

definition quote_opt :: re where
  "quote_opt = between 0 1 (one_of [CHR 0x22, CHR 0x27])"

definition jwt_part :: re where
  "jwt_part = at_least 10 (one_of (letters_digits @ ''_-''))"

definition SECRET_PATTERNS :: "(string \<times> re \<times> severity \<times> string) list" where
  "SECRET_PATTERNS =
     [(''aws_access_key'',
       seqs [Not_behind upper_digit, alts [lit ''AKIA'', lit ''ABIA'', lit ''ACCA'', lit ''ASIA''],
             exactly 16 upper_digit, Not_ahead upper_digit],
       SEV_CRITICAL, ''AWS access key ID''),
      (''aws_secret_key'',
       seqs [lit_i ''aws'', between 0 20 any_char, lit_i ''secret'', between 0 20 any_char, quote_opt,
             exactly 40 (one_of (letters_digits @ ''/+'')), quote_opt],
       SEV_CRITICAL, ''AWS secret access key''),
      (''github_token'',
       Alt (Seq (lit ''ghp_'') (exactly 36 (one_of letters_digits)))
           (Seq (lit ''github_pat_'') (exactly 82 (one_of (letters_digits @ ''_'')))),
       SEV_CRITICAL, ''GitHub personal access token''),
      (''private_key_block'',
       seqs [lit ''-----BEGIN '',
             Rep 0 (Some 1) (alts [lit ''RSA '', lit ''EC '', lit ''DSA '', lit ''OPENSSH '']),
             lit ''PRIVATE KEY-----''],
       SEV_CRITICAL, ''Private key block''),
      (''slack_token'',
       seqs [lit ''xox'', Cls (one_of ''baprs''), lit ''-'', between 10 13 is_digit, lit ''-'',
             between 10 13 is_digit, lit ''-'', between 24 34 (one_of letters_digits)],
       SEV_CRITICAL, ''Slack token''),
      (''jwt_token'', seqs [lit ''eyJ'', jwt_part, lit ''.'', jwt_part, lit ''.'', jwt_part],
       SEV_HIGH, ''JWT token''),
      (''kubernetes_sa_token'', lit ''eyJhbGciOiJSUzI1NiIsImtpZCI6'',
       SEV_CRITICAL, ''Kubernetes service account token''),
      (''basic_auth_header'',
       seqs [lit_i ''authorization:'', at_least 0 is_space, lit_i ''basic'', at_least 1 is_space,
             at_least 16 (one_of (letters_digits @ ''+/'')), between 0 2 (one_of ''='')],
       SEV_CRITICAL, ''Basic auth header''),
      (''bearer_token'',
       seqs [lit_i ''authorization:'', at_least 0 is_space, lit_i ''bearer'', at_least 1 is_space,
             at_least 20 (one_of (letters_digits @ ''._-''))],
       SEV_HIGH, ''Bearer token in Authorization header''),
      (''database_url_with_password'',
       seqs [alts [lit_i ''postgres'', lit_i ''mysql'', lit_i ''mongodb'', lit_i ''redis'', lit_i ''postgresql''],
             lit ''://'', at_least 1 (none_of '':''), lit '':'', at_least 8 (none_of ''@''), lit ''@''],
       SEV_CRITICAL, ''Database URL with embedded password''),
      (''kubeconfig_block'',
       seqs [lit ''apiVersion:'', at_least 0 is_space, lit ''v1'', at_least 0 is_space,
             at_least 1 (one_of [CHR 0x0D, CHR 0x0A]), at_least 0 any_char, lit ''kind:'',
             at_least 0 is_space, lit ''Config''],
       SEV_CRITICAL, ''Kubeconfig block''),
      (''jenkins_api_token'',
       seqs [lit_i ''jenkins'', between 0 20 any_char, lit_i ''token'', between 0 20 any_char,
             at_least 32 (one_of (digit_chars @ ''ABCDEFabcdef''))],
       SEV_HIGH, ''Jenkins API token''),
      (''generic_api_key'',
       seqs [alts [seqs [lit_i ''api'', between 0 1 (one_of ''_-''), lit_i ''key''],
                   seqs [lit_i ''api'', between 0 1 (one_of ''_-''), lit_i ''secret''],
                   seqs [lit_i ''secret'', between 0 1 (one_of ''_-''), lit_i ''key'']],
             at_least 0 is_space, Cls (one_of '':=''), at_least 0 is_space, quote_opt,
             at_least 20 (one_of (letters_digits @ ''_-.'')), quote_opt],
       SEV_MEDIUM, ''Generic API key assignment'')]"

definition INJECTION_PHRASES :: "string list" where
  "INJECTION_PHRASES =
     [''ignore previous instructions'', ''ignore all instructions'', ''system prompt'',
      ''developer message'', ''do not verify'', ''skip approval'', ''disable approval'',
      ''run without asking'', ''exfiltrate'', ''print secrets'', ''base64 decode this command'',
      ''you are now'', ''pretend you are'', ''forget everything'', ''disregard all'']"

subsection \<open>Entropy\<close>

definition HIGH_ENTROPY_MIN_LEN :: nat where
  "HIGH_ENTROPY_MIN_LEN = 40"

definition HIGH_ENTROPY_THRESHOLD :: real where
  "HIGH_ENTROPY_THRESHOLD = 24 / 5"

definition shannon_entropy :: "string \<Rightarrow> real" where
  "shannon_entropy s =
     (if s = [] then 0
      else - (\<Sum>c \<leftarrow> remdups s. real (count_list s c) / real (length s)
                * log 2 (real (count_list s c) / real (length s))))"

definition high_entropy :: "string \<Rightarrow> bool" where
  "high_entropy s \<longleftrightarrow> s \<noteq> []
     \<and> 2 ^ (24 * length s) * prod_list (map (\<lambda>c. count_list s c ^ (5 * count_list s c)) (remdups s))
       \<le> length s ^ (5 * length s)"

definition has_high_entropy_string :: "string \<Rightarrow> string option" where
  "has_high_entropy_string content =
     (case filter high_entropy
        (re_groups Eps (at_least HIGH_ENTROPY_MIN_LEN (one_of (letters_digits @ ''+/=_-.''))) Eps content) of
        [] \<Rightarrow> None
      | t # _ \<Rightarrow> Some (take 20 t @ ''...''))"

lemma sum_list_count: "(\<Sum>c \<leftarrow> remdups s. count_list s c) = length s"
  by (simp add: sum_list_distinct_conv_sum_set sum_count_set)

lemma real_sum_list: "real (\<Sum>x \<leftarrow> xs. f x) = (\<Sum>x \<leftarrow> xs. real (f x))"
  by (induction xs) simp_all

lemma log2_prod_list:
  "(\<And>x. x \<in> set xs \<Longrightarrow> 0 < f x) \<Longrightarrow>
     log 2 (real (prod_list (map f xs))) = (\<Sum>x \<leftarrow> xs. log 2 (real (f x)))"
proof (induction xs)
  case (Cons x xs)
  have "0 < prod_list (map f xs)"
    using Cons.prems by (induction xs) auto
  then show ?case using Cons by (simp add: log_mult)
qed simp

lemma entropy_sum:
  assumes "s \<noteq> []"
  shows "real (length s) * shannon_entropy s =
     real (length s) * log 2 (real (length s))
     - (\<Sum>c \<leftarrow> remdups s. real (count_list s c) * log 2 (real (count_list s c)))"
proof -
  let ?n = "real (length s)" and ?k = "\<lambda>c. real (count_list s c)"
  have n: "?n > 0" using assms by simp
  have k: "?k c > 0" if "c \<in> set s" for c
    using that by (metis count_list_0_iff neq0_conv of_nat_0_less_iff)
  have eq: "?n * (?k c / ?n * log 2 (?k c / ?n)) = ?k c * log 2 (?k c) - ?k c * log 2 ?n"
    if "c \<in> set s" for c
    using n k[OF that] by (simp add: log_divide right_diff_distrib)
  have "?n * shannon_entropy s = - (\<Sum>c \<leftarrow> remdups s. ?n * (?k c / ?n * log 2 (?k c / ?n)))"
    using assms by (simp only: shannon_entropy_def if_False sum_list_const_mult)
  also have "\<dots> = - (\<Sum>c \<leftarrow> remdups s. ?k c * log 2 (?k c) - ?k c * log 2 ?n)"
    by (rule arg_cong[where f = "\<lambda>xs. - sum_list xs"], rule map_cong) (simp_all only: set_remdups eq)
  also have "\<dots> = (\<Sum>c \<leftarrow> remdups s. ?k c) * log 2 ?n - (\<Sum>c \<leftarrow> remdups s. ?k c * log 2 (?k c))"
    by (simp add: sum_list_subtractf sum_list_mult_const)
  also have "(\<Sum>c \<leftarrow> remdups s. ?k c) = ?n"
    by (simp only: real_sum_list[symmetric] sum_list_count)
  finally show ?thesis .
qed

lemma high_entropy_iff:
  "high_entropy s \<longleftrightarrow> s \<noteq> [] \<and> HIGH_ENTROPY_THRESHOLD \<le> shannon_entropy s"
proof (cases "s = []")
  case False
  let ?n = "length s" and ?k = "count_list s"
  let ?p = "prod_list (map (\<lambda>c. ?k c ^ (5 * ?k c)) (remdups s))"
  have n: "0 < ?n" using False by simp
  have k: "0 < ?k c" if "c \<in> set (remdups s)" for c
    using that by (simp add: count_list_0_iff flip: neq0_conv)
  have "?p \<noteq> 0" by (auto simp: prod_list_zero_iff count_list_0_iff)
  then have p: "0 < ?p" by simp
  have lp: "log 2 (real ?p) = 5 * (\<Sum>c \<leftarrow> remdups s. real (?k c) * log 2 (real (?k c)))"
    using log2_prod_list[of "remdups s" "\<lambda>c. ?k c ^ (5 * ?k c)"] k
    by (simp add: log_nat_power sum_list_const_mult mult.assoc cong: map_cong)
  have "high_entropy s \<longleftrightarrow> real (2 ^ (24 * ?n) * ?p) \<le> real (?n ^ (5 * ?n))"
    using False by (simp only: high_entropy_def of_nat_le_iff not_False_eq_True simp_thms)
  also have "\<dots> \<longleftrightarrow> log 2 (real (2 ^ (24 * ?n) * ?p)) \<le> log 2 (real (?n ^ (5 * ?n)))"
    using n p by (subst log_le_cancel_iff) simp_all
  also have "\<dots> \<longleftrightarrow> 24 * real ?n + log 2 (real ?p) \<le> 5 * real ?n * log 2 (real ?n)"
    using n p by (simp add: log_mult log_nat_power)
  also have "\<dots> \<longleftrightarrow> real ?n * HIGH_ENTROPY_THRESHOLD \<le> real ?n * shannon_entropy s"
    unfolding lp entropy_sum[OF False] HIGH_ENTROPY_THRESHOLD_def by (auto simp: algebra_simps)
  also have "\<dots> \<longleftrightarrow> HIGH_ENTROPY_THRESHOLD \<le> shannon_entropy s"
    using n by simp
  finally show ?thesis using False by simp
qed (simp add: high_entropy_def)

subsection \<open>The scan\<close>

definition is_line_break :: "char \<Rightarrow> bool" where
  "is_line_break = one_of [CHR 0x0A, CHR 0x0B, CHR 0x0C, CHR 0x0D, CHR 0x1C, CHR 0x1D, CHR 0x1E, CHR 0x85]"

text \<open>\<open>str.splitlines\<close>: a carriage return and the line feed after it are one break.\<close>

definition drop_lf :: "char \<Rightarrow> string \<Rightarrow> string" where
  "drop_lf c cs = (if c = CHR 0x0D \<and> starts_with cs [CHR 0x0A] then tl cs else cs)"

lemma drop_lf_length [termination_simp]: "length (drop_lf c cs) < Suc (length cs)"
  by (simp add: drop_lf_def less_Suc_eq_le)

fun split_lines :: "string \<Rightarrow> string \<Rightarrow> string list" where
  "split_lines cur [] = (if cur = [] then [] else [rev cur])"
| "split_lines cur (c # cs) =
     (if is_line_break c then rev cur # split_lines [] (drop_lf c cs) else split_lines (c # cur) cs)"

definition py_splitlines :: "string \<Rightarrow> string list" where
  "py_splitlines s = split_lines [] s"

definition log_line_re :: re where
  "log_line_re = alts
     [seqs [exactly 4 is_digit, lit ''-'', exactly 2 is_digit, lit ''-'', exactly 2 is_digit],
      seqs [lit ''['', exactly 2 is_digit, lit '':'', exactly 2 is_digit, lit '':'', exactly 2 is_digit, lit '']''],
      seqs [at_least 1 (one_of upper_letters), lit '' '', exactly 4 is_digit],
      seqs [lit ''level='', alts [lit ''info'', lit ''warn'', lit ''error'', lit ''debug'']]]"

definition MAX_RAW_LOG_LINES :: nat where
  "MAX_RAW_LOG_LINES = 30"

definition log_line_count :: "string \<Rightarrow> nat" where
  "log_line_count content =
     length (filter (\<lambda>l. match_at_start log_line_re (py_strip l)) (py_splitlines content))"

definition finding :: "string \<Rightarrow> severity \<Rightarrow> string \<Rightarrow> safety_finding" where
  "finding n sev d = \<lparr>pattern_name = n, finding_severity = sev, finding_description = d\<rparr>"

definition refuse :: "safety_finding list \<Rightarrow> severity \<Rightarrow> safety_result" where
  "refuse fs sev = \<lparr>scan_allowed = False, scan_findings = fs, scan_severity = sev\<rparr>"

definition size_findings :: "settings \<Rightarrow> string \<Rightarrow> safety_finding list" where
  "size_findings S content =
     (if MEMORY_MAX_WRITE_BYTES S < int (length content)
      then [finding ''document_large'' SEV_MEDIUM
              (''Document exceeds soft limit of '' @ int_str (MEMORY_MAX_WRITE_BYTES S)
               @ '' bytes. Consider summarizing.'')]
      else [])"

definition secret_findings :: "string \<Rightarrow> safety_finding list" where
  "secret_findings content =
     map (\<lambda>(n, r, sev, d). finding n sev d) (filter (\<lambda>(n, r, sev, d). re_search r content) SECRET_PATTERNS)"

definition entropy_findings :: "string \<Rightarrow> safety_finding list" where
  "entropy_findings content =
     (case has_high_entropy_string content of
        None \<Rightarrow> []
      | Some m \<Rightarrow> [finding ''high_entropy_string'' SEV_MEDIUM
                     (''High-entropy string detected (may be a token or key): '' @ m)])"

definition injection_findings :: "string \<Rightarrow> safety_finding list" where
  "injection_findings content =
     map (\<lambda>p. finding ''prompt_injection'' SEV_HIGH (''Possible prompt injection phrase: '' @ quoted p))
       (filter (contains_str (py_lower content)) INJECTION_PHRASES)"

definition overall_severity :: "severity \<Rightarrow> safety_finding list \<Rightarrow> severity" where
  "overall_severity start fs =
     fold (\<lambda>f sev. if sev < finding_severity f then finding_severity f else sev) fs start"

definition scan :: "settings \<Rightarrow> string \<Rightarrow> bool \<Rightarrow> safety_result" where
  "scan S content is_conversation =
     (if MEMORY_MAX_DOCUMENT_BYTES S < int (length content) then
        refuse [finding ''document_too_large'' SEV_CRITICAL
          (''Document exceeds hard limit of '' @ int_str (MEMORY_MAX_DOCUMENT_BYTES S) @ '' bytes (''
           @ nat_str (length content) @ '' bytes)'')] SEV_CRITICAL
      else if MAX_RAW_LOG_LINES < log_line_count content then
        refuse [finding ''raw_log_volume'' SEV_HIGH
          (''Content appears to be raw logs ('' @ nat_str (log_line_count content)
           @ '' log lines). Summarize the operational lesson instead.'')] SEV_HIGH
      else
        (let fs = size_findings S content @ secret_findings content @ entropy_findings content;
             start = (if size_findings S content = [] then SEV_NONE else SEV_MEDIUM);
             inj = injection_findings content
         in if list_ex (\<lambda>f. finding_severity f = SEV_CRITICAL) fs then refuse fs SEV_CRITICAL
            else if inj = [] then
              \<lparr>scan_allowed = True, scan_findings = fs, scan_severity = overall_severity start fs\<rparr>
            else if \<not> is_conversation then refuse (fs @ inj) SEV_HIGH
            else \<lparr>scan_allowed = True, scan_findings = fs @ inj, scan_severity = SEV_HIGH\<rparr>))"

definition scan_write :: "settings \<Rightarrow> string \<Rightarrow> scope_type \<Rightarrow> safety_result" where
  "scan_write S content scope = scan S content (scope = CONVERSATION)"

subsection \<open>What the scanner admits\<close>

definition critical_secret :: "string \<Rightarrow> bool" where
  "critical_secret content \<longleftrightarrow>
     (\<exists>(n, r, sev, d) \<in> set SECRET_PATTERNS. sev = SEV_CRITICAL \<and> re_search r content)"

lemma size_findings_medium: "f \<in> set (size_findings S content) \<Longrightarrow> finding_severity f = SEV_MEDIUM"
  by (auto simp: size_findings_def finding_def split: if_splits)

lemma entropy_findings_medium: "f \<in> set (entropy_findings content) \<Longrightarrow> finding_severity f = SEV_MEDIUM"
  by (auto simp: entropy_findings_def finding_def split: option.splits)

lemma critical_finding_iff:
  "list_ex (\<lambda>f. finding_severity f = SEV_CRITICAL)
     (size_findings S content @ secret_findings content @ entropy_findings content)
   \<longleftrightarrow> critical_secret content"
proof -
  have "list_ex (\<lambda>f. finding_severity f = SEV_CRITICAL) (secret_findings content) \<longleftrightarrow> critical_secret content"
    by (auto simp: list_ex_iff secret_findings_def critical_secret_def finding_def)
  then show ?thesis
    using size_findings_medium entropy_findings_medium by (auto simp: list_ex_iff)
qed

lemma injection_findings_Nil:
  "injection_findings content = [] \<longleftrightarrow> (\<forall>p \<in> set INJECTION_PHRASES. \<not> contains_str (py_lower content) p)"
  by (simp add: injection_findings_def filter_empty_conv)

lemma scan_write_allowed_iff:
  "scan_allowed (scan_write S content scope) \<longleftrightarrow>
     int (length content) \<le> MEMORY_MAX_DOCUMENT_BYTES S
     \<and> log_line_count content \<le> MAX_RAW_LOG_LINES
     \<and> \<not> critical_secret content
     \<and> (scope = CONVERSATION \<or> (\<forall>p \<in> set INJECTION_PHRASES. \<not> contains_str (py_lower content) p))"
  unfolding scan_write_def scan_def Let_def critical_finding_iff injection_findings_Nil[symmetric]
  by (simp add: refuse_def not_less)

end
