(* ===== verification/MemoryService.thy ===== *)
theory MemoryService
  imports MemoryPolicy MemorySafety
begin

text \<open>
  \<open>memory/service.py\<close>: versioned documents, and the entry points of the agent's memory tools.
  \<open>sha\<close> is SHA-256 in hexadecimal, \<open>uuid\<close> the constructor \<open>uuid.UUID\<close> read back as text. Where
  a method reads a row in one statement and writes it in a later transaction, \<open>env\<close> is what the
  other requests commit in between.
\<close>

subsection \<open>Stores\<close>

record store_create =
  sc_name :: string
  sc_slug :: string
  sc_description :: string
  sc_scope :: scope_type
  sc_trust :: trust_level
  sc_access :: access_mode
  sc_owner :: "string option"

record store_update =
  su_name :: "string option"
  su_description :: "string option"
  su_trust :: "trust_level option"
  su_access :: "access_mode option"

definition create_store :: "store_create \<Rightarrow> memory_store mem" where
  "create_store data =
     bindW fresh_id (\<lambda>sid.
       create_store_row
         \<lparr>store_id = sid, store_name = sc_name data, slug = sc_slug data,
          store_description = sc_description data, scope = sc_scope data, store_trust = sc_trust data,
          default_access = sc_access data, owner_user = sc_owner data, store_archived_at = None,
          store_created_at = 0, store_updated_at = 0\<rparr>)"

definition or_keep :: "'a option \<Rightarrow> 'a \<Rightarrow> 'a" where
  "or_keep v old = (case v of None \<Rightarrow> old | Some x \<Rightarrow> x)"

definition update_store :: "string \<Rightarrow> store_update \<Rightarrow> memory_store option mem" where
  "update_store sid data =
     bindW (get_store_by_id sid) (\<lambda>found. case found of
       None \<Rightarrow> ret None
     | Some s \<Rightarrow>
         bindW (save_store (s\<lparr>store_name := or_keep (su_name data) (store_name s),
             store_description := or_keep (su_description data) (store_description s),
             store_trust := or_keep (su_trust data) (store_trust s),
             default_access := or_keep (su_access data) (default_access s)\<rparr>))
           (\<lambda>s'. ret (Some s')))"

definition archive_store :: "string \<Rightarrow> memory_store option mem" where
  "archive_store sid =
     bindW (get_store_by_id sid) (\<lambda>found. case found of
       None \<Rightarrow> ret None
     | Some s \<Rightarrow> bindW (query mem_now) (\<lambda>now.
         bindW (save_store (s\<lparr>store_archived_at := Some now\<rparr>)) (\<lambda>s'. ret (Some s'))))"

subsection \<open>Documents\<close>

text \<open>
  \<open>MemoryWriteError\<close>: its reason and, for a conflict, the digest (and for a patch the excerpt) of
  the current content. It is raised before anything is written, so a value of the sum
  \<open>write_error + 'a\<close> stands for it.
\<close>

datatype write_error = Write_error (we_reason: string) (we_conflict: "dict option")

type_synonym 'a outcome = "write_error + 'a"

definition stale_reason :: string where
  "stale_reason = ''Stale SHA -- document was modified since last read''"

record document_create =
  dc_path :: string
  dc_title :: "string option"
  dc_content :: string
  dc_type :: document_type
  dc_status :: document_status
  dc_tags :: "string list"
  dc_entities :: dict
  dc_confidence :: int

record document_update =
  du_title :: "string option"
  du_content :: "string option"
  du_expected_sha :: string
  du_tags :: "string list option"
  du_entities :: "dict option"
  du_confidence :: "int option"
  du_status :: "document_status option"

definition new_document ::
  "(string \<Rightarrow> string) \<Rightarrow> string \<Rightarrow> memory_store \<Rightarrow> document_create \<Rightarrow> actor \<Rightarrow> memory_document" where
  "new_document sha did store data who =
     \<lparr>doc_id = did, doc_store = store_id store, doc_path = dc_path data, doc_title = dc_title data,
      doc_content = dc_content data, doc_sha = sha (dc_content data),
      doc_size = int (length (dc_content data)), doc_type = dc_type data, doc_status = dc_status data,
      doc_tags = dc_tags data, doc_entities = dc_entities data, doc_confidence = dc_confidence data,
      current_version = None, created_by_user = act_user who, created_by_run = act_run who,
      created_by_conversation = act_conversation who, doc_deleted_at = None,
      doc_created_at = 0, doc_updated_at = 0\<rparr>"

definition create_document ::
  "(string \<Rightarrow> string) \<Rightarrow> memory_store \<Rightarrow> document_create \<Rightarrow> actor \<Rightarrow> memory_document mem" where
  "create_document sha store data who =
     in_transaction
       (bindW fresh_id (\<lambda>did.
        bindW (create_document_row (new_document sha did store data who)) (\<lambda>d.
        bindW (create_version sha (store_id store) (Some (doc_id d)) (dc_path data) CREATE_OP
                 (Some (dc_content data)) who None) (\<lambda>v.
        save_document (d\<lparr>current_version := Some (ver_id v)\<rparr>)))))"

text \<open>The row lock of \<open>select_for_update\<close> lasts to the end of the transaction.\<close>

definition with_live_document ::
  "string \<Rightarrow> (memory_document \<Rightarrow> memory_document outcome mem) \<Rightarrow> memory_document outcome mem" where
  "with_live_document did f =
     bindW (get_document_by_id did) (\<lambda>found. case found of
       None \<Rightarrow> ret (Inl (Write_error (''Document '' @ did @ '' not found'') None))
     | Some d \<Rightarrow> f d)"

definition set_content :: "(string \<Rightarrow> string) \<Rightarrow> string \<Rightarrow> memory_document \<Rightarrow> memory_document" where
  "set_content sha c d = d\<lparr>doc_content := c, doc_sha := sha c, doc_size := int (length c)\<rparr>"

text \<open>Write a document whose content has been replaced: a version of it, then the row.\<close>

definition commit_version ::
  "(string \<Rightarrow> string) \<Rightarrow> memory_operation \<Rightarrow> actor \<Rightarrow> memory_document \<Rightarrow> memory_document mem" where
  "commit_version sha operation who d =
     bindW (create_version sha (doc_store d) (Some (doc_id d)) (doc_path d) operation
              (Some (doc_content d)) who (current_version d)) (\<lambda>v.
     save_document (d\<lparr>current_version := Some (ver_id v)\<rparr>))"

definition apply_document_update ::
  "(string \<Rightarrow> string) \<Rightarrow> document_update \<Rightarrow> memory_document \<Rightarrow> memory_document" where
  "apply_document_update sha data d =
     (set_content sha (or_keep (du_content data) (doc_content d)) d)
       \<lparr>doc_title := (case du_title data of None \<Rightarrow> doc_title d | Some t \<Rightarrow> Some t),
        doc_tags := or_keep (du_tags data) (doc_tags d),
        doc_entities := or_keep (du_entities data) (doc_entities d),
        doc_confidence := or_keep (du_confidence data) (doc_confidence d),
        doc_status := or_keep (du_status data) (doc_status d)\<rparr>"

definition update_document ::
  "(string \<Rightarrow> string) \<Rightarrow> string \<Rightarrow> document_update \<Rightarrow> actor \<Rightarrow> memory_document outcome mem" where
  "update_document sha did data who =
     in_transaction (with_live_document did (\<lambda>d.
       if doc_sha d \<noteq> du_expected_sha data then
         ret (Inl (Write_error stale_reason (Some [(''current_sha256'', JStr (doc_sha d))])))
       else bindW (commit_version sha UPDATE_OP who (apply_document_update sha data d))
         (\<lambda>d'. ret (Inr d'))))"

definition patch_document ::
  "(string \<Rightarrow> string) \<Rightarrow> string \<Rightarrow> string \<Rightarrow> string \<Rightarrow> actor \<Rightarrow> memory_document outcome mem" where
  "patch_document sha did expected content who =
     in_transaction (with_live_document did (\<lambda>d.
       if doc_sha d \<noteq> expected then
         ret (Inl (Write_error stale_reason
           (Some [(''current_sha256'', JStr (doc_sha d)),
                  (''latest_excerpt'', JStr (take 200 (doc_content d)))])))
       else bindW (commit_version sha PATCH_OP who (set_content sha content d))
         (\<lambda>d'. ret (Inr d'))))"

text \<open>\<open>delete_document\<close> runs outside a transaction: the row is read, a version written, the row saved.\<close>

definition user_actor :: "string option \<Rightarrow> actor" where
  "user_actor user = \<lparr>act_type = USER_ACTOR, act_user = user, act_run = None, act_conversation = None\<rparr>"

definition delete_document ::
  "(string \<Rightarrow> string) \<Rightarrow> (memory \<Rightarrow> memory) \<Rightarrow> (memory \<Rightarrow> memory) \<Rightarrow> string \<Rightarrow> string option \<Rightarrow> bool mem" where
  "delete_document sha env env' did user =
     bindW (get_document_by_id did) (\<lambda>found. case found of
       None \<Rightarrow> ret False
     | Some d \<Rightarrow>
         bindW (interleave env) (\<lambda>_.
         bindW (create_version sha (doc_store d) (Some (doc_id d)) (doc_path d) DELETE_OP None
                  (user_actor user) (current_version d)) (\<lambda>v.
         bindW (interleave env') (\<lambda>_.
         bindW (query mem_now) (\<lambda>now.
         bindW (save_document (d\<lparr>doc_deleted_at := Some now, doc_status := ARCHIVED_DOC,
                                 current_version := Some (ver_id v)\<rparr>)) (\<lambda>_.
         ret True))))))"

definition redact_version :: "string \<Rightarrow> string \<Rightarrow> string \<Rightarrow> memory_version option mem" where
  "redact_version vid admin why =
     bindW (query (\<lambda>db. find (\<lambda>v. ver_id v = vid) (versions db))) (\<lambda>found. case found of
       None \<Rightarrow> ret None
     | Some v \<Rightarrow>
         bindW (query mem_now) (\<lambda>now.
         bindW (save_version (v\<lparr>ver_redacted_at := Some now, ver_redacted_by := Some admin,
                  redaction_reason := Some why, ver_content := None, ver_sha := None\<rparr>)) (\<lambda>v'.
         ret (Some v'))))"

subsection \<open>The agent's write requests\<close>

record write_request =
  wr_slug :: string
  wr_path :: string
  wr_title :: "string option"
  wr_type :: document_type
  wr_content :: string
  wr_confidence :: int
  wr_tags :: "string list"
  wr_entities :: dict
  wr_calls :: "string list"
  wr_evidence :: string
  wr_expected_sha :: "string option"

record patch_request =
  pr_document :: string
  pr_expected_sha :: string
  pr_content :: string
  pr_summary :: string
  pr_calls :: "string list"
  pr_evidence :: string

record promote_request =
  pm_source :: string
  pm_store :: string
  pm_path :: string
  pm_reason :: string
  pm_risk :: risk_level
  pm_evidence :: string

definition error_dict :: "string \<Rightarrow> dict" where
  "error_dict msg = [(''error'', JBool True), (''message'', JStr msg)]"

definition blocked_dict :: "safety_result \<Rightarrow> dict" where
  "blocked_dict r =
     [(''error'', JBool True), (''blocked'', JBool True),
      (''severity'', JStr (severity_value (scan_severity r))),
      (''message'', JStr (''Content blocked by safety scanner: ''
         @ join_str ''; '' (map finding_description (scan_findings r))))]"

definition agent_actor :: "string option \<Rightarrow> string option \<Rightarrow> actor" where
  "agent_actor run conversation =
     \<lparr>act_type = AGENT_ACTOR, act_user = None, act_run = run, act_conversation = conversation\<rparr>"

definition agent_source_ref ::
  "string \<Rightarrow> string option \<Rightarrow> string \<Rightarrow> string list \<Rightarrow> string option \<Rightarrow> string option \<Rightarrow> unit mem" where
  "agent_source_ref did vid summary calls run conversation =
     (if summary = [] then ret ()
      else bindW (create_source_ref did vid summary
             (if calls = [] then INCIDENT_SUMMARY else TOOL_RESULT) conversation run
             (case calls of [] \<Rightarrow> None | c # cs \<Rightarrow> Some c) None) (\<lambda>_. ret ()))"

definition remembered :: "bool \<Rightarrow> string \<Rightarrow> string option \<Rightarrow> string \<Rightarrow> string \<Rightarrow> dict" where
  "remembered created did vid sl path =
     [(''created'', JBool created), (''updated'', JBool (\<not> created)), (''document_id'', JStr did),
      (''version_id'', JStr (case vid of None \<Rightarrow> ''None'' | Some v \<Rightarrow> v)),
      (''store_slug'', JStr sl), (''path'', JStr path)]"

definition remembered_document :: "(string \<Rightarrow> string) \<Rightarrow> write_request \<Rightarrow> memory_document \<Rightarrow> memory_document" where
  "remembered_document sha req d =
     (set_content sha (wr_content req) d)
       \<lparr>doc_confidence := wr_confidence req,
        doc_tags := (if wr_tags req = [] then doc_tags d else wr_tags req),
        doc_entities := (if wr_entities req = [] then doc_entities d else wr_entities req)\<rparr>"

definition remember_existing ::
  "(string \<Rightarrow> string) \<Rightarrow> (memory \<Rightarrow> memory) \<Rightarrow> write_request \<Rightarrow> string option \<Rightarrow> string option
     \<Rightarrow> memory_store \<Rightarrow> memory_document \<Rightarrow> dict mem" where
  "remember_existing sha env req run conversation store d =
     (if (case wr_expected_sha req of None \<Rightarrow> False | Some e \<Rightarrow> e \<noteq> [] \<and> doc_sha d \<noteq> e) then
        ret [(''error'', JBool True), (''type'', JStr ''memory_conflict''),
             (''message'', JStr (''Memory changed since last read. ''
                @ ''Re-read and retry with updated expected_sha256.'')),
             (''current_sha256'', JStr (doc_sha d))]
      else
        bindW (interleave env) (\<lambda>_.
        bindW (in_transaction (commit_version sha UPDATE_OP (agent_actor run conversation)
                 (remembered_document sha req d))) (\<lambda>d'.
        bindW (agent_source_ref (doc_id d') (current_version d') (wr_evidence req) (wr_calls req)
                 run conversation) (\<lambda>_.
        ret (remembered False (doc_id d') (current_version d') (slug store) (wr_path req))))))"

definition remember_new ::
  "(string \<Rightarrow> string) \<Rightarrow> write_request \<Rightarrow> string option \<Rightarrow> string option \<Rightarrow> memory_store \<Rightarrow> dict mem" where
  "remember_new sha req run conversation store =
     bindW (create_document sha store
        \<lparr>dc_path = wr_path req, dc_title = wr_title req, dc_content = wr_content req,
         dc_type = wr_type req,
         dc_status = (if scope store = WORKSPACE then DRAFT_DOC else ACTIVE_DOC),
         dc_tags = wr_tags req, dc_entities = wr_entities req, dc_confidence = wr_confidence req\<rparr>
        (agent_actor run conversation)) (\<lambda>d.
     bindW (agent_source_ref (doc_id d) (current_version d) (wr_evidence req) (wr_calls req)
              run conversation) (\<lambda>_.
     ret (remembered True (doc_id d) (current_version d) (slug store) (wr_path req))))"

text \<open>
  The guards of \<open>agent_remember\<close> in the source's order: store, policy, evidence, scanner.
\<close>

definition remember_refusal ::
  "settings \<Rightarrow> write_request \<Rightarrow> string option \<Rightarrow> memory_store \<Rightarrow> dict option" where
  "remember_refusal S req user store =
     (let policy = resolve_write user store (Some (wr_type req));
          safety = scan_write S (wr_content req) (scope store)
      in if \<not> allowed policy then Some (error_dict (''Policy denied: '' @ decision_reason policy))
         else if MEMORY_REQUIRE_SOURCE_REFS S \<and> wr_evidence req = [] then
           Some (error_dict ''evidence_summary is required (MEMORY_REQUIRE_SOURCE_REFS is enabled)'')
         else if \<not> scan_allowed safety then Some (blocked_dict safety)
         else None)"

definition agent_remember ::
  "(string \<Rightarrow> string) \<Rightarrow> settings \<Rightarrow> (memory \<Rightarrow> memory) \<Rightarrow> (memory \<Rightarrow> memory) \<Rightarrow> write_request
     \<Rightarrow> string option \<Rightarrow> string option \<Rightarrow> string option \<Rightarrow> dict mem" where
  "agent_remember sha S env env' req user run conversation =
     bindW (get_store_by_slug (wr_slug req)) (\<lambda>found. case found of
       None \<Rightarrow> ret (error_dict (''Unknown store slug: '' @ wr_slug req))
     | Some store \<Rightarrow>
         (case remember_refusal S req user store of
            Some refused \<Rightarrow> ret refused
          | None \<Rightarrow>
              bindW (interleave env) (\<lambda>_.
              bindW (get_document_by_store_path (store_id store) (wr_path req)) (\<lambda>existing. case existing of
                Some d \<Rightarrow> remember_existing sha env' req run conversation store d
              | None \<Rightarrow> bindW (interleave env') (\<lambda>_. remember_new sha req run conversation store)))))"

definition patched :: "memory_store \<Rightarrow> memory_document \<Rightarrow> memory_document \<Rightarrow> dict" where
  "patched store d d' =
     [(''patched'', JBool True), (''document_id'', JStr (doc_id d')),
      (''version_id'', JStr (case current_version d' of None \<Rightarrow> ''None'' | Some v \<Rightarrow> v)),
      (''new_sha256'', JStr (doc_sha d')), (''store_slug'', JStr (slug store)),
      (''path'', JStr (doc_path d)), (''document_type'', JStr (document_type_value (doc_type d)))]"

definition patch_refusal ::
  "settings \<Rightarrow> patch_request \<Rightarrow> string option \<Rightarrow> memory_store \<Rightarrow> memory_document \<Rightarrow> dict option" where
  "patch_refusal S req user store d =
     (let policy = resolve_write user store (Some (doc_type d));
          safety = scan_write S (pr_content req) (scope store)
      in if \<not> allowed policy then Some (error_dict (''Policy denied: '' @ decision_reason policy))
         else if \<not> scan_allowed safety then Some (blocked_dict safety)
         else None)"

definition patch_failed :: "write_error \<Rightarrow> dict" where
  "patch_failed e =
     (case we_conflict e of
        Some extra \<Rightarrow>
          [(''error'', JBool True), (''type'', JStr ''memory_conflict''),
           (''message'', JStr ''Memory changed since it was read. Re-read, merge, and retry.'')] @ extra
      | None \<Rightarrow> error_dict (we_reason e))"

definition store_of :: "memory_document \<Rightarrow> memory_store option mem" where
  "store_of d = query (\<lambda>db. find (\<lambda>s. store_id s = doc_store d) (stores db))"

definition agent_patch ::
  "(string \<Rightarrow> string) \<Rightarrow> (string \<Rightarrow> string py) \<Rightarrow> settings \<Rightarrow> (memory \<Rightarrow> memory) \<Rightarrow> patch_request
     \<Rightarrow> string option \<Rightarrow> string option \<Rightarrow> string option \<Rightarrow> dict mem" where
  "agent_patch sha uuid S env req user run conversation =
     bindW (lift (uuid (pr_document req))) (\<lambda>did.
     bindW (get_document_by_id did) (\<lambda>found. case found of
       None \<Rightarrow> ret (error_dict (''Document '' @ pr_document req @ '' not found''))
     | Some d \<Rightarrow>
         bindW (store_of d) (\<lambda>joined. case joined of
           None \<Rightarrow> ret (error_dict (''Document '' @ pr_document req @ '' not found''))
         | Some store \<Rightarrow>
             (case patch_refusal S req user store d of
                Some refused \<Rightarrow> ret refused
              | None \<Rightarrow>
                  bindW (interleave env) (\<lambda>_.
                  bindW (patch_document sha did (pr_expected_sha req) (pr_content req)
                           (agent_actor run conversation)) (\<lambda>written. case written of
                    Inl e \<Rightarrow> ret (patch_failed e)
                  | Inr d' \<Rightarrow>
                      bindW (agent_source_ref (doc_id d') (current_version d') (pr_evidence req)
                               (pr_calls req) run conversation) (\<lambda>_.
                      ret (patched store d d'))))))))"

subsection \<open>Promotion\<close>

definition promotion_job :: "string option \<Rightarrow> dream_job mem" where
  "promotion_job model =
     bindW (query (\<lambda>db. find (\<lambda>j. dream_type j = RUNBOOK_PROMOTION \<and> dream_status j = DREAM_PENDING)
              (dreams db))) (\<lambda>found. case found of
       Some j \<Rightarrow> ret j
     | None \<Rightarrow>
         bindW fresh_id (\<lambda>jid db.
           let j = \<lparr>dream_id = jid, dream_workspace = None, dream_type = RUNBOOK_PROMOTION,
                    dream_status = DREAM_PENDING, dream_input_stores = [], dream_input_conversations = [],
                    dream_input_runs = [], dream_output_store = None,
                    dream_model = (case model of Some (c # cs) \<Rightarrow> c # cs | _ \<Rightarrow> ''unknown''),
                    dream_instructions = Some ''Phase 1 promotion review queue'',
                    dream_usage = [], dream_error = None, dream_created_by = None,
                    dream_started_at = None, dream_ended_at = None, dream_canceled_at = None,
                    dream_archived_at = None, dream_created_at = mem_now db\<rparr>
           in (Inr j, db\<lparr>dreams := dreams db @ [j]\<rparr>)))"

definition propose_promotion ::
  "(string \<Rightarrow> string py) \<Rightarrow> string option \<Rightarrow> promote_request \<Rightarrow> review_item outcome mem" where
  "propose_promotion uuid model req =
     bindW (lift (uuid (pm_source req))) (\<lambda>did.
     bindW (get_document_by_id did) (\<lambda>found. case found of
       None \<Rightarrow> ret (Inl (Write_error
         (''Source document '' @ pm_source req @ '' not found or has been deleted'') None))
     | Some d \<Rightarrow>
         bindW (get_store_by_slug (pm_store req)) (\<lambda>target.
         bindW (promotion_job model) (\<lambda>job.
         bindW fresh_id (\<lambda>iid db.
           let it = \<lparr>item_id = iid, item_dream = dream_id job, item_source = Some (pm_source req),
                     item_candidate = None,
                     item_target_store = map_option store_id target, item_target_path = pm_path req,
                     item_action = PROMOTE_REVIEW, item_status = REVIEW_PENDING,
                     item_diff = [(''evidence_summary'', JStr (pm_evidence req)),
                                  (''source_document_id'', JStr (pm_source req)),
                                  (''target_store_slug'', JStr (pm_store req))],
                     rationale = pm_reason req, item_risk = pm_risk req, item_reviewed_by = None,
                     item_reviewed_at = None, item_created_at = mem_now db\<rparr>
           in (Inr (Inr it), db\<lparr>review_items := review_items db @ [it]\<rparr>))))))"

end
