(* ===== verification/MemoryRetrieval.thy ===== *)
theory MemoryRetrieval
  imports MemoryService
begin

text \<open>
  \<open>memory/retrieval.py\<close> and the full-text query of \<open>memory/repository.py\<close>: which documents are
  put into the model's context. \<open>fts\<close> is the rank Postgres gives a document for a query (none if
  it does not match), \<open>decay\<close> the floating point \<open>exp (- ln 2 * age / half life)\<close> of an age in
  microseconds; the weights and scores are the exact decimal fractions the source writes. Where
  Postgres may order rows of equal rank freely, the model takes them in table order.
\<close>

subsection \<open>Entities in a message\<close>

abbreviation name_char :: "char \<Rightarrow> bool" where
  "name_char \<equiv> one_of (letters_digits @ ''-.'')"

definition k8s_name :: re where
  "k8s_name = Seq (Cls (one_of letters_digits)) (between 0 62 name_char)"

definition NS_PATTERN :: "re \<times> re" where
  "NS_PATTERN =
     (alts [Seq (lit_i ''namespace'') (at_least 1 is_space), lit_i ''ns/'',
            Seq (lit_i ''-n'') (at_least 1 is_space)], k8s_name)"

definition K8S_RESOURCE_PATTERN :: "re \<times> re" where
  "K8S_RESOURCE_PATTERN =
     (Seq (alts (map lit_i [''deployment'', ''deploy'', ''pod'', ''svc'', ''service'', ''ingress'',
                 ''statefulset'', ''daemonset'', ''job'', ''cronjob'']))
          (at_least 1 (\<lambda>c. c = CHR ''/'' \<or> is_space c)), k8s_name)"

definition ENV_PATTERN :: re where
  "ENV_PATTERN = alts (map lit_i [''dev'', ''development'', ''staging'', ''stage'', ''uat'', ''prod'',
     ''production'', ''preview''])"

definition SERVICE_PATTERN :: "re \<times> re" where
  "SERVICE_PATTERN =
     (Seq (alts (map lit_i [''service'', ''app'', ''application'', ''component''])) (at_least 1 is_space),
      Seq (Cls (one_of letters_digits)) (between 1 62 (one_of (letters_digits @ ''-_.''))))"

text \<open>The lower-cased matches, each once, in the order they occur.\<close>

definition add_new :: "string \<Rightarrow> string list \<Rightarrow> string list" where
  "add_new x xs = (if x \<in> set xs then xs else xs @ [x])"

definition lower_matches :: "re \<Rightarrow> re \<Rightarrow> re \<Rightarrow> string \<Rightarrow> string list" where
  "lower_matches before grp after s = fold (\<lambda>g. add_new (py_lower g)) (re_groups before grp after s) []"

definition extract_entities :: "string \<Rightarrow> (string \<times> string list) list" where
  "extract_entities s =
     [(''namespaces'', lower_matches (fst NS_PATTERN) (snd NS_PATTERN) Eps s),
      (''resources'', lower_matches (fst K8S_RESOURCE_PATTERN) (snd K8S_RESOURCE_PATTERN) Eps s),
      (''environments'', lower_matches Word_boundary ENV_PATTERN Word_boundary s),
      (''services'', lower_matches (fst SERVICE_PATTERN) (snd SERVICE_PATTERN) Eps s)]"

subsection \<open>Ranking\<close>

fun trust_score :: "trust_level \<Rightarrow> rat" where
  "trust_score ADMIN_APPROVED = 1"
| "trust_score SYSTEM_SEEDED = 95 / 100"
| "trust_score USER_AUTHORED = 85 / 100"
| "trust_score AGENT_DRAFT = 45 / 100"

fun doctype_boost :: "document_type \<Rightarrow> rat" where
  "doctype_boost RUNBOOK = 9 / 10"
| "doctype_boost VERIFICATION_CHECKLIST = 85 / 100"
| "doctype_boost INCIDENT_LESSON = 8 / 10"
| "doctype_boost WORKSPACE_CONVENTION = 75 / 100"
| "doctype_boost SERVICE_CONTEXT = 7 / 10"
| "doctype_boost TOOL_USAGE_LESSON = 65 / 100"
| "doctype_boost USER_PREFERENCE = 5 / 10"
| "doctype_boost CONVERSATION_NOTE = 3 / 10"
| "doctype_boost DREAM_SUMMARY = 4 / 10"

definition recency_score :: "(int \<Rightarrow> rat) \<Rightarrow> int \<Rightarrow> int \<Rightarrow> rat" where
  "recency_score decay now updated = (if now - updated < 0 then 1 else decay (now - updated))"

definition entity_values :: "dict \<Rightarrow> string list" where
  "entity_values ents = concat (map (\<lambda>(k, v). case v of
       JList vs \<Rightarrow> map (\<lambda>x. py_lower (py_str x)) vs
     | _ \<Rightarrow> (if truthy v then [py_lower (py_str v)] else [])) ents)"

definition entity_match_score :: "dict \<Rightarrow> (string \<times> string list) list \<Rightarrow> rat" where
  "entity_match_score ents query_entities =
     (let wanted = concat (map snd query_entities);
          found = filter (\<lambda>v. py_lower v \<in> set (entity_values ents)) wanted
      in if ents = [] \<or> wanted = [] then 0
         else min 1 (of_nat (length found) / of_nat (length wanted)))"

definition rank_row ::
  "(int \<Rightarrow> rat) \<Rightarrow> int \<Rightarrow> (string \<times> string list) list \<Rightarrow> search_row \<Rightarrow> rat \<Rightarrow> rat" where
  "rank_row decay now query_entities r text_score =
     45 / 100 * min 1 text_score
     + 20 / 100 * trust_score (store_trust (row_store r))
     + 15 / 100 * entity_match_score (doc_entities (row_doc r)) query_entities
     + 10 / 100 * doctype_boost (doc_type (row_doc r))
     + 10 / 100 * recency_score decay now (doc_updated_at (row_doc r))"

definition before_last_space :: "string \<Rightarrow> string" where
  "before_last_space s =
     (if CHR '' '' \<in> set s then rev (tl (dropWhile (\<lambda>c. c \<noteq> CHR '' '') (rev s))) else s)"

definition cut_excerpt :: "nat \<Rightarrow> string \<Rightarrow> string" where
  "cut_excerpt n s = before_last_space (take n s) @ '' ...''"

definition make_excerpt :: "string \<Rightarrow> string" where
  "make_excerpt content =
     (let c = py_strip content in if length c \<le> 1200 then c else cut_excerpt 1200 c)"

subsection \<open>Search\<close>

definition is_candidate :: "string list \<Rightarrow> bool \<Rightarrow> document_type list \<Rightarrow> search_row \<Rightarrow> bool" where
  "is_candidate sids drafts types r \<longleftrightarrow>
     doc_store (row_doc r) \<in> set sids \<and> doc_deleted_at (row_doc r) = None
     \<and> doc_status (row_doc r) \<in> set (search_statuses drafts)
     \<and> (types = [] \<or> doc_type (row_doc r) \<in> set types)"

definition fts_search ::
  "(string \<Rightarrow> memory_document \<Rightarrow> rat option) \<Rightarrow> string \<Rightarrow> string list \<Rightarrow> nat \<Rightarrow> bool
     \<Rightarrow> document_type list \<Rightarrow> (search_row \<times> rat) list mem" where
  "fts_search fts q sids max_results drafts types = query (\<lambda>db.
     if py_strip q = [] \<or> sids = [] then []
     else take max_results (order_by (\<lambda>a b. snd b \<le> snd a)
       (List.map_filter (\<lambda>r. map_option (\<lambda>sc. (r, sc)) (fts q (row_doc r)))
         (filter (is_candidate sids drafts types) (joined_rows db)))))"

definition accessible_store :: "string option \<Rightarrow> memory_store \<Rightarrow> bool" where
  "accessible_store user s =
     (case scope s of
        WORKSPACE \<Rightarrow> True
      | USER \<Rightarrow> user \<noteq> None \<and> (owner_user s = None \<or> owner_user s = user)
      | CONVERSATION \<Rightarrow> user \<noteq> None)"

definition get_accessible_store_ids :: "string option \<Rightarrow> string list mem" where
  "get_accessible_store_ids user =
     bindW (list_stores user False) (\<lambda>found. ret (map store_id (filter (accessible_store user) found)))"

record search_result =
  sr_row :: search_row
  sr_score :: rat
  sr_excerpt :: string

definition memory_search ::
  "(string \<Rightarrow> memory_document \<Rightarrow> rat option) \<Rightarrow> (int \<Rightarrow> rat) \<Rightarrow> string \<Rightarrow> string option \<Rightarrow> nat \<Rightarrow> bool
     \<Rightarrow> document_type list \<Rightarrow> search_result list mem" where
  "memory_search fts decay q user max_results drafts types =
     bindW (get_accessible_store_ids user) (\<lambda>sids.
     if sids = [] then ret []
     else
       bindW (fts_search fts q sids (max_results * 3) drafts types) (\<lambda>rows.
       bindW (query mem_now) (\<lambda>now.
       let scored = map (\<lambda>(r, t). (r, rank_row decay now (extract_entities q) r t)) rows;
           ranked = order_by (\<lambda>a b. snd b \<le> snd a) scored
       in ret (map (\<lambda>(r, sc). \<lparr>sr_row = r, sr_score = sc,
                 sr_excerpt = make_excerpt (doc_content (row_doc r))\<rparr>) (take max_results ranked)))))"

subsection \<open>Retrieval for a turn\<close>

text \<open>The day of a clock reading, as \<open>strftime('%Y-%m-%d')\<close> prints it.\<close>

definition pad :: "nat \<Rightarrow> int \<Rightarrow> string" where
  "pad n i = (let s = int_str i in replicate (n - length s) (CHR ''0'') @ s)"

definition iso_day :: "int \<Rightarrow> string" where
  "iso_day us =
     (let z = us div 86400000000 + 719468;
          era = z div 146097; doe = z mod 146097;
          yoe = (doe - doe div 1460 + doe div 36524 - doe div 146096) div 365;
          doy = doe - (365 * yoe + yoe div 4 - yoe div 100);
          mp = (5 * doy + 2) div 153;
          d = doy - (153 * mp + 2) div 5 + 1;
          m = (if mp < 10 then mp + 3 else mp - 9);
          y = yoe + era * 400 + (if m \<le> 2 then 1 else 0)
      in pad 4 y @ ''-'' @ pad 2 m @ ''-'' @ pad 2 d)"

definition hit_of :: "search_result \<Rightarrow> string \<Rightarrow> memory_hit" where
  "hit_of r excerpt =
     (let d = row_doc (sr_row r); s = row_store (sr_row r)
      in \<lparr>hit_document = doc_id d, hit_version = current_version d, hit_store = slug s,
          hit_path = doc_path d, hit_trust = store_trust s, hit_type = doc_type d,
          hit_excerpt = excerpt, hit_title = doc_title d, hit_updated = iso_day (doc_updated_at d),
          hit_source = None\<rparr>)"

fun fill_budget :: "int \<Rightarrow> int \<Rightarrow> search_result list \<Rightarrow> memory_hit list" where
  "fill_budget char_budget used [] = []"
| "fill_budget char_budget used (r # rs) =
     (let remaining = char_budget - used;
          excerpt = (if remaining < int (length (sr_excerpt r)) then cut_excerpt (nat remaining) (sr_excerpt r)
                     else sr_excerpt r)
      in if remaining \<le> 0 then []
         else hit_of r excerpt # fill_budget char_budget (used + int (length excerpt) + 200) rs)"

definition record_hits ::
  "(string \<Rightarrow> string py) \<Rightarrow> string option \<Rightarrow> string option \<Rightarrow> memory_hit list \<Rightarrow> unit mem" where
  "record_hits uuid conversation run hits =
     (case (conversation, run) of
        (Some (c # cs), Some (r # rs)) \<Rightarrow>
          (if hits = [] then ret ()
           else catchW
             (bindW (lift (uuid (c # cs))) (\<lambda>cid.
              bindW (lift (uuid (r # rs))) (\<lambda>rid.
              record_memory_usage_bulk cid rid
                (map (\<lambda>h. (hit_document h, hit_version h, INJECTED)) hits))))
             (\<lambda>e. ret ()))
      | _ \<Rightarrow> ret ())"

definition retrieve_for_turn ::
  "(string \<Rightarrow> memory_document \<Rightarrow> rat option) \<Rightarrow> (int \<Rightarrow> rat) \<Rightarrow> (string \<Rightarrow> string py) \<Rightarrow> string
     \<Rightarrow> string option \<Rightarrow> string option \<Rightarrow> string option \<Rightarrow> nat \<Rightarrow> int \<Rightarrow> memory_hit list mem" where
  "retrieve_for_turn fts decay uuid q user conversation run max_docs token_budget =
     bindW (memory_search fts decay q user max_docs False []) (\<lambda>results.
     let hits = fill_budget (token_budget * 4) 0 results
     in bindW (record_hits uuid conversation run hits) (\<lambda>_. ret hits))"

end
