(* ===== verification/MemoryProps.thy ===== *)
theory MemoryProps
  imports MemoryService
begin

text \<open>
  What the memory service guarantees: every live document is backed by the version it points to,
  whatever other requests commit while an operation awaits; the agent writes only to stores the
  policy lets it write to; a write based on stale content is refused.
\<close>

subsection \<open>The version invariant\<close>

definition doc_digest_ok :: "(string \<Rightarrow> string) \<Rightarrow> memory_document \<Rightarrow> bool" where
  "doc_digest_ok sha d \<longleftrightarrow> doc_sha d = sha (doc_content d) \<and> doc_size d = int (length (doc_content d))"

definition backed_by :: "memory_document \<Rightarrow> memory_version \<Rightarrow> bool" where
  "backed_by d v \<longleftrightarrow>
     current_version d = Some (ver_id v) \<and> ver_document v = Some (doc_id d)
     \<and> (ver_redacted_at v = None \<longrightarrow> ver_content v = Some (doc_content d) \<and> ver_sha v = Some (doc_sha d))"

definition paths_unique :: "memory_document list \<Rightarrow> bool" where
  "paths_unique ds \<longleftrightarrow>
     (\<forall>d \<in> set ds. \<forall>e \<in> set ds. doc_deleted_at d = None \<and> doc_deleted_at e = None
        \<and> doc_store d = doc_store e \<and> doc_path d = doc_path e \<longrightarrow> doc_id d = doc_id e)"

definition mem_ok :: "(string \<Rightarrow> string) \<Rightarrow> memory \<Rightarrow> bool" where
  "mem_ok sha db \<longleftrightarrow>
     distinct (map doc_id (documents db)) \<and> distinct (map ver_id (versions db))
     \<and> paths_unique (documents db)
     \<and> (\<forall>d \<in> set (documents db). doc_digest_ok sha d
          \<and> (doc_deleted_at d = None \<longrightarrow> (\<exists>v \<in> set (versions db). backed_by d v)))"

interpretation kept: state_moves "\<lambda>db. db" "\<lambda>x y. mem_ok sha x \<longrightarrow> mem_ok sha y" for sha
  by unfold_locales auto

definition fair :: "(string \<Rightarrow> string) \<Rightarrow> (memory \<Rightarrow> memory) \<Rightarrow> bool" where
  "fair sha env \<longleftrightarrow> (\<forall>db. mem_ok sha db \<longrightarrow> mem_ok sha (env db))"

lemma kept_query [simp]: "kept.moves sha (query f)"
  by (simp add: kept.moves_def)

lemma kept_interleave [simp]: "kept.moves sha (interleave env) \<longleftrightarrow> fair sha env"
  by (simp add: kept.moves_def fair_def)

lemma kept_if [intro]: "(b \<Longrightarrow> kept.moves sha m) \<Longrightarrow> (\<not> b \<Longrightarrow> kept.moves sha m') \<Longrightarrow>
    kept.moves sha (if b then m else m')"
  by simp

lemma kept_option [intro]: "kept.moves sha m \<Longrightarrow> (\<And>x. kept.moves sha (f x)) \<Longrightarrow>
    kept.moves sha (case v of None \<Rightarrow> m | Some x \<Rightarrow> f x)"
  by (cases v) auto

lemma kept_sum [intro]: "(\<And>e. kept.moves sha (f e)) \<Longrightarrow> (\<And>x. kept.moves sha (g x)) \<Longrightarrow>
    kept.moves sha (case v of Inl e \<Rightarrow> f e | Inr x \<Rightarrow> g x)"
  by (cases v) auto

lemma in_transaction_snd:
  "snd (in_transaction m db) = (case fst (m db) of Inl e \<Rightarrow> db | Inr a \<Rightarrow> snd (m db))"
  by (cases "m db") (simp add: in_transaction_def split: sum.splits)

lemma kept_in_transaction [intro]: "kept.moves sha m \<Longrightarrow> kept.moves sha (in_transaction m)"
  by (auto simp: kept.moves_def in_transaction_snd split: sum.splits)

text \<open>A table changed only outside the documents and versions.\<close>

lemma mem_ok_frame:
  "documents db' = documents db \<Longrightarrow> versions db' = versions db \<Longrightarrow> mem_ok sha db' = mem_ok sha db"
  by (simp add: mem_ok_def)

lemma kept_frame:
  "(\<And>db. documents (snd (m db)) = documents db \<and> versions (snd (m db)) = versions db) \<Longrightarrow> kept.moves sha m"
  unfolding kept.moves_def using mem_ok_frame by blast

lemma kept_fresh_id [simp]: "kept.moves sha fresh_id"
  by (rule kept_frame) simp

subsection \<open>Versions and rows\<close>

lemma backed_by_mono: "\<exists>v \<in> set vs. backed_by d v \<Longrightarrow> set vs \<subseteq> set vs' \<Longrightarrow> \<exists>v \<in> set vs'. backed_by d v"
  by blast

lemma create_version_eq:
  "create_version sha sid did path operation content who previous db = (r, db') \<Longrightarrow>
     (r = Inl integrity_error \<and> documents db' = documents db \<and> versions db' = versions db)
     \<or> (\<exists>v. r = Inr v \<and> documents db' = documents db \<and> stores db' = stores db
          \<and> versions db' = versions db @ [v]
          \<and> (\<forall>x \<in> set (versions db). ver_id x \<noteq> ver_id v) \<and> ver_document v = did
          \<and> ver_content v = content \<and> ver_sha v = map_option sha content \<and> ver_redacted_at v = None)"
  by (auto simp: create_version_def bindW_def Let_def list_ex_iff split: if_splits)

lemma mem_ok_append_version:
  assumes "mem_ok sha db" "documents db' = documents db" "versions db' = versions db @ [v]"
    and "\<forall>x \<in> set (versions db). ver_id x \<noteq> ver_id v"
  shows "mem_ok sha db'"
proof -
  have "\<exists>v' \<in> set (versions db'). backed_by d v'" if "d \<in> set (documents db)" "doc_deleted_at d = None" for d
    using assms(1,3) that backed_by_mono[of "versions db" d "versions db'"] by (auto simp: mem_ok_def)
  then show ?thesis using assms by (auto simp: mem_ok_def)
qed

lemma kept_create_version [intro]:
  "kept.moves sha (create_version sha sid did path operation content who previous)"
  unfolding kept.moves_def
proof (intro allI impI)
  fix db assume ok: "mem_ok sha db"
  obtain r db' where e: "create_version sha sid did path operation content who previous db = (r, db')"
    by (cases "create_version sha sid did path operation content who previous db")
  then show "mem_ok sha (snd (create_version sha sid did path operation content who previous db))"
    using create_version_eq[OF e] ok mem_ok_append_version[of sha db db'] mem_ok_frame[of db' db sha]
    by (elim disjE exE conjE) simp_all
qed

definition put_document :: "memory_document \<Rightarrow> memory_document list \<Rightarrow> memory_document list" where
  "put_document d ds = map (\<lambda>x. if doc_id x = doc_id d then d else x) ds"

lemma put_document_ids [simp]: "map doc_id (put_document d ds) = map doc_id ds"
  by (simp add: put_document_def)

lemma put_document_set:
  "x \<in> set (put_document d ds) \<longleftrightarrow>
     (x = d \<and> doc_id d \<in> doc_id ` set ds) \<or> (x \<in> set ds \<and> doc_id x \<noteq> doc_id d)"
  unfolding put_document_def set_map image_iff by (metis (mono_tags, lifting))

lemma save_document_eq:
  "save_document d db = (r, db') \<Longrightarrow>
     (r = Inl integrity_error \<and> db' = db)
     \<or> (\<exists>d'. r = Inr d' \<and> d' = d\<lparr>doc_updated_at := mem_now db\<rparr>
          \<and> db' = db\<lparr>documents := put_document d' (documents db)\<rparr>
          \<and> (doc_id d \<in> doc_id ` set (documents db) \<longrightarrow> \<not> path_taken d db))"
  by (auto simp: save_document_def put_document_def Let_def list_ex_iff split: if_splits)

lemma paths_unique_put:
  assumes "paths_unique ds" and "doc_id d \<in> doc_id ` set ds \<longrightarrow> \<not> path_taken d db" "documents db = ds"
  shows "paths_unique (put_document (d\<lparr>doc_updated_at := t\<rparr>) ds)"
proof -
  let ?d = "d\<lparr>doc_updated_at := t\<rparr>"
  have new: "doc_id x = doc_id d"
    if "x \<in> set ds" "doc_deleted_at x = None" "doc_deleted_at d = None" "doc_store x = doc_store d"
      "doc_path x = doc_path d" "doc_id d \<in> doc_id ` set ds" for x
    using assms(2,3) that by (auto simp: path_taken_def list_ex_iff)
  show ?thesis
    unfolding paths_unique_def put_document_set
  proof (intro ballI impI)
    fix x y assume "x \<in> set (put_document ?d ds)" "y \<in> set (put_document ?d ds)"
      and h: "doc_deleted_at x = None \<and> doc_deleted_at y = None \<and> doc_store x = doc_store y
        \<and> doc_path x = doc_path y"
    then consider "x = ?d" "y = ?d" | "x = ?d" "y \<in> set ds" "doc_id d \<in> doc_id ` set ds"
      | "y = ?d" "x \<in> set ds" "doc_id d \<in> doc_id ` set ds" | "x \<in> set ds" "y \<in> set ds"
      by (auto simp: put_document_set)
    then show "doc_id x = doc_id y"
    proof cases
      case 1 then show ?thesis by simp
    next
      case 2 then show ?thesis using new[of y] h by simp
    next
      case 3 then show ?thesis using new[of x] h by simp
    next
      case 4 then show ?thesis using assms(1) h unfolding paths_unique_def by blast
    qed
  qed
qed

lemma kept_save:
  assumes "doc_digest_ok sha d" and "mem_ok sha db"
    and "doc_deleted_at d = None \<longrightarrow> (\<exists>v \<in> set (versions db). backed_by d v)"
  shows "mem_ok sha (snd (save_document d db))"
proof -
  obtain r db' where e: "save_document d db = (r, db')" by (cases "save_document d db")
  from save_document_eq[OF e] consider "db' = db"
    | d' where "d' = d\<lparr>doc_updated_at := mem_now db\<rparr>"
        "db' = db\<lparr>documents := put_document d' (documents db)\<rparr>"
        "doc_id d \<in> doc_id ` set (documents db) \<longrightarrow> \<not> path_taken d db" by auto
  then show ?thesis
  proof cases
    case 1 then show ?thesis using assms(2) e by simp
  next
    case 2
    have "backed_by d' v \<longleftrightarrow> backed_by d v" "doc_digest_ok sha d' = doc_digest_ok sha d"
      "doc_deleted_at d' = doc_deleted_at d" for v
      by (simp_all add: 2(1) backed_by_def doc_digest_ok_def)
    moreover have "paths_unique (put_document d' (documents db))"
      unfolding 2(1) by (rule paths_unique_put[OF _ 2(3)]) (use assms(2) in \<open>simp_all add: mem_ok_def\<close>)
    moreover have "doc_digest_ok sha x \<and> (doc_deleted_at x = None \<longrightarrow> (\<exists>v \<in> set (versions db). backed_by x v))"
      if "x \<in> set (put_document d' (documents db))" for x
    proof (cases "x = d'")
      case True
      then show ?thesis using assms(1,3) calculation(1,2,3) by simp
    next
      case False
      then have "x \<in> set (documents db)" using that by (simp add: put_document_set)
      then show ?thesis using assms(2) by (simp add: mem_ok_def)
    qed
    ultimately show ?thesis using assms(2) unfolding e 2(2) by (simp add: mem_ok_def)
  qed
qed

subsection \<open>Every operation keeps the invariant\<close>

lemma kept_commit_version:
  assumes "doc_digest_ok sha d"
  shows "kept.moves sha (commit_version sha operation who d)"
  unfolding kept.moves_def
proof (intro allI impI)
  fix db assume ok: "mem_ok sha db"
  let ?cv = "create_version sha (doc_store d) (Some (doc_id d)) (doc_path d) operation
    (Some (doc_content d)) who (current_version d)"
  obtain r db1 where e: "?cv db = (r, db1)" by (cases "?cv db")
  have ok1: "mem_ok sha db1"
    using kept_create_version ok e by (metis kept.moves_eq)
  show "mem_ok sha (snd (commit_version sha operation who d db))"
  proof (cases r)
    case (Inl x)
    then show ?thesis using e ok1 by (simp add: commit_version_def bindW_def)
  next
    case (Inr v)
    with create_version_eq[OF e] have v: "versions db1 = versions db @ [v]"
        "ver_document v = Some (doc_id d)" "ver_content v = Some (doc_content d)"
        "ver_sha v = Some (sha (doc_content d))" by auto
    have "mem_ok sha (snd (save_document (d\<lparr>current_version := Some (ver_id v)\<rparr>) db1))"
      using assms ok1 by (rule_tac kept_save) (auto simp: v backed_by_def doc_digest_ok_def)
    then show ?thesis using e Inr by (simp add: commit_version_def bindW_def)
  qed
qed

lemma digest_set_content [simp]: "doc_digest_ok sha (set_content sha c d)"
  by (simp add: doc_digest_ok_def set_content_def)

lemma digest_update [simp]: "doc_digest_ok sha (apply_document_update sha data d)"
  by (simp add: doc_digest_ok_def apply_document_update_def set_content_def)

lemma digest_remembered [simp]: "doc_digest_ok sha (remembered_document sha req d)"
  by (simp add: doc_digest_ok_def remembered_document_def set_content_def)

lemma found_document:
  "get_document_by_id did db = (Inr (Some d), db') \<Longrightarrow>
     d \<in> set (documents db) \<and> doc_id d = did \<and> doc_deleted_at d = None \<and> db' = db"
  by (auto simp: get_document_by_id_def find_Some_iff set_conv_nth)

lemma kept_get_document [simp]: "kept.moves sha (get_document_by_id did)"
  by (simp add: get_document_by_id_def)

lemma kept_get_path [simp]: "kept.moves sha (get_document_by_store_path sid path)"
  by (rule kept_frame) (simp add: get_document_by_store_path_def split: list.splits)

lemma kept_get_store [simp]:
  "kept.moves sha (get_store_by_slug sl)" "kept.moves sha (get_store_by_id sid)" "kept.moves sha (store_of d)"
  by (simp_all add: get_store_by_slug_def get_store_by_id_def store_of_def)

lemma kept_with_live [intro]:
  "(\<And>d. kept.moves sha (f d)) \<Longrightarrow> kept.moves sha (with_live_document did f)"
  unfolding with_live_document_def by (intro kept.moves_bind kept_option) auto

lemma update_document_kept: "kept.moves sha (update_document sha did data who)"
  unfolding update_document_def
  by (intro kept_in_transaction kept_with_live kept_if kept.moves_bind kept_commit_version) simp_all

lemma patch_document_kept: "kept.moves sha (patch_document sha did expected content who)"
  unfolding patch_document_def
  by (intro kept_in_transaction kept_with_live kept_if kept.moves_bind kept_commit_version) simp_all

lemma create_document_row_eq:
  "create_document_row d db = (r, db') \<Longrightarrow>
     (r = Inl integrity_error \<and> db' = db)
     \<or> (\<exists>d'. r = Inr d' \<and> d' = d\<lparr>doc_created_at := mem_now db, doc_updated_at := mem_now db\<rparr>
          \<and> db' = db\<lparr>documents := documents db @ [d']\<rparr>
          \<and> (\<forall>x \<in> set (documents db). doc_id x \<noteq> doc_id d) \<and> \<not> path_taken d db)"
  by (auto simp: create_document_row_def Let_def list_ex_iff split: if_splits)

text \<open>Between the two rows of a creation the new document has no version yet.\<close>

lemma mem_ok_new_document:
  assumes ok: "mem_ok sha db" and ids: "\<forall>x \<in> set (documents db). doc_id x \<noteq> doc_id d"
    and free: "\<not> path_taken d db" and dig: "doc_digest_ok sha d" and bk: "backed_by d v"
    and v: "v \<in> set vs" "set (versions db) \<subseteq> set vs" "distinct (map ver_id vs)"
    and db': "documents db' = documents db @ [d]" "versions db' = vs"
  shows "mem_ok sha db'"
proof -
  have old: "doc_digest_ok sha x \<and> (doc_deleted_at x = None \<longrightarrow> (\<exists>w \<in> set vs. backed_by x w))"
    if "x \<in> set (documents db)" for x
    using ok that v(2) unfolding mem_ok_def by blast
  have same: "paths_unique (documents db)" using ok by (simp add: mem_ok_def)
  have new: "\<not> (doc_deleted_at d = None \<and> doc_deleted_at x = None \<and> doc_store d = doc_store x
      \<and> doc_path d = doc_path x)" if "x \<in> set (documents db)" for x
    using free ids that by (auto simp: path_taken_def list_ex_iff)
  have "paths_unique (documents db @ [d])"
    unfolding paths_unique_def
  proof (intro ballI impI)
    fix x y assume "x \<in> set (documents db @ [d])" "y \<in> set (documents db @ [d])"
      and h: "doc_deleted_at x = None \<and> doc_deleted_at y = None \<and> doc_store x = doc_store y
        \<and> doc_path x = doc_path y"
    then consider "x = d" "y = d" | "x = d" "y \<in> set (documents db)" | "y = d" "x \<in> set (documents db)"
      | "x \<in> set (documents db)" "y \<in> set (documents db)" by auto
    then show "doc_id x = doc_id y"
    proof cases
      case 2 then show ?thesis using new[of y] h by simp
    next
      case 3 then show ?thesis using new[of x] h by simp
    next
      case 4 then show ?thesis using same h unfolding paths_unique_def by blast
    qed simp
  qed
  moreover have "distinct (map doc_id (documents db @ [d]))"
    using ok ids by (auto simp: mem_ok_def)
  ultimately show ?thesis
    using old dig bk v(1,3) unfolding mem_ok_def db' by auto
qed

lemma put_document_last:
  "\<forall>x \<in> set ds. doc_id x \<noteq> doc_id d \<Longrightarrow> doc_id d0 = doc_id d \<Longrightarrow> put_document d (ds @ [d0]) = ds @ [d]"
  by (auto simp: put_document_def map_idI)

lemma create_document_kept: "kept.moves sha (create_document sha store data who)"
  unfolding kept.moves_def
proof (intro allI impI)
  fix db assume ok: "mem_ok sha db"
  let ?m = "\<lambda>did. bindW (create_document_row (new_document sha did store data who)) (\<lambda>d.
        bindW (create_version sha (store_id store) (Some (doc_id d)) (dc_path data) CREATE_OP
                 (Some (dc_content data)) who None) (\<lambda>v.
        save_document (d\<lparr>current_version := Some (ver_id v)\<rparr>)))"
  let ?did = "uuid4 db (drawn db)" and ?db0 = "db\<lparr>drawn := Suc (drawn db)\<rparr>"
  let ?d = "new_document sha ?did store data who"
  have res: "mem_ok sha db3" if run: "?m ?did ?db0 = (Inr d3, db3)" for d3 db3
  proof -
    obtain d1 db1 v db2 where 1: "create_document_row ?d ?db0 = (Inr d1, db1)"
      and 2: "create_version sha (store_id store) (Some (doc_id d1)) (dc_path data) CREATE_OP
                 (Some (dc_content data)) who None db1 = (Inr v, db2)"
      and 3: "save_document (d1\<lparr>current_version := Some (ver_id v)\<rparr>) db2 = (Inr d3, db3)"
      using run by (auto simp: bindW_Inr)
    have d1: "d1 = ?d\<lparr>doc_created_at := mem_now db, doc_updated_at := mem_now db\<rparr>"
      "documents db1 = documents db @ [d1]" "versions db1 = versions db"
      "\<forall>x \<in> set (documents db). doc_id x \<noteq> doc_id d1" "\<not> path_taken d1 db"
      using create_document_row_eq[OF 1] by (auto simp: path_taken_def new_document_def)
    have v: "documents db2 = documents db1" "versions db2 = versions db @ [v]"
      "\<forall>x \<in> set (versions db). ver_id x \<noteq> ver_id v" "ver_document v = Some (doc_id d1)"
      "ver_content v = Some (dc_content data)" "ver_sha v = Some (sha (dc_content data))"
      using create_version_eq[OF 2] d1(3) by auto
    have d3: "d3 = (d1\<lparr>current_version := Some (ver_id v)\<rparr>)\<lparr>doc_updated_at := mem_now db2\<rparr>"
      "documents db3 = put_document d3 (documents db2)" "versions db3 = versions db2"
      using save_document_eq[OF 3] by auto
    have docs: "documents db3 = documents db @ [d3]"
      unfolding d3(2) v(1) d1(2) by (rule put_document_last) (use d1(4) in \<open>simp_all add: d3(1)\<close>)
    show ?thesis
    proof (rule mem_ok_new_document[OF ok _ _ _ _ _ _ _ docs, of v "versions db3"])
      show "backed_by d3 v" by (simp add: backed_by_def d3(1) v d1(1) new_document_def)
      show "doc_digest_ok sha d3" by (simp add: doc_digest_ok_def d3(1) d1(1) new_document_def)
      show "\<not> path_taken d3 db" using d1(5) by (simp add: path_taken_def d3(1))
      show "distinct (map ver_id (versions db3))"
        using ok v(3) by (auto simp: d3(3) v(2) mem_ok_def)
    qed (use d1(4) v(2) d3 in auto)
  qed
  have eq: "create_document sha store data who db = in_transaction (\<lambda>_. ?m ?did ?db0) db"
    by (simp add: create_document_def in_transaction_def bindW_def)
  show "mem_ok sha (snd (create_document sha store data who db))"
    unfolding eq in_transaction_snd
  proof (cases "?m ?did ?db0")
    case (Pair r db3)
    then show "mem_ok sha (case fst (?m ?did ?db0) of Inl e \<Rightarrow> db | Inr a \<Rightarrow> snd (?m ?did ?db0))"
      using res ok by (cases r) simp_all
  qed
qed

lemma kept_get_then:
  assumes "\<And>d. doc_digest_ok sha d \<Longrightarrow> kept.moves sha (f (Some d))" and "kept.moves sha (f None)"
  shows "kept.moves sha (bindW (get_document_by_id did) f)"
  unfolding kept.moves_def
proof (intro allI impI)
  fix db assume ok: "mem_ok sha db"
  let ?found = "find (\<lambda>d. doc_id d = did \<and> doc_deleted_at d = None) (documents db)"
  have eq: "bindW (get_document_by_id did) f db = f ?found db"
    by (simp add: bindW_def get_document_by_id_def)
  have "kept.moves sha (f ?found)"
  proof (cases ?found)
    case None then show ?thesis using assms(2) by simp
  next
    case (Some d)
    then have "d \<in> set (documents db)" by (auto simp: find_Some_iff set_conv_nth)
    then have "doc_digest_ok sha d" using ok by (simp add: mem_ok_def)
    then show ?thesis using assms(1) Some by simp
  qed
  then show "mem_ok sha (snd (bindW (get_document_by_id did) f db))"
    unfolding eq using ok by (auto simp: kept.moves_def)
qed

lemma kept_save_deleted:
  "doc_digest_ok sha d \<Longrightarrow> doc_deleted_at d \<noteq> None \<Longrightarrow> kept.moves sha (save_document d)"
  unfolding kept.moves_def using kept_save by auto

lemma delete_document_kept:
  assumes "fair sha env" and "fair sha env'"
  shows "kept.moves sha (delete_document sha env env' did user)"
  unfolding delete_document_def
  by (rule kept_get_then; simp;
      intro kept.moves_bind kept_create_version kept_save_deleted;
      simp add: assms doc_digest_ok_def)

lemma redact_version_kept: "kept.moves sha (redact_version vid admin why)"
  unfolding kept.moves_def
proof (intro allI impI)
  fix db assume ok: "mem_ok sha db"
  show "mem_ok sha (snd (redact_version vid admin why db))"
  proof (cases "find (\<lambda>v. ver_id v = vid) (versions db)")
    case None
    then show ?thesis using ok by (simp add: redact_version_def bindW_def)
  next
    case (Some v)
    let ?v = "v\<lparr>ver_redacted_at := Some (mem_now db), ver_redacted_by := Some admin,
      redaction_reason := Some why, ver_content := None, ver_sha := None\<rparr>"
    have v: "v \<in> set (versions db)" using Some by (auto simp: find_Some_iff set_conv_nth)
    define f where "f x = (if ver_id x = ver_id ?v then ?v else x)" for x
    have f: "ver_id (f x) = ver_id x" for x by (simp add: f_def)
    have "backed_by d (f x)" if "backed_by d x" "x \<in> set (versions db)" for d x
    proof (cases "ver_id x = ver_id v")
      case True
      then have "x = v" using ok v that(2) by (auto simp: mem_ok_def distinct_map inj_on_def)
      then show ?thesis using that by (simp add: f_def backed_by_def)
    next
      case False then show ?thesis using that by (simp add: f_def)
    qed
    then have "mem_ok sha (db\<lparr>versions := map f (versions db)\<rparr>)"
      using ok unfolding mem_ok_def by (simp add: f comp_def) blast
    moreover have "snd (redact_version vid admin why db) = db\<lparr>versions := map f (versions db)\<rparr>"
      using Some by (simp add: redact_version_def bindW_def save_version_def f_def)
    ultimately show ?thesis by simp
  qed
qed

lemma kept_save_version_frame [simp]:
  "kept.moves sha (create_store_row s)" "kept.moves sha (save_store s)"
  "kept.moves sha (create_source_ref did vid summary kind conversation run call tool)"
  "kept.moves sha (agent_source_ref did vid summary calls run conversation)"
proof -
  show 1: "kept.moves sha (create_source_ref did vid summary kind conversation run call tool)"
    for did vid summary kind conversation run call tool
    by (rule kept_frame) (simp add: create_source_ref_def bindW_def Let_def)
  show "kept.moves sha (agent_source_ref did vid summary calls run conversation)"
    unfolding agent_source_ref_def by (intro kept_if kept.moves_bind) (simp_all add: 1)
qed (rule kept_frame; simp add: create_store_row_def save_store_def Let_def)+

lemma stores_kept:
  "kept.moves sha (create_store data)" "kept.moves sha (update_store sid upd)" "kept.moves sha (archive_store sid)"
  unfolding create_store_def update_store_def archive_store_def
  by (intro kept.moves_bind kept_option; simp)+

lemma remember_existing_kept:
  "fair sha env \<Longrightarrow> kept.moves sha (remember_existing sha env req run conversation store d)"
  unfolding remember_existing_def
  by (intro kept_if kept.moves_bind kept_in_transaction kept_commit_version) simp_all

lemma remember_new_kept: "kept.moves sha (remember_new sha req run conversation store)"
  unfolding remember_new_def by (intro kept.moves_bind create_document_kept) simp_all

lemma agent_remember_kept:
  assumes "fair sha env" and "fair sha env'"
  shows "kept.moves sha (agent_remember sha S env env' req user run conversation)"
proof -
  have "kept.moves sha (case r of Some refused \<Rightarrow> ret refused | None \<Rightarrow> m)"
    if "kept.moves sha m" for r :: "dict option" and m
    using that by (cases r) simp_all
  moreover have "kept.moves sha (case x of Some d \<Rightarrow> f d | None \<Rightarrow> m)"
    if "\<And>d. kept.moves sha (f d)" "kept.moves sha m" for x :: "memory_document option" and f m
    using that by (cases x) simp_all
  ultimately show ?thesis
    unfolding agent_remember_def
    using assms by (intro kept.moves_bind kept_option remember_existing_kept remember_new_kept) simp_all
qed

lemma agent_patch_kept:
  assumes "fair sha env"
  shows "kept.moves sha (agent_patch sha uuid S env req user run conversation)"
proof -
  have "kept.moves sha (case r of Some refused \<Rightarrow> ret refused | None \<Rightarrow> m)"
    if "kept.moves sha m" for r :: "dict option" and m
    using that by (cases r) simp_all
  then show ?thesis
    unfolding agent_patch_def
    using assms by (intro kept.moves_bind kept_option kept_sum patch_document_kept) simp_all
qed

lemma propose_promotion_kept: "kept.moves sha (propose_promotion uuid model req)"
proof -
  have 1: "kept.moves sha (promotion_job model)"
    by (rule kept_frame) (simp add: promotion_job_def bindW_def Let_def split: option.splits)
  have 2: "kept.moves sha (bindW fresh_id (\<lambda>iid db. (Inr (g iid db), db\<lparr>review_items := h iid db\<rparr>)))" for g h
    by (rule kept_frame) (simp add: bindW_def)
  show ?thesis
    unfolding propose_promotion_def Let_def
    by (intro kept.moves_bind kept_option 1 2) simp_all
qed

end
