(* ===== verification/MemoryAccess.thy ===== *)
theory MemoryAccess
  imports MemoryProps
begin

text \<open>
  Where the agent's writes go: a document of a store the policy does not let the user write to
  is the same before and after \<open>agent_remember\<close> and \<open>agent_patch\<close>, as long as the other
  requests that run meanwhile leave that store alone.
\<close>

definition docs_in :: "string \<Rightarrow> memory \<Rightarrow> memory_document list" where
  "docs_in sid db = filter (\<lambda>d. doc_store d = sid) (documents db)"

text \<open>The store \<open>sid\<close> keeps its documents, and no document moves from one store to another.\<close>

definition confined :: "string \<Rightarrow> memory \<Rightarrow> memory \<Rightarrow> bool" where
  "confined sid x y \<longleftrightarrow> distinct (map doc_id (documents x)) \<longrightarrow>
     distinct (map doc_id (documents y)) \<and> stores y = stores x \<and> docs_in sid y = docs_in sid x
     \<and> (\<forall>d \<in> set (documents x). \<exists>e \<in> set (documents y). doc_id e = doc_id d \<and> doc_store e = doc_store d)"

lemma confined_trans:
  assumes "confined sid x y" and "confined sid y z" shows "confined sid x z"
  unfolding confined_def
proof (intro impI)
  assume 1: "distinct (map doc_id (documents x))"
  note xy = assms(1)[unfolded confined_def, rule_format, OF 1]
  then have 2: "distinct (map doc_id (documents y))" by simp
  note yz = assms(2)[unfolded confined_def, rule_format, OF 2]
  have "\<exists>e \<in> set (documents z). doc_id e = doc_id d \<and> doc_store e = doc_store d"
    if d: "d \<in> set (documents x)" for d
  proof -
    obtain e where e: "e \<in> set (documents y)" "doc_id e = doc_id d" "doc_store e = doc_store d"
      using xy d by blast
    then obtain g where "g \<in> set (documents z)" "doc_id g = doc_id e" "doc_store g = doc_store e"
      using yz by blast
    then show ?thesis using e by force
  qed
  then show "distinct (map doc_id (documents z)) \<and> stores z = stores x \<and> docs_in sid z = docs_in sid x
     \<and> (\<forall>d \<in> set (documents x). \<exists>e \<in> set (documents z). doc_id e = doc_id d \<and> doc_store e = doc_store d)"
    using xy yz by simp
qed

interpretation conf: state_moves "\<lambda>db. db" "confined sid" for sid
proof
  show "confined sid x x" for x by (auto simp: confined_def)
qed (rule confined_trans)

lemma confined_refl [simp]: "confined sid db db"
  by (rule conf.step_refl)

lemma confined_frame:
  assumes "documents y = documents x" and "stores y = stores x" shows "confined sid x y"
  using assms by (auto simp: confined_def docs_in_def)

lemma conf_frame:
  "(\<And>db. documents (snd (m db)) = documents db \<and> stores (snd (m db)) = stores db) \<Longrightarrow> conf.moves sid m"
  by (simp add: conf.moves_def confined_frame)

lemma conf_in_transaction [intro]: "conf.moves sid m \<Longrightarrow> conf.moves sid (in_transaction m)"
  by (auto simp: conf.moves_def in_transaction_snd split: sum.splits)

lemma conf_interleave [simp]: "conf.moves sid (interleave env) \<longleftrightarrow> (\<forall>x. confined sid x (env x))"
  by (simp add: conf.moves_def)

lemma conf_simps [simp]:
  "conf.moves sid (query f)" "conf.moves sid fresh_id" "conf.moves sid (store_of d)"
  "conf.moves sid (get_store_by_slug sl)" "conf.moves sid (get_document_by_id did)"
  "conf.moves sid (get_document_by_store_path s path)"
  "conf.moves sid (agent_source_ref did vid summary calls run conversation)"
  by (rule conf_frame; simp add: store_of_def get_store_by_slug_def get_document_by_id_def
      get_document_by_store_path_def agent_source_ref_def create_source_ref_def bindW_def Let_def
      split: list.splits)+

lemma conf_create_version [simp]:
  "conf.moves sid (create_version sha s did path operation content who previous)"
  by (rule conf_frame) (simp add: create_version_def bindW_def Let_def)

lemma filter_put_document:
  "(\<forall>x \<in> set ds. doc_id x = doc_id d \<longrightarrow> doc_store x \<noteq> sid) \<Longrightarrow> doc_store d \<noteq> sid \<Longrightarrow>
     filter (\<lambda>x. doc_store x = sid) (put_document d ds) = filter (\<lambda>x. doc_store x = sid) ds"
  by (induction ds) (auto simp: put_document_def)

text \<open>Saving a document of another store.\<close>

definition at_home :: "memory_document \<Rightarrow> memory \<Rightarrow> bool" where
  "at_home d db \<longleftrightarrow> (\<exists>e \<in> set (documents db). doc_id e = doc_id d \<and> doc_store e = doc_store d)"

lemma at_home_confined:
  "at_home d x \<Longrightarrow> confined sid x y \<Longrightarrow> distinct (map doc_id (documents x)) \<Longrightarrow>
     at_home d y \<and> distinct (map doc_id (documents y))"
  unfolding at_home_def confined_def by (metis (mono_tags, lifting))

lemma distinct_ids_same:
  "distinct (map doc_id ds) \<Longrightarrow> x \<in> set ds \<Longrightarrow> y \<in> set ds \<Longrightarrow> doc_id x = doc_id y \<Longrightarrow> x = y"
  by (auto simp: distinct_map inj_on_def)

lemma save_confined:
  assumes home: "at_home d db" and other: "doc_store d \<noteq> sid"
  shows "confined sid db (snd (save_document d db))"
proof -
  obtain r db' where e: "save_document d db = (r, db')" by (cases "save_document d db")
  from save_document_eq[OF e] consider "db' = db"
    | d' where "d' = d\<lparr>doc_updated_at := mem_now db\<rparr>"
        "db' = db\<lparr>documents := put_document d' (documents db)\<rparr>" by auto
  then show ?thesis
  proof cases
    case 2
    show ?thesis
      unfolding confined_def
    proof (intro impI)
      assume dist: "distinct (map doc_id (documents db))"
      have store: "doc_store x = doc_store d" if "x \<in> set (documents db)" "doc_id x = doc_id d" for x
        using home that distinct_ids_same[OF dist] unfolding at_home_def by metis
      have "docs_in sid db' = docs_in sid db"
        unfolding docs_in_def 2(2)
        using store other 2(1) by (simp add: filter_put_document)
      moreover have "\<exists>y \<in> set (documents db'). doc_id y = doc_id x \<and> doc_store y = doc_store x"
        if "x \<in> set (documents db)" for x
      proof (cases "doc_id x = doc_id d")
        case True
        then have "d' \<in> set (documents db')" using that 2 by (auto simp: put_document_set image_iff intro!: bexI[of _ x])
        then show ?thesis using True store[OF that] 2(1) by (intro bexI[of _ d']) simp_all
      next
        case False
        then have "x \<in> set (documents db')" using that 2 by (auto simp: put_document_set)
        then show ?thesis by blast
      qed
      ultimately show "distinct (map doc_id (documents (snd (save_document d db))))
          \<and> stores (snd (save_document d db)) = stores db
          \<and> docs_in sid (snd (save_document d db)) = docs_in sid db
          \<and> (\<forall>x \<in> set (documents db). \<exists>y \<in> set (documents (snd (save_document d db))).
               doc_id y = doc_id x \<and> doc_store y = doc_store x)"
        using dist e 2(2) by simp
    qed
  qed (simp add: e)
qed

lemma commit_confined:
  assumes "at_home d db" and "doc_store d \<noteq> sid" and "distinct (map doc_id (documents db))"
  shows "confined sid db (snd (commit_version sha operation who d db))"
proof -
  let ?cv = "create_version sha (doc_store d) (Some (doc_id d)) (doc_path d) operation
    (Some (doc_content d)) who (current_version d)"
  obtain r db1 where e: "?cv db = (r, db1)" by (cases "?cv db")
  have 1: "confined sid db db1" by (rule conf.moves_eq[OF conf_create_version e])
  show ?thesis
  proof (cases r)
    case (Inl x) then show ?thesis using e 1 by (simp add: commit_version_def bindW_def)
  next
    case (Inr v)
    let ?d = "d\<lparr>current_version := Some (ver_id v)\<rparr>"
    have "at_home ?d db1"
      using at_home_confined[OF assms(1) 1 assms(3)] by (simp add: at_home_def)
    then have "confined sid db1 (snd (save_document ?d db1))"
      using assms(2) by (intro save_confined) simp_all
    then show ?thesis using 1 e Inr by (auto simp: commit_version_def bindW_def intro: confined_trans)
  qed
qed

subsection \<open>The agent's operations\<close>

lemma create_document_confined:
  assumes "store_id store \<noteq> sid"
  shows "conf.moves sid (create_document sha store data who)"
  unfolding conf.moves_def
proof
  fix db :: memory
  let ?did = "uuid4 db (drawn db)"
  let ?m = "bindW (create_document_row (new_document sha ?did store data who)) (\<lambda>d.
        bindW (create_version sha (store_id store) (Some (doc_id d)) (dc_path data) CREATE_OP
                 (Some (dc_content data)) who None) (\<lambda>v.
        save_document (d\<lparr>current_version := Some (ver_id v)\<rparr>)))"
  let ?db0 = "db\<lparr>drawn := Suc (drawn db)\<rparr>"
  have 0: "confined sid db ?db0" by (simp add: confined_frame)
  have "confined sid ?db0 db3" if m: "?m ?db0 = (Inr d3, db3)" for d3 db3
  proof (cases "distinct (map doc_id (documents db))")
    case True
    obtain d1 db1 v db2 where 1: "create_document_row (new_document sha ?did store data who) ?db0 = (Inr d1, db1)"
      and 2: "create_version sha (store_id store) (Some (doc_id d1)) (dc_path data) CREATE_OP
                 (Some (dc_content data)) who None db1 = (Inr v, db2)"
      and 3: "save_document (d1\<lparr>current_version := Some (ver_id v)\<rparr>) db2 = (Inr d3, db3)"
      using m by (auto simp: bindW_Inr)
    have d1: "documents db1 = documents db @ [d1]" "stores db1 = stores db" "doc_store d1 = store_id store"
      "\<forall>x \<in> set (documents db). doc_id x \<noteq> doc_id d1"
      using create_document_row_eq[OF 1] by (auto simp: new_document_def)
    have c1: "confined sid ?db0 db1"
      using d1 assms by (auto simp: confined_def docs_in_def)
    have c2: "confined sid db1 db2" by (rule conf.moves_eq[OF conf_create_version 2])
    have "at_home d1 db1" "distinct (map doc_id (documents db1))"
      using d1 True by (auto simp: at_home_def)
    then have "at_home d1 db2" using at_home_confined c2 by blast
    then have "at_home (d1\<lparr>current_version := Some (ver_id v)\<rparr>) db2" by (simp add: at_home_def)
    then have "confined sid db2 db3"
      using save_confined[of "d1\<lparr>current_version := Some (ver_id v)\<rparr>" db2 sid] 3 d1(3) assms by simp
    then show ?thesis using c1 c2 by (blast intro: confined_trans)
  qed (simp add: confined_def)
  then have "confined sid db (snd (in_transaction (\<lambda>_. ?m ?db0) db))"
    unfolding in_transaction_snd
    by (cases "?m ?db0") (auto split: sum.splits intro: confined_trans[OF 0])
  moreover have "create_document sha store data who db = in_transaction (\<lambda>_. ?m ?db0) db"
    by (simp add: create_document_def in_transaction_def bindW_def)
  ultimately show "confined sid db (snd (create_document sha store data who db))" by simp
qed

lemma remember_new_confined:
  "store_id store \<noteq> sid \<Longrightarrow> conf.moves sid (remember_new sha req run conversation store)"
  unfolding remember_new_def by (intro conf.moves_bind create_document_confined) simp_all

lemma conf_Pair [simp]: "conf.moves sid (Pair r)"
  by (simp add: conf.moves_def)

lemma conf_snd: "conf.moves sid m \<Longrightarrow> confined sid db (snd (m db))"
  by (simp add: conf.moves_def)

lemma bind_confined:
  assumes "confined sid db (snd (m db))"
    and "\<And>a db'. m db = (Inr a, db') \<Longrightarrow> confined sid db' (snd (f a db'))"
  shows "confined sid db (snd (bindW m f db))"
proof (cases "m db")
  case (Pair r db')
  then show ?thesis
    using assms by (cases r) (auto simp: bindW_def intro: confined_trans)
qed

lemma remember_existing_confined:
  assumes "at_home d db" and "doc_store d \<noteq> sid" and "distinct (map doc_id (documents db))"
    and "\<forall>x. confined sid x (env x)"
  shows "confined sid db (snd (remember_existing sha env req run conversation store d db))"
proof -
  let ?d = "remembered_document sha req d"
  have env: "at_home d (env db)" "distinct (map doc_id (documents (env db)))"
    using at_home_confined[OF assms(1) assms(4)[rule_format] assms(3)] by auto
  have same: "doc_id ?d = doc_id d" "doc_store ?d = doc_store d"
    by (simp_all add: remembered_document_def set_content_def)
  let ?t = "in_transaction (commit_version sha UPDATE_OP (agent_actor run conversation) ?d)"
  have t: "confined sid (env db) (snd (?t (env db)))"
    unfolding in_transaction_snd
    using env assms(2) commit_confined[of ?d "env db" sid] by (auto simp: at_home_def same split: sum.splits)
  have "confined sid db (snd (bindW (interleave env) (\<lambda>_. bindW ?t (\<lambda>d'.
        bindW (agent_source_ref (doc_id d') (current_version d') (wr_evidence req) (wr_calls req)
                 run conversation) (\<lambda>_.
        ret (remembered False (doc_id d') (current_version d') (slug store) (wr_path req))))) db))"
    using t assms(4)
    by (intro bind_confined) (auto intro!: conf_snd)
  then show ?thesis by (simp add: remember_existing_def)
qed

lemma found_at_path:
  "get_document_by_store_path sid path db = (Inr (Some d), db') \<Longrightarrow>
     db' = db \<and> d \<in> set (documents db) \<and> doc_store d = sid"
proof -
  assume "get_document_by_store_path sid path db = (Inr (Some d), db')"
  then have f: "filter (\<lambda>d. doc_store d = sid \<and> doc_path d = path \<and> doc_deleted_at d = None) (documents db) = [d]"
    and db: "db' = db"
    by (auto simp: get_document_by_store_path_def split: list.splits)
  have "d \<in> set (filter (\<lambda>d. doc_store d = sid \<and> doc_path d = path \<and> doc_deleted_at d = None)
      (documents db))"
    unfolding f by simp
  then have "d \<in> set (documents db)" "doc_store d = sid" by simp_all
  then show ?thesis using db by simp
qed

lemma agent_remember_confined:
  assumes env: "\<forall>x. confined sid x (env x)" "\<forall>x. confined sid x (env' x)"
    and ids: "distinct (map doc_id (documents db))"
    and prot: "\<And>s t. s \<in> set (stores db) \<Longrightarrow> store_id s = sid \<Longrightarrow> \<not> allowed (resolve_write user s t)"
  shows "confined sid db (snd (agent_remember sha S env env' req user run conversation db))"
proof (cases "find (\<lambda>s. slug s = wr_slug req \<and> store_archived_at s = None) (stores db)")
  case None
  then show ?thesis by (simp add: agent_remember_def get_store_by_slug_def bindW_def)
next
  case (Some store)
  then have mem: "store \<in> set (stores db)" by (auto simp: find_Some_iff set_conv_nth)
  show ?thesis
  proof (cases "remember_refusal S req user store")
    case refused: (Some r)
    then show ?thesis using Some by (simp add: agent_remember_def get_store_by_slug_def bindW_def)
  next
    case None
    then have "allowed (resolve_write user store (Some (wr_type req)))"
      by (auto simp: remember_refusal_def Let_def split: if_splits)
    then have other: "store_id store \<noteq> sid" using prot mem by blast
    have ids1: "distinct (map doc_id (documents (env db)))"
      using env(1) ids by (simp add: confined_def)
    let ?rest = "\<lambda>existing. case existing of
        Some d \<Rightarrow> remember_existing sha env' req run conversation store d
      | None \<Rightarrow> bindW (interleave env') (\<lambda>_. remember_new sha req run conversation store)"
    have "confined sid (env db) (snd (bindW (get_document_by_store_path (store_id store) (wr_path req)) ?rest (env db)))"
    proof (rule bind_confined)
      fix a db' assume g: "get_document_by_store_path (store_id store) (wr_path req) (env db) = (Inr a, db')"
      show "confined sid db' (snd (?rest a db'))"
      proof (cases a)
        case None
        have "conf.moves sid (?rest a)"
          unfolding None using env(2) other by (auto intro!: conf.moves_bind remember_new_confined)
        then show ?thesis by (rule conf_snd)
      next
        case (Some d)
        with found_at_path[of "store_id store" "wr_path req" "env db" d db'] g
        have d: "db' = env db" "d \<in> set (documents db')" "doc_store d = store_id store" by auto
        then have "at_home d db'" by (auto simp: at_home_def)
        then show ?thesis
          using remember_existing_confined[of d db' sid env'] other ids1 env(2) Some d by simp
      qed
    qed (simp add: conf_snd)
    then have "confined sid db (snd (bindW (get_document_by_store_path (store_id store) (wr_path req)) ?rest (env db)))"
      using env(1) by (blast intro: confined_trans)
    then show ?thesis
      using Some None by (simp add: agent_remember_def get_store_by_slug_def bindW_def)
  qed
qed

lemma patch_document_confined:
  assumes "\<And>d. d \<in> set (documents db) \<Longrightarrow> doc_id d = did \<Longrightarrow> doc_deleted_at d = None \<Longrightarrow> doc_store d \<noteq> sid"
    and "distinct (map doc_id (documents db))"
  shows "confined sid db (snd (patch_document sha did expected content who db))"
proof (cases "find (\<lambda>d. doc_id d = did \<and> doc_deleted_at d = None) (documents db)")
  case None
  then show ?thesis
    by (simp add: patch_document_def with_live_document_def get_document_by_id_def bindW_def in_transaction_def)
next
  case (Some d)
  then have d: "d \<in> set (documents db)" "doc_id d = did" "doc_deleted_at d = None"
    by (auto simp: find_Some_iff set_conv_nth)
  let ?d = "set_content sha content d"
  have "at_home ?d db" "doc_store ?d \<noteq> sid"
    using d assms(1) by (auto simp: at_home_def set_content_def)
  then have c: "confined sid db (snd (commit_version sha PATCH_OP who ?d db))"
    using assms(2) by (intro commit_confined)
  show ?thesis
    using Some c unfolding patch_document_def in_transaction_snd
    by (cases "commit_version sha PATCH_OP who ?d db")
      (auto simp: with_live_document_def get_document_by_id_def bindW_def split: sum.splits)
qed

lemma agent_patch_confined:
  assumes env: "\<forall>x. confined sid x (env x)" and ids: "distinct (map doc_id (documents db))"
    and prot: "\<And>s t. s \<in> set (stores db) \<Longrightarrow> store_id s = sid \<Longrightarrow> \<not> allowed (resolve_write user s t)"
  shows "confined sid db (snd (agent_patch sha uuid S env req user run conversation db))"
proof (cases "uuid (pr_document req)")
  case (Inl e)
  then show ?thesis by (simp add: agent_patch_def bindW_def)
next
  case (Inr did)
  note u = Inr
  show ?thesis
  proof (cases "find (\<lambda>d. doc_id d = did \<and> doc_deleted_at d = None) (documents db)")
    case None
    then show ?thesis by (simp add: agent_patch_def get_document_by_id_def bindW_def u)
  next
    case (Some d)
    then have d: "d \<in> set (documents db)" "doc_id d = did" by (auto simp: find_Some_iff set_conv_nth)
    show ?thesis
    proof (cases "find (\<lambda>s. store_id s = doc_store d) (stores db)")
      case None
      then show ?thesis using Some
        by (simp add: agent_patch_def get_document_by_id_def store_of_def bindW_def u)
    next
      case store: (Some store)
      then have mem: "store \<in> set (stores db)" "store_id store = doc_store d"
        by (auto simp: find_Some_iff set_conv_nth)
      show ?thesis
      proof (cases "patch_refusal S req user store d")
        case refused: (Some r)
        then show ?thesis using Some store
          by (simp add: agent_patch_def get_document_by_id_def store_of_def bindW_def u)
      next
        case None
        then have "allowed (resolve_write user store (Some (doc_type d)))"
          by (auto simp: patch_refusal_def Let_def split: if_splits)
        then have other: "doc_store d \<noteq> sid" using prot mem by blast
        have "at_home d db" using d by (auto simp: at_home_def)
        then have home: "at_home d (env db)" "distinct (map doc_id (documents (env db)))"
          using at_home_confined env ids by blast+
        have moved: "doc_store x \<noteq> sid" if "x \<in> set (documents (env db))" "doc_id x = did" for x
          using home that other d(2) distinct_ids_same[OF home(2)] unfolding at_home_def by metis
        let ?wr = "patch_document sha did (pr_expected_sha req) (pr_content req) (agent_actor run conversation)"
        let ?rest = "\<lambda>written. case written of
              Inl e \<Rightarrow> ret (patch_failed e)
            | Inr d' \<Rightarrow> bindW (agent_source_ref (doc_id d') (current_version d') (pr_evidence req)
                 (pr_calls req) run conversation) (\<lambda>_. ret (patched store d d'))"
        have "confined sid (env db) (snd (bindW ?wr ?rest (env db)))"
          using patch_document_confined[of "env db" did sid] moved home(2)
          by (intro bind_confined)
            (auto split: sum.splits intro!: conf_snd conf.moves_bind)
        then have "confined sid db (snd (bindW ?wr ?rest (env db)))"
          using env by (blast intro: confined_trans)
        then show ?thesis using Some store None
          by (simp add: agent_patch_def get_document_by_id_def store_of_def bindW_def[of "lift _"]
              bindW_def[of "query _"] bindW_def[of "interleave _"] u)
      qed
    qed
  qed
qed

subsection \<open>Properties\<close>

definition demo_store :: "string \<Rightarrow> scope_type \<Rightarrow> memory_store" where
  "demo_store sl sc =
     \<lparr>store_id = sl, store_name = sl, slug = sl, store_description = [], scope = sc,
      store_trust = AGENT_DRAFT, default_access = READ_WRITE, owner_user = None,
      store_archived_at = None, store_created_at = 0, store_updated_at = 0\<rparr>"

definition demo_document :: memory_document where
  "demo_document =
     \<lparr>doc_id = ''d1'', doc_store = ''conversation_memory'', doc_path = ''/n'', doc_title = None,
      doc_content = ''old'', doc_sha = ''old'', doc_size = 3, doc_type = CONVERSATION_NOTE,
      doc_status = ACTIVE_DOC, doc_tags = [], doc_entities = [], doc_confidence = 80,
      current_version = Some ''v1'', created_by_user = None, created_by_run = None,
      created_by_conversation = None, doc_deleted_at = None, doc_created_at = 0, doc_updated_at = 0\<rparr>"

definition demo_memory :: memory where
  "demo_memory =
     \<lparr>stores = [demo_store ''workspace_runbooks'' WORKSPACE, demo_store ''conversation_memory'' CONVERSATION],
      documents = [demo_document],
      versions = [new_version (\<lambda>s. s) ''conversation_memory'' (Some ''d1'') ''/n'' CREATE_OP (Some ''old'')
                    (agent_actor None None) None ''v1'' 0],
      source_refs = [], usages = [], dreams = [], review_items = [], mem_now = 5,
      uuid4 = (\<lambda>n. CHR ''u'' # nat_str n), drawn = 0\<rparr>"

lemma demo_memory_ok: "mem_ok (\<lambda>s. s) demo_memory"
  by (simp add: mem_ok_def demo_memory_def demo_document_def paths_unique_def doc_digest_ok_def backed_by_def)

lemma kept_snd: "kept.moves sha m \<Longrightarrow> mem_ok sha db \<Longrightarrow> mem_ok sha (snd (m db))"
  by (simp add: kept.moves_def)

lemma find_put_document:
  "d \<in> set ds \<Longrightarrow> doc_id d1 = doc_id d \<Longrightarrow> doc_deleted_at d1 = None \<Longrightarrow>
     find (\<lambda>x. doc_id x = doc_id d \<and> doc_deleted_at x = None) (put_document d1 ds) = Some d1"
  by (induction ds) (auto simp: put_document_def)

text \<open>
  C37: Every operation of the memory service keeps the version invariant, whatever the other
  requests that run while it awaits do, as long as they keep it too: document and version
  identifiers and live paths stay unique, the digest and the size of a document are those of its
  content, and a live document points to a version of its own that holds its content and digest,
  unless that version was redacted: \<open>redact_version\<close> empties the version and leaves the document as
  it is, so behind a redaction the document has its content and the version has none.
\<close>

theorem document_versions_kept:
  assumes "mem_ok sha db" and "fair sha env" and "fair sha env'"
  shows "mem_ok sha (snd (create_document sha store data who db))
    \<and> mem_ok sha (snd (update_document sha did upd who db))
    \<and> mem_ok sha (snd (patch_document sha did expected content who db))
    \<and> mem_ok sha (snd (delete_document sha env env' did user db))
    \<and> mem_ok sha (snd (redact_version vid admin why db))
    \<and> mem_ok sha (snd (agent_remember sha S env env' req user run conversation db))
    \<and> mem_ok sha (snd (agent_patch sha uuid S env patch user run conversation db))
    \<and> mem_ok sha (snd (propose_promotion uuid model promote db))"
  by (intro conjI kept_snd[OF _ assms(1)] create_document_kept update_document_kept patch_document_kept
      redact_version_kept delete_document_kept agent_remember_kept agent_patch_kept propose_promotion_kept
      assms(2,3))

theorem document_versions_kept_witness:
  "mem_ok (\<lambda>s. s) (snd (patch_document (\<lambda>s. s) ''d1'' ''old'' ''new'' (agent_actor None None) demo_memory))"
  using document_versions_kept[OF demo_memory_ok, of "\<lambda>x. x" "\<lambda>x. x"] by (simp add: fair_def)

text \<open>
  C36: The agent writes only where the policy lets it: when no document type makes a store
  writable for the user (a workspace store, an archived one, another user's), neither
  \<open>agent_remember\<close> nor \<open>agent_patch\<close> changes the documents of that store, whatever other stores the
  requests in between change.
\<close>

theorem agent_writes_confined:
  assumes "s \<in> set (stores db)" and "\<And>t. \<not> allowed (resolve_write user s t)"
    and "distinct (map store_id (stores db))" and "distinct (map doc_id (documents db))"
    and "\<And>x. confined (store_id s) x (env x)" and "\<And>x. confined (store_id s) x (env' x)"
  shows "docs_in (store_id s) (snd (agent_remember sha S env env' req user run conversation db))
       = docs_in (store_id s) db
    \<and> docs_in (store_id s) (snd (agent_patch sha uuid S env patch user run conversation db))
       = docs_in (store_id s) db"
proof -
  have prot: "\<not> allowed (resolve_write user x t)" if "x \<in> set (stores db)" "store_id x = store_id s" for x t
  proof -
    have "x = s" using assms(1,3) that by (auto simp: distinct_map inj_on_def)
    then show ?thesis using assms(2) by simp
  qed
  have "confined (store_id s) db (snd (agent_remember sha S env env' req user run conversation db))"
    using agent_remember_confined assms(4,5,6) prot by blast
  moreover have "confined (store_id s) db (snd (agent_patch sha uuid S env patch user run conversation db))"
    using agent_patch_confined assms(4,5) prot by blast
  ultimately show ?thesis using assms(4) by (simp add: confined_def)
qed

definition demo_request :: "string \<Rightarrow> write_request" where
  "demo_request sl =
     \<lparr>wr_slug = sl, wr_path = ''/n'', wr_title = None, wr_type = CONVERSATION_NOTE, wr_content = ''hi'',
      wr_confidence = 80, wr_tags = [], wr_entities = [], wr_calls = [], wr_evidence = ''seen'',
      wr_expected_sha = None\<rparr>"

definition demo_patch :: patch_request where
  "demo_patch = \<lparr>pr_document = ''d1'', pr_expected_sha = ''old'', pr_content = ''hi'', pr_summary = [],
     pr_calls = [], pr_evidence = ''seen''\<rparr>"

theorem agent_writes_confined_witness:
  "docs_in ''workspace_runbooks'' (snd (agent_remember (\<lambda>s. s) default_settings (\<lambda>x. x) (\<lambda>x. x)
     (demo_request ''workspace_runbooks'') (Some ''u'') None None demo_memory))
   = docs_in ''workspace_runbooks'' demo_memory"
  using agent_writes_confined[where s = "demo_store ''workspace_runbooks'' WORKSPACE" and db = demo_memory
      and env = "\<lambda>x. x" and env' = "\<lambda>x. x" and user = "Some ''u''" and sha = "\<lambda>s. s"
      and S = default_settings and req = "demo_request ''workspace_runbooks''"
      and run = None and conversation = None and uuid = Inr and patch = demo_patch]
  by (simp add: demo_memory_def demo_store_def demo_document_def resolve_write_def)

text \<open>
  Of two patches based on the same content only the first is written: once a patch that
  changed the digest has succeeded, a patch that expects the old digest is refused with the
  current digest and an excerpt, and changes nothing.
\<close>

theorem stale_patch_refused:
  assumes "patch_document sha did h c1 who db = (Inr (Inr d1), db1)"
    and "distinct (map doc_id (documents db))" and "sha c1 \<noteq> h"
  shows "patch_document sha did h c2 who' db1 =
     (Inr (Inl (Write_error stale_reason
        (Some [(''current_sha256'', JStr (sha c1)), (''latest_excerpt'', JStr (take 200 c1))]))), db1)"
proof -
  obtain d where d: "find (\<lambda>d. doc_id d = did \<and> doc_deleted_at d = None) (documents db) = Some d"
    and w: "commit_version sha PATCH_OP who (set_content sha c1 d) db = (Inr d1, db1)"
    using assms(1)
    by (auto simp: patch_document_def in_transaction_def with_live_document_def get_document_by_id_def
        bindW_def split: option.splits sum.splits prod.splits if_splits)
  have dm: "d \<in> set (documents db)" "doc_id d = did" "doc_deleted_at d = None"
    using d by (auto simp: find_Some_iff set_conv_nth)
  obtain v db0 where v: "create_version sha (doc_store d) (Some did) (doc_path d) PATCH_OP (Some c1) who
      (current_version d) db = (Inr v, db0)"
    and s: "save_document ((set_content sha c1 d)\<lparr>current_version := Some (ver_id v)\<rparr>) db0 = (Inr d1, db1)"
    using w dm(2) by (auto simp: commit_version_def bindW_Inr set_content_def)
  have docs0: "documents db0 = documents db" using create_version_eq[OF v] by auto
  have d1: "d1 = (set_content sha c1 d)\<lparr>current_version := Some (ver_id v), doc_updated_at := mem_now db0\<rparr>"
    "documents db1 = put_document d1 (documents db)"
    using save_document_eq[OF s] docs0 by auto
  have f1: "doc_id d1 = did" "doc_deleted_at d1 = None" "doc_content d1 = c1" "doc_sha d1 = sha c1"
    using dm by (simp_all add: d1(1) set_content_def)
  have "find (\<lambda>d. doc_id d = did \<and> doc_deleted_at d = None) (documents db1) = Some d1"
    unfolding d1(2) using find_put_document[OF dm(1), of d1] dm(2) f1(1,2) by simp
  then show ?thesis
    using assms(3) f1
    by (simp add: patch_document_def in_transaction_def with_live_document_def get_document_by_id_def bindW_def)
qed

theorem stale_patch_refused_witness:
  "\<exists>d1 db1. patch_document (\<lambda>s. s) ''d1'' ''old'' ''new'' (agent_actor None None) demo_memory = (Inr (Inr d1), db1)
     \<and> patch_document (\<lambda>s. s) ''d1'' ''old'' ''newer'' (agent_actor None None) db1 =
        (Inr (Inl (Write_error stale_reason
           (Some [(''current_sha256'', JStr ''new''), (''latest_excerpt'', JStr ''new'')]))), db1)"
proof -
  obtain r db1 where e: "patch_document (\<lambda>s. s) ''d1'' ''old'' ''new'' (agent_actor None None) demo_memory = (r, db1)"
    by (cases "patch_document (\<lambda>s. s) ''d1'' ''old'' ''new'' (agent_actor None None) demo_memory")
  moreover have "case fst (patch_document (\<lambda>s. s) ''d1'' ''old'' ''new'' (agent_actor None None) demo_memory) of
      Inr (Inr d) \<Rightarrow> True | _ \<Rightarrow> False"
    by code_simp
  ultimately obtain d1 where "r = Inr (Inr d1)" by (auto split: sum.splits)
  with e stale_patch_refused[of "\<lambda>s. s" "''d1''" "''old''" "''new''" "agent_actor None None" demo_memory d1 db1
      "''newer''" "agent_actor None None"]
  show ?thesis by (simp add: demo_memory_def)
qed

end
