(* ===== verification/RetrievalProps.thy ===== *)
theory RetrievalProps
  imports MemoryRetrieval MemoryAccess
begin

text \<open>
  What retrieval puts into the model's context: for an authenticated user only live, active
  documents of stores the read policy opens to that user, at most the number asked for, and an
  amount of text bounded by the budget.
\<close>

lemma accessible_ids:
  "get_accessible_store_ids user db =
     (Inr (map store_id (filter (accessible_store user) (order_by store_le
        (filter (\<lambda>s. store_archived_at s = None \<and> (user = None \<or> owner_user s = user \<or> owner_user s = None))
          (stores db))))), db)"
  by (simp add: get_accessible_store_ids_def list_stores_def bindW_def)

definition accessible_ids_of :: "string option \<Rightarrow> memory \<Rightarrow> string list" where
  "accessible_ids_of user db = projr (fst (get_accessible_store_ids user db))"

lemma accessible_ids_iff:
  "sid \<in> set (accessible_ids_of user db) \<longleftrightarrow>
     (\<exists>s \<in> set (stores db). store_id s = sid \<and> store_archived_at s = None \<and> accessible_store user s
        \<and> (user = None \<or> owner_user s = user \<or> owner_user s = None))"
  by (auto simp: accessible_ids_of_def accessible_ids)

text \<open>
  C39: For an authenticated user the stores retrieval searches are those the read policy opens,
  except that a store owned by another user is left out in every scope. Without a user it searches
  every workspace store, of which the policy opens only \<open>workspace_conventions\<close>.
\<close>

theorem retrieval_scope_is_read_policy:
  "(sid \<in> set (accessible_ids_of (Some u) db) \<longleftrightarrow>
     (\<exists>s \<in> set (stores db). store_id s = sid \<and> allowed (resolve_read (Some u) s)
        \<and> \<not> other_owner (Some u) s))
   \<and> (sid \<in> set (accessible_ids_of None db) \<longleftrightarrow>
     (\<exists>s \<in> set (stores db). store_id s = sid \<and> store_archived_at s = None \<and> scope s = WORKSPACE))"
proof
  have "accessible_store (Some u) s \<and> store_archived_at s = None
      \<and> (Some u = None \<or> owner_user s = Some u \<or> owner_user s = None)
    \<longleftrightarrow> allowed (resolve_read (Some u) s) \<and> \<not> other_owner (Some u) s" for s
    by (cases "scope s") (auto simp: accessible_store_def resolve_read_allowed_iff other_owner_def)
  then show "sid \<in> set (accessible_ids_of (Some u) db) \<longleftrightarrow>
     (\<exists>s \<in> set (stores db). store_id s = sid \<and> allowed (resolve_read (Some u) s)
        \<and> \<not> other_owner (Some u) s)"
    unfolding accessible_ids_iff by blast
next
  have "accessible_store None s \<longleftrightarrow> scope s = WORKSPACE" for s
    by (cases "scope s") (auto simp: accessible_store_def)
  then show "sid \<in> set (accessible_ids_of None db) \<longleftrightarrow>
     (\<exists>s \<in> set (stores db). store_id s = sid \<and> store_archived_at s = None \<and> scope s = WORKSPACE)"
    unfolding accessible_ids_iff by auto
qed

subsection \<open>Search results\<close>

lemma joined_rows_iff:
  "r \<in> set (joined_rows db) \<longleftrightarrow> row_doc r \<in> set (documents db) \<and> row_store r \<in> set (stores db)
     \<and> store_id (row_store r) = doc_store (row_doc r)"
proof
  assume "row_doc r \<in> set (documents db) \<and> row_store r \<in> set (stores db)
     \<and> store_id (row_store r) = doc_store (row_doc r)"
  then have "\<lparr>row_doc = row_doc r, row_store = row_store r\<rparr> \<in> set (joined_rows db)"
    by (auto simp: joined_rows_def)
  then show "r \<in> set (joined_rows db)" by (cases r) simp
qed (auto simp: joined_rows_def)

lemma fts_search_rows:
  assumes "fst (fts_search fts q sids n drafts types db) = Inr rows" and "(r, sc) \<in> set rows"
  shows "r \<in> set (joined_rows db) \<and> is_candidate sids drafts types r"
proof -
  have "(r, sc) \<in> set (List.map_filter (\<lambda>r. map_option (\<lambda>sc. (r, sc)) (fts q (row_doc r)))
      (filter (is_candidate sids drafts types) (joined_rows db)))"
    using assms by (auto simp: fts_search_def split: if_splits dest: in_set_takeD)
  then show ?thesis by (auto simp: List.map_filter_def)
qed

lemma memory_search_results:
  assumes "fst (memory_search fts decay q user n drafts types db) = Inr rs"
  shows "length rs \<le> n \<and> (\<forall>x \<in> set rs. sr_row x \<in> set (joined_rows db)
     \<and> is_candidate (accessible_ids_of user db) drafts types (sr_row x)
     \<and> sr_excerpt x = make_excerpt (doc_content (row_doc (sr_row x))))"
proof (cases "accessible_ids_of user db = []")
  case True
  then show ?thesis using assms
    by (auto simp: memory_search_def bindW_def accessible_ids accessible_ids_of_def)
next
  case False
  let ?ids = "accessible_ids_of user db"
  obtain rows where rows: "fst (fts_search fts q ?ids (n * 3) drafts types db) = Inr rows"
    by (simp add: fts_search_def)
  have ids: "get_accessible_store_ids user db = (Inr ?ids, db)"
    by (simp add: accessible_ids accessible_ids_of_def)
  have "fts_search fts q ?ids (n * 3) drafts types db = (Inr rows, db)"
    using rows by (simp add: fts_search_def)
  then have rs: "rs = map (\<lambda>(r, sc). \<lparr>sr_row = r, sr_score = sc,
        sr_excerpt = make_excerpt (doc_content (row_doc r))\<rparr>)
      (take n (order_by (\<lambda>a b. snd b \<le> snd a)
        (map (\<lambda>(r, t). (r, rank_row decay (mem_now db) (extract_entities q) r t)) rows)))"
    using assms False by (simp add: memory_search_def bindW_def ids Let_def)
  show ?thesis
    unfolding rs using fts_search_rows[OF rows] by (auto dest!: in_set_takeD)
qed

subsection \<open>The budget\<close>

lemma before_last_space_length: "length (before_last_space s) \<le> length s"
proof -
  have "length (dropWhile P xs) \<le> length xs" for P and xs :: string
    by (rule length_dropWhile_le)
  then have "length (tl (dropWhile (\<lambda>c. c \<noteq> CHR '' '') (rev s))) \<le> length s"
    by (metis diff_le_self length_rev length_tl order_trans)
  then show ?thesis by (simp add: before_last_space_def)
qed

lemma cut_excerpt_length: "length (cut_excerpt n s) \<le> n + 4"
  using before_last_space_length[of "take n s"] by (simp add: cut_excerpt_def)

definition hits_cost :: "memory_hit list \<Rightarrow> int" where
  "hits_cost hits = (\<Sum>h \<leftarrow> hits. int (length (hit_excerpt h)) + 200)"

lemma hit_excerpt_of [simp]: "hit_excerpt (hit_of r e) = e"
  by (simp add: hit_of_def Let_def)

lemma fill_budget_cost:
  "used + hits_cost (fill_budget b used rs) \<le> max used (b + 204)"
proof (induction b used rs rule: fill_budget.induct)
  case (2 b used r rs)
  let ?rem = "b - used"
  let ?e = "if ?rem < int (length (sr_excerpt r)) then cut_excerpt (nat ?rem) (sr_excerpt r) else sr_excerpt r"
  let ?used = "used + int (length ?e) + 200"
  show ?case
  proof (cases "?rem \<le> 0")
    case False
    then have "int (length ?e) \<le> ?rem + 4"
      using cut_excerpt_length[of "nat ?rem" "sr_excerpt r"] by auto
    then have "?used \<le> b + 204" by simp
    moreover have "?used + hits_cost (fill_budget b ?used rs) \<le> max ?used (b + 204)"
      using 2[OF refl refl] False by simp
    ultimately show ?thesis using False by (simp add: hits_cost_def Let_def)
  qed (simp add: hits_cost_def)
qed (simp add: hits_cost_def)

lemma fill_budget_hits:
  "h \<in> set (fill_budget b used rs) \<Longrightarrow> \<exists>r \<in> set rs. \<exists>e. h = hit_of r e"
  by (induction b used rs rule: fill_budget.induct) (auto simp: Let_def split: if_splits)

lemma fill_budget_length: "length (fill_budget b used rs) \<le> length rs"
  by (induction b used rs rule: fill_budget.induct) (auto simp: Let_def)

lemma record_hits_Inr: "\<exists>db'. record_hits uuid conversation run hits db = (Inr (), db')
    \<or> (\<exists>e. record_hits uuid conversation run hits db = (Inl e, db') \<and> cancelled e)"
  by (cases "record_hits uuid conversation run hits db")
    (auto simp: record_hits_def catchW_def split: option.splits list.splits if_splits prod.splits sum.splits)

lemma retrieve_eq:
  assumes "fst (retrieve_for_turn fts decay uuid q user conversation run n budget db) = Inr hits"
  shows "\<exists>rs. fst (memory_search fts decay q user n False [] db) = Inr rs
     \<and> hits = fill_budget (budget * 4) 0 rs"
  using assms by (auto simp: retrieve_for_turn_def bindW_def Let_def split: sum.splits prod.splits)

text \<open>
  The context retrieved for a turn is bounded: at most the number of documents asked for,
  and excerpts whose lengths, with 200 characters of overhead each, exceed four characters per
  budgeted token by at most 204.
\<close>

theorem retrieval_within_budget:
  assumes "fst (retrieve_for_turn fts decay uuid q user conversation run n budget db) = Inr hits"
  shows "length hits \<le> n \<and> hits_cost hits \<le> max 0 (budget * 4 + 204)"
proof -
  obtain rs where rs: "fst (memory_search fts decay q user n False [] db) = Inr rs"
    and hits: "hits = fill_budget (budget * 4) 0 rs"
    using retrieve_eq[OF assms] by blast
  have "length rs \<le> n" using memory_search_results[OF rs] by blast
  then show ?thesis
    using fill_budget_length[of "budget * 4" 0 rs] fill_budget_cost[of 0 "budget * 4" rs] hits by simp
qed

text \<open>
  C38: Every hit put into the context of an authenticated user is a live, active document of a
  store the read policy opens to that user.
\<close>

theorem retrieved_hits_readable:
  assumes "fst (retrieve_for_turn fts decay uuid q (Some u) conversation run n budget db) = Inr hits"
    and "h \<in> set hits" and "distinct (map store_id (stores db))"
  shows "\<exists>d \<in> set (documents db). \<exists>s \<in> set (stores db).
     doc_id d = hit_document h \<and> slug s = hit_store h \<and> doc_store d = store_id s
     \<and> doc_deleted_at d = None \<and> doc_status d = ACTIVE_DOC \<and> allowed (resolve_read (Some u) s)"
proof -
  obtain rs where rs: "fst (memory_search fts decay q (Some u) n False [] db) = Inr rs"
    and hits: "hits = fill_budget (budget * 4) 0 rs"
    using retrieve_eq[OF assms(1)] by blast
  obtain r e where r: "r \<in> set rs" and h: "h = hit_of r e"
    using fill_budget_hits assms(2) hits by blast
  let ?d = "row_doc (sr_row r)" and ?s = "row_store (sr_row r)"
  have row: "?d \<in> set (documents db)" "?s \<in> set (stores db)" "store_id ?s = doc_store ?d"
    and cand: "is_candidate (accessible_ids_of (Some u) db) False [] (sr_row r)"
    using memory_search_results[OF rs] r by (auto simp: joined_rows_iff)
  obtain t where t: "t \<in> set (stores db)" "store_id t = doc_store ?d" "accessible_store (Some u) t"
      "store_archived_at t = None" "owner_user t = Some u \<or> owner_user t = None"
    using cand by (auto simp: is_candidate_def accessible_ids_iff)
  have "t = ?s" using assms(3) t(1,2) row(2,3) by (auto simp: distinct_map inj_on_def)
  then have "allowed (resolve_read (Some u) ?s)"
    using t by (cases "scope t") (auto simp: resolve_read_allowed_iff accessible_store_def other_owner_def)
  moreover have "doc_deleted_at ?d = None" "doc_status ?d = ACTIVE_DOC"
    using cand by (auto simp: is_candidate_def search_statuses_def)
  ultimately show ?thesis
    using row by (intro bexI[of _ ?d] bexI[of _ ?s]) (simp_all add: h hit_of_def Let_def)
qed

definition demo_fts :: "string \<Rightarrow> memory_document \<Rightarrow> rat option" where
  "demo_fts q d = (if contains_str (doc_content d) q then Some 1 else None)"

lemma demo_retrieval:
  "\<exists>hits. fst (retrieve_for_turn demo_fts (\<lambda>_. 1) Inr ''old'' (Some ''u'') None None 6 2200 demo_memory) = Inr hits
     \<and> map hit_document hits = [''d1''] \<and> hit_store (hd hits) = ''conversation_memory''"
proof -
  have ids: "get_accessible_store_ids (Some ''u'') demo_memory = (Inr [''conversation_memory'', ''workspace_runbooks''], demo_memory)"
    by (simp add: accessible_ids demo_memory_def demo_store_def order_by_def store_le_def accessible_store_def)
  have rows: "joined_rows demo_memory = [\<lparr>row_doc = demo_document,
      row_store = demo_store ''conversation_memory'' CONVERSATION\<rparr>]"
    by (simp add: joined_rows_def demo_memory_def demo_store_def demo_document_def)
  have fts: "fts_search demo_fts ''old'' [''conversation_memory'', ''workspace_runbooks''] 18 False [] demo_memory
     = (Inr [(\<lparr>row_doc = demo_document, row_store = demo_store ''conversation_memory'' CONVERSATION\<rparr>, 1)], demo_memory)"
    unfolding fts_search_def
    by (simp add: rows demo_fts_def is_candidate_def demo_document_def search_statuses_def order_by_def
        List.map_filter_def py_strip_def py_rstrip_def py_lstrip_def is_space_def)
  have "make_excerpt (doc_content demo_document) = ''old''"
    by (simp add: make_excerpt_def demo_document_def py_strip_def py_rstrip_def py_lstrip_def is_space_def)
  then show ?thesis
    by (simp add: retrieve_for_turn_def memory_search_def ids fts bindW_def order_by_def record_hits_def)
      (simp add: hit_of_def demo_document_def demo_store_def)
qed

theorem retrieval_within_budget_witness:
  "\<exists>hits. fst (retrieve_for_turn demo_fts (\<lambda>_. 1) Inr ''old'' (Some ''u'') None None 6 2200 demo_memory) = Inr hits
     \<and> length hits \<le> 6 \<and> hits_cost hits \<le> 9004"
proof -
  obtain hits where h: "fst (retrieve_for_turn demo_fts (\<lambda>_. 1) Inr ''old'' (Some ''u'') None None 6 2200 demo_memory) = Inr hits"
    using demo_retrieval by (elim exE conjE)
  then show ?thesis using retrieval_within_budget[OF h] by (simp add: h)
qed

theorem retrieved_hits_readable_witness:
  "\<exists>d \<in> set (documents demo_memory). \<exists>s \<in> set (stores demo_memory). doc_id d = ''d1''
     \<and> slug s = ''conversation_memory'' \<and> allowed (resolve_read (Some ''u'') s)"
proof -
  obtain hits where h: "fst (retrieve_for_turn demo_fts (\<lambda>_. 1) Inr ''old'' (Some ''u'') None None 6 2200 demo_memory) = Inr hits"
      "map hit_document hits = [''d1'']" "hit_store (hd hits) = ''conversation_memory''"
    using demo_retrieval by (elim exE conjE)
  then obtain x where "hits = [x]" by (cases hits) simp_all
  with h have "x \<in> set hits" "hit_document x = ''d1''" "hit_store x = ''conversation_memory''" by simp_all
  moreover have "distinct (map store_id (stores demo_memory))"
    by (simp add: demo_memory_def demo_store_def)
  ultimately obtain d s where "d \<in> set (documents demo_memory)" "s \<in> set (stores demo_memory)"
      "doc_id d = ''d1''" "slug s = ''conversation_memory''" "allowed (resolve_read (Some ''u'') s)"
    using retrieved_hits_readable[OF h(1), of x] by auto
  then show ?thesis by (intro bexI[of _ d] bexI[of _ s]) simp_all
qed

end
