(* ===== verification/MemoryApi.thy ===== *)
theory MemoryApi
  imports MemoryRetrieval
begin

text \<open>
  The HTTP handlers of the memory: \<open>endpoints/memory.py\<close> for users and \<open>endpoints/memory_agent.py\<close>
  for the MCP server. An \<open>HTTPException\<close> is a value of \<open>http_error\<close>; any other exception is
  the left summand of the state transformer, as elsewhere. Routing, the validation of bodies and
  query parameters and the login dependency are FastAPI's; a handler starts from the validated
  values and the user, if any.
\<close>

datatype http_error = Http (http_status: int) (http_detail: json)

type_synonym 'a api = "(http_error + 'a) mem"

definition http :: "int \<Rightarrow> string \<Rightarrow> 'a api" where
  "http code msg = ret (Inl (Http code (JStr msg)))"

definition okay :: "'a \<Rightarrow> 'a api" where
  "okay d = ret (Inr d)"

definition call :: "'a mem \<Rightarrow> ('a \<Rightarrow> 'b api) \<Rightarrow> 'b api" where
  "call m f = bindW m f"

record api_user =
  au_id :: string
  au_superuser :: bool
  au_role :: string

definition is_admin :: "api_user option \<Rightarrow> bool" where
  "is_admin u = (case u of None \<Rightarrow> False | Some x \<Rightarrow> au_superuser x \<or> au_role x = ''admin'')"

definition require_auth :: "api_user option \<Rightarrow> (string \<Rightarrow> 'a api) \<Rightarrow> 'a api" where
  "require_auth u f = (case u of None \<Rightarrow> http 401 ''Authentication required'' | Some x \<Rightarrow> f (au_id x))"

definition admin_only :: "api_user option \<Rightarrow> (string \<Rightarrow> 'a api) \<Rightarrow> 'a api" where
  "admin_only u f = require_auth u (\<lambda>uid. if is_admin u then f uid else http 403 ''Admin required'')"

definition parse_uuid :: "(string \<Rightarrow> string py) \<Rightarrow> string \<Rightarrow> string \<Rightarrow> (string \<Rightarrow> 'a api) \<Rightarrow> 'a api" where
  "parse_uuid uuid value label f =
     (case uuid value of
        Inl e \<Rightarrow> http 422 (''Invalid '' @ label @ '': '' @ repr_str value)
      | Inr v \<Rightarrow> f v)"

definition found :: "string \<Rightarrow> 'a option mem \<Rightarrow> ('a \<Rightarrow> 'b api) \<Rightarrow> 'b api" where
  "found what m f = call m (\<lambda>x. case x of None \<Rightarrow> http 404 (what @ '' not found'') | Some a \<Rightarrow> f a)"

definition readable :: "string \<Rightarrow> memory_store \<Rightarrow> 'a api \<Rightarrow> 'a api" where
  "readable uid store k =
     (let d = resolve_read (Some uid) store in if allowed d then k else http 403 (decision_reason d))"

text \<open>\<open>get_document_by_id\<close> joined with its store.\<close>

definition get_with_store :: "string \<Rightarrow> (memory_document \<times> memory_store) option mem" where
  "get_with_store did = query (\<lambda>db.
     case find (\<lambda>d. doc_id d = did \<and> doc_deleted_at d = None) (documents db) of
       None \<Rightarrow> None
     | Some d \<Rightarrow> map_option (Pair d) (find (\<lambda>s. store_id s = doc_store d) (stores db)))"

subsection \<open>Values in responses\<close>

fun access_value :: "access_mode \<Rightarrow> string" where
  "access_value READ_ONLY = ''read_only''"
| "access_value READ_WRITE = ''read_write''"
| "access_value DRAFT_WRITE = ''draft_write''"

fun status_value :: "document_status \<Rightarrow> string" where
  "status_value ACTIVE_DOC = ''active''"
| "status_value DRAFT_DOC = ''draft''"
| "status_value CANDIDATE_DOC = ''candidate''"
| "status_value REJECTED_DOC = ''rejected''"
| "status_value ARCHIVED_DOC = ''archived''"
| "status_value REDACTED_DOC = ''redacted''"

fun operation_value :: "memory_operation \<Rightarrow> string" where
  "operation_value CREATE_OP = ''create''"
| "operation_value UPDATE_OP = ''update''"
| "operation_value PATCH_OP = ''patch''"
| "operation_value DELETE_OP = ''delete''"
| "operation_value REDACT_OP = ''redact''"
| "operation_value PROMOTE_OP = ''promote''"

fun actor_value :: "actor_type \<Rightarrow> string" where
  "actor_value USER_ACTOR = ''user''"
| "actor_value ADMIN_ACTOR = ''admin''"
| "actor_value AGENT_ACTOR = ''agent''"
| "actor_value SYSTEM_ACTOR = ''system''"
| "actor_value DREAM_ACTOR = ''dream''"

definition document_type_of :: "string \<Rightarrow> document_type option" where
  "document_type_of s = find (\<lambda>t. document_type_value t = s)
     [USER_PREFERENCE, WORKSPACE_CONVENTION, RUNBOOK, INCIDENT_LESSON, SERVICE_CONTEXT,
      TOOL_USAGE_LESSON, VERIFICATION_CHECKLIST, CONVERSATION_NOTE, DREAM_SUMMARY]"

definition isoformat :: "int \<Rightarrow> string" where
  "isoformat us =
     (let s = us div 1000000 mod 86400; frac = us mod 1000000
      in iso_day us @ ''T'' @ pad 2 (s div 3600) @ '':'' @ pad 2 (s div 60 mod 60) @ '':'' @ pad 2 (s mod 60)
         @ (if frac = 0 then [] else ''.'' @ pad 6 frac) @ ''+00:00'')"

definition iso_or_null :: "int option \<Rightarrow> json" where
  "iso_or_null t = (case t of None \<Rightarrow> JNull | Some us \<Rightarrow> JStr (isoformat us))"

abbreviation strs :: "string list \<Rightarrow> json" where
  "strs xs \<equiv> JList (map JStr xs)"

definition store_summary :: "memory_store \<Rightarrow> dict" where
  "store_summary s =
     [(''id'', JStr (store_id s)), (''slug'', JStr (slug s)), (''name'', JStr (store_name s)),
      (''scope_type'', JStr (scope_value (scope s))), (''trust_level'', JStr (trust_value (store_trust s))),
      (''default_access'', JStr (access_value (default_access s))),
      (''archived_at'', iso_or_null (store_archived_at s))]"

definition store_detail :: "memory_store \<Rightarrow> dict" where
  "store_detail s =
     [(''id'', JStr (store_id s)), (''slug'', JStr (slug s)), (''name'', JStr (store_name s)),
      (''description'', JStr (store_description s)),
      (''scope_type'', JStr (scope_value (scope s))), (''trust_level'', JStr (trust_value (store_trust s))),
      (''default_access'', JStr (access_value (default_access s))),
      (''owner_user_id'', or_null (owner_user s)), (''archived_at'', iso_or_null (store_archived_at s)),
      (''created_at'', JStr (isoformat (store_created_at s))),
      (''updated_at'', JStr (isoformat (store_updated_at s)))]"

definition document_summary :: "memory_document \<Rightarrow> dict" where
  "document_summary d =
     [(''id'', JStr (doc_id d)), (''path'', JStr (doc_path d)), (''title'', or_null (doc_title d)),
      (''document_type'', JStr (document_type_value (doc_type d))),
      (''status'', JStr (status_value (doc_status d))), (''confidence'', JInt (doc_confidence d)),
      (''tags'', strs (doc_tags d)), (''updated_at'', JStr (isoformat (doc_updated_at d)))]"

definition document_detail :: "memory_document \<Rightarrow> memory_store \<Rightarrow> dict" where
  "document_detail d s =
     [(''id'', JStr (doc_id d)), (''store_id'', JStr (doc_store d)), (''store_slug'', JStr (slug s)),
      (''path'', JStr (doc_path d)), (''title'', or_null (doc_title d)), (''content'', JStr (doc_content d)),
      (''content_sha256'', JStr (doc_sha d)), (''document_type'', JStr (document_type_value (doc_type d))),
      (''status'', JStr (status_value (doc_status d))), (''confidence'', JInt (doc_confidence d)),
      (''tags'', strs (doc_tags d)), (''entities'', JDict (doc_entities d)),
      (''current_version_id'', or_null (current_version d)),
      (''created_at'', JStr (isoformat (doc_created_at d))),
      (''updated_at'', JStr (isoformat (doc_updated_at d)))]"

definition version_summary :: "string \<Rightarrow> memory_version \<Rightarrow> dict" where
  "version_summary key v =
     [(key, JStr (ver_id v)), (''operation'', JStr (operation_value (ver_operation v))),
      (''actor_type'', JStr (actor_value (ver_actor v))), (''content_sha256'', or_null (ver_sha v)),
      (''redacted'', JBool (ver_redacted_at v \<noteq> None)), (''created_at'', JStr (isoformat (ver_created_at v)))]"

subsection \<open>The user's endpoints\<close>

definition api_create_store :: "api_user option \<Rightarrow> store_create \<Rightarrow> dict api" where
  "api_create_store u body = admin_only u (\<lambda>uid. call (create_store body) (\<lambda>s.
     okay [(''status'', JStr ''success''), (''store_id'', JStr (store_id s)), (''slug'', JStr (slug s))]))"

definition api_list_stores :: "api_user option \<Rightarrow> dict api" where
  "api_list_stores u = require_auth u (\<lambda>uid. call (list_stores (Some uid) False) (\<lambda>ss.
     okay [(''stores'', JList (map (JDict \<circ> store_summary)
       (filter (\<lambda>s. allowed (resolve_read (Some uid) s)) ss)))]))"

definition api_get_store :: "(string \<Rightarrow> string py) \<Rightarrow> api_user option \<Rightarrow> string \<Rightarrow> dict api" where
  "api_get_store uuid u sid = require_auth u (\<lambda>uid. parse_uuid uuid sid ''store_id'' (\<lambda>i.
     found ''Store'' (get_store_by_id i) (\<lambda>s. readable uid s (okay (store_detail s)))))"

definition api_update_store ::
  "(string \<Rightarrow> string py) \<Rightarrow> api_user option \<Rightarrow> string \<Rightarrow> store_update \<Rightarrow> dict api" where
  "api_update_store uuid u sid body = admin_only u (\<lambda>uid. parse_uuid uuid sid ''store_id'' (\<lambda>i.
     found ''Store'' (update_store i body) (\<lambda>s.
     okay [(''status'', JStr ''success''), (''store_id'', JStr (store_id s))])))"

definition api_archive_store :: "(string \<Rightarrow> string py) \<Rightarrow> api_user option \<Rightarrow> string \<Rightarrow> dict api" where
  "api_archive_store uuid u sid = admin_only u (\<lambda>uid. parse_uuid uuid sid ''store_id'' (\<lambda>i.
     found ''Store'' (archive_store i) (\<lambda>s.
     okay [(''status'', JStr ''success''), (''archived_at'', iso_or_null (store_archived_at s))])))"

definition api_list_documents ::
  "(string \<Rightarrow> string py) \<Rightarrow> api_user option \<Rightarrow> string \<Rightarrow> string \<Rightarrow> string option \<Rightarrow> nat \<Rightarrow> nat \<Rightarrow> dict api" where
  "api_list_documents uuid u sid path_prefix dtype limit offset =
     require_auth u (\<lambda>uid. parse_uuid uuid sid ''store_id'' (\<lambda>i.
     found ''Store'' (get_store_by_id i) (\<lambda>s. readable uid s
       (case (case dtype of None \<Rightarrow> Some [] | Some [] \<Rightarrow> Some []
              | Some t \<Rightarrow> map_option (\<lambda>x. [x]) (document_type_of t)) of
          None \<Rightarrow> http 422 (''Invalid document_type: '' @ (case dtype of None \<Rightarrow> [] | Some t \<Rightarrow> t))
        | Some types \<Rightarrow> call (list_documents i path_prefix types False limit offset) (\<lambda>ds.
            okay [(''store_id'', JStr sid), (''documents'', JList (map (JDict \<circ> document_summary) ds))])))))"

definition api_create_document ::
  "(string \<Rightarrow> string) \<Rightarrow> (string \<Rightarrow> string py) \<Rightarrow> api_user option \<Rightarrow> string \<Rightarrow> document_create \<Rightarrow> dict api" where
  "api_create_document sha uuid u sid body =
     require_auth u (\<lambda>uid. parse_uuid uuid sid ''store_id'' (\<lambda>i.
     found ''Store'' (get_store_by_id i) (\<lambda>s.
       let policy = resolve_admin_write (is_admin u) s
       in if \<not> allowed policy then http 403 (decision_reason policy)
          else call (create_document sha s body
                 \<lparr>act_type = ADMIN_ACTOR, act_user = Some uid, act_run = None, act_conversation = None\<rparr>) (\<lambda>d.
            okay [(''status'', JStr ''success''), (''document_id'', JStr (doc_id d)),
                  (''path'', JStr (doc_path d))]))))"

definition api_get_document :: "(string \<Rightarrow> string py) \<Rightarrow> api_user option \<Rightarrow> string \<Rightarrow> dict api" where
  "api_get_document uuid u did = require_auth u (\<lambda>uid. parse_uuid uuid did ''document_id'' (\<lambda>i.
     found ''Document'' (get_with_store i) (\<lambda>(d, s). readable uid s (okay (document_detail d s)))))"

definition api_update_document ::
  "(string \<Rightarrow> string) \<Rightarrow> (string \<Rightarrow> string py) \<Rightarrow> api_user option \<Rightarrow> string \<Rightarrow> document_update \<Rightarrow> dict api" where
  "api_update_document sha uuid u did body = admin_only u (\<lambda>uid. parse_uuid uuid did ''document_id'' (\<lambda>i.
     call (update_document sha i body
             \<lparr>act_type = ADMIN_ACTOR, act_user = Some uid, act_run = None, act_conversation = None\<rparr>) (\<lambda>r.
       case r of
         Inl e \<Rightarrow>
           (case we_conflict e of
              Some extra \<Rightarrow> ret (Inl (Http 409 (JDict [(''type'', JStr ''memory_conflict''),
                (''message'', JStr (we_reason e)), (''current_sha256'', dget extra ''current_sha256'')])))
            | None \<Rightarrow> http 400 (we_reason e))
       | Inr d \<Rightarrow> okay [(''status'', JStr ''success''), (''document_id'', JStr (doc_id d)),
           (''version_id'', JStr (case current_version d of None \<Rightarrow> ''None'' | Some v \<Rightarrow> v))])))"

definition api_delete_document ::
  "(string \<Rightarrow> string) \<Rightarrow> (string \<Rightarrow> string py) \<Rightarrow> (memory \<Rightarrow> memory) \<Rightarrow> (memory \<Rightarrow> memory)
     \<Rightarrow> api_user option \<Rightarrow> string \<Rightarrow> dict api" where
  "api_delete_document sha uuid env env' u did = admin_only u (\<lambda>uid. parse_uuid uuid did ''document_id'' (\<lambda>i.
     call (delete_document sha env env' i (Some uid)) (\<lambda>deleted.
       if \<not> deleted then http 404 ''Document not found''
       else okay [(''status'', JStr ''success''), (''deleted'', JBool True)])))"

definition api_document_versions ::
  "(string \<Rightarrow> string py) \<Rightarrow> api_user option \<Rightarrow> string \<Rightarrow> nat \<Rightarrow> dict api" where
  "api_document_versions uuid u did limit = require_auth u (\<lambda>uid. parse_uuid uuid did ''document_id'' (\<lambda>i.
     found ''Document'' (get_with_store i) (\<lambda>(d, s). readable uid s
       (call (get_versions_for_document i limit) (\<lambda>vs.
          okay [(''document_id'', JStr did),
                (''versions'', JList (map (JDict \<circ> version_summary ''id'') vs))])))))"

definition api_redact_version ::
  "(string \<Rightarrow> string py) \<Rightarrow> api_user option \<Rightarrow> string \<Rightarrow> string \<Rightarrow> dict api" where
  "api_redact_version uuid u vid why = admin_only u (\<lambda>uid. parse_uuid uuid vid ''version_id'' (\<lambda>i.
     found ''Version'' (redact_version i uid why) (\<lambda>v.
     okay [(''status'', JStr ''success''), (''redacted_at'', iso_or_null (ver_redacted_at v))])))"

definition api_search_memory ::
  "(string \<Rightarrow> memory_document \<Rightarrow> rat option) \<Rightarrow> (int \<Rightarrow> rat) \<Rightarrow> api_user option \<Rightarrow> string \<Rightarrow> nat \<Rightarrow> bool
     \<Rightarrow> document_type list \<Rightarrow> search_result list api" where
  "api_search_memory fts decay u q max_results drafts types =
     require_auth u (\<lambda>uid. call (memory_search fts decay q (Some uid) max_results drafts types) okay)"

end
