(* ===== verification/MemoryAgentApi.thy ===== *)
theory MemoryAgentApi
  imports MemoryApi
begin

text \<open>
  The internal endpoints of \<open>endpoints/memory_agent.py\<close> and the memory tools of the MCP server
  (\<open>mcp/tools/memory.py\<close>) that call them. The score of a search result is a float and is left
  out of the response; the scope hints are validated by the schema and not used by the search.
\<close>

subsection \<open>The engine's side\<close>

definition verify_internal_key :: "settings \<Rightarrow> string \<Rightarrow> 'a api \<Rightarrow> 'a api" where
  "verify_internal_key S key k =
     (if key \<noteq> INTERNAL_API_KEY S then http 401 ''Invalid internal API key'' else k)"

definition safe_uuid :: "(string \<Rightarrow> string py) \<Rightarrow> string option \<Rightarrow> string option" where
  "safe_uuid uuid v =
     (case v of None \<Rightarrow> None | Some [] \<Rightarrow> None
      | Some s \<Rightarrow> (case uuid s of Inl e \<Rightarrow> None | Inr i \<Rightarrow> Some i))"

record agent_context =
  ctx_user :: "string option"
  ctx_conversation :: "string option"
  ctx_run :: "string option"

definition error_answer :: "string \<Rightarrow> dict api" where
  "error_answer msg = okay (error_dict msg)"

fun parse_types :: "string list \<Rightarrow> document_type list \<times> string list" where
  "parse_types [] = ([], [])"
| "parse_types (s # ss) =
     (let (ok, bad) = parse_types ss
      in case document_type_of s of Some t \<Rightarrow> (t # ok, bad) | None \<Rightarrow> (ok, s # bad))"

definition result_dict :: "search_result \<Rightarrow> dict" where
  "result_dict r =
     (let d = row_doc (sr_row r); s = row_store (sr_row r)
      in [(''store'', JStr (slug s)), (''path'', JStr (doc_path d)), (''document_id'', JStr (doc_id d)),
          (''version_id'', or_null (current_version d)), (''trust_level'', JStr (trust_value (store_trust s))),
          (''document_type'', JStr (document_type_value (doc_type d))),
          (''status'', JStr (status_value (doc_status d))),
          (''updated_at'', JStr (isoformat (doc_updated_at d))), (''title'', or_null (doc_title d)),
          (''excerpt'', JStr (sr_excerpt r))])"

definition agent_memory_search ::
  "(string \<Rightarrow> memory_document \<Rightarrow> rat option) \<Rightarrow> (int \<Rightarrow> rat) \<Rightarrow> (string \<Rightarrow> string py) \<Rightarrow> agent_context
     \<Rightarrow> string \<Rightarrow> string list \<Rightarrow> nat \<Rightarrow> dict api" where
  "agent_memory_search fts decay uuid ctx q types max_results =
     (let (ok, bad) = parse_types types
      in if bad \<noteq> [] then error_answer (''Unknown document_type(s): '' @ join_str '', '' bad)
         else call (memory_search fts decay q (safe_uuid uuid (ctx_user ctx)) max_results False ok) (\<lambda>rs.
           okay [(''results'', JList (map (JDict \<circ> result_dict) rs)),
                 (''warning'', JStr ''Memory is advisory. Verify live state before acting.'')]))"

definition set_option :: "string option \<Rightarrow> bool" where
  "set_option v \<longleftrightarrow> (case v of Some (c # cs) \<Rightarrow> True | _ \<Rightarrow> False)"

text \<open>Which document the request names; an identifier that is no UUID is an error of its own.\<close>

definition requested_document ::
  "(string \<Rightarrow> string py) \<Rightarrow> string option \<Rightarrow> string option \<Rightarrow> string option
     \<Rightarrow> (dict + memory_document option) mem" where
  "requested_document uuid did sl path =
     (if set_option did then
        (case safe_uuid uuid did of
           None \<Rightarrow> ret (Inl (error_dict (''Invalid document_id: '' @ repr_str (the did))))
         | Some i \<Rightarrow> bindW (get_document_by_id i) (\<lambda>d. ret (Inr d)))
      else if set_option sl \<and> set_option path then
        bindW (get_store_by_slug (the sl)) (\<lambda>s. case s of
          None \<Rightarrow> ret (Inr None)
        | Some store \<Rightarrow> bindW (get_document_by_store_path (store_id store) (the path)) (\<lambda>d. ret (Inr d)))
      else ret (Inr None))"

definition read_document :: "memory_document \<Rightarrow> memory_store \<Rightarrow> dict" where
  "read_document d s =
     [(''document_id'', JStr (doc_id d)), (''store_slug'', JStr (slug s)), (''path'', JStr (doc_path d)),
      (''title'', or_null (doc_title d)), (''content'', JStr (doc_content d)),
      (''content_sha256'', JStr (doc_sha d)), (''document_type'', JStr (document_type_value (doc_type d))),
      (''status'', JStr (status_value (doc_status d))), (''trust_level'', JStr (trust_value (store_trust s))),
      (''confidence'', JInt (doc_confidence d)), (''tags'', strs (doc_tags d)),
      (''updated_at'', JStr (isoformat (doc_updated_at d))), (''version_id'', or_null (current_version d))]"

definition agent_memory_read ::
  "(string \<Rightarrow> string py) \<Rightarrow> agent_context \<Rightarrow> string option \<Rightarrow> string option \<Rightarrow> string option \<Rightarrow> dict api" where
  "agent_memory_read uuid ctx did sl path =
     call (requested_document uuid did sl path) (\<lambda>asked. case asked of
       Inl e \<Rightarrow> okay e
     | Inr None \<Rightarrow> error_answer ''Document not found''
     | Inr (Some d) \<Rightarrow> call (store_of d) (\<lambda>joined. case joined of
         None \<Rightarrow> error_answer ''Document not found''
       | Some s \<Rightarrow>
           (let decision = resolve_read (safe_uuid uuid (ctx_user ctx)) s
            in if \<not> allowed decision then error_answer (''Access denied: '' @ decision_reason decision)
               else call (case safe_uuid uuid (ctx_conversation ctx) of
                      None \<Rightarrow> ret ()
                    | Some cid \<Rightarrow>
                        (if set_option (ctx_run ctx) then
                           record_memory_usage cid (safe_uuid uuid (ctx_run ctx)) (doc_id d)
                             (current_version d) READ_USE
                         else ret ())) (\<lambda>_.
                 okay (read_document d s)))))"

definition listed_document :: "memory_document \<Rightarrow> dict" where
  "listed_document d =
     [(''document_id'', JStr (doc_id d)), (''path'', JStr (doc_path d)), (''title'', or_null (doc_title d)),
      (''document_type'', JStr (document_type_value (doc_type d))),
      (''status'', JStr (status_value (doc_status d))), (''updated_at'', JStr (isoformat (doc_updated_at d)))]"

definition agent_memory_list ::
  "(string \<Rightarrow> string py) \<Rightarrow> agent_context \<Rightarrow> string \<Rightarrow> string \<Rightarrow> dict api" where
  "agent_memory_list uuid ctx sl path_prefix =
     call (get_store_by_slug sl) (\<lambda>s. case s of
       None \<Rightarrow> error_answer (''Store '' @ quoted sl @ '' not found'')
     | Some store \<Rightarrow>
         (let decision = resolve_read (safe_uuid uuid (ctx_user ctx)) store
          in if \<not> allowed decision then error_answer (''Access denied: '' @ decision_reason decision)
             else call (list_documents (store_id store) path_prefix [] False 50 0) (\<lambda>ds.
               okay [(''store_slug'', JStr sl), (''path_prefix'', JStr path_prefix),
                     (''documents'', JList (map (JDict \<circ> listed_document) ds))])))"

definition agent_memory_history ::
  "(string \<Rightarrow> string py) \<Rightarrow> agent_context \<Rightarrow> string \<Rightarrow> nat \<Rightarrow> dict api" where
  "agent_memory_history uuid ctx did limit =
     (case safe_uuid uuid (Some did) of
        None \<Rightarrow> error_answer (''Invalid document_id: '' @ repr_str did)
      | Some i \<Rightarrow> call (get_with_store i) (\<lambda>x. case x of
          None \<Rightarrow> error_answer ''Document not found''
        | Some (d, s) \<Rightarrow>
            (let decision = resolve_read (safe_uuid uuid (ctx_user ctx)) s
             in if \<not> allowed decision then error_answer (''Access denied: '' @ decision_reason decision)
                else call (get_versions_for_document i limit) (\<lambda>vs.
                  okay [(''document_id'', JStr did),
                        (''versions'', JList (map (JDict \<circ> version_summary ''version_id'') vs))]))))"

definition agent_memory_remember ::
  "(string \<Rightarrow> string) \<Rightarrow> (string \<Rightarrow> string py) \<Rightarrow> settings \<Rightarrow> (memory \<Rightarrow> memory) \<Rightarrow> (memory \<Rightarrow> memory)
     \<Rightarrow> agent_context \<Rightarrow> string \<Rightarrow> write_request \<Rightarrow> dict api" where
  "agent_memory_remember sha uuid S env env' ctx dtype req =
     (case document_type_of dtype of
        None \<Rightarrow> error_answer (''Unknown document_type: '' @ repr_str dtype)
      | Some t \<Rightarrow> call (agent_remember sha S env env' (req\<lparr>wr_type := t, wr_entities := []\<rparr>)
            (safe_uuid uuid (ctx_user ctx)) (safe_uuid uuid (ctx_run ctx))
            (safe_uuid uuid (ctx_conversation ctx))) okay)"

definition agent_memory_patch ::
  "(string \<Rightarrow> string) \<Rightarrow> (string \<Rightarrow> string py) \<Rightarrow> settings \<Rightarrow> (memory \<Rightarrow> memory) \<Rightarrow> agent_context
     \<Rightarrow> patch_request \<Rightarrow> dict api" where
  "agent_memory_patch sha uuid S env ctx req =
     call (agent_patch sha uuid S env req (safe_uuid uuid (ctx_user ctx)) (safe_uuid uuid (ctx_run ctx))
            (safe_uuid uuid (ctx_conversation ctx))) okay"

definition risk_of :: "string \<Rightarrow> risk_level" where
  "risk_of s = (if s = ''medium'' then MEDIUM_RISK else if s = ''high'' then HIGH_RISK else LOW_RISK)"

definition agent_memory_propose_promotion ::
  "(string \<Rightarrow> string py) \<Rightarrow> string option \<Rightarrow> string \<Rightarrow> promote_request \<Rightarrow> dict api" where
  "agent_memory_propose_promotion uuid model risk req =
     call (propose_promotion uuid model (req\<lparr>pm_risk := risk_of risk\<rparr>)) (\<lambda>r. case r of
       Inl e \<Rightarrow> error_answer (we_reason e)
     | Inr it \<Rightarrow> okay [(''proposed'', JBool True), (''review_item_id'', JStr (item_id it)),
         (''status'', JStr ''pending_review''),
         (''message'', JStr ''Promotion proposal created. Pending admin review.'')])"

subsection \<open>The MCP server's side\<close>

text \<open>
  A tool posts its arguments, and the context the executor injected, to the engine. The HTTP
  client is the argument \<open>post\<close>: an address, a body and the headers to a reply.
\<close>

datatype http_reply = Reply dict | Status_error int | No_reply string

type_synonym poster = "string \<Rightarrow> dict \<Rightarrow> dict \<Rightarrow> http_reply"

definition engine_url :: "string \<Rightarrow> string \<Rightarrow> string" where
  "engine_url base path =
     rstrip_char (CHR ''/'') base @ ''/api/v1/memory/agent/'' @ lstrip_char (CHR ''/'') path"

definition internal_headers :: "string \<Rightarrow> dict" where
  "internal_headers key = [(''x-internal-api-key'', JStr key)]"

definition post_memory :: "poster \<Rightarrow> string \<Rightarrow> string \<Rightarrow> string \<Rightarrow> dict \<Rightarrow> dict" where
  "post_memory post base key path payload =
     (case post (engine_url base path) payload (internal_headers key) of
        Reply d \<Rightarrow> d
      | Status_error code \<Rightarrow> error_dict (''Memory service error: '' @ int_str code)
      | No_reply msg \<Rightarrow> error_dict (''Memory service unavailable: '' @ msg))"

text \<open>\<open>json.dumps(v, ensure_ascii=False)\<close>\<close>

fun json_dumps :: "json \<Rightarrow> string" where
  "json_dumps JNull = ''null''"
| "json_dumps (JBool b) = (if b then ''true'' else ''false'')"
| "json_dumps (JInt i) = int_str i"
| "json_dumps (JStr s) = json_str s"
| "json_dumps (JList xs) = ''['' @ join_str '', '' (map json_dumps xs) @ '']''"
| "json_dumps (JDict d) =
     ''{'' @ join_str '', '' (map (\<lambda>p. json_str (fst p) @ '': '' @ json_dumps (snd p)) d) @ ''}''"

definition memory_result_text :: "dict \<Rightarrow> string" where
  "memory_result_text d = json_dumps (JDict d)"

definition injected :: "agent_context \<Rightarrow> dict" where
  "injected ctx =
     [(''user_id'', or_null (ctx_user ctx)), (''conversation_id'', or_null (ctx_conversation ctx)),
      (''run_id'', or_null (ctx_run ctx))]"

definition opt_entry :: "string \<Rightarrow> json option \<Rightarrow> dict" where
  "opt_entry k v = (case v of None \<Rightarrow> [] | Some x \<Rightarrow> [(k, x)])"

definition memory_search_payload :: "agent_context \<Rightarrow> string \<Rightarrow> json option \<Rightarrow> json option \<Rightarrow> json \<Rightarrow> dict" where
  "memory_search_payload ctx q hints types max_results =
     [(''query'', JStr q), (''max_results'', por max_results (JInt 6))] @ injected ctx
     @ opt_entry ''scope_hints'' hints @ opt_entry ''document_types'' types"

definition memory_read_payload :: "agent_context \<Rightarrow> string option \<Rightarrow> string option \<Rightarrow> string option \<Rightarrow> dict" where
  "memory_read_payload ctx did sl path =
     [(''document_id'', or_null did), (''store_slug'', or_null sl), (''path'', or_null path)] @ injected ctx"

definition memory_list_payload :: "agent_context \<Rightarrow> string \<Rightarrow> json \<Rightarrow> dict" where
  "memory_list_payload ctx sl path_prefix =
     [(''store_slug'', JStr sl), (''path_prefix'', por path_prefix (JStr ''/''))] @ injected ctx"

definition memory_history_payload :: "agent_context \<Rightarrow> string \<Rightarrow> json \<Rightarrow> dict" where
  "memory_history_payload ctx did limit =
     [(''document_id'', JStr did), (''limit'', por limit (JInt 5))] @ injected ctx"

definition memory_remember_payload ::
  "agent_context \<Rightarrow> string \<Rightarrow> string \<Rightarrow> string \<Rightarrow> string \<Rightarrow> string \<Rightarrow> string option \<Rightarrow> int option
     \<Rightarrow> string list option \<Rightarrow> string list option \<Rightarrow> string option \<Rightarrow> dict" where
  "memory_remember_payload ctx sl path dtype content summary title confidence calls tags expected =
     [(''target_store_slug'', JStr sl), (''path'', JStr path), (''document_type'', JStr dtype),
      (''content'', JStr content), (''evidence_summary'', JStr summary), (''title'', or_null title),
      (''confidence'', JInt (case confidence of None \<Rightarrow> 80 | Some c \<Rightarrow> c)),
      (''source_tool_call_ids'', strs (case calls of None \<Rightarrow> [] | Some xs \<Rightarrow> xs)),
      (''tags'', strs (case tags of None \<Rightarrow> [] | Some xs \<Rightarrow> xs)),
      (''expected_sha256'', or_null expected)] @ injected ctx"

definition memory_patch_payload ::
  "agent_context \<Rightarrow> string \<Rightarrow> string \<Rightarrow> string \<Rightarrow> string \<Rightarrow> string \<Rightarrow> string list option \<Rightarrow> dict" where
  "memory_patch_payload ctx did expected content patch_summary summary calls =
     [(''document_id'', JStr did), (''expected_sha256'', JStr expected), (''new_content'', JStr content),
      (''patch_summary'', JStr patch_summary), (''evidence_summary'', JStr summary),
      (''source_tool_call_ids'', strs (case calls of None \<Rightarrow> [] | Some xs \<Rightarrow> xs))] @ injected ctx"

definition memory_propose_payload ::
  "agent_context \<Rightarrow> string \<Rightarrow> string \<Rightarrow> string \<Rightarrow> string \<Rightarrow> string \<Rightarrow> json \<Rightarrow> dict" where
  "memory_propose_payload ctx src target path why summary risk =
     [(''source_document_id'', JStr src), (''target_store_slug'', JStr target), (''target_path'', JStr path),
      (''promotion_reason'', JStr why), (''evidence_summary'', JStr summary),
      (''risk_level'', por risk (JStr ''low''))] @ injected ctx"

text \<open>Every tool is its payload, posted to its path.\<close>

definition memory_tool :: "poster \<Rightarrow> string \<Rightarrow> string \<Rightarrow> string \<Rightarrow> dict \<Rightarrow> string" where
  "memory_tool post base key path payload = memory_result_text (post_memory post base key path payload)"

end
