(* ===== verification/Messages.thy ===== *)
theory Messages
  imports Config PyJson
begin

text \<open>
  \<open>utils/sanitization.py\<close>: what the engine does to the conversation before it sends it to the
  model. A message is a dictionary, as the types of the module say, so the tests
  \<open>isinstance(msg, dict)\<close> hold of every message here. Call identifiers are compared as values.
\<close>

abbreviation role_is :: "string \<Rightarrow> dict \<Rightarrow> bool" where
  "role_is r m \<equiv> dget m ''role'' = JStr r"

subsection \<open>The system prompt\<close>

definition prepare_messages_with_system_prompt :: "string \<Rightarrow> dict list \<Rightarrow> dict list" where
  "prepare_messages_with_system_prompt prompt messages =
     (if list_ex (role_is ''system'') messages then messages
      else [(''role'', JStr ''system''), (''content'', JStr prompt)] # messages)"

subsection \<open>Tools\<close>

definition no_parameters :: dict where
  "no_parameters = [(''type'', JStr ''object''), (''properties'', JDict []), (''required'', JList [])]"

definition tool_parameters :: "json \<Rightarrow> dict" where
  "tool_parameters schema = (case schema of JDict d \<Rightarrow> d | _ \<Rightarrow> no_parameters)"

text \<open>One entry of a \<open>parameters\<close> list; a name that cannot be a key is not modelled.\<close>

definition add_parameter :: "dict \<Rightarrow> json \<Rightarrow> dict" where
  "add_parameter params p =
     (case p of
        JDict d \<Rightarrow>
          (case dget d ''name'' of
             JStr (c # cs) \<Rightarrow>
               (let props = (case dget params ''properties'' of JDict ps \<Rightarrow> ps | _ \<Rightarrow> []);
                    def = JDict [(''type'', dget_def d ''type'' (JStr ''string'')),
                                 (''description'', dget_def d ''description'' (JStr []))];
                    params' = AList.update ''properties'' (JDict (AList.update (c # cs) def props)) params;
                    req = (case dget params' ''required'' of JList rs \<Rightarrow> rs | _ \<Rightarrow> [])
                in if truthy (dget_def d ''required'' (JBool False))
                   then AList.update ''required'' (JList (req @ [JStr (c # cs)])) params' else params')
           | _ \<Rightarrow> params)
      | _ \<Rightarrow> params)"

definition openai_tool :: "dict \<Rightarrow> json" where
  "openai_tool tool =
     (let schema = por (dget tool ''input_schema'') (por (dget tool ''inputSchema'') JNull);
          params = tool_parameters schema;
          params' = (if \<not> truthy schema then
                       (case map_of tool ''parameters'' of
                          Some (JList ps) \<Rightarrow> foldl add_parameter params ps
                        | _ \<Rightarrow> params)
                     else params)
      in JDict [(''type'', JStr ''function''),
                (''function'', JDict [(''name'', dget_def tool ''name'' (JStr [])),
                   (''description'', dget_def tool ''description'' (JStr [])),
                   (''parameters'', JDict params')])])"

definition mcp_tools_to_openai_format :: "json \<Rightarrow> json list" where
  "mcp_tools_to_openai_format response =
     (case response of
        JDict d \<Rightarrow>
          (case map_of d ''tools'' of
             Some (JList ts) \<Rightarrow> List.map_filter (\<lambda>t. case t of JDict tool \<Rightarrow> Some (openai_tool tool) | _ \<Rightarrow> None) ts
           | _ \<Rightarrow> [])
      | _ \<Rightarrow> [])"

subsection \<open>Tool calls and their answers\<close>

definition calls_of_msg :: "dict \<Rightarrow> json list option" where
  "calls_of_msg m =
     (if role_is ''assistant'' m then (case dget m ''tool_calls'' of JList cs \<Rightarrow> Some cs | _ \<Rightarrow> None) else None)"

definition call_id :: "json \<Rightarrow> json" where
  "call_id c = (case c of JDict d \<Rightarrow> dget d ''id'' | _ \<Rightarrow> JNull)"

definition call_ids :: "dict \<Rightarrow> json list" where
  "call_ids m = (case calls_of_msg m of None \<Rightarrow> [] | Some cs \<Rightarrow> filter truthy (map call_id cs))"

text \<open>The identifiers the tool messages right after a message answer.\<close>

definition answered_ids :: "dict list \<Rightarrow> json list" where
  "answered_ids rest = map (\<lambda>m. dget m ''tool_call_id'') (takeWhile (role_is ''tool'') rest)"

fun valid_call_ids :: "dict list \<Rightarrow> json list" where
  "valid_call_ids [] = []"
| "valid_call_ids (m # ms) =
     filter (\<lambda>i. i \<in> set (call_ids m)) (answered_ids ms) @ valid_call_ids ms"

definition with_content :: "dict \<Rightarrow> dict" where
  "with_content m = (if dget m ''content'' = JNull then AList.update ''content'' (JStr []) m else m)"

definition valid_calls :: "json list \<Rightarrow> json list \<Rightarrow> json list" where
  "valid_calls valid cs = filter (\<lambda>c. truthy (call_id c) \<and> call_id c \<in> set valid) cs"

definition keep_valid_calls :: "json list \<Rightarrow> dict \<Rightarrow> dict" where
  "keep_valid_calls valid m =
     (case calls_of_msg m of
        None \<Rightarrow> m
      | Some cs \<Rightarrow>
          (if valid_calls valid cs \<noteq> [] then AList.update ''tool_calls'' (JList (valid_calls valid cs)) m
           else filter (\<lambda>(k, v). k \<noteq> ''tool_calls'') m))"

fun sanitize_from :: "json list \<Rightarrow> json list \<Rightarrow> dict list \<Rightarrow> dict list" where
  "sanitize_from valid seen [] = []"
| "sanitize_from valid seen (m # ms) =
     (let m1 = with_content m;
          seen' = seen @ (case calls_of_msg m1 of None \<Rightarrow> [] | Some cs \<Rightarrow> map call_id (valid_calls valid cs));
          m2 = keep_valid_calls valid m1
      in if role_is ''tool'' m \<and> (\<not> truthy (dget m2 ''tool_call_id'') \<or> dget m2 ''tool_call_id'' \<notin> set seen')
         then sanitize_from valid seen' ms
         else m2 # sanitize_from valid seen' ms)"

definition sanitize_messages_for_openai :: "dict list \<Rightarrow> dict list" where
  "sanitize_messages_for_openai messages = sanitize_from (valid_call_ids messages) [] messages"

subsection \<open>Schemas for Gemini\<close>

definition choose_option :: "json list \<Rightarrow> dict" where
  "choose_option opts =
     (let ds = List.map_filter (\<lambda>o'. case o' of JDict d \<Rightarrow> Some d | _ \<Rightarrow> None) opts
      in case find (\<lambda>d. dget d ''type'' \<noteq> JStr ''null'') ds of
           Some d \<Rightarrow> d
         | None \<Rightarrow> (case ds of [] \<Rightarrow> [] | d # _ \<Rightarrow> d))"

text \<open>\<open>{**a, **b}\<close>\<close>

definition dict_merge :: "dict \<Rightarrow> dict \<Rightarrow> dict" where
  "dict_merge a b = foldl (\<lambda>d (k, v). AList.update k v d) a b"

definition merge_combinator :: "dict \<Rightarrow> string \<Rightarrow> dict" where
  "merge_combinator s comb =
     (case map_of s comb of
        Some (JList (o1 # os)) \<Rightarrow>
          (let s1 = AList.delete comb (dict_merge s (choose_option (o1 # os)));
               s2 = (if truthy (dget s ''description'') \<and> map_of s1 ''description'' = None
                     then AList.update ''description'' (dget s ''description'') s1 else s1)
           in if dget s ''default'' \<noteq> JNull \<and> map_of s2 ''default'' = None
              then AList.update ''default'' (dget s ''default'') s2 else s2)
      | _ \<Rightarrow> s)"

definition merge_combinators :: "dict \<Rightarrow> dict" where
  "merge_combinators s = foldl merge_combinator s [''anyOf'', ''oneOf'', ''allOf'']"

text \<open>
  The recursion descends into the options, properties and items of the merged schema. Each of
  these is a proper part of the schema it came from; the fuel is the size of the schema.
\<close>

definition schema_defaults :: "dict \<Rightarrow> dict" where
  "schema_defaults s =
     (let s1 = (if map_of s ''type'' = None then AList.update ''type'' (JStr ''string'') s else s)
      in case map_of s1 ''required'' of
           None \<Rightarrow> s1
         | Some (JList rs) \<Rightarrow> s1
         | Some v \<Rightarrow> AList.update ''required'' (JList []) s1)"

fun sanitize_schema :: "nat \<Rightarrow> json \<Rightarrow> json" where
  "sanitize_schema 0 v = v"
| "sanitize_schema (Suc n) v =
     (case v of
        JDict s \<Rightarrow>
          (let s1 = AList.delete ''nullable'' (AList.delete ''additionalProperties'' (merge_combinators s));
               s2 = (case dget s1 ''properties'' of
                       JDict ps \<Rightarrow> AList.update ''properties''
                         (JDict (map (\<lambda>(k, p). (k, sanitize_schema n p)) ps)) s1
                     | _ \<Rightarrow> s1);
               s3 = (case map_of s2 ''items'' of
                       Some it \<Rightarrow> AList.update ''items'' (sanitize_schema n it) s2
                     | None \<Rightarrow> s2)
           in JDict (schema_defaults s3))
      | _ \<Rightarrow> v)"

definition sanitize_schema_for_gemini :: "json \<Rightarrow> json" where
  "sanitize_schema_for_gemini schema = sanitize_schema (Suc (size schema)) schema"

definition gemini_tool :: "json \<Rightarrow> json option" where
  "gemini_tool tool =
     (case tool of
        JDict t \<Rightarrow>
          (if dget t ''type'' \<noteq> JStr ''function'' then None
           else (case dget_def t ''function'' (JDict []) of
                   JDict f \<Rightarrow>
                     (case dget f ''parameters'' of
                        JDict ps \<Rightarrow> Some (JDict [(''type'', JStr ''function''), (''function'',
                          JDict (AList.update ''parameters'' (sanitize_schema_for_gemini (JDict ps)) f))])
                      | _ \<Rightarrow> Some (JDict [(''type'', JStr ''function''), (''function'', JDict f)]))
                 | _ \<Rightarrow> Some tool))
      | _ \<Rightarrow> None)"

definition sanitize_messages_for_gemini :: "json list \<Rightarrow> json list" where
  "sanitize_messages_for_gemini tools = List.map_filter gemini_tool tools"

subsection \<open>The context window\<close>

text \<open>\<open>xs[-n:]\<close>: the last \<open>n\<close> items, all of them for zero, and all but the first ones below zero.\<close>

definition last_items :: "int \<Rightarrow> 'a list \<Rightarrow> 'a list" where
  "last_items n xs = (if 0 < n then drop (length xs - nat n) xs else drop (nat (- n)) xs)"

definition drop_leading_orphan_tools :: "dict list \<Rightarrow> dict list" where
  "drop_leading_orphan_tools ms = dropWhile (role_is ''tool'') ms"

definition has_orphaned_tool_messages :: "dict list \<Rightarrow> bool" where
  "has_orphaned_tool_messages ms = (case ms of [] \<Rightarrow> False | m # _ \<Rightarrow> role_is ''tool'' m)"

definition strip_orphans :: "dict list \<Rightarrow> dict list" where
  "strip_orphans ms = (if has_orphaned_tool_messages ms then drop_leading_orphan_tools ms else ms)"

text \<open>The first user message and the number of messages before it.\<close>

definition first_user :: "dict list \<Rightarrow> (dict \<times> nat) option" where
  "first_user ms =
     (case dropWhile (\<lambda>m. \<not> role_is ''user'' m) ms of
        [] \<Rightarrow> None
      | m # rest \<Rightarrow> Some (m, length ms - Suc (length rest)))"

text \<open>The tail that begins with the first user message when that lies before the tail.\<close>

definition prepend_user :: "int \<Rightarrow> dict \<Rightarrow> dict list \<Rightarrow> dict list" where
  "prepend_user tail_budget u tail =
     (let t = last_items tail_budget (u # take (nat (tail_budget - 1)) tail)
      in take 1 t @ strip_orphans (drop 1 t))"

definition window_tail :: "int \<Rightarrow> dict list \<Rightarrow> dict list" where
  "window_tail tail_budget non_system =
     (let tail = last_items tail_budget non_system
      in case first_user non_system of
           Some (u, i) \<Rightarrow>
             (if i < length non_system - length tail then prepend_user tail_budget u tail
              else strip_orphans tail)
         | None \<Rightarrow> strip_orphans tail)"

definition window_messages :: "settings \<Rightarrow> dict list \<Rightarrow> dict list" where
  "window_messages S messages =
     (let max_messages = LLM_CONTEXT_WINDOW_MESSAGES S;
          system_msgs = filter (role_is ''system'') messages;
          non_system = filter (\<lambda>m. \<not> role_is ''system'' m) messages;
          reserved = int (length system_msgs)
            + (case first_user non_system of Some (u, i) \<Rightarrow> (if u = [] then 0 else 1) | None \<Rightarrow> 0);
          tail_budget = max_messages - reserved
      in if messages = [] \<or> int (length messages) \<le> max_messages then messages
         else if tail_budget \<le> 0 then last_items max_messages (system_msgs @ non_system)
         else last_items max_messages (system_msgs @ window_tail tail_budget non_system))"

end
