(* ===== verification/ModelTurn.thy ===== *)
theory ModelTurn
  imports AgentGraph Messages Regex
begin

text \<open>
  \<open>agent/model_node.py\<close>: one turn of the model. The conversation is windowed, completed with the
  system prompt and sanitized; the answer is a stream of chunks whose tool calls are gathered in
  slots; a failed request is repeated a bounded number of times; the node turns every error into
  a message of the assistant. litellm, \<open>json.loads\<close> and the environment are the record \<open>model\<close>.
\<close>

subsection \<open>Identifiers and requests\<close>

definition MAX_TOOL_CALL_ID_LENGTH :: nat where
  "MAX_TOOL_CALL_ID_LENGTH = 128"

text \<open>\<open>s.split(p)[0]\<close>: the text before the first occurrence of \<open>p\<close>.\<close>

fun before_str :: "string \<Rightarrow> string \<Rightarrow> string" where
  "before_str [] p = []"
| "before_str (c # cs) p = (if starts_with (c # cs) p then [] else c # before_str cs p)"

text \<open>\<open>uuid4().hex\<close> is the identifier without its dashes.\<close>

definition hex_of :: "string \<Rightarrow> string" where
  "hex_of u = filter (\<lambda>c. c \<noteq> CHR ''-'') u"

definition fresh_call_id :: "('e, string) io \<Rightarrow> ('e, string) io" where
  "fresh_call_id uuid4 = bindW uuid4 (\<lambda>u. ret (''call_'' @ hex_of u))"

definition make_display_call_id :: "('e, string) io \<Rightarrow> string \<Rightarrow> ('e, string) io" where
  "make_display_call_id uuid4 raw_id =
     (let short = (if contains_str raw_id ''__thought__''
                   then rstrip_char (CHR ''_'') (before_str raw_id ''__thought__'') else raw_id)
      in if short = [] \<or> MAX_TOOL_CALL_ID_LENGTH < length short then fresh_call_id uuid4 else ret short)"

datatype reasoning = Thinking_budget int | Effort string | No_reasoning

definition get_reasoning_config :: "settings \<Rightarrow> (string \<Rightarrow> bool py) \<Rightarrow> string \<Rightarrow> reasoning" where
  "get_reasoning_config S supports model =
     (case LLM_THINKING_BUDGET_TOKENS S of
        Some b \<Rightarrow> Thinking_budget b
      | None \<Rightarrow>
          (case LLM_REASONING_EFFORT S of
             Some e \<Rightarrow> Effort e
           | None \<Rightarrow> (if supports model = Inr True then Effort ''high'' else No_reasoning)))"

definition ANTHROPIC_CACHE_PROVIDERS :: "string list" where
  "ANTHROPIC_CACHE_PROVIDERS = [''anthropic'', ''bedrock'', ''vertex_ai'']"

definition supports_prompt_caching :: "string \<Rightarrow> string \<Rightarrow> bool" where
  "supports_prompt_caching model provider \<longleftrightarrow>
     provider = ''anthropic''
     \<or> (provider \<in> set ANTHROPIC_CACHE_PROVIDERS \<and> contains_str (py_lower model) ''claude'')"

definition get_api_key_for_provider :: "(string \<Rightarrow> string option py) \<Rightarrow> string \<Rightarrow> string option" where
  "get_api_key_for_provider config provider =
     (case config (py_upper (py_strip provider) @ ''_API_KEY'') of
        Inr (Some (c # cs)) \<Rightarrow> Some (c # cs)
      | _ \<Rightarrow> None)"

definition PROVIDERS_NOT_SUPPORTING_REASONING_CONTENT :: "string list" where
  "PROVIDERS_NOT_SUPPORTING_REASONING_CONTENT = [''openai'', ''qwen'']"

subsection \<open>Checks of the request\<close>

definition valid_tool :: "json \<Rightarrow> bool" where
  "valid_tool t =
     (case t of
        JDict d \<Rightarrow> dget d ''type'' = JStr ''function''
          \<and> (case dget d ''function'' of JDict f \<Rightarrow> is_str (dget f ''name'') | _ \<Rightarrow> False)
      | _ \<Rightarrow> False)"

definition validate_tools_schema :: "json list \<Rightarrow> bool" where
  "validate_tools_schema tools = list_all valid_tool tools"

definition has_reasoning_content :: "dict list \<Rightarrow> bool" where
  "has_reasoning_content ms =
     list_ex (\<lambda>m. role_is ''assistant'' m \<and> map_of m ''reasoning_content'' \<noteq> None) ms"

definition ensure_reasoning_content :: "dict list \<Rightarrow> dict list" where
  "ensure_reasoning_content ms =
     map (\<lambda>m. if role_is ''assistant'' m \<and> map_of m ''reasoning_content'' = None
              then AList.update ''reasoning_content'' (JStr []) m else m) ms"

definition strip_reasoning_content :: "dict list \<Rightarrow> dict list" where
  "strip_reasoning_content ms =
     map (\<lambda>m. if role_is ''assistant'' m \<and> map_of m ''reasoning_content'' \<noteq> None
              then filter (\<lambda>(k, v). k \<noteq> ''reasoning_content'') m else m) ms"

definition validate_messages_format :: "dict list \<Rightarrow> bool" where
  "validate_messages_format ms \<longleftrightarrow>
     ms \<noteq> [] \<and> list_all (\<lambda>m.
       dget m ''role'' \<in> {JStr ''system'', JStr ''user'', JStr ''assistant'', JStr ''tool''}
       \<and> map_of m ''content'' \<noteq> None) ms"

subsection \<open>Repairing arguments\<close>

text \<open>\<open>re.sub\<close> with a pattern that matches no empty text: \<open>f\<close> rewrites every match.\<close>

fun re_sub_from :: "nat \<Rightarrow> re \<Rightarrow> (string \<Rightarrow> string) \<Rightarrow> pos \<Rightarrow> string" where
  "re_sub_from 0 r f p = snd p"
| "re_sub_from (Suc n) r f p =
     (case re_run r p of
        e # _ \<Rightarrow> f (take (length (snd p) - length (snd e)) (snd p)) @ re_sub_from n r f e
      | [] \<Rightarrow> (case snd p of [] \<Rightarrow> [] | c # cs \<Rightarrow> c # re_sub_from n r f (Some c, cs)))"

definition re_sub :: "re \<Rightarrow> (string \<Rightarrow> string) \<Rightarrow> string \<Rightarrow> string" where
  "re_sub r f s = re_sub_from (Suc (length s)) r f (None, s)"

definition trailing_comma :: re where
  "trailing_comma = seqs [lit '','', at_least 0 is_space, Cls (one_of ''}]'')]"

definition bare_key :: re where
  "bare_key = seqs [at_least 1 word_char, lit '':'']"

definition fix_json_arguments :: "string \<Rightarrow> string" where
  "fix_json_arguments s =
     (let s1 = re_sub trailing_comma (drop 1) (py_strip s);
          s2 = re_sub bare_key (\<lambda>m. [CHR 0x22] @ butlast m @ [CHR 0x22] @ '':'') s1
      in map (\<lambda>c. if c = CHR 0x27 then CHR 0x22 else c) s2)"

subsection \<open>Errors\<close>

text \<open>
  \<open>token limit:\s*(\d+)\s*\(requested:\s*(\d+)\)\<close> without regard to case. After the digits comes
  a character that is neither a digit nor a blank, so no other split of a text matches.
\<close>

definition digits_at :: "string \<Rightarrow> (nat \<times> string) option" where
  "digits_at s =
     (let ds = takeWhile is_digit s in
      if ds = [] then None
      else Some (foldl (\<lambda>n c. 10 * n + digit_val c) 0 ds, dropWhile is_digit s))"

definition after_prefix :: "string \<Rightarrow> string \<Rightarrow> string option" where
  "after_prefix p s = (if starts_with (py_lower s) p then Some (drop (length p) s) else None)"

definition token_limit_at :: "string \<Rightarrow> (nat \<times> nat) option" where
  "token_limit_at s =
     Option.bind (after_prefix ''token limit:'' s) (\<lambda>r1.
     Option.bind (digits_at (py_lstrip r1)) (\<lambda>(limit, r2).
     Option.bind (after_prefix ''(requested:'' (py_lstrip r2)) (\<lambda>r3.
     Option.bind (digits_at (py_lstrip r3)) (\<lambda>(requested, r4).
       if starts_with r4 '')'' then Some (limit, requested) else None))))"

fun token_limit_search :: "string \<Rightarrow> (nat \<times> nat) option" where
  "token_limit_search [] = None"
| "token_limit_search (c # cs) =
     (case token_limit_at (c # cs) of None \<Rightarrow> token_limit_search cs | Some m \<Rightarrow> Some m)"

text \<open>\<open>f"{n:,}"\<close>: decimal digits in groups of three.\<close>

fun grouped :: "nat \<Rightarrow> string" where
  "grouped n =
     (if n < 1000 then nat_str n
      else grouped (n div 1000) @ '','' @ [digit_chars ! (n div 100 mod 10), digit_chars ! (n div 10 mod 10),
             digit_chars ! (n mod 10)])"

declare grouped.simps [simp del]

definition format_model_error :: "string \<Rightarrow> string \<times> string" where
  "format_model_error error =
     (let low = py_lower error in
      if contains_str low ''insufficient_quota'' \<or> contains_str low ''exceeded your current quota'' then
        (''The configured LLM API key has insufficient quota. Check billing and credits for your provider account.'',
         ''quota_exceeded'')
      else if contains_str low ''token limit'' \<or> contains_str low ''context length'' \<or> contains_str low ''maximum context'' then
        (case token_limit_search error of
           Some (limit, requested) \<Rightarrow>
             (''This request exceeded the model context limit ('' @ grouped requested @ '' tokens requested, limit ''
              @ grouped limit @ ''). Start a new conversation or reduce context (shorter history, fewer tools).'',
              ''context_length_exceeded'')
         | None \<Rightarrow>
             (''This request exceeded the model context limit. ''
              @ ''Start a new conversation or reduce context (shorter history, fewer tools).'',
              ''context_length_exceeded''))
      else if contains_str low ''invalid api key'' \<or> contains_str low ''authentication'' \<or> contains_str low ''unauthorized'' then
        (''LLM authentication failed. Verify the API key configured for this provider.'', ''auth_error'')
      else (''Model error: '' @ error, ''unknown''))"

definition transient_indicators :: "string list" where
  "transient_indicators = [''timeout'', ''connection'', ''network'', ''503'', ''502'', ''504'',
     ''temporarily unavailable'', ''try again'', ''rate limit'']"

definition is_transient_error :: "py_exc \<Rightarrow> bool" where
  "is_transient_error e = list_ex (contains_str (py_lower (exc_msg e))) transient_indicators"

definition set_str :: "string \<Rightarrow> string \<Rightarrow> dict" where
  "set_str key v = (if v = [] then [] else [(key, JStr v)])"

definition emit_workflow_model_error ::
  "bool \<Rightarrow> py_exc \<Rightarrow> string \<Rightarrow> string option \<Rightarrow> ('e, string \<times> string) io" where
  "emit_workflow_model_error on e run conv =
     (let (message, error_type) = format_model_error (exc_msg e) in
      bindW (if on then publish ''workflow.error''
               ([(''error'', JStr message), (''error_type'', JStr error_type)]
                @ set_str ''run_id'' run
                @ (case conv of None \<Rightarrow> [] | Some c \<Rightarrow> set_str ''conversation_id'' c))
             else ret ()) (\<lambda>_. ret (message, error_type)))"

subsection \<open>The collaborators of a turn\<close>

text \<open>A tool call fragment of a chunk: an absent name, identifier or argument text is empty.\<close>

record call_delta =
  cd_index :: "int option"
  cd_id :: string
  cd_name :: string
  cd_arguments :: string

record delta =
  dl_reasoning :: string
  dl_content :: string
  dl_calls :: "call_delta list"

record usage =
  us_prompt :: int
  us_completion :: int
  us_total :: int
  us_cached :: "int option"

record chunk =
  ch_usage :: "usage option"
  ch_delta :: "delta option"

text \<open>
  \<open>acompletion\<close> returns the chunks the provider will send; \<open>md_await\<close> is the wait for the next
  one, or for the end of the stream, and may change the world or fail. \<open>md_cost\<close> is the sum of
  the two prices litellm gives, \<open>md_prompt\<close> the system prompt at a time.
\<close>

record 'e model =
  md_settings :: settings
  md_prompt :: "int \<Rightarrow> string"
  md_callback :: bool
  md_should_stop :: "string \<Rightarrow> ('e, bool) io"
  md_tools :: "((string \<times> bool) list \<Rightarrow> ('e, json list) io) option"
  md_config :: "string \<Rightarrow> string option py"
  md_supports_reasoning :: "string \<Rightarrow> bool py"
  md_complete :: "dict \<Rightarrow> ('e, chunk list) io"
  md_await :: "('e, unit) io"
  md_cost :: "string \<Rightarrow> int \<Rightarrow> int \<Rightarrow> int \<Rightarrow> json py"
  md_sleep :: "int \<Rightarrow> ('e, unit) io"
  md_uuid :: "('e, string) io"
  md_loads :: "string \<Rightarrow> json py"

text \<open>The arguments of \<open>run_model_turn\<close>.\<close>

record turn_args =
  ta_messages :: "dict list"
  ta_conversation :: "string option"
  ta_run :: string
  ta_toolsets :: "(string \<times> bool) list"
  ta_start :: int
  ta_ttft :: bool

text \<open>The local variables of a turn; \<open>new_ttft_emitted\<close> outlives a failed attempt.\<close>

record call_slot =
  cs_id :: string
  cs_name :: string
  cs_arguments :: string

record turn_buf =
  tb_content :: string
  tb_thinking :: string
  tb_started :: "int option"
  tb_calls :: "(int \<times> call_slot) list"
  tb_ids :: "(string \<times> int) list"
  tb_next :: int
  tb_last :: "(int \<times> string) list"
  tb_tokens :: int
  tb_thinking_tokens :: int
  tb_usage :: "usage option"
  tb_new_ttft :: bool

definition empty_buf :: "bool \<Rightarrow> turn_buf" where
  "empty_buf ttft = \<lparr>tb_content = [], tb_thinking = [], tb_started = None, tb_calls = [], tb_ids = [], tb_next = 0,
     tb_last = [], tb_tokens = 0, tb_thinking_tokens = 0, tb_usage = None, tb_new_ttft = ttft\<rparr>"

type_synonym ('e, 'a) turn = "('e world \<times> turn_buf, 'a) st"

definition await :: "('e, 'a) io \<Rightarrow> ('e, 'a) turn" where
  "await m s = (case m (fst s) of (r, w) \<Rightarrow> (r, (w, snd s)))"

definition look :: "(turn_buf \<Rightarrow> ('e, 'a) turn) \<Rightarrow> ('e, 'a) turn" where
  "look f s = f (snd s) s"

definition change :: "('e world \<Rightarrow> turn_buf \<Rightarrow> turn_buf) \<Rightarrow> ('e, unit) turn" where
  "change f s = (Inr (), (fst s, f (fst s) (snd s)))"

definition emit_event :: "'e model \<Rightarrow> string \<Rightarrow> dict \<Rightarrow> ('e, unit) turn" where
  "emit_event M type payload = (if md_callback M then await (publish type payload) else ret ())"

subsection \<open>The stream\<close>

text \<open>The first text or tool call of the stream is reported with the time since the start of the run.\<close>

definition emit_ttft_if_needed :: "'e model \<Rightarrow> turn_args \<Rightarrow> ('e, unit) turn" where
  "emit_ttft_if_needed M a = look (\<lambda>b.
     if md_callback M \<and> \<not> ta_ttft a \<and> \<not> tb_new_ttft b \<and> ta_start a \<noteq> 0 then
       bindW (await (\<lambda>w. publish ''ttft''
           [(''duration'', JInt (wnow w div 1000 - ta_start a div 1000)), (''timestamp'', JInt (wnow w div 1000)),
            (''run_id'', JStr (ta_run a))] w))
         (\<lambda>_. change (\<lambda>w b. b\<lparr>tb_new_ttft := True\<rparr>))
     else ret ())"

text \<open>
  The slot a fragment belongs to: the one of its identifier, else the one of the last identifier
  seen under its reported index, else the reported index itself.
\<close>

definition slot_index :: "call_delta \<Rightarrow> int \<Rightarrow> turn_buf \<Rightarrow> int" where
  "slot_index c reported b =
     (if cd_id c \<noteq> [] then
        (case map_of (tb_ids b) (cd_id c) of None \<Rightarrow> tb_next b | Some i \<Rightarrow> i)
      else (case map_of (tb_last b) reported of
              None \<Rightarrow> reported
            | Some lid \<Rightarrow> (case map_of (tb_ids b) lid of None \<Rightarrow> reported | Some i \<Rightarrow> i)))"

definition register_id :: "call_delta \<Rightarrow> int \<Rightarrow> turn_buf \<Rightarrow> turn_buf" where
  "register_id c reported b =
     (if cd_id c = [] then b
      else (let b' = (if map_of (tb_ids b) (cd_id c) = None
                      then b\<lparr>tb_ids := AList.update (cd_id c) (tb_next b) (tb_ids b), tb_next := tb_next b + 1\<rparr>
                      else b)
            in b'\<lparr>tb_last := AList.update reported (cd_id c) (tb_last b')\<rparr>))"

definition fill_slot :: "call_delta \<Rightarrow> call_slot option \<Rightarrow> call_slot" where
  "fill_slot c slot =
     (let s = (case slot of None \<Rightarrow> \<lparr>cs_id = [], cs_name = [], cs_arguments = []\<rparr> | Some s \<Rightarrow> s)
      in \<lparr>cs_id = (if cs_id s = [] then cd_id c else cs_id s),
          cs_name = (if cs_name s = [] then cd_name c else cs_name s),
          cs_arguments = cs_arguments s @ cd_arguments c\<rparr>)"

definition add_call_delta :: "turn_buf \<Rightarrow> call_delta \<Rightarrow> turn_buf" where
  "add_call_delta b c =
     (case cd_index c of
        None \<Rightarrow> b
      | Some reported \<Rightarrow>
          (let i = slot_index c reported b; b' = register_id c reported b
           in b'\<lparr>tb_calls := AList.update i (fill_slot c (map_of (tb_calls b') i)) (tb_calls b')\<rparr>))"

definition on_reasoning :: "'e model \<Rightarrow> turn_args \<Rightarrow> string \<Rightarrow> ('e, unit) turn" where
  "on_reasoning M a text =
     (if text = [] then ret ()
      else bindW (change (\<lambda>w b. b\<lparr>tb_started := (if tb_thinking b = [] then Some (wmono w) else tb_started b),
              tb_thinking := tb_thinking b @ text, tb_thinking_tokens := tb_thinking_tokens b + 1\<rparr>)) (\<lambda>_.
           bindW (emit_ttft_if_needed M a) (\<lambda>_.
           emit_event M ''thinking'' [(''text'', JStr text), (''conversation_id'', or_null (ta_conversation a)),
             (''run_id'', JStr (ta_run a))])))"

definition on_content :: "'e model \<Rightarrow> turn_args \<Rightarrow> string \<Rightarrow> ('e, unit) turn" where
  "on_content M a text =
     (if text = [] then ret ()
      else bindW (change (\<lambda>w b. b\<lparr>tb_content := tb_content b @ text, tb_tokens := tb_tokens b + 1\<rparr>)) (\<lambda>_.
           bindW (emit_ttft_if_needed M a) (\<lambda>_. look (\<lambda>b.
           emit_event M ''token'' [(''text'', JStr text), (''conversation_id'', or_null (ta_conversation a)),
             (''tokens_generated'', JInt (tb_tokens b)), (''run_id'', JStr (ta_run a))]))))"

definition on_calls :: "'e model \<Rightarrow> turn_args \<Rightarrow> call_delta list \<Rightarrow> ('e, unit) turn" where
  "on_calls M a cs =
     (if cs = [] then ret ()
      else bindW (emit_ttft_if_needed M a) (\<lambda>_. change (\<lambda>w b. foldl add_call_delta b cs)))"

text \<open>Before every 25th token the stop flag is read.\<close>

definition stop_in_stream :: "'e model \<Rightarrow> turn_args \<Rightarrow> ('e, unit) turn" where
  "stop_in_stream M a = look (\<lambda>b.
     if ta_run a \<noteq> [] \<and> (tb_tokens b + tb_thinking_tokens b) mod 25 = 0 then
       bindW (await (md_should_stop M (ta_run a))) (\<lambda>stop. if stop then raise stop_requested else ret ())
     else ret ())"

definition on_chunk :: "'e model \<Rightarrow> turn_args \<Rightarrow> chunk \<Rightarrow> ('e, unit) turn" where
  "on_chunk M a c =
     bindW (stop_in_stream M a) (\<lambda>_.
     bindW (change (\<lambda>w b. if ch_usage c = None then b else b\<lparr>tb_usage := ch_usage c\<rparr>)) (\<lambda>_.
     case ch_delta c of
       None \<Rightarrow> ret ()
     | Some d \<Rightarrow>
         bindW (on_reasoning M a (dl_reasoning d)) (\<lambda>_.
         bindW (on_content M a (dl_content d)) (\<lambda>_. on_calls M a (dl_calls d)))))"

fun read_stream :: "'e model \<Rightarrow> turn_args \<Rightarrow> chunk list \<Rightarrow> ('e, unit) turn" where
  "read_stream M a [] = await (md_await M)"
| "read_stream M a (c # cs) =
     bindW (await (md_await M)) (\<lambda>_. bindW (on_chunk M a c) (\<lambda>_. read_stream M a cs))"

text \<open>An error of the stream is dropped when something was received before it.\<close>

definition received :: "turn_buf \<Rightarrow> bool" where
  "received b \<longleftrightarrow> tb_content b \<noteq> [] \<or> tb_thinking b \<noteq> [] \<or> tb_calls b \<noteq> []"

definition stream_or_partial :: "'e model \<Rightarrow> turn_args \<Rightarrow> chunk list \<Rightarrow> ('e, unit) turn" where
  "stream_or_partial M a cs =
     catchW (read_stream M a cs) (\<lambda>e. look (\<lambda>b. if received b then ret () else raise e))"

subsection \<open>The request\<close>

definition none_model_error :: py_exc where
  "none_model_error = Exc ''TypeError''
     (''argument of type '' @ [CHR 0x27] @ ''NoneType'' @ [CHR 0x27] @ '' is not iterable'')"

definition provider_of :: "string \<Rightarrow> string" where
  "provider_of model =
     (if CHR ''/'' \<in> set model then hd (split_char (CHR ''/'') model) else ''openai'')"

text \<open>The tools of the toolsets loaded so far; none when they cannot be had or are malformed.\<close>

definition offered_tools :: "'e model \<Rightarrow> turn_args \<Rightarrow> ('e, json list) turn" where
  "offered_tools M a =
     (case md_tools M of
        None \<Rightarrow> ret []
      | Some provide \<Rightarrow>
          catchW (bindW (await (provide (ta_toolsets a))) (\<lambda>ts. ret (if validate_tools_schema ts then ts else [])))
            (\<lambda>e. ret []))"

definition prepared_messages :: "settings \<Rightarrow> string \<Rightarrow> reasoning \<Rightarrow> string \<Rightarrow> dict list \<Rightarrow> dict list" where
  "prepared_messages S prompt cfg model messages =
     (let ms = sanitize_messages_for_openai (prepare_messages_with_system_prompt prompt (window_messages S messages))
      in if set (split_char (CHR ''/'') model) \<inter> set PROVIDERS_NOT_SUPPORTING_REASONING_CONTENT \<noteq> {}
         then strip_reasoning_content ms
         else if cfg \<noteq> No_reasoning \<or> has_reasoning_content ms then ensure_reasoning_content ms else ms)"

definition reasoning_kwargs :: "settings \<Rightarrow> reasoning \<Rightarrow> dict" where
  "reasoning_kwargs S cfg =
     (case cfg of
        Thinking_budget b \<Rightarrow>
          [(''thinking'', JDict [(''type'', JStr ''enabled''), (''budget_tokens'', JInt b)]),
           (''max_tokens'', JInt (case LLM_MAX_TOKENS S of
              None \<Rightarrow> max (b * 2) 16384 | Some n \<Rightarrow> (if n = 0 then max (b * 2) 16384 else n)))]
      | Effort e \<Rightarrow> [(''reasoning_effort'', JStr e)]
      | No_reasoning \<Rightarrow> [])"

definition completion_kwargs ::
  "settings \<Rightarrow> string option \<Rightarrow> reasoning \<Rightarrow> string \<Rightarrow> dict list \<Rightarrow> json list \<Rightarrow> dict" where
  "completion_kwargs S api_key cfg model messages tools =
     [(''model'', JStr model), (''messages'', JList (map JDict messages)), (''stream'', JBool True),
      (''stream_options'', JDict [(''include_usage'', JBool True)]),
      (''tools'', if tools = [] then JNull else JList tools),
      (''tool_choice'', if tools = [] then JNull else JStr ''auto''),
      (''timeout'', JInt 120), (''drop_params'', JBool True)]
     @ reasoning_kwargs S cfg
     @ (case api_key of None \<Rightarrow> [] | Some k \<Rightarrow> [(''api_key'', JStr k)])
     @ (case LLM_HOST S of None \<Rightarrow> [] | Some h \<Rightarrow> set_str ''api_base'' h)
     @ (if supports_prompt_caching model (provider_of model)
        then [(''cache_control_injection_points'',
               JList [JDict [(''location'', JStr ''message''), (''role'', JStr ''system'')],
                      JDict [(''location'', JStr ''tool_config'')]])]
        else [])"

text \<open>The tools as they are offered, and the chunks of the answer.\<close>

definition request_answer :: "'e model \<Rightarrow> turn_args \<Rightarrow> string \<Rightarrow> ('e, json list \<times> chunk list) turn" where
  "request_answer M a model =
     bindW (offered_tools M a) (\<lambda>ts.
     bindW (await (\<lambda>w. (Inr (md_prompt M (wnow w)), w))) (\<lambda>prompt.
     let S = md_settings M;
         cfg = get_reasoning_config S (md_supports_reasoning M) model;
         messages = prepared_messages S prompt cfg model (ta_messages a);
         tools = (if provider_of model = ''gemini'' then sanitize_messages_for_gemini ts else ts)
     in if \<not> validate_messages_format messages
        then raise (Exc ''ValueError'' ''Invalid message format detected'')
        else bindW (emit_event M ''generation.start'' [(''model'', JStr model), (''conversation_id'', or_null (ta_conversation a)),
               (''tools_available'', JInt (int (length tools))), (''run_id'', JStr (ta_run a))]) (\<lambda>_.
             bindW (await (md_complete M (completion_kwargs S
               (get_api_key_for_provider (md_config M) (provider_of model)) cfg model messages tools)))
               (\<lambda>chunks. ret (tools, chunks)))))"

subsection \<open>After the stream\<close>

definition emit_usage :: "'e model \<Rightarrow> turn_args \<Rightarrow> string \<Rightarrow> ('e, unit) turn" where
  "emit_usage M a model = look (\<lambda>b.
     case tb_usage b of
       None \<Rightarrow> ret ()
     | Some u \<Rightarrow>
         if md_callback M then
           await (\<lambda>w. publish ''token.usage''
             [(''source'', JStr ''main''), (''model'', JStr model), (''prompt_tokens'', JInt (us_prompt u)),
              (''completion_tokens'', JInt (us_completion u)), (''total_tokens'', JInt (us_total u)),
              (''cached_tokens'', case us_cached u of None \<Rightarrow> JNull | Some n \<Rightarrow> JInt n),
              (''cost'', case md_cost M model (us_prompt u) (us_completion u)
                  (case us_cached u of None \<Rightarrow> 0 | Some n \<Rightarrow> n) of Inl e \<Rightarrow> JInt 0 | Inr v \<Rightarrow> v),
              (''conversation_id'', or_null (ta_conversation a)), (''timestamp'', JInt (wnow w div 1000)),
              (''run_id'', JStr (ta_run a))] w)
         else ret ())"

definition emit_thinking_complete :: "'e model \<Rightarrow> turn_args \<Rightarrow> ('e, unit) turn" where
  "emit_thinking_complete M a = look (\<lambda>b.
     if tb_thinking b \<noteq> [] \<and> md_callback M then
       await (\<lambda>w. publish ''thinking.complete''
         [(''content'', JStr (tb_thinking b)),
          (''duration_ms'', JInt (case tb_started b of None \<Rightarrow> 0
             | Some t \<Rightarrow> (if t = 0 then 0 else (wmono w - t) div 1000))),
          (''conversation_id'', or_null (ta_conversation a)), (''run_id'', JStr (ta_run a))] w)
     else ret ())"

text \<open>A slot with its identifiers: as it stands in the message and as it is shown.\<close>

record named_call =
  nc_id :: string
  nc_call_id :: string
  nc_name :: string
  nc_arguments :: string

definition name_call :: "'e model \<Rightarrow> call_slot \<Rightarrow> ('e, named_call) io" where
  "name_call M s =
     bindW (if cs_id s = [] then fresh_call_id (md_uuid M) else ret (cs_id s)) (\<lambda>raw.
     bindW (make_display_call_id (md_uuid M) (py_strip raw)) (\<lambda>display.
     ret \<lparr>nc_id = py_strip raw, nc_call_id = display, nc_name = cs_name s, nc_arguments = cs_arguments s\<rparr>))"

fun name_calls :: "'e model \<Rightarrow> call_slot list \<Rightarrow> ('e, named_call list) io" where
  "name_calls M [] = ret []"
| "name_calls M (s # ss) = bindW (name_call M s) (\<lambda>n. bindW (name_calls M ss) (\<lambda>ns. ret (n # ns)))"

definition formatted_call :: "named_call \<Rightarrow> json" where
  "formatted_call n =
     JDict [(''id'', JStr (nc_id n)), (''type'', JStr ''function''),
       (''function'', JDict [(''name'', JStr (py_strip (nc_name n))),
          (''arguments'', JStr (if nc_arguments n = [] then ''{}'' else nc_arguments n))])]"

definition assistant_message :: "turn_buf \<Rightarrow> named_call list \<Rightarrow> dict" where
  "assistant_message b ns =
     [(''role'', JStr ''assistant''), (''content'', JStr (tb_content b))]
     @ (if tb_thinking b = [] then [] else [(''reasoning_content'', JStr (tb_thinking b))])
     @ (if tb_calls b = [] then [] else [(''tool_calls'', JList (map formatted_call ns))])"

definition assistant_messages :: "turn_buf \<Rightarrow> named_call list \<Rightarrow> dict list" where
  "assistant_messages b ns =
     (if tb_content b \<noteq> [] \<or> tb_calls b \<noteq> [] then [assistant_message b ns] else [])"

definition dict_or_empty :: "json \<Rightarrow> dict" where
  "dict_or_empty v = (case v of JDict d \<Rightarrow> d | _ \<Rightarrow> [])"

definition parse_arguments :: "(string \<Rightarrow> json py) \<Rightarrow> string \<Rightarrow> dict py" where
  "parse_arguments loads raw =
     (if raw = [] then Inr []
      else case loads raw of
        Inr v \<Rightarrow> Inr (dict_or_empty v)
      | Inl e \<Rightarrow>
          (if exc_type e \<in> {''JSONDecodeError'', ''TypeError''} then
             (case loads (fix_json_arguments raw) of Inr v \<Rightarrow> Inr (dict_or_empty v) | Inl e' \<Rightarrow> Inr [])
           else Inl e))"

definition tool_function_name :: "json \<Rightarrow> json py" where
  "tool_function_name t = bindE (subscript t ''function'') (\<lambda>f. subscript f ''name'')"

text \<open>A call the model made becomes pending when its tool was offered; a failing one is left out.\<close>

definition pending_call :: "'e model \<Rightarrow> json list \<Rightarrow> named_call \<Rightarrow> ('e, pending_tool list) io" where
  "pending_call M tools n =
     (let name = py_strip (nc_name n) in
      if name = [] then ret []
      else catchW
        (bindW (lift (each_py tool_function_name tools)) (\<lambda>names.
         if JStr name \<notin> set names then ret []
         else bindW (lift (parse_arguments (md_loads M) (nc_arguments n))) (\<lambda>args.
              bindW (if nc_id n = [] then fresh_call_id (md_uuid M) else ret (nc_id n)) (\<lambda>raw.
              bindW (if nc_call_id n = [] then make_display_call_id (md_uuid M) (py_strip raw) else ret (nc_call_id n)) (\<lambda>display.
              bindW (md_uuid M) (\<lambda>op.
              ret [\<lparr>pt_id = py_strip raw, pt_call_id = display, pt_operation = op, pt_name = name, pt_args = args\<rparr>]))))))
        (\<lambda>e. ret []))"

fun pending_calls :: "'e model \<Rightarrow> json list \<Rightarrow> named_call list \<Rightarrow> ('e, pending_tool list) io" where
  "pending_calls M tools [] = ret []"
| "pending_calls M tools (n # ns) =
     bindW (pending_call M tools n) (\<lambda>p. bindW (pending_calls M tools ns) (\<lambda>ps. ret (p @ ps)))"

definition emit_generation_complete :: "'e model \<Rightarrow> turn_args \<Rightarrow> pending_tool list \<Rightarrow> ('e, unit) turn" where
  "emit_generation_complete M a calls = look (\<lambda>b.
     emit_event M ''generation.complete''
       ([(''conversation_id'', or_null (ta_conversation a)), (''tokens_generated'', JInt (tb_tokens b)),
         (''tool_calls'', JInt (int (length calls))), (''content'', JStr (tb_content b)), (''run_id'', JStr (ta_run a))]
        @ set_str ''thinking_content'' (tb_thinking b)))"

text \<open>What a turn returns: the messages, the calls, whether the time to the first token is reported.\<close>

type_synonym turn_result = "dict list \<times> pending_tool list \<times> bool"

definition finish_answer :: "'e model \<Rightarrow> turn_args \<Rightarrow> string \<Rightarrow> json list \<Rightarrow> ('e, turn_result) turn" where
  "finish_answer M a model tools =
     bindW (emit_usage M a model) (\<lambda>_.
     bindW (emit_thinking_complete M a) (\<lambda>_. look (\<lambda>b.
     bindW (await (name_calls M (map snd (tb_calls b)))) (\<lambda>ns.
     bindW (await (pending_calls M tools ns)) (\<lambda>calls.
     bindW (emit_generation_complete M a calls) (\<lambda>_. look (\<lambda>b'.
     ret (assistant_messages b' ns, calls, ta_ttft a \<or> tb_new_ttft b'))))))))"

definition attempt_turn :: "'e model \<Rightarrow> turn_args \<Rightarrow> ('e, turn_result) turn" where
  "attempt_turn M a =
     (case LLM_MODEL (md_settings M) of
        None \<Rightarrow> bindW (offered_tools M a) (\<lambda>_. raise none_model_error)
      | Some model \<Rightarrow>
          bindW (request_answer M a model) (\<lambda>(tools, chunks).
          bindW (change (\<lambda>w b. empty_buf (tb_new_ttft b))) (\<lambda>_.
          bindW (stream_or_partial M a chunks) (\<lambda>_. finish_answer M a model tools))))"

subsection \<open>Repeating a turn\<close>

definition is_rate_limit :: "py_exc \<Rightarrow> bool" where
  "is_rate_limit e \<longleftrightarrow> exc_type e = ''RateLimitError''"

definition may_retry :: "py_exc \<Rightarrow> bool" where
  "may_retry e \<longleftrightarrow> is_rate_limit e \<or> is_transient_error e"

definition retry_wait :: "py_exc \<Rightarrow> nat \<Rightarrow> int" where
  "retry_wait e n = (if is_rate_limit e then min 60 (2 ^ n) else min 30 (2 ^ n))"

definition announce_retry :: "'e model \<Rightarrow> py_exc \<Rightarrow> nat \<Rightarrow> nat \<Rightarrow> ('e, unit) turn" where
  "announce_retry M e n max_retries =
     (if is_rate_limit e
      then emit_event M ''rate_limit'' [(''retry_in'', JInt (retry_wait e n)), (''attempt'', JInt (int n)),
             (''max_retries'', JInt (int max_retries))]
      else emit_event M ''transient_error'' [(''error'', JStr (exc_msg e)), (''retry_in'', JInt (retry_wait e n)),
             (''attempt'', JInt (int n))])"

text \<open>
  \<open>left\<close> retries are left of \<open>max_retries\<close>. The wait, in seconds, is given to \<open>asyncio.sleep\<close>
  in microseconds.
\<close>

fun retry_turn :: "'e model \<Rightarrow> turn_args \<Rightarrow> nat \<Rightarrow> nat \<Rightarrow> ('e, turn_result) turn" where
  "retry_turn M a max_retries 0 = attempt_turn M a"
| "retry_turn M a max_retries (Suc left) =
     catchW (attempt_turn M a) (\<lambda>e.
       if may_retry e then
         bindW (announce_retry M e (max_retries - left) max_retries) (\<lambda>_.
         bindW (await (md_sleep M (1000000 * retry_wait e (max_retries - left)))) (\<lambda>_.
         retry_turn M a max_retries left))
       else raise e)"

definition run_model_turn :: "'e model \<Rightarrow> turn_args \<Rightarrow> nat \<Rightarrow> ('e, turn_result) io" where
  "run_model_turn M a max_retries w =
     (case retry_turn M a max_retries max_retries (w, empty_buf False) of (r, (w', b)) \<Rightarrow> (r, w'))"

subsection \<open>The model node\<close>

text \<open>The memory context goes before the last user message.\<close>

definition is_user :: "json \<Rightarrow> bool" where
  "is_user m = (case m of JDict d \<Rightarrow> role_is ''user'' d | _ \<Rightarrow> False)"

definition inject_context :: "json option \<Rightarrow> json list \<Rightarrow> json list" where
  "inject_context ctx ms =
     (case ctx of
        None \<Rightarrow> ms
      | Some c \<Rightarrow>
          if \<not> truthy c \<or> ms = [] then ms
          else if list_ex is_user ms
            then (let n = length (takeWhile (\<lambda>m. \<not> is_user m) (rev ms)); i = length ms - n - 1
                  in take i ms @ c # drop i ms)
            else c # ms)"

definition as_message :: "json \<Rightarrow> dict py" where
  "as_message m = (case m of JDict d \<Rightarrow> Inr d | v \<Rightarrow> Inl (attr_error v ''get''))"

definition turn_updates :: "turn_result \<Rightarrow> update list" where
  "turn_updates r =
     (case r of (ms, calls, ttft) \<Rightarrow>
        [Messages (map JDict ms), Pending_tools calls] @ (if ttft then [Ttft_emitted True] else []))"

definition failure_updates :: "json list \<Rightarrow> string \<Rightarrow> update list" where
  "failure_updates ms message = [Messages ms, Pending_tools [], Error_is (Some message)]"

text \<open>\<open>ModelNode.__call__\<close>\<close>

definition model_call :: "'e model \<Rightarrow> agent_state \<Rightarrow> ('e, update list) io" where
  "model_call M s =
     catchW
       (bindW (md_should_stop M (st_run s)) (\<lambda>stop.
        if stop then raise stop_requested
        else (let ms = inject_context (st_memory_msg s) (st_messages s) in
          if ms = [] then
            bindW (emit_workflow_model_error (md_callback M) (Exc ''ValueError'' ''No messages provided'') (st_run s)
              (st_conversation s)) (\<lambda>(message, kind). ret (failure_updates [] message))
          else bindW (lift (each_py as_message ms)) (\<lambda>ds.
               bindW (run_model_turn M \<lparr>ta_messages = ds, ta_conversation = st_conversation s, ta_run = st_run s,
                 ta_toolsets = st_toolsets s, ta_start = st_start_time s, ta_ttft = st_ttft_emitted s\<rparr> 3)
                 (\<lambda>r. ret (turn_updates r))))))
       (\<lambda>e. bindW (emit_workflow_model_error (md_callback M) e (st_run s) (st_conversation s)) (\<lambda>(message, kind).
            ret (failure_updates [JDict [(''role'', JStr ''assistant''), (''content'', JStr message)]] message)))"

end
