(* ===== verification/MessageProps.thy ===== *)
theory MessageProps
  imports Messages "HOL-Library.Sublist"
begin

text \<open>
  What the preparation of a conversation guarantees: in the sanitized conversation every tool
  call is answered by the tool messages right after it and every tool message answers an earlier
  call; and what the window drops.
\<close>

subsection \<open>Tool calls and answers\<close>

fun paired :: "json list \<Rightarrow> dict list \<Rightarrow> bool" where
  "paired seen [] = True"
| "paired seen (m # ms) =
     ((role_is ''tool'' m \<longrightarrow> dget m ''tool_call_id'' \<in> set seen)
      \<and> set (call_ids m) \<subseteq> set (answered_ids ms) \<and> paired (seen @ call_ids m) ms)"

fun answered_if_valid :: "json list \<Rightarrow> dict list \<Rightarrow> bool" where
  "answered_if_valid valid [] = True"
| "answered_if_valid valid (m # ms) =
     ((\<forall>i \<in> set (call_ids m). i \<in> set valid \<longrightarrow> i \<in> set (answered_ids ms)) \<and> answered_if_valid valid ms)"

abbreviation all_call_ids :: "dict list \<Rightarrow> json list" where
  "all_call_ids ms \<equiv> concat (map call_ids ms)"

lemma valid_call_ids_subset: "set (valid_call_ids ms) \<subseteq> set (all_call_ids ms)"
  by (induction ms) auto

lemma answered_if_valid_distinct:
  "distinct (all_call_ids ms) \<Longrightarrow> set valid \<inter> set (all_call_ids ms) \<subseteq> set (valid_call_ids ms) \<Longrightarrow>
     answered_if_valid valid ms"
proof (induction ms)
  case (Cons m ms)
  note sub = valid_call_ids_subset[of ms]
  have dis: "set (call_ids m) \<inter> set (all_call_ids ms) = {}" using Cons.prems(1) by auto
  have "i \<in> set (answered_ids ms)" if "i \<in> set (call_ids m)" "i \<in> set valid" for i
  proof -
    have "i \<in> set (valid_call_ids (m # ms))" using Cons.prems(2) that by auto
    moreover have "i \<notin> set (valid_call_ids ms)" using that(1) dis sub by blast
    ultimately show ?thesis by simp
  qed
  moreover have "answered_if_valid valid ms"
  proof (rule Cons.IH)
    show "set valid \<inter> set (all_call_ids ms) \<subseteq> set (valid_call_ids ms)"
    proof
      fix i assume i: "i \<in> set valid \<inter> set (all_call_ids ms)"
      then have "i \<in> set (valid_call_ids (m # ms))" using Cons.prems(2) by auto
      moreover have "i \<notin> set (call_ids m)" using i dis by auto
      ultimately show "i \<in> set (valid_call_ids ms)" by simp
    qed
  qed (use Cons.prems(1) in simp)
  ultimately show ?case by simp
qed simp

lemma with_content_frame [simp]: "k \<noteq> ''content'' \<Longrightarrow> dget_def (with_content m) k v = dget_def m k v"
  by (simp add: with_content_def dict_simps)

lemma calls_with_content [simp]: "calls_of_msg (with_content m) = calls_of_msg m"
  by (simp add: calls_of_msg_def)

lemma dget_filter_other: "k \<noteq> k' \<Longrightarrow> dget_def (filter (\<lambda>(x, y). x \<noteq> k') d) k v = dget_def d k v"
  by (induction d) auto

lemma dget_filter_same: "dget_def (filter (\<lambda>(x, y). x \<noteq> k) d) k v = v"
  by (induction d) auto

lemma keep_frame [simp]: "k \<noteq> ''tool_calls'' \<Longrightarrow> dget_def (keep_valid_calls valid m) k v = dget_def m k v"
  by (simp add: keep_valid_calls_def dget_filter_other dict_simps split: option.splits)

lemma truthy_valid_calls [simp]: "filter truthy (map call_id (valid_calls valid cs)) = map call_id (valid_calls valid cs)"
  by (rule filter_True) (auto simp: valid_calls_def)

lemma call_ids_keep:
  "call_ids (keep_valid_calls valid m) =
     (case calls_of_msg m of None \<Rightarrow> [] | Some cs \<Rightarrow> map call_id (valid_calls valid cs))"
proof (cases "calls_of_msg m")
  case None
  then show ?thesis by (simp add: keep_valid_calls_def call_ids_def)
next
  case (Some cs)
  then have role: "role_is ''assistant'' m" by (simp add: calls_of_msg_def split: if_splits)
  show ?thesis
  proof (cases "valid_calls valid cs = []")
    case True
    then show ?thesis using Some
      by (simp add: keep_valid_calls_def call_ids_def calls_of_msg_def dget_filter_same split: if_splits)
  next
    case False
    then show ?thesis using Some role
      by (simp add: keep_valid_calls_def call_ids_def calls_of_msg_def dict_simps)
  qed
qed

lemma valid_ids_of: "set (case calls_of_msg m of None \<Rightarrow> [] | Some cs \<Rightarrow> map call_id (valid_calls valid cs))
    = set (call_ids m) \<inter> set valid"
  by (auto simp: call_ids_def valid_calls_def split: option.splits)

lemma tool_no_calls: "role_is ''tool'' m \<Longrightarrow> calls_of_msg m = None"
  by (simp add: calls_of_msg_def)

lemma answered_survives:
  "i \<in> set (answered_ids ms) \<Longrightarrow> truthy i \<Longrightarrow> i \<in> set seen \<Longrightarrow>
     i \<in> set (answered_ids (sanitize_from valid seen ms))"
proof (induction ms)
  case (Cons m ms)
  have tool: "role_is ''tool'' m"
    using Cons.prems(1) by (cases "role_is ''tool'' m") (simp_all add: answered_ids_def)
  have same: "keep_valid_calls valid (with_content m) = with_content m"
    by (simp add: keep_valid_calls_def tool_no_calls[OF tool])
  have "i = dget m ''tool_call_id'' \<or> i \<in> set (answered_ids ms)"
    using Cons.prems(1) tool by (auto simp: answered_ids_def)
  then show ?case
  proof
    assume "i = dget m ''tool_call_id''"
    then show ?thesis
      using Cons.prems(2,3) tool by (simp add: Let_def same tool_no_calls[OF tool] answered_ids_def)
  next
    assume "i \<in> set (answered_ids ms)"
    then have "i \<in> set (answered_ids (sanitize_from valid seen ms))" using Cons by blast
    then show ?thesis
      using tool by (simp add: Let_def same tool_no_calls[OF tool] answered_ids_def)
  qed
qed (simp add: answered_ids_def)

lemma sanitized_paired_from:
  "answered_if_valid valid ms \<Longrightarrow> paired seen (sanitize_from valid seen ms)"
proof (induction ms arbitrary: seen)
  case (Cons m ms)
  let ?m2 = "keep_valid_calls valid (with_content m)"
  let ?new = "case calls_of_msg m of None \<Rightarrow> [] | Some cs \<Rightarrow> map call_id (valid_calls valid cs)"
  have ids: "call_ids ?m2 = ?new" by (simp add: call_ids_keep)
  have rest: "paired (seen @ ?new) (sanitize_from valid (seen @ ?new) ms)"
    using Cons.IH Cons.prems by simp
  have "set ?new \<subseteq> set (answered_ids (sanitize_from valid (seen @ ?new) ms))"
  proof
    fix i assume i: "i \<in> set ?new"
    then have "i \<in> set (call_ids m)" "i \<in> set valid" using valid_ids_of[where m = m and valid = valid] by auto
    then have "i \<in> set (answered_ids ms)" using Cons.prems by simp
    moreover have "truthy i" using \<open>i \<in> set (call_ids m)\<close> by (auto simp: call_ids_def split: option.splits)
    ultimately show "i \<in> set (answered_ids (sanitize_from valid (seen @ ?new) ms))"
      using i by (intro answered_survives) auto
  qed
  then show ?case
    using rest tool_no_calls[of m] by (auto simp: Let_def ids)
qed simp

definition demo_call :: "string \<Rightarrow> json" where
  "demo_call i = JDict [(''id'', JStr i), (''type'', JStr ''function'')]"

definition demo_conversation :: "dict list" where
  "demo_conversation =
     [[(''role'', JStr ''user''), (''content'', JStr ''go'')],
      [(''role'', JStr ''assistant''), (''content'', JNull), (''tool_calls'', JList [demo_call ''a'', demo_call ''b''])],
      [(''role'', JStr ''tool''), (''tool_call_id'', JStr ''a''), (''content'', JStr ''done'')],
      [(''role'', JStr ''tool''), (''tool_call_id'', JStr ''c''), (''content'', JStr ''orphan'')]]"

subsection \<open>The window\<close>

lemma last_items_suffix: "\<exists>pre. xs = pre @ last_items n xs"
  unfolding last_items_def by (metis append_take_drop_id)

lemma last_items_set: "set (last_items n xs) \<subseteq> set xs"
  using last_items_suffix[of xs n] by (metis Un_upper2 set_append)

lemma last_items_length: "0 < n \<Longrightarrow> length (last_items n xs) \<le> nat n"
  by (simp add: last_items_def)

lemma window_length:
  "0 < LLM_CONTEXT_WINDOW_MESSAGES S \<Longrightarrow>
     int (length (window_messages S ms)) \<le> LLM_CONTEXT_WINDOW_MESSAGES S"
  using last_items_length[of "LLM_CONTEXT_WINDOW_MESSAGES S"]
  by (auto simp: window_messages_def Let_def le_nat_iff)

lemma strip_orphans_set: "set (strip_orphans ms) \<subseteq> set ms"
  by (auto simp: strip_orphans_def drop_leading_orphan_tools_def dest: set_dropWhileD)

lemma prepend_user_set:
  assumes "0 < b" shows "set (prepend_user b u tail) \<subseteq> insert u (set (take (nat (b - 1)) tail))"
proof -
  let ?t = "last_items b (u # take (nat (b - 1)) tail)"
  have t: "set ?t \<subseteq> insert u (set (take (nat (b - 1)) tail))"
    using last_items_set[of b "u # take (nat (b - 1)) tail"] by simp
  have "set (take 1 ?t @ strip_orphans (drop 1 ?t)) \<subseteq> set ?t"
    using strip_orphans_set[of "drop 1 ?t"] set_drop_subset[of 1 ?t] set_take_subset[of 1 ?t] by auto
  then show ?thesis using t unfolding prepend_user_def Let_def by blast
qed

lemma take_short_last:
  assumes "distinct xs" and "n < length xs" shows "last xs \<notin> set (take n xs)"
proof -
  have "xs \<noteq> []" using assms(2) by auto
  then have "xs = butlast xs @ [last xs]" by simp
  then have "last xs \<notin> set (butlast xs)" using assms(1) by (metis distinct_butlast not_distinct_conv_prefix append_butlast_last_id)
  moreover have "take n xs = take n (butlast xs)" using assms(2) by (simp add: take_butlast)
  ultimately show ?thesis using set_take_subset[of n "butlast xs"] by (metis in_mono)
qed

lemma last_items_last: "xs \<noteq> [] \<Longrightarrow> 0 < n \<Longrightarrow> last_items n xs \<noteq> [] \<and> last (last_items n xs) = last xs"
  by (auto simp: last_items_def last_drop length_greater_0_conv[symmetric] simp del: length_greater_0_conv)

lemma last_items_all: "int (length xs) \<le> n \<Longrightarrow> last_items n xs = xs"
  by (simp add: last_items_def)

lemma strip_orphans_length: "length (strip_orphans ms) \<le> length ms"
  by (simp add: strip_orphans_def drop_leading_orphan_tools_def length_dropWhile_le)

lemma prepend_user_length:
  assumes "0 < b" shows "length (prepend_user b u tail) \<le> nat b"
proof -
  let ?t = "last_items b (u # take (nat (b - 1)) tail)"
  have "length (take 1 ?t @ strip_orphans (drop 1 ?t)) \<le> length ?t"
    using strip_orphans_length[of "drop 1 ?t"] by simp
  also have "\<dots> \<le> nat b" by (rule last_items_length[OF assms])
  finally show ?thesis unfolding prepend_user_def Let_def .
qed

lemma window_tail_length:
  assumes "0 < b" shows "length (window_tail b ms) \<le> nat b"
proof -
  have "length (strip_orphans (last_items b ms)) \<le> nat b"
    using strip_orphans_length[of "last_items b ms"] last_items_length[OF assms, of ms] by linarith
  then show ?thesis
    using prepend_user_length[OF assms] by (auto simp: window_tail_def Let_def split: option.splits)
qed

text \<open>A window with room for more than the system messages keeps all of them.\<close>

lemma window_keeps_system:
  assumes "m \<in> set ms" and "role_is ''system'' m"
    and "int (length (filter (role_is ''system'') ms)) + 1 < LLM_CONTEXT_WINDOW_MESSAGES S"
  shows "m \<in> set (window_messages S ms)"
proof (cases "int (length ms) \<le> LLM_CONTEXT_WINDOW_MESSAGES S")
  case True
  then show ?thesis using assms(1) by (simp add: window_messages_def)
next
  case False
  let ?sys = "filter (role_is ''system'') ms" and ?non = "filter (\<lambda>m. \<not> role_is ''system'' m) ms"
  define b where "b = LLM_CONTEXT_WINDOW_MESSAGES S - (int (length ?sys)
    + (case first_user ?non of Some (u, i) \<Rightarrow> (if u = [] then 0 else 1) | None \<Rightarrow> 0))"
  have b: "0 < b" and small: "b \<le> LLM_CONTEXT_WINDOW_MESSAGES S - int (length ?sys)"
    using assms(3) by (auto simp: b_def split: option.splits prod.splits if_splits)
  have "length (window_tail b ?non) \<le> nat b" by (rule window_tail_length[OF b])
  then have "int (length (?sys @ window_tail b ?non)) \<le> LLM_CONTEXT_WINDOW_MESSAGES S"
    using b small by simp
  moreover have "window_messages S ms
      = last_items (LLM_CONTEXT_WINDOW_MESSAGES S) (?sys @ window_tail b ?non)"
    using False b assms(1) unfolding window_messages_def Let_def b_def[symmetric] by auto
  ultimately have "window_messages S ms = ?sys @ window_tail b ?non" using last_items_all by metis
  then show ?thesis using assms(1,2) by simp
qed

subsection \<open>Tool calls in the window\<close>

lemma subseq_call_ids: "subseq xs ys \<Longrightarrow> subseq (all_call_ids xs) (all_call_ids ys)"
proof (induction rule: list_emb.induct)
  case (list_emb_Cons xs ys y)
  then show ?case using list_emb_append2 by auto
next
  case (list_emb_Cons2 x y xs ys)
  then show ?case by (simp add: list_emb_append_mono)
qed simp

lemma subseq_last_items: "subseq (last_items n xs) xs"
  using last_items_suffix[of xs n] by (metis list_emb_append2 subseq_order.order_refl)

lemma subseq_strip: "subseq (strip_orphans xs) xs"
proof (cases "has_orphaned_tool_messages xs")
  case True
  have "subseq (dropWhile (role_is ''tool'') xs) (takeWhile (role_is ''tool'') xs @ dropWhile (role_is ''tool'') xs)"
    by (rule list_emb_append2) simp
  then show ?thesis using True by (simp add: strip_orphans_def drop_leading_orphan_tools_def)
qed (simp add: strip_orphans_def)

lemma subseq_prepend:
  "subseq (prepend_user b u tail) (u # tail)"
proof -
  let ?t = "last_items b (u # take (nat (b - 1)) tail)"
  have "subseq (take 1 ?t @ strip_orphans (drop 1 ?t)) (take 1 ?t @ drop 1 ?t)"
    by (intro list_emb_append_mono subseq_strip) simp
  also have "take 1 ?t @ drop 1 ?t = ?t" by (rule append_take_drop_id)
  also have "subseq ?t (u # take (nat (b - 1)) tail)" by (rule subseq_last_items)
  also have "subseq (u # take (nat (b - 1)) tail) (u # tail)"
    using list_emb_append2[of "(=)"] by (metis append_take_drop_id list_emb_prefix subseq_Cons2 subseq_order.order_refl)
  finally show ?thesis unfolding prepend_user_def Let_def .
qed

lemma first_user_role: "first_user ms = Some (u, i) \<Longrightarrow> role_is ''user'' u"
  by (auto simp: first_user_def split: list.splits dest: dropWhile_eq_Cons_conv[THEN iffD1])

lemma other_no_calls: "\<not> role_is ''assistant'' m \<Longrightarrow> call_ids m = []"
  by (simp add: call_ids_def calls_of_msg_def)

lemma user_no_calls: "role_is ''user'' m \<Longrightarrow> call_ids m = []"
  by (simp add: other_no_calls)

lemma subseq_window_tail: "subseq (all_call_ids (window_tail b ms)) (all_call_ids ms)"
proof -
  let ?tail = "last_items b ms"
  have tail: "subseq (all_call_ids ?tail) (all_call_ids ms)" by (intro subseq_call_ids subseq_last_items)
  have plain: "subseq (all_call_ids (strip_orphans ?tail)) (all_call_ids ms)"
    using subseq_call_ids[OF subseq_strip[of ?tail]] tail by (rule subseq_order.order_trans)
  show ?thesis
  proof (cases "first_user ms")
    case None
    then show ?thesis using plain by (simp add: window_tail_def)
  next
    case (Some ui)
    obtain u i where ui: "ui = (u, i)" by (cases ui)
    have "call_ids u = []" using first_user_role Some ui user_no_calls by blast
    then have "subseq (all_call_ids (prepend_user b u ?tail)) (all_call_ids ?tail)"
      using subseq_call_ids[OF subseq_prepend[of b u ?tail]] by simp
    then have "subseq (all_call_ids (prepend_user b u ?tail)) (all_call_ids ms)"
      using tail by (rule subseq_order.order_trans)
    then show ?thesis using plain Some ui by (simp add: window_tail_def Let_def)
  qed
qed

lemma calls_without_system: "all_call_ids (filter (\<lambda>m. \<not> role_is ''system'' m) ms) = all_call_ids ms"
  by (induction ms) (auto simp: other_no_calls)

lemma system_without_calls: "all_call_ids (filter (role_is ''system'') ms) = []"
  by (induction ms) (auto simp: other_no_calls)

lemma window_calls: "subseq (all_call_ids (window_messages S ms)) (all_call_ids ms)"
proof -
  let ?sys = "filter (role_is ''system'') ms" and ?non = "filter (\<lambda>m. \<not> role_is ''system'' m) ms"
  have "subseq (all_call_ids (last_items n (?sys @ ?non))) (all_call_ids ms)" for n
    using subseq_call_ids[OF subseq_last_items[of n "?sys @ ?non"]]
    by (simp add: calls_without_system system_without_calls)
  moreover have "subseq (all_call_ids (last_items n (?sys @ window_tail b ?non))) (all_call_ids ms)" for n b
    using subseq_call_ids[OF subseq_last_items[of n "?sys @ window_tail b ?non"]] subseq_window_tail[of b ?non]
    by (simp add: calls_without_system system_without_calls)
  ultimately show ?thesis unfolding window_messages_def Let_def by auto
qed

lemma subseq_distinct: "subseq xs ys \<Longrightarrow> distinct ys \<Longrightarrow> distinct xs"
  by (induction rule: list_emb.induct) (auto dest: list_emb_set)

lemma window_distinct: "distinct (all_call_ids ms) \<Longrightarrow> distinct (all_call_ids (window_messages S ms))"
  using window_calls subseq_distinct by blast

lemma prepared_distinct:
  "distinct (all_call_ids ms) \<Longrightarrow> distinct (all_call_ids (prepare_messages_with_system_prompt p ms))"
  by (simp add: prepare_messages_with_system_prompt_def other_no_calls)

lemma sanitized_paired:
  "distinct (all_call_ids messages) \<Longrightarrow> paired [] (sanitize_messages_for_openai messages)"
  unfolding sanitize_messages_for_openai_def
  using answered_if_valid_distinct[of messages "valid_call_ids messages"] sanitized_paired_from by blast

end
