(* ===== verification/ModelProps.thy ===== *)
theory ModelProps
  imports ModelTurn MessageProps AgentProps
begin

text \<open>
  What one turn of the model guarantees: the shape of the conversation it sends, which calls
  become pending, how fragments are put together, how often a request is repeated; and what the
  node does with a stop request and with the memory context.
\<close>

subsection \<open>The conversation that is sent\<close>

lemma paired_map:
  assumes "\<And>m. calls_of_msg (f m) = calls_of_msg m" and "\<And>m. dget (f m) ''role'' = dget m ''role''"
    and "\<And>m. dget (f m) ''tool_call_id'' = dget m ''tool_call_id''"
  shows "paired seen (map f ms) = paired seen ms"
proof -
  have answers: "answered_ids (map f xs) = answered_ids xs" for xs
    unfolding answered_ids_def by (induction xs) (simp_all add: assms)
  have ids: "call_ids (f m) = call_ids m" for m by (simp add: call_ids_def assms(1))
  show ?thesis by (induction ms arbitrary: seen) (simp_all add: answers ids assms(2,3))
qed

lemma ensure_paired: "paired seen (ensure_reasoning_content ms) = paired seen ms"
  unfolding ensure_reasoning_content_def by (rule paired_map) (simp_all add: calls_of_msg_def dict_simps)

lemma strip_paired: "paired seen (strip_reasoning_content ms) = paired seen ms"
  unfolding strip_reasoning_content_def by (rule paired_map) (simp_all add: calls_of_msg_def dget_filter_other)

text \<open>
  C29: In the conversation sent to the model every tool message answers a call made before it, and
  every call is answered by the tool messages that follow its message directly, when no call
  identifier occurs twice in the history: windowing, the system prompt, the sanitizer and the
  treatment of reasoning leave nothing half answered.
\<close>

theorem sent_conversation_paired:
  assumes "distinct (all_call_ids messages)"
  shows "paired [] (prepared_messages S prompt cfg model messages)"
proof -
  have "paired [] (sanitize_messages_for_openai (prepare_messages_with_system_prompt prompt (window_messages S messages)))"
    by (intro sanitized_paired prepared_distinct window_distinct assms)
  then show ?thesis by (simp add: prepared_messages_def Let_def ensure_paired strip_paired)
qed

definition demo_call :: "string \<Rightarrow> json" where
  "demo_call i = JDict [(''id'', JStr i), (''type'', JStr ''function'')]"

definition demo_conversation :: "dict list" where
  "demo_conversation =
     [[(''role'', JStr ''user''), (''content'', JStr ''go'')],
      [(''role'', JStr ''assistant''), (''content'', JNull), (''tool_calls'', JList [demo_call ''a'', demo_call ''b''])],
      [(''role'', JStr ''tool''), (''tool_call_id'', JStr ''a''), (''content'', JStr ''done'')],
      [(''role'', JStr ''tool''), (''tool_call_id'', JStr ''c''), (''content'', JStr ''orphan'')]]"

theorem sent_conversation_paired_witness:
  "paired [] (prepared_messages default_settings ''p'' No_reasoning ''gemini/pro'' demo_conversation)
   \<and> length (prepared_messages default_settings ''p'' No_reasoning ''gemini/pro'' demo_conversation) = 4"
proof -
  have "distinct (all_call_ids demo_conversation)" by code_simp
  moreover have "length (prepared_messages default_settings ''p'' No_reasoning ''gemini/pro'' demo_conversation) = 4"
    by code_simp
  ultimately show ?thesis using sent_conversation_paired by blast
qed

lemma last_filter_kept: "xs \<noteq> [] \<Longrightarrow> P (last xs) \<Longrightarrow> last (filter P xs) = last xs"
  by (induction xs rule: rev_induct) simp_all

text \<open>
  When the conversation holds more messages than the window and the first user message lies
  before the tail, the newest message is not sent: the tail is cut at its end to make room.
\<close>

theorem window_drops_newest:
  assumes "distinct messages" and "\<not> role_is ''system'' (last messages)"
    and "first_user (filter (\<lambda>m. \<not> role_is ''system'' m) messages) = Some (u, i)"
    and "LLM_CONTEXT_WINDOW_MESSAGES S < int (length messages)"
    and "int (length (filter (role_is ''system'') messages)) + 1 < LLM_CONTEXT_WINDOW_MESSAGES S"
    and "int i + (LLM_CONTEXT_WINDOW_MESSAGES S - int (length (filter (role_is ''system'') messages)) - 1)
      < int (length (filter (\<lambda>m. \<not> role_is ''system'' m) messages))"
    and "u \<noteq> last messages"
  shows "last messages \<notin> set (window_messages S messages)"
proof -
  let ?sys = "filter (role_is ''system'') messages" and ?non = "filter (\<lambda>m. \<not> role_is ''system'' m) messages"
  define b where "b = LLM_CONTEXT_WINDOW_MESSAGES S - (int (length ?sys) + 1)"
  have b: "0 < b" using assms(5) by (simp add: b_def)
  have nonempty: "messages \<noteq> []" using assms(3) by (auto simp: first_user_def)
  have u: "u \<noteq> []" using first_user_role[OF assms(3)] by auto
  define newest where "newest = last messages"
  have in_non: "newest \<in> set ?non" using nonempty assms(2) by (simp add: newest_def)
  have last_non: "last ?non = newest"
    unfolding newest_def using nonempty assms(2) by (rule last_filter_kept)
  have ne: "?non \<noteq> []" using in_non by (metis empty_iff list.set(1))
  let ?tail = "last_items b ?non"
  have tail: "?tail \<noteq> []" "last ?tail = newest"
    using last_items_last[OF ne b] last_non by simp_all
  have dis: "distinct ?tail"
    using assms(1) subseq_distinct[OF subseq_last_items[of b ?non]] by simp
  have len: "int (length ?tail) = b"
    using assms(6) b by (simp add: last_items_def b_def)
  have "newest \<notin> set (take (nat (b - 1)) ?tail)"
    using take_short_last[OF dis, of "nat (b - 1)"] tail(2) len b by simp
  then have p: "newest \<notin> set (prepend_user b u ?tail)"
    using prepend_user_set[OF b, of u ?tail] assms(7) by (auto simp: newest_def)
  have before: "i < length ?non - length ?tail"
    using assms(6) len unfolding b_def by linarith
  have "window_tail b ?non = prepend_user b u ?tail"
    unfolding window_tail_def Let_def assms(3) using before by simp
  moreover have "window_messages S messages
      = last_items (LLM_CONTEXT_WINDOW_MESSAGES S) (?sys @ window_tail b ?non)"
    using nonempty assms(3,4) u b unfolding window_messages_def Let_def by (simp add: b_def)
  ultimately have "set (window_messages S messages) \<subseteq> set ?sys \<union> set (prepend_user b u ?tail)"
    using last_items_set[of "LLM_CONTEXT_WINDOW_MESSAGES S" "?sys @ prepend_user b u ?tail"] by simp
  moreover have "newest \<notin> set ?sys" using assms(2) by (simp add: newest_def)
  ultimately show ?thesis using p unfolding newest_def by blast
qed

definition small_window :: settings where
  "small_window = default_settings\<lparr>LLM_CONTEXT_WINDOW_MESSAGES := 3\<rparr>"

definition four_turns :: "dict list" where
  "four_turns = map (\<lambda>t. [(''role'', JStr ''user''), (''content'', JStr t)]) [''one'', ''two'', ''three'', ''four'']"

theorem window_drops_newest_witness:
  "[(''role'', JStr ''user''), (''content'', JStr ''four'')] \<notin> set (window_messages small_window four_turns)"
proof -
  have "last four_turns \<notin> set (window_messages small_window four_turns)"
    by (rule window_drops_newest[where u = "[(''role'', JStr ''user''), (''content'', JStr ''one'')]" and i = 0])
      (simp_all add: four_turns_def small_window_def default_settings_def first_user_def)
  then show ?thesis by (simp add: four_turns_def)
qed

subsection \<open>Putting fragments together\<close>

text \<open>
  The call a fragment is meant for: the one it names, else the one named last under its index.
\<close>

definition owner :: "(int \<times> string) list \<Rightarrow> call_delta \<Rightarrow> string" where
  "owner lst c =
     (if cd_id c \<noteq> [] then cd_id c
      else (case Option.bind (cd_index c) (map_of lst) of None \<Rightarrow> [] | Some i \<Rightarrow> i))"

fun owned :: "(int \<times> string) list \<Rightarrow> call_delta list \<Rightarrow> (string \<times> call_delta) list" where
  "owned lst [] = []"
| "owned lst (c # cs) =
     (owner lst c, c)
     # owned (case cd_index c of
                Some r \<Rightarrow> (if cd_id c = [] then lst else AList.update r (cd_id c) lst)
              | None \<Rightarrow> lst) cs"

definition fragments :: "string \<Rightarrow> (string \<times> call_delta) list \<Rightarrow> call_delta list" where
  "fragments i past = map snd (filter (\<lambda>p. fst p = i) past)"

text \<open>What the fragments of a call say together.\<close>

definition first_name :: "call_delta list \<Rightarrow> string" where
  "first_name cs = (case filter (\<lambda>n. n \<noteq> []) (map cd_name cs) of [] \<Rightarrow> [] | n # _ \<Rightarrow> n)"

definition whole_call :: "string \<Rightarrow> call_delta list \<Rightarrow> call_slot" where
  "whole_call i cs = \<lparr>cs_id = i, cs_name = first_name cs, cs_arguments = concat (map cd_arguments cs)\<rparr>"

lemma first_name_snoc:
  "first_name (cs @ [c]) = (if first_name cs = [] then cd_name c else first_name cs)"
  by (auto simp: first_name_def filter_empty_conv dest: filter_eq_ConsD split: list.splits)

lemma fill_whole:
  "cd_id c = [] \<or> cd_id c = i \<Longrightarrow> i \<noteq> [] \<Longrightarrow>
     fill_slot c (Some (whole_call i cs)) = whole_call i (cs @ [c])"
  by (auto simp: fill_slot_def whole_call_def first_name_snoc)

lemma fill_new: "fill_slot c None = whole_call (cd_id c) [c]"
  by (simp add: fill_slot_def whole_call_def first_name_def)

text \<open>Every call met so far has its own slot, and the slot holds what its fragments say.\<close>

definition slots_ok :: "turn_buf \<Rightarrow> (string \<times> call_delta) list \<Rightarrow> bool" where
  "slots_ok b past \<longleftrightarrow>
     (\<forall>i k. map_of (tb_ids b) i = Some k \<longrightarrow>
        i \<noteq> [] \<and> k < tb_next b \<and> map_of (tb_calls b) k = Some (whole_call i (fragments i past)))
     \<and> (\<forall>i j k. map_of (tb_ids b) i = Some k \<longrightarrow> map_of (tb_ids b) j = Some k \<longrightarrow> i = j)
     \<and> (\<forall>i. i \<in> fst ` set past \<longleftrightarrow> map_of (tb_ids b) i \<noteq> None)
     \<and> (\<forall>k. map_of (tb_calls b) k \<noteq> None \<longrightarrow> k < tb_next b)
     \<and> (\<forall>r i. map_of (tb_last b) r = Some i \<longrightarrow> map_of (tb_ids b) i \<noteq> None)"

lemma fragments_snoc: "fragments i (past @ [(j, c)]) = (if i = j then fragments i past @ [c] else fragments i past)"
  by (simp add: fragments_def)

lemma fragments_none: "i \<notin> fst ` set past \<Longrightarrow> fragments i past = []"
  by (auto simp: fragments_def filter_empty_conv)

lemma slots_known:
  assumes ok: "slots_ok b past" and k: "map_of (tb_ids b) i = Some k" and c: "cd_id c = [] \<or> cd_id c = i"
    and lst: "\<And>r j. map_of lst2 r = Some j \<Longrightarrow> map_of (tb_ids b) j \<noteq> None"
  shows "slots_ok (b\<lparr>tb_last := lst2, tb_calls := AList.update k (fill_slot c (map_of (tb_calls b) k)) (tb_calls b)\<rparr>)
    (past @ [(i, c)])"
proof -
  have slot: "i \<noteq> []" "k < tb_next b" "map_of (tb_calls b) k = Some (whole_call i (fragments i past))"
    using ok k by (simp_all add: slots_ok_def)
  have fill: "fill_slot c (map_of (tb_calls b) k) = whole_call i (fragments i past @ [c])"
    using fill_whole[OF c slot(1)] slot(3) by simp
  show ?thesis
    unfolding fill using ok k slot lst
    by (auto simp: slots_ok_def update_conv' fragments_snoc)
qed

lemma slots_new:
  assumes ok: "slots_ok b past" and new: "map_of (tb_ids b) (cd_id c) = None" and c: "cd_id c \<noteq> []"
  shows "slots_ok (b\<lparr>tb_ids := AList.update (cd_id c) (tb_next b) (tb_ids b), tb_next := tb_next b + 1,
      tb_last := AList.update r (cd_id c) (tb_last b),
      tb_calls := AList.update (tb_next b) (fill_slot c (map_of (tb_calls b) (tb_next b))) (tb_calls b)\<rparr>)
    (past @ [(cd_id c, c)])"
proof -
  have "map_of (tb_calls b) (tb_next b) = None" using ok by (force simp: slots_ok_def)
  then have fill: "fill_slot c (map_of (tb_calls b) (tb_next b)) = whole_call (cd_id c) [c]"
    by (simp add: fill_new)
  have none: "fragments (cd_id c) past = []"
    using ok new by (intro fragments_none) (simp add: slots_ok_def)
  have old: "k < tb_next b" if "map_of (tb_ids b) i = Some k" for i k using ok that by (simp add: slots_ok_def)
  have "\<forall>i k. map_of (AList.update (cd_id c) (tb_next b) (tb_ids b)) i = Some k \<longrightarrow>
      i \<noteq> [] \<and> k < tb_next b + 1
      \<and> map_of (AList.update (tb_next b) (whole_call (cd_id c) [c]) (tb_calls b)) k
         = Some (whole_call i (fragments i (past @ [(cd_id c, c)])))"
  proof (intro allI impI)
    fix i k assume i: "map_of (AList.update (cd_id c) (tb_next b) (tb_ids b)) i = Some k"
    show "i \<noteq> [] \<and> k < tb_next b + 1
      \<and> map_of (AList.update (tb_next b) (whole_call (cd_id c) [c]) (tb_calls b)) k
         = Some (whole_call i (fragments i (past @ [(cd_id c, c)])))"
    proof (cases "i = cd_id c")
      case True
      then show ?thesis using i c none by (simp add: update_conv' fragments_snoc)
    next
      case False
      then have "map_of (tb_ids b) i = Some k" using i by (simp add: update_conv')
      then have "i \<noteq> [] \<and> k < tb_next b \<and> map_of (tb_calls b) k = Some (whole_call i (fragments i past))"
        using ok unfolding slots_ok_def by blast
      then show ?thesis using False by (auto simp: update_conv' fragments_snoc)
    qed
  qed
  moreover have "\<forall>i j k. map_of (AList.update (cd_id c) (tb_next b) (tb_ids b)) i = Some k \<longrightarrow>
      map_of (AList.update (cd_id c) (tb_next b) (tb_ids b)) j = Some k \<longrightarrow> i = j"
  proof (intro allI impI)
    fix i j k
    assume i: "map_of (AList.update (cd_id c) (tb_next b) (tb_ids b)) i = Some k"
      and j: "map_of (AList.update (cd_id c) (tb_next b) (tb_ids b)) j = Some k"
    show "i = j"
    proof (cases "i = cd_id c \<or> j = cd_id c")
      case True
      then show ?thesis using i j old[of i k] old[of j k] by (auto simp: update_conv' split: if_splits)
    next
      case False
      then have "map_of (tb_ids b) i = Some k" "map_of (tb_ids b) j = Some k"
        using i j by (simp_all add: update_conv')
      then show ?thesis using ok unfolding slots_ok_def by blast
    qed
  qed
  moreover have "\<forall>i. i \<in> fst ` set (past @ [(cd_id c, c)])
      \<longleftrightarrow> map_of (AList.update (cd_id c) (tb_next b) (tb_ids b)) i \<noteq> None"
    using ok by (auto simp: slots_ok_def update_conv')
  moreover have "\<forall>k. map_of (AList.update (tb_next b) (whole_call (cd_id c) [c]) (tb_calls b)) k \<noteq> None
      \<longrightarrow> k < tb_next b + 1"
    using ok by (force simp: slots_ok_def update_conv')
  moreover have "\<forall>r' i. map_of (AList.update r (cd_id c) (tb_last b)) r' = Some i
      \<longrightarrow> map_of (AList.update (cd_id c) (tb_next b) (tb_ids b)) i \<noteq> None"
    using ok by (auto simp: slots_ok_def update_conv')
  ultimately show ?thesis unfolding slots_ok_def fill by simp
qed

lemma slots_step:
  assumes ok: "slots_ok b past" and r: "cd_index c = Some r" and o: "owner (tb_last b) c \<noteq> []"
  shows "slots_ok (add_call_delta b c) (past @ [(owner (tb_last b) c, c)])"
proof (cases "cd_id c = []")
  case True
  obtain i where i: "map_of (tb_last b) r = Some i" "owner (tb_last b) c = i"
    using o True r by (auto simp: owner_def split: option.splits)
  have "map_of (tb_ids b) i \<noteq> None" using ok i(1) unfolding slots_ok_def by blast
  then obtain k where k: "map_of (tb_ids b) i = Some k" by blast
  have "add_call_delta b c = b\<lparr>tb_last := tb_last b,
      tb_calls := AList.update k (fill_slot c (map_of (tb_calls b) k)) (tb_calls b)\<rparr>"
    using True r i(1) k by (simp add: add_call_delta_def Let_def slot_index_def register_id_def)
  then show ?thesis
    using slots_known[OF ok k, of c "tb_last b"] True ok i(2) by (auto simp: slots_ok_def)
next
  case False
  have own: "owner (tb_last b) c = cd_id c" using False by (simp add: owner_def)
  show ?thesis
  proof (cases "map_of (tb_ids b) (cd_id c)")
    case None
    have "add_call_delta b c = b\<lparr>tb_ids := AList.update (cd_id c) (tb_next b) (tb_ids b), tb_next := tb_next b + 1,
        tb_last := AList.update r (cd_id c) (tb_last b),
        tb_calls := AList.update (tb_next b) (fill_slot c (map_of (tb_calls b) (tb_next b))) (tb_calls b)\<rparr>"
      using False r None by (simp add: add_call_delta_def Let_def slot_index_def register_id_def)
    then show ?thesis using slots_new[OF ok None False, of r] own by simp
  next
    case (Some k)
    have "add_call_delta b c = b\<lparr>tb_last := AList.update r (cd_id c) (tb_last b),
        tb_calls := AList.update k (fill_slot c (map_of (tb_calls b) k)) (tb_calls b)\<rparr>"
      using False r Some by (simp add: add_call_delta_def Let_def slot_index_def register_id_def)
    moreover have "map_of (tb_ids b) j \<noteq> None"
      if "map_of (AList.update r (cd_id c) (tb_last b)) r' = Some j" for r' j
      using that ok Some by (auto simp: slots_ok_def update_conv' split: if_splits)
    ultimately show ?thesis using slots_known[OF ok Some, of c] own by simp
  qed
qed

lemma add_last:
  "tb_last (add_call_delta b c) = (case cd_index c of
     Some r \<Rightarrow> (if cd_id c = [] then tb_last b else AList.update r (cd_id c) (tb_last b)) | None \<Rightarrow> tb_last b)"
  by (simp add: add_call_delta_def Let_def register_id_def split: option.splits)

lemma slots_fold:
  "slots_ok b past \<Longrightarrow> (\<forall>c \<in> set cs. cd_index c \<noteq> None) \<Longrightarrow> (\<forall>p \<in> set (owned (tb_last b) cs). fst p \<noteq> []) \<Longrightarrow>
     slots_ok (foldl add_call_delta b cs) (past @ owned (tb_last b) cs)"
proof (induction cs arbitrary: b past)
  case (Cons c cs)
  obtain r where r: "cd_index c = Some r" using Cons.prems(2) by auto
  have "slots_ok (add_call_delta b c) (past @ [(owner (tb_last b) c, c)])"
    using slots_step[OF Cons.prems(1) r] Cons.prems(3) by simp
  from Cons.IH[OF this] show ?case
    using Cons.prems(2,3) by (simp add: add_last r)
qed simp

text \<open>
  C31: The slots of a stream hold, for every call the provider began, exactly its fragments in the
  order they came: its identifier, its first name, the concatenation of its argument texts, also
  when fragments of several calls are interleaved or all reported under one index.
\<close>

theorem tool_calls_reassembled:
  assumes "\<forall>c \<in> set cs. cd_index c \<noteq> None" and "\<forall>p \<in> set (owned [] cs). fst p \<noteq> []"
    and "i \<in> fst ` set (owned [] cs)"
  shows "\<exists>k. map_of (tb_ids (foldl add_call_delta (empty_buf ttft) cs)) i = Some k
     \<and> map_of (tb_calls (foldl add_call_delta (empty_buf ttft) cs)) k
         = Some (whole_call i (fragments i (owned [] cs)))"
proof -
  have "slots_ok (empty_buf ttft) []" by (simp add: slots_ok_def empty_buf_def)
  then have "slots_ok (foldl add_call_delta (empty_buf ttft) cs) (owned [] cs)"
    using slots_fold[of "empty_buf ttft" "[]" cs] assms(1,2) by (simp add: empty_buf_def)
  then show ?thesis using assms(3) unfolding slots_ok_def by blast
qed

definition demo_fragments :: "call_delta list" where
  "demo_fragments =
     [\<lparr>cd_index = Some 0, cd_id = ''a'', cd_name = ''k8s_get'', cd_arguments = ''{''\<rparr>,
      \<lparr>cd_index = Some 0, cd_id = ''b'', cd_name = ''k8s_logs'', cd_arguments = ''[''\<rparr>,
      \<lparr>cd_index = Some 0, cd_id = ''a'', cd_name = ''k8s_get'', cd_arguments = ''}''\<rparr>,
      \<lparr>cd_index = Some 0, cd_id = [], cd_name = [], cd_arguments = '' ''\<rparr>]"

theorem tool_calls_reassembled_witness:
  "\<exists>k. map_of (tb_calls (foldl add_call_delta (empty_buf False) demo_fragments)) k
     = Some \<lparr>cs_id = ''a'', cs_name = ''k8s_get'', cs_arguments = ''{} ''\<rparr>"
proof -
  have "\<forall>c \<in> set demo_fragments. cd_index c \<noteq> None" "\<forall>p \<in> set (owned [] demo_fragments). fst p \<noteq> []"
    "''a'' \<in> fst ` set (owned [] demo_fragments)"
    by (simp_all add: demo_fragments_def owner_def)
  from tool_calls_reassembled[OF this, of False]
  obtain k where "map_of (tb_calls (foldl add_call_delta (empty_buf False) demo_fragments)) k
      = Some (whole_call ''a'' (fragments ''a'' (owned [] demo_fragments)))" by blast
  moreover have "whole_call ''a'' (fragments ''a'' (owned [] demo_fragments))
      = \<lparr>cs_id = ''a'', cs_name = ''k8s_get'', cs_arguments = ''{} ''\<rparr>"
    by (simp add: whole_call_def fragments_def demo_fragments_def owner_def first_name_def)
  ultimately show ?thesis by auto
qed

subsection \<open>The memory context\<close>

lemma context_is_system:
  assumes "hits \<noteq> []" shows "\<exists>d. format_context hits = JDict d \<and> role_is ''system'' d"
  using assms by (simp add: format_context_def)

lemma inject_context_split:
  assumes "truthy c" and "ms \<noteq> []"
  shows "\<exists>i. inject_context (Some c) ms = take i ms @ c # drop i ms"
proof (cases "list_ex is_user ms")
  case True
  then show ?thesis using assms by (auto simp: inject_context_def Let_def)
next
  case False
  then have "inject_context (Some c) ms = take 0 ms @ c # drop 0 ms" using assms by (simp add: inject_context_def)
  then show ?thesis by blast
qed

lemma as_messages: "each_py as_message (map JDict ds) = Inr ds"
  by (induction ds) (simp_all add: as_message_def)

text \<open>
  When memory was retrieved the system prompt is not sent: the memory context is itself a
  system message, and the prompt is added only to a conversation without one.
\<close>

theorem memory_context_replaces_system_prompt:
  assumes "hits \<noteq> []" and "ms \<noteq> []"
    and "int (length (filter (role_is ''system'') ms)) + 2 < LLM_CONTEXT_WINDOW_MESSAGES S"
  shows "\<exists>ds. each_py as_message (inject_context (Some (format_context hits)) (map JDict ms)) = Inr ds
     \<and> (\<forall>prompt. prepare_messages_with_system_prompt prompt (window_messages S ds) = window_messages S ds)"
proof -
  obtain d where d: "format_context hits = JDict d" "role_is ''system'' d" using context_is_system[OF assms(1)] by blast
  then have "truthy (JDict d)" by (cases d) simp_all
  then obtain i where i: "inject_context (Some (JDict d)) (map JDict ms) = take i (map JDict ms) @ JDict d # drop i (map JDict ms)"
    using inject_context_split[of "JDict d" "map JDict ms"] assms(2) by auto
  define ds where "ds = take i ms @ d # drop i ms"
  have inj: "inject_context (Some (format_context hits)) (map JDict ms) = map JDict ds"
    by (simp add: d(1) i ds_def take_map drop_map)
  have "length (filter (role_is ''system'') (take i ms @ drop i ms)) = length (filter (role_is ''system'') ms)"
    by simp
  then have "int (length (filter (role_is ''system'') ds)) + 1 < LLM_CONTEXT_WINDOW_MESSAGES S"
    using assms(3) d(2) unfolding ds_def filter_append by simp
  then have "d \<in> set (window_messages S ds)"
    by (intro window_keeps_system) (simp_all add: ds_def d(2))
  then have "list_ex (role_is ''system'') (window_messages S ds)" using d(2) by (auto simp: list_ex_iff)
  then have "prepare_messages_with_system_prompt prompt (window_messages S ds) = window_messages S ds" for prompt
    by (simp add: prepare_messages_with_system_prompt_def)
  then show ?thesis using inj as_messages by metis
qed

definition demo_hits :: "memory_hit list" where
  "demo_hits = [\<lparr>hit_document = ''d'', hit_version = None, hit_store = ''runbooks'', hit_path = ''/a'',
     hit_trust = ADMIN_APPROVED, hit_type = RUNBOOK, hit_excerpt = ''x'', hit_title = None, hit_updated = [],
     hit_source = None\<rparr>]"

theorem memory_context_replaces_system_prompt_witness:
  "\<exists>ds. each_py as_message (inject_context (Some (format_context demo_hits)) (map JDict demo_conversation)) = Inr ds
     \<and> (\<forall>prompt. prepare_messages_with_system_prompt prompt (window_messages default_settings ds)
         = window_messages default_settings ds)"
  by (rule memory_context_replaces_system_prompt)
    (simp_all add: demo_hits_def demo_conversation_def default_settings_def)

subsection \<open>A stop request during a turn\<close>

lemma stop_message: "format_model_error [] = (''Model error: '', ''unknown'')"
  by code_simp

lemma emit_error_returns:
  "\<exists>w'. emit_workflow_model_error on e run conv w = (Inr (format_model_error (exc_msg e)), w')"
  by (auto simp: emit_workflow_model_error_def publish_def bindW_def split: prod.splits)

lemma model_call_stopped:
  assumes "md_should_stop M (st_run s) w = (Inr True, w')"
  shows "\<exists>w''. model_call M s w = (Inr (failure_updates
     [JDict [(''role'', JStr ''assistant''), (''content'', JStr ''Model error: '')]] ''Model error: ''), w'')"
proof -
  obtain v where "emit_workflow_model_error (md_callback M) stop_requested (st_run s) (st_conversation s) w'
      = (Inr (format_model_error []), v)"
    using emit_error_returns[of "md_callback M" stop_requested "st_run s" "st_conversation s" w']
    unfolding stop_requested_def py_exc.sel by blast
  moreover have "\<not> cancelled stop_requested" by (simp add: cancelled_def stop_requested_def)
  ultimately show ?thesis
    using assms by (simp add: model_call_def catchW_def bindW_def stop_message)
qed

text \<open>
  A stop that is requested after the graph checked the flag and before the model node does
  is not a stop: the node answers with an empty model error, and the run completes.
\<close>

theorem late_stop_becomes_model_error:
  assumes "ag_should_stop A (st_run s) w = (Inr False, w1)" and "ag_model A = model_call M"
    and "md_should_stop M (st_run s) w1 = (Inr True, w2)"
  shows "\<exists>w3. model_node A s w = (Inr
     [Messages [JDict [(''role'', JStr ''assistant''), (''content'', JStr ''Model error: '')]], Pending_tools [],
      Error_is (Some ''Model error: '')], w3)"
proof -
  obtain w3 where "model_call M s w1 = (Inr (failure_updates
     [JDict [(''role'', JStr ''assistant''), (''content'', JStr ''Model error: '')]] ''Model error: ''), w3)"
    using model_call_stopped[OF assms(3)] by blast
  then show ?thesis
    using assms(1,2) by (simp add: model_node_def check_stop_def catchW_def bindW_def failure_updates_def)
qed

text \<open>A model whose stop flag was raised in between.\<close>

definition late_stop_model :: "unit model" where
  "late_stop_model = \<lparr>md_settings = default_settings, md_prompt = \<lambda>now. ''prompt'', md_callback = True,
     md_should_stop = \<lambda>run. ret True, md_tools = None, md_config = \<lambda>name. Inr None,
     md_supports_reasoning = \<lambda>model. Inr False, md_complete = \<lambda>d. ret [], md_await = ret (),
     md_cost = \<lambda>m p c k. Inr (JInt 0), md_sleep = \<lambda>t. ret (), md_uuid = ret ''u'', md_loads = \<lambda>s. Inr JNull\<rparr>"

theorem late_stop_becomes_model_error_witness:
  "\<exists>w3. model_node (demo_agent\<lparr>ag_model := model_call late_stop_model\<rparr>) demo_state quiet_world = (Inr
     [Messages [JDict [(''role'', JStr ''assistant''), (''content'', JStr ''Model error: '')]], Pending_tools [],
      Error_is (Some ''Model error: '')], w3)"
  by (rule late_stop_becomes_model_error[where M = late_stop_model and ?w1.0 = quiet_world and ?w2.0 = quiet_world])
    (simp_all add: demo_agent_def late_stop_model_def)

subsection \<open>What becomes pending\<close>

definition yields :: "('a \<Rightarrow> bool) \<Rightarrow> ('s, 'a) st \<Rightarrow> bool" where
  "yields P m \<longleftrightarrow> (\<forall>s a s'. m s = (Inr a, s') \<longrightarrow> P a)"

lemma yields_bind: "yields Q m \<Longrightarrow> (\<And>a. Q a \<Longrightarrow> yields P (f a)) \<Longrightarrow> yields P (bindW m f)"
  unfolding yields_def bindW_Inr by blast

lemma yields_then: "(\<And>a. yields P (f a)) \<Longrightarrow> yields P (bindW m f)"
  unfolding yields_def bindW_Inr by blast

lemma yields_ret: "P a \<Longrightarrow> yields P (ret a)"
  by (simp add: yields_def)

lemma yields_raise: "yields P (raise e)"
  by (simp add: yields_def)

lemma yields_catch: "yields P m \<Longrightarrow> (\<And>e. yields P (h e)) \<Longrightarrow> yields P (catchW m h)"
  unfolding yields_def catchW_def by (fastforce split: prod.splits sum.splits if_splits)

lemma yields_if: "yields P m \<Longrightarrow> yields P m' \<Longrightarrow> yields P (if b then m else m')"
  by simp

lemma yields_await: "yields P m \<Longrightarrow> yields P (await m)"
  unfolding yields_def await_def by (fastforce split: prod.splits)

lemma yields_look: "(\<And>b. yields P (f b)) \<Longrightarrow> yields P (look f)"
  unfolding yields_def look_def by blast

definition tool_names :: "json list \<Rightarrow> json set" where
  "tool_names ts = {n. \<exists>t \<in> set ts. tool_function_name t = Inr n}"

lemma each_py_names: "each_py tool_function_name ts = Inr ns \<Longrightarrow> set ns \<subseteq> tool_names ts"
proof (induction ts arbitrary: ns)
  case (Cons t ts)
  obtain x xs where x: "tool_function_name t = Inr x" "each_py tool_function_name ts = Inr xs" "ns = x # xs"
    using Cons.prems by (auto simp: bindE_Inr_iff)
  then have "set xs \<subseteq> tool_names ts" using Cons.IH by blast
  then show ?case using x(1,3) by (auto simp: tool_names_def)
qed simp

definition offered :: "json set \<Rightarrow> pending_tool list \<Rightarrow> bool" where
  "offered N calls \<longleftrightarrow> (\<forall>t \<in> set calls. JStr (pt_name t) \<in> N)"

lemma pending_call_offered:
  assumes "tool_names ts \<subseteq> N" shows "yields (offered N) (pending_call M ts n)"
proof (cases "py_strip (nc_name n) = []")
  case True
  then show ?thesis by (simp add: pending_call_def yields_ret offered_def)
next
  case False
  have names: "yields (\<lambda>ns. set ns \<subseteq> N) (lift (each_py tool_function_name ts))"
    using each_py_names[of ts] assms by (auto simp: yields_def)
  show ?thesis
    unfolding pending_call_def Let_def if_not_P[OF False]
  proof (rule yields_catch)
    show "yields (offered N) (ret [])" by (simp add: yields_ret offered_def)
  next
    show "yields (offered N) (bindW (lift (each_py tool_function_name ts)) (\<lambda>ns.
      if JStr (py_strip (nc_name n)) \<notin> set ns then ret []
      else bindW (lift (parse_arguments (md_loads M) (nc_arguments n))) (\<lambda>args.
           bindW (if nc_id n = [] then fresh_call_id (md_uuid M) else ret (nc_id n)) (\<lambda>raw.
           bindW (if nc_call_id n = [] then make_display_call_id (md_uuid M) (py_strip raw) else ret (nc_call_id n)) (\<lambda>display.
           bindW (md_uuid M) (\<lambda>op.
           ret [\<lparr>pt_id = py_strip raw, pt_call_id = display, pt_operation = op,
                 pt_name = py_strip (nc_name n), pt_args = args\<rparr>]))))))"
    proof (rule yields_bind[OF names])
      fix ns assume ns: "set ns \<subseteq> N"
      show "yields (offered N)
        (if JStr (py_strip (nc_name n)) \<notin> set ns then ret []
         else bindW (lift (parse_arguments (md_loads M) (nc_arguments n))) (\<lambda>args.
           bindW (if nc_id n = [] then fresh_call_id (md_uuid M) else ret (nc_id n)) (\<lambda>raw.
           bindW (if nc_call_id n = [] then make_display_call_id (md_uuid M) (py_strip raw) else ret (nc_call_id n)) (\<lambda>display.
           bindW (md_uuid M) (\<lambda>op.
           ret [\<lparr>pt_id = py_strip raw, pt_call_id = display, pt_operation = op,
                 pt_name = py_strip (nc_name n), pt_args = args\<rparr>])))))"
        using ns by (cases "JStr (py_strip (nc_name n)) \<in> set ns")
          (auto simp: offered_def intro!: yields_ret yields_then)
    qed
  qed
qed

lemma pending_calls_offered:
  assumes "tool_names ts \<subseteq> N" shows "yields (offered N) (pending_calls M ts ns)"
proof (induction ns)
  case (Cons n ns)
  have "yields (offered N) (ret (p @ ps))" if "offered N p" "offered N ps" for p ps
    using that by (auto simp: offered_def intro!: yields_ret)
  then show ?case
    unfolding pending_calls.simps
    by (intro yields_bind[OF pending_call_offered[OF assms, of M n]] yields_bind[OF Cons.IH])
next
  case Nil
  show ?case unfolding pending_calls.simps by (rule yields_ret) (simp add: offered_def)
qed

lemma gemini_function_name:
  assumes "valid_tool t" and "gemini_tool t = Some t'"
  shows "tool_function_name t' = tool_function_name t"
proof -
  obtain d where d: "t = JDict d" using assms(1) by (auto simp: valid_tool_def split: json.splits)
  obtain f where f: "dget d ''function'' = JDict f" "is_str (dget f ''name'')" "dget d ''type'' = JStr ''function''"
    using assms(1) d by (auto simp: valid_tool_def split: json.splits)
  have f': "map_of d ''function'' = Some (JDict f)" using f(1) by (auto simp: dget_def_def split: option.splits)
  obtain n where n: "map_of f ''name'' = Some n" using f(2) by (auto simp: dget_def_def split: option.splits)
  then show ?thesis
    using assms(2) d f f'
    by (auto simp: gemini_tool_def tool_function_name_def subscript_def dget_def_def update_conv'
        split: json.splits option.splits)
qed

lemma gemini_names:
  assumes "list_all valid_tool ts" shows "tool_names (sanitize_messages_for_gemini ts) \<subseteq> tool_names ts"
proof
  fix n assume "n \<in> tool_names (sanitize_messages_for_gemini ts)"
  then obtain t t' where "t \<in> set ts" "gemini_tool t = Some t'" "tool_function_name t' = Inr n"
    by (auto simp: tool_names_def sanitize_messages_for_gemini_def List.map_filter_def)
  then show "n \<in> tool_names ts"
    using gemini_function_name[of t t'] assms unfolding tool_names_def list_all_iff by auto
qed

lemma offered_tools_names:
  assumes "md_tools M = Some provide"
    and "\<And>w ts w'. provide (ta_toolsets a) w = (Inr ts, w') \<Longrightarrow> tool_names ts \<subseteq> N"
  shows "yields (\<lambda>ts. list_all valid_tool ts \<and> tool_names ts \<subseteq> N) (offered_tools M a)"
proof -
  have "yields (\<lambda>ts. tool_names ts \<subseteq> N) (await (provide (ta_toolsets a)))"
    using assms(2) by (intro yields_await) (auto simp: yields_def)
  moreover have "yields (\<lambda>ts. list_all valid_tool ts \<and> tool_names ts \<subseteq> N) (ret (if validate_tools_schema ts then ts else []))"
    if "tool_names ts \<subseteq> N" for ts :: "json list"
    using that by (intro yields_ret) (auto simp: validate_tools_schema_def tool_names_def)
  moreover have "yields (\<lambda>ts. list_all valid_tool ts \<and> tool_names ts \<subseteq> N) (ret [])"
    by (intro yields_ret) (simp add: tool_names_def)
  ultimately show ?thesis
    unfolding offered_tools_def assms(1) option.case by (intro yields_catch yields_bind)
qed

lemma request_answer_offered:
  assumes "md_tools M = Some provide"
    and "\<And>w ts w'. provide (ta_toolsets a) w = (Inr ts, w') \<Longrightarrow> tool_names ts \<subseteq> N"
  shows "yields (\<lambda>r. tool_names (fst r) \<subseteq> N) (request_answer M a model)"
  unfolding request_answer_def Let_def
proof (rule yields_bind[OF offered_tools_names[OF assms]], assumption)
  fix ts assume ts: "list_all valid_tool ts \<and> tool_names ts \<subseteq> N"
  then have "tool_names (if provider_of model = ''gemini'' then sanitize_messages_for_gemini ts else ts) \<subseteq> N"
    using gemini_names by auto
  then show "yields (\<lambda>r. tool_names (fst r) \<subseteq> N)
     (bindW (await (\<lambda>w. (Inr (md_prompt M (wnow w)), w))) (\<lambda>prompt.
       if \<not> validate_messages_format
             (prepared_messages (md_settings M) prompt
               (get_reasoning_config (md_settings M) (md_supports_reasoning M) model) model (ta_messages a))
       then raise (Exc ''ValueError'' ''Invalid message format detected'')
       else bindW (emit_event M ''generation.start'' [(''model'', JStr model), (''conversation_id'', or_null (ta_conversation a)),
               (''tools_available'', JInt (int (length
                  (if provider_of model = ''gemini'' then sanitize_messages_for_gemini ts else ts)))),
               (''run_id'', JStr (ta_run a))]) (\<lambda>_.
            bindW (await (md_complete M (completion_kwargs (md_settings M)
               (get_api_key_for_provider (md_config M) (provider_of model))
               (get_reasoning_config (md_settings M) (md_supports_reasoning M) model) model
               (prepared_messages (md_settings M) prompt
                 (get_reasoning_config (md_settings M) (md_supports_reasoning M) model) model (ta_messages a))
               (if provider_of model = ''gemini'' then sanitize_messages_for_gemini ts else ts))))
              (\<lambda>chunks. ret (if provider_of model = ''gemini'' then sanitize_messages_for_gemini ts else ts, chunks)))))"
    by (intro yields_then yields_if yields_ret yields_raise) simp
qed

lemma finish_answer_offered:
  assumes "tool_names tools \<subseteq> N"
  shows "yields (\<lambda>r. offered N (fst (snd r))) (finish_answer M a model tools)"
proof -
  have calls: "yields (offered N) (await (pending_calls M tools ns))" for ns
    by (intro yields_await pending_calls_offered assms)
  show ?thesis
    unfolding finish_answer_def
    by (intro yields_then yields_look yields_bind[OF calls] yields_ret) simp
qed

lemma attempt_offered:
  assumes "md_tools M = Some provide"
    and "\<And>w ts w'. provide (ta_toolsets a) w = (Inr ts, w') \<Longrightarrow> tool_names ts \<subseteq> N"
  shows "yields (\<lambda>r. offered N (fst (snd r))) (attempt_turn M a)"
proof (cases "LLM_MODEL (md_settings M)")
  case None
  then show ?thesis by (auto simp: attempt_turn_def intro!: yields_then yields_raise)
next
  case (Some model)
  have "yields (\<lambda>r. offered N (fst (snd r))) (bindW (request_answer M a model) (\<lambda>(tools, chunks).
          bindW (change (\<lambda>w b. empty_buf (tb_new_ttft b))) (\<lambda>_.
          bindW (stream_or_partial M a chunks) (\<lambda>_. finish_answer M a model tools))))"
    by (rule yields_bind[OF request_answer_offered[OF assms]])
      (auto intro!: yields_then finish_answer_offered)
  then show ?thesis by (simp add: attempt_turn_def Some)
qed

lemma retry_offered:
  assumes "md_tools M = Some provide"
    and "\<And>w ts w'. provide (ta_toolsets a) w = (Inr ts, w') \<Longrightarrow> tool_names ts \<subseteq> N"
  shows "yields (\<lambda>r. offered N (fst (snd r))) (retry_turn M a max_retries left)"
proof (induction left)
  case 0
  show ?case using attempt_offered[OF assms] by simp
next
  case (Suc left)
  show ?case
    unfolding retry_turn.simps
    by (intro yields_catch attempt_offered[OF assms] yields_if yields_then Suc.IH yields_raise)
qed

text \<open>
  A call of the model becomes pending only when the provider of tools offered its tool for
  the toolsets loaded so far, whatever name the model wrote.
\<close>

theorem pending_tools_were_offered:
  assumes "md_tools M = Some provide"
    and "\<And>w ts w'. provide (ta_toolsets a) w = (Inr ts, w') \<Longrightarrow> tool_names ts \<subseteq> N"
    and "run_model_turn M a max_retries w = (Inr (ms, calls, ttft), w')" and "t \<in> set calls"
  shows "JStr (pt_name t) \<in> N"
proof -
  obtain b where "retry_turn M a max_retries max_retries (w, empty_buf False) = (Inr (ms, calls, ttft), (w', b))"
    using assms(3) by (auto simp: run_model_turn_def split: prod.splits)
  moreover have "yields (\<lambda>r. offered N (fst (snd r))) (retry_turn M a max_retries max_retries)"
    by (rule retry_offered[OF assms(1)]) (rule assms(2))
  ultimately have "offered N (fst (snd (ms, calls, ttft)))" unfolding yields_def by blast
  then show ?thesis using assms(4) by (simp add: offered_def)
qed

definition demo_tools :: "json list" where
  "demo_tools = [JDict [(''type'', JStr ''function''),
     (''function'', JDict [(''name'', JStr ''k8s_get''), (''description'', JStr []), (''parameters'', JDict [])])]]"

definition call_chunk :: "string \<Rightarrow> string \<Rightarrow> chunk" where
  "call_chunk i name = \<lparr>ch_usage = None, ch_delta = Some \<lparr>dl_reasoning = [], dl_content = [],
     dl_calls = [\<lparr>cd_index = Some 0, cd_id = i, cd_name = name, cd_arguments = ''{}''\<rparr>]\<rparr>\<rparr>"

text \<open>A provider that answers with a call of an offered tool and one of a tool it made up.\<close>

definition demo_model :: "unit model" where
  "demo_model = \<lparr>md_settings = default_settings, md_prompt = \<lambda>now. ''prompt'', md_callback = True,
     md_should_stop = \<lambda>run. ret False, md_tools = Some (\<lambda>l. ret demo_tools), md_config = \<lambda>name. Inr None,
     md_supports_reasoning = \<lambda>model. Inr False,
     md_complete = \<lambda>d. ret [call_chunk ''a'' ''k8s_get'', call_chunk ''b'' ''rm''], md_await = ret (),
     md_cost = \<lambda>m p c k. Inr (JInt 0), md_sleep = \<lambda>t. ret (), md_uuid = ret ''u'',
     md_loads = \<lambda>s. Inr (JDict [])\<rparr>"

definition demo_turn :: turn_args where
  "demo_turn = \<lparr>ta_messages = demo_conversation, ta_conversation = None, ta_run = ''r'', ta_toolsets = [],
     ta_start = 0, ta_ttft = False\<rparr>"

definition idle_world :: "unit world" where
  "idle_world = \<lparr>wj = [], wnow = 0, wmono = 0, wevents = [], wenv = ()\<rparr>"

definition demo_pending :: "pending_tool list" where
  "demo_pending = [\<lparr>pt_id = ''a'', pt_call_id = ''a'', pt_operation = ''u'', pt_name = ''k8s_get'', pt_args = []\<rparr>]"

lemma demo_run:
  "\<exists>ms w'. run_model_turn demo_model demo_turn 3 idle_world = (Inr (ms, demo_pending, False), w')"
proof -
  have "case run_model_turn demo_model demo_turn 3 idle_world of
      (Inr (ms, c, t), w) \<Rightarrow> c = demo_pending \<and> \<not> t | (Inl e, w) \<Rightarrow> False"
    by code_simp
  then show ?thesis by (auto split: prod.splits sum.splits)
qed

theorem pending_tools_were_offered_witness:
  "\<exists>ms w'. run_model_turn demo_model demo_turn 3 idle_world = (Inr (ms, demo_pending, False), w')
     \<and> demo_pending \<noteq> [] \<and> JStr (pt_name (hd demo_pending)) \<in> tool_names demo_tools"
proof -
  obtain ms w' where r: "run_model_turn demo_model demo_turn 3 idle_world = (Inr (ms, demo_pending, False), w')"
    using demo_run by blast
  have t: "hd demo_pending \<in> set demo_pending" by (simp add: demo_pending_def)
  have "JStr (pt_name (hd demo_pending)) \<in> tool_names demo_tools"
    by (rule pending_tools_were_offered[where M = demo_model and provide = "\<lambda>l. ret demo_tools", OF _ _ r t])
      (simp_all add: demo_model_def)
  moreover have "demo_pending \<noteq> []" by (simp add: demo_pending_def)
  ultimately show ?thesis using r by blast
qed

subsection \<open>How often a request is sent\<close>

text \<open>An operation that raises a counter of the state by at most \<open>n\<close>.\<close>

definition adds :: "('s \<Rightarrow> nat) \<Rightarrow> nat \<Rightarrow> ('s, 'a) st \<Rightarrow> bool" where
  "adds cnt n m \<longleftrightarrow> (\<forall>s. cnt (snd (m s)) \<le> cnt s + n)"

lemma addsD: "adds cnt n m \<Longrightarrow> m s = (r, s') \<Longrightarrow> cnt s' \<le> cnt s + n"
  by (metis adds_def snd_conv)

lemma addsI: "(\<And>s r s'. m s = (r, s') \<Longrightarrow> cnt s' \<le> cnt s + n) \<Longrightarrow> adds cnt n m"
  unfolding adds_def by (metis prod.collapse)

lemma adds_bind:
  assumes "adds cnt i m" and "\<And>a. adds cnt j (f a)" shows "adds cnt (i + j) (bindW m f)"
proof (rule addsI)
  fix s r s' assume "bindW m f s = (r, s')"
  then consider e where "m s = (Inl e, s')" | a t where "m s = (Inr a, t)" "f a t = (r, s')"
    by (auto simp: bindW_eq)
  then show "cnt s' \<le> cnt s + (i + j)"
  proof cases
    case 1
    then show ?thesis using addsD[OF assms(1)] by fastforce
  next
    case (2 a t)
    then show ?thesis using addsD[OF assms(1) 2(1)] addsD[OF assms(2) 2(2)] by simp
  qed
qed

lemma adds_catch:
  assumes "adds cnt i m" and "\<And>e. adds cnt j (h e)" shows "adds cnt (i + j) (catchW m h)"
proof (rule addsI)
  fix s r s' assume c: "catchW m h s = (r, s')"
  obtain q t where q: "m s = (q, t)" by (cases "m s")
  have t: "cnt t \<le> cnt s + i" using addsD[OF assms(1) q] .
  show "cnt s' \<le> cnt s + (i + j)"
  proof (cases "t = s'")
    case True
    then show ?thesis using t by simp
  next
    case False
    then obtain e where "h e t = (r, s')" using c q by (auto simp: catchW_def split: sum.splits if_splits)
    then show ?thesis using addsD[OF assms(2)] t by fastforce
  qed
qed

lemma adds_ret: "adds cnt 0 (ret a)"
  by (simp add: adds_def)

lemma adds_raise: "adds cnt 0 (raise e)"
  by (simp add: adds_def)

lemma adds_lift: "adds cnt 0 (lift m)"
  by (simp add: adds_def)

lemma adds_if: "adds cnt n m \<Longrightarrow> adds cnt n m' \<Longrightarrow> adds cnt n (if b then m else m')"
  by simp

lemmas adds0_bind = adds_bind[where i = 0 and j = 0, simplified]
lemmas adds0_catch = adds_catch[where i = 0 and j = 0, simplified]

text \<open>A counter the environment keeps, seen from a turn.\<close>

abbreviation env_count :: "('e \<Rightarrow> nat) \<Rightarrow> 'e world \<Rightarrow> nat" where
  "env_count cnt w \<equiv> cnt (wenv w)"

abbreviation turn_count :: "('e \<Rightarrow> nat) \<Rightarrow> 'e world \<times> turn_buf \<Rightarrow> nat" where
  "turn_count cnt s \<equiv> cnt (wenv (fst s))"

lemma adds_await: "adds (env_count cnt) n m \<Longrightarrow> adds (turn_count cnt) n (await m)"
  by (rule addsI) (auto simp: await_def split: prod.splits dest: addsD)

lemma adds_look: "(\<And>b. adds (turn_count cnt) n (f b)) \<Longrightarrow> adds (turn_count cnt) n (look f)"
  by (rule addsI) (auto simp: look_def dest: addsD)

lemma adds_change: "adds (turn_count cnt) 0 (change f)"
  by (simp add: adds_def change_def)

lemma adds_publish: "adds (env_count cnt) 0 (publish name p)"
  by (simp add: adds_def publish_def)

lemma adds_publish_at: "adds (env_count cnt) 0 (\<lambda>w. publish (f w) (p w) w)"
  by (simp add: adds_def publish_def)

lemma adds_read: "adds (env_count cnt) 0 (\<lambda>w. (Inr (f w), w))"
  by (simp add: adds_def)

lemmas quiet = adds0_bind adds0_catch adds_ret adds_raise adds_lift adds_if adds_await adds_look adds_change
  adds_publish adds_publish_at adds_read

text \<open>
  What the collaborators do to the counter: a request adds one, everything else nothing.
\<close>

definition counts_requests :: "('e \<Rightarrow> nat) \<Rightarrow> 'e model \<Rightarrow> bool" where
  "counts_requests cnt M \<longleftrightarrow>
     (\<forall>run. adds (env_count cnt) 0 (md_should_stop M run))
     \<and> (\<forall>provide l. md_tools M = Some provide \<longrightarrow> adds (env_count cnt) 0 (provide l))
     \<and> (\<forall>d. adds (env_count cnt) 1 (md_complete M d))
     \<and> adds (env_count cnt) 0 (md_await M) \<and> (\<forall>t. adds (env_count cnt) 0 (md_sleep M t))
     \<and> adds (env_count cnt) 0 (md_uuid M)"

lemma counts_parts:
  assumes "counts_requests cnt M"
  shows "adds (env_count cnt) 0 (md_should_stop M run)"
    and "adds (env_count cnt) (Suc 0) (md_complete M d)"
    and "adds (env_count cnt) 0 (md_await M)" and "adds (env_count cnt) 0 (md_sleep M t)"
    and "adds (env_count cnt) 0 (md_uuid M)"
  using assms by (simp_all add: counts_requests_def)

lemma quiet_emit: "adds (turn_count cnt) 0 (emit_event M type p)"
  unfolding emit_event_def by (intro quiet)

lemma quiet_ttft: "adds (turn_count cnt) 0 (emit_ttft_if_needed M a)"
  unfolding emit_ttft_if_needed_def by (intro quiet)

lemma quiet_chunk:
  assumes "counts_requests cnt M" shows "adds (turn_count cnt) 0 (on_chunk M a c)"
proof -
  have delta: "adds (turn_count cnt) 0 (on_reasoning M a t)" "adds (turn_count cnt) 0 (on_content M a t)"
    "adds (turn_count cnt) 0 (on_calls M a cs)" for t cs
    unfolding on_reasoning_def on_content_def on_calls_def by (intro quiet quiet_emit quiet_ttft)+
  have stop: "adds (turn_count cnt) 0 (stop_in_stream M a)"
    unfolding stop_in_stream_def by (intro quiet counts_parts[OF assms])
  show ?thesis
    unfolding on_chunk_def by (cases "ch_delta c") (auto intro!: quiet stop delta)
qed

lemma quiet_stream:
  assumes "counts_requests cnt M" shows "adds (turn_count cnt) 0 (stream_or_partial M a cs)"
proof -
  have "adds (turn_count cnt) 0 (read_stream M a cs)"
    by (induction cs) (auto intro!: quiet quiet_chunk counts_parts[OF assms] assms)
  then show ?thesis unfolding stream_or_partial_def by (intro quiet)
qed

lemma quiet_fresh: "counts_requests cnt M \<Longrightarrow> adds (env_count cnt) 0 (fresh_call_id (md_uuid M))"
  unfolding fresh_call_id_def by (intro quiet counts_parts)

lemma quiet_display: "counts_requests cnt M \<Longrightarrow> adds (env_count cnt) 0 (make_display_call_id (md_uuid M) raw)"
  unfolding make_display_call_id_def Let_def by (intro quiet quiet_fresh)

lemma quiet_names:
  assumes "counts_requests cnt M" shows "adds (env_count cnt) 0 (name_calls M ss)"
  by (induction ss) (auto simp: name_call_def intro!: quiet quiet_fresh quiet_display assms)

lemma quiet_pending:
  assumes "counts_requests cnt M" shows "adds (env_count cnt) 0 (pending_calls M tools ns)"
proof -
  have "adds (env_count cnt) 0 (pending_call M tools n)" for n
    unfolding pending_call_def Let_def
    by (intro quiet quiet_fresh quiet_display counts_parts[OF assms] assms)
  then show ?thesis by (induction ns) (auto intro!: quiet)
qed

lemma quiet_finish:
  assumes "counts_requests cnt M" shows "adds (turn_count cnt) 0 (finish_answer M a model tools)"
proof -
  have "adds (turn_count cnt) 0 (emit_usage M a model)"
    unfolding emit_usage_def
  proof (rule adds_look)
    fix b :: turn_buf
    show "adds (turn_count cnt) 0 (case tb_usage b of None \<Rightarrow> ret () | Some u \<Rightarrow>
         if md_callback M then
           await (\<lambda>w. publish ''token.usage''
             [(''source'', JStr ''main''), (''model'', JStr model), (''prompt_tokens'', JInt (us_prompt u)),
              (''completion_tokens'', JInt (us_completion u)), (''total_tokens'', JInt (us_total u)),
              (''cached_tokens'', case us_cached u of None \<Rightarrow> JNull | Some n \<Rightarrow> JInt n),
              (''cost'', case md_cost M model (us_prompt u) (us_completion u)
                  (case us_cached u of None \<Rightarrow> 0 | Some n \<Rightarrow> n) of Inl e \<Rightarrow> JInt 0 | Inr v \<Rightarrow> v),
              (''conversation_id'', or_null (ta_conversation a)), (''timestamp'', JInt (wnow w div 1000)),
              (''run_id'', JStr (ta_run a))] w)
         else ret ())"
      by (cases "tb_usage b") (auto intro!: quiet)
  qed
  moreover have "adds (turn_count cnt) 0 (emit_thinking_complete M a)"
    unfolding emit_thinking_complete_def by (intro quiet)
  ultimately show ?thesis
    unfolding finish_answer_def emit_generation_complete_def
    by (intro quiet quiet_names quiet_pending quiet_emit assms)
qed

lemma offered_tools_quiet:
  assumes "counts_requests cnt M" shows "adds (turn_count cnt) 0 (offered_tools M a)"
proof (cases "md_tools M")
  case None
  then show ?thesis by (simp add: offered_tools_def adds_ret)
next
  case (Some provide)
  then have "adds (env_count cnt) 0 (provide (ta_toolsets a))" using assms by (simp add: counts_requests_def)
  then show ?thesis unfolding offered_tools_def Some option.case by (intro quiet)
qed

lemma request_adds_one:
  assumes "counts_requests cnt M" shows "adds (turn_count cnt) (Suc 0) (request_answer M a model)"
proof -
  have first: "adds cnt' (0 + Suc 0) (bindW m f)"
    if "adds cnt' 0 m" "\<And>x. adds cnt' (Suc 0) (f x)" for cnt' :: "('s \<Rightarrow> nat)" and m :: "('s, 'b) st" and f :: "'b \<Rightarrow> ('s, 'c) st"
    by (rule adds_bind[OF that])
  have lst: "adds cnt' (Suc 0 + 0) (bindW m f)"
    if "adds cnt' (Suc 0) m" "\<And>x. adds cnt' 0 (f x)" for cnt' :: "('s \<Rightarrow> nat)" and m :: "('s, 'b) st" and f :: "'b \<Rightarrow> ('s, 'c) st"
    by (rule adds_bind[OF that])
  have fail: "adds cnt' (Suc 0) (raise e)" for cnt' :: "('s \<Rightarrow> nat)" and e by (simp add: adds_def)
  show ?thesis
    unfolding request_answer_def Let_def
    by (intro first[simplified] offered_tools_quiet[OF assms] adds_await adds_read adds_if fail quiet_emit
        lst[simplified] counts_parts[OF assms] adds_ret)
qed

lemma attempt_adds_one:
  assumes "counts_requests cnt M" shows "adds (turn_count cnt) (Suc 0) (attempt_turn M a)"
proof (cases "LLM_MODEL (md_settings M)")
  case None
  have "adds (turn_count cnt) 0 (attempt_turn M a)"
    by (simp add: attempt_turn_def None) (intro quiet offered_tools_quiet[OF assms])
  then show ?thesis by (auto simp: adds_def intro: le_SucI)
next
  case (Some model)
  have "adds (turn_count cnt) (Suc 0 + 0) (bindW (request_answer M a model) (\<lambda>(tools, chunks).
          bindW (change (\<lambda>w b. empty_buf (tb_new_ttft b))) (\<lambda>_.
          bindW (stream_or_partial M a chunks) (\<lambda>_. finish_answer M a model tools))))"
    by (rule adds_bind[OF request_adds_one[OF assms]])
      (auto intro!: quiet quiet_stream quiet_finish assms)
  then show ?thesis by (simp add: attempt_turn_def Some)
qed

lemma retry_adds:
  assumes "counts_requests cnt M" shows "adds (turn_count cnt) (Suc left) (retry_turn M a max_retries left)"
proof (induction left)
  case 0
  show ?case using attempt_adds_one[OF assms] by simp
next
  case (Suc left)
  have retry: "adds (turn_count cnt) (Suc left) (if may_retry e then
         bindW (announce_retry M e (max_retries - left) max_retries) (\<lambda>_.
         bindW (await (md_sleep M (1000000 * retry_wait e (max_retries - left)))) (\<lambda>_.
         retry_turn M a max_retries left)) else raise e)" for e
  proof -
    have "adds (turn_count cnt) (0 + (0 + Suc left)) (bindW (announce_retry M e (max_retries - left) max_retries) (\<lambda>_.
         bindW (await (md_sleep M (1000000 * retry_wait e (max_retries - left)))) (\<lambda>_.
         retry_turn M a max_retries left)))"
      unfolding announce_retry_def
      by (intro adds_bind adds_if quiet_emit adds_await counts_parts[OF assms] Suc.IH)
    then show ?thesis by (auto simp: adds_def)
  qed
  show ?case
    unfolding retry_turn.simps using adds_catch[OF attempt_adds_one[OF assms] retry, of a] by simp
qed

text \<open>
  A turn sends at most \<open>max_retries + 1\<close> requests to the provider, however the requests and the
  streams fail.
\<close>

theorem model_requests_bounded:
  assumes "counts_requests cnt M"
  shows "cnt (wenv (snd (run_model_turn M a max_retries w))) \<le> cnt (wenv w) + max_retries + 1"
proof -
  obtain r w' b where "retry_turn M a max_retries max_retries (w, empty_buf False) = (r, (w', b))"
    by (metis prod.collapse)
  then show ?thesis
    using addsD[OF retry_adds[OF assms]] by (fastforce simp: run_model_turn_def)
qed

text \<open>A provider that is always busy and counts the requests.\<close>

definition busy_model :: "nat model" where
  "busy_model = \<lparr>md_settings = default_settings, md_prompt = \<lambda>now. ''prompt'', md_callback = False,
     md_should_stop = \<lambda>run. ret False, md_tools = None, md_config = \<lambda>name. Inr None,
     md_supports_reasoning = \<lambda>model. Inr False,
     md_complete = \<lambda>d w. (Inl (Exc ''RateLimitError'' ''busy''), w\<lparr>wenv := Suc (wenv w)\<rparr>), md_await = ret (),
     md_cost = \<lambda>m p c k. Inr (JInt 0), md_sleep = \<lambda>t w. (Inr (), w\<lparr>wnow := wnow w + t\<rparr>), md_uuid = ret ''u'',
     md_loads = \<lambda>s. Inr (JDict [])\<rparr>"

theorem model_requests_bounded_witness:
  "wenv (snd (run_model_turn busy_model demo_turn 3 \<lparr>wj = [], wnow = 0, wmono = 0, wevents = [], wenv = (0::nat)\<rparr>)) \<le> 4
   \<and> wenv (snd (run_model_turn busy_model demo_turn 3 \<lparr>wj = [], wnow = 0, wmono = 0, wevents = [], wenv = (0::nat)\<rparr>)) = 4"
proof
  have "counts_requests id busy_model" by (simp add: counts_requests_def busy_model_def adds_def)
  from model_requests_bounded[OF this, of demo_turn 3 "\<lparr>wj = [], wnow = 0, wmono = 0, wevents = [], wenv = (0::nat)\<rparr>"]
  show "wenv (snd (run_model_turn busy_model demo_turn 3 \<lparr>wj = [], wnow = 0, wmono = 0, wevents = [], wenv = (0::nat)\<rparr>)) \<le> 4"
    by simp
qed code_simp

end
