(* ===== verification/JsonText.thy ===== *)
theory JsonText
  imports MutationUtils
begin

text \<open>
  Reading canonical JSON back. The reader is the specification against which
  \<open>canonical_json\<close> is judged: what it writes determines the value, up to the order of the keys
  of a dictionary, so two intents with the same text have the same content.
\<close>

subsection \<open>A reader for the canonical form\<close>

definition hex_value :: "char \<Rightarrow> nat" where
  "hex_value c = (case map_of (zip ''0123456789abcdef'' [0..<16]) c of None \<Rightarrow> 0 | Some n \<Rightarrow> n)"

definition escapes :: "(char \<times> char) list" where
  "escapes = [(CHR 0x22, CHR 0x22), (CHR 0x5C, CHR 0x5C), (CHR ''n'', CHR 0x0A), (CHR ''r'', CHR 0x0D),
     (CHR ''t'', CHR 0x09), (CHR ''b'', CHR 0x08), (CHR ''f'', CHR 0x0C)]"

definition read_char :: "string \<Rightarrow> (char \<times> string) option" where
  "read_char s =
     (case s of
        [] \<Rightarrow> None
      | c # cs \<Rightarrow>
          if c \<noteq> CHR 0x5C then Some (c, cs)
          else (case cs of
              [] \<Rightarrow> None
            | e # r \<Rightarrow>
                if e = CHR ''u''
                then (if length r < 4 then None
                      else Some (char_of (16 * hex_value (r ! 2) + hex_value (r ! 3)), drop 4 r))
                else map_option (\<lambda>x. (x, r)) (map_of escapes e)))"

lemma read_char_shorter: "read_char s = Some (c, r) \<Longrightarrow> length r < length s"
  by (auto simp: read_char_def split: list.splits if_splits)

function read_chars :: "string \<Rightarrow> (string \<times> string) option" where
  "read_chars s =
     (case s of
        [] \<Rightarrow> None
      | q # cs \<Rightarrow>
          if q = CHR 0x22 then Some ([], cs)
          else (case read_char s of
              None \<Rightarrow> None
            | Some (c, r) \<Rightarrow> map_option (\<lambda>(t, r'). (c # t, r')) (read_chars r)))"
  by pat_completeness auto
termination by (relation "measure length") (auto dest: read_char_shorter)

declare read_chars.simps [simp del]

definition digits_value :: "string \<Rightarrow> nat" where
  "digits_value ds = foldl (\<lambda>n c. 10 * n + digit_val c) 0 ds"

definition read_number :: "string \<Rightarrow> (json \<times> string) option" where
  "read_number s =
     (case s of
        [] \<Rightarrow> None
      | c # cs \<Rightarrow>
          if c = CHR ''-'' then Some (JInt (- int (digits_value (takeWhile is_digit cs))), dropWhile is_digit cs)
          else if is_digit c then Some (JInt (int (digits_value (takeWhile is_digit s))), dropWhile is_digit s)
          else None)"

text \<open>The fuel bounds the nesting and the number of elements; the length of the text is enough.\<close>

fun read_value :: "nat \<Rightarrow> string \<Rightarrow> (json \<times> string) option"
  and read_items :: "nat \<Rightarrow> string \<Rightarrow> (json list \<times> string) option"
  and read_members :: "nat \<Rightarrow> string \<Rightarrow> (dict \<times> string) option" where
  "read_value 0 s = None"
| "read_value (Suc n) s =
     (case s of
        [] \<Rightarrow> None
      | c # cs \<Rightarrow>
          if c = CHR 0x22 then map_option (\<lambda>(t, r). (JStr t, r)) (read_chars cs)
          else if c = CHR ''['' then
            (if starts_with cs '']'' then Some (JList [], drop 1 cs)
             else map_option (\<lambda>(xs, r). (JList xs, r)) (read_items n cs))
          else if c = CHR ''{'' then
            (if starts_with cs ''}'' then Some (JDict [], drop 1 cs)
             else map_option (\<lambda>(d, r). (JDict d, r)) (read_members n cs))
          else if c = CHR ''n'' then Some (JNull, drop 4 s)
          else if c = CHR ''t'' then Some (JBool True, drop 4 s)
          else if c = CHR ''f'' then Some (JBool False, drop 5 s)
          else read_number s)"
| "read_items 0 s = None"
| "read_items (Suc n) s =
     (case read_value n s of
        Some (v, c # r) \<Rightarrow>
          if c = CHR '']'' then Some ([v], r)
          else if c = CHR '','' then map_option (\<lambda>(vs, r'). (v # vs, r')) (read_items n r) else None
      | _ \<Rightarrow> None)"
| "read_members 0 s = None"
| "read_members (Suc n) s =
     (case s of
        [] \<Rightarrow> None
      | q # cs \<Rightarrow>
          (case read_chars cs of
             Some (k, col # r) \<Rightarrow>
               (case read_value n r of
                  Some (v, c # r') \<Rightarrow>
                    if c = CHR ''}'' then Some ([(k, v)], r')
                    else if c = CHR '','' then map_option (\<lambda>(d, r''). ((k, v) # d, r'')) (read_members n r') else None
                | _ \<Rightarrow> None)
           | _ \<Rightarrow> None))"

definition read_json :: "string \<Rightarrow> json option" where
  "read_json s = (case read_value (Suc (length s)) s of Some (v, []) \<Rightarrow> Some v | _ \<Rightarrow> None)"

text \<open>What is read back: the value with the keys of its dictionaries in order.\<close>

fun sorted_json :: "json \<Rightarrow> json" where
  "sorted_json (JList xs) = JList (map sorted_json xs)"
| "sorted_json (JDict d) = JDict (map (\<lambda>p. (fst p, sorted_json (snd p))) (sort_key fst d))"
| "sorted_json v = v"

subsection \<open>Strings\<close>

lemma hex_value_digit: "n < 16 \<Longrightarrow> hex_value (hex_digit n) = n"
proof -
  have "list_all (\<lambda>n. hex_value (hex_digit n) = n) [0..<16]" by code_simp
  then show "n < 16 \<Longrightarrow> hex_value (hex_digit n) = n" by (auto simp: list_all_iff)
qed

lemma read_char_json: "read_char (json_char c @ r) = Some (c, r)"
proof -
  let ?n = "of_char c :: nat"
  have "?n < 256" by (rule nat_of_char_less_256)
  then have dig: "?n div 16 < 16" "?n mod 16 < 16" by (simp_all add: less_mult_imp_div_less)
  have "char_of (16 * (?n div 16) + ?n mod 16) = c" by (metis char_of_char mult_div_mod_eq)
  then show ?thesis
    using dig by (auto simp: json_char_def Let_def read_char_def escapes_def hex_value_digit)
qed

lemma json_char_head: "\<exists>h t. json_char c = h # t \<and> h \<noteq> CHR 0x22"
  by (auto simp: json_char_def Let_def)

lemma read_chars_json: "read_chars (concat (map json_char s) @ CHR 0x22 # r) = Some (s, r)"
proof (induction s)
  case Nil
  show ?case by (simp add: read_chars.simps[of "CHR 0x22 # r"])
next
  case (Cons c s)
  let ?rest = "concat (map json_char s) @ CHR 0x22 # r"
  obtain h t where h: "json_char c = h # t" "h \<noteq> CHR 0x22" using json_char_head by blast
  have "read_chars (json_char c @ ?rest) = (case read_char (json_char c @ ?rest) of
      None \<Rightarrow> None | Some (x, q) \<Rightarrow> map_option (\<lambda>(t, r'). (x # t, r')) (read_chars q))"
    using h by (subst read_chars.simps) simp
  then show ?case using Cons.IH by (simp add: read_char_json)
qed

subsection \<open>Numbers\<close>

lemma digit_facts: "k < 10 \<Longrightarrow> is_digit (digit_chars ! k) \<and> digit_val (digit_chars ! k) = k"
proof -
  have "list_all (\<lambda>k. is_digit (digit_chars ! k) \<and> digit_val (digit_chars ! k) = k) [0..<10]" by code_simp
  then show "k < 10 \<Longrightarrow> is_digit (digit_chars ! k) \<and> digit_val (digit_chars ! k) = k" by (auto simp: list_all_iff)
qed

lemma nat_str_digits: "nat_str n \<noteq> [] \<and> list_all is_digit (nat_str n) \<and> digits_value (nat_str n) = n"
proof (induction n rule: nat_str.induct)
  case (1 n)
  show ?case
  proof (cases "n < 10")
    case True
    then show ?thesis using digit_facts by (simp add: nat_str.simps[of n] digits_value_def)
  next
    case False
    then show ?thesis
      using "1.IH" digit_facts[of "n mod 10"] by (simp add: nat_str.simps[of n] digits_value_def)
  qed
qed

lemma digits_then:
  assumes "r = [] \<or> \<not> is_digit (hd r)"
  shows "takeWhile is_digit (nat_str n @ r) = nat_str n" "dropWhile is_digit (nat_str n @ r) = r"
proof -
  have all: "\<forall>x \<in> set (nat_str n). is_digit x" using nat_str_digits[of n] by (simp add: list_all_iff)
  then show "takeWhile is_digit (nat_str n @ r) = nat_str n" using assms by (cases r) simp_all
  show "dropWhile is_digit (nat_str n @ r) = r" using all assms by (cases r) (simp_all add: dropWhile_append2)
qed

lemma read_number_int:
  assumes "r = [] \<or> \<not> is_digit (hd r)"
  shows "read_number (int_str i @ r) = Some (JInt i, r)"
proof (cases "i < 0")
  case True
  then show ?thesis
    using digits_then[OF assms] nat_str_digits[of "nat (- i)"]
    by (simp add: read_number_def int_str_def)
next
  case False
  obtain c cs where c: "nat_str (nat i) = c # cs" "is_digit c"
    using nat_str_digits[of "nat i"] by (cases "nat_str (nat i)") auto
  then have "c \<noteq> CHR ''-''" by (auto simp: is_digit_def)
  moreover have "read_number (nat_str (nat i) @ r)
      = (if c = CHR ''-'' then Some (JInt (- int (digits_value (takeWhile is_digit (cs @ r)))), dropWhile is_digit (cs @ r))
         else Some (JInt (int (digits_value (takeWhile is_digit (nat_str (nat i) @ r)))),
                dropWhile is_digit (nat_str (nat i) @ r)))"
    using c by (simp add: read_number_def)
  ultimately show ?thesis
    using False digits_then[OF assms] nat_str_digits[of "nat i"] by (simp add: int_str_def)
qed

subsection \<open>Values\<close>

definition ends_number :: "string \<Rightarrow> bool" where
  "ends_number r \<longleftrightarrow> r = [] \<or> \<not> is_digit (hd r)"

lemma int_str_head: "\<exists>h t. int_str i = h # t \<and> (h = CHR ''-'' \<or> is_digit h)"
proof (cases "i < 0")
  case False
  then show ?thesis using nat_str_digits[of "nat i"] by (cases "nat_str (nat i)") (auto simp: int_str_def)
qed (simp add: int_str_def)

lemma canonical_head: "\<exists>h t. canonical_json v = h # t \<and> h \<noteq> CHR '']'' \<and> h \<noteq> CHR ''}''"
proof (cases v)
  case (JInt i)
  then show ?thesis using int_str_head[of i] by (auto simp: is_digit_def)
next
  case (JBool b)
  then show ?thesis by (cases b) simp_all
qed (simp_all add: json_str_def)

lemma number_head:
  assumes "h = CHR ''-'' \<or> is_digit h"
  shows "read_value (Suc n) (h # t) = read_number (h # t)"
  using assms by (auto simp: is_digit_def)

definition reads_back :: "json \<Rightarrow> bool" where
  "reads_back v \<longleftrightarrow> (\<forall>n r. length (canonical_json v) \<le> n \<longrightarrow> ends_number r \<longrightarrow>
     read_value n (canonical_json v @ r) = Some (sorted_json v, r))"

lemma reads_backD:
  "reads_back v \<Longrightarrow> length (canonical_json v) \<le> n \<Longrightarrow> ends_number r \<Longrightarrow>
     read_value n (canonical_json v @ r) = Some (sorted_json v, r)"
  by (simp add: reads_back_def)

lemma read_items_back:
  assumes "\<And>x. x \<in> set xs \<Longrightarrow> reads_back x" and "xs \<noteq> []"
    and "length (join_str '','' (map canonical_json xs)) < n"
  shows "read_items n (join_str '','' (map canonical_json xs) @ CHR '']'' # r) = Some (map sorted_json xs, r)"
  using assms
proof (induction xs arbitrary: n)
  case (Cons x xs)
  obtain m where n: "n = Suc m" using Cons.prems(3) by (cases n) auto
  have x: "reads_back x" using Cons.prems(1) by simp
  show ?case
  proof (cases xs)
    case Nil
    have "read_value m (canonical_json x @ CHR '']'' # r) = Some (sorted_json x, CHR '']'' # r)"
      using Cons.prems(3) Nil n by (intro reads_backD[OF x]) (simp_all add: ends_number_def is_digit_def)
    then show ?thesis by (simp add: n Nil)
  next
    case (Cons y ys)
    let ?rest = "join_str '','' (map canonical_json xs) @ CHR '']'' # r"
    have len: "length (canonical_json x) + length (join_str '','' (map canonical_json xs)) < m"
      using Cons.prems(3) Cons n by simp
    have "read_value m (canonical_json x @ CHR '','' # ?rest) = Some (sorted_json x, CHR '','' # ?rest)"
      using len by (intro reads_backD[OF x]) (simp_all add: ends_number_def is_digit_def)
    moreover have "read_items m ?rest = Some (map sorted_json xs, r)"
      using Cons.IH[of m] Cons.prems(1) Cons len by simp
    ultimately show ?thesis by (simp add: n Cons)
  qed
qed simp

definition member_text :: "string \<times> json \<Rightarrow> string" where
  "member_text p = json_str (fst p) @ '':'' @ canonical_json (snd p)"

lemma read_members_back:
  assumes "\<And>p. p \<in> set d \<Longrightarrow> reads_back (snd p)" and "d \<noteq> []"
    and "length (join_str '','' (map member_text d)) < n"
  shows "read_members n (join_str '','' (map member_text d) @ CHR ''}'' # r)
    = Some (map (\<lambda>p. (fst p, sorted_json (snd p))) d, r)"
  using assms
proof (induction d arbitrary: n)
  case (Cons p d)
  obtain m where n: "n = Suc m" using Cons.prems(3) by (cases n) auto
  have v: "reads_back (snd p)" using Cons.prems(1) by simp
  have key: "read_chars (concat (map json_char (fst p)) @ CHR 0x22 # q) = Some (fst p, q)" for q
    by (rule read_chars_json)
  show ?case
  proof (cases d)
    case Nil
    have "length (canonical_json (snd p)) \<le> m"
      using Cons.prems(3) Nil n by (simp add: member_text_def json_str_def)
    then have "read_value m (canonical_json (snd p) @ CHR ''}'' # r) = Some (sorted_json (snd p), CHR ''}'' # r)"
      by (intro reads_backD[OF v]) (simp_all add: ends_number_def is_digit_def)
    then show ?thesis by (simp add: n Nil member_text_def json_str_def key)
  next
    case (Cons q ys)
    let ?rest = "join_str '','' (map member_text d) @ CHR ''}'' # r"
    have len: "length (canonical_json (snd p)) + length (join_str '','' (map member_text d)) < m"
    proof -
      have "length (member_text p) + length (join_str '','' (map member_text d)) < m"
        using Cons.prems(3) Cons n by simp
      moreover have "length (canonical_json (snd p)) \<le> length (member_text p)" by (simp add: member_text_def)
      ultimately show ?thesis by linarith
    qed
    have "read_value m (canonical_json (snd p) @ CHR '','' # ?rest) = Some (sorted_json (snd p), CHR '','' # ?rest)"
      using len by (intro reads_backD[OF v]) (simp_all add: ends_number_def is_digit_def)
    moreover have "read_members m ?rest = Some (map (\<lambda>p. (fst p, sorted_json (snd p))) d, r)"
      using Cons.IH[of m] Cons.prems(1) Cons len by simp
    moreover have "member_text p @ z
        = CHR 0x22 # concat (map json_char (fst p)) @ CHR 0x22 # CHR '':'' # canonical_json (snd p) @ z" for z
      by (simp add: member_text_def json_str_def)
    ultimately show ?thesis by (simp add: n Cons key)
  qed
qed simp

lemma join_head:
  assumes "xs \<noteq> []" and "hd xs = h # t"
  shows "\<exists>t'. join_str sep xs = h # t'"
  using assms by (induction sep xs rule: join_str.induct) auto

lemma canonical_reads_back: "reads_back v"
proof (induction v rule: canonical_json.induct)
  case 1
  show ?case by (auto simp: reads_back_def gr0_conv_Suc Suc_le_eq[symmetric] dest!: Suc_le_D)
next
  case (2 b)
  show ?case by (cases b) (auto simp: reads_back_def dest!: Suc_le_D)
next
  case (3 i)
  obtain h t where h: "int_str i = h # t" "h = CHR ''-'' \<or> is_digit h" using int_str_head by blast
  show ?case
    unfolding reads_back_def
  proof (intro allI impI)
    fix n r assume n: "length (canonical_json (JInt i)) \<le> n" and r: "ends_number r"
    obtain m where m: "n = Suc m" using n h(1) by (cases n) auto
    have "read_value n (int_str i @ r) = read_number (int_str i @ r)"
      unfolding m h(1) append_Cons by (rule number_head[OF h(2)])
    then show "read_value n (canonical_json (JInt i) @ r) = Some (sorted_json (JInt i), r)"
      using read_number_int r by (simp add: ends_number_def)
  qed
next
  case (4 s)
  show ?case by (auto simp: reads_back_def json_str_def read_chars_json dest!: Suc_le_D)
next
  case (5 xs)
  show ?case
    unfolding reads_back_def
  proof (intro allI impI)
    fix n r assume n: "length (canonical_json (JList xs)) \<le> n" and r: "ends_number r"
    obtain m where m: "n = Suc m" using n by (cases n) auto
    show "read_value n (canonical_json (JList xs) @ r) = Some (sorted_json (JList xs), r)"
    proof (cases "xs = []")
      case False
      obtain h t where h: "canonical_json (hd xs) = h # t" "h \<noteq> CHR '']''" using canonical_head by blast
      then obtain t' where t': "join_str '','' (map canonical_json xs) = h # t'"
        using join_head[of "map canonical_json xs" h t "'',''"] False by (auto simp: hd_map)
      have "read_items m (join_str '','' (map canonical_json xs) @ CHR '']'' # r) = Some (map sorted_json xs, r)"
        using n m False "5.IH" by (intro read_items_back) auto
      then show ?thesis using h(2) t' by (simp add: m)
    qed (simp add: m)
  qed
next
  case (6 d)
  let ?d = "sort_key fst d"
  have form: "canonical_json (JDict d) = CHR ''{'' # join_str '','' (map member_text ?d) @ ''}''"
    by (simp add: member_text_def[abs_def])
  show ?case
    unfolding reads_back_def
  proof (intro allI impI)
    fix n r assume n: "length (canonical_json (JDict d)) \<le> n" and r: "ends_number r"
    obtain m where m: "n = Suc m" using n by (cases n) auto
    show "read_value n (canonical_json (JDict d) @ r) = Some (sorted_json (JDict d), r)"
    proof (cases "d = []")
      case False
      then have ne: "?d \<noteq> []" by simp
      then obtain t' where t': "join_str '','' (map member_text ?d) = CHR 0x22 # t'"
        using join_head[of "map member_text ?d" "CHR 0x22"] by (auto simp: hd_map member_text_def json_str_def)
      have "length (join_str '','' (map member_text ?d)) < m" using n unfolding form m by simp
      then have "read_members m (join_str '','' (map member_text ?d) @ CHR ''}'' # r)
          = Some (map (\<lambda>p. (fst p, sorted_json (snd p))) ?d, r)"
        using ne "6.IH" by (intro read_members_back) auto
      then show ?thesis unfolding form m using t' by simp
    qed (simp add: m)
  qed
qed

lemma read_canonical: "read_json (canonical_json v) = Some (sorted_json v)"
  using reads_backD[OF canonical_reads_back, of v "Suc (length (canonical_json v))" "[]"]
  by (simp add: read_json_def ends_number_def del: read_value.simps)

text \<open>
  C40: The text that is fingerprinted determines the values that went into it: splitting it at the
  separator and reading the parts gives every value back, up to the order of dictionary keys. Two
  intents with one fingerprint differ only if the digest collides.
\<close>

theorem fingerprint_payload_reads_back:
  assumes "values \<noteq> []"
  shows "map read_json (split_char (CHR 0x1F) (fingerprint_payload values)) = map (\<lambda>v. Some (sorted_json v)) values"
  by (simp add: fingerprint_payload_split[OF assms] read_canonical)

theorem fingerprint_payload_reads_back_witness:
  "map read_json (split_char (CHR 0x1F) (fingerprint_payload [JDict [(''b'', JInt (- 12)), (''a'', JStr ''x'')], JNull]))
     = [Some (JDict [(''a'', JStr ''x''), (''b'', JInt (- 12))]), Some JNull]"
proof -
  have "map read_json (split_char (CHR 0x1F) (fingerprint_payload [JDict [(''b'', JInt (- 12)), (''a'', JStr ''x'')], JNull]))
     = map (\<lambda>v. Some (sorted_json v)) [JDict [(''b'', JInt (- 12)), (''a'', JStr ''x'')], JNull]"
    by (rule fingerprint_payload_reads_back) simp
  also have "\<dots> = [Some (JDict [(''a'', JStr ''x''), (''b'', JInt (- 12))]), Some JNull]" by code_simp
  finally show ?thesis .
qed

end
