(* ===== verification/ChatHistory.thy ===== *)
theory ChatHistory
  imports AgentGraph Messages
begin

text \<open>
  The pure part of \<open>services/conversation_persistence.py\<close>: the chat history a conversation keeps
  as JSON, the overlay of the mutation journal on it, the cancellation of its active tools, and
  the messages for the model rebuilt from it. Messages and their segments are dictionaries, as
  the types of the service say; any other value where one of them is read is an error.
\<close>

subsection \<open>Reading\<close>

definition as_dict :: "json \<Rightarrow> dict py" where
  "as_dict v = (case v of JDict d \<Rightarrow> Inr d | _ \<Rightarrow> Inl (attr_error v ''get''))"

definition segments_of :: "dict \<Rightarrow> dict list py" where
  "segments_of m = bindE (py_iter (dget_def m ''segments'' (JList []))) (each_py as_dict)"

text \<open>\<open>m.get("segments", []) or []\<close>\<close>

definition segments_or_empty :: "dict \<Rightarrow> dict list py" where
  "segments_or_empty m =
     (if truthy (dget_def m ''segments'' (JList [])) then segments_of m else Inr [])"

definition of_type :: "string \<Rightarrow> dict \<Rightarrow> bool" where
  "of_type t m \<longleftrightarrow> dget m ''type'' = JStr t"

definition of_kind :: "string \<Rightarrow> dict \<Rightarrow> bool" where
  "of_kind k s \<longleftrightarrow> dget s ''kind'' = JStr k"

definition execution_of :: "dict \<Rightarrow> dict py" where
  "execution_of s = as_dict (dget_def s ''toolExecution'' (JDict []))"

fun last_where :: "('a \<Rightarrow> bool) \<Rightarrow> 'a list \<Rightarrow> nat option" where
  "last_where P [] = None"
| "last_where P (x # xs) =
     (case last_where P xs of Some i \<Rightarrow> Some (Suc i) | None \<Rightarrow> if P x then Some 0 else None)"

fun first_where :: "('a \<Rightarrow> bool) \<Rightarrow> 'a list \<Rightarrow> nat option" where
  "first_where P [] = None"
| "first_where P (x # xs) = (if P x then Some 0 else map_option Suc (first_where P xs))"

subsection \<open>The journal over the history\<close>

definition SAFE_VERIFICATION_REASONS :: "string list" where
  "SAFE_VERIFICATION_REASONS = [''helm_manifest_invalid'', ''helm_manifest_unavailable'', ''helm_status_error'',
     ''invalid_helm_status_json'', ''operation_not_found'', ''partial_commit_detected'', ''verification_adapter_error'',
     ''verification_adapter_not_supported'', ''verification_already_in_progress'', ''verification_budget_exhausted'',
     ''verification_cancelled'', ''verification_lease_expired'', ''verification_timeout'']"

definition put :: "string \<Rightarrow> json \<Rightarrow> dict \<Rightarrow> dict" where
  "put k v d = AList.update k v d"

text \<open>The status of the tool as the journal has it.\<close>

definition project_status :: "mutation_operation \<Rightarrow> dict \<Rightarrow> dict" where
  "project_status op e =
     (if verification_status op = PASSED then
        put ''result'' (JList [text_block ''Mutation completed and verification passed.''])
          (AList.delete ''error'' (put ''status'' (JStr ''completed'') e))
      else if verification_status op = NEEDS_REVIEW then
        put ''error'' (JStr ''Automatic verification reached its bounded limit. Manual review is required.'')
          (put ''status'' (JStr ''error'') e)
      else if verification_status op = FAILED then
        put ''error'' (JStr ''Mutation postcondition verification failed.'') (put ''status'' (JStr ''error'') e)
      else if execution_status op = CANCELLED then put ''status'' (JStr ''cancelled'') e
      else if execution_status op = EXEC_FAILED then
        put ''error'' (JStr ''Mutation execution failed before an external request started.'')
          (put ''status'' (JStr ''error'') e)
      else if execution_status op \<in> {EXECUTING, REPORTED_SUCCESS, UNKNOWN} then
        put ''result'' (JList [text_block
            ''Mutation outcome is being reconciled from authoritative infrastructure state.''])
          (put ''status'' (JStr ''executing'') e)
      else e)"

definition project_reason :: "json \<Rightarrow> dict \<Rightarrow> dict" where
  "project_reason why e =
     (case why of
        JStr r \<Rightarrow> if r \<in> set SAFE_VERIFICATION_REASONS then put ''verification_reason'' why e
                  else AList.delete ''verification_reason'' e
      | _ \<Rightarrow> AList.delete ''verification_reason'' e)"

definition project_execution :: "mutation_operation \<Rightarrow> dict \<Rightarrow> dict" where
  "project_execution op e =
     (let result = (case verification_result op of JDict d \<Rightarrow> d | _ \<Rightarrow> []);
          why = dget result ''reason'';
          e1 = put ''verification_status'' (JStr (ver_value (verification_status op)))
                 (put ''execution_status'' (JStr (exec_value (execution_status op)))
                   (put ''operation_id'' (JStr (op_id op)) e));
          e2 = put ''partial_commit_detected''
                 (JBool (truthy (dget result ''partial_commit_detected'') \<or> why = JStr ''partial_commit_detected''))
                 (project_reason why e1);
          e3 = put ''requires_verification''
                 (JBool (verification_status op \<in> {PENDING, VERIFYING, INCONCLUSIVE})) e2
      in project_status op e3)"

text \<open>Of several operations with one call identifier the last one counts.\<close>

definition operation_of_call :: "mutation_operation list \<Rightarrow> string \<Rightarrow> mutation_operation option" where
  "operation_of_call ops call =
     find (\<lambda>op. op_call_id op \<noteq> [] \<and> op_call_id op = call) (rev ops)"

definition project_segment :: "mutation_operation list \<Rightarrow> json \<Rightarrow> json" where
  "project_segment ops seg =
     (case seg of
        JDict s \<Rightarrow>
          (if \<not> of_kind ''tool'' s then seg
           else (case dget s ''toolExecution'' of
               JDict e \<Rightarrow>
                 (case operation_of_call ops
                     (py_str (por (dget e ''call_id'') (por (dget s ''id'') (JStr [])))) of
                    None \<Rightarrow> seg
                  | Some op \<Rightarrow> JDict (put ''toolExecution'' (JDict (project_execution op e)) s))
             | _ \<Rightarrow> seg))
      | _ \<Rightarrow> seg)"

definition project_message :: "mutation_operation list \<Rightarrow> dict \<Rightarrow> dict" where
  "project_message ops m =
     (if \<not> of_type ''assistant'' m then m
      else (case dget m ''segments'' of
              JList segs \<Rightarrow> put ''segments'' (JList (map (project_segment ops) segs)) m
            | _ \<Rightarrow> m))"

definition project_mutation_operations :: "dict list \<Rightarrow> mutation_operation list \<Rightarrow> dict list" where
  "project_mutation_operations ms ops = map (project_message ops) ms"

subsection \<open>Cancelling the active tools\<close>

definition ACTIVE_TOOL_STATUSES :: "string list" where
  "ACTIVE_TOOL_STATUSES = [''pending'', ''executing'', ''approved'', ''awaiting_approval'']"

definition active_status :: "json \<Rightarrow> bool" where
  "active_status v \<longleftrightarrow> v \<in> JStr ` set ACTIVE_TOOL_STATUSES"

definition of_other_run :: "string option \<Rightarrow> dict \<Rightarrow> bool" where
  "of_other_run run e =
     (case run of
        Some (c # cs) \<Rightarrow> truthy (dget e ''run_id'') \<and> py_str (dget e ''run_id'') \<noteq> c # cs
      | _ \<Rightarrow> False)"

definition cancelled_execution :: "string \<Rightarrow> dict \<Rightarrow> dict" where
  "cancelled_execution why e =
     put ''result'' (JList [text_block why]) (put ''error'' (JStr why) (put ''status'' (JStr ''cancelled'') e))"

text \<open>A segment after the cancellation, and what was cancelled in it.\<close>

definition cancel_segment :: "string option \<Rightarrow> string \<Rightarrow> dict \<Rightarrow> (dict \<times> dict list) py" where
  "cancel_segment run why s =
     (if \<not> of_kind ''tool'' s then Inr (s, [])
      else bindE (execution_of s) (\<lambda>e. Inr
        (if \<not> active_status (dget e ''status'') \<or> of_other_run run e then (s, [])
         else (put ''toolExecution'' (JDict (cancelled_execution why e)) s, [cancelled_execution why e]))))"

definition mark_active_tool_segments_cancelled ::
  "dict list \<Rightarrow> string option \<Rightarrow> string \<Rightarrow> (dict list \<times> dict list) py" where
  "mark_active_tool_segments_cancelled ms run why =
     (case last_where (of_type ''assistant'') ms of
        None \<Rightarrow> Inr (ms, [])
      | Some i \<Rightarrow>
          bindE (segments_or_empty (ms ! i)) (\<lambda>segs.
          bindE (each_py (cancel_segment run why) segs) (\<lambda>rs. Inr
            (ms[i := put ''segments'' (JList (map (JDict \<circ> fst) rs)) (ms ! i)], concat (map snd rs)))))"

subsection \<open>The history for the model\<close>

text \<open>\<open>json.dumps(v)\<close> with the defaults of the library.\<close>

fun dumps_ascii :: "json \<Rightarrow> string" where
  "dumps_ascii JNull = ''null''"
| "dumps_ascii (JBool b) = (if b then ''true'' else ''false'')"
| "dumps_ascii (JInt i) = int_str i"
| "dumps_ascii (JStr s) = json_ascii s"
| "dumps_ascii (JList xs) = ''['' @ join_str '', '' (map dumps_ascii xs) @ '']''"
| "dumps_ascii (JDict d) =
     ''{'' @ join_str '', '' (map (\<lambda>p. json_ascii (fst p) @ '': '' @ dumps_ascii (snd p)) d) @ ''}''"

definition text_of :: "dict list \<Rightarrow> string" where
  "text_of segs = concat (map (\<lambda>s. py_str (dget_def s ''text'' (JStr []))) (filter (of_kind ''text'') segs))"

definition exec_or_empty :: "dict \<Rightarrow> dict py" where
  "exec_or_empty s = as_dict (por (dget s ''toolExecution'') (JDict []))"

definition exec_call_id :: "dict \<Rightarrow> string" where
  "exec_call_id e = py_strip (py_str (por (dget e ''call_id'') (JStr [])))"

definition llm_tool_call :: "dict \<Rightarrow> json py" where
  "llm_tool_call s =
     bindE (exec_or_empty s) (\<lambda>e. Inr
       (let args = por (dget e ''args'') (JDict []) in
        JDict [(''id'', JStr (exec_call_id e)), (''type'', JStr ''function''),
          (''function'', JDict [(''name'', por (dget e ''tool'') (JStr [])),
             (''arguments'', JStr (if is_dict args then dumps_ascii args else py_str args))])]))"

definition block_content :: "json \<Rightarrow> string" where
  "block_content b =
     (case b of
        JDict d \<Rightarrow> if dget d ''type'' = JStr ''text'' then py_str (dget_def d ''text'' (JStr [])) else py_str b
      | _ \<Rightarrow> py_str b)"

definition status_content :: "dict \<Rightarrow> string py" where
  "status_content e =
     (case por (dget e ''status'') (JStr []) of
        JStr status \<Rightarrow> Inr
          (if py_lower status = ''awaiting_approval'' then ''Pending tool approval from the user''
           else if py_lower status = ''denied'' then ''Tool call was denied by the user''
           else if py_lower status = ''error'' then py_str (por (dget e ''error'') (JStr ''Tool execution failed''))
           else [])
      | v \<Rightarrow> Inl (attr_error v ''lower''))"

definition llm_tool_answer :: "dict \<Rightarrow> dict py" where
  "llm_tool_answer s =
     bindE (exec_or_empty s) (\<lambda>e.
     bindE (if truthy (dget e ''result'')
            then bindE (py_iter (dget e ''result'')) (\<lambda>blocks. Inr (concat (map block_content blocks)))
            else status_content e) (\<lambda>content. Inr
       [(''role'', JStr ''tool''), (''tool_call_id'', JStr (exec_call_id e)),
        (''name'', por (dget e ''tool'') (JStr [])), (''content'', JStr content)]))"

definition text_message :: "string \<Rightarrow> string \<Rightarrow> dict list" where
  "text_message role content =
     (if content = [] then [] else [[(''role'', JStr role), (''content'', JStr content)]])"

definition tool_messages :: "dict list \<Rightarrow> dict list py" where
  "tool_messages tools =
     (if tools = [] then Inr []
      else bindE (each_py llm_tool_call tools) (\<lambda>calls.
           bindE (each_py llm_tool_answer tools) (\<lambda>answers. Inr
             ([(''role'', JStr ''assistant''), (''content'', JStr []), (''tool_calls'', JList calls)] # answers))))"

definition llm_assistant :: "dict \<Rightarrow> dict list py" where
  "llm_assistant m =
     bindE (segments_or_empty m) (\<lambda>all.
     let segs = filter (\<lambda>s. \<not> of_kind ''thinking'' s) all;
         tools = filter (of_kind ''tool'') segs;
         pre = (case first_where (of_kind ''tool'') segs of None \<Rightarrow> [] | Some i \<Rightarrow> text_of (take i segs));
         post = (case last_where (of_kind ''tool'') segs of None \<Rightarrow> [] | Some i \<Rightarrow> text_of (drop (Suc i) segs))
     in bindE (tool_messages tools) (\<lambda>tms. Inr
          (text_message ''assistant'' pre @ tms @ text_message ''assistant'' post
           @ (if tools = [] then text_message ''assistant'' (py_str (dget_def m ''content'' (JStr []))) else []))))"

definition llm_of_message :: "dict \<Rightarrow> dict list py" where
  "llm_of_message m =
     (if of_type ''user'' m then Inr (text_message ''user'' (py_str (dget_def m ''content'' (JStr []))))
      else if of_type ''assistant'' m then llm_assistant m else Inr [])"

definition build_llm_messages :: "dict list \<Rightarrow> dict list py" where
  "build_llm_messages ms = bindE (each_py llm_of_message ms) (\<lambda>parts. Inr (concat parts))"

definition title_of_message :: "dict \<Rightarrow> dict list py" where
  "title_of_message m =
     (let content = py_str (dget_def m ''content'' (JStr [])) in
      if of_type ''user'' m then Inr (text_message ''user'' content)
      else if of_type ''assistant'' m then
        (if content \<noteq> [] then Inr (text_message ''assistant'' content)
         else bindE (segments_or_empty m) (\<lambda>segs. Inr (text_message ''assistant'' (py_strip (text_of segs)))))
      else Inr [])"

definition build_llm_messages_for_title_generation :: "dict list \<Rightarrow> dict list py" where
  "build_llm_messages_for_title_generation ms =
     bindE (each_py title_of_message ms) (\<lambda>parts. Inr (concat parts))"

end
