(* ===== verification/ChatStore.thy ===== *)
theory ChatStore
  imports ChatHistory
begin

text \<open>
  The tables of conversations and messages and \<open>ConversationPersistenceService\<close>. A loaded row is
  a copy; saving it writes all its fields back. Between two queries of one method other
  coroutines may run: \<open>ce_others\<close> is what they do to the tables at each wait; a query may fail (\<open>ce_fails\<close>)
  and then changes nothing of its own; \<open>ce_parse\<close> is \<open>uuid.UUID\<close>. The cost of a turn,
  a float of dollars in the code, is an integer here, in units of a fixed part of a dollar.
\<close>

subsection \<open>Tables\<close>

record conversation_row =
  cv_id :: string
  cv_title :: "string option"
  cv_user :: "string option"
  cv_active :: bool
  cv_metadata :: json
  cv_messages :: "dict list option"
  cv_created :: int
  cv_updated :: int

record message_row =
  mr_id :: string
  mr_conversation :: string
  mr_role :: string
  mr_content :: string
  mr_sequence :: int
  mr_metadata :: json
  mr_created :: int
  mr_usage :: json

record chat_db =
  db_conversations :: "conversation_row list"
  db_messages :: "message_row list"
  db_operations :: "mutation_operation list"
  db_now :: int

record usage_buffer =
  ub_model :: "string option"
  ub_prompt :: int
  ub_completion :: int
  ub_total :: int
  ub_cached :: int
  ub_cost :: int
  ub_ttft :: "int option"
  ub_ttr :: "int option"

text \<open>The service: its usage buffers and the message row it wrote last, a copy like any other.\<close>

record chat =
  ch_db :: chat_db
  ch_usage :: "(string \<times> usage_buffer) list"
  ch_message :: "message_row option"
  ch_waits :: nat
  ch_ids :: nat

record chat_env =
  ce_fails :: "nat \<Rightarrow> py_exc option"
  ce_others :: "nat \<Rightarrow> chat_db \<Rightarrow> chat_db"
  ce_uuid :: "nat \<Rightarrow> string"
  ce_parse :: "string \<Rightarrow> string py"

type_synonym 'a chat_io = "(chat, 'a) st"

definition wait_db :: "chat_env \<Rightarrow> unit chat_io" where
  "wait_db E c =
     (case ce_fails E (ch_waits c) of None \<Rightarrow> Inr () | Some e \<Rightarrow> Inl e,
      c\<lparr>ch_db := ce_others E (ch_waits c) (ch_db c), ch_waits := Suc (ch_waits c)\<rparr>)"

definition chat_query :: "chat_env \<Rightarrow> (chat_db \<Rightarrow> 'a) \<Rightarrow> 'a chat_io" where
  "chat_query E f = bindW (wait_db E) (\<lambda>_ c. (Inr (f (ch_db c)), c))"

definition change_db :: "chat_env \<Rightarrow> (chat_db \<Rightarrow> chat_db) \<Rightarrow> unit chat_io" where
  "change_db E f = bindW (wait_db E) (\<lambda>_ c. (Inr (), c\<lparr>ch_db := f (ch_db c)\<rparr>))"

definition chat_uuid :: "chat_env \<Rightarrow> string chat_io" where
  "chat_uuid E c = (Inr (ce_uuid E (ch_ids c)), c\<lparr>ch_ids := Suc (ch_ids c)\<rparr>)"

definition does_not_exist :: py_exc where
  "does_not_exist = Exc ''DoesNotExist'' ''Object does not exist''"

definition get_row :: "('r \<Rightarrow> string) \<Rightarrow> string \<Rightarrow> 'r list \<Rightarrow> 'r py" where
  "get_row key i rows = (case find (\<lambda>r. key r = i) rows of None \<Rightarrow> Inl does_not_exist | Some r \<Rightarrow> Inr r)"

definition get_conversation_row :: "chat_env \<Rightarrow> string \<Rightarrow> conversation_row chat_io" where
  "get_conversation_row E cid = bindW (chat_query E (\<lambda>db. get_row cv_id cid (db_conversations db))) lift"

definition get_message_row :: "chat_env \<Rightarrow> string \<Rightarrow> message_row chat_io" where
  "get_message_row E mid =
     bindW (lift (ce_parse E mid)) (\<lambda>i. bindW (chat_query E (\<lambda>db. get_row mr_id i (db_messages db))) lift)"

definition save_conversation :: "chat_env \<Rightarrow> conversation_row \<Rightarrow> unit chat_io" where
  "save_conversation E cv = change_db E (\<lambda>db. db\<lparr>db_conversations :=
     map (\<lambda>r. if cv_id r = cv_id cv then cv\<lparr>cv_updated := db_now db\<rparr> else r) (db_conversations db)\<rparr>)"

definition save_messages_json :: "chat_env \<Rightarrow> conversation_row \<Rightarrow> dict list \<Rightarrow> unit chat_io" where
  "save_messages_json E cv ms = save_conversation E (cv\<lparr>cv_messages := Some ms\<rparr>)"

definition save_message_row :: "chat_env \<Rightarrow> message_row \<Rightarrow> unit chat_io" where
  "save_message_row E m = change_db E (\<lambda>db. db\<lparr>db_messages :=
     map (\<lambda>r. if mr_id r = mr_id m then m else r) (db_messages db)\<rparr>)"

definition create_message_row :: "chat_env \<Rightarrow> message_row \<Rightarrow> message_row chat_io" where
  "create_message_row E m = bindW (change_db E (\<lambda>db. db\<lparr>db_messages := db_messages db @ [m]\<rparr>)) (\<lambda>_. ret m)"

definition set_current :: "message_row option \<Rightarrow> unit chat_io" where
  "set_current m c = (Inr (), c\<lparr>ch_message := m\<rparr>)"

definition look_chat :: "(chat \<Rightarrow> 'a chat_io) \<Rightarrow> 'a chat_io" where
  "look_chat f c = f c c"

definition history_of :: "conversation_row \<Rightarrow> dict list" where
  "history_of cv = (case cv_messages cv of None \<Rightarrow> [] | Some ms \<Rightarrow> ms)"

definition rows_of :: "string \<Rightarrow> chat_db \<Rightarrow> message_row list" where
  "rows_of cid db = filter (\<lambda>r. mr_conversation r = cid) (db_messages db)"

definition latest_row :: "message_row list \<Rightarrow> message_row option" where
  "latest_row rows =
     (case rows of [] \<Rightarrow> None | r # rs \<Rightarrow> Some (foldl (\<lambda>a b. if mr_sequence a < mr_sequence b then b else a) r rs))"

definition get_next_sequence :: "chat_env \<Rightarrow> conversation_row \<Rightarrow> int chat_io" where
  "get_next_sequence E cv =
     chat_query E (\<lambda>db. case latest_row (rows_of (cv_id cv) db) of None \<Rightarrow> 1 | Some r \<Rightarrow> mr_sequence r + 1)"

subsection \<open>Usage\<close>

definition usage_key :: "string option \<Rightarrow> string option \<Rightarrow> string option" where
  "usage_key conv run =
     (case (conv, run) of
        (Some (c # cs), Some (r # rs)) \<Rightarrow> Some ((c # cs) @ '':'' @ (r # rs))
      | _ \<Rightarrow> None)"

definition fresh_usage :: usage_buffer where
  "fresh_usage = \<lparr>ub_model = None, ub_prompt = 0, ub_completion = 0, ub_total = 0, ub_cached = 0, ub_cost = 0,
     ub_ttft = None, ub_ttr = None\<rparr>"

text \<open>\<open>_get_usage_buffer\<close> and the change made to the buffer it returns.\<close>

definition with_usage :: "string option \<Rightarrow> string option \<Rightarrow> (usage_buffer \<Rightarrow> usage_buffer) \<Rightarrow> unit chat_io" where
  "with_usage conv run f c =
     (case usage_key conv run of
        None \<Rightarrow> (Inr (), c)
      | Some key \<Rightarrow>
          (Inr (), c\<lparr>ch_usage := AList.update key
             (f (case map_of (ch_usage c) key of None \<Rightarrow> fresh_usage | Some b \<Rightarrow> b)) (ch_usage c)\<rparr>))"

definition record_token_usage ::
  "string option \<Rightarrow> string option \<Rightarrow> int \<Rightarrow> int \<Rightarrow> int \<Rightarrow> int option \<Rightarrow> int \<Rightarrow> string option \<Rightarrow> unit chat_io" where
  "record_token_usage conv run prompt completion all cached cost model =
     with_usage conv run (\<lambda>b.
       b\<lparr>ub_model := (case model of Some (m # ms) \<Rightarrow> Some (m # ms) | _ \<Rightarrow> ub_model b),
         ub_prompt := ub_prompt b + max prompt 0,
         ub_completion := ub_completion b + max completion 0,
         ub_total := ub_total b + max all 0,
         ub_cached := (case cached of None \<Rightarrow> ub_cached b | Some n \<Rightarrow> ub_cached b + max n 0),
         ub_cost := ub_cost b + max cost 0\<rparr>)"

definition record_ttft :: "string option \<Rightarrow> string option \<Rightarrow> int option \<Rightarrow> unit chat_io" where
  "record_ttft conv run duration =
     with_usage conv run (\<lambda>b. case duration of None \<Rightarrow> b | Some d \<Rightarrow> b\<lparr>ub_ttft := Some d\<rparr>)"

definition record_ttr :: "string option \<Rightarrow> string option \<Rightarrow> int option \<Rightarrow> unit chat_io" where
  "record_ttr conv run duration =
     with_usage conv run (\<lambda>b. case duration of None \<Rightarrow> b | Some d \<Rightarrow> b\<lparr>ub_ttr := Some d\<rparr>)"

definition int_or_null :: "int option \<Rightarrow> json" where
  "int_or_null v = (case v of None \<Rightarrow> JNull | Some i \<Rightarrow> JInt i)"

definition usage_metrics :: "usage_buffer \<Rightarrow> json" where
  "usage_metrics b =
     JDict [(''model'', or_null (ub_model b)), (''prompt_tokens'', JInt (ub_prompt b)),
       (''completion_tokens'', JInt (ub_completion b)), (''total_tokens'', JInt (ub_total b)),
       (''cached_tokens'', JInt (ub_cached b)), (''cost'', JInt (ub_cost b)),
       (''ttft_ms'', int_or_null (ub_ttft b)), (''ttr_ms'', int_or_null (ub_ttr b))]"

definition snapshot_usage :: "string option \<Rightarrow> string option \<Rightarrow> chat \<Rightarrow> json option" where
  "snapshot_usage conv run c =
     Option.bind (usage_key conv run) (\<lambda>key. map_option usage_metrics (map_of (ch_usage c) key))"

definition clear_usage_buffer :: "string option \<Rightarrow> string option \<Rightarrow> unit chat_io" where
  "clear_usage_buffer conv run c =
     (case usage_key conv run of
        None \<Rightarrow> (Inr (), c)
      | Some key \<Rightarrow> (Inr (), c\<lparr>ch_usage := AList.delete key (ch_usage c)\<rparr>))"

definition clear_if :: "bool \<Rightarrow> string \<Rightarrow> string option \<Rightarrow> unit chat_io" where
  "clear_if finalize cid run = (if finalize then clear_usage_buffer (Some cid) run else ret ())"

text \<open>The row of the last message: by its identifier, else the latest one of the assistant.\<close>

definition usage_row :: "chat_env \<Rightarrow> string \<Rightarrow> json \<Rightarrow> message_row option chat_io" where
  "usage_row E cid mid =
     bindW (if truthy mid
            then catchW (bindW (get_message_row E (py_str mid)) (\<lambda>r. ret (Some r))) (\<lambda>e. ret None)
            else ret None) (\<lambda>found.
     case found of
       Some r \<Rightarrow> ret (Some r)
     | None \<Rightarrow> chat_query E (\<lambda>db. latest_row (filter (\<lambda>r. mr_role r = ''assistant'') (rows_of cid db))))"

definition apply_usage_to_latest_assistant :: "chat_env \<Rightarrow> string \<Rightarrow> string option \<Rightarrow> bool \<Rightarrow> unit chat_io" where
  "apply_usage_to_latest_assistant E cid run finalize = look_chat (\<lambda>c.
     case snapshot_usage (Some cid) run c of
       None \<Rightarrow> clear_if finalize cid run
     | Some usage \<Rightarrow>
         bindW (catchW (bindW (get_conversation_row E cid) (\<lambda>cv. ret (Some cv))) (\<lambda>e. ret None)) (\<lambda>found.
         case found of
           None \<Rightarrow> clear_if finalize cid run
         | Some cv \<Rightarrow>
             (let ms = history_of cv in
              if ms = [] \<or> \<not> of_type ''assistant'' (last ms) then clear_if finalize cid run
              else bindW (save_messages_json E cv (ms[length ms - 1 := put ''token_usage'' usage (last ms)])) (\<lambda>_.
                   bindW (usage_row E cid (dget (last ms) ''id'')) (\<lambda>row.
                   bindW (case row of None \<Rightarrow> ret () | Some r \<Rightarrow> save_message_row E (r\<lparr>mr_usage := usage\<rparr>)) (\<lambda>_.
                   clear_if finalize cid run))))))"

definition apply_usage_snapshot :: "chat_env \<Rightarrow> string \<Rightarrow> string option \<Rightarrow> unit chat_io" where
  "apply_usage_snapshot E cid run = apply_usage_to_latest_assistant E cid run False"

definition finalize_usage_snapshot :: "chat_env \<Rightarrow> string \<Rightarrow> string option \<Rightarrow> unit chat_io" where
  "finalize_usage_snapshot E cid run =
     bindW (apply_usage_to_latest_assistant E cid run True) (\<lambda>_. set_current None)"

subsection \<open>Appending\<close>

text \<open>Milliseconds of an event as the microseconds of a time stamp.\<close>

definition created_at :: "int \<Rightarrow> int" where
  "created_at timestamp = 1000 * timestamp"

definition segments_metadata :: "json list \<Rightarrow> json" where
  "segments_metadata segs = JDict [(''segments'', JList segs)]"

definition append_user_message :: "chat_env \<Rightarrow> string \<Rightarrow> string \<Rightarrow> int \<Rightarrow> unit chat_io" where
  "append_user_message E cid content timestamp =
     bindW (get_conversation_row E cid) (\<lambda>cv.
     let ms = history_of cv in
     if ms \<noteq> [] \<and> of_type ''user'' (last ms) \<and> dget (last ms) ''content'' = JStr content then ret ()
     else bindW (chat_uuid E) (\<lambda>i.
          bindW (save_messages_json E cv (ms @ [[(''id'', JStr i), (''type'', JStr ''user''),
             (''content'', JStr content), (''timestamp'', JInt timestamp)]])) (\<lambda>_.
          bindW (get_next_sequence E cv) (\<lambda>seq.
          bindW (chat_uuid E) (\<lambda>mid.
          bindW (create_message_row E \<lparr>mr_id = mid, mr_conversation = cv_id cv, mr_role = ''user'', mr_content = content,
             mr_sequence = seq, mr_metadata = JNull, mr_created = created_at timestamp, mr_usage = JNull\<rparr>) (\<lambda>_.
          ret ()))))))"

definition new_assistant :: "string \<Rightarrow> string \<Rightarrow> int \<Rightarrow> json list \<Rightarrow> dict" where
  "new_assistant i content timestamp segs =
     [(''id'', JStr i), (''type'', JStr ''assistant''), (''content'', JStr content), (''timestamp'', JInt timestamp),
      (''segments'', JList segs)]"

text \<open>The row of a new assistant message becomes the current one of the service.\<close>

definition start_assistant ::
  "chat_env \<Rightarrow> conversation_row \<Rightarrow> string \<Rightarrow> string \<Rightarrow> int \<Rightarrow> json list \<Rightarrow> json \<Rightarrow> unit chat_io" where
  "start_assistant E cv i content timestamp segs usage =
     bindW (get_next_sequence E cv) (\<lambda>seq.
     bindW (create_message_row E \<lparr>mr_id = i, mr_conversation = cv_id cv, mr_role = ''assistant'', mr_content = content,
        mr_sequence = seq, mr_metadata = segments_metadata segs, mr_created = created_at timestamp, mr_usage = usage\<rparr>)
       (\<lambda>m. set_current (Some m)))"

definition save_current :: "chat_env \<Rightarrow> (message_row \<Rightarrow> message_row) \<Rightarrow> unit chat_io" where
  "save_current E f = look_chat (\<lambda>c. case ch_message c of
     None \<Rightarrow> ret ()
   | Some m \<Rightarrow> bindW (set_current (Some (f m))) (\<lambda>_. save_message_row E (f m)))"

text \<open>The end of every append: the usage so far, and the history.\<close>

definition finish_append ::
  "chat_env \<Rightarrow> string \<Rightarrow> string option \<Rightarrow> conversation_row \<Rightarrow> dict list \<Rightarrow> unit chat_io" where
  "finish_append E cid run cv ms = look_chat (\<lambda>c.
     case snapshot_usage (Some cid) run c of
       None \<Rightarrow> save_messages_json E cv ms
     | Some usage \<Rightarrow>
         bindW (save_current E (\<lambda>m. m\<lparr>mr_usage := usage\<rparr>)) (\<lambda>_.
         save_messages_json E cv (ms[length ms - 1 := put ''token_usage'' usage (last ms)])))"

definition text_segment :: "string \<Rightarrow> string \<Rightarrow> int \<Rightarrow> json" where
  "text_segment i content timestamp =
     JDict [(''kind'', JStr ''text''), (''id'', JStr i), (''text'', JStr content), (''timestamp'', JInt timestamp)]"

definition raw_segments :: "dict \<Rightarrow> json list py" where
  "raw_segments m =
     (case dget_def m ''segments'' (JList []) of JList xs \<Rightarrow> Inr xs | v \<Rightarrow> Inl (attr_error v ''append''))"

definition add_content :: "dict \<Rightarrow> string \<Rightarrow> dict py" where
  "add_content m content =
     (case dget_def m ''content'' (JStr []) of
        JStr t \<Rightarrow> Inr (put ''content'' (JStr (t @ content)) m)
      | v \<Rightarrow> Inl (Exc ''TypeError'' (''unsupported operand type(s) for +: '' @ quoted (type_name v) @ '' and '' @ quoted ''str'')))"

definition set_last :: "dict list \<Rightarrow> dict \<Rightarrow> dict list" where
  "set_last ms m = ms[length ms - 1 := m]"

definition no_assistant :: "dict list \<Rightarrow> bool" where
  "no_assistant ms \<longleftrightarrow> ms = [] \<or> \<not> of_type ''assistant'' (last ms)"

definition append_text_segment ::
  "chat_env \<Rightarrow> string \<Rightarrow> string \<Rightarrow> int \<Rightarrow> string option \<Rightarrow> unit chat_io" where
  "append_text_segment E cid content timestamp run =
     bindW (get_conversation_row E cid) (\<lambda>cv.
     let ms = history_of cv in
     if no_assistant ms then
       bindW (chat_uuid E) (\<lambda>i. bindW (chat_uuid E) (\<lambda>sid.
       let segs = [text_segment sid content timestamp] in
       look_chat (\<lambda>c.
       bindW (start_assistant E cv i content timestamp segs
                (case snapshot_usage (Some cid) run c of None \<Rightarrow> JNull | Some u \<Rightarrow> u)) (\<lambda>_.
       finish_append E cid run cv (ms @ [new_assistant i content timestamp segs])))))
     else
       bindW (lift (raw_segments (last ms))) (\<lambda>old.
       bindW (chat_uuid E) (\<lambda>sid.
       let segs = old @ [text_segment sid content timestamp] in
       bindW (lift (add_content (last ms) content)) (\<lambda>m.
       bindW (save_current E (\<lambda>r. r\<lparr>mr_content := mr_content r @ content, mr_metadata := segments_metadata segs\<rparr>)) (\<lambda>_.
       finish_append E cid run cv (set_last ms (put ''segments'' (JList segs) m)))))))"

text \<open>
  The segments of a message on its row, which is created when it does not exist; other failures
  are logged.
\<close>

definition store_segments ::
  "chat_env \<Rightarrow> conversation_row \<Rightarrow> json \<Rightarrow> string \<Rightarrow> int \<Rightarrow> json list \<Rightarrow> unit chat_io" where
  "store_segments E cv mid content timestamp segs =
     (if \<not> truthy mid then ret ()
      else catchW
        (bindW (get_message_row E (py_str mid)) (\<lambda>r.
         bindW (save_message_row E (r\<lparr>mr_metadata := segments_metadata segs\<rparr>)) (\<lambda>_.
         set_current (Some (r\<lparr>mr_metadata := segments_metadata segs\<rparr>)))))
        (\<lambda>e. if exc_type e = ''DoesNotExist''
             then bindW (lift (ce_parse E (py_str mid))) (\<lambda>i. start_assistant E cv i content timestamp segs JNull)
             else ret ()))"

definition thinking_segment :: "string \<Rightarrow> string \<Rightarrow> int \<Rightarrow> int \<Rightarrow> json" where
  "thinking_segment i content duration timestamp =
     JDict [(''kind'', JStr ''thinking''), (''id'', JStr i), (''text'', JStr content), (''isComplete'', JBool True),
       (''durationMs'', JInt duration), (''timestamp'', JInt timestamp)]"

definition append_thinking_segment ::
  "chat_env \<Rightarrow> string \<Rightarrow> string \<Rightarrow> int \<Rightarrow> int \<Rightarrow> string option \<Rightarrow> unit chat_io" where
  "append_thinking_segment E cid content timestamp duration run =
     bindW (get_conversation_row E cid) (\<lambda>cv.
     let ms = history_of cv in
     if no_assistant ms then
       bindW (chat_uuid E) (\<lambda>i. bindW (chat_uuid E) (\<lambda>sid.
       let segs = [thinking_segment sid content duration timestamp] in
       bindW (start_assistant E cv i [] timestamp segs JNull) (\<lambda>_.
       finish_append E cid run cv (ms @ [new_assistant i [] timestamp segs]))))
     else
       bindW (lift (raw_segments (last ms))) (\<lambda>old.
       bindW (chat_uuid E) (\<lambda>sid.
       let segs = old @ [thinking_segment sid content duration timestamp] in
       bindW (store_segments E cv (dget (last ms) ''id'') [] timestamp segs) (\<lambda>_.
       finish_append E cid run cv (set_last ms (put ''segments'' (JList segs) (last ms)))))))"

definition is_tool_call :: "json \<Rightarrow> dict \<Rightarrow> bool" where
  "is_tool_call call s \<longleftrightarrow> of_kind ''tool'' s \<and> dget s ''id'' = call"

definition tool_segment :: "dict \<Rightarrow> int \<Rightarrow> json" where
  "tool_segment execution timestamp =
     JDict [(''kind'', JStr ''tool''), (''id'', dget execution ''call_id''), (''toolExecution'', JDict execution),
       (''timestamp'', JInt timestamp)]"

text \<open>The history with an assistant message at its end.\<close>

definition with_assistant :: "chat_env \<Rightarrow> conversation_row \<Rightarrow> int \<Rightarrow> dict list chat_io" where
  "with_assistant E cv timestamp =
     (let ms = history_of cv in
      if no_assistant ms then
        bindW (chat_uuid E) (\<lambda>i.
        bindW (start_assistant E cv i [] timestamp [] JNull) (\<lambda>_. ret (ms @ [new_assistant i [] timestamp []])))
      else ret ms)"

definition append_tool_segment ::
  "chat_env \<Rightarrow> string \<Rightarrow> dict \<Rightarrow> int \<Rightarrow> string option \<Rightarrow> unit chat_io" where
  "append_tool_segment E cid execution timestamp run =
     bindW (get_conversation_row E cid) (\<lambda>cv.
     bindW (with_assistant E cv timestamp) (\<lambda>ms.
     bindW (lift (segments_of (last ms))) (\<lambda>segs.
     if list_ex (is_tool_call (dget execution ''call_id'')) segs then ret ()
     else (let segs' = map JDict segs @ [tool_segment execution timestamp] in
       bindW (store_segments E cv (dget (last ms) ''id'') (py_str (dget_def (last ms) ''content'' (JStr []))) timestamp segs')
         (\<lambda>_. finish_append E cid run cv (set_last ms (put ''segments'' (JList segs') (last ms))))))))"

subsection \<open>Updating\<close>

text \<open>The last tool segment of a call, searched from the newest assistant message.\<close>

fun find_tool_segment :: "json \<Rightarrow> (nat \<times> dict) list \<Rightarrow> (nat \<times> dict list \<times> nat) option py" where
  "find_tool_segment call [] = Inr None"
| "find_tool_segment call ((i, m) # rest) =
     (if \<not> of_type ''assistant'' m then find_tool_segment call rest
      else bindE (segments_or_empty m) (\<lambda>segs.
        case last_where (is_tool_call call) segs of
          Some j \<Rightarrow> Inr (Some (i, segs, j))
        | None \<Rightarrow> find_tool_segment call rest))"

definition locate_tool_segment :: "json \<Rightarrow> dict list \<Rightarrow> (nat \<times> dict list \<times> nat) option py" where
  "locate_tool_segment call ms = find_tool_segment call (rev (enumerate 0 ms))"

definition set_unless_null :: "string \<Rightarrow> json \<Rightarrow> dict \<Rightarrow> dict" where
  "set_unless_null k v d = (if v = JNull then d else put k v d)"

definition status_update :: "string \<Rightarrow> json \<Rightarrow> json \<Rightarrow> dict \<Rightarrow> dict" where
  "status_update status error result e =
     set_unless_null ''result'' result (set_unless_null ''error'' error (put ''status'' (JStr status) e))"

definition stays_cancelled :: "dict \<Rightarrow> string \<Rightarrow> bool \<Rightarrow> bool" where
  "stays_cancelled e status allow \<longleftrightarrow>
     dget e ''status'' = JStr ''cancelled'' \<and> status \<noteq> ''cancelled'' \<and> \<not> allow"

text \<open>The row is updated when it can be found; failures are logged.\<close>

definition update_row_segments :: "chat_env \<Rightarrow> json \<Rightarrow> json list \<Rightarrow> unit chat_io" where
  "update_row_segments E mid segs =
     (if \<not> truthy mid then ret ()
      else catchW
        (bindW (get_message_row E (py_str mid)) (\<lambda>r.
         bindW (save_message_row E (r\<lparr>mr_metadata := segments_metadata segs\<rparr>)) (\<lambda>_.
         set_current (Some (r\<lparr>mr_metadata := segments_metadata segs\<rparr>)))))
        (\<lambda>e. ret ()))"

definition update_tool_segment_status ::
  "chat_env \<Rightarrow> string \<Rightarrow> json \<Rightarrow> string \<Rightarrow> json \<Rightarrow> json \<Rightarrow> bool \<Rightarrow> unit chat_io" where
  "update_tool_segment_status E cid call status error result allow =
     bindW (get_conversation_row E cid) (\<lambda>cv.
     let ms = history_of cv in
     bindW (lift (locate_tool_segment call ms)) (\<lambda>found.
     case found of
       None \<Rightarrow> ret ()
     | Some (i, segs, j) \<Rightarrow>
         bindW (lift (execution_of (segs ! j))) (\<lambda>e.
         if stays_cancelled e status allow then ret ()
         else (let seg = put ''toolExecution'' (JDict (status_update status error result e)) (segs ! j);
                   segs' = map JDict (segs[j := seg])
           in bindW (save_messages_json E cv (ms[i := put ''segments'' (JList segs') (ms ! i)])) (\<lambda>_.
              update_row_segments E (dget (ms ! i) ''id'') segs')))))"

definition cancel_active_tool_segments ::
  "chat_env \<Rightarrow> string \<Rightarrow> string option \<Rightarrow> string \<Rightarrow> dict list chat_io" where
  "cancel_active_tool_segments E cid run why =
     bindW (get_conversation_row E cid) (\<lambda>cv.
     bindW (lift (mark_active_tool_segments_cancelled (history_of cv) run why)) (\<lambda>(ms, cancelled).
     if cancelled = [] then ret []
     else bindW (save_messages_json E cv ms) (\<lambda>_.
          bindW (case last_where (of_type ''assistant'') ms of
              None \<Rightarrow> ret ()
            | Some i \<Rightarrow>
                (case dget_def (ms ! i) ''segments'' (JList []) of
                   JList segs \<Rightarrow> update_row_segments E (dget (ms ! i) ''id'') segs
                 | _ \<Rightarrow> ret ())) (\<lambda>_. ret cancelled))))"

definition set_title :: "chat_env \<Rightarrow> string \<Rightarrow> string \<Rightarrow> bool chat_io" where
  "set_title E cid title =
     bindW (get_conversation_row E cid) (\<lambda>cv.
     if py_strip (case cv_title cv of None \<Rightarrow> [] | Some t \<Rightarrow> t) \<noteq> [] then ret False
     else if py_strip title = [] then ret False
     else bindW (save_conversation E (cv\<lparr>cv_title := Some (py_strip title)\<rparr>)) (\<lambda>_. ret True))"

definition project_authoritative_mutation_statuses ::
  "chat_env \<Rightarrow> string \<Rightarrow> dict list \<Rightarrow> dict list chat_io" where
  "project_authoritative_mutation_statuses E cid ms =
     chat_query E (\<lambda>db. project_mutation_operations ms
       (filter (\<lambda>op. conversation_id op = JStr cid) (db_operations db)))"

end
