(* ===== verification/EventStream.thy ===== *)
theory EventStream
  imports ChatStore MemoryAgentApi
begin

text \<open>
  The event channel of \<open>endpoints/agent.py\<close>: events are numbered, kept in a bounded list and
  published; a stream replays the list after the last event its client has seen and goes on with
  what is published. \<open>json.loads\<close> is the parameter \<open>loads\<close>; Redis is its lists, values, deadlines
  and the messages published, and may fail at any call.
\<close>

subsection \<open>Redis\<close>

record redis =
  rd_lists :: "(string \<times> string list) list"
  rd_values :: "(string \<times> string) list"
  rd_deadlines :: "(string \<times> int) list"
  rd_published :: "(string \<times> string) list"
  rd_now :: int
  rd_calls :: nat

text \<open>What the n-th call does besides: it may fail, and others may change the store meanwhile.\<close>

record redis_env =
  re_fails :: "nat \<Rightarrow> py_exc option"
  re_others :: "nat \<Rightarrow> redis \<Rightarrow> redis"

type_synonym 'a redis_io = "(redis, 'a) st"

definition redis_call :: "redis_env \<Rightarrow> (redis \<Rightarrow> 'a \<times> redis) \<Rightarrow> 'a redis_io" where
  "redis_call V f r =
     (let r' = (re_others V (rd_calls r) r)\<lparr>rd_calls := Suc (rd_calls r)\<rparr> in
      case re_fails V (rd_calls r) of
        Some e \<Rightarrow> (Inl e, r')
      | None \<Rightarrow> (case f r' of (a, r'') \<Rightarrow> (Inr a, r'')))"

definition alive :: "redis \<Rightarrow> string \<Rightarrow> bool" where
  "alive r k \<longleftrightarrow> (case map_of (rd_deadlines r) k of None \<Rightarrow> True | Some t \<Rightarrow> rd_now r < t)"

definition value_of :: "redis \<Rightarrow> string \<Rightarrow> string option" where
  "value_of r k = (if alive r k then map_of (rd_values r) k else None)"

definition list_of :: "redis \<Rightarrow> string \<Rightarrow> string list" where
  "list_of r k = (if alive r k then (case map_of (rd_lists r) k of None \<Rightarrow> [] | Some l \<Rightarrow> l) else [])"

definition set_value :: "string \<Rightarrow> string \<Rightarrow> redis \<Rightarrow> redis" where
  "set_value k v r = r\<lparr>rd_values := AList.update k v (rd_values r)\<rparr>"

definition set_list :: "string \<Rightarrow> string list \<Rightarrow> redis \<Rightarrow> redis" where
  "set_list k l r = r\<lparr>rd_lists := AList.update k l (rd_lists r)\<rparr>"

definition set_expire :: "string \<Rightarrow> int \<Rightarrow> redis \<Rightarrow> redis" where
  "set_expire k secs r = r\<lparr>rd_deadlines := AList.update k (rd_now r + secs) (rd_deadlines r)\<rparr>"

text \<open>A key whose deadline has passed is gone, deadline included, before it is written again.\<close>

definition revive :: "string \<Rightarrow> redis \<Rightarrow> redis" where
  "revive k r =
     (if alive r k then r
      else r\<lparr>rd_values := AList.delete k (rd_values r), rd_lists := AList.delete k (rd_lists r),
             rd_deadlines := AList.delete k (rd_deadlines r)\<rparr>)"

definition redis_incr :: "string \<Rightarrow> redis \<Rightarrow> int \<times> redis" where
  "redis_incr k r =
     (let r' = revive k r;
          n = 1 + (case map_of (rd_values r') k of None \<Rightarrow> 0 | Some v \<Rightarrow> (case parse_int v of None \<Rightarrow> 0 | Some i \<Rightarrow> i))
      in (n, set_value k (int_str n) r'))"

subsection \<open>The events of a channel\<close>

definition SSE_EVENT_BUFFER_LIMIT :: nat where
  "SSE_EVENT_BUFFER_LIMIT = 1000"

definition SSE_EVENT_TTL_SECONDS :: int where
  "SSE_EVENT_TTL_SECONDS = 900"

definition events_key :: "string \<Rightarrow> string" where
  "events_key channel = channel @ '':events''"

definition sequence_key :: "string \<Rightarrow> string" where
  "sequence_key channel = channel @ '':sequence''"

definition run_conversation_key :: "string \<Rightarrow> string" where
  "run_conversation_key run = ''run:conversation:'' @ run"

definition sse_format :: "string \<Rightarrow> dict \<Rightarrow> int option \<Rightarrow> string" where
  "sse_format event data event_id =
     (case event_id of None \<Rightarrow> [] | Some i \<Rightarrow> ''id: '' @ int_str i @ nl)
     @ ''event: '' @ event @ nl @ ''data: '' @ json_dumps (JDict data) @ nl @ nl"

definition is_terminal_payload :: "dict \<Rightarrow> bool" where
  "is_terminal_payload payload \<longleftrightarrow>
     dget payload ''status'' \<in> {JStr ''completed'', JStr ''error'', JStr ''awaiting_approval'', JStr ''stopped'',
       JStr ''stop_partial'', JStr ''recovered''}"

definition strip_args :: "dict \<Rightarrow> dict py" where
  "strip_args tool =
     (case dget_def tool ''args'' (JDict []) of
        JDict args \<Rightarrow> Inr (put ''args'' (JDict (strip_jenkins_metadata_tool_args args)) tool)
      | v \<Rightarrow> Inl (attr_error v ''items''))"

definition strip_tool_entry :: "json \<Rightarrow> json py" where
  "strip_tool_entry tool =
     (case tool of JDict d \<Rightarrow> bindE (strip_args d) (\<lambda>d'. Inr (JDict d')) | _ \<Rightarrow> Inr tool)"

definition strip_integration_meta_keys :: "dict \<Rightarrow> dict py" where
  "strip_integration_meta_keys payload =
     bindE (if map_of payload ''args'' = None then Inr payload else strip_args payload) (\<lambda>p1.
     if map_of p1 ''tools'' = None then Inr p1
     else bindE (py_iter (dget p1 ''tools'')) (\<lambda>tools.
          bindE (each_py strip_tool_entry tools) (\<lambda>ts. Inr (put ''tools'' (JList ts) p1))))"

definition buffered_text :: "int \<Rightarrow> string \<Rightarrow> dict \<Rightarrow> string" where
  "buffered_text i event data =
     json_dumps (JDict [(''id'', JInt i), (''event'', JStr event), (''data'', JDict data)])"

definition last_n :: "nat \<Rightarrow> 'a list \<Rightarrow> 'a list" where
  "last_n n xs = drop (length xs - n) xs"

text \<open>The transaction of a publication.\<close>

definition publish_transaction :: "string \<Rightarrow> string \<Rightarrow> string \<Rightarrow> redis \<Rightarrow> redis" where
  "publish_transaction channel buffered formatted r =
     (let key = events_key channel;
          r1 = revive key r;
          r2 = set_list key (last_n SSE_EVENT_BUFFER_LIMIT (list_of r1 key @ [buffered])) r1;
          r3 = set_expire (sequence_key channel) SSE_EVENT_TTL_SECONDS (set_expire key SSE_EVENT_TTL_SECONDS r2);
          r4 = (if starts_with channel ''run:''
                then set_expire (run_conversation_key (drop 4 channel)) SSE_EVENT_TTL_SECONDS r3 else r3)
      in r4\<lparr>rd_published := rd_published r4 @ [(channel, formatted)]\<rparr>)"

definition publish_event :: "redis_env \<Rightarrow> string \<Rightarrow> string \<Rightarrow> dict \<Rightarrow> unit redis_io" where
  "publish_event V channel event payload =
     catchW
       (bindW (lift (strip_integration_meta_keys payload)) (\<lambda>data.
        bindW (redis_call V (redis_incr (sequence_key channel))) (\<lambda>i.
        redis_call V (\<lambda>r. ((), publish_transaction channel (buffered_text i event data)
          (sse_format event data (Some i)) r)))))
       (\<lambda>e. ret ())"

definition remember_run_conversation :: "redis_env \<Rightarrow> string \<Rightarrow> string option \<Rightarrow> unit redis_io" where
  "remember_run_conversation V run conv =
     (case conv of
        Some (c # cs) \<Rightarrow>
          redis_call V (\<lambda>r. ((), set_expire (run_conversation_key run) SSE_EVENT_TTL_SECONDS
            (set_value (run_conversation_key run) (c # cs) r)))
      | _ \<Rightarrow> ret ())"

subsection \<open>Reading events\<close>

record stream_event =
  ev_id :: int
  ev_name :: string
  ev_data :: dict

definition int_value :: "json \<Rightarrow> int option" where
  "int_value v = (case v of JInt i \<Rightarrow> Some i | JBool b \<Rightarrow> Some (if b then 1 else 0) | _ \<Rightarrow> None)"

text \<open>An entry of the list without an identifier is skipped; one without name or data is an error.\<close>

definition decode_buffered_event :: "(string \<Rightarrow> json py) \<Rightarrow> string \<Rightarrow> dict option" where
  "decode_buffered_event loads raw =
     (case loads raw of
        Inr (JDict d) \<Rightarrow> (case int_value (dget d ''id'') of Some i \<Rightarrow> Some d | None \<Rightarrow> None)
      | _ \<Rightarrow> None)"

definition buffered_event :: "dict \<Rightarrow> stream_event py" where
  "buffered_event d =
     bindE (subscript (JDict d) ''event'') (\<lambda>n. bindE (subscript (JDict d) ''data'') (\<lambda>v.
     case v of
       JDict data \<Rightarrow> Inr \<lparr>ev_id = (case int_value (dget d ''id'') of Some i \<Rightarrow> i | None \<Rightarrow> 0), ev_name = py_str n, ev_data = data\<rparr>
     | _ \<Rightarrow> Inl (attr_error v ''get'')))"

fun decode_lines ::
  "(string \<Rightarrow> json py) \<Rightarrow> int option \<Rightarrow> string \<Rightarrow> dict option \<Rightarrow> string list \<Rightarrow> stream_event option" where
  "decode_lines loads i name data [] =
     (case (i, data) of (Some n, Some d) \<Rightarrow> Some \<lparr>ev_id = n, ev_name = name, ev_data = d\<rparr> | _ \<Rightarrow> None)"
| "decode_lines loads i name data (l # ls) =
     (if starts_with l ''id: '' then
        (case parse_int (drop 4 l) of None \<Rightarrow> None | Some n \<Rightarrow> decode_lines loads (Some n) name data ls)
      else if starts_with l ''event: '' then decode_lines loads i (py_strip (drop 7 l)) data ls
      else if starts_with l ''data: '' then
        (case loads (drop 6 l) of
           Inl e \<Rightarrow> None
         | Inr v \<Rightarrow> decode_lines loads i name (case v of JDict d \<Rightarrow> Some d | _ \<Rightarrow> data) ls)
      else decode_lines loads i name data ls)"

definition decode_published_event :: "(string \<Rightarrow> json py) \<Rightarrow> string \<Rightarrow> stream_event option" where
  "decode_published_event loads raw = decode_lines loads None ''message'' None (py_splitlines raw)"

definition has_event_history_gap :: "int \<Rightarrow> int option \<Rightarrow> int \<Rightarrow> bool" where
  "has_event_history_gap last_id oldest latest \<longleftrightarrow>
     last_id < latest \<and> (case oldest of None \<Rightarrow> True | Some o' \<Rightarrow> last_id + 1 < o')"

subsection \<open>The stream\<close>

text \<open>What a poll of the subscription finds; the stream ends when the client is gone.\<close>

datatype stream_poll = Gone | Quiet int | Published string | Other_message

text \<open>A frame the client gets: an event, the end of an incomplete history, or anything else.\<close>

datatype frame =
    Event_frame stream_event
  | Gap_frame dict
  | Ready_frame int
  | Heartbeat int
  | Error_frame string

definition gap_payload :: "string \<Rightarrow> int \<Rightarrow> int option \<Rightarrow> int \<Rightarrow> dict" where
  "gap_payload run last_id oldest latest =
     [(''type'', JStr ''stream.gap''), (''status'', JStr ''error''), (''run_id'', JStr run),
      (''expected_event_id'', JInt (last_id + 1)),
      (''oldest_available_event_id'', case oldest of None \<Rightarrow> JNull | Some i \<Rightarrow> JInt i),
      (''latest_event_id'', JInt latest), (''recovery'', JStr ''reload_conversation''),
      (''error'', JStr ''The resumable event history is incomplete.'')]"

fun live_frames :: "(string \<Rightarrow> json py) \<Rightarrow> int \<Rightarrow> stream_poll list \<Rightarrow> frame list" where
  "live_frames loads last_id [] = []"
| "live_frames loads last_id (Gone # ps) = []"
| "live_frames loads last_id (Quiet now # ps) = Heartbeat now # live_frames loads last_id ps"
| "live_frames loads last_id (Other_message # ps) = live_frames loads last_id ps"
| "live_frames loads last_id (Published raw # ps) =
     (case decode_published_event loads raw of
        None \<Rightarrow> live_frames loads last_id ps
      | Some ev \<Rightarrow>
          if ev_id ev \<le> last_id then live_frames loads last_id ps
          else Event_frame ev
            # (if is_terminal_payload (ev_data ev) then [] else live_frames loads (ev_id ev) ps))"

text \<open>The replay: every buffered event after the last one sent, in the order of the list.\<close>

fun replay :: "int \<Rightarrow> stream_event list \<Rightarrow> stream_event list" where
  "replay last_id [] = []"
| "replay last_id (ev # evs) =
     (if ev_id ev \<le> last_id then replay last_id evs else ev # replay (ev_id ev) evs)"

definition last_sent :: "int \<Rightarrow> stream_event list \<Rightarrow> int" where
  "last_sent last_id evs = (if evs = [] then last_id else ev_id (last evs))"

text \<open>The frames of a stream, from the list and the counter, which are read by two calls, one after the other.\<close>

definition stream_frames ::
  "(string \<Rightarrow> json py) \<Rightarrow> string \<Rightarrow> int \<Rightarrow> string list \<Rightarrow> string option \<Rightarrow> stream_poll list \<Rightarrow> frame list" where
  "stream_frames loads run last_event_id raws sequence polls =
     (let decoded = List.map_filter (decode_buffered_event loads) raws;
          last_id = max 0 last_event_id;
          oldest = (case decoded of [] \<Rightarrow> None | d # _ \<Rightarrow> int_value (dget d ''id''));
          latest = (case sequence of None \<Rightarrow> 0 | Some v \<Rightarrow> (case parse_int v of None \<Rightarrow> 0 | Some n \<Rightarrow> n))
      in if has_event_history_gap last_id oldest latest then [Gap_frame (gap_payload run last_id oldest latest)]
         else case each_py buffered_event decoded of
           Inl e \<Rightarrow> [Error_frame (exc_msg e)]
         | Inr evs \<Rightarrow>
             (let sent = replay last_id evs in
              if sent \<noteq> [] \<and> is_terminal_payload (ev_data (last sent)) then map Event_frame sent
              else if sent = [] \<and> evs \<noteq> [] \<and> is_terminal_payload (ev_data (last evs)) then [Event_frame (last evs)]
              else map Event_frame sent @ Ready_frame (last_sent last_id sent)
                     # live_frames loads (last_sent last_id sent) polls))"

definition starts_run :: "frame list \<Rightarrow> bool" where
  "starts_run fs \<longleftrightarrow> (\<exists>f \<in> set fs. case f of Ready_frame i \<Rightarrow> True | _ \<Rightarrow> False)"

definition frame_text :: "string \<Rightarrow> bool \<Rightarrow> frame \<Rightarrow> string" where
  "frame_text run resumed f =
     (case f of
        Event_frame ev \<Rightarrow> sse_format (ev_name ev) (ev_data ev) (Some (ev_id ev))
      | Gap_frame d \<Rightarrow> sse_format ''stream.gap'' d None
      | Ready_frame i \<Rightarrow> sse_format ''ready'' [(''run_id'', JStr run), (''resumed'', JBool resumed)] (Some i)
      | Heartbeat now \<Rightarrow> sse_format ''heartbeat'' [(''timestamp'', JInt now)] None
      | Error_frame e \<Rightarrow> sse_format ''error'' [(''error'', JStr e)] None)"

end
