(* ===== verification/EventProps.thy ===== *)
theory EventProps
  imports EventStream JsonText
begin

text \<open>
  What the event channel guarantees: a published event is read back as it was written, a stream
  sends the events after the last one its client has seen, in order and without a hole, or says
  that its history is incomplete; and how a channel that was silent for too long loses events.
\<close>

subsection \<open>Reading back what was published\<close>

lemma hex_digit_no_break: "n < 16 \<Longrightarrow> \<not> is_line_break (hex_digit n)"
proof -
  have "list_all (\<lambda>n. \<not> is_line_break (hex_digit n)) [0..<16]" by code_simp
  then show "n < 16 \<Longrightarrow> \<not> is_line_break (hex_digit n)" by (auto simp: list_all_iff)
qed

lemma breaks_are_control: "is_line_break c \<Longrightarrow> c \<noteq> CHR 0x85 \<Longrightarrow> (of_char c :: nat) < 32"
  by (auto simp: is_line_break_def one_of_def)

lemma json_char_no_break:
  assumes "x \<in> set (json_char c)" and "x \<noteq> CHR 0x85" shows "\<not> is_line_break x"
proof -
  have "(of_char c :: nat) < 256" by (rule nat_of_char_less_256)
  then have dig: "of_char c div 16 < (16::nat)" "of_char c mod 16 < (16::nat)"
    by (simp_all add: less_mult_imp_div_less)
  show ?thesis
  proof (cases "x = c \<and> \<not> (of_char c :: nat) < 32")
    case True
    then show ?thesis using breaks_are_control assms(2) by blast
  next
    case False
    then have "x \<in> {CHR 0x22, CHR 0x5C, CHR ''n'', CHR ''r'', CHR ''t'', CHR ''b'', CHR ''f'', CHR ''u'', CHR ''0'',
        hex_digit (of_char c div 16), hex_digit (of_char c mod 16)}"
      using assms(1) by (auto simp: json_char_def Let_def split: if_splits)
    then show ?thesis using hex_digit_no_break dig by (auto simp: is_line_break_def one_of_def)
  qed
qed

definition breakless :: "string \<Rightarrow> bool" where
  "breakless s \<longleftrightarrow> (\<forall>x \<in> set s. x \<noteq> CHR 0x85 \<longrightarrow> \<not> is_line_break x)"

lemma breakless_simps [simp]:
  "breakless []" "breakless (x # s) \<longleftrightarrow> (x \<noteq> CHR 0x85 \<longrightarrow> \<not> is_line_break x) \<and> breakless s"
  "breakless (s @ t) \<longleftrightarrow> breakless s \<and> breakless t"
  by (auto simp: breakless_def)

lemma json_str_breakless: "breakless (json_str s)"
proof -
  have "breakless (concat (map json_char s))"
    by (induction s) (auto simp: breakless_def json_char_no_break)
  then show ?thesis by (simp add: json_str_def is_line_break_def one_of_def)
qed

lemma nat_str_breakless: "breakless (nat_str n)"
proof -
  have "\<not> is_line_break x" if "x \<in> set (nat_str n)" for x
  proof -
    have "is_digit x" using nat_str_digits[of n] that by (auto simp: list_all_iff)
    then show ?thesis by (auto simp: is_digit_def is_line_break_def one_of_def)
  qed
  then show ?thesis by (simp add: breakless_def)
qed

lemma int_str_breakless: "breakless (int_str i)"
  by (simp add: int_str_def nat_str_breakless is_line_break_def one_of_def)

lemma join_breakless: "breakless sep \<Longrightarrow> (\<And>s. s \<in> set ss \<Longrightarrow> breakless s) \<Longrightarrow> breakless (join_str sep ss)"
  by (induction sep ss rule: join_str.induct) auto

lemma json_dumps_breakless: "breakless (json_dumps v)"
proof (induction v rule: json_dumps.induct)
  case (5 xs)
  then show ?case by (auto simp: is_line_break_def one_of_def intro!: join_breakless)
next
  case (6 d)
  then show ?case
    by (auto simp: is_line_break_def one_of_def json_str_breakless intro!: join_breakless)
qed (auto simp: json_str_breakless int_str_breakless, simp_all add: is_line_break_def one_of_def)

lemma split_lines_at:
  "list_all (\<lambda>c. \<not> is_line_break c) a \<Longrightarrow> is_line_break x \<Longrightarrow>
     split_lines cur (a @ x # r) = (rev cur @ a) # split_lines [] (drop_lf x r)"
proof (induction a arbitrary: cur)
  case (Cons c a)
  from Cons.prems have c: "\<not> is_line_break c" and a: "list_all (\<lambda>c. \<not> is_line_break c) a" by simp_all
  have "split_lines cur ((c # a) @ x # r) = split_lines (c # cur) (a @ x # r)" using c by simp
  also have "\<dots> = (rev (c # cur) @ a) # split_lines [] (drop_lf x r)" by (rule Cons.IH[OF a Cons.prems(2)])
  finally show ?case by simp
qed simp

lemma split_lines_line:
  "list_all (\<lambda>c. \<not> is_line_break c) a \<Longrightarrow> split_lines cur (a @ CHR 0x0A # r) = (rev cur @ a) # split_lines [] r"
  using split_lines_at[of a "CHR 0x0A" cur r] by (simp add: is_line_break_def one_of_def drop_lf_def)
lemma no_breaks: "breakless s \<Longrightarrow> CHR 0x85 \<notin> set s \<Longrightarrow> list_all (\<lambda>c. \<not> is_line_break c) s"
  by (induction s) auto

lemma nat_str_plain: "x \<in> set (nat_str n) \<Longrightarrow> is_digit x"
  using nat_str_digits[of n] by (simp add: list_all_iff)

lemma digits_not: "\<not> is_digit (CHR 0x85)" "\<not> is_digit (CHR ''-'')" "\<not> is_digit (CHR ''+'')"
  by code_simp+

lemma digit_not_space: "is_digit c \<Longrightarrow> \<not> is_space c"
  by (auto simp: is_digit_def is_space_def)

lemma int_str_clean: "list_all (\<lambda>c. \<not> is_line_break c) (int_str i)"
proof (rule no_breaks[OF int_str_breakless])
  show "CHR 0x85 \<notin> set (int_str i)"
    using nat_str_plain[of "CHR 0x85"] digits_not by (auto simp: int_str_def)
qed

lemma parse_digits_of: "list_all is_digit s \<Longrightarrow> b \<or> s \<noteq> [] \<Longrightarrow>
    parse_digits acc b s = Some (foldl (\<lambda>n c. 10 * n + digit_val c) acc s)"
  by (induction s arbitrary: acc b) auto

lemma strip_unspaced: "list_all (\<lambda>c. \<not> is_space c) s \<Longrightarrow> py_strip s = s"
proof -
  have id: "dropWhile is_space t = t" if "list_all (\<lambda>c. \<not> is_space c) t" for t
    using that by (cases t) auto
  assume "list_all (\<lambda>c. \<not> is_space c) s"
  then show ?thesis by (simp add: py_strip_def py_lstrip_def py_rstrip_def id list_all_iff)
qed

lemma parse_int_int_str: "parse_int (int_str i) = Some i"
proof -
  have sp: "list_all (\<lambda>c. \<not> is_space c) (nat_str n)" for n
    using nat_str_plain digit_not_space by (auto simp: list_all_iff)
  have val: "parse_digits 0 False (nat_str n) = Some n" for n
    using parse_digits_of[of "nat_str n" False 0] nat_str_digits[of n] by (simp add: digits_value_def)
  show ?thesis
  proof (cases "i < 0")
    case True
    have "\<not> is_space (CHR ''-'')" by code_simp
    with sp have "py_strip (int_str i) = CHR ''-'' # nat_str (nat (- i))"
      using True by (simp add: int_str_def strip_unspaced)
    then show ?thesis using True val by (simp add: parse_int_def)
  next
    case False
    then have st: "py_strip (int_str i) = nat_str (nat i)" using sp by (simp add: int_str_def strip_unspaced)
    obtain c cs where c: "nat_str (nat i) = c # cs" using nat_str_digits by (cases "nat_str (nat i)") auto
    then have "is_digit c" using nat_str_plain[of c "nat i"] by simp
    then have "c \<noteq> CHR ''-''" "c \<noteq> CHR ''+''" using digits_not by auto
    then show ?thesis using st c val[of "nat i"] False by (simp add: parse_int_def)
  qed
qed

text \<open>The lines of a published event.\<close>

definition plain_name :: "string \<Rightarrow> bool" where
  "plain_name n \<longleftrightarrow> list_all (\<lambda>c. \<not> is_line_break c) n \<and> py_strip n = n"

lemma line_then:
  "list_all (\<lambda>c. \<not> is_line_break c) a \<Longrightarrow> py_splitlines (a @ nl @ r) = a # py_splitlines r"
  using split_lines_line[of a "[]" r] by (simp add: py_splitlines_def)

lemma prefix_clean: "list_all (\<lambda>c. \<not> is_line_break c) ''id: ''" "list_all (\<lambda>c. \<not> is_line_break c) ''event: ''"
  "list_all (\<lambda>c. \<not> is_line_break c) ''data: ''"
  by code_simp+

lemma sse_format_lines:
  assumes "list_all (\<lambda>c. \<not> is_line_break c) name" and "list_all (\<lambda>c. \<not> is_line_break c) (json_dumps (JDict data))"
  shows "py_splitlines (sse_format name data (Some i)) =
    [''id: '' @ int_str i, ''event: '' @ name, ''data: '' @ json_dumps (JDict data), []]"
proof -
  let ?p = "\<lambda>c. \<not> is_line_break c"
  have a: "list_all ?p (''id: '' @ int_str i)" using prefix_clean(1) int_str_clean[of i] by (simp only: list_all_append)
  have b: "list_all ?p (''event: '' @ name)" using prefix_clean(2) assms(1) by (simp only: list_all_append)
  have c: "list_all ?p (''data: '' @ json_dumps (JDict data))" using prefix_clean(3) assms(2) by (simp only: list_all_append)
  have e: "list_all ?p []" by simp
  have "sse_format name data (Some i)
      = (''id: '' @ int_str i) @ nl @ (''event: '' @ name) @ nl @ (''data: '' @ json_dumps (JDict data)) @ nl @ [] @ nl @ []"
    by (simp only: sse_format_def option.case append_assoc append_Nil append_Nil2)
  then show ?thesis
    by (simp only: line_then[OF a] line_then[OF b] line_then[OF c] line_then[OF e])
       (simp add: py_splitlines_def)
qed

lemma published_text_decodes:
  assumes "plain_name name" and "CHR 0x85 \<notin> set (json_dumps (JDict data))"
    and "loads (json_dumps (JDict data)) = Inr (JDict data)"
  shows "decode_published_event loads (sse_format name data (Some i)) =
    Some \<lparr>ev_id = i, ev_name = name, ev_data = data\<rparr>"
proof -
  have lines: "py_splitlines (sse_format name data (Some i)) =
      [''id: '' @ int_str i, ''event: '' @ name, ''data: '' @ json_dumps (JDict data), []]"
    using assms(1) no_breaks[OF json_dumps_breakless assms(2)] by (simp add: sse_format_lines plain_name_def)
  show ?thesis
    using assms(1,3) by (simp add: decode_published_event_def lines parse_int_int_str plain_name_def)
qed

text \<open>
  C0: a published event is read back as it was written.  The text \<open>sse_format\<close> makes of an event
  (its number, its name and its payload) is decoded by \<open>_decode_published_event\<close> to the same number,
  name and payload, for every number, every name that is one stripped line and every payload
  \<open>json.loads\<close> reads back, unless the payload's text has the character U+0085.
\<close>

theorem published_event_decodes:
  assumes "plain_name name" and "CHR 0x85 \<notin> set (json_dumps (JDict data))"
    and "loads (json_dumps (JDict data)) = Inr (JDict data)"
  shows "decode_published_event loads (sse_format name data (Some i)) =
    Some \<lparr>ev_id = i, ev_name = name, ev_data = data\<rparr>"
  using assms by (rule published_text_decodes)

text \<open>A \<open>json.loads\<close> that reads two payloads and refuses every other text.\<close>

definition demo_payloads :: "dict list" where
  "demo_payloads = [[(''status'', JStr ''running'')], [(''status'', JStr ''completed'')]]"

definition demo_loads :: "string \<Rightarrow> json py" where
  "demo_loads s =
     (case List.find (\<lambda>d. json_dumps (JDict d) = s) demo_payloads of
        Some d \<Rightarrow> Inr (JDict d)
      | None \<Rightarrow> Inl (Exc ''JSONDecodeError'' ''Expecting value''))"

lemma published_event_decodes_witness:
  "decode_published_event demo_loads (sse_format ''message'' [(''status'', JStr ''completed'')] (Some 12)) =
     Some \<lparr>ev_id = 12, ev_name = ''message'', ev_data = [(''status'', JStr ''completed'')]\<rparr>"
proof (rule published_event_decodes)
  show "plain_name ''message''" by code_simp
  show "CHR 0x85 \<notin> set (json_dumps (JDict [(''status'', JStr ''completed'')]))" by code_simp
  show "demo_loads (json_dumps (JDict [(''status'', JStr ''completed'')])) = Inr (JDict [(''status'', JStr ''completed'')])"
    by code_simp
qed

text \<open>
  a line break inside a payload loses the event.  \<open>json.dumps\<close> leaves U+0085 as it is, and
  \<open>_decode_published_event\<close> cuts the text with \<open>str.splitlines\<close>, which breaks a line there: when
  \<open>json.loads\<close> refuses the half of the payload before the character, a live stream drops the event and
  goes on waiting, even when the event is the one that ends the run.
\<close>

theorem unicode_break_loses_event:
  assumes "plain_name name" and "json_dumps (JDict data) = a @ CHR 0x85 # b" and "CHR 0x85 \<notin> set a"
    and "loads a = Inl e"
  shows "live_frames loads last_id (Published (sse_format name data (Some i)) # polls) = live_frames loads last_id polls"
proof -
  let ?p = "\<lambda>c. \<not> is_line_break c"
  have "breakless (a @ CHR 0x85 # b)" using json_dumps_breakless[of "JDict data"] by (simp only: assms(2))
  then have "breakless a" by simp
  then have ca: "list_all ?p a" using assms(3) by (rule no_breaks)
  have l1: "list_all ?p (''id: '' @ int_str i)" using prefix_clean(1) int_str_clean[of i] by (simp only: list_all_append)
  have l2: "list_all ?p (''event: '' @ name)"
    using prefix_clean(2) assms(1) by (simp only: list_all_append plain_name_def)
  have l3: "list_all ?p (''data: '' @ a)" using prefix_clean(3) ca by (simp only: list_all_append)
  have cut: "py_splitlines (x @ CHR 0x85 # r) = x # py_splitlines r" if "list_all ?p x" for x r
  proof -
    have brk: "is_line_break (CHR 0x85)" by code_simp
    have lf: "drop_lf (CHR 0x85) r = r" by (simp add: drop_lf_def)
    show ?thesis using split_lines_at[OF that brk, of "[]" r] by (simp only: py_splitlines_def lf rev.simps append_Nil)
  qed
  have "sse_format name data (Some i)
      = (''id: '' @ int_str i) @ nl @ (''event: '' @ name) @ nl @ (''data: '' @ a) @ CHR 0x85 # (b @ nl @ nl)"
    by (simp only: sse_format_def option.case assms(2) append_assoc append_Cons append_Nil)
  then have lines: "py_splitlines (sse_format name data (Some i)) =
      (''id: '' @ int_str i) # (''event: '' @ name) # (''data: '' @ a) # py_splitlines (b @ nl @ nl)"
    by (simp only: line_then[OF l1] line_then[OF l2] cut[OF l3])
  have "decode_published_event loads (sse_format name data (Some i)) = None"
    using assms(4) by (simp add: decode_published_event_def lines parse_int_int_str)
  then show ?thesis by simp
qed

lemma unicode_break_loses_event_witness:
  "live_frames demo_loads 4
     (Published (sse_format ''message'' [(''content'', JStr [CHR ''a'', CHR 0x85, CHR ''b'']), (''status'', JStr ''completed'')]
        (Some 5)) # [Quiet 9]) = live_frames demo_loads 4 [Quiet 9]"
proof (rule unicode_break_loses_event)
  show "plain_name ''message''" by code_simp
  show "json_dumps (JDict [(''content'', JStr [CHR ''a'', CHR 0x85, CHR ''b'']), (''status'', JStr ''completed'')]) =
      (''{'' @ json_str ''content'' @ '': '' @ [CHR 0x22, CHR ''a''])
      @ CHR 0x85 # (CHR ''b'' # CHR 0x22 # '', '' @ json_str ''status'' @ '': '' @ json_str ''completed'' @ ''}'')" by code_simp
  show "CHR 0x85 \<notin> set (''{'' @ json_str ''content'' @ '': '' @ [CHR 0x22, CHR ''a''])" by code_simp
  show "demo_loads (''{'' @ json_str ''content'' @ '': '' @ [CHR 0x22, CHR ''a'']) =
      Inl (Exc ''JSONDecodeError'' ''Expecting value'')" by code_simp
qed

subsection \<open>Publishing appends\<close>

lemma map_of_delete [simp]: "map_of (AList.delete k xs) k' = (if k' = k then None else map_of xs k')"
  by (simp add: AList.delete_conv')

lemma alive_simps [simp]:
  "alive (set_value k v r) k' = alive r k'" "alive (set_list k l r) k' = alive r k'"
  "alive (set_expire k s r) k' = (if k' = k then 0 < s else alive r k')"
  "alive (revive k r) k' = (k' = k \<or> alive r k')"
  by (auto simp: alive_def set_value_def set_list_def set_expire_def revive_def update_conv' split: option.splits)

lemma value_of_simps [simp]:
  "value_of (set_value k v r) k' = (if k' = k then (if alive r k then Some v else None) else value_of r k')"
  "value_of (set_list k l r) k' = value_of r k'"
  "value_of (revive k r) k' = value_of r k'"
  by (auto simp: value_of_def set_value_def set_list_def revive_def update_conv' alive_def split: option.splits)

lemma list_of_simps [simp]:
  "list_of (set_list k l r) k' = (if k' = k then (if alive r k then l else []) else list_of r k')"
  "list_of (set_value k v r) k' = list_of r k'"
  "list_of (revive k r) k' = list_of r k'"
  by (auto simp: list_of_def set_value_def set_list_def revive_def update_conv' alive_def split: option.splits)

lemma expire_alive [simp]:
  "alive r k \<Longrightarrow> 0 < s \<Longrightarrow> value_of (set_expire k s r) k' = value_of r k'"
  "alive r k \<Longrightarrow> 0 < s \<Longrightarrow> list_of (set_expire k s r) k' = list_of r k'"
  by (auto simp: value_of_def list_of_def alive_def set_expire_def update_conv' split: option.splits)

lemma expire_other [simp]:
  "k' \<noteq> k \<Longrightarrow> value_of (set_expire k s r) k' = value_of r k'"
  "k' \<noteq> k \<Longrightarrow> list_of (set_expire k s r) k' = list_of r k'"
  by (auto simp: value_of_def list_of_def alive_def set_expire_def update_conv' split: option.splits)

lemma channel_keys [simp]:
  "events_key c \<noteq> sequence_key c" "sequence_key c \<noteq> events_key c"
  "events_key c \<noteq> run_conversation_key (drop 4 c)" "sequence_key c \<noteq> run_conversation_key (drop 4 c)"
proof -
  have l: "length (events_key c) = length c + 7" "length (sequence_key c) = length c + 9"
    "length (run_conversation_key (drop 4 c)) = 17 + (length c - 4)"
    by (simp_all add: events_key_def sequence_key_def run_conversation_key_def)
  then have "length (events_key c) \<noteq> length (sequence_key c)" by simp
  then show "events_key c \<noteq> sequence_key c" "sequence_key c \<noteq> events_key c" by metis+
  have "length (events_key c) \<noteq> length (run_conversation_key (drop 4 c))" using l by linarith
  then show "events_key c \<noteq> run_conversation_key (drop 4 c)" by metis
  have "length (sequence_key c) \<noteq> length (run_conversation_key (drop 4 c))" using l by linarith
  then show "sequence_key c \<noteq> run_conversation_key (drop 4 c)" by metis
qed

text \<open>The counter, and a store that answers with nobody else using it.\<close>

definition counter_of :: "redis \<Rightarrow> string \<Rightarrow> int" where
  "counter_of r k = (case value_of r k of None \<Rightarrow> 0 | Some v \<Rightarrow> (case parse_int v of None \<Rightarrow> 0 | Some i \<Rightarrow> i))"

definition calm :: redis_env where
  "calm = \<lparr>re_fails = (\<lambda>n. None), re_others = (\<lambda>n r. r)\<rparr>"

lemma redis_calls_simps [simp]:
  "value_of (r\<lparr>rd_calls := n\<rparr>) k = value_of r k" "list_of (r\<lparr>rd_calls := n\<rparr>) k = list_of r k"
  "alive (r\<lparr>rd_calls := n\<rparr>) k = alive r k" "counter_of (r\<lparr>rd_calls := n\<rparr>) k = counter_of r k"
  "value_of (r\<lparr>rd_published := m\<rparr>) k = value_of r k" "list_of (r\<lparr>rd_published := m\<rparr>) k = list_of r k"
  "alive (r\<lparr>rd_published := m\<rparr>) k = alive r k"
  by (simp_all add: value_of_def list_of_def alive_def counter_of_def cong: option.case_cong)

lemma redis_published_simps [simp]:
  "rd_published (set_value k v r) = rd_published r" "rd_published (set_list k l r) = rd_published r"
  "rd_published (set_expire k s r) = rd_published r" "rd_published (revive k r) = rd_published r"
  "rd_now (set_value k v r) = rd_now r" "rd_now (set_list k l r) = rd_now r"
  "rd_now (set_expire k s r) = rd_now r" "rd_now (revive k r) = rd_now r"
  by (simp_all add: set_value_def set_list_def set_expire_def revive_def)

lemma redis_incr_is:
  "redis_incr k r = (counter_of r k + 1, set_value k (int_str (counter_of r k + 1)) (revive k r))"
proof -
  have "map_of (rd_values (revive k r)) k = value_of r k" by (simp add: revive_def value_of_def)
  then show ?thesis by (simp add: redis_incr_def Let_def counter_of_def add.commute)
qed

lemma redis_call_calm: "redis_call calm f r = (case f (r\<lparr>rd_calls := Suc (rd_calls r)\<rparr>) of (a, r') \<Rightarrow> (Inr a, r'))"
  by (simp add: redis_call_def calm_def Let_def)

lemma published_effect:
  fixes r :: redis
  assumes "strip_integration_meta_keys p = Inr d" and "n = counter_of r (sequence_key c) + 1"
  obtains r' where "publish_event calm c e p r = (Inr (), r')"
    and "value_of r' (sequence_key c) = Some (int_str n)"
    and "list_of r' (events_key c) = last_n SSE_EVENT_BUFFER_LIMIT (list_of r (events_key c) @ [buffered_text n e d])"
    and "rd_published r' = rd_published r @ [(c, sse_format e d (Some n))]"
    and "map_of (rd_deadlines r') (sequence_key c) = Some (rd_now r + SSE_EVENT_TTL_SECONDS)"
    and "rd_now r' = rd_now r"
proof -
  let ?q = "sequence_key c" and ?k = "events_key c"
  define r1 where "r1 = set_value ?q (int_str n) (revive ?q (r\<lparr>rd_calls := Suc (rd_calls r)\<rparr>))"
  define r2 where "r2 = publish_transaction c (buffered_text n e d) (sse_format e d (Some n)) (r1\<lparr>rd_calls := Suc (rd_calls r1)\<rparr>)"
  have run: "publish_event calm c e p r = (Inr (), r2)"
    by (simp add: publish_event_def assms(1) redis_call_calm redis_incr_is assms(2)[symmetric]
        r1_def[symmetric] r2_def[symmetric] bindW_def lift_def catchW_def)
  have ttl: "0 < SSE_EVENT_TTL_SECONDS" by (simp add: SSE_EVENT_TTL_SECONDS_def)
  have "value_of r2 ?q = Some (int_str n)"
    by (simp add: r2_def r1_def publish_transaction_def Let_def ttl)
  moreover have "list_of r2 ?k = last_n SSE_EVENT_BUFFER_LIMIT (list_of r ?k @ [buffered_text n e d])"
    by (simp add: r2_def r1_def publish_transaction_def Let_def ttl)
  moreover have "rd_published r2 = rd_published r @ [(c, sse_format e d (Some n))]"
    by (simp add: r2_def r1_def publish_transaction_def Let_def)
  moreover have "map_of (rd_deadlines r2) ?q = Some (rd_now r + SSE_EVENT_TTL_SECONDS)"
    by (simp add: r2_def r1_def publish_transaction_def Let_def set_expire_def update_conv' set_value_def set_list_def revive_def)
  moreover have "rd_now r2 = rd_now r"
    by (simp add: r2_def r1_def publish_transaction_def Let_def)
  ultimately show ?thesis using that run by blast
qed

subsection \<open>The contract of a channel\<close>

text \<open>What is sent ends a stream when its last entry is a \<open>workflow_complete\<close> with a terminal status.\<close>

definition closes :: "string \<Rightarrow> (string \<times> string) list \<Rightarrow> bool" where
  "closes c entries \<longleftrightarrow>
     (\<exists>pre d n. entries = pre @ [(c, sse_format ''workflow_complete'' d (Some n))] \<and> is_terminal_payload d)"

text \<open>
  What a channel promises those who publish on it: an event whose payload can be cleaned is sent, numbered, after
  everything sent before. The workflow, its stop and the recovery of its operations are clients.
\<close>

locale channel_log =
  fixes send :: "string \<Rightarrow> string \<Rightarrow> dict \<Rightarrow> ('s, unit) st"
    and entries :: "'s \<Rightarrow> (string \<times> string) list"
  assumes send_appends: "strip_integration_meta_keys p = Inr d \<Longrightarrow>
    \<exists>s' n. send c e p s = (Inr (), s') \<and> entries s' = entries s @ [(c, sse_format e d (Some n))]"
begin

lemma send_result:
  assumes "strip_integration_meta_keys p = Inr d" and "send c e p s = (r, s')"
  shows "r = Inr () \<and> (\<exists>n. entries s' = entries s @ [(c, sse_format e d (Some n))])"
proof -
  obtain s1 n where "send c e p s = (Inr (), s1)" "entries s1 = entries s @ [(c, sse_format e d (Some n))]"
    using send_appends[OF assms(1), of c e s] by blast
  with assms(2) show ?thesis by auto
qed

lemma send_closes:
  assumes "strip_integration_meta_keys p = Inr d" and "is_terminal_payload d"
    and "send c ''workflow_complete'' p s = (r, s')"
  shows "r = Inr () \<and> closes c (entries s')"
  using send_result[OF assms(1,3)] assms(2) unfolding closes_def by blast

lemma send_then_closes:
  assumes "strip_integration_meta_keys p = Inr d" and "strip_integration_meta_keys q = Inr f" and "is_terminal_payload f"
    and "bindW (send c e p) (\<lambda>_. send c ''workflow_complete'' q) s = (r, s')"
  shows "r = Inr () \<and> closes c (entries s')"
proof -
  obtain x s1 where first: "send c e p s = (x, s1)" by (cases "send c e p s")
  then have "send c ''workflow_complete'' q s1 = (r, s')"
    using assms(4) send_result[OF assms(1) first] by (simp add: bindW_def)
  then show ?thesis by (rule send_closes[OF assms(2,3)])
qed

end

text \<open>Redis provides it while nothing fails.\<close>

interpretation redis_log: channel_log "publish_event calm" rd_published
proof unfold_locales
  fix p d c e s
  assume "strip_integration_meta_keys p = Inr d"
  from published_effect[OF this refl, of c e s]
  show "\<exists>s' n. publish_event calm c e p s = (Inr (), s') \<and> rd_published s' = rd_published s @ [(c, sse_format e d (Some n))]"
    by metis
qed

text \<open>
  a channel that was silent for its lifetime loses the events that follow.  The counter of a
  channel lives \<open>SSE_EVENT_TTL_SECONDS\<close> after the last publication.  When two events of a run are
  published with at least that time between them and nothing fails, the second one is numbered 1
  again: a client that has stayed connected and got the first one drops the second.
\<close>

theorem silent_channel_loses_events:
  assumes "strip_integration_meta_keys p1 = Inr d1" and "strip_integration_meta_keys p2 = Inr d2"
    and "plain_name e1" and "plain_name e2"
    and "CHR 0x85 \<notin> set (json_dumps (JDict d1))" and "CHR 0x85 \<notin> set (json_dumps (JDict d2))"
    and "loads (json_dumps (JDict d1)) = Inr (JDict d1)" and "loads (json_dumps (JDict d2)) = Inr (JDict d2)"
    and "n = counter_of r (sequence_key c)" and "0 \<le> n" and "\<not> is_terminal_payload d1"
    and "SSE_EVENT_TTL_SECONDS \<le> secs"
    and "publish_event calm c e1 p1 r = (x, r1)"
    and "publish_event calm c e2 p2 (r1\<lparr>rd_now := rd_now r1 + secs\<rparr>) = (y, r2)"
  shows "rd_published r2 = rd_published r
           @ [(c, sse_format e1 d1 (Some (n + 1))), (c, sse_format e2 d2 (Some 1))]
    \<and> live_frames loads n [Published (sse_format e1 d1 (Some (n + 1))), Published (sse_format e2 d2 (Some 1))] =
        [Event_frame \<lparr>ev_id = n + 1, ev_name = e1, ev_data = d1\<rparr>]"
proof -
  obtain r1' where first: "publish_event calm c e1 p1 r = (Inr (), r1')"
      "rd_published r1' = rd_published r @ [(c, sse_format e1 d1 (Some (n + 1)))]"
      "map_of (rd_deadlines r1') (sequence_key c) = Some (rd_now r + SSE_EVENT_TTL_SECONDS)" "rd_now r1' = rd_now r"
    using published_effect[OF assms(1), of "n + 1" r c e1] assms(9) by metis
  then have r1: "r1 = r1'" using assms(13) by simp
  define s where "s = r1\<lparr>rd_now := rd_now r1 + secs\<rparr>"
  have "\<not> alive s (sequence_key c)" using first(3,4) assms(12) by (simp add: alive_def s_def r1)
  then have "counter_of s (sequence_key c) = 0" by (simp add: counter_of_def value_of_def)
  then obtain r2' where second: "publish_event calm c e2 p2 s = (Inr (), r2')"
      "rd_published r2' = rd_published s @ [(c, sse_format e2 d2 (Some 1))]"
    using published_effect[OF assms(2), of 1 s c e2] by (metis add_0)
  then have "r2 = r2'" using assms(14) by (simp add: s_def)
  then have "rd_published r2 = rd_published r
      @ [(c, sse_format e1 d1 (Some (n + 1))), (c, sse_format e2 d2 (Some 1))]"
    using second(2) first(2) by (simp add: s_def r1)
  moreover have "live_frames loads n [Published (sse_format e1 d1 (Some (n + 1))), Published (sse_format e2 d2 (Some 1))] =
      [Event_frame \<lparr>ev_id = n + 1, ev_name = e1, ev_data = d1\<rparr>]"
    using assms(10,11)
    by (simp add: published_text_decodes[where loads = loads, OF assms(3) assms(5) assms(7)]
        published_text_decodes[where loads = loads, OF assms(4) assms(6) assms(8)])
  ultimately show ?thesis by blast
qed

definition demo_redis :: redis where
  "demo_redis = \<lparr>rd_lists = [], rd_values = [], rd_deadlines = [], rd_published = [], rd_now = 0, rd_calls = 0\<rparr>"

lemma silent_channel_loses_events_witness:
  "rd_published (snd (publish_event calm ''run:r1'' ''message'' [(''status'', JStr ''completed'')]
       ((snd (publish_event calm ''run:r1'' ''message'' [(''status'', JStr ''running'')] demo_redis))\<lparr>rd_now := 900\<rparr>))) =
     [(''run:r1'', sse_format ''message'' [(''status'', JStr ''running'')] (Some (0 + 1))),
      (''run:r1'', sse_format ''message'' [(''status'', JStr ''completed'')] (Some 1))]
   \<and> live_frames demo_loads 0
       [Published (sse_format ''message'' [(''status'', JStr ''running'')] (Some (0 + 1))),
        Published (sse_format ''message'' [(''status'', JStr ''completed'')] (Some 1))] =
       [Event_frame \<lparr>ev_id = 0 + 1, ev_name = ''message'', ev_data = [(''status'', JStr ''running'')]\<rparr>]"
proof -
  let ?run = "[(''status'', JStr ''running'')]" and ?final = "[(''status'', JStr ''completed'')]"
  define r1 where "r1 = snd (publish_event calm ''run:r1'' ''message'' ?run demo_redis)"
  have p: "strip_integration_meta_keys ?run = Inr ?run" "strip_integration_meta_keys ?final = Inr ?final"
    by (simp_all add: strip_integration_meta_keys_def)
  have c: "0 = counter_of demo_redis (sequence_key ''run:r1'')"
    by (simp add: counter_of_def value_of_def demo_redis_def)
  obtain r1' where "publish_event calm ''run:r1'' ''message'' ?run demo_redis = (Inr (), r1')" "rd_now r1' = 0"
    using published_effect[OF p(1), of "0 + 1" demo_redis "''run:r1''" "''message''"] c by (auto simp: demo_redis_def)
  then have r1: "publish_event calm ''run:r1'' ''message'' ?run demo_redis = (Inr (), r1)" "rd_now r1 = 0"
    by (simp_all add: r1_def)
  have n: "plain_name ''message''" by code_simp
  have b: "CHR 0x85 \<notin> set (json_dumps (JDict ?run))" "CHR 0x85 \<notin> set (json_dumps (JDict ?final))" by code_simp+
  have l: "demo_loads (json_dumps (JDict ?run)) = Inr (JDict ?run)" "demo_loads (json_dumps (JDict ?final)) = Inr (JDict ?final)"
    by code_simp+
  have live: "\<not> is_terminal_payload ?run" by code_simp
  have two: "publish_event calm ''run:r1'' ''message'' ?final (r1\<lparr>rd_now := rd_now r1 + 900\<rparr>) =
      (fst (publish_event calm ''run:r1'' ''message'' ?final (r1\<lparr>rd_now := 900\<rparr>)),
       snd (publish_event calm ''run:r1'' ''message'' ?final (r1\<lparr>rd_now := 900\<rparr>)))" by (simp add: r1(2))
  have "SSE_EVENT_TTL_SECONDS \<le> 900" by (simp add: SSE_EVENT_TTL_SECONDS_def)
  note lost = silent_channel_loses_events[OF p n n b l c order_refl live this r1(1) two]
  have "rd_published demo_redis = []" by (simp add: demo_redis_def)
  then show ?thesis using lost by (simp only: r1_def[symmetric] append_Nil r1(2) add_0)
qed

subsection \<open>A resumed stream has no hole\<close>

text \<open>The channel as the list of what was published on it: the events numbered from 1.\<close>

fun numbered :: "int \<Rightarrow> (string \<times> dict) list \<Rightarrow> stream_event list" where
  "numbered i [] = []"
| "numbered i ((e, d) # es) = \<lparr>ev_id = i, ev_name = e, ev_data = d\<rparr> # numbered (i + 1) es"

definition event_text :: "stream_event \<Rightarrow> string" where
  "event_text ev = buffered_text (ev_id ev) (ev_name ev) (ev_data ev)"

definition channel_holds :: "string \<Rightarrow> (string \<times> dict) list \<Rightarrow> redis \<Rightarrow> bool" where
  "channel_holds c es r \<longleftrightarrow>
     value_of r (sequence_key c) = (if es = [] then None else Some (int_str (int (length es)))) \<and>
     list_of r (events_key c) = last_n SSE_EVENT_BUFFER_LIMIT (map event_text (numbered 1 es))"


lemma numbered_length [simp]: "length (numbered i es) = length es"
  by (induction i es rule: numbered.induct) simp_all




lemma numbered_drop: "drop k (numbered i es) = numbered (i + int k) (drop k es)"
proof (induction k arbitrary: i es)
  case (Suc k)
  show ?case
  proof (cases es)
    case (Cons a as)
    then show ?thesis using Suc.IH[of "i + 1" as] by (cases a) (simp add: algebra_simps)
  qed simp
qed simp

lemma replay_numbered: "i \<le> j + 1 \<Longrightarrow> replay j (numbered i es) = drop (nat (j + 1 - i)) (numbered i es)"
proof (induction i es arbitrary: j rule: numbered.induct)
  case (2 i e d es)
  show ?case
  proof (cases "i \<le> j")
    case True
    then have "nat (j + 1 - i) = Suc (nat (j + 1 - (i + 1)))" by (simp add: nat_diff_distrib Suc_nat_eq_nat_zadd1)
    then show ?thesis using True "2.IH"[of j] by simp
  next
    case False
    then have "i = j + 1" using "2.prems" by simp
    then show ?thesis using "2.IH"[of "j + 1"] by simp
  qed
qed simp

text \<open>Every text on the channel is read back by \<open>json.loads\<close>.\<close>

definition reads_events :: "(string \<Rightarrow> json py) \<Rightarrow> stream_event list \<Rightarrow> bool" where
  "reads_events loads evs \<longleftrightarrow>
     list_all (\<lambda>ev. loads (event_text ev) =
       Inr (JDict [(''id'', JInt (ev_id ev)), (''event'', JStr (ev_name ev)), (''data'', JDict (ev_data ev))])) evs"

definition event_entry :: "stream_event \<Rightarrow> dict" where
  "event_entry ev = [(''id'', JInt (ev_id ev)), (''event'', JStr (ev_name ev)), (''data'', JDict (ev_data ev))]"

lemma decode_texts: "reads_events loads evs \<Longrightarrow>
    List.map_filter (decode_buffered_event loads) (map event_text evs) = map event_entry evs"
  by (induction evs)
     (simp_all add: reads_events_def map_filter_simps decode_buffered_event_def event_entry_def int_value_def)

lemma entry_event: "buffered_event (event_entry ev) = Inr ev"
  by (simp add: buffered_event_def event_entry_def subscript_def int_value_def)

lemma entry_events: "each_py buffered_event (map event_entry evs) = Inr evs"
  by (induction evs) (simp_all add: entry_event)

lemma entry_id: "int_value (dget (event_entry ev) ''id'') = Some (ev_id ev)"
  by (simp add: event_entry_def int_value_def)

text \<open>What the list keeps when these events were pushed on it, in the order of their numbers, since it was empty.\<close>

definition buffer_holds :: "string \<Rightarrow> (string \<times> dict) list \<Rightarrow> redis \<Rightarrow> bool" where
  "buffer_holds c es r \<longleftrightarrow> list_of r (events_key c) = last_n SSE_EVENT_BUFFER_LIMIT (map event_text (numbered 1 es))"

lemma stream_of_channel:
  assumes "buffer_holds c es r" and "reads_events loads (numbered 1 es)"
    and "counter_of r' (sequence_key c) = int n" and "length es \<le> n"
  defines "k \<equiv> length es - SSE_EVENT_BUFFER_LIMIT"
  defines "evs \<equiv> numbered (1 + int k) (drop k es)"
  shows "stream_frames loads run (int j) (list_of r (events_key c)) (value_of r' (sequence_key c)) polls =
    (if j < n \<and> (es = [] \<or> j < k)
     then [Gap_frame (gap_payload run (int j) (if es = [] then None else Some (1 + int k)) (int n))]
     else let sent = replay (int j) evs in
       if sent \<noteq> [] \<and> is_terminal_payload (ev_data (last sent)) then map Event_frame sent
       else if sent = [] \<and> evs \<noteq> [] \<and> is_terminal_payload (ev_data (last evs)) then [Event_frame (last evs)]
       else map Event_frame sent @ Ready_frame (last_sent (int j) sent) # live_frames loads (last_sent (int j) sent) polls)"
proof -
  have evs: "last_n SSE_EVENT_BUFFER_LIMIT (numbered 1 es) = evs"
    by (simp add: last_n_def evs_def k_def numbered_drop)
  have "reads_events loads evs"
    using assms(2) by (simp add: evs[symmetric] reads_events_def last_n_def list_all_iff in_set_dropD)
  moreover have "list_of r (events_key c) = map event_text evs"
    using assms(1) by (simp add: buffer_holds_def evs[symmetric] last_n_def drop_map)
  ultimately have decoded: "List.map_filter (decode_buffered_event loads) (list_of r (events_key c)) = map event_entry evs"
    by (simp add: decode_texts)
  have oldest: "(case map event_entry evs of [] \<Rightarrow> None | d # _ \<Rightarrow> int_value (dget d ''id'')) =
      (if es = [] then None else Some (1 + int k))"
  proof (cases "drop k es")
    case Nil
    then have "length es \<le> k" by simp
    moreover have "k = length es - 1000" by (simp add: k_def SSE_EVENT_BUFFER_LIMIT_def)
    ultimately have "length es = 0" by linarith
    then have "es = []" by simp
    then show ?thesis by (simp add: evs_def)
  next
    case (Cons a as)
    then have "es \<noteq> []" by auto
    then show ?thesis using Cons by (cases a) (simp add: evs_def entry_id)
  qed
  have latest: "(case value_of r' (sequence_key c) of None \<Rightarrow> 0
      | Some v \<Rightarrow> (case parse_int v of None \<Rightarrow> 0 | Some n \<Rightarrow> n)) = int n"
    using assms(3) by (simp add: counter_of_def)
  have gap: "has_event_history_gap (int j) (if es = [] then None else Some (1 + int k)) (int n) \<longleftrightarrow> j < n \<and> (es = [] \<or> j < k)"
    by (auto simp: has_event_history_gap_def)
  have pos: "max 0 (int j) = int j" by simp
  show ?thesis
  proof (cases "j < n \<and> (es = [] \<or> j < k)")
    case True
    then show ?thesis by (simp add: stream_frames_def decoded oldest latest gap pos Let_def)
  next
    case False
    then have "\<not> has_event_history_gap (int j) (if es = [] then None else Some (1 + int k)) (int n)" using gap by blast
    then show ?thesis
      unfolding stream_frames_def Let_def decoded oldest latest pos entry_events if_not_P[OF False] by simp
  qed
qed

text \<open>The events among the frames, the texts a subscription brings, and a stream up to its end.\<close>

definition events_sent :: "frame list \<Rightarrow> stream_event list" where
  "events_sent = List.map_filter (\<lambda>f. case f of Event_frame ev \<Rightarrow> Some ev | _ \<Rightarrow> None)"

definition texts_polled :: "stream_poll list \<Rightarrow> string list" where
  "texts_polled = List.map_filter (\<lambda>p. case p of Published raw \<Rightarrow> Some raw | _ \<Rightarrow> None)"

fun upto_terminal :: "stream_event list \<Rightarrow> stream_event list" where
  "upto_terminal [] = []"
| "upto_terminal (ev # evs) = ev # (if is_terminal_payload (ev_data ev) then [] else upto_terminal evs)"

definition published_text :: "stream_event \<Rightarrow> string" where
  "published_text ev = sse_format (ev_name ev) (ev_data ev) (Some (ev_id ev))"

definition reads_published :: "(string \<Rightarrow> json py) \<Rightarrow> stream_event list \<Rightarrow> bool" where
  "reads_published loads evs \<longleftrightarrow>
     list_all (\<lambda>ev. decode_published_event loads (published_text ev) = Some ev) evs"

lemma events_sent_simps [simp]:
  "events_sent [] = []" "events_sent (Event_frame ev # fs) = ev # events_sent fs"
  "events_sent (Ready_frame i # fs) = events_sent fs" "events_sent (Heartbeat t # fs) = events_sent fs"
  "events_sent (map Event_frame evs @ fs) = evs @ events_sent fs" "events_sent (map Event_frame evs) = evs"
  by (simp_all add: events_sent_def List.map_filter_simps) (induction evs; simp add: List.map_filter_simps)+

lemma texts_polled_simps [simp]:
  "texts_polled [] = []" "texts_polled (Published raw # ps) = raw # texts_polled ps"
  "texts_polled (Quiet t # ps) = texts_polled ps" "texts_polled (Other_message # ps) = texts_polled ps"
  by (simp_all add: texts_polled_def List.map_filter_simps)

lemma live_sends:
  assumes "Gone \<notin> set polls" and "texts_polled polls = map published_text evs" and "reads_published loads evs"
  shows "events_sent (live_frames loads m polls) = upto_terminal (replay m evs)"
  using assms
proof (induction polls arbitrary: m evs)
  case (Cons p ps)
  show ?case
  proof (cases p)
    case (Published raw)
    then obtain ev evs' where evs: "evs = ev # evs'" "raw = published_text ev" "texts_polled ps = map published_text evs'"
      using Cons.prems(2) by (cases evs) auto
    have "decode_published_event loads raw = Some ev" using Cons.prems(3) evs by (simp add: reads_published_def)
    then show ?thesis using Cons evs Published by (auto simp: reads_published_def)
  qed (use Cons in auto)
qed simp

lemma numbered_Nil [simp]: "numbered i es = [] \<longleftrightarrow> es = []"
  using numbered_length[of i es] by (metis length_0_conv)

lemma numbered_last: "es \<noteq> [] \<Longrightarrow> ev_id (last (numbered i es)) = i + int (length es) - 1"
  by (induction i es rule: numbered.induct) auto

lemma numbered_data: "es \<noteq> [] \<Longrightarrow> ev_data (last (numbered i es)) = snd (last es)"
  by (induction i es rule: numbered.induct) auto

lemma replay_drop: assumes "s \<le> m" shows "replay (int m) (drop s (numbered 1 es)) = drop m (numbered 1 es)"
proof -
  have le: "1 + int s \<le> int m + 1" and n: "nat (int m + 1 - (1 + int s)) = m - s" using assms by simp_all
  have "replay (int m) (drop s (numbered 1 es)) = drop (m - s) (drop s (numbered 1 es))"
    using replay_numbered[OF le, of "drop s es"] by (simp only: numbered_drop n)
  then show ?thesis using assms by simp
qed

text \<open>
  C22: a stream resumes without a hole, or says that there is one.  The events of a channel are numbered from 1
  since its keys last expired, and pushed and published in the order of their numbers; \<open>es\<close> are those pushed when the
  list is read, the counter is read later and may be ahead of them, and the subscription, made before, brings every
  event after the first \<open>s\<close> while the client stays. Every text can be read back by \<open>json.loads\<close>. A client that has
  seen the first \<open>j\<close> gets one gap frame exactly when the counter is beyond \<open>j\<close> and either nothing was pushed yet (lemma
  \<open>counted_event_taken_for_gap\<close>) or more than \<open>SSE_EVENT_BUFFER_LIMIT\<close> events after the \<open>j\<close>-th were. Otherwise it gets
  the events after the \<open>j\<close>-th, all of them and each once, in order and under their numbers, from the list and then
  live, until the event that ends the run; when the list ends with that event the stream ends there, and sends it
  again to a client that had seen it. Not covered: a number from before the keys expired (lemma
  \<open>silent_channel_loses_events\<close>), publications that overtake each other (lemma \<open>overtaken_event_lost\<close>).
\<close>

theorem resumed_stream_complete:
  assumes "buffer_holds c es r" and "counter_of r' (sequence_key c) = int n" and "length es \<le> n"
    and "Gone \<notin> set polls" and "texts_polled polls = map published_text (drop s (numbered 1 (es @ later)))" and "s \<le> length es"
    and "reads_events loads (numbered 1 es)" and "reads_published loads (numbered 1 (es @ later))"
    and "frames = stream_frames loads run (int j) (list_of r (events_key c)) (value_of r' (sequence_key c)) polls"
  shows "if j < n \<and> (es = [] \<or> SSE_EVENT_BUFFER_LIMIT + j < length es)
    then frames = [Gap_frame (gap_payload run (int j)
      (if es = [] then None else Some (1 + int (length es - SSE_EVENT_BUFFER_LIMIT))) (int n))]
    else events_sent frames =
      (if es \<noteq> [] \<and> is_terminal_payload (snd (last es))
       then (if j < length es then drop j (numbered 1 es) else [last (numbered 1 es)])
       else drop j (numbered 1 es) @ upto_terminal (drop (max j (length es)) (numbered 1 (es @ later))))"
proof -
  define k where "k = length es - SSE_EVENT_BUFFER_LIMIT"
  define evs where "evs = numbered (1 + int k) (drop k es)"
  note frames = stream_of_channel[OF assms(1,7,2,3), where run = run and j = j and polls = polls,
      folded assms(9) k_def, folded evs_def]
  have jk: "j < k \<longleftrightarrow> SSE_EVENT_BUFFER_LIMIT + j < length es" by (auto simp: k_def)
  show ?thesis
  proof (cases "j < n \<and> (es = [] \<or> j < k)")
    case True
    then show ?thesis using frames jk by (simp add: k_def)
  next
    case False
    then have kj: "k \<le> j \<or> length es \<le> j" using assms(3) by linarith
    have evs': "evs = drop k (numbered 1 es)" by (simp add: evs_def numbered_drop)
    have "length es \<le> k \<longleftrightarrow> length es = 0" unfolding k_def SSE_EVENT_BUFFER_LIMIT_def by linarith
    then have same: "evs = [] \<longleftrightarrow> es = []" by (simp add: evs')
    have ended: "last evs = last (numbered 1 es)" if "es \<noteq> []"
      using that same by (simp only: evs') (simp add: last_drop)
    have k: "k \<le> j" using kj by (auto simp: k_def)
    have sent: "replay (int j) evs = drop j (numbered 1 es)" using replay_drop[OF k, of es] by (simp add: evs')
    have data: "ev_data (last (numbered 1 es)) = snd (last es)" if "es \<noteq> []"
      using that by (rule numbered_data)
    define m where "m = max j (length es)"
    have at: "last_sent (int j) (drop j (numbered 1 es)) = int m"
      using numbered_last[of es 1] by (cases "es = []") (auto simp: last_sent_def m_def last_drop)
    have "s \<le> m" using assms(6) by (simp add: m_def)
    from replay_drop[OF this, of "es @ later"]
    have live: "events_sent (live_frames loads (int m) polls) = upto_terminal (drop m (numbered 1 (es @ later)))"
      using live_sends[OF assms(4,5), of loads "int m"] assms(8)
      by (simp add: reads_published_def list_all_iff in_set_dropD)
    have ends: "is_terminal_payload (ev_data (last (drop j (numbered 1 es)))) \<longleftrightarrow> is_terminal_payload (snd (last es))"
      if "j < length es"
      using that data by (cases "es = []") (simp_all add: last_drop)
    have frames': "frames = (let sent = drop j (numbered 1 es) in
        if sent \<noteq> [] \<and> is_terminal_payload (ev_data (last sent)) then map Event_frame sent
        else if sent = [] \<and> evs \<noteq> [] \<and> is_terminal_payload (ev_data (last evs)) then [Event_frame (last evs)]
        else map Event_frame sent @ Ready_frame (last_sent (int j) sent) # live_frames loads (last_sent (int j) sent) polls)"
      using frames False unfolding sent by simp
    have "events_sent frames =
      (if es \<noteq> [] \<and> is_terminal_payload (snd (last es))
       then (if j < length es then drop j (numbered 1 es) else [last (numbered 1 es)])
       else drop j (numbered 1 es) @ upto_terminal (drop m (numbered 1 (es @ later))))"
    proof (cases "j < length es")
      case True
      then have "drop j (numbered 1 es) \<noteq> []" "es \<noteq> []" by auto
      then show ?thesis using ends[OF True] True unfolding frames' Let_def at by (simp add: live)
    next
      case no: False
      then have "drop j (numbered 1 es) = []" by simp
      then show ?thesis using no same ended data unfolding frames' Let_def at by (cases "es = []") (simp_all add: live)
    qed
    then show ?thesis using False jk by (auto simp: m_def)
  qed
qed

text \<open>
  Two events are on the list when it is read, the second being a step of the run; the third, which ends the run, is
  counted before the counter is read and comes with the subscription.
\<close>

definition three_events :: "(string \<times> dict) list" where
  "three_events = [(''message'', [(''status'', JStr ''running'')]), (''message'', [(''content'', JStr ''x'')]),
     (''message'', [(''status'', JStr ''completed'')])]"

definition event_loads :: "string \<Rightarrow> json py" where
  "event_loads s =
     (case List.find (\<lambda>ev. event_text ev = s) (numbered 1 three_events) of
        Some ev \<Rightarrow> Inr (JDict (event_entry ev))
      | None \<Rightarrow> (case List.find (\<lambda>ev. json_dumps (JDict (ev_data ev)) = s) (numbered 1 three_events) of
          Some ev \<Rightarrow> Inr (JDict (ev_data ev)) | None \<Rightarrow> Inl (Exc ''JSONDecodeError'' '''')))"

lemma resumed_stream_complete_witness:
  "events_sent (stream_frames event_loads ''r1'' 1 (map event_text (numbered 1 (take 2 three_events))) (Some ''3'')
     [Quiet 9, Published (published_text (last (numbered 1 three_events)))]) = drop 1 (numbered 1 three_events)"
proof -
  let ?es = "take 2 three_events"
  define r where "r = demo_redis\<lparr>rd_lists := [(events_key ''run:r1'', map event_text (numbered 1 ?es))]\<rparr>"
  define r' where "r' = r\<lparr>rd_values := [(sequence_key ''run:r1'', ''3'')]\<rparr>"
  define polls where "polls = [Quiet 9, Published (published_text (last (numbered 1 three_events)))]"
  have all: "?es @ drop 2 three_events = three_events" by simp
  have list: "list_of r (events_key ''run:r1'') = map event_text (numbered 1 ?es)"
    and seq: "value_of r' (sequence_key ''run:r1'') = Some ''3''"
    by (simp_all add: r_def r'_def list_of_def value_of_def alive_def demo_redis_def)
  have holds: "buffer_holds ''run:r1'' ?es r"
    by (simp add: buffer_holds_def list last_n_def SSE_EVENT_BUFFER_LIMIT_def three_events_def)
  have "parse_int ''3'' = Some 3" by code_simp
  then have counter: "counter_of r' (sequence_key ''run:r1'') = int 3" by (simp add: counter_of_def seq)
  have "texts_polled polls = map published_text (drop 2 (numbered 1 three_events))" "Gone \<notin> set polls"
    by (simp_all add: polls_def three_events_def)
  note live = this
  have reads: "reads_events event_loads (numbered 1 ?es)" "reads_published event_loads (numbered 1 three_events)"
    by (unfold reads_events_def reads_published_def) code_simp+
  have len: "length ?es \<le> 3" "2 \<le> length ?es" by (simp_all add: three_events_def)
  have open_end: "\<not> is_terminal_payload (snd (last ?es))" by code_simp
  have end_once: "upto_terminal (drop 2 (numbered 1 three_events)) = drop 2 (numbered 1 three_events)" by (simp add: three_events_def)
  have "drop 1 (numbered 1 ?es) @ drop 2 (numbered 1 three_events) = drop 1 (numbered 1 three_events)" by (simp add: three_events_def)
  moreover have "texts_polled polls = map published_text (drop 2 (numbered 1 (?es @ drop 2 three_events)))"
    "reads_published event_loads (numbered 1 (?es @ drop 2 three_events))"
    using live(1) reads(2) by (simp_all only: all)
  note resumed_stream_complete[OF holds counter len(1) live(2) this(1) len(2) reads(1) this(2) refl, where run = "''r1''" and j = 1]
  ultimately show ?thesis
    using open_end end_once unfolding polls_def all list seq by (simp add: SSE_EVENT_BUFFER_LIMIT_def three_events_def)
qed

text \<open>
  An event that was counted but not yet pushed when the list was read is taken for a hole: a stream whose channel had
  no event at all gets the gap frame and ends, before its run is started, though the event is about to come with the
  subscription.
\<close>

lemma counted_event_taken_for_gap:
  assumes "buffer_holds c [] r" and "counter_of r' (sequence_key c) = 1"
  shows "stream_frames loads run 0 (list_of r (events_key c)) (value_of r' (sequence_key c)) polls
    = [Gap_frame (gap_payload run 0 None 1)]"
  using stream_of_channel[OF assms(1), of loads r' 1 run 0 polls] assms(2) by (simp add: reads_events_def)

text \<open>
  The number is drawn in one call and the event pushed in another.  When another publication overtakes it in
  between, the list is out of order, and a replay that starts before both loses the event that was overtaken.
\<close>

lemma overtaken_event_lost:
  assumes "strip_integration_meta_keys p = Inr d" and "strip_integration_meta_keys p2 = Inr d2"
    and "channel_holds c [] r" and "rd_calls r = 0"
  shows "\<exists>r'. publish_event (calm\<lparr>re_others := \<lambda>n q. if n = 1 then snd (publish_event calm c e2 p2 q) else q\<rparr>) c e p r = (Inr (), r')
      \<and> list_of r' (events_key c) = [buffered_text 2 e2 d2, buffered_text 1 e d]"
    and "replay 0 [\<lparr>ev_id = 2, ev_name = e2, ev_data = d2\<rparr>, \<lparr>ev_id = 1, ev_name = e, ev_data = d\<rparr>]
      = [\<lparr>ev_id = 2, ev_name = e2, ev_data = d2\<rparr>]"
proof -
  let ?q = "sequence_key c"
  define V where "V = calm\<lparr>re_others := \<lambda>n q. if n = 1 then snd (publish_event calm c e2 p2 q) else q\<rparr>"
  define r1 where "r1 = set_value ?q (int_str 1) (revive ?q (r\<lparr>rd_calls := 1\<rparr>))"
  have none: "counter_of r ?q = 0" "list_of r (events_key c) = []"
    using assms(3) by (simp_all add: channel_holds_def counter_of_def last_n_def)
  have first: "redis_call V (redis_incr ?q) r = (Inr 1, r1)"
    using assms(4) none by (simp add: redis_call_def V_def calm_def redis_incr_is r1_def)
  have r1: "counter_of r1 ?q = 1" "list_of r1 (events_key c) = []" "rd_calls r1 = 1"
    using none by (simp_all add: r1_def counter_of_def parse_int_int_str) (simp add: set_value_def revive_def)
  obtain q where q: "publish_event calm c e2 p2 r1 = (Inr (), q)"
      "list_of q (events_key c) = last_n SSE_EVENT_BUFFER_LIMIT ([] @ [buffered_text 2 e2 d2])"
    using published_effect[OF assms(2), of 2 r1 c e2] r1 by (metis one_add_one)
  define r2 where "r2 = publish_transaction c (buffered_text 1 e d) (sse_format e d (Some 1)) (q\<lparr>rd_calls := 2\<rparr>)"
  have "redis_call V (\<lambda>r. ((), publish_transaction c (buffered_text 1 e d) (sse_format e d (Some 1)) r)) r1 = (Inr (), r2)"
    using q(1) r1(3) by (simp add: redis_call_def V_def calm_def r2_def numeral_2_eq_2)
  then have "publish_event V c e p r = (Inr (), r2)"
    by (simp add: publish_event_def assms(1) bindW_def lift_def catchW_def first)
  moreover have "list_of r2 (events_key c) = [buffered_text 2 e2 d2, buffered_text 1 e d]"
    using q(2) by (simp add: r2_def publish_transaction_def Let_def last_n_def SSE_EVENT_BUFFER_LIMIT_def SSE_EVENT_TTL_SECONDS_def)
  ultimately show "\<exists>r'. publish_event (calm\<lparr>re_others := \<lambda>n q. if n = 1 then snd (publish_event calm c e2 p2 q) else q\<rparr>) c e p r = (Inr (), r')
      \<and> list_of r' (events_key c) = [buffered_text 2 e2 d2, buffered_text 1 e d]"
    unfolding V_def by blast
qed simp



end
