(* ===== verification/ChatProps.thy ===== *)
theory ChatProps
  imports ChatStore MessageProps JournalProps
begin

text \<open>
  What the history of a conversation guarantees: the messages rebuilt for the model answer every
  call, the journal decides what a mutation is shown as, a cancellation leaves no active tool
  behind; and what it does not: a history is written back as it was read, over what others wrote.
\<close>

subsection \<open>The messages for the model\<close>

lemma answered_append: "set (answered_ids ms) \<subseteq> set (answered_ids (ms @ ys))"
proof -
  have "set (takeWhile P ms) \<subseteq> set (takeWhile P (ms @ ys))" for P :: "dict \<Rightarrow> bool" by (induction ms) auto
  then show ?thesis unfolding answered_ids_def set_map by (intro image_mono)
qed

lemma paired_append:
  "paired seen xs \<Longrightarrow> paired (seen @ all_call_ids xs) ys \<Longrightarrow> paired seen (xs @ ys)"
proof (induction seen xs rule: paired.induct)
  case (2 seen m ms)
  then show ?case using answered_append[of ms ys] by auto
qed simp

lemma text_paired [simp]: "role \<noteq> ''tool'' \<Longrightarrow> paired seen (text_message role t)"
  by (simp add: text_message_def call_ids_def calls_of_msg_def)

lemma text_calls [simp]: "all_call_ids (text_message role t) = []"
  by (simp add: text_message_def call_ids_def calls_of_msg_def)

lemma answers_paired:
  "list_all (\<lambda>m. role_is ''tool'' m \<and> dget m ''tool_call_id'' \<in> set seen) ms \<Longrightarrow> paired seen ms"
  by (induction ms) (auto simp: other_no_calls)

lemma answers_no_calls: "list_all (role_is ''tool'') ms \<Longrightarrow> all_call_ids ms = []"
  by (induction ms) (auto simp: other_no_calls)

text \<open>Every tool of a message has an identifier for its call.\<close>

definition named_tool :: "dict \<Rightarrow> bool" where
  "named_tool s \<longleftrightarrow> (case exec_or_empty s of Inl e \<Rightarrow> True | Inr e \<Rightarrow> exec_call_id e \<noteq> [])"

definition named_tools :: "dict \<Rightarrow> bool" where
  "named_tools m \<longleftrightarrow>
     (case segments_or_empty m of Inl e \<Rightarrow> True | Inr segs \<Rightarrow> list_all (\<lambda>s. of_kind ''tool'' s \<longrightarrow> named_tool s) segs)"

lemma call_and_answer:
  assumes "llm_tool_call s = Inr call" and "llm_tool_answer s = Inr answer" and "named_tool s"
  shows "role_is ''tool'' answer" "dget answer ''tool_call_id'' = call_id call" "truthy (call_id call)"
proof -
  obtain e where e: "exec_or_empty s = Inr e"
    using assms(1) unfolding llm_tool_call_def bindE_Inr_iff by blast
  then have "exec_call_id e \<noteq> []" using assms(3) by (simp add: named_tool_def)
  then show "role_is ''tool'' answer" "dget answer ''tool_call_id'' = call_id call" "truthy (call_id call)"
    using assms(1,2) e
    by (auto simp: llm_tool_call_def llm_tool_answer_def call_id_def Let_def bindE_Inr_iff)
qed

lemma calls_and_answers:
  assumes "each_py llm_tool_call tools = Inr calls" and "each_py llm_tool_answer tools = Inr answers"
    and "list_all named_tool tools"
  shows "list_all (role_is ''tool'') answers \<and> map (\<lambda>m. dget m ''tool_call_id'') answers = map call_id calls
    \<and> list_all truthy (map call_id calls)"
  using assms
proof (induction tools arbitrary: calls answers)
  case (Cons t ts)
  then obtain c cs a as where
      "calls = c # cs" "answers = a # as" "llm_tool_call t = Inr c" "llm_tool_answer t = Inr a"
      "each_py llm_tool_call ts = Inr cs" "each_py llm_tool_answer ts = Inr as"
    unfolding each_py.simps bindE_Inr_iff by blast
  then show ?case using Cons.IH Cons.prems(3) call_and_answer[of t c a] by simp
qed simp

lemma tool_messages_paired:
  assumes "tool_messages tools = Inr ms" and "list_all named_tool tools"
  shows "paired seen ms"
proof (cases "tools = []")
  case False
  then obtain calls answers where c: "each_py llm_tool_call tools = Inr calls"
      "each_py llm_tool_answer tools = Inr answers"
      and ms: "ms = [(''role'', JStr ''assistant''), (''content'', JStr []), (''tool_calls'', JList calls)] # answers"
    using assms(1) unfolding tool_messages_def by (auto simp: bindE_Inr_iff)
  note ca = calls_and_answers[OF c assms(2)]
  let ?m = "[(''role'', JStr ''assistant''), (''content'', JStr []), (''tool_calls'', JList calls)]"
  have ids: "call_ids ?m = map call_id calls"
    using ca by (simp add: call_ids_def calls_of_msg_def list_all_iff filter_id_conv)
  have "takeWhile (role_is ''tool'') answers = answers" using ca by (simp add: list_all_iff takeWhile_eq_all_conv)
  then have ans: "answered_ids answers = map call_id calls" using ca by (simp only: answered_ids_def)
  have sub: "set (map (\<lambda>m. dget m ''tool_call_id'') answers) \<subseteq> set (seen @ map call_id calls)"
    using ca by (metis set_append sup_ge2)
  have "list_all (\<lambda>m. role_is ''tool'' m \<and> dget m ''tool_call_id'' \<in> set (seen @ map call_id calls)) answers"
    unfolding list_all_iff
  proof
    fix a assume a: "a \<in> set answers"
    have "role_is ''tool'' a" using ca a by (simp add: list_all_iff)
    moreover have "dget a ''tool_call_id'' \<in> set (map (\<lambda>m. dget m ''tool_call_id'') answers)"
      unfolding set_map using a by (rule imageI)
    ultimately show "role_is ''tool'' a \<and> dget a ''tool_call_id'' \<in> set (seen @ map call_id calls)"
      using sub by blast
  qed
  then have "paired (seen @ map call_id calls) answers" by (rule answers_paired)
  then show ?thesis by (simp add: ms ids ans)
qed (use assms in \<open>simp add: tool_messages_def\<close>)

lemma assistant_paired:
  assumes "llm_assistant m = Inr ms" and "named_tools m"
  shows "paired seen ms"
proof -
  obtain all where all: "segments_or_empty m = Inr all"
    using assms(1) unfolding llm_assistant_def bindE_Inr_iff by blast
  define tools where "tools = filter (of_kind ''tool'') (filter (\<lambda>s. \<not> of_kind ''thinking'' s) all)"
  have named: "list_all named_tool tools"
    using assms(2) all by (auto simp: named_tools_def tools_def list_all_iff)
  obtain tms where tms: "tool_messages tools = Inr tms" and ms: "ms =
      text_message ''assistant'' (case first_where (of_kind ''tool'') (filter (\<lambda>s. \<not> of_kind ''thinking'' s) all) of
          None \<Rightarrow> [] | Some i \<Rightarrow> text_of (take i (filter (\<lambda>s. \<not> of_kind ''thinking'' s) all)))
      @ tms @ text_message ''assistant'' (case last_where (of_kind ''tool'') (filter (\<lambda>s. \<not> of_kind ''thinking'' s) all) of
          None \<Rightarrow> [] | Some i \<Rightarrow> text_of (drop (Suc i) (filter (\<lambda>s. \<not> of_kind ''thinking'' s) all)))
      @ (if tools = [] then text_message ''assistant'' (py_str (dget_def m ''content'' (JStr []))) else [])"
    using assms(1) unfolding llm_assistant_def all bindE_simps Let_def bindE_Inr_iff tools_def[symmetric] by blast
  show ?thesis unfolding ms
    by (intro paired_append tool_messages_paired[OF tms named]) simp_all
qed

lemma message_paired: "llm_of_message m = Inr ms \<Longrightarrow> named_tools m \<Longrightarrow> paired seen ms"
  by (auto simp: llm_of_message_def assistant_paired split: if_splits)

lemma messages_paired:
  "each_py llm_of_message ms = Inr parts \<Longrightarrow> list_all named_tools ms \<Longrightarrow> paired seen (concat parts)"
proof (induction ms arbitrary: parts seen)
  case (Cons m ms)
  then obtain p ps where "parts = p # ps" "llm_of_message m = Inr p" "each_py llm_of_message ms = Inr ps"
    unfolding each_py.simps bindE_Inr_iff by blast
  then show ?case using Cons.IH[of ps] Cons.prems(2) message_paired[of m p] by (simp add: paired_append)
qed simp

text \<open>
  the conversation rebuilt from a stored history is well formed for the provider: every call has its
  answer in the tool messages right after it, and every tool message answers a call made before it, whatever
  the tools came to (done, failed, denied, cancelled or still waiting for an approval), when every stored tool
  has a call identifier.
\<close>

theorem rebuilt_history_paired:
  assumes "list_all named_tools history" and "build_llm_messages history = Inr messages"
  shows "paired [] messages"
proof -
  obtain parts where "each_py llm_of_message history = Inr parts" "messages = concat parts"
    using assms(2) unfolding build_llm_messages_def bindE_Inr_iff by blast
  then show ?thesis using messages_paired assms(1) by simp
qed

definition demo_tool :: "string \<Rightarrow> string \<Rightarrow> dict" where
  "demo_tool i status = [(''kind'', JStr ''tool''), (''id'', JStr i),
     (''toolExecution'', JDict [(''call_id'', JStr i), (''tool'', JStr ''t''), (''args'', JDict []), (''status'', JStr status)])]"

definition demo_answer :: "dict list \<Rightarrow> dict" where
  "demo_answer segs = [(''type'', JStr ''assistant''), (''segments'', JList (map JDict segs))]"

definition said :: "string \<Rightarrow> dict" where
  "said s = [(''kind'', JStr ''text''), (''text'', JStr s)]"

lemma rebuilt_history_paired_witness:
  "\<exists>ms. build_llm_messages [[(''type'', JStr ''user''), (''content'', JStr ''go'')],
      demo_answer [said ''a'', demo_tool ''c1'' ''error'', demo_tool ''c2'' ''awaiting_approval'', said ''b'']] = Inr ms
    \<and> length ms = 6 \<and> paired [] ms"
proof -
  let ?h = "[[(''type'', JStr ''user''), (''content'', JStr ''go'')],
      demo_answer [said ''a'', demo_tool ''c1'' ''error'', demo_tool ''c2'' ''awaiting_approval'', said ''b'']]"
  have ok: "(case build_llm_messages ?h of Inl e \<Rightarrow> False | Inr ms \<Rightarrow> length ms = 6)" by code_simp
  have named: "list_all named_tools ?h" by code_simp
  obtain ms where ms: "build_llm_messages ?h = Inr ms" "length ms = 6" using ok by (auto split: sum.splits)
  then show ?thesis using rebuilt_history_paired[OF named ms(1)] by blast
qed

subsection \<open>The journal over the history\<close>

lemma put_get [simp]: "dget_def (put k v d) k' x = (if k' = k then v else dget_def d k' x)"
  by (simp add: put_def dget_def_def update_conv')

lemma delete_get: "dget_def (AList.delete k d) k' x = (if k' = k then x else dget_def d k' x)"
  by (simp add: dget_def_def AList.delete_conv')

text \<open>The status the journal has for an operation, where it decides one.\<close>

definition journal_tool_status :: "mutation_operation \<Rightarrow> string option" where
  "journal_tool_status op =
     (if verification_status op = PASSED then Some ''completed''
      else if verification_status op \<in> {NEEDS_REVIEW, FAILED} then Some ''error''
      else if execution_status op = CANCELLED then Some ''cancelled''
      else if execution_status op = EXEC_FAILED then Some ''error''
      else if execution_status op \<in> {EXECUTING, REPORTED_SUCCESS, UNKNOWN} then Some ''executing''
      else None)"

lemma project_status_get:
  "dget (project_status op e) ''status'' =
     (case journal_tool_status op of Some s \<Rightarrow> JStr s | None \<Rightarrow> dget e ''status'')"
  by (simp add: project_status_def journal_tool_status_def delete_get)

lemma project_reason_get: "dget (project_reason why e) ''status'' = dget e ''status''"
  by (simp add: project_reason_def delete_get split: json.split)

lemma project_execution_status:
  "dget (project_execution op e) ''status'' =
     (case journal_tool_status op of Some s \<Rightarrow> JStr s | None \<Rightarrow> dget e ''status'')"
  by (simp add: project_execution_def Let_def project_status_get project_reason_get cong: option.case_cong)

lemma projected_segment:
  assumes "of_kind ''tool'' s" and "dget s ''toolExecution'' = JDict e"
    and "operation_of_call ops (py_str (por (dget e ''call_id'') (por (dget s ''id'') (JStr [])))) = Some op"
  shows "project_segment ops (JDict s) = JDict (put ''toolExecution'' (JDict (project_execution op e)) s)"
  using assms by (simp add: project_segment_def)

text \<open>
  the history shows what the journal knows.  A tool of an assistant message whose call belongs to an
  operation of the journal is shown with the status the journal decides, whatever was stored: completed only
  when the verification passed, an error when it failed or needs a review or the execution failed before it
  started, cancelled when it was cancelled, and executing while an attempt that has started is not verified.
\<close>

theorem history_follows_journal:
  assumes "i < length history" and "of_type ''assistant'' (history ! i)"
    and "dget (history ! i) ''segments'' = JList segs" and "j < length segs" and "segs ! j = JDict s"
    and "of_kind ''tool'' s" and "dget s ''toolExecution'' = JDict e"
    and "operation_of_call ops (py_str (por (dget e ''call_id'') (por (dget s ''id'') (JStr [])))) = Some op"
  shows "\<exists>segs' s' e'. dget (project_mutation_operations history ops ! i) ''segments'' = JList segs' \<and> segs' ! j = JDict s'
    \<and> dget s' ''toolExecution'' = JDict e'
    \<and> dget e' ''status'' = (case journal_tool_status op of Some st \<Rightarrow> JStr st | None \<Rightarrow> dget e ''status'')
    \<and> (execution_status op \<in> {EXECUTING, REPORTED_SUCCESS, UNKNOWN} \<and> dget e' ''status'' = JStr ''completed''
         \<longrightarrow> verification_status op = PASSED)"
proof (intro exI conjI)
  have m: "project_mutation_operations history ops ! i = put ''segments'' (JList (map (project_segment ops) segs)) (history ! i)"
    using assms(1,2,3) by (simp add: project_mutation_operations_def project_message_def)
  show "dget (project_mutation_operations history ops ! i) ''segments'' = JList (map (project_segment ops) segs)"
    by (simp add: m)
  show "map (project_segment ops) segs ! j = JDict (put ''toolExecution'' (JDict (project_execution op e)) s)"
    using assms(4,5) projected_segment[OF assms(6,7,8)] by simp
  show "dget (put ''toolExecution'' (JDict (project_execution op e)) s) ''toolExecution'' = JDict (project_execution op e)"
    by simp
  show "dget (project_execution op e) ''status'' = (case journal_tool_status op of Some st \<Rightarrow> JStr st | None \<Rightarrow> dget e ''status'')"
    by (rule project_execution_status)
  show "execution_status op \<in> {EXECUTING, REPORTED_SUCCESS, UNKNOWN} \<and> dget (project_execution op e) ''status'' = JStr ''completed''
      \<longrightarrow> verification_status op = PASSED"
    by (auto simp: project_execution_status journal_tool_status_def)
qed

subsection \<open>Cancelling\<close>

lemma put_again [simp]: "put k v (put k v d) = put k v d"
  by (induction d) (simp_all add: put_def)

lemma dicts_back: "each_py as_dict (map JDict ds) = Inr ds"
  by (induction ds) (simp_all add: as_dict_def)

lemma put_segments: "segments_or_empty (put ''segments'' (JList (map JDict ds)) m) = Inr ds"
  by (simp add: segments_or_empty_def segments_of_def py_iter_def dicts_back)

lemma cancelled_once:
  assumes "cancel_segment run why s = Inr (s', cs)"
  shows "cancel_segment run why s' = Inr (s', [])"
proof (cases "of_kind ''tool'' s")
  case False
  then show ?thesis using assms by (simp add: cancel_segment_def)
next
  case True
  then obtain e where e: "execution_of s = Inr e"
    using assms unfolding cancel_segment_def by (auto simp: bindE_Inr_iff)
  show ?thesis
  proof (cases "\<not> active_status (dget e ''status'') \<or> of_other_run run e")
    case True
    then show ?thesis using assms \<open>of_kind ''tool'' s\<close> e by (auto simp: cancel_segment_def)
  next
    case False
    then have s': "s' = put ''toolExecution'' (JDict (cancelled_execution why e)) s"
      using assms True e by (auto simp: cancel_segment_def)
    have "execution_of s' = Inr (cancelled_execution why e)" by (simp add: s' execution_of_def as_dict_def)
    moreover have "dget (cancelled_execution why e) ''status'' = JStr ''cancelled''" by (simp add: cancelled_execution_def)
    moreover have "\<not> active_status (JStr ''cancelled'')" by code_simp
    ultimately show ?thesis by (simp add: cancel_segment_def)
  qed
qed

lemma cancelled_all_once:
  "each_py (cancel_segment run why) segs = Inr rs \<Longrightarrow>
     each_py (cancel_segment run why) (map fst rs) = Inr (map (\<lambda>r. (fst r, [])) rs)"
proof (induction segs arbitrary: rs)
  case (Cons s ss)
  then obtain r rr where "rs = r # rr" "cancel_segment run why s = Inr r" "each_py (cancel_segment run why) ss = Inr rr"
    unfolding each_py.simps bindE_Inr_iff by blast
  then show ?case using Cons.IH cancelled_once[of run why s "fst r" "snd r"] by simp
qed simp

lemma last_where_less: "last_where P xs = Some i \<Longrightarrow> i < length xs \<and> P (xs ! i)"
proof (induction xs arbitrary: i)
  case (Cons x xs)
  show ?case
  proof (cases "last_where P xs")
    case None
    then show ?thesis using Cons.prems by (auto split: if_splits)
  next
    case (Some j)
    then show ?thesis using Cons.prems Cons.IH[of j] by auto
  qed
qed simp

lemma last_where_update: "last_where P xs = Some i \<Longrightarrow> P x \<Longrightarrow> last_where P (xs[i := x]) = Some i"
proof (induction xs arbitrary: i)
  case (Cons y xs)
  then show ?case by (cases "last_where P xs") (auto split: if_splits)
qed simp

text \<open>
  a cancellation leaves no active tool.  After the active tools of a run were cancelled in a history,
  cancelling them again finds nothing and changes nothing, and every message but the last answer of the
  assistant is what it was.
\<close>

theorem cancellation_complete:
  assumes "mark_active_tool_segments_cancelled history run why = Inr (history', stopped)"
  shows "mark_active_tool_segments_cancelled history' run why = Inr (history', [])
    \<and> length history' = length history
    \<and> (\<forall>k < length history. last_where (of_type ''assistant'') history \<noteq> Some k \<longrightarrow> history' ! k = history ! k)"
proof (cases "last_where (of_type ''assistant'') history")
  case None
  then show ?thesis using assms by (simp add: mark_active_tool_segments_cancelled_def)
next
  case (Some i)
  note i = last_where_less[OF Some]
  obtain segs rs where segs: "segments_or_empty (history ! i) = Inr segs"
      and rs: "each_py (cancel_segment run why) segs = Inr rs"
      and h: "history' = history[i := put ''segments'' (JList (map (JDict \<circ> fst) rs)) (history ! i)]"
    using assms Some unfolding mark_active_tool_segments_cancelled_def by (auto simp: bindE_Inr_iff)
  let ?m = "put ''segments'' (JList (map JDict (map fst rs))) (history ! i)"
  have h': "history' = history[i := ?m]" using h by simp
  have "of_type ''assistant'' ?m" using i by (simp add: of_type_def)
  then have lw: "last_where (of_type ''assistant'') history' = Some i"
    using last_where_update[OF Some] by (simp only: h')
  have mi: "history' ! i = ?m" using i by (simp add: h')
  have again: "segments_or_empty (history' ! i) = Inr (map fst rs)" unfolding mi by (rule put_segments)
  have "mark_active_tool_segments_cancelled history' run why = Inr (history'[i := ?m], [])"
    unfolding mark_active_tool_segments_cancelled_def lw option.case again bindE_simps cancelled_all_once[OF rs]
    by (simp add: mi comp_def concat_eq_Nil_conv)
  moreover have "history'[i := ?m] = history'" by (simp add: h')
  ultimately have "mark_active_tool_segments_cancelled history' run why = Inr (history', [])" by simp
  then show ?thesis using Some by (simp add: h')
qed

lemma cancellation_complete_witness:
  "\<exists>h. mark_active_tool_segments_cancelled [demo_answer [demo_tool ''c1'' ''executing'', demo_tool ''c2'' ''completed'']] None ''stop'' =
       Inr (h, [cancelled_execution ''stop'' [(''call_id'', JStr ''c1''), (''tool'', JStr ''t''), (''args'', JDict []),
         (''status'', JStr ''executing'')]])
     \<and> mark_active_tool_segments_cancelled h None ''stop'' = Inr (h, [])"
proof -
  let ?h = "[demo_answer [demo_tool ''c1'' ''executing'', demo_tool ''c2'' ''completed'']]"
  let ?e = "[(''call_id'', JStr ''c1''), (''tool'', JStr ''t''), (''args'', JDict []), (''status'', JStr ''executing'')]"
  have "(case mark_active_tool_segments_cancelled ?h None ''stop'' of
      Inl e \<Rightarrow> False | Inr (h, cs) \<Rightarrow> cs = [cancelled_execution ''stop'' ?e])" by code_simp
  then obtain h where h: "mark_active_tool_segments_cancelled ?h None ''stop'' = Inr (h, [cancelled_execution ''stop'' ?e])"
    by (auto split: sum.splits)
  then show ?thesis using cancellation_complete[OF h] by blast
qed

definition unknown_row :: mutation_operation where
  "unknown_row = demo_row\<lparr>op_call_id := ''c1'', execution_status := UNKNOWN, verification_status := PENDING\<rparr>"

lemma history_follows_journal_witness:
  "\<exists>segs' s' e'. dget (project_mutation_operations [demo_answer [demo_tool ''c1'' ''completed'']] [unknown_row] ! 0)
       ''segments'' = JList segs' \<and> segs' ! 0 = JDict s' \<and> dget s' ''toolExecution'' = JDict e'
     \<and> dget e' ''status'' = JStr ''executing''"
proof -
  let ?h = "[demo_answer [demo_tool ''c1'' ''completed'']]"
  let ?e = "[(''call_id'', JStr ''c1''), (''tool'', JStr ''t''), (''args'', JDict []), (''status'', JStr ''completed'')]"
  have "operation_of_call [unknown_row] ''c1'' = Some unknown_row"
    by (simp add: operation_of_call_def unknown_row_def)
  then have op: "operation_of_call [unknown_row] (py_str (por (dget ?e ''call_id'')
      (por (dget (demo_tool ''c1'' ''completed'') ''id'') (JStr [])))) = Some unknown_row"
    by simp
  have js: "journal_tool_status unknown_row = Some ''executing''"
    by (simp add: journal_tool_status_def unknown_row_def)
  have "\<exists>segs' s' e'. dget (project_mutation_operations ?h [unknown_row] ! 0) ''segments'' = JList segs' \<and> segs' ! 0 = JDict s'
    \<and> dget s' ''toolExecution'' = JDict e'
    \<and> dget e' ''status'' = (case journal_tool_status unknown_row of Some st \<Rightarrow> JStr st | None \<Rightarrow> dget ?e ''status'')
    \<and> (execution_status unknown_row \<in> {EXECUTING, REPORTED_SUCCESS, UNKNOWN} \<and> dget e' ''status'' = JStr ''completed''
         \<longrightarrow> verification_status unknown_row = PASSED)"
  proof (rule history_follows_journal)
    show "dget (?h ! 0) ''segments'' = JList (map JDict [demo_tool ''c1'' ''completed''])" by (simp add: demo_answer_def)
    show "map JDict [demo_tool ''c1'' ''completed''] ! 0 = JDict (demo_tool ''c1'' ''completed'')" by simp
    show "dget (demo_tool ''c1'' ''completed'') ''toolExecution'' = JDict ?e" by (simp add: demo_tool_def)
    show "of_type ''assistant'' (?h ! 0)" by (simp add: of_type_def demo_answer_def)
    show "of_kind ''tool'' (demo_tool ''c1'' ''completed'')" by (simp add: of_kind_def demo_tool_def)
  qed (use op in simp_all)
  then obtain segs' s' e' where "dget (project_mutation_operations ?h [unknown_row] ! 0) ''segments'' = JList segs'"
      "segs' ! 0 = JDict s'" "dget s' ''toolExecution'' = JDict e'"
      and st: "dget e' ''status'' = (case journal_tool_status unknown_row of Some st \<Rightarrow> JStr st | None \<Rightarrow> dget ?e ''status'')"
    by (elim exE conjE)
  moreover have "dget e' ''status'' = JStr ''executing''" using st by (simp only: js option.case)
  ultimately show ?thesis by (intro exI conjI)
qed

subsection \<open>What the others wrote is lost\<close>

definition quiet_from :: "nat \<Rightarrow> chat_env \<Rightarrow> bool" where
  "quiet_from n E \<longleftrightarrow> (\<forall>k \<ge> n. \<forall>db. db_conversations (ce_others E k db) = db_conversations db)"

text \<open>As long as the others leave the conversations alone, so does an operation that only waits and writes rows.\<close>

definition same_conversations :: "chat_env \<Rightarrow> chat \<Rightarrow> chat \<Rightarrow> bool" where
  "same_conversations E c c' \<longleftrightarrow> (quiet_from (ch_waits c) E \<longrightarrow>
     db_conversations (ch_db c') = db_conversations (ch_db c) \<and> ch_waits c \<le> ch_waits c')"

lemma quiet_later: "quiet_from n E \<Longrightarrow> n \<le> k \<Longrightarrow> quiet_from k E"
  by (simp add: quiet_from_def)

interpretation convs: state_moves "\<lambda>c. c" "same_conversations E" for E
proof
  show "same_conversations E x z" if "same_conversations E x y" "same_conversations E y z" for x y z
    using that quiet_later[of "ch_waits x" E "ch_waits y"] unfolding same_conversations_def by auto
qed (simp add: same_conversations_def)

lemma convs_basic [simp]: "convs.moves E (set_current m)" "convs.moves E (wait_db E)"
  "convs.moves E (chat_query E f)" "convs.moves E (save_message_row E r)"
proof -
  show w: "convs.moves E (wait_db E)"
    by (simp add: convs.moves_def same_conversations_def wait_db_def quiet_from_def)
  show "convs.moves E (set_current m)"
    by (simp add: convs.moves_def same_conversations_def set_current_def)
  show "convs.moves E (chat_query E f)"
    unfolding chat_query_def by (intro convs.moves_bind w) (simp add: convs.moves_def same_conversations_def)
  show "convs.moves E (save_message_row E r)"
    unfolding save_message_row_def change_db_def
    by (intro convs.moves_bind w) (simp add: convs.moves_def same_conversations_def)
qed

lemma convs_update_row: "convs.moves E (update_row_segments E mid segs)"
  unfolding update_row_segments_def get_message_row_def by (auto intro!: convs.moves_catch convs.moves_bind)

lemma get_row_id: "get_row key i rows = Inr r \<Longrightarrow> key r = i"
  by (auto simp: get_row_def find_Some_iff split: option.splits)

text \<open>
  a status of a tool that is being stored undoes what was written meanwhile.  The service reads the
  conversation, computes the history with the new status, waits for the database and writes the whole row: whatever
  another coroutine wrote to that conversation between the two queries (the cancellation of the same tool, a
  message, a title) is replaced by what was read before.
\<close>

theorem stale_update_overwrites:
  assumes "w = ch_waits c" and "db1 = ce_others E w (ch_db c)" and "db2 = ce_others E (Suc w) db1"
    and "ce_fails E w = None" and "ce_fails E (Suc w) = None" and "quiet_from (w + 2) E" and "get_row cv_id cid (db_conversations db1) = Inr cv"
    and "locate_tool_segment call (history_of cv) = Inr (Some (i, segs, j))" and "execution_of (segs ! j) = Inr e"
    and "\<not> stays_cancelled e status allow"
    and "seg = put ''toolExecution'' (JDict (status_update status error result e)) (segs ! j)"
  shows "db_conversations (ch_db (snd (update_tool_segment_status E cid call status error result allow c))) =
    map (\<lambda>r. if cv_id r = cid
             then cv\<lparr>cv_messages := Some ((history_of cv)[i := put ''segments'' (JList (map JDict (segs[j := seg]))) (history_of cv ! i)]),
                    cv_updated := db_now db2\<rparr> else r) (db_conversations db2)"
proof -
  note ok = assms(4,5) and quiet = assms(6) and row = assms(7) and tool = assms(8,9,10) and seg = assms(11)
  have cid: "cv_id cv = cid" using row by (rule get_row_id)
  define ms where "ms = (history_of cv)[i := put ''segments'' (JList (map JDict (segs[j := seg]))) (history_of cv ! i)]"
  define c1 where "c1 = c\<lparr>ch_db := db1, ch_waits := Suc w\<rparr>"
  have wait1: "wait_db E c = (Inr (), c1)" by (simp add: wait_db_def c1_def assms(1,2) ok[unfolded assms(1)])
  have db1: "ch_db c1 = db1" by (simp add: c1_def)
  have one: "get_conversation_row E cid c = (Inr cv, c1)"
    by (simp add: get_conversation_row_def chat_query_def bindW_def wait1 lift_def db1 row)
  have "update_tool_segment_status E cid call status error result allow c =
      bindW (save_messages_json E cv ms)
        (\<lambda>_. update_row_segments E (dget (history_of cv ! i) ''id'') (map JDict (segs[j := seg]))) c1"
    unfolding update_tool_segment_status_def
    by (simp add: bindW_def[of "get_conversation_row E cid"] bindW_def[of "lift x" for x] one lift_def tool Let_def
        ms_def seg)
  also have "\<dots> = update_row_segments E (dget (history_of cv ! i) ''id'') (map JDict (segs[j := seg]))
      (snd (save_messages_json E cv ms c1))"
    by (simp add: bindW_def save_messages_json_def save_conversation_def change_db_def wait_db_def c1_def ok)
  finally have run: "update_tool_segment_status E cid call status error result allow c = \<dots>" .
  define c2 where "c2 = snd (save_messages_json E cv ms c1)"
  have c2: "ch_waits c2 = w + 2" "db_conversations (ch_db c2) =
      map (\<lambda>r. if cv_id r = cid then cv\<lparr>cv_messages := Some ms, cv_updated := db_now db2\<rparr> else r) (db_conversations db2)"
    by (simp_all add: c2_def save_messages_json_def save_conversation_def change_db_def bindW_def wait_db_def c1_def
        assms(3) cid ok)
  have "db_conversations (ch_db (snd (update_tool_segment_status E cid call status error result allow c))) =
      db_conversations (ch_db c2)"
    unfolding run c2_def[symmetric]
    using convs_update_row[of E] c2(1) quiet by (simp add: convs.moves_def same_conversations_def)
  then show ?thesis by (simp only: c2(2) ms_def)
qed

definition demo_conversation_row :: "dict list \<Rightarrow> conversation_row" where
  "demo_conversation_row ms = \<lparr>cv_id = ''k'', cv_title = None, cv_user = Some ''u'', cv_active = True,
     cv_metadata = JNull, cv_messages = Some ms, cv_created = 0, cv_updated = 0\<rparr>"

definition demo_chat :: "dict list \<Rightarrow> chat" where
  "demo_chat ms = \<lparr>ch_db = \<lparr>db_conversations = [demo_conversation_row ms], db_messages = [], db_operations = [], db_now = 7\<rparr>,
     ch_usage = [], ch_message = None, ch_waits = 0, ch_ids = 0\<rparr>"

text \<open>The user cancels the tool while the service waits to store that it was executed.\<close>

definition demo_cancel :: chat_env where
  "demo_cancel = \<lparr>ce_fails = (\<lambda>n. None), ce_others = (\<lambda>n db. if n \<noteq> 1 then db else db\<lparr>db_conversations :=
       [demo_conversation_row [demo_answer [demo_tool ''c1'' ''cancelled'']]]\<rparr>),
     ce_uuid = (\<lambda>n. ''new''), ce_parse = Inr\<rparr>"

lemma stale_update_overwrites_witness:
  "db_conversations (ch_db (snd (update_tool_segment_status demo_cancel ''k'' (JStr ''c1'') ''completed'' JNull JNull False
       (demo_chat [demo_answer [demo_tool ''c1'' ''executing'']])))) =
     [(demo_conversation_row [demo_answer [demo_tool ''c1'' ''completed'']])\<lparr>cv_updated := 7\<rparr>]"
proof -
  define ms where "ms = [demo_answer [demo_tool ''c1'' ''executing'']]"
  define e where "e = [(''call_id'', JStr ''c1''), (''tool'', JStr ''t''), (''args'', JDict []), (''status'', JStr ''executing'')]"
  define segs where "segs = [demo_tool ''c1'' ''executing'']"
  define seg where "seg = put ''toolExecution'' (JDict (status_update ''completed'' JNull JNull e)) (segs ! 0)"
  define cv where "cv = demo_conversation_row ms"
  define db2 where "db2 = ce_others demo_cancel (Suc 0) (ch_db (demo_chat ms))"
  have q: "quiet_from (0 + 2) demo_cancel" by (simp add: quiet_from_def demo_cancel_def)
  have h: "history_of cv = ms" by (simp add: history_of_def demo_conversation_row_def cv_def)
  have row: "get_row cv_id ''k'' (db_conversations (ch_db (demo_chat ms))) = Inr cv"
    by (simp add: get_row_def demo_chat_def demo_conversation_row_def cv_def)
  have "locate_tool_segment (JStr ''c1'') [demo_answer [demo_tool ''c1'' ''executing'']] =
      Inr (Some (0, [demo_tool ''c1'' ''executing''], 0))" by code_simp
  then have found: "locate_tool_segment (JStr ''c1'') (history_of cv) = Inr (Some (0, segs, 0))"
    by (simp only: h ms_def segs_def)
  have "execution_of (demo_tool ''c1'' ''executing'') =
      Inr [(''call_id'', JStr ''c1''), (''tool'', JStr ''t''), (''args'', JDict []), (''status'', JStr ''executing'')]" by code_simp
  then have e: "execution_of (segs ! 0) = Inr e" by (simp only: segs_def e_def nth_Cons_0)
  have s: "\<not> stays_cancelled e ''completed'' False" unfolding e_def by code_simp
  have seg: "seg = demo_tool ''c1'' ''completed''" unfolding seg_def e_def segs_def by code_simp
  have m: "put ''segments'' (JList (map JDict [demo_tool ''c1'' ''completed''])) (demo_answer [demo_tool ''c1'' ''executing'']) =
      demo_answer [demo_tool ''c1'' ''completed'']" by code_simp
  have w: "0 = ch_waits (demo_chat ms)" by (simp add: demo_chat_def)
  have db1: "ch_db (demo_chat ms) = ce_others demo_cancel 0 (ch_db (demo_chat ms))" by (simp add: demo_cancel_def)
  have up: "ce_fails demo_cancel 0 = None" "ce_fails demo_cancel (Suc 0) = None" by (simp_all add: demo_cancel_def)
  note result = stale_update_overwrites[OF w db1 db2_def up q row found e s seg_def]
  have rows: "db_conversations db2 = [demo_conversation_row [demo_answer [demo_tool ''c1'' ''cancelled'']]]" "db_now db2 = 7"
    by (simp_all add: db2_def demo_cancel_def demo_chat_def)
  have new: "(history_of cv)[0 := put ''segments'' (JList (map JDict (segs[0 := seg]))) (history_of cv ! 0)]
      = [demo_answer [demo_tool ''c1'' ''completed'']]"
    unfolding h seg ms_def segs_def list_update_code nth_Cons_0 m by (rule refl)
  show ?thesis unfolding ms_def[symmetric] result rows new by (simp add: cv_def demo_conversation_row_def)
qed

subsection \<open>What the model is not told\<close>

lemma first_where_append: "first_where P (xs @ y # ys) = Some (length xs)" if "\<not> list_ex P xs" "P y"
  using that by (induction xs) auto

lemma last_where_append: "last_where P (xs @ y # ys) = Some (length xs)" if "\<not> list_ex P ys" "P y"
proof -
  have "last_where P ys = None" using that(1) by (induction ys) auto
  then show ?thesis using that(2) by (induction xs) auto
qed

text \<open>
  the text between two tools of one answer is not told to the model again.  When the history is rebuilt, what
  the assistant said after its first tool call and before its last one leaves no trace: the messages are the
  same with any other text there, or with none.
\<close>

theorem text_between_tools_lost:
  assumes "segments_or_empty m1 = Inr (pre @ t1 # mid1 @ t2 # post)" and "segments_or_empty m2 = Inr (pre @ t1 # mid2 @ t2 # post)"
    and "of_kind ''tool'' t1" and "of_kind ''tool'' t2" and "\<not> list_ex (of_kind ''tool'') pre" and "\<not> list_ex (of_kind ''tool'') post"
    and "list_all (of_kind ''text'') mid1" and "list_all (of_kind ''text'') mid2"
  shows "llm_assistant m1 = llm_assistant m2"
proof -
  let ?keep = "filter (\<lambda>s. \<not> of_kind ''thinking'' s)" and ?tool = "of_kind ''tool''"
  have said:  "?keep mid = mid \<and> filter ?tool mid = [] \<and> \<not> list_ex ?tool mid" if "list_all (of_kind ''text'') mid" for mid
    using that by (induction mid) (auto simp: of_kind_def)
  have t: "\<not> of_kind ''thinking'' t1" "\<not> of_kind ''thinking'' t2" using assms(3,4) by (auto simp: of_kind_def)
  have pre: "\<not> list_ex ?tool (?keep pre)" and post: "\<not> list_ex ?tool (?keep post)"
    using assms(5,6) by (auto simp: list_ex_iff)
  have both: "llm_assistant m = bindE (tool_messages (t1 # t2 # [])) (\<lambda>tms. Inr
      (text_message ''assistant'' (text_of (?keep pre)) @ tms @ text_message ''assistant'' (text_of (?keep post))))"
    if m: "segments_or_empty m = Inr (pre @ t1 # mid @ t2 # post)" and mid: "list_all (of_kind ''text'') mid" for m mid
  proof -
    have keep: "?keep (pre @ t1 # mid @ t2 # post) = ?keep pre @ t1 # mid @ t2 # ?keep post"
      using t said[OF mid] by simp
    have tools: "filter ?tool (?keep pre @ t1 # mid @ t2 # ?keep post) = [t1, t2]"
      using pre post said[OF mid] assms(3,4) by (simp add: filter_empty_conv list_ex_iff)
    have one: "first_where ?tool (?keep pre @ t1 # mid @ t2 # ?keep post) = Some (length (?keep pre))"
      using first_where_append[of ?tool "?keep pre" t1 "mid @ t2 # ?keep post"] pre assms(3) by simp
    have two: "last_where ?tool (?keep pre @ t1 # mid @ t2 # ?keep post) = Some (length (?keep pre @ t1 # mid))"
      using last_where_append[of ?tool "?keep post" t2 "?keep pre @ t1 # mid"] post assms(4) by simp
    have cut: "drop (Suc (length (?keep pre @ t1 # mid))) (?keep pre @ t1 # mid @ t2 # ?keep post) = ?keep post" by simp
    show ?thesis
      unfolding llm_assistant_def m bindE_simps keep Let_def tools one two option.case cut by simp
  qed
  show ?thesis using both[OF assms(1,7)] both[OF assms(2,8)] by simp
qed

lemma text_between_tools_lost_witness:
  "llm_assistant (demo_answer [demo_tool ''c1'' ''completed'', said ''no disk is left'', demo_tool ''c2'' ''completed'']) =
     llm_assistant (demo_answer [demo_tool ''c1'' ''completed'', demo_tool ''c2'' ''completed''])"
proof (rule text_between_tools_lost)
  show "segments_or_empty (demo_answer [demo_tool ''c1'' ''completed'', said ''no disk is left'', demo_tool ''c2'' ''completed'']) =
      Inr ([] @ demo_tool ''c1'' ''completed'' # [said ''no disk is left''] @ demo_tool ''c2'' ''completed'' # [])" by code_simp
  show "segments_or_empty (demo_answer [demo_tool ''c1'' ''completed'', demo_tool ''c2'' ''completed'']) =
      Inr ([] @ demo_tool ''c1'' ''completed'' # [] @ demo_tool ''c2'' ''completed'' # [])" by code_simp
qed code_simp+

end
