(* ===== verification/ConversationApi.thy ===== *)
theory ConversationApi
  imports ChatStore MemoryApi "HOL-Library.Product_Lexorder"
begin

text \<open>
  The handlers of \<open>endpoints/conversation.py\<close> over the tables of conversations: who may touch a
  conversation, and the pages of the list of a user's conversations. Identifiers are compared as
  their texts, which the database orders alike; \<open>fromisoformat\<close> is the parameter \<open>fromiso\<close>.
\<close>

type_synonym 'a chat_api = "(http_error + 'a) chat_io"

definition fail_with :: "int \<Rightarrow> string \<Rightarrow> 'a chat_api" where
  "fail_with code msg = ret (Inl (Http code (JStr msg)))"

text \<open>\<open>except HTTPException: raise\<close> and \<open>except Exception as e: raise HTTPException(500, ...)\<close>\<close>

definition or_500 :: "string \<Rightarrow> 'a chat_api \<Rightarrow> 'a chat_api" where
  "or_500 msg m = catchW m (\<lambda>e. fail_with 500 (msg @ '': '' @ exc_msg e))"

definition check_conversation_authorization :: "conversation_row \<Rightarrow> api_user option \<Rightarrow> bool" where
  "check_conversation_authorization cv u =
     (case u of None \<Rightarrow> True | Some x \<Rightarrow> cv_user cv = Some (au_id x) \<or> au_superuser x)"

definition authorized :: "conversation_row \<Rightarrow> api_user option \<Rightarrow> 'a chat_api \<Rightarrow> 'a chat_api" where
  "authorized cv u k =
     (if check_conversation_authorization cv u then k else fail_with 403 ''Not authorized for conversation'')"

definition get_conversation :: "chat_env \<Rightarrow> string \<Rightarrow> conversation_row option chat_io" where
  "get_conversation E cid =
     catchW (bindW (get_conversation_row E cid) (\<lambda>cv. ret (Some cv))) (\<lambda>e. ret None)"

definition with_conversation :: "chat_env \<Rightarrow> string \<Rightarrow> api_user option \<Rightarrow> (conversation_row \<Rightarrow> 'a chat_api) \<Rightarrow> 'a chat_api" where
  "with_conversation E cid u k =
     bindW (get_conversation E cid) (\<lambda>found.
     case found of
       None \<Rightarrow> fail_with 404 ''Conversation not found''
     | Some cv \<Rightarrow> authorized cv u (k cv))"

subsection \<open>Creating\<close>

text \<open>A new row; an identifier in use violates the primary key.\<close>

definition insert_conversation_row :: "chat_env \<Rightarrow> string \<Rightarrow> string \<Rightarrow> conversation_row chat_io" where
  "insert_conversation_row E cid uid =
     bindW (wait_db E) (\<lambda>_ c.
       let db = ch_db c;
           cv = \<lparr>cv_id = cid, cv_title = Some [], cv_user = Some uid, cv_active = True, cv_metadata = JNull,
                 cv_messages = None, cv_created = db_now db, cv_updated = db_now db\<rparr>
       in if list_ex (\<lambda>r. cv_id r = cid) (db_conversations db)
          then (Inl (Exc ''IntegrityError'' ''duplicate key value violates unique constraint''), c)
          else (Inr cv, c\<lparr>ch_db := db\<lparr>db_conversations := db_conversations db @ [cv]\<rparr>\<rparr>))"

definition welcome_text :: string where
  "welcome_text = ''Welcome to Skyflo! How can I help you with your Kubernetes infrastructure today?''"

definition client_uuid :: "chat_env \<Rightarrow> json \<Rightarrow> string chat_io" where
  "client_uuid E v =
     (if \<not> truthy v then chat_uuid E
      else case v of
        JStr s \<Rightarrow> (case ce_parse E s of Inr i \<Rightarrow> ret i | Inl e \<Rightarrow> if exc_type e = ''ValueError'' then chat_uuid E else raise e)
      | _ \<Rightarrow> raise (attr_error v ''replace''))"


definition created_reply :: "json \<Rightarrow> string \<Rightarrow> int \<Rightarrow> dict" where
  "created_reply i title t =
     [(''status'', JStr ''success''), (''id'', i), (''title'', JStr title), (''created_at'', JStr (isoformat t))]"

text \<open>
  The body of the request, where reading it may fail: then the handler of the failure reads a
  variable that has no value. \<open>now\<close> is \<open>datetime.now()\<close>.
\<close>

definition create_conversation ::
  "chat_env \<Rightarrow> int \<Rightarrow> json py \<Rightarrow> api_user option \<Rightarrow> dict chat_io" where
  "create_conversation E now body u =
     (case bindE body as_dict of
        Inl e \<Rightarrow> bindW (chat_uuid E) (\<lambda>_. raise (Exc ''UnboundLocalError''
          (''cannot access local variable '' @ quoted ''client_conversation_id'' @ '' where it is not associated with a value'')))
      | Inr data \<Rightarrow>
          (let client = dget data ''conversation_id'' in
           catchW
             (case u of
                Some x \<Rightarrow>
                  bindW (client_uuid E client) (\<lambda>cid.
                  bindW (insert_conversation_row E cid (au_id x)) (\<lambda>cv.
                  bindW (chat_uuid E) (\<lambda>mid.
                  bindW (create_message_row E \<lparr>mr_id = mid, mr_conversation = cid, mr_role = ''system'', mr_content = welcome_text,
                     mr_sequence = 1, mr_metadata = JNull, mr_created = cv_created cv, mr_usage = JNull\<rparr>) (\<lambda>_.
                  ret (created_reply (JStr cid) [] (cv_created cv))))))
              | None \<Rightarrow>
                  bindW (if truthy client then ret client else bindW (chat_uuid E) (\<lambda>i. ret (JStr i))) (\<lambda>i.
                  ret (created_reply i [] now)))
             (\<lambda>e. bindW (chat_uuid E) (\<lambda>i. ret
                [(''status'', JStr ''error''), (''id'', por client (JStr i)), (''title'', JStr ''New Conversation''),
                 (''created_at'', JStr (isoformat now)), (''error_message'', JStr (exc_msg e))]))))"

subsection \<open>Listing\<close>

definition page_limit :: "int \<Rightarrow> int" where
  "page_limit l = min (if l \<le> 0 then 20 else l) 50"

definition title_matches :: "string option \<Rightarrow> conversation_row \<Rightarrow> bool" where
  "title_matches q r =
     (case q of
        None \<Rightarrow> True
      | Some s \<Rightarrow>
          if length (py_strip s) < 2 then True
          else (case cv_title r of None \<Rightarrow> False | Some t \<Rightarrow> contains_str (py_lower t) (py_lower (py_strip s))))"

text \<open>Newest first, and of two of one time the greater identifier first.\<close>

definition listing :: "string \<Rightarrow> string option \<Rightarrow> chat_db \<Rightarrow> conversation_row list" where
  "listing uid q db =
     rev (sort_key (\<lambda>r. (cv_updated r, cv_id r))
       (filter (\<lambda>r. cv_user r = Some uid \<and> title_matches q r) (db_conversations db)))"

text \<open>A cursor: the time, and the identifier of the last row where it is known.\<close>

type_synonym cursor = "int \<times> string option"

definition cursor_sep :: char where
  "cursor_sep = CHR 0x7C"

definition parse_pair :: "chat_env \<Rightarrow> (string \<Rightarrow> int py) \<Rightarrow> string \<Rightarrow> cursor option" where
  "parse_pair E fromiso s =
     (case fromiso (takeWhile (\<lambda>c. c \<noteq> cursor_sep) s) of
        Inl e \<Rightarrow> None
      | Inr t \<Rightarrow> (case ce_parse E (tl (dropWhile (\<lambda>c. c \<noteq> cursor_sep) s)) of
          Inl e \<Rightarrow> None | Inr i \<Rightarrow> Some (t, Some i)))"

definition parse_cursor :: "chat_env \<Rightarrow> (string \<Rightarrow> int py) \<Rightarrow> string \<Rightarrow> string \<Rightarrow> cursor option chat_io" where
  "parse_cursor E fromiso uid s =
     (if cursor_sep \<in> set s then ret (parse_pair E fromiso s)
      else case fromiso s of
        Inr t \<Rightarrow> ret (Some (t, None))
      | Inl e \<Rightarrow>
          catchW
            (bindW (lift (ce_parse E s)) (\<lambda>i.
             bindW (chat_query E (\<lambda>db. find (\<lambda>r. cv_user r = Some uid \<and> cv_id r = i) (db_conversations db))) (\<lambda>r.
             ret (map_option (\<lambda>cv. (cv_updated cv, Some (cv_id cv))) r))))
            (\<lambda>e. ret None))"

definition after_cursor :: "cursor option \<Rightarrow> conversation_row \<Rightarrow> bool" where
  "after_cursor c r =
     (case c of
        None \<Rightarrow> True
      | Some (t, None) \<Rightarrow> cv_updated r < t
      | Some (t, Some i) \<Rightarrow> cv_updated r < t \<or> cv_updated r = t \<and> cv_id r < i)"

definition cursor_text :: "conversation_row \<Rightarrow> string" where
  "cursor_text r = isoformat (cv_updated r) @ [cursor_sep] @ cv_id r"

record conversation_page =
  pg_rows :: "conversation_row list"
  pg_limit :: int
  pg_next :: "string option"
  pg_more :: bool

definition page_of :: "int \<Rightarrow> conversation_row list \<Rightarrow> conversation_page" where
  "page_of limit fetched =
     (let more = (int (length fetched) = limit + 1);
          rows = (if more then take (nat limit) fetched else fetched)
      in \<lparr>pg_rows = rows, pg_limit = limit,
          pg_next = (if more \<and> rows \<noteq> [] then Some (cursor_text (last rows)) else None), pg_more = more\<rparr>)"

definition fetch_page ::
  "chat_env \<Rightarrow> string \<Rightarrow> int \<Rightarrow> cursor option \<Rightarrow> string option \<Rightarrow> conversation_page chat_io" where
  "fetch_page E uid limit cur q =
     bindW (chat_query E (\<lambda>db. take (nat (limit + 1)) (filter (after_cursor cur) (listing uid q db)))) (\<lambda>rows.
     ret (page_of limit rows))"

definition get_conversations ::
  "chat_env \<Rightarrow> (string \<Rightarrow> int py) \<Rightarrow> string \<Rightarrow> int \<Rightarrow> string option \<Rightarrow> string option \<Rightarrow> conversation_page chat_api" where
  "get_conversations E fromiso uid limit cursor q =
     or_500 ''Error getting conversations''
       (case cursor of
          Some (c # cs) \<Rightarrow>
            bindW (parse_cursor E fromiso uid (c # cs)) (\<lambda>cur.
            if cur = None then fail_with 400 ''Invalid cursor''
            else bindW (fetch_page E uid (page_limit limit) cur q) (\<lambda>p. ret (Inr p)))
        | _ \<Rightarrow> bindW (fetch_page E uid (page_limit limit) None q) (\<lambda>p. ret (Inr p)))"

definition page_reply :: "conversation_page \<Rightarrow> dict" where
  "page_reply p =
     [(''status'', JStr ''success''),
      (''data'', JList (map (\<lambda>r. JDict [(''id'', JStr (cv_id r)), (''title'', or_null (cv_title r)),
         (''created_at'', JStr (isoformat (cv_created r))), (''updated_at'', JStr (isoformat (cv_updated r)))]) (pg_rows p))),
      (''pagination'', JDict [(''limit'', JInt (pg_limit p)), (''next_cursor'', or_null (pg_next p)),
         (''has_more'', JBool (pg_more p))])]"

subsection \<open>Reading, changing and deleting\<close>

definition check_conversation :: "chat_env \<Rightarrow> string \<Rightarrow> api_user option \<Rightarrow> dict chat_api" where
  "check_conversation E cid u =
     or_500 ''Error checking conversation''
       (with_conversation E cid u (\<lambda>cv.
          bindW (project_authoritative_mutation_statuses E cid (history_of cv)) (\<lambda>ms.
          ret (Inr [(''status'', JStr ''success''), (''exists'', JBool True), (''id'', JStr (cv_id cv)),
             (''created_at'', JStr (isoformat (cv_created cv))), (''messages'', JList (map JDict ms))]))))"

text \<open>The fields that were sent; a null is a value of the field.\<close>

record conversation_update =
  cu_title :: "string option option"
  cu_active :: "bool option option"
  cu_metadata :: "json option"
  cu_messages :: "dict list option option"

definition no_update :: conversation_update where
  "no_update = \<lparr>cu_title = None, cu_active = None, cu_metadata = None, cu_messages = None\<rparr>"

definition apply_conversation_update :: "conversation_update \<Rightarrow> conversation_row \<Rightarrow> conversation_row py" where
  "apply_conversation_update d cv =
     (case (cu_title d, cu_active d) of
        (_, Some None) \<Rightarrow> Inl (Exc ''ValueError'' ''is_active is non nullable field, but null was passed'')
      | (t, a) \<Rightarrow>
          if (case t of Some (Some s) \<Rightarrow> 255 < length s | _ \<Rightarrow> False)
          then Inl (Exc ''ValidationError'' ''title: Length is over 255'')
          else Inr (cv\<lparr>cv_title := (case t of None \<Rightarrow> cv_title cv | Some v \<Rightarrow> v),
                      cv_active := (case a of Some (Some b) \<Rightarrow> b | _ \<Rightarrow> cv_active cv),
                      cv_metadata := (case cu_metadata d of None \<Rightarrow> cv_metadata cv | Some v \<Rightarrow> v),
                      cv_messages := (case cu_messages d of None \<Rightarrow> cv_messages cv | Some v \<Rightarrow> v)\<rparr>))"

definition update_conversation ::
  "chat_env \<Rightarrow> string \<Rightarrow> conversation_update \<Rightarrow> api_user option \<Rightarrow> dict chat_api" where
  "update_conversation E cid d u =
     or_500 ''Error updating conversation''
       (with_conversation E cid u (\<lambda>cv.
          bindW (if d = no_update then ret cv
                 else bindW (lift (apply_conversation_update d cv)) (\<lambda>cv'. bindW (save_conversation E cv') (\<lambda>_ c.
                      (Inr (cv'\<lparr>cv_updated := db_now (ch_db c)\<rparr>), c)))) (\<lambda>cv'.
          ret (Inr [(''status'', JStr ''success''), (''id'', JStr (cv_id cv')), (''title'', or_null (cv_title cv')),
             (''updated_at'', JStr (isoformat (cv_updated cv')))]))))"

definition delete_conversation :: "chat_env \<Rightarrow> string \<Rightarrow> api_user option \<Rightarrow> dict chat_api" where
  "delete_conversation E cid u =
     or_500 ''Error deleting conversation''
       (with_conversation E cid u (\<lambda>cv.
          bindW (change_db E (\<lambda>db. db\<lparr>db_messages := filter (\<lambda>r. mr_conversation r \<noteq> cv_id cv) (db_messages db)\<rparr>)) (\<lambda>_.
          bindW (change_db E (\<lambda>db. db\<lparr>db_conversations := filter (\<lambda>r. cv_id r \<noteq> cv_id cv) (db_conversations db)\<rparr>)) (\<lambda>_.
          ret (Inr [(''status'', JStr ''success''), (''message'', JStr ''Conversation deleted successfully''),
             (''id'', JStr cid)])))))"

end
