(* ===== verification/ConversationProps.thy ===== *)
theory ConversationProps
  imports ConversationApi JsonText
begin

text \<open>
  What the handlers of conversations guarantee: following the cursors of the list visits every
  conversation of the user exactly once, newest first, and nobody but the owner or a superuser gets
  at a conversation with a login.
\<close>

subsection \<open>A store nobody else uses\<close>

definition still :: "chat_env \<Rightarrow> bool" where
  "still E \<longleftrightarrow> (\<forall>n db. ce_fails E n = None \<and> ce_others E n db = db)"

lemma still_wait: "still E \<Longrightarrow> wait_db E c = (Inr (), c\<lparr>ch_waits := Suc (ch_waits c)\<rparr>)"
  by (simp add: still_def wait_db_def)

lemma still_query: "still E \<Longrightarrow> chat_query E f c = (Inr (f (ch_db c)), c\<lparr>ch_waits := Suc (ch_waits c)\<rparr>)"
  by (simp add: chat_query_def bindW_def still_wait)

subsection \<open>The list and its cursors\<close>

definition row_key :: "conversation_row \<Rightarrow> int \<times> string" where
  "row_key r = (cv_updated r, cv_id r)"

lemma after_row: "after_cursor (Some (cv_updated a, Some (cv_id a))) r \<longleftrightarrow> row_key r < row_key a"
  by (auto simp: after_cursor_def row_key_def)

lemma rest_after:
  assumes "sorted_wrt (\<lambda>a b. row_key b < row_key a) (xs @ a # ys)"
  shows "filter (after_cursor (Some (cv_updated a, Some (cv_id a)))) (xs @ a # ys) = ys"
proof -
  have "filter (\<lambda>r. row_key r < row_key a) xs = []" using assms by (auto simp: sorted_wrt_append filter_empty_conv)
  moreover have "filter (\<lambda>r. row_key r < row_key a) ys = ys" using assms by (auto simp: sorted_wrt_append filter_id_conv)
  moreover have "after_cursor (Some (cv_updated a, Some (cv_id a))) = (\<lambda>r. row_key r < row_key a)"
    by (rule ext) (rule after_row)
  ultimately show ?thesis by simp
qed

lemma sorted_distinct_strict:
  "sorted (map f xs) \<Longrightarrow> distinct (map f xs) \<Longrightarrow> sorted_wrt (\<lambda>a b. f a < f b) xs" for f :: "'a \<Rightarrow> 'b::linorder"
  by (induction xs) (auto simp: order.order_iff_strict image_iff)

lemma listing_strict:
  assumes "distinct (map cv_id (db_conversations db))"
  shows "sorted_wrt (\<lambda>a b. row_key b < row_key a) (listing uid q db)"
proof -
  let ?rows = "filter (\<lambda>r. cv_user r = Some uid \<and> title_matches q r) (db_conversations db)"
  have "distinct (map cv_id ?rows)" using assms by (simp add: distinct_map_filter)
  then have "distinct (map row_key ?rows)" by (auto simp: distinct_map row_key_def inj_on_def)
  then have "distinct (map row_key (sort_key row_key ?rows))" by (simp add: distinct_map)
  then have "sorted_wrt (\<lambda>a b. row_key a < row_key b) (sort_key row_key ?rows)"
    by (intro sorted_distinct_strict) simp_all
  moreover have "(\<lambda>r. (cv_updated r, cv_id r)) = row_key" by (rule ext) (simp add: row_key_def)
  then have "listing uid q db = rev (sort_key row_key ?rows)" by (simp only: listing_def)
  ultimately show ?thesis by (simp add: sorted_wrt_rev)
qed

lemma page_cases:
  assumes "1 \<le> l"
  shows "page_of (int l) (take (nat (int l + 1)) xs) =
    (if length xs \<le> l then \<lparr>pg_rows = xs, pg_limit = int l, pg_next = None, pg_more = False\<rparr>
     else \<lparr>pg_rows = take l xs, pg_limit = int l, pg_next = Some (cursor_text (xs ! (l - 1))), pg_more = True\<rparr>)"
proof -
  have n: "nat (int l + 1) = l + 1" by simp
  have len: "int (length (take (l + 1) xs)) = int l + 1 \<longleftrightarrow> \<not> length xs \<le> l" by auto
  show ?thesis
  proof (cases "length xs \<le> l")
    case True
    then show ?thesis by (simp add: page_of_def Let_def)
  next
    case False
    then have "take l xs \<noteq> []" using assms by auto
    moreover have "last (take l xs) = xs ! (l - 1)" using False assms by (subst last_conv_nth) auto
    ultimately show ?thesis using False by (simp add: page_of_def Let_def n min_def)
  qed
qed

text \<open>The separator does not occur in a time.\<close>

definition plain_char :: "char \<Rightarrow> bool" where
  "plain_char c \<longleftrightarrow> is_digit c \<or> c \<in> {CHR ''-'', CHR '':'', CHR ''T'', CHR ''.'', CHR ''+''}"

lemma int_str_plain: "list_all plain_char (int_str i)"
proof -
  have "list_all plain_char (nat_str n)" for n
    using nat_str_digits[of n] by (auto simp: list_all_iff plain_char_def)
  then show ?thesis by (simp add: int_str_def plain_char_def)
qed

lemma pad_plain: "list_all plain_char (pad n i)"
proof -
  have "plain_char (CHR ''0'')" by code_simp
  then show ?thesis
    using int_str_plain[of i] unfolding pad_def Let_def list_all_append by (simp add: list_all_iff)
qed

lemma isoformat_plain: "list_all plain_char (isoformat t)"
proof -
  have s: "list_all plain_char ''-''" "list_all plain_char '':''" "list_all plain_char ''T''" "list_all plain_char ''.''"
    "list_all plain_char ''+00:00''"
    by code_simp+
  have day: "list_all plain_char (iso_day t)"
    unfolding iso_day_def Let_def list_all_append by (intro conjI pad_plain s(1))
  have frac: "list_all plain_char (if x = 0 then [] else ''.'' @ pad 6 x)" for x :: int
    using s(4) pad_plain[of 6 x] by (cases "x = 0") (simp_all only: list_all_append list.pred_inject if_True if_False simp_thms)
  show ?thesis
    unfolding isoformat_def Let_def list_all_append by (intro conjI day frac pad_plain s(2,3,5))
qed

lemma no_separator: "cursor_sep \<notin> set (isoformat t)"
proof -
  have "\<not> plain_char cursor_sep" by code_simp
  then show ?thesis using isoformat_plain[of t] by (auto simp: list_all_iff)
qed

text \<open>The cursor of a row is read back as the row's time and identifier.\<close>

lemma cursor_reads_back:
  assumes "fromiso (isoformat (cv_updated r)) = Inr (cv_updated r)" and "ce_parse E (cv_id r) = Inr (cv_id r)"
  shows "parse_cursor E fromiso uid (cursor_text r) = ret (Some (cv_updated r, Some (cv_id r)))"
proof -
  have out: "takeWhile (\<lambda>c. c \<noteq> cursor_sep) (cursor_text r) = isoformat (cv_updated r)"
    using no_separator by (auto simp: cursor_text_def takeWhile_append)
  have rest: "dropWhile (\<lambda>c. c \<noteq> cursor_sep) (cursor_text r) = cursor_sep # cv_id r"
    using no_separator by (auto simp: cursor_text_def dropWhile_append)
  have "cursor_sep \<in> set (cursor_text r)" by (simp add: cursor_text_def)
  then show ?thesis by (simp add: parse_cursor_def parse_pair_def out rest assms)
qed

text \<open>A client that follows the cursors, for at most \<open>n\<close> pages after the first.\<close>

fun walk ::
  "chat_env \<Rightarrow> (string \<Rightarrow> int py) \<Rightarrow> string \<Rightarrow> int \<Rightarrow> string option \<Rightarrow> nat \<Rightarrow> string option \<Rightarrow> chat \<Rightarrow> conversation_row list" where
  "walk E fromiso uid limit q n cur c =
     (case get_conversations E fromiso uid limit cur q c of
        (Inr (Inr p), c') \<Rightarrow> pg_rows p @
          (case (pg_next p, n) of (Some s, Suc m) \<Rightarrow> walk E fromiso uid limit q m (Some s) c' | _ \<Rightarrow> [])
      | _ \<Rightarrow> [])"

declare walk.simps [simp del]

lemma page_after:
  assumes "still E" and "1 \<le> l" and "page_limit limit = int l"
    and "cur = None \<and> pos = None \<or> (\<exists>r. cur = Some (cursor_text r) \<and> pos = Some (cv_updated r, Some (cv_id r))
          \<and> fromiso (isoformat (cv_updated r)) = Inr (cv_updated r) \<and> ce_parse E (cv_id r) = Inr (cv_id r))"
  shows "\<exists>k. get_conversations E fromiso uid limit cur q c =
    (Inr (Inr (page_of (int l) (take (nat (int l + 1)) (filter (after_cursor pos) (listing uid q (ch_db c)))))), c\<lparr>ch_waits := k\<rparr>)"
proof -
  have fetch: "\<exists>k. fetch_page E uid (int l) p q d =
      (Inr (page_of (int l) (take (nat (int l + 1)) (filter (after_cursor p) (listing uid q (ch_db d))))), d\<lparr>ch_waits := k\<rparr>)"
    for p d by (auto simp: fetch_page_def bindW_def still_query[OF assms(1)] ret_def)
  show ?thesis
    using assms(4)
  proof (elim disjE exE conjE)
    assume "cur = None" "pos = None"
    then show ?thesis
      using fetch[of None c] by (auto simp: get_conversations_def or_500_def catchW_def bindW_def assms(3) ret_def)
  next
    fix r assume r: "cur = Some (cursor_text r)" "pos = Some (cv_updated r, Some (cv_id r))"
      "fromiso (isoformat (cv_updated r)) = Inr (cv_updated r)" "ce_parse E (cv_id r) = Inr (cv_id r)"
    obtain x xs where t: "cursor_text r = x # xs" by (cases "cursor_text r") (auto simp: cursor_text_def)
    have p: "parse_cursor E fromiso uid (x # xs) = ret (Some (cv_updated r, Some (cv_id r)))"
      using cursor_reads_back[where fromiso = fromiso and E = E and r = r, OF r(3) r(4)] by (simp only: t)
    show ?thesis
      using fetch[of pos c]
      by (auto simp: get_conversations_def r(1,2) t p or_500_def catchW_def bindW_def assms(3) ret_def)
  qed
qed

lemma walk_from:
  assumes "still E" and "1 \<le> l" and "page_limit limit = int l" and "distinct (map cv_id (db_conversations (ch_db c)))"
    and good: "\<And>r. r \<in> set (db_conversations (ch_db c)) \<Longrightarrow>
           fromiso (isoformat (cv_updated r)) = Inr (cv_updated r) \<and> ce_parse E (cv_id r) = Inr (cv_id r)"
    and position: "\<And>xs ys cur. listing uid q (ch_db c) = xs @ ys \<Longrightarrow>
        cur = (if xs = [] then None else Some (cursor_text (last xs))) \<Longrightarrow>
        \<exists>pos. (cur = None \<and> pos = None \<or> (\<exists>r. cur = Some (cursor_text r) \<and> pos = Some (cv_updated r, Some (cv_id r))
          \<and> fromiso (isoformat (cv_updated r)) = Inr (cv_updated r) \<and> ce_parse E (cv_id r) = Inr (cv_id r)))
          \<and> filter (after_cursor pos) (listing uid q (ch_db c)) = ys"
  shows "listing uid q (ch_db c) = xs @ ys \<Longrightarrow> length ys \<le> n \<Longrightarrow>
    cur = (if xs = [] then None else Some (cursor_text (last xs))) \<Longrightarrow>
    walk E fromiso uid limit q n cur (c\<lparr>ch_waits := k\<rparr>) = ys"
proof (induction n arbitrary: xs ys cur k)
  case (0 xs ys cur k)
  then have ys: "ys = []" by simp
  obtain pos where pos: "cur = None \<and> pos = None \<or> (\<exists>r. cur = Some (cursor_text r) \<and> pos = Some (cv_updated r, Some (cv_id r))
          \<and> fromiso (isoformat (cv_updated r)) = Inr (cv_updated r) \<and> ce_parse E (cv_id r) = Inr (cv_id r))"
      "filter (after_cursor pos) (listing uid q (ch_db c)) = ys"
    using position[OF 0(1,3)] by blast
  show ?case
    using page_after[OF assms(1-3) pos(1), of uid q "c\<lparr>ch_waits := k\<rparr>"] pos(2) ys
    by (auto simp: walk.simps[of E fromiso uid limit q 0] page_of_def)
next
  case (Suc n xs ys cur k)
  obtain pos where pos: "cur = None \<and> pos = None \<or> (\<exists>r. cur = Some (cursor_text r) \<and> pos = Some (cv_updated r, Some (cv_id r))
          \<and> fromiso (isoformat (cv_updated r)) = Inr (cv_updated r) \<and> ce_parse E (cv_id r) = Inr (cv_id r))"
      "filter (after_cursor pos) (listing uid q (ch_db c)) = ys"
    using position[OF Suc.prems(1,3)] by blast
  obtain k' where page: "get_conversations E fromiso uid limit cur q (c\<lparr>ch_waits := k\<rparr>) =
      (Inr (Inr (page_of (int l) (take (nat (int l + 1)) ys))), c\<lparr>ch_waits := k'\<rparr>)"
    using page_after[OF assms(1-3) pos(1), of uid q "c\<lparr>ch_waits := k\<rparr>"] pos(2) by auto
  show ?case
  proof (cases "length ys \<le> l")
    case True
    then have "page_of (int l) ys = \<lparr>pg_rows = ys, pg_limit = int l, pg_next = None, pg_more = False\<rparr>"
      using page_cases[OF assms(2), of ys] by simp
    then show ?thesis using True by (simp add: walk.simps[of E fromiso uid limit q "Suc n"] page)
  next
    case False
    have "listing uid q (ch_db c) = (xs @ take l ys) @ drop l ys" using Suc.prems(1) by simp
    moreover have "length (drop l ys) \<le> n" using Suc.prems(2) assms(2) False by simp
    moreover have "Some (cursor_text (ys ! (l - 1))) =
        (if xs @ take l ys = [] then None else Some (cursor_text (last (xs @ take l ys))))"
    proof -
      have "take l ys \<noteq> []" using False assms(2) by auto
      moreover have "last (take l ys) = ys ! (l - 1)" using False assms(2) by (subst last_conv_nth) auto
      ultimately show ?thesis by simp
    qed
    ultimately have "walk E fromiso uid limit q n (Some (cursor_text (ys ! (l - 1)))) (c\<lparr>ch_waits := k'\<rparr>) = drop l ys"
      by (rule Suc.IH)
    then show ?thesis using False by (simp add: walk.simps[of E fromiso uid limit q "Suc n"] page page_cases[OF assms(2)])
  qed
qed

text \<open>Where a cursor points to, and what comes after it.\<close>

lemma cursor_position:
  assumes "distinct (map cv_id (db_conversations db))"
    and good: "\<And>r. r \<in> set (db_conversations db) \<Longrightarrow>
           fromiso (isoformat (cv_updated r)) = Inr (cv_updated r) \<and> ce_parse E (cv_id r) = Inr (cv_id r)"
    and split: "listing uid q db = xs @ ys" and cur: "cur = (if xs = [] then None else Some (cursor_text (last xs)))"
  shows "\<exists>pos. (cur = None \<and> pos = None \<or> (\<exists>r. cur = Some (cursor_text r) \<and> pos = Some (cv_updated r, Some (cv_id r))
          \<and> fromiso (isoformat (cv_updated r)) = Inr (cv_updated r) \<and> ce_parse E (cv_id r) = Inr (cv_id r)))
          \<and> filter (after_cursor pos) (listing uid q db) = ys"
proof (cases "xs = []")
  case True
  moreover have "filter (after_cursor None) zs = zs" for zs by (simp add: after_cursor_def filter_id_conv)
  ultimately show ?thesis using split cur by auto
next
  case False
  let ?r = "last xs"
  have "?r \<in> set (listing uid q db)" using False split by simp
  then have "?r \<in> set (db_conversations db)" by (simp add: listing_def)
  then have good_r: "fromiso (isoformat (cv_updated ?r)) = Inr (cv_updated ?r) \<and> ce_parse E (cv_id ?r) = Inr (cv_id ?r)"
    by (rule good)
  have L: "listing uid q db = butlast xs @ ?r # ys" using False split by simp
  then have "filter (after_cursor (Some (cv_updated ?r, Some (cv_id ?r)))) (listing uid q db) = ys"
    using rest_after[of "butlast xs" ?r ys] listing_strict[OF assms(1), of uid q] by simp
  then show ?thesis using False cur good_r by auto
qed

text \<open>
  C32: the pages of the list visit every conversation once.  A client that follows the cursors gets all the
  conversations of the user that match its query, each of them exactly once, the last changed first, whatever
  page size it asks for, when nothing changes meanwhile and the cursors can be read back.
\<close>

theorem pages_cover_listing:
  assumes "still E" and "distinct (map cv_id (db_conversations (ch_db c)))"
    and "\<And>r. r \<in> set (db_conversations (ch_db c)) \<Longrightarrow>
           fromiso (isoformat (cv_updated r)) = Inr (cv_updated r) \<and> ce_parse E (cv_id r) = Inr (cv_id r)"
  shows "walk E fromiso uid limit q (length (db_conversations (ch_db c))) None c = listing uid q (ch_db c)"
proof -
  obtain l where l: "page_limit limit = int l" "1 \<le> l"
  proof -
    have "1 \<le> page_limit limit" by (simp add: page_limit_def min_def)
    then show thesis using that[of "nat (page_limit limit)"] by simp
  qed
  have "length (listing uid q (ch_db c)) \<le> length (db_conversations (ch_db c))" by (simp add: listing_def)
  then have "walk E fromiso uid limit q (length (db_conversations (ch_db c))) None (c\<lparr>ch_waits := ch_waits c\<rparr>) =
      listing uid q (ch_db c)"
    by (intro walk_from[where xs = "[]", OF assms(1) l(2,1) assms(2,3) cursor_position[OF assms(2,3)]]) simp_all
  then show ?thesis by simp
qed

definition demo_row_at :: "string \<Rightarrow> int \<Rightarrow> conversation_row" where
  "demo_row_at i t = \<lparr>cv_id = i, cv_title = Some ''t'', cv_user = Some ''u'', cv_active = True, cv_metadata = JNull,
     cv_messages = None, cv_created = t, cv_updated = t\<rparr>"

definition demo_chats :: chat where
  "demo_chats = \<lparr>ch_db = \<lparr>db_conversations = [demo_row_at ''a'' 5, demo_row_at ''c'' 5, demo_row_at ''b'' 5],
     db_messages = [], db_operations = [], db_now = 10\<rparr>, ch_usage = [], ch_message = None, ch_waits = 0, ch_ids = 0\<rparr>"

definition demo_still :: chat_env where
  "demo_still = \<lparr>ce_fails = (\<lambda>n. None), ce_others = (\<lambda>n db. db), ce_uuid = (\<lambda>n. ''new''), ce_parse = Inr\<rparr>"

definition demo_fromiso :: "string \<Rightarrow> int py" where
  "demo_fromiso s = Inr 5"

lemma pages_cover_listing_witness:
  "map cv_id (walk demo_still demo_fromiso ''u'' 1 None 3 None demo_chats) = [''c'', ''b'', ''a'']"
proof -
  have rows: "db_conversations (ch_db demo_chats) = [demo_row_at ''a'' 5, demo_row_at ''c'' 5, demo_row_at ''b'' 5]"
    by (simp add: demo_chats_def)
  have "walk demo_still demo_fromiso ''u'' 1 None (length (db_conversations (ch_db demo_chats))) None demo_chats =
      listing ''u'' None (ch_db demo_chats)"
  proof (rule pages_cover_listing)
    show "still demo_still" by (simp add: still_def demo_still_def)
    show "distinct (map cv_id (db_conversations (ch_db demo_chats)))" by (simp add: rows demo_row_at_def)
    fix r assume "r \<in> set (db_conversations (ch_db demo_chats))"
    then have "cv_updated r = 5" by (auto simp: rows demo_row_at_def)
    then show "demo_fromiso (isoformat (cv_updated r)) = Inr (cv_updated r) \<and> ce_parse demo_still (cv_id r) = Inr (cv_id r)"
      by (simp add: demo_still_def demo_fromiso_def)
  qed
  moreover have "map cv_id (listing ''u'' None (ch_db demo_chats)) = [''c'', ''b'', ''a'']"
    by (simp add: listing_def rows title_matches_def demo_row_at_def)
  moreover have "length (db_conversations (ch_db demo_chats)) = 3" by (simp add: rows)
  ultimately show ?thesis by simp
qed

subsection \<open>Who may touch a conversation\<close>

text \<open>
  a login does not open the conversations of others.  For a user who is neither the owner nor a superuser,
  reading, changing and deleting a conversation answer 403 and leave the tables as they are.
\<close>

theorem foreign_conversation_protected:
  assumes "still E" and "get_row cv_id cid (db_conversations (ch_db c)) = Inr cv"
    and "cv_user cv \<noteq> Some (au_id x)" and "\<not> au_superuser x"
    and "reply \<in> {check_conversation E cid (Some x) c, update_conversation E cid d (Some x) c,
                  delete_conversation E cid (Some x) c}"
  shows "fst reply = Inr (Inl (Http 403 (JStr ''Not authorized for conversation''))) \<and> ch_db (snd reply) = ch_db c"
proof -
  have row: "get_conversation E cid c = (Inr (Some cv), c\<lparr>ch_waits := Suc (ch_waits c)\<rparr>)"
    by (simp add: get_conversation_def get_conversation_row_def catchW_def bindW_def still_query[OF assms(1)] lift_def
        assms(2) ret_def)
  have no: "authorized cv (Some x) k = fail_with 403 ''Not authorized for conversation''" for k :: "dict chat_api"
    using assms(3,4) by (simp add: authorized_def check_conversation_authorization_def)
  have "or_500 msg (with_conversation E cid (Some x) k) c =
      (Inr (Inl (Http 403 (JStr ''Not authorized for conversation''))), c\<lparr>ch_waits := Suc (ch_waits c)\<rparr>)"
    for msg and k :: "conversation_row \<Rightarrow> dict chat_api"
    by (simp add: or_500_def with_conversation_def catchW_def bindW_def row no fail_with_def ret_def)
  then have "reply = (Inr (Inl (Http 403 (JStr ''Not authorized for conversation''))), c\<lparr>ch_waits := Suc (ch_waits c)\<rparr>)"
    using assms(5) unfolding check_conversation_def update_conversation_def delete_conversation_def by auto
  then show ?thesis by simp
qed

lemma foreign_conversation_protected_witness:
  "fst (delete_conversation demo_still ''a'' (Some \<lparr>au_id = ''v'', au_superuser = False, au_role = ''admin''\<rparr>) demo_chats) =
     Inr (Inl (Http 403 (JStr ''Not authorized for conversation'')))
   \<and> ch_db (snd (delete_conversation demo_still ''a'' (Some \<lparr>au_id = ''v'', au_superuser = False, au_role = ''admin''\<rparr>)
       demo_chats)) = ch_db demo_chats"
proof (rule foreign_conversation_protected)
  show "still demo_still" by (simp add: still_def demo_still_def)
  show "get_row cv_id ''a'' (db_conversations (ch_db demo_chats)) = Inr (demo_row_at ''a'' 5)"
    by (simp add: demo_chats_def get_row_def demo_row_at_def)
  show "cv_user (demo_row_at ''a'' 5) \<noteq> Some (au_id \<lparr>au_id = ''v'', au_superuser = False, au_role = ''admin''\<rparr>)"
    by (simp add: demo_row_at_def)
qed simp_all

end
