(* ===== verification/AgentEvents.thy ===== *)
theory AgentEvents
  imports EventStream ConversationApi
begin

text \<open>
  How \<open>endpoints/agent.py\<close> runs a workflow: the registry of the tasks, the callback that publishes an event
  and stores what it says, and \<open>run_agent_workflow\<close>. The graph (theory AgentGraph) is seen here as what
  crosses its interface: the events it hands to the callback, the state it returns or the exception it
  raises, and how its \<open>close\<close> ends, all of them the result of \<open>av_workflow\<close> on the state it is started with.
\<close>

subsection \<open>The process\<close>

record agent_api =
  aa_chat :: chat
  aa_redis :: redis
  aa_journal :: journal
  aa_tasks :: "(string \<times> nat) list"
  aa_finished :: "nat list"
  aa_ticks :: nat

text \<open>How a task ends that was cancelled, within the five seconds it is waited for.\<close>

datatype cancel_outcome = Ends_cancelled | Ends_returned | Ends_raised | Keeps_running

record workflow_run =
  wr_events :: "dict list"
  wr_result :: "json py"
  wr_close :: "unit py"

record agent_env =
  av_chat :: chat_env
  av_redis :: redis_env
  av_clock :: "nat \<Rightarrow> int"
  av_loads :: "string \<Rightarrow> json py"
  av_cancel :: "nat \<Rightarrow> cancel_outcome"
  av_mcp :: "string \<Rightarrow> json py"
  av_journal_fails :: "string \<Rightarrow> py_exc option"
  av_workflow :: "dict \<Rightarrow> workflow_run"
  av_environment :: string

type_synonym 'a agent_io = "(agent_api, 'a) st"

definition in_chat :: "'a chat_io \<Rightarrow> 'a agent_io" where
  "in_chat m s = (case m (aa_chat s) of (r, c) \<Rightarrow> (r, s\<lparr>aa_chat := c\<rparr>))"

definition in_redis :: "'a redis_io \<Rightarrow> 'a agent_io" where
  "in_redis m s = (case m (aa_redis s) of (r, x) \<Rightarrow> (r, s\<lparr>aa_redis := x\<rparr>))"

definition now_ms :: "agent_env \<Rightarrow> int agent_io" where
  "now_ms V s = (Inr (av_clock V (aa_ticks s)), s\<lparr>aa_ticks := Suc (aa_ticks s)\<rparr>)"

subsection \<open>The registry of the tasks\<close>

definition register_workflow_task :: "string \<Rightarrow> nat \<Rightarrow> unit agent_io" where
  "register_workflow_task run task s = (Inr (), s\<lparr>aa_tasks := AList.update run task (aa_tasks s)\<rparr>)"

definition unregister_workflow_task :: "string \<Rightarrow> nat \<Rightarrow> unit agent_io" where
  "unregister_workflow_task run task s =
     (Inr (), if map_of (aa_tasks s) run = Some task then s\<lparr>aa_tasks := AList.delete run (aa_tasks s)\<rparr> else s)"

text \<open>A task that ends leaves the registry in its \<open>finally\<close>.\<close>

definition finish_task :: "string \<Rightarrow> nat \<Rightarrow> agent_api \<Rightarrow> agent_api" where
  "finish_task run task s = snd (unregister_workflow_task run task (s\<lparr>aa_finished := task # aa_finished s\<rparr>))"

definition cancel_workflow_task :: "agent_env \<Rightarrow> string \<Rightarrow> (bool \<times> bool) agent_io" where
  "cancel_workflow_task V run s =
     (case map_of (aa_tasks s) run of
        None \<Rightarrow> (Inr (False, True), s)
      | Some task \<Rightarrow>
          if task \<in> set (aa_finished s) then (Inr (False, True), s)
          else (case av_cancel V task of
              Keeps_running \<Rightarrow> (Inr (True, False), s)
            | _ \<Rightarrow> (Inr (True, True), finish_task run task s)))"

subsection \<open>The stop flag\<close>

definition stop_key :: "string \<Rightarrow> string" where
  "stop_key run = ''agent:stop:'' @ run"

definition request_stop :: "redis_env \<Rightarrow> string \<Rightarrow> bool redis_io" where
  "request_stop V run =
     catchW (bindW (redis_call V (\<lambda>r. ((), set_expire (stop_key run) 600 (set_value (stop_key run) ''1'' r)))) (\<lambda>_. ret True))
       (\<lambda>e. ret False)"

definition clear_stop :: "redis_env \<Rightarrow> string \<Rightarrow> unit redis_io" where
  "clear_stop V run =
     catchW (redis_call V (\<lambda>r. ((), r\<lparr>rd_values := AList.delete (stop_key run) (rd_values r),
         rd_deadlines := AList.delete (stop_key run) (rd_deadlines r)\<rparr>)))
       (\<lambda>e. ret ())"

definition should_stop :: "redis_env \<Rightarrow> string option \<Rightarrow> bool redis_io" where
  "should_stop V run =
     (case run of
        Some (c # cs) \<Rightarrow>
          catchW (bindW (redis_call V (\<lambda>r. (value_of r (stop_key (c # cs)), r))) (\<lambda>v. ret (v = Some ''1''))) (\<lambda>e. ret False)
      | _ \<Rightarrow> ret False)"

subsection \<open>The callback\<close>

definition strict_int :: "json \<Rightarrow> int py" where
  "strict_int v = (case int_value v of Some i \<Rightarrow> Inr i | None \<Rightarrow> Inl (Exc ''TypeError'' ''unsupported operand type(s)''))"

definition text_or_none :: "json \<Rightarrow> string option" where
  "text_or_none v = (case v of JStr s \<Rightarrow> Some s | _ \<Rightarrow> None)"

definition event_type :: "dict \<Rightarrow> string" where
  "event_type event = py_str (dget_def event ''type'' (JStr ''workflow_event''))"

text \<open>The time stamp, the conversation and the run, where the event lacks them.\<close>

definition add_missing :: "bool \<Rightarrow> string \<Rightarrow> json \<Rightarrow> dict \<Rightarrow> dict" where
  "add_missing wanted k v d = (if wanted \<and> map_of d k = None then put k v d else d)"

definition complete_event :: "int \<Rightarrow> string option \<Rightarrow> string option \<Rightarrow> dict \<Rightarrow> dict" where
  "complete_event now conv run event =
     (let e1 = add_missing (event_type event \<noteq> ''token'') ''timestamp'' (JInt now) event;
          e2 = add_missing (truthy (or_null conv)) ''conversation_id'' (or_null conv) e1
      in add_missing (truthy (por (dget e2 ''run_id'') (or_null run))) ''run_id'' (or_null run) e2)"

definition published_payload :: "dict \<Rightarrow> dict" where
  "published_payload event =
     (if event_type event = ''token.usage'' then AList.delete ''cost'' event else event)"

definition is_tool_start :: "string \<Rightarrow> bool" where
  "is_tool_start t \<longleftrightarrow> t \<in> {''tool.executing'', ''tool.awaiting_approval''}"

definition start_status :: "string \<Rightarrow> string" where
  "start_status t = (if t = ''tool.executing'' then ''executing'' else ''awaiting_approval'')"

definition outcome_statuses :: "(string \<times> string) list" where
  "outcome_statuses = [(''tool.approved'', ''approved''), (''tool.denied'', ''denied''), (''tool.error'', ''error''),
     (''tool.cancelled'', ''cancelled'')]"

definition outcome_result :: "dict \<Rightarrow> json" where
  "outcome_result event =
     (if event_type event = ''tool.denied'' then JList [text_block ''Tool call was denied by the user'']
      else if event_type event = ''tool.cancelled'' then
        JList [JDict [(''type'', JStr ''text''), (''text'', por (dget event ''error'') (JStr ''Cancelled by user''))]]
      else JNull)"

definition persist_usage :: "chat_env \<Rightarrow> string \<Rightarrow> dict \<Rightarrow> string option \<Rightarrow> unit chat_io" where
  "persist_usage E conv event run =
     bindW (lift (int_or0 event ''prompt_tokens'')) (\<lambda>prompt.
     bindW (lift (int_or0 event ''completion_tokens'')) (\<lambda>completion.
     bindW (lift (int_or0 event ''total_tokens'')) (\<lambda>total.
     bindW (lift (int_or0 event ''cost'')) (\<lambda>cost.
     bindW (record_token_usage (Some conv) run prompt completion total (int_value (dget event ''cached_tokens'')) cost
       (text_or_none (dget event ''model''))) (\<lambda>_.
     apply_usage_snapshot E conv run)))))"

definition persist_thinking :: "chat_env \<Rightarrow> int \<Rightarrow> string \<Rightarrow> dict \<Rightarrow> string option \<Rightarrow> unit chat_io" where
  "persist_thinking E now conv event run =
     (if dget event ''content'' = JNull then ret ()
      else let content = py_strip (py_str (dget event ''content'')) in
        if content = [] \<or> py_lower content = ''none'' then ret ()
        else bindW (lift (py_int (dget_def event ''timestamp'' (JInt now)))) (\<lambda>t.
             bindW (lift (int_or0 event ''duration_ms'')) (\<lambda>d.
             append_thinking_segment E conv content t d run)))"

definition persist_text :: "chat_env \<Rightarrow> string \<Rightarrow> dict \<Rightarrow> string option \<Rightarrow> unit chat_io" where
  "persist_text E conv event run =
     (let content = py_str (dget_def event ''content'' (JStr [])) in
      if content = [] then ret ()
      else bindW (lift (strict_int (dget event ''timestamp''))) (\<lambda>t. append_text_segment E conv content t run))"

definition persist_start :: "chat_env \<Rightarrow> int \<Rightarrow> string \<Rightarrow> dict \<Rightarrow> string option \<Rightarrow> unit chat_io" where
  "persist_start E now conv event run =
     (let status = start_status (event_type event) in
      bindW (catchW (update_tool_segment_status E conv (JStr (py_str (dget event ''call_id''))) status JNull JNull False)
               (\<lambda>e. ret ())) (\<lambda>_.
      bindW (lift (py_int (dget_def event ''timestamp'' (JInt now)))) (\<lambda>t.
      append_tool_segment E conv
        [(''call_id'', dget event ''call_id''), (''tool'', dget event ''tool''), (''title'', dget event ''title''),
         (''args'', dget_def event ''args'' (JDict [])), (''run_id'', or_null run), (''status'', JStr status),
         (''timestamp'', dget event ''timestamp'')] t run)))"

definition persist_pending :: "chat_env \<Rightarrow> string \<Rightarrow> dict \<Rightarrow> string option \<Rightarrow> json \<Rightarrow> unit chat_io" where
  "persist_pending E conv event run tool =
     (case tool of
        JDict d \<Rightarrow>
          catchW
            (bindW (lift (py_int (dget_def d ''timestamp'' (dget event ''timestamp'')))) (\<lambda>t.
             append_tool_segment E conv
               [(''call_id'', dget d ''call_id''), (''tool'', dget d ''tool''), (''title'', dget d ''title''),
                (''args'', dget_def d ''args'' (JDict [])), (''run_id'', or_null run),
                (''requires_approval'', JBool (truthy (dget_def d ''requires_approval'' (JBool False)))),
                (''status'', JStr ''pending''), (''timestamp'', JInt t)] t run))
            (\<lambda>e. ret ())
      | v \<Rightarrow> raise (attr_error v ''get''))"

fun each_io :: "('a \<Rightarrow> ('s, unit) st) \<Rightarrow> 'a list \<Rightarrow> ('s, unit) st" where
  "each_io f [] = ret ()"
| "each_io f (x # xs) = bindW (f x) (\<lambda>_. each_io f xs)"

definition run_duration :: "dict \<Rightarrow> int option" where
  "run_duration event =
     (if dget event ''duration_ms'' \<noteq> JNull then int_value (dget event ''duration_ms'')
      else map_option (\<lambda>d. d * 1000) (int_value (dget event ''duration'')))"

definition persist_event :: "chat_env \<Rightarrow> int \<Rightarrow> string \<Rightarrow> dict \<Rightarrow> string option \<Rightarrow> unit chat_io" where
  "persist_event E now conv event run =
     (let t = event_type event in
      if t = ''token.usage'' \<and> por (dget event ''source'') (JStr ''main'') = JStr ''main'' then persist_usage E conv event run
      else if t = ''ttft'' then
        bindW (lift (int_or0 event ''duration'')) (\<lambda>d.
        bindW (record_ttft (Some conv) run (Some d)) (\<lambda>_. apply_usage_snapshot E conv run))
      else if t = ''thinking.complete'' then persist_thinking E now conv event run
      else if t = ''generation.complete'' then persist_text E conv event run
      else if is_tool_start t then persist_start E now conv event run
      else if t = ''tools.pending'' then
        bindW (lift (py_iter (por (dget event ''tools'') (JList [])))) (each_io (persist_pending E conv event run))
      else case map_of outcome_statuses t of
        Some status \<Rightarrow>
          update_tool_segment_status E conv (JStr (py_str (dget event ''call_id''))) status (dget event ''error'')
            (outcome_result event) False
      | None \<Rightarrow>
          if t = ''tool.result'' then
            update_tool_segment_status E conv (JStr (py_str (dget event ''call_id''))) ''completed'' JNull
              (dget event ''result'') False
          else if t \<in> {''completed'', ''workflow_complete''} then
            bindW (record_ttr (Some conv) run (run_duration event)) (\<lambda>_. finalize_usage_snapshot E conv run)
          else ret ())"

text \<open>\<open>persistence\<close> says whether there is a service; a failure of it is logged.\<close>

definition event_callback ::
  "agent_env \<Rightarrow> string \<Rightarrow> string option \<Rightarrow> bool \<Rightarrow> string option \<Rightarrow> dict \<Rightarrow> unit agent_io" where
  "event_callback V channel conv persistence run event =
     bindW (now_ms V) (\<lambda>now.
     let e = complete_event now conv run event in
     bindW (in_redis (publish_event (av_redis V) channel (event_type e) (published_payload e))) (\<lambda>_.
     case conv of
       Some (c # cs) \<Rightarrow>
         (if \<not> persistence then ret ()
          else catchW (in_chat (persist_event (av_chat V) now (c # cs) e (text_or_none (por (dget event ''run_id'') (or_null run)))))
            (\<lambda>e. ret ()))
     | _ \<Rightarrow> ret ()))"

subsection \<open>A run of the workflow\<close>

record workflow_args =
  wa_run :: string
  wa_messages :: "json list"
  wa_channel :: string
  wa_conversation_id :: "string option"
  wa_persistence :: bool
  wa_conversation :: "conversation_row option"
  wa_user :: "string option"
  wa_role :: "string option"
  wa_pending :: "json option"
  wa_suppress :: bool
  wa_decisions :: "dict option"
  wa_reasons :: "dict option"

definition resolve_workflow_user_id :: "conversation_row option \<Rightarrow> string option \<Rightarrow> string option" where
  "resolve_workflow_user_id cv user =
     (case user of
        Some (c # cs) \<Rightarrow> Some (c # cs)
      | _ \<Rightarrow> (case Option.bind cv cv_user of Some (c # cs) \<Rightarrow> Some (c # cs) | _ \<Rightarrow> None))"

definition is_user_message :: "json \<Rightarrow> bool" where
  "is_user_message m \<longleftrightarrow> (case m of JDict d \<Rightarrow> dget d ''role'' = JStr ''user'' | _ \<Rightarrow> False)"

definition latest_user_message :: "json list \<Rightarrow> json option" where
  "latest_user_message ms = find is_user_message (rev ms)"

definition nonempty :: "string option \<Rightarrow> bool" where
  "nonempty v \<longleftrightarrow> (case v of Some (c # cs) \<Rightarrow> True | _ \<Rightarrow> False)"

definition with_key :: "string \<Rightarrow> json option \<Rightarrow> dict \<Rightarrow> dict" where
  "with_key k v d = (case v of None \<Rightarrow> d | Some x \<Rightarrow> d @ [(k, x)])"

text \<open>What a run hands to the graph.\<close>

definition initial_state :: "agent_env \<Rightarrow> workflow_args \<Rightarrow> dict" where
  "initial_state V a =
     with_key ''approval_reasons'' (map_option JDict (wa_reasons a))
      (with_key ''approval_decisions'' (map_option JDict (wa_decisions a))
       (with_key ''pending_tools'' (wa_pending a)
        (with_key ''suppress_pending_event'' (if wa_suppress a then Some (JBool True) else None)
         [(''run_id'', JStr (wa_run a)),
          (''messages'', JList (case latest_user_message (wa_messages a) of None \<Rightarrow> [] | Some m \<Rightarrow> [m])),
          (''conversation_id'', JStr (if nonempty (wa_conversation_id a) then the (wa_conversation_id a) else wa_run a)),
          (''user_id'', or_null (resolve_workflow_user_id (wa_conversation a) (wa_user a))),
          (''user_role'', or_null (wa_role a)),
          (''environment'', JStr (av_environment V))])))"

definition result_status :: "json \<Rightarrow> string" where
  "result_status result =
     (case result of
        JDict d \<Rightarrow>
          (if truthy (dget d ''awaiting_approval'') then ''awaiting_approval''
           else if truthy (dget d ''stopped'') then ''stopped''
           else if truthy (dget d ''error'') then ''error''
           else ''completed'')
      | _ \<Rightarrow> ''completed'')"

definition completion_event :: "string \<Rightarrow> json \<Rightarrow> dict" where
  "completion_event run result =
     [(''type'', JStr ''workflow_complete''), (''run_id'', JStr run), (''result'', result),
      (''status'', JStr (result_status result))]
     @ (case result of
          JDict d \<Rightarrow>
            (case int_value (dget d ''duration'') of
               Some n \<Rightarrow> [(''duration'', dget d ''duration''), (''duration_ms'', JInt (n * 1000))]
             | None \<Rightarrow> [])
        | _ \<Rightarrow> [])"

text \<open>\<open>try: m finally: c\<close>; an exception of the \<open>finally\<close> replaces the other one.\<close>

definition finally_do :: "('s, 'a) st \<Rightarrow> unit py \<Rightarrow> ('s, 'a) st" where
  "finally_do m c w =
     (case m w of (r, w') \<Rightarrow> (case c of Inl e \<Rightarrow> (Inl e, w') | Inr u \<Rightarrow> (r, w')))"

definition failure_event :: "string \<Rightarrow> string \<Rightarrow> dict" where
  "failure_event run err =
     [(''type'', JStr ''workflow.error''), (''run_id'', JStr run), (''error'', JStr err)]"

definition failed_completion :: "string \<Rightarrow> string \<Rightarrow> dict" where
  "failed_completion run err =
     [(''type'', JStr ''workflow_complete''), (''run_id'', JStr run),
      (''result'', JDict [(''done'', JBool True), (''error'', JStr err)]), (''status'', JStr ''error'')]"

definition run_agent_workflow :: "agent_env \<Rightarrow> workflow_args \<Rightarrow> unit agent_io" where
  "run_agent_workflow V a =
     (let cb = event_callback V (wa_channel a) (wa_conversation_id a) (wa_persistence a) (Some (wa_run a));
          wr = av_workflow V (initial_state V a)
      in catchW
        (bindW (if wa_run a = [] then ret () else catchW (in_redis (clear_stop (av_redis V) (wa_run a))) (\<lambda>e. ret ())) (\<lambda>_.
         finally_do
           (bindW (each_io cb (wr_events wr)) (\<lambda>_.
            bindW (lift (wr_result wr)) (\<lambda>result.
            cb (completion_event (wa_run a) result))))
           (wr_close wr)))
        (\<lambda>e.
         bindW (in_redis (publish_event (av_redis V) (wa_channel a) ''workflow.error'' (failure_event (wa_run a) (exc_msg e)))) (\<lambda>_.
         in_redis (publish_event (av_redis V) (wa_channel a) ''workflow_complete''
           (failed_completion (wa_run a) (exc_msg e))))))"

text \<open>The registered task around it.\<close>

definition workflow_runner :: "agent_env \<Rightarrow> nat \<Rightarrow> workflow_args \<Rightarrow> unit agent_io" where
  "workflow_runner V task a s =
     (case run_agent_workflow V a s of (r, s') \<Rightarrow> (r, finish_task (wa_run a) task s'))"

end
