(* ===== verification/AgentApi.thy ===== *)
theory AgentApi
  imports AgentEvents
begin

text \<open>
  The handlers of \<open>endpoints/agent.py\<close>: a chat, the decision on an approval, the resumption of a stream, the
  stop of a run and the list of the tools. A stream is answered as a plan: what it streams from and the
  workflow it starts, which theory AgentEvents runs and theory EventStream turns into frames.
\<close>

type_synonym 'a agent_reply = "(http_error + 'a) agent_io"

definition refuse_with :: "int \<Rightarrow> string \<Rightarrow> 'a agent_reply" where
  "refuse_with code msg = ret (Inl (Http code (JStr msg)))"

definition or_fail :: "(py_exc \<Rightarrow> string) \<Rightarrow> 'a agent_reply \<Rightarrow> 'a agent_reply" where
  "or_fail msg m = catchW m (\<lambda>e. refuse_with 500 (msg e))"

record stream_plan =
  sp_run :: string
  sp_args :: "workflow_args option"
  sp_title :: bool
  sp_last :: int
  sp_gap :: "dict option"

definition new_run :: "agent_env \<Rightarrow> string agent_io" where
  "new_run V = in_chat (chat_uuid (av_chat V))"

definition run_channel :: "string \<Rightarrow> string" where
  "run_channel run = ''run:'' @ run"

definition user_role :: "api_user option \<Rightarrow> string option" where
  "user_role u = (case u of None \<Rightarrow> None | Some x \<Rightarrow> Some (if au_superuser x then ''superuser'' else au_role x))"

definition load_conversation :: "chat_env \<Rightarrow> json \<Rightarrow> conversation_row chat_io" where
  "load_conversation E v =
     (case v of
        JStr s \<Rightarrow> bindW (lift (ce_parse E s)) (get_conversation_row E)
      | _ \<Rightarrow> raise (Exc ''ValueError'' ''badly formed hexadecimal UUID string''))"

text \<open>The conversation of a request: 404, 503 or 403 when it cannot be had.\<close>

definition own_conversation ::
  "agent_env \<Rightarrow> json \<Rightarrow> api_user option \<Rightarrow> (conversation_row \<Rightarrow> 'a agent_reply) \<Rightarrow> 'a agent_reply" where
  "own_conversation V cid u k =
     bindW (catchW (bindW (in_chat (load_conversation (av_chat V) cid)) (\<lambda>cv. ret (Inr cv)))
       (\<lambda>e. ret (Inl (if exc_type e = ''DoesNotExist'' then Http 404 (JStr ''Conversation not found'')
                     else Http 503 (JStr ''Conversation authorization unavailable''))))) (\<lambda>found.
     case found of
       Inl h \<Rightarrow> ret (Inl h)
     | Inr cv \<Rightarrow>
         if check_conversation_authorization cv u then k cv
         else refuse_with 403 ''Not authorized for conversation'')"

subsection \<open>A chat\<close>

definition has_content :: "json \<Rightarrow> bool" where
  "has_content m \<longleftrightarrow> (case m of JDict d \<Rightarrow> truthy (dget d ''content'') | _ \<Rightarrow> False)"

definition store_user_message :: "agent_env \<Rightarrow> conversation_row \<Rightarrow> json list \<Rightarrow> unit agent_io" where
  "store_user_message V cv ms =
     catchW
       (case latest_user_message ms of
          Some (JDict d) \<Rightarrow>
            bindW (now_ms V) (\<lambda>t. in_chat (append_user_message (av_chat V) (cv_id cv)
              (py_str (dget_def d ''content'' (JStr []))) t))
        | _ \<Rightarrow> ret ())
       (\<lambda>e. ret ())"

definition chat_args :: "string \<Rightarrow> json list \<Rightarrow> json \<Rightarrow> conversation_row option \<Rightarrow> api_user option \<Rightarrow> workflow_args" where
  "chat_args run ms cid cv u =
     \<lparr>wa_run = run, wa_messages = ms, wa_channel = run_channel run, wa_conversation_id = text_or_none cid,
      wa_persistence = (cv \<noteq> None), wa_conversation = cv, wa_user = map_option au_id u, wa_role = user_role u,
      wa_pending = None, wa_suppress = False, wa_decisions = None, wa_reasons = None\<rparr>"

definition start_chat :: "agent_env \<Rightarrow> json list \<Rightarrow> json \<Rightarrow> api_user option \<Rightarrow> conversation_row option \<Rightarrow> string \<Rightarrow>
    stream_plan agent_reply" where
  "start_chat V ms cid u cv run =
     bindW (in_redis (remember_run_conversation (av_redis V) run (text_or_none cid))) (\<lambda>_.
     ret (Inr \<lparr>sp_run = run, sp_args = Some (chat_args run ms cid cv u),
       sp_title = (case cv of None \<Rightarrow> False | Some r \<Rightarrow> \<not> truthy (or_null (cv_title r))), sp_last = 0, sp_gap = None\<rparr>))"

definition chat_stream :: "agent_env \<Rightarrow> json py \<Rightarrow> api_user option \<Rightarrow> stream_plan agent_reply" where
  "chat_stream V body u =
     or_fail (\<lambda>e. ''Error setting up stream: '' @ exc_msg e)
       (bindW (lift (bindE body as_dict)) (\<lambda>d.
        let cid = dget d ''conversation_id'' in
        if \<not> truthy (dget_def d ''messages'' (JList [])) then refuse_with 400 ''messages are required''
        else bindW (lift (py_iter (dget d ''messages''))) (\<lambda>ms.
          if \<not> list_ex has_content ms then refuse_with 400 ''No valid messages found''
          else bindW (new_run V) (\<lambda>run.
            if \<not> truthy cid then start_chat V ms cid u None run
            else own_conversation V cid u (\<lambda>cv.
              bindW (store_user_message V cv ms) (\<lambda>_. start_chat V ms cid u (Some cv) run))))))"

subsection \<open>An approval\<close>

text \<open>The fields of a body as the model of the request reads them.\<close>

definition invalid_body :: py_exc where
  "invalid_body = Exc ''ValidationError'' ''validation error''"

definition lax_bool :: "json \<Rightarrow> bool py" where
  "lax_bool v =
     (case v of
        JBool b \<Rightarrow> Inr b
      | JInt i \<Rightarrow> if i = 1 then Inr True else if i = 0 then Inr False else Inl invalid_body
      | JStr s \<Rightarrow>
          if py_lower s \<in> {''1'', ''on'', ''t'', ''true'', ''y'', ''yes''} then Inr True
          else if py_lower s \<in> {''0'', ''off'', ''f'', ''false'', ''n'', ''no''} then Inr False
          else Inl invalid_body
      | _ \<Rightarrow> Inl invalid_body)"

definition body_str_opt :: "dict \<Rightarrow> string \<Rightarrow> string option py" where
  "body_str_opt d k = (case dget d k of JNull \<Rightarrow> Inr None | JStr s \<Rightarrow> Inr (Some s) | _ \<Rightarrow> Inl invalid_body)"

definition body_str :: "dict \<Rightarrow> string \<Rightarrow> string py" where
  "body_str d k = (case dget d k of JStr s \<Rightarrow> Inr s | _ \<Rightarrow> Inl invalid_body)"

record approval_body =
  ad_approve :: bool
  ad_reason :: "string option"
  ad_conversation :: "string option"

definition sent_decision :: "dict \<Rightarrow> approval_body py" where
  "sent_decision d =
     bindE (lax_bool (dget d ''approve'')) (\<lambda>a. bindE (body_str_opt d ''reason'') (\<lambda>r.
     bindE (body_str_opt d ''conversation_id'') (\<lambda>c.
     Inr \<lparr>ad_approve = a, ad_reason = r, ad_conversation = c\<rparr>)))"

definition approval_args :: "string \<Rightarrow> string \<Rightarrow> approval_body \<Rightarrow> conversation_row \<Rightarrow> api_user option \<Rightarrow> workflow_args" where
  "approval_args run callid b cv u =
     \<lparr>wa_run = run, wa_messages = [], wa_channel = run_channel run, wa_conversation_id = ad_conversation b,
      wa_persistence = True, wa_conversation = Some cv, wa_user = map_option au_id u, wa_role = user_role u,
      wa_pending = None, wa_suppress = True, wa_decisions = Some [(callid, JBool (ad_approve b))],
      wa_reasons = Some (case ad_reason b of None \<Rightarrow> [] | Some r \<Rightarrow> [(callid, JStr r)])\<rparr>"

definition decide_approval :: "agent_env \<Rightarrow> string \<Rightarrow> json py \<Rightarrow> api_user option \<Rightarrow> stream_plan agent_reply" where
  "decide_approval V callid body u =
     or_fail (\<lambda>e. ''Error processing approval: '' @ exc_msg e)
       (bindW (lift (bindE body as_dict)) (\<lambda>d.
        bindW (lift (sent_decision d)) (\<lambda>b.
        if \<not> nonempty (ad_conversation b) then refuse_with 400 ''conversation_id is required''
        else bindW (new_run V) (\<lambda>run.
          own_conversation V (or_null (ad_conversation b)) u (\<lambda>cv.
          bindW (in_redis (remember_run_conversation (av_redis V) run (ad_conversation b))) (\<lambda>_.
          bindW (if ad_approve b then ret ()
                 else catchW (in_chat (update_tool_segment_status (av_chat V) (the (ad_conversation b)) (JStr callid) ''denied''
                   JNull (JList [text_block ''Tool call was denied by the user'']) False)) (\<lambda>e. ret ())) (\<lambda>_.
          ret (Inr \<lparr>sp_run = run, sp_args = Some (approval_args run callid b cv u), sp_title = False, sp_last = 0,
            sp_gap = None\<rparr>))))))))"

subsection \<open>The resumption of a stream\<close>

definition body_nat :: "dict \<Rightarrow> string \<Rightarrow> int py" where
  "body_nat d k =
     (case map_of d k of
        None \<Rightarrow> Inr 0
      | Some v \<Rightarrow>
          (case py_int v of Inr i \<Rightarrow> if 0 \<le> i then Inr i else Inl invalid_body | Inl e \<Rightarrow> Inl invalid_body))"

definition mapping_gap :: "string \<Rightarrow> string \<Rightarrow> dict" where
  "mapping_gap run cid =
     [(''type'', JStr ''stream.gap''), (''status'', JStr ''error''), (''run_id'', JStr run), (''conversation_id'', JStr cid),
      (''recovery'', JStr ''reload_conversation''), (''reason'', JStr ''run_mapping_expired''),
      (''error'', JStr ''The resumable run mapping expired.'')]"

text \<open>The body is read outside of any handler: what reading it raises is raised.\<close>

definition resume_run_events :: "agent_env \<Rightarrow> string \<Rightarrow> json py \<Rightarrow> api_user option \<Rightarrow> stream_plan agent_reply" where
  "resume_run_events V run body u =
     (case ce_parse (av_chat V) run of
        Inl e \<Rightarrow> refuse_with 400 ''Invalid run_id''
      | Inr rid \<Rightarrow>
          bindW (lift (bindE body as_dict)) (\<lambda>d.
          bindW (lift (body_str d ''conversation_id'')) (\<lambda>cid.
          bindW (lift (body_nat d ''last_event_id'')) (\<lambda>last_id.
          bindW (catchW (bindW (in_chat (load_conversation (av_chat V) (JStr cid))) (\<lambda>cv. ret (Some cv))) (\<lambda>e. ret None)) (\<lambda>found.
          case found of
            None \<Rightarrow> refuse_with 404 ''Conversation not found''
          | Some cv \<Rightarrow>
              if \<not> check_conversation_authorization cv u then refuse_with 403 ''Not authorized for conversation''
              else bindW (in_redis (redis_call (av_redis V) (\<lambda>r. (value_of r (run_conversation_key rid), r)))) (\<lambda>expected.
                ret (Inr \<lparr>sp_run = rid, sp_args = None, sp_title = False, sp_last = last_id,
                  sp_gap = (if expected = Some cid then None else Some (mapping_gap rid cid))\<rparr>)))))))"

text \<open>What a plan that starts no workflow streams: the list is read from one store, the counter from a later one.\<close>

definition resumed_frames :: "agent_env \<Rightarrow> stream_plan \<Rightarrow> redis \<Rightarrow> redis \<Rightarrow> stream_poll list \<Rightarrow> frame list" where
  "resumed_frames V p r r' polls =
     (case sp_gap p of
        Some d \<Rightarrow> [Gap_frame d]
      | None \<Rightarrow>
          stream_frames (av_loads V) (sp_run p) (sp_last p) (list_of r (events_key (run_channel (sp_run p))))
            (value_of r' (sequence_key (run_channel (sp_run p)))) polls)"

subsection \<open>The stop of a run\<close>

definition cancel_mcp_run :: "agent_env \<Rightarrow> string \<Rightarrow> dict" where
  "cancel_mcp_run V run =
     (case av_mcp V run of
        Inr (JDict d) \<Rightarrow> d
      | Inr v \<Rightarrow> [(''matched'', JInt 0)]
      | Inl e \<Rightarrow> [(''matched'', JInt 0), (''error'', JStr ''mcp_cancel_unavailable'')])"

definition converge_journal :: "agent_env \<Rightarrow> string \<Rightarrow> dict agent_io" where
  "converge_journal V run =
     bindW (now_ms V) (\<lambda>now s.
     case av_journal_fails V run of
       Some e \<Rightarrow> (Inr [(''error'', JStr (exc_type e))], s)
     | None \<Rightarrow>
         (case converge_stopped_run run now (aa_journal s) of
            ((c, n), J) \<Rightarrow> (Inr [(''cancelled'', JInt (int c)), (''unknown'', JInt (int n))], s\<lparr>aa_journal := J\<rparr>)))"

definition cancelled_tool_event :: "string \<Rightarrow> int \<Rightarrow> dict \<Rightarrow> dict" where
  "cancelled_tool_event run now tool =
     [(''type'', JStr ''tool.cancelled''), (''run_id'', JStr run), (''call_id'', dget tool ''call_id''),
      (''tool'', dget tool ''tool''), (''title'', dget tool ''title''), (''args'', dget_def tool ''args'' (JDict [])),
      (''error'', por (dget tool ''error'') (JStr ''Cancelled by user'')), (''timestamp'', JInt now)]"

definition publish_cancelled :: "agent_env \<Rightarrow> string \<Rightarrow> dict \<Rightarrow> unit agent_io" where
  "publish_cancelled V run tool =
     bindW (now_ms V) (\<lambda>now. in_redis (publish_event (av_redis V) (run_channel run) ''tool.cancelled''
       (cancelled_tool_event run now tool)))"

definition partial_reasons :: "bool \<Rightarrow> bool \<Rightarrow> dict \<Rightarrow> dict \<Rightarrow> string list" where
  "partial_reasons flag confirmed mcp journal =
     (if flag then [] else [''stop_flag_unavailable''])
     @ (if confirmed then [] else [''workflow_cancellation_unconfirmed''])
     @ (if truthy (dget mcp ''error'') then [py_str (dget mcp ''error'')] else [])
     @ (if truthy (dget journal ''error'') then [''journal_convergence_failed''] else [])"

definition stop_status :: "string list \<Rightarrow> string" where
  "stop_status reasons = (if reasons = [] then ''stopped'' else ''stop_partial'')"

definition stop_event :: "string \<Rightarrow> string list \<Rightarrow> dict" where
  "stop_event run reasons =
     [(''type'', JStr ''workflow_complete''), (''run_id'', JStr run), (''result'', JDict [(''done'', JBool (reasons = []))]),
      (''status'', JStr (stop_status reasons)), (''partial_reasons'', JList (map JStr reasons))]"

definition stop_everything :: "agent_env \<Rightarrow> string \<Rightarrow> string \<Rightarrow> dict agent_io" where
  "stop_everything V cid run =
     bindW (in_redis (request_stop (av_redis V) run)) (\<lambda>flag.
     bindW (cancel_workflow_task V run) (\<lambda>(requested, confirmed).
     bindW (in_chat (cancel_active_tool_segments (av_chat V) cid (Some run) ''Cancelled by user'')) (\<lambda>tools.
     bindW (each_io (publish_cancelled V run) tools) (\<lambda>_.
     bindW (converge_journal V run) (\<lambda>journal.
     let mcp = cancel_mcp_run V run;
         reasons = partial_reasons flag confirmed mcp journal
     in bindW (in_redis (publish_event (av_redis V) (run_channel run) ''workflow_complete'' (stop_event run reasons))) (\<lambda>_.
        ret [(''status'', JStr (stop_status reasons)), (''conversation_id'', JStr cid), (''run_id'', JStr run),
          (''workflow_cancel_requested'', JBool requested), (''workflow_cancelled'', JBool confirmed),
          (''cancelled_tool_count'', JInt (int (length tools))), (''mcp_processes'', JDict mcp),
          (''mutation_journal'', JDict journal), (''partial_reasons'', JList (map JStr reasons))]))))))"

definition stop_run :: "agent_env \<Rightarrow> json py \<Rightarrow> api_user option \<Rightarrow> dict agent_reply" where
  "stop_run V body u =
     or_fail (\<lambda>e. ''Error requesting stop'')
       (bindW (lift (bindE body as_dict)) (\<lambda>d.
        bindW (lift (body_str d ''conversation_id'')) (\<lambda>cid.
        bindW (lift (body_str d ''run_id'')) (\<lambda>run.
        bindW (catchW (bindW (in_chat (load_conversation (av_chat V) (JStr cid))) (\<lambda>cv. ret (Some cv))) (\<lambda>e. ret None)) (\<lambda>found.
        case found of
          None \<Rightarrow> refuse_with 404 ''Conversation not found''
        | Some cv \<Rightarrow>
            if \<not> check_conversation_authorization cv u then refuse_with 403 ''Not authorized for conversation''
            else bindW (stop_everything V cid run) (\<lambda>r. ret (Inr r)))))))"

subsection \<open>The list of the tools\<close>

record tool_metadata =
  tm_name :: string
  tm_title :: string
  tm_annotations :: dict
  tm_tags :: "string list"

definition mapping_or_empty :: "json \<Rightarrow> dict" where
  "mapping_or_empty v = (case v of JDict d \<Rightarrow> d | _ \<Rightarrow> [])"

definition str_items_of :: "json \<Rightarrow> string list" where
  "str_items_of v = (case v of JList xs \<Rightarrow> List.map_filter text_or_none xs | _ \<Rightarrow> [])"

definition format_tool :: "json \<Rightarrow> tool_metadata option" where
  "format_tool t =
     (case t of
        JDict d \<Rightarrow>
          (case dget d ''name'' of
             JStr (c # cs) \<Rightarrow> Some
               \<lparr>tm_name = c # cs, tm_title = (case dget d ''title'' of JStr s \<Rightarrow> s | _ \<Rightarrow> []),
                tm_annotations = mapping_or_empty (dget d ''annotations''),
                tm_tags = str_items_of (dget (mapping_or_empty (dget (mapping_or_empty (dget d ''meta'')) ''_fastmcp'')) ''tags'')\<rparr>
           | _ \<Rightarrow> None)
      | _ \<Rightarrow> None)"

text \<open>The executor's answer, or what it raised.\<close>

definition list_tools :: "dict py \<Rightarrow> http_error + tool_metadata list" where
  "list_tools answer =
     (case answer of
        Inl e \<Rightarrow> Inl (Http 500 (JStr ''Error listing tools''))
      | Inr d \<Rightarrow>
          if map_of d ''error'' \<noteq> None then Inl (Http 502 (JStr ''Error listing tools''))
          else (case py_iter (dget_def d ''tools'' (JList [])) of
              Inl e \<Rightarrow> Inl (Http 500 (JStr ''Error listing tools''))
            | Inr ts \<Rightarrow> Inr (List.map_filter format_tool ts)))"

end
