(* ===== verification/AgentApiProps.thy ===== *)
theory AgentApiProps
  imports AgentApi EventProps ConversationProps JournalProps
begin

text \<open>
  What the handlers of \<open>endpoints/agent.py\<close> guarantee: a workflow that is not cancelled ends its stream,
  a stop that is reported complete is complete, a stream is resumed only for the conversation its run belongs
  to, and the cost of a turn stays inside; and what a stop and a new turn do not check.
\<close>

subsection \<open>Events reach the channel\<close>

text \<open>The channel of Redis seen from the process of the endpoints.\<close>

interpretation agent_log: channel_log "\<lambda>c e p. in_redis (publish_event calm c e p)" "\<lambda>s :: agent_api. rd_published (aa_redis s)"
proof unfold_locales
  fix p d c e and s :: agent_api
  assume "strip_integration_meta_keys p = Inr d"
  then obtain x n where "publish_event calm c e p (aa_redis s) = (Inr (), x)"
      "rd_published x = rd_published (aa_redis s) @ [(c, sse_format e d (Some n))]"
    using redis_log.send_appends by blast
  then show "\<exists>s' n. in_redis (publish_event calm c e p) s = (Inr (), s') \<and>
      rd_published (aa_redis s') = rd_published (aa_redis s) @ [(c, sse_format e d (Some n))]"
    by (intro exI[of _ "s\<lparr>aa_redis := x\<rparr>"] exI[of _ n]) (simp add: in_redis_def)
qed

lemma in_redis_publish:
  assumes "strip_integration_meta_keys p = Inr d"
  obtains s' n where "in_redis (publish_event calm c e p) s = (Inr (), s')"
    and "rd_published (aa_redis s') = rd_published (aa_redis s) @ [(c, sse_format e d (Some n))]"
  using agent_log.send_appends[OF assms] by blast

lemma in_chat_redis [simp]: "aa_redis (snd (in_chat m s)) = aa_redis s"
  by (simp add: in_chat_def split: prod.split)

lemma in_chat_result: "in_chat m s = (r, s') \<Longrightarrow> aa_redis s' = aa_redis s"
  by (metis in_chat_redis snd_conv)

lemma catch_result:
  "catchW m h w = (r, w') \<Longrightarrow> (\<exists>e w1. m w = (Inl e, w1) \<and> \<not> cancelled e \<and> h e w1 = (r, w')) \<or>
     (m w = (r, w') \<and> (\<forall>e. r = Inl e \<longrightarrow> cancelled e))"
  by (auto simp: catchW_def split: prod.splits sum.splits if_splits)

text \<open>Operations that leave Redis alone.\<close>

interpretation redis_kept: state_moves aa_redis "(=)"
  by unfold_locales auto

text \<open>The callback: what is published, and that only a cancellation comes out of it.\<close>

lemma callback_publishes:
  assumes "av_redis V = calm" and "event_callback V c conv p run ev s = (r, s')"
    and "now = av_clock V (aa_ticks s)" and "x = complete_event now conv run ev"
    and "strip_integration_meta_keys (published_payload x) = Inr d"
  shows "\<exists>n. rd_published (aa_redis s') = rd_published (aa_redis s) @ [(c, sse_format (event_type x) d (Some n))]"
proof -
  obtain s1 n where pub: "in_redis (publish_event calm c (event_type x) (published_payload x)) (s\<lparr>aa_ticks := Suc (aa_ticks s)\<rparr>) = (Inr (), s1)"
      "rd_published (aa_redis s1) = rd_published (aa_redis s) @ [(c, sse_format (event_type x) d (Some n))]"
    using in_redis_publish[OF assms(5), of c "event_type x" "s\<lparr>aa_ticks := Suc (aa_ticks s)\<rparr>"] by auto
  define rest where "rest = (case conv of
      Some (h # hs) \<Rightarrow>
        (if \<not> p then ret ()
         else catchW (in_chat (persist_event (av_chat V) now (h # hs) (complete_event now conv run ev) (text_or_none (por (dget ev ''run_id'') (or_null run))))) (\<lambda>e. ret ()))
    | _ \<Rightarrow> ret ())"
  have "redis_kept.moves (in_chat m)" for m :: "unit chat_io" by (simp add: redis_kept.moves_def)
  then have "redis_kept.moves rest"
    unfolding rest_def by (auto split: option.split list.split intro!: redis_kept.moves_catch)
  moreover have "event_callback V c conv p run ev s = rest s1"
    unfolding event_callback_def
    by (simp add: bindW_def[of "now_ms V"] now_ms_def Let_def assms(1) assms(3)[symmetric]
        bindW_def[of "in_redis m" for m] pub(1)[unfolded assms(4), simplified] rest_def)
  ultimately have "aa_redis s' = aa_redis s1" using assms(2) by (metis redis_kept.moves_eq)
  then show ?thesis using pub(2) by auto
qed

subsection \<open>The last event of a run\<close>

lemma complete_event_keeps: "k \<notin> {''timestamp'', ''conversation_id'', ''run_id''} \<Longrightarrow> map_of (complete_event now conv run ev) k = map_of ev k"
proof -
  assume k: "k \<notin> {''timestamp'', ''conversation_id'', ''run_id''}"
  have "map_of (add_missing b k' v d) k = map_of d k" if "k \<noteq> k'" for b k' v d
    using that by (simp add: add_missing_def put_def update_conv')
  then show ?thesis using k unfolding complete_event_def Let_def by simp
qed

lemma complete_event_type [simp]: "event_type (complete_event now conv run ev) = event_type ev"
  by (simp add: event_type_def dget_def_def complete_event_keeps)

lemma complete_event_status [simp]: "dget (complete_event now conv run ev) ''status'' = dget ev ''status''"
  by (simp add: dget_def_def complete_event_keeps)

lemma strip_nothing: "map_of p ''args'' = None \<Longrightarrow> map_of p ''tools'' = None \<Longrightarrow> strip_integration_meta_keys p = Inr p"
  by (simp add: strip_integration_meta_keys_def)

lemma completion_published:
  "strip_integration_meta_keys (published_payload (complete_event now conv run (completion_event rid res))) =
     Inr (complete_event now conv run (completion_event rid res))"
proof -
  have "event_type (completion_event rid res) = ''workflow_complete''" by (simp add: event_type_def completion_event_def)
  then have "published_payload (complete_event now conv run (completion_event rid res)) =
      complete_event now conv run (completion_event rid res)" by (simp add: published_payload_def)
  moreover have "map_of (completion_event rid res) k = None" if "k \<in> {''args'', ''tools''}" for k
    using that by (auto simp: completion_event_def split: json.split option.split)
  ultimately show ?thesis by (simp add: strip_nothing complete_event_keeps)
qed

lemma completion_terminal: "is_terminal_payload (complete_event now conv run (completion_event rid res))"
proof -
  have "result_status res \<in> {''completed'', ''error'', ''awaiting_approval'', ''stopped''}"
    by (auto simp: result_status_def split: json.split)
  then show ?thesis by (auto simp: is_terminal_payload_def completion_event_def)
qed

lemma failure_payloads:
  "strip_integration_meta_keys (failure_event rid e) = Inr (failure_event rid e)"
  "strip_integration_meta_keys (failed_completion rid e) = Inr (failed_completion rid e)"
  "is_terminal_payload (failed_completion rid e)"
  by (simp_all add: strip_nothing failure_event_def failed_completion_def is_terminal_payload_def)

text \<open>The last thing a run publishes on its channel.\<close>

definition ends_with_terminal :: "string \<Rightarrow> redis \<Rightarrow> bool" where
  "ends_with_terminal c r \<longleftrightarrow> closes c (rd_published r)"

text \<open>
  C20: a run ends its stream.  Whatever the graph hands to the callback, returns or raises, and whatever the database
  does to the writes of the events, with a Redis that answers the last thing published on the channel of a run
  is a \<open>workflow_complete\<close> whose status ends the stream (completed, awaiting approval, stopped or error),
  unless the task is cancelled.
\<close>

theorem workflow_ends_stream:
  assumes "av_redis V = calm" and "run_agent_workflow V a s = (r, s')" and "\<And>e. r = Inl e \<Longrightarrow> \<not> cancelled e"
  shows "ends_with_terminal (wa_channel a) (aa_redis s')"
proof -
  define cb where "cb = event_callback V (wa_channel a) (wa_conversation_id a) (wa_persistence a) (Some (wa_run a))"
  define wr where "wr = av_workflow V (initial_state V a)"
  define inner where "inner = bindW (if wa_run a = [] then ret ()
      else catchW (in_redis (clear_stop (av_redis V) (wa_run a))) (\<lambda>e. ret ())) (\<lambda>_. finally_do
        (bindW (each_io cb (wr_events wr)) (\<lambda>_. bindW (lift (wr_result wr)) (\<lambda>result. cb (completion_event (wa_run a) result))))
        (wr_close wr))"
  define fail where "fail e = bindW (in_redis (publish_event (av_redis V) (wa_channel a) ''workflow.error''
      (failure_event (wa_run a) (exc_msg e)))) (\<lambda>_. in_redis (publish_event (av_redis V) (wa_channel a) ''workflow_complete''
        (failed_completion (wa_run a) (exc_msg e))))" for e
  have run: "run_agent_workflow V a = catchW inner fail"
    unfolding run_agent_workflow_def Let_def inner_def fail_def cb_def wr_def by (rule refl)
  consider (failed) e w1 where "inner s = (Inl e, w1)" "\<not> cancelled e" "fail e w1 = (r, s')"
    | (fine) "inner s = (r, s')" "\<forall>e. r = Inl e \<longrightarrow> cancelled e"
    using catch_result[of inner fail s r s'] assms(2) unfolding run by blast
  then show ?thesis
  proof cases
    case (failed e w1)
    then show ?thesis
      using agent_log.send_then_closes[OF failure_payloads(1,2,3)]
      unfolding fail_def assms(1) ends_with_terminal_def by blast
  next
    case fine
    then have "inner s = (Inr (), s')" using assms(3) by (cases r) auto
    then obtain w1 where "finally_do (bindW (each_io cb (wr_events wr)) (\<lambda>_. bindW (lift (wr_result wr))
        (\<lambda>result. cb (completion_event (wa_run a) result)))) (wr_close wr) w1 = (Inr (), s')"
      unfolding inner_def bindW_Inr by blast
    then have "bindW (each_io cb (wr_events wr)) (\<lambda>_. bindW (lift (wr_result wr))
        (\<lambda>result. cb (completion_event (wa_run a) result))) w1 = (Inr (), s')"
      unfolding finally_do_def by (auto split: prod.splits sum.splits)
    then obtain result w3 where last_cb: "cb (completion_event (wa_run a) result) w3 = (Inr (), s')"
      unfolding bindW_Inr by blast
    define x where "x = complete_event (av_clock V (aa_ticks w3)) (wa_conversation_id a) (Some (wa_run a)) (completion_event (wa_run a) result)"
    have "event_type x = ''workflow_complete''" by (simp add: x_def event_type_def completion_event_def dget_def_def complete_event_keeps)
    then obtain n where "rd_published (aa_redis s') =
        rd_published (aa_redis w3) @ [(wa_channel a, sse_format ''workflow_complete'' x (Some n))]"
      using callback_publishes[OF assms(1) last_cb[unfolded cb_def] refl refl completion_published]
      by (auto simp: x_def)
    then show ?thesis unfolding ends_with_terminal_def closes_def using completion_terminal x_def by blast
  qed
qed

definition demo_args :: workflow_args where
  "demo_args = \<lparr>wa_run = ''r1'', wa_messages = [], wa_channel = ''run:r1'', wa_conversation_id = None, wa_persistence = False,
     wa_conversation = None, wa_user = None, wa_role = None, wa_pending = None, wa_suppress = False, wa_decisions = None,
     wa_reasons = None\<rparr>"

definition demo_env :: agent_env where
  "demo_env = \<lparr>av_chat = demo_still, av_redis = calm, av_clock = int, av_loads = demo_loads, av_cancel = (\<lambda>t. Ends_cancelled),
     av_mcp = (\<lambda>r. Inr (JDict [(''matched'', JInt 1)])), av_journal_fails = (\<lambda>r. None),
     av_workflow = (\<lambda>s. \<lparr>wr_events = [], wr_result = Inl (Exc ''RuntimeError'' ''no model''),
       wr_close = Inr ()\<rparr>), av_environment = ''production''\<rparr>"

definition demo_api :: agent_api where
  "demo_api = \<lparr>aa_chat = demo_chats, aa_redis = demo_redis, aa_journal = [], aa_tasks = [], aa_finished = [], aa_ticks = 0\<rparr>"

lemma workflow_ends_stream_witness:
  "ends_with_terminal ''run:r1'' (aa_redis (snd (run_agent_workflow demo_env demo_args demo_api)))"
proof -
  obtain r s' where run: "run_agent_workflow demo_env demo_args demo_api = (r, s')"
    by (cases "run_agent_workflow demo_env demo_args demo_api")
  have calm: "av_redis demo_env = calm" by (simp add: demo_env_def)
  obtain w1 where cl: "in_redis (clear_stop calm ''r1'') demo_api = (Inr (), w1)"
    by (simp add: in_redis_def clear_stop_def catchW_def redis_call_calm)
  obtain s2 n2 where p1: "in_redis (publish_event calm ''run:r1'' ''workflow.error'' (failure_event ''r1'' ''no model'')) w1 = (Inr (), s2)"
    using in_redis_publish[OF failure_payloads(1)] by metis
  obtain s3 n3 where p2: "in_redis (publish_event calm ''run:r1'' ''workflow_complete'' (failed_completion ''r1'' ''no model'')) s2 = (Inr (), s3)"
    using in_redis_publish[OF failure_payloads(2)] by metis

  have "fst (run_agent_workflow demo_env demo_args demo_api) = Inr ()"
    unfolding run_agent_workflow_def demo_env_def demo_args_def Let_def
    by (simp add: catchW_def[of "bindW m f" for m f] catchW_def[of "in_redis m" for m] bindW_def cl finally_do_def ret_def lift_def
        cancelled_def p1 p2)
  then have "\<And>e. r = Inl e \<Longrightarrow> \<not> cancelled e" by (simp add: run)
  then have "ends_with_terminal (wa_channel demo_args) (aa_redis s')" by (rule workflow_ends_stream[OF calm run])
  moreover have "wa_channel demo_args = ''run:r1''" by (simp add: demo_args_def)
  ultimately show ?thesis by (simp add: run)
qed

subsection \<open>A stop that is complete\<close>

lemma settles: "snd (converge_stopped_run run now J) = map (settled run now) J"
  unfolding converge_stopped_run_def cancel_prepared_def interrupt_executing_def update_where_def
  by (induction J) (simp_all add: settled_def Let_def)

lemma converged: "r \<in> set (snd (converge_stopped_run run now J)) \<Longrightarrow> op_run_id r = run \<Longrightarrow>
    execution_status r \<notin> {PREPARED, EXECUTING}"
proof -
  note settles
  moreover assume "r \<in> set (snd (converge_stopped_run run now J))" and run: "op_run_id r = run"
  ultimately obtain q where r: "r = settled run now q" by auto
  show ?thesis
  proof (cases "op_run_id q = run")
    case True
    then show ?thesis
      by (cases "execution_status q") (simp_all add: r settled_def cancel_row_def interrupt_row_def bump_def)
  next
    case False
    then show ?thesis using r run by (simp add: settled_def)
  qed
qed

text \<open>What the steps of a stop leave alone.\<close>

interpretation rows: state_moves aa_journal "(=)"
  by unfold_locales auto

interpretation tasks: state_moves "\<lambda>s. (aa_tasks s, aa_finished s)" "(=)"
  by unfold_locales auto

lemma stop_steps [simp]:
  "rows.moves (in_redis m)" "rows.moves (in_chat c)" "rows.moves (now_ms V)" "rows.moves (cancel_workflow_task V run)"
  "tasks.moves (in_redis m)" "tasks.moves (in_chat c)" "tasks.moves (now_ms V)" "tasks.moves (converge_journal V run)"
  by (simp_all add: rows.moves_def tasks.moves_def in_redis_def in_chat_def now_ms_def cancel_workflow_task_def finish_task_def
      unregister_workflow_task_def converge_journal_def bindW_def
      split: prod.split option.split cancel_outcome.split)

lemma each_steps:
  "(\<And>x. rows.moves (f x)) \<Longrightarrow> rows.moves (each_io f xs)" "(\<And>x. tasks.moves (f x)) \<Longrightarrow> tasks.moves (each_io f xs)"
  by (induction xs) (auto intro: rows.moves_bind tasks.moves_bind)

lemma publish_steps [simp]: "rows.moves (publish_cancelled V run t)" "tasks.moves (publish_cancelled V run t)"
  unfolding publish_cancelled_def by (auto intro: rows.moves_bind tasks.moves_bind)

text \<open>The task of a run has ended, or there is none.\<close>

definition run_ended :: "string \<Rightarrow> agent_api \<Rightarrow> bool" where
  "run_ended run s \<longleftrightarrow> (case map_of (aa_tasks s) run of None \<Rightarrow> True | Some t \<Rightarrow> t \<in> set (aa_finished s))"

lemma confirmed_ended:
  "cancel_workflow_task V run s = (Inr (requested, True), s') \<Longrightarrow> run_ended run s'"
  by (auto simp: cancel_workflow_task_def run_ended_def finish_task_def unregister_workflow_task_def AList.delete_conv'
      split: option.splits if_splits cancel_outcome.splits)

lemma stop_everything_steps:
  assumes "stop_everything V cid run s = (Inr reply, s')"
  obtains s1 s2 flag requested confirmed s3 journal s4 where
    "cancel_workflow_task V run s1 = (Inr (requested, confirmed), s2)"
    and "(aa_tasks s', aa_finished s') = (aa_tasks s2, aa_finished s2)"
    and "aa_journal s3 = aa_journal s" and "converge_journal V run s3 = (Inr journal, s4)" and "aa_journal s' = aa_journal s4"
    and "dget reply ''status'' = JStr (stop_status (partial_reasons flag confirmed (cancel_mcp_run V run) journal))"
proof -
  obtain flag s1 requested confirmed s2 tools t1 t2 journal s3 s4 s5 where steps:
      "in_redis (request_stop (av_redis V) run) s = (Inr flag, s1)"
      "cancel_workflow_task V run s1 = (Inr (requested, confirmed), s2)"
      "in_chat (cancel_active_tool_segments (av_chat V) cid (Some run) ''Cancelled by user'') s2 = (Inr tools, t1)"
      "each_io (publish_cancelled V run) tools t1 = (Inr (), s3)"
      "converge_journal V run s3 = (Inr journal, s4)"
      "in_redis (publish_event (av_redis V) (run_channel run) ''workflow_complete''
         (stop_event run (partial_reasons flag confirmed (cancel_mcp_run V run) journal))) s4 = (Inr (), s5)"
      and reply: "s5 = s'" "dget reply ''status'' = JStr (stop_status (partial_reasons flag confirmed (cancel_mcp_run V run) journal))"
    using assms unfolding stop_everything_def Let_def bindW_Inr by (auto simp: ret_def bindW_Inr)
  have "aa_journal s3 = aa_journal s"
    using rows.moves_eq[OF stop_steps(1) steps(1)] rows.moves_eq[OF stop_steps(4) steps(2)] rows.moves_eq[OF stop_steps(2) steps(3)]
      rows.moves_eq[OF each_steps(1)[OF publish_steps(1)] steps(4)] by simp
  moreover have "(aa_tasks s', aa_finished s') = (aa_tasks s2, aa_finished s2)"
    using tasks.moves_eq[OF stop_steps(6) steps(3)] tasks.moves_eq[OF each_steps(2)[OF publish_steps(2)] steps(4)]
      tasks.moves_eq[OF stop_steps(8) steps(5)] tasks.moves_eq[OF stop_steps(5) steps(6)] reply(1) by simp
  moreover have "aa_journal s' = aa_journal s4" using rows.moves_eq[OF stop_steps(1) steps(6)] reply(1) by simp
  ultimately show thesis using that steps(2,5) reply(2) by blast
qed

lemma or_fail_result: "or_fail msg m s = (Inr (Inr r), s') \<Longrightarrow> m s = (Inr (Inr r), s')"
  by (auto simp: or_fail_def catchW_def refuse_with_def ret_def split: prod.splits sum.splits if_splits)

lemma lift_result: "lift x s = (Inr a, s') \<longleftrightarrow> x = Inr a \<and> s' = s"
  by (auto simp: lift_def)

lemma body_str_result: "body_str d k = Inr x \<Longrightarrow> dget d k = JStr x"
  by (simp add: body_str_def split: json.splits)

definition find_conversation :: "agent_env \<Rightarrow> string \<Rightarrow> conversation_row option agent_io" where
  "find_conversation V cid =
     catchW (bindW (in_chat (load_conversation (av_chat V) (JStr cid))) (\<lambda>cv. ret (Some cv))) (\<lambda>e. ret None)"

lemma find_steps: "rows.moves (find_conversation V cid)" "tasks.moves (find_conversation V cid)"
  unfolding find_conversation_def
  by (auto intro!: rows.moves_catch rows.moves_bind tasks.moves_catch tasks.moves_bind)

lemma stop_run_steps:
  assumes "stop_run V (Inr (JDict d)) u s = (Inr (Inr reply), s')"
  obtains cid run cv s0 where "dget d ''conversation_id'' = JStr cid" and "dget d ''run_id'' = JStr run"
    and "stop_everything V cid run s0 = (Inr reply, s')" and "aa_journal s0 = aa_journal s" and "aa_tasks s0 = aa_tasks s"
    and "find_conversation V cid s = (Inr (Some cv), s0)" and "check_conversation_authorization cv u"
proof -
  obtain cid run found s0 where b: "body_str d ''conversation_id'' = Inr cid" "body_str d ''run_id'' = Inr run"
      and f: "find_conversation V cid s = (Inr found, s0)"
      and k: "(case found of None \<Rightarrow> refuse_with 404 ''Conversation not found''
        | Some cv \<Rightarrow>
            if \<not> check_conversation_authorization cv u then refuse_with 403 ''Not authorized for conversation''
            else bindW (stop_everything V cid run) (\<lambda>r. ret (Inr r))) s0 = (Inr (Inr reply), s')"
    using or_fail_result[OF assms[unfolded stop_run_def]]
    unfolding find_conversation_def[symmetric] bindE_simps as_dict_def json.case bindW_Inr lift_result by blast
  obtain cv where cv: "found = Some cv" "check_conversation_authorization cv u"
      "stop_everything V cid run s0 = (Inr reply, s')"
  proof (cases found)
    case None
    then show thesis using k by (simp add: refuse_with_def ret_def)
  next
    case (Some cv)
    show thesis
    proof (cases "check_conversation_authorization cv u")
      case True
      then show thesis using k Some by (intro that[of cv]) (auto simp: bindW_Inr ret_def)
    next
      case False
      then show thesis using k Some by (simp add: refuse_with_def ret_def)
    qed
  qed
  have "aa_journal s0 = aa_journal s" "aa_tasks s0 = aa_tasks s"
    using rows.moves_eq[OF find_steps(1) f] tasks.moves_eq[OF find_steps(2) f] by simp_all
  then show thesis using that b[THEN body_str_result] f cv by blast
qed

lemma converge_journal_rows:
  assumes "converge_journal V run s = (Inr journal, s')" and "\<And>e. av_journal_fails V run = Some e \<Longrightarrow> exc_type e \<noteq> []"
  shows "truthy (dget journal ''error'') \<or>
    aa_journal s' = snd (converge_stopped_run run (av_clock V (aa_ticks s)) (aa_journal s))"
proof (cases "av_journal_fails V run")
  case None
  obtain n J where J: "converge_stopped_run run (av_clock V (aa_ticks s)) (aa_journal s) = (n, J)"
    by (cases "converge_stopped_run run (av_clock V (aa_ticks s)) (aa_journal s)")
  have "aa_journal s' = J"
    using assms(1) None by (cases n) (auto simp: converge_journal_def bindW_def now_ms_def J)
  then show ?thesis by (simp add: J)
next
  case (Some e)
  then have "journal = [(''error'', JStr (exc_type e))]"
    using assms(1) by (simp add: converge_journal_def bindW_def now_ms_def)
  then show ?thesis using assms(2)[OF Some] by simp
qed

lemma stopped_status: "JStr (stop_status reasons) = JStr ''stopped'' \<longleftrightarrow> reasons = []"
  by (simp add: stop_status_def)

text \<open>
  C19: a stop that is reported complete is complete.  When the answer to a stop is \<open>stopped\<close>, the task of the run has
  ended or there was none, the MCP server has answered, and no operation of the run is left in the journal that is
  prepared or in execution, whatever Redis, the database and the other coroutines did meanwhile.
\<close>

theorem reported_stop_is_complete:
  assumes "stop_run V (Inr (JDict d)) u s = (Inr (Inr reply), s')" and "dget d ''run_id'' = JStr run"
    and "dget reply ''status'' = JStr ''stopped''" and "\<And>e. av_journal_fails V run = Some e \<Longrightarrow> exc_type e \<noteq> []"
  shows "run_ended run s' \<and> \<not> truthy (dget (cancel_mcp_run V run) ''error'')
    \<and> (\<forall>r \<in> set (aa_journal s'). op_run_id r = run \<longrightarrow> execution_status r \<notin> {PREPARED, EXECUTING})"
proof -
  obtain cid run' cv s0 where st: "dget d ''run_id'' = JStr run'" "stop_everything V cid run' s0 = (Inr reply, s')"
    using stop_run_steps[OF assms(1)] by metis
  then have run: "run' = run" using assms(2) by simp
  obtain s1 s2 flag requested confirmed s3 journal s4 where c: "cancel_workflow_task V run s1 = (Inr (requested, confirmed), s2)"
      and t: "(aa_tasks s', aa_finished s') = (aa_tasks s2, aa_finished s2)"
      and j: "converge_journal V run s3 = (Inr journal, s4)" "aa_journal s' = aa_journal s4"
      and r: "dget reply ''status'' = JStr (stop_status (partial_reasons flag confirmed (cancel_mcp_run V run) journal))"
    using stop_everything_steps[OF st(2)[unfolded run]] by metis
  have none: "partial_reasons flag confirmed (cancel_mcp_run V run) journal = []"
    using assms(3) r by (simp only: stopped_status)
  then have ok: confirmed "\<not> truthy (dget (cancel_mcp_run V run) ''error'')" "\<not> truthy (dget journal ''error'')"
    by (auto simp: partial_reasons_def split: if_splits)
  have "run_ended run s'"
    using confirmed_ended[of V run s1 requested s2] c ok(1) t by (simp add: run_ended_def cong: option.case_cong)
  moreover have "aa_journal s' = snd (converge_stopped_run run (av_clock V (aa_ticks s3)) (aa_journal s3))"
    using converge_journal_rows[OF j(1) assms(4)] ok(3) j(2) by metis
  ultimately show ?thesis using ok(2) converged by auto
qed

text \<open>A stop to try: one task, one prepared operation, a conversation without messages.\<close>

definition demo_stop :: agent_api where
  "demo_stop = demo_api\<lparr>aa_tasks := [(''run'', 7)], aa_journal := [demo_row]\<rparr>"

definition demo_owner :: api_user where
  "demo_owner = \<lparr>au_id = ''u'', au_superuser = False, au_role = ''member''\<rparr>"

definition demo_body :: dict where
  "demo_body = [(''conversation_id'', JStr ''a''), (''run_id'', JStr ''run'')]"

lemma stop_event_stripped: "strip_integration_meta_keys (stop_event run reasons) = Inr (stop_event run reasons)"
  by (simp add: strip_nothing stop_event_def)

lemma stop_event_terminal: "is_terminal_payload (stop_event run reasons)"
  by (auto simp: is_terminal_payload_def stop_event_def stop_status_def)

text \<open>A stop that is answered has closed the stream of the run, complete or not.\<close>

lemma stop_closes_stream:
  assumes "av_redis V = calm" and "stop_everything V cid run s = (Inr reply, s')"
  shows "closes (run_channel run) (rd_published (aa_redis s'))"
proof -
  obtain s4 reasons where "in_redis (publish_event calm (run_channel run) ''workflow_complete'' (stop_event run reasons)) s4 = (Inr (), s')"
    using assms(2) unfolding stop_everything_def Let_def bindW_Inr assms(1) by (auto simp: ret_def bindW_Inr)
  then show ?thesis using agent_log.send_closes[OF stop_event_stripped stop_event_terminal] by blast
qed

lemma still_row: "still E \<Longrightarrow> get_row cv_id cid (db_conversations (ch_db c)) = Inr cv \<Longrightarrow>
    get_conversation_row E cid c = (Inr cv, c\<lparr>ch_waits := Suc (ch_waits c)\<rparr>)"
  by (simp add: get_conversation_row_def bindW_def still_query lift_def)

lemma demo_found: "get_row cv_id ''a'' (db_conversations (ch_db demo_chats)) = Inr (demo_row_at ''a'' 5)"
  by (simp add: demo_chats_def get_row_def demo_row_at_def)

lemma demo_is_still: "still demo_still"
  by (simp add: still_def demo_still_def)

lemma demo_no_tools:
  assumes "ch_db c = ch_db demo_chats"
  shows "cancel_active_tool_segments demo_still ''a'' r why c = (Inr [], c\<lparr>ch_waits := Suc (ch_waits c)\<rparr>)"
proof -
  have "get_conversation_row demo_still ''a'' c = (Inr (demo_row_at ''a'' 5), c\<lparr>ch_waits := Suc (ch_waits c)\<rparr>)"
    using still_row[OF demo_is_still] demo_found assms by simp
  moreover have "mark_active_tool_segments_cancelled (history_of (demo_row_at ''a'' 5)) r why = Inr ([], [])"
    by (simp add: history_of_def demo_row_at_def mark_active_tool_segments_cancelled_def)
  ultimately show ?thesis by (simp add: cancel_active_tool_segments_def bindW_def lift_def ret_def)
qed

lemma demo_stop_answers:
  "\<exists>reply s'. stop_run demo_env (Inr (JDict demo_body)) (Some demo_owner) demo_stop = (Inr (Inr reply), s')
     \<and> dget reply ''status'' = JStr ''stopped''"
proof -
  have av: "av_redis demo_env = calm" "av_chat demo_env = demo_still" by (simp_all add: demo_env_def)
  have ids: "dget demo_body ''conversation_id'' = JStr ''a''" "dget demo_body ''run_id'' = JStr ''run''"
    by (simp_all add: demo_body_def)
  define s0 where "s0 = demo_stop\<lparr>aa_chat := demo_chats\<lparr>ch_waits := Suc (ch_waits demo_chats)\<rparr>\<rparr>"
  have parse: "ce_parse demo_still ''a'' = Inr ''a''" by (simp add: demo_still_def)
  have found: "in_chat (load_conversation demo_still (JStr ''a'')) demo_stop = (Inr (demo_row_at ''a'' 5), s0)"
    by (simp add: in_chat_def load_conversation_def bindW_def lift_def parse still_row[OF demo_is_still demo_found] s0_def
        demo_stop_def demo_api_def)
  have owner: "check_conversation_authorization (demo_row_at ''a'' 5) (Some demo_owner)"
    by (simp add: check_conversation_authorization_def demo_row_at_def demo_owner_def)
  obtain r1 where flag: "request_stop calm ''run'' (aa_redis s0) = (Inr True, r1)"
    by (simp add: request_stop_def catchW_def bindW_def redis_call_calm ret_def)
  define s1 where "s1 = s0\<lparr>aa_redis := r1\<rparr>"
  define s2 where "s2 = finish_task ''run'' 7 s1"
  have c: "cancel_workflow_task demo_env ''run'' s1 = (Inr (True, True), s2)"
    by (simp add: cancel_workflow_task_def s2_def) (simp add: s1_def s0_def demo_stop_def demo_api_def demo_env_def)
  have db: "ch_db (aa_chat s2) = ch_db demo_chats"
    by (simp add: s2_def finish_task_def unregister_workflow_task_def s1_def s0_def)
  define s3 where "s3 = s2\<lparr>aa_chat := (aa_chat s2)\<lparr>ch_waits := Suc (ch_waits (aa_chat s2))\<rparr>\<rparr>"
  have tools: "in_chat (cancel_active_tool_segments demo_still ''a'' (Some ''run'') ''Cancelled by user'') s2 = (Inr [], s3)"
    by (simp add: in_chat_def demo_no_tools[OF db] s3_def)
  obtain n1 n2 J where conv: "converge_stopped_run ''run'' (int (aa_ticks s3)) (aa_journal s3) = ((n1, n2), J)"
    by (metis prod.exhaust)
  obtain s4 where jr: "converge_journal demo_env ''run'' s3 = (Inr [(''cancelled'', JInt (int n1)), (''unknown'', JInt (int n2))], s4)"
    by (simp add: converge_journal_def bindW_def now_ms_def conv demo_env_def)
  have mcp: "cancel_mcp_run demo_env ''run'' = [(''matched'', JInt 1)]" by (simp add: cancel_mcp_run_def demo_env_def)
  have none: "partial_reasons True True [(''matched'', JInt 1)] [(''cancelled'', JInt (int n1)), (''unknown'', JInt (int n2))] = []"
    by (simp add: partial_reasons_def)
  obtain s5 n where pub: "in_redis (publish_event calm (run_channel ''run'') ''workflow_complete'' (stop_event ''run'' [])) s4 = (Inr (), s5)"
    using in_redis_publish[OF stop_event_stripped] by metis
  have all: "\<exists>reply. stop_everything demo_env ''a'' ''run'' s0 = (Inr reply, s5) \<and> dget reply ''status'' = JStr ''stopped''"
    unfolding stop_everything_def av bindW_def in_redis_def[of "request_stop calm ''run''"] flag
    by (simp add: s1_def[symmetric] c tools ret_def jr mcp none pub stop_status_def)
  then obtain reply where reply: "stop_everything demo_env ''a'' ''run'' s0 = (Inr reply, s5)" "dget reply ''status'' = JStr ''stopped''"
    by blast
  have "stop_run demo_env (Inr (JDict demo_body)) (Some demo_owner) demo_stop = (Inr (Inr reply), s5)"
    unfolding stop_run_def or_fail_def av
    by (simp add: catchW_def bindW_def lift_def as_dict_def body_str_def ids found ret_def owner reply)
  then show ?thesis using reply(2) by blast
qed

lemma reported_stop_is_complete_witness:
  "\<exists>s'. snd (stop_run demo_env (Inr (JDict demo_body)) (Some demo_owner) demo_stop) = s' \<and> run_ended ''run'' s'
     \<and> filter (\<lambda>r. op_run_id r = ''run'' \<and> execution_status r \<in> {PREPARED, EXECUTING}) (aa_journal s') = []"
proof -
  obtain reply s' where run: "stop_run demo_env (Inr (JDict demo_body)) (Some demo_owner) demo_stop = (Inr (Inr reply), s')"
      and st: "dget reply ''status'' = JStr ''stopped''"
    using demo_stop_answers by blast
  have "dget demo_body ''run_id'' = JStr ''run''" by (simp add: demo_body_def)
  moreover have "\<And>e. av_journal_fails demo_env ''run'' = Some e \<Longrightarrow> exc_type e \<noteq> []" by (simp add: demo_env_def)
  ultimately have "run_ended ''run'' s' \<and> \<not> truthy (dget (cancel_mcp_run demo_env ''run'') ''error'')
    \<and> (\<forall>r \<in> set (aa_journal s'). op_run_id r = ''run'' \<longrightarrow> execution_status r \<notin> {PREPARED, EXECUTING})"
    using reported_stop_is_complete[OF run] st by blast
  then show ?thesis using run by (auto simp: filter_empty_conv)
qed

text \<open>
  a stop does not ask whose run it is.  The conversation of the request is checked, the run is not: for whoever
  may use some conversation, the prepared operations of any run, of any other conversation, are cancelled.
\<close>

theorem stop_reaches_foreign_run:
  assumes "stop_run V (Inr (JDict d)) u s = (Inr (Inr reply), s')" and "dget d ''run_id'' = JStr run"
    and "av_journal_fails V run = None" and "r \<in> set (aa_journal s)" and "op_run_id r = run" and "execution_status r = PREPARED"
    and "conversation_id r \<noteq> dget d ''conversation_id''"
  shows "\<exists>now. cancel_row now r \<in> set (aa_journal s')"
proof -
  obtain cid run' s0 where st: "dget d ''run_id'' = JStr run'" "stop_everything V cid run' s0 = (Inr reply, s')"
      and s0: "aa_journal s0 = aa_journal s"
    using stop_run_steps[OF assms(1)] by metis
  then have run: "run' = run" using assms(2) by simp
  obtain s3 journal s4 where j: "aa_journal s3 = aa_journal s0" "converge_journal V run s3 = (Inr journal, s4)" "aa_journal s' = aa_journal s4"
    using stop_everything_steps[OF st(2)[unfolded run]] by metis
  define now where "now = av_clock V (aa_ticks s3)"
  obtain n J where J: "converge_stopped_run run now (aa_journal s3) = (n, J)"
    by (cases "converge_stopped_run run now (aa_journal s3)")
  have "aa_journal s4 = J"
    using j(2) assms(3) by (cases n) (auto simp: converge_journal_def bindW_def now_ms_def J[unfolded now_def])
  moreover have "J = map (settled run now) (aa_journal s3)"
    using settles[of run now "aa_journal s3"] J by simp
  ultimately have "aa_journal s' = map (settled run now) (aa_journal s)" using j s0 by simp
  moreover have "settled run now r = cancel_row now r" using assms(5,6) by (simp add: settled_def)
  ultimately show ?thesis using assms(4) by (metis image_eqI list.set_map)
qed

lemma stop_reaches_foreign_run_witness:
  "\<exists>s'. s' = snd (stop_run demo_env (Inr (JDict demo_body)) (Some demo_owner) demo_stop)
     \<and> (\<exists>now. cancel_row now demo_row \<in> set (aa_journal s'))"
proof -
  obtain reply s' where run: "stop_run demo_env (Inr (JDict demo_body)) (Some demo_owner) demo_stop = (Inr (Inr reply), s')"
    using demo_stop_answers by blast
  have "\<exists>now. cancel_row now demo_row \<in> set (aa_journal s')"
  proof (rule stop_reaches_foreign_run[OF run])
    show "dget demo_body ''run_id'' = JStr ''run''" by (simp add: demo_body_def)
    show "av_journal_fails demo_env ''run'' = None" by (simp add: demo_env_def)
    show "demo_row \<in> set (aa_journal demo_stop)" by (simp add: demo_stop_def)
    show "op_run_id demo_row = ''run''" "execution_status demo_row = PREPARED" by (simp_all add: demo_defs)
    show "conversation_id demo_row \<noteq> dget demo_body ''conversation_id''" by (simp add: demo_defs demo_body_def)
  qed
  then show ?thesis using run by auto
qed

subsection \<open>A stream that is resumed\<close>

text \<open>
  a stream is resumed only for its own conversation.  When the events of a run are streamed again, the run was
  recorded for the conversation of the request and the user may use that conversation; any other request that is
  answered gets the one frame that says that the history is gone.
\<close>

theorem resumed_stream_is_own:
  assumes "resume_run_events V run (Inr (JDict d)) u s = (Inr (Inr p), s')"
  shows "(\<forall>r r' polls. \<exists>g. resumed_frames V p r r' polls = [Gap_frame g])
    \<or> (\<exists>cid cv. dget d ''conversation_id'' = JStr cid \<and> value_of (aa_redis s') (run_conversation_key (sp_run p)) = Some cid
        \<and> check_conversation_authorization cv u \<and> ce_parse (av_chat V) run = Inr (sp_run p))"
proof -
  obtain rid where rid: "ce_parse (av_chat V) run = Inr rid"
    using assms by (cases "ce_parse (av_chat V) run") (simp_all add: resume_run_events_def refuse_with_def ret_def)
  obtain cid last_id found s1 where b: "body_str d ''conversation_id'' = Inr cid"
      and k: "(case found of
            None \<Rightarrow> refuse_with 404 ''Conversation not found''
          | Some cv \<Rightarrow>
              if \<not> check_conversation_authorization cv u then refuse_with 403 ''Not authorized for conversation''
              else bindW (in_redis (redis_call (av_redis V) (\<lambda>r. (value_of r (run_conversation_key rid), r)))) (\<lambda>expected.
                ret (Inr \<lparr>sp_run = rid, sp_args = None, sp_title = False, sp_last = last_id,
                  sp_gap = (if expected = Some cid then None else Some (mapping_gap rid cid))\<rparr>))) s1 = (Inr (Inr p), s')"
    using assms unfolding resume_run_events_def rid sum.case bindE_simps as_dict_def json.case bindW_Inr lift_result by blast
  obtain cv where cv: "found = Some cv" "check_conversation_authorization cv u"
  proof (cases found)
    case None
    then show thesis using k by (simp add: refuse_with_def ret_def)
  next
    case (Some cv)
    then show thesis using that k by (cases "check_conversation_authorization cv u") (simp_all add: refuse_with_def ret_def)
  qed
  obtain expected where e: "in_redis (redis_call (av_redis V) (\<lambda>r. (value_of r (run_conversation_key rid), r))) s1 = (Inr expected, s')"
      and p: "p = \<lparr>sp_run = rid, sp_args = None, sp_title = False, sp_last = last_id,
        sp_gap = (if expected = Some cid then None else Some (mapping_gap rid cid))\<rparr>"
    using k cv by (auto simp: bindW_Inr ret_def)
  have seen: "value_of (aa_redis s') (run_conversation_key rid) = expected"
    using e by (auto simp: in_redis_def redis_call_def Let_def split: prod.splits option.splits)
  show ?thesis
  proof (cases "expected = Some cid")
    case True
    then show ?thesis using seen p cv(2) rid body_str_result[OF b] by auto
  next
    case False
    then show ?thesis using p by (simp add: resumed_frames_def)
  qed
qed

lemma resumed_stream_is_own_witness:
  "\<exists>p. fst (resume_run_events demo_env ''r1'' (Inr (JDict [(''conversation_id'', JStr ''a'')])) (Some demo_owner) demo_api) = Inr (Inr p)
     \<and> (\<exists>g. resumed_frames demo_env p demo_redis demo_redis [] = [Gap_frame g])"
proof -
  let ?d = "[(''conversation_id'', JStr ''a'')]"
  have parse: "ce_parse demo_still x = Inr x" for x by (simp add: demo_still_def)
  have av: "av_chat demo_env = demo_still" "av_redis demo_env = calm" by (simp_all add: demo_env_def)
  have chat: "aa_chat demo_api = demo_chats" by (simp add: demo_api_def)
  have found: "in_chat (load_conversation demo_still (JStr ''a'')) demo_api =
      (Inr (demo_row_at ''a'' 5), demo_api\<lparr>aa_chat := demo_chats\<lparr>ch_waits := Suc (ch_waits demo_chats)\<rparr>\<rparr>)"
    by (simp add: in_chat_def load_conversation_def bindW_def lift_def parse chat still_row[OF demo_is_still demo_found])
  have owner: "check_conversation_authorization (demo_row_at ''a'' 5) (Some demo_owner)"
    by (simp add: check_conversation_authorization_def demo_row_at_def demo_owner_def)
  have unmapped: "value_of (aa_redis demo_api) k = None" for k
    by (simp add: demo_api_def demo_redis_def value_of_def)
  obtain p s' where run: "resume_run_events demo_env ''r1'' (Inr (JDict ?d)) (Some demo_owner) demo_api = (Inr (Inr p), s')"
      and gap: "sp_gap p = Some (mapping_gap ''r1'' ''a'')"
    by (simp add: resume_run_events_def av parse bindW_def lift_def as_dict_def body_str_def body_nat_def catchW_def found ret_def
        owner in_redis_def redis_call_calm unmapped)
  have "(\<forall>r r' polls. \<exists>g. resumed_frames demo_env p r r' polls = [Gap_frame g])
    \<or> (\<exists>cid cv. dget ?d ''conversation_id'' = JStr cid \<and> value_of (aa_redis s') (run_conversation_key (sp_run p)) = Some cid
        \<and> check_conversation_authorization cv (Some demo_owner) \<and> ce_parse (av_chat demo_env) ''r1'' = Inr (sp_run p))"
    by (rule resumed_stream_is_own[OF run])
  then show ?thesis using run gap by (auto simp: resumed_frames_def)
qed

subsection \<open>What a turn starts with\<close>

text \<open>
  a turn starts with the rights of its own request.  When the state a turn starts with replaces the fields of the
  checkpoint that it names and leaves the others, the user, the role and the environment are those of the request,
  also when the request has no user; but the decisions on approvals of an earlier turn are still there, unless
  the request brings its own.
\<close>

theorem turn_has_fresh_identity:
  assumes "\<And>k. k \<noteq> ''messages'' \<Longrightarrow> dget (merged checkpoint start) k =
      (if k \<in> fst ` set start then dget start k else dget checkpoint k)"
    and "start = initial_state V a"
  shows "dget (merged checkpoint start) ''user_id'' = or_null (resolve_workflow_user_id (wa_conversation a) (wa_user a))
    \<and> dget (merged checkpoint start) ''user_role'' = or_null (wa_role a)
    \<and> dget (merged checkpoint start) ''environment'' = JStr (av_environment V)
    \<and> dget (merged checkpoint start) ''approval_decisions'' =
        (case wa_decisions a of Some d \<Rightarrow> JDict d | None \<Rightarrow> dget checkpoint ''approval_decisions'')"
proof -
  let ?base = "[(''run_id'', JStr (wa_run a)),
     (''messages'', JList (case latest_user_message (wa_messages a) of None \<Rightarrow> [] | Some m \<Rightarrow> [m])),
     (''conversation_id'', JStr (if nonempty (wa_conversation_id a) then the (wa_conversation_id a) else wa_run a)),
     (''user_id'', or_null (resolve_workflow_user_id (wa_conversation a) (wa_user a))),
     (''user_role'', or_null (wa_role a)), (''environment'', JStr (av_environment V))]"
  have app: "dget (with_key k v d) k' = (if k' \<in> fst ` set d then dget d k'
      else if k' = k then (case v of None \<Rightarrow> JNull | Some x \<Rightarrow> x) else JNull)" for k v d k'
  proof (cases "k' \<in> fst ` set d")
    case True
    then obtain x where "map_of d k' = Some x" by (metis map_of_eq_None_iff not_Some_eq)
    then show ?thesis using True by (simp add: with_key_def dget_def_def map_add_def split: option.split)
  next
    case False
    then have "map_of d k' = None" by (simp add: map_of_eq_None_iff)
    then show ?thesis using False by (auto simp: with_key_def dget_def_def map_add_def split: option.split)
  qed
  have keys: "fst ` set (with_key k v d) = fst ` set d \<union> (if v = None then {} else {k})" for k v d
    by (auto simp: with_key_def split: option.split)
  have start: "start = with_key ''approval_reasons'' (map_option JDict (wa_reasons a))
      (with_key ''approval_decisions'' (map_option JDict (wa_decisions a))
       (with_key ''pending_tools'' (wa_pending a)
        (with_key ''suppress_pending_event'' (if wa_suppress a then Some (JBool True) else None) ?base)))"
    by (simp only: assms(2) initial_state_def)
  have vals: "dget start ''user_id'' = or_null (resolve_workflow_user_id (wa_conversation a) (wa_user a))"
    "dget start ''user_role'' = or_null (wa_role a)" "dget start ''environment'' = JStr (av_environment V)"
    "wa_decisions a = Some d \<Longrightarrow> dget start ''approval_decisions'' = JDict d" for d
    by (simp_all add: start app keys)
  have ins: "''user_id'' \<in> fst ` set start" "''user_role'' \<in> fst ` set start" "''environment'' \<in> fst ` set start"
    "''approval_decisions'' \<in> fst ` set start \<longleftrightarrow> wa_decisions a \<noteq> None"
    by (simp_all add: start keys)
  have m: "dget (merged checkpoint start) k = dget start k" if "k \<in> fst ` set start" "k \<noteq> ''messages''" for k
    using assms(1)[OF that(2)] that(1) by simp
  have old: "dget (merged checkpoint start) ''approval_decisions'' = dget checkpoint ''approval_decisions''" if "wa_decisions a = None"
    using assms(1)[of "''approval_decisions''"] ins(4) that by simp
  show ?thesis
    using m[OF ins(1)] m[OF ins(2)] m[OF ins(3)] m[of "''approval_decisions''"] ins(4) vals old
    by (simp split: option.split)
qed

text \<open>A checkpoint that is merged the way the graph library documents it.\<close>

definition demo_merge :: "dict \<Rightarrow> dict \<Rightarrow> dict" where
  "demo_merge checkpoint start = start @ checkpoint"

lemma turn_has_fresh_identity_witness:
  "dget (demo_merge [(''user_role'', JStr ''admin''), (''approval_decisions'', JDict [(''c1'', JBool True)])]
      (initial_state demo_env demo_args)) ''user_role'' = JNull
   \<and> dget (demo_merge [(''user_role'', JStr ''admin''), (''approval_decisions'', JDict [(''c1'', JBool True)])]
      (initial_state demo_env demo_args)) ''approval_decisions'' = JDict [(''c1'', JBool True)]"
proof -
  let ?cp = "[(''user_role'', JStr ''admin''), (''approval_decisions'', JDict [(''c1'', JBool True)])]"
  have m: "dget (demo_merge cp st) k = (if k \<in> fst ` set st then dget st k else dget cp k)" for cp st k
  proof (cases "map_of st k")
    case None
    then have "k \<notin> fst ` set st" by (simp add: map_of_eq_None_iff)
    then show ?thesis using None by (simp add: demo_merge_def dget_def_def map_add_def)
  next
    case (Some v)
    then have "k \<in> fst ` set st" by (metis map_of_eq_None_iff option.distinct(1))
    then show ?thesis using Some by (simp add: demo_merge_def dget_def_def map_add_def)
  qed
  have "wa_role demo_args = None" "wa_decisions demo_args = None" by (simp_all add: demo_args_def)
  moreover have "dget ?cp ''approval_decisions'' = JDict [(''c1'', JBool True)]" by simp
  ultimately show ?thesis
    using turn_has_fresh_identity[of demo_merge ?cp "initial_state demo_env demo_args", OF m refl]
    by (simp only: or_null_def option.case simp_thms)
qed

subsection \<open>What leaves the server\<close>

text \<open>
  the cost of a turn is not published.  The callback publishes exactly one event with every event the workflow
  emits that is not malformed, and the one it publishes for the usage of tokens has no cost.
\<close>

theorem cost_not_published:
  assumes "av_redis V = calm" and "event_type ev = ''token.usage''"
    and "map_of ev ''args'' = None" and "map_of ev ''tools'' = None"
    and "event_callback V c conv p run ev s = (r, s')"
  shows "\<exists>n d. rd_published (aa_redis s') = rd_published (aa_redis s) @ [(c, sse_format ''token.usage'' d (Some n))]
    \<and> map_of d ''cost'' = None"
proof -
  define x where "x = complete_event (av_clock V (aa_ticks s)) conv run ev"
  have t: "event_type x = ''token.usage''" by (simp add: x_def assms(2))
  have "map_of (published_payload x) k = None" if "k \<in> {''args'', ''tools''}" for k
    using that assms(3,4) t by (auto simp: published_payload_def AList.delete_conv' x_def complete_event_keeps)
  then have d: "strip_integration_meta_keys (published_payload x) = Inr (published_payload x)"
    by (simp add: strip_nothing)
  have "map_of (published_payload x) ''cost'' = None" by (simp add: published_payload_def t AList.delete_conv')
  then show ?thesis using callback_publishes[OF assms(1,5) refl x_def d] t by auto
qed

lemma cost_not_published_witness:
  "\<exists>n d. rd_published (aa_redis (snd (event_callback demo_env ''run:r1'' None False None
       [(''type'', JStr ''token.usage''), (''cost'', JInt 3)] demo_api))) =
       rd_published (aa_redis demo_api) @ [(''run:r1'', sse_format ''token.usage'' d (Some n))] \<and> map_of d ''cost'' = None"
proof -
  obtain r s' where run: "event_callback demo_env ''run:r1'' None False None
       [(''type'', JStr ''token.usage''), (''cost'', JInt 3)] demo_api = (r, s')" by (metis surj_pair)
  have "av_redis demo_env = calm" by (simp add: demo_env_def)
  moreover have "event_type [(''type'', JStr ''token.usage''), (''cost'', JInt 3)] = ''token.usage''"
    by (simp add: event_type_def)
  ultimately have "\<exists>n d. rd_published (aa_redis s') =
      rd_published (aa_redis demo_api) @ [(''run:r1'', sse_format ''token.usage'' d (Some n))] \<and> map_of d ''cost'' = None"
    using cost_not_published[OF _ _ _ _ run] by simp
  then show ?thesis by (simp add: run)
qed

end
