(* ===== verification/Auth.thy ===== *)
theory Auth
  imports MemoryApi
begin

text \<open>
  Users, refresh tokens and the team: \<open>services/auth.py\<close>, \<open>endpoints/auth.py\<close> and \<open>endpoints/team.py\<close>.
  The tables are a value; other coroutines may use them at every wait (\<open>ae_others\<close>) and a query may fail
  (\<open>ae_fails\<close>). Hashing, checking a password, the random texts and the access token are parameters. A row
  that was loaded is a copy; saving it writes all its fields back.
\<close>

subsection \<open>Tables\<close>

record user_row =
  us_id :: string
  us_email :: string
  us_password :: string
  us_name :: "string option"
  us_active :: bool
  us_superuser :: bool
  us_verified :: bool
  us_role :: string
  us_created :: int
  us_updated :: int

record token_row =
  tk_hash :: string
  tk_user :: string
  tk_expires :: int
  tk_revoked :: "int option"
  tk_created :: int

record auth_db =
  ad_users :: "user_row list"
  ad_tokens :: "token_row list"
  ad_now :: int

record auth =
  au_db :: auth_db
  au_waits :: nat
  au_random :: nat

record auth_env =
  ae_fails :: "nat \<Rightarrow> py_exc option"
  ae_others :: "nat \<Rightarrow> auth_db \<Rightarrow> auth_db"
  ae_token :: "nat \<Rightarrow> string"
  ae_uuid :: "nat \<Rightarrow> string"
  ae_parse :: "string \<Rightarrow> string py"
  ae_sha :: "string \<Rightarrow> string"
  ae_hash :: "string \<Rightarrow> string"
  ae_verify :: "string \<Rightarrow> string \<Rightarrow> bool"
  ae_access :: "user_row \<Rightarrow> int \<Rightarrow> string"
  ae_debug :: bool
  ae_refresh_days :: int
  ae_access_minutes :: int

type_synonym 'a auth_io = "(auth, 'a) st"
type_synonym 'a auth_reply = "(http_error + 'a) auth_io"

definition auth_wait :: "auth_env \<Rightarrow> unit auth_io" where
  "auth_wait E a =
     (case ae_fails E (au_waits a) of None \<Rightarrow> Inr () | Some e \<Rightarrow> Inl e,
      a\<lparr>au_db := ae_others E (au_waits a) (au_db a), au_waits := Suc (au_waits a)\<rparr>)"

definition auth_query :: "auth_env \<Rightarrow> (auth_db \<Rightarrow> 'a) \<Rightarrow> 'a auth_io" where
  "auth_query E f = bindW (auth_wait E) (\<lambda>_ a. (Inr (f (au_db a)), a))"

definition auth_change :: "auth_env \<Rightarrow> (auth_db \<Rightarrow> auth_db py) \<Rightarrow> unit auth_io" where
  "auth_change E f = bindW (auth_wait E) (\<lambda>_ a.
     case f (au_db a) of Inl e \<Rightarrow> (Inl e, a) | Inr db \<Rightarrow> (Inr (), a\<lparr>au_db := db\<rparr>))"

definition auth_now :: "int auth_io" where
  "auth_now a = (Inr (ad_now (au_db a)), a)"

definition auth_random :: "(nat \<Rightarrow> string) \<Rightarrow> string auth_io" where
  "auth_random f a = (Inr (f (au_random a)), a\<lparr>au_random := Suc (au_random a)\<rparr>)"

definition integrity_error :: py_exc where
  "integrity_error = Exc ''IntegrityError'' ''duplicate key value violates unique constraint''"

definition user_where :: "auth_env \<Rightarrow> (user_row \<Rightarrow> bool) \<Rightarrow> user_row option auth_io" where
  "user_where E P = auth_query E (\<lambda>db. find P (ad_users db))"

text \<open>The lengths of the columns, which are checked before a row is sent.\<close>

definition valid_user :: "user_row \<Rightarrow> bool" where
  "valid_user u \<longleftrightarrow> length (us_email u) \<le> 255 \<and> length (us_password u) \<le> 255 \<and>
     (case us_name u of None \<Rightarrow> True | Some n \<Rightarrow> length n \<le> 255) \<and> length (us_role u) \<le> 20"

definition insert_user :: "auth_env \<Rightarrow> user_row \<Rightarrow> unit auth_io" where
  "insert_user E u = (if \<not> valid_user u then raise (Exc ''ValidationError'' ''Length is over the limit'') else auth_change E (\<lambda>db.
     if list_ex (\<lambda>v. us_email v = us_email u) (ad_users db) then Inl integrity_error
     else Inr (db\<lparr>ad_users := ad_users db @ [u]\<rparr>)))"

definition save_user :: "auth_env \<Rightarrow> user_row \<Rightarrow> unit auth_io" where
  "save_user E u = (if \<not> valid_user u then raise (Exc ''ValidationError'' ''Length is over the limit'') else auth_change E (\<lambda>db.
     if list_ex (\<lambda>v. us_email v = us_email u \<and> us_id v \<noteq> us_id u) (ad_users db) then Inl integrity_error
     else Inr (db\<lparr>ad_users := map (\<lambda>v. if us_id v = us_id u then u\<lparr>us_updated := ad_now db\<rparr> else v) (ad_users db)\<rparr>)))"

subsection \<open>The user manager\<close>

definition user_not_exists :: py_exc where
  "user_not_exists = Exc ''UserNotExists'' []"

definition get_by_email :: "auth_env \<Rightarrow> string \<Rightarrow> user_row auth_io" where
  "get_by_email E email =
     bindW (user_where E (\<lambda>u. us_email u = email)) (\<lambda>found.
     case found of None \<Rightarrow> raise user_not_exists | Some u \<Rightarrow> ret u)"

definition get_by_id :: "auth_env \<Rightarrow> string \<Rightarrow> user_row option auth_io" where
  "get_by_id E i = user_where E (\<lambda>u. us_id u = i)"

record user_create =
  uc_email :: string
  uc_password :: string
  uc_name :: "string option"
  uc_role :: string

definition new_user :: "auth_env \<Rightarrow> string \<Rightarrow> int \<Rightarrow> user_create \<Rightarrow> bool \<Rightarrow> user_row" where
  "new_user E i now b is_first =
     \<lparr>us_id = i, us_email = uc_email b, us_password = ae_hash E (uc_password b), us_name = uc_name b, us_active = True,
      us_superuser = is_first, us_verified = is_first, us_role = (if is_first then ''admin'' else uc_role b),
      us_created = now, us_updated = now\<rparr>"

definition create_user :: "auth_env \<Rightarrow> user_create \<Rightarrow> user_row auth_reply" where
  "create_user E b =
     bindW (bindW (get_by_email E (uc_email b)) (\<lambda>u. ret (Some u))) (\<lambda>existing.
     if existing \<noteq> None then ret (Inl (Http 400 (JStr ''A user with this email already exists'')))
     else bindW (auth_query E (\<lambda>db. length (ad_users db))) (\<lambda>count.
          bindW (auth_random (ae_uuid E)) (\<lambda>i.
          bindW auth_now (\<lambda>now.
          bindW (insert_user E (new_user E i now b (count = 0))) (\<lambda>_.
          ret (Inr (new_user E i now b (count = 0))))))))"

text \<open>The fields that were sent; a null is a value of the field.\<close>

record user_update =
  up_password :: "string option option"
  up_email :: "string option option"
  up_active :: "bool option option"
  up_superuser :: "bool option option"
  up_verified :: "bool option option"
  up_name :: "string option option"
  up_role :: "string option option"

definition nothing_sent :: user_update where
  "nothing_sent = \<lparr>up_password = None, up_email = None, up_active = None, up_superuser = None, up_verified = None,
     up_name = None, up_role = None\<rparr>"

definition field_value :: "'a \<Rightarrow> 'a option option \<Rightarrow> 'a py" where
  "field_value old v =
     (case v of
        None \<Rightarrow> Inr old
      | Some None \<Rightarrow> Inl (Exc ''IntegrityError'' ''null value violates not-null constraint'')
      | Some (Some x) \<Rightarrow> Inr x)"

definition updated_user :: "auth_env \<Rightarrow> user_row \<Rightarrow> user_update \<Rightarrow> user_row py" where
  "updated_user E u d =
     bindE (case up_password d of
              None \<Rightarrow> Inr (us_password u)
            | Some None \<Rightarrow> Inl (Exc ''TypeError'' ''secret must be unicode or bytes, not None'')
            | Some (Some p) \<Rightarrow> Inr (ae_hash E p)) (\<lambda>password.
     bindE (field_value (us_email u) (up_email d)) (\<lambda>email.
     bindE (field_value (us_active u) (up_active d)) (\<lambda>active.
     bindE (field_value (us_superuser u) (up_superuser d)) (\<lambda>superuser.
     bindE (field_value (us_verified u) (up_verified d)) (\<lambda>verified.
     bindE (field_value (us_role u) (up_role d)) (\<lambda>role.
     Inr (u\<lparr>us_password := password, us_email := email, us_active := active, us_superuser := superuser,
            us_verified := verified, us_name := (case up_name d of None \<Rightarrow> us_name u | Some v \<Rightarrow> v), us_role := role\<rparr>)))))))"

definition update_user :: "auth_env \<Rightarrow> user_row \<Rightarrow> user_update \<Rightarrow> user_row auth_io" where
  "update_user E u d =
     bindW (lift (updated_user E u d)) (\<lambda>u'. bindW (save_user E u') (\<lambda>_. ret u'))"

definition user_dict :: "user_row \<Rightarrow> dict" where
  "user_dict u =
     [(''id'', JStr (us_id u)), (''email'', JStr (us_email u)), (''full_name'', or_null (us_name u)),
      (''is_active'', JBool (us_active u)), (''is_superuser'', JBool (us_superuser u)),
      (''is_verified'', JBool (us_verified u)), (''role'', JStr (us_role u)),
      (''created_at'', JStr (isoformat (us_created u))), (''updated_at'', JStr (isoformat (us_updated u))), (''teams'', JList [])]"

definition verify_admin_role :: "user_row \<Rightarrow> ('s, http_error + 'a) st \<Rightarrow> ('s, http_error + 'a) st" where
  "verify_admin_role u k =
     (if us_role u \<noteq> ''admin'' \<and> \<not> us_superuser u
      then ret (Inl (Http 403 (JStr ''Only administrators can perform this action''))) else k)"

subsection \<open>Refresh tokens\<close>

definition day_us :: int where
  "day_us = 86400000000"

definition create_refresh_token :: "auth_env \<Rightarrow> user_row \<Rightarrow> string auth_io" where
  "create_refresh_token E u =
     (if \<not> us_active u then raise (Exc ''ValueError'' ''Cannot create refresh token for inactive user'')
      else bindW (auth_random (ae_token E)) (\<lambda>token.
           bindW auth_now (\<lambda>now.
           bindW (auth_change E (\<lambda>db.
              if list_ex (\<lambda>t. tk_hash t = ae_sha E token) (ad_tokens db) then Inl integrity_error
              else Inr (db\<lparr>ad_tokens := ad_tokens db @ [\<lparr>tk_hash = ae_sha E token, tk_user = us_id u,
                 tk_expires = now + ae_refresh_days E * day_us, tk_revoked = None, tk_created = ad_now db\<rparr>]\<rparr>))) (\<lambda>_.
           ret token))))"

text \<open>The row of a token with its user, as they are read by one query.\<close>

definition token_with_user :: "string \<Rightarrow> auth_db \<Rightarrow> (token_row \<times> user_row) option" where
  "token_with_user h db =
     Option.bind (find (\<lambda>t. tk_hash t = h) (ad_tokens db)) (\<lambda>t.
     map_option (Pair t) (find (\<lambda>u. us_id u = tk_user t) (ad_users db)))"

definition get_valid_refresh_token :: "auth_env \<Rightarrow> string \<Rightarrow> (token_row \<times> user_row) option auth_io" where
  "get_valid_refresh_token E token =
     bindW (auth_query E (token_with_user (ae_sha E token))) (\<lambda>found.
     bindW auth_now (\<lambda>now.
     ret (case found of
        None \<Rightarrow> None
      | Some (t, u) \<Rightarrow>
          if tk_revoked t \<noteq> None \<or> tk_expires t \<le> now \<or> \<not> us_active u then None else Some (t, u))))"

definition revoke_row :: "auth_env \<Rightarrow> string \<Rightarrow> int \<Rightarrow> unit auth_io" where
  "revoke_row E h now = auth_change E (\<lambda>db. Inr (db\<lparr>ad_tokens :=
     map (\<lambda>t. if tk_hash t = h then t\<lparr>tk_revoked := Some now\<rparr> else t) (ad_tokens db)\<rparr>))"

text \<open>A transaction: when it fails, what it wrote is undone, and what others did at its waits stays.\<close>

definition transaction :: "auth_env \<Rightarrow> 'a auth_io \<Rightarrow> 'a auth_io" where
  "transaction E m a =
     (case m a of
        (Inr x, a') \<Rightarrow> (Inr x, a')
      | (Inl e, a') \<Rightarrow> (Inl e, a'\<lparr>au_db := fold (ae_others E) [au_waits a..<au_waits a'] (au_db a)\<rparr>))"

definition rotate_refresh_token :: "auth_env \<Rightarrow> token_row \<Rightarrow> user_row \<Rightarrow> string auth_io" where
  "rotate_refresh_token E t u =
     transaction E (bindW auth_now (\<lambda>now. bindW (revoke_row E (tk_hash t) now) (\<lambda>_. create_refresh_token E u)))"

definition revoke_refresh_token :: "auth_env \<Rightarrow> string \<Rightarrow> unit auth_io" where
  "revoke_refresh_token E token =
     bindW (auth_query E (\<lambda>db. find (\<lambda>t. tk_hash t = ae_sha E token) (ad_tokens db))) (\<lambda>found.
     case found of
       None \<Rightarrow> ret ()
     | Some t \<Rightarrow> bindW auth_now (\<lambda>now. revoke_row E (tk_hash t) now))"

subsection \<open>The handlers of the account\<close>

text \<open>A response: its code, its body and the cookies it sets or, with None, deletes.\<close>

record auth_response =
  ar_code :: int
  ar_body :: dict
  ar_access :: "string option"
  ar_refresh :: "string option"
  ar_max_age :: "int \<times> int"
  ar_secure :: bool

definition signed_out :: "int \<Rightarrow> dict \<Rightarrow> auth_response" where
  "signed_out code d = \<lparr>ar_code = code, ar_body = d, ar_access = None, ar_refresh = None, ar_max_age = (0, 0), ar_secure = False\<rparr>"

definition apply_auth_cookies :: "auth_env \<Rightarrow> dict \<Rightarrow> string \<Rightarrow> string \<Rightarrow> auth_response" where
  "apply_auth_cookies E d access refresh =
     \<lparr>ar_code = 200, ar_body = d, ar_access = Some access, ar_refresh = Some refresh,
      ar_max_age = (ae_access_minutes E * 60, ae_refresh_days E * 24 * 60 * 60), ar_secure = (\<not> ae_debug E)\<rparr>"

definition is_admin_user :: "auth_env \<Rightarrow> dict auth_reply" where
  "is_admin_user E =
     catchW (bindW (auth_query E (\<lambda>db. length (ad_users db))) (\<lambda>n. ret (Inr [(''is_admin'', JBool (n = 0))])))
       (\<lambda>e. ret (Inl (Http 500 (JStr ''Error checking admin status''))))"

definition get_user_me :: "user_row \<Rightarrow> dict" where
  "get_user_me u =
     [(''id'', JStr (us_id u)), (''email'', JStr (us_email u)), (''full_name'', or_null (us_name u)),
      (''is_active'', JBool (us_active u)), (''is_superuser'', JBool (us_superuser u)),
      (''is_verified'', JBool (us_verified u)), (''role'', JStr (us_role u)), (''created_at'', JStr (isoformat (us_created u)))]"

definition update_user_profile :: "auth_env \<Rightarrow> user_update \<Rightarrow> user_row \<Rightarrow> dict auth_reply" where
  "update_user_profile E d u =
     catchW
       (bindW (update_user E u d) (\<lambda>u'. ret (Inr [(''id'', JStr (us_id u')), (''email'', JStr (us_email u')),
          (''full_name'', or_null (us_name u'))])))
       (\<lambda>e. ret (Inl (Http 500 (JStr ''Error updating profile''))))"

definition change_user_password :: "auth_env \<Rightarrow> string \<Rightarrow> string \<Rightarrow> user_row \<Rightarrow> dict auth_reply" where
  "change_user_password E current new u =
     catchW
       (if \<not> ae_verify E current (us_password u) then ret (Inl (Http 400 (JStr ''Current password is incorrect'')))
        else bindW (save_user E (u\<lparr>us_password := ae_hash E new\<rparr>)) (\<lambda>_.
             ret (Inr [(''message'', JStr ''Password updated successfully'')])))
       (\<lambda>e. ret (Inl (Http 500 (JStr ''Error changing password''))))"

definition issue_refresh_token :: "auth_env \<Rightarrow> user_row \<Rightarrow> dict auth_io" where
  "issue_refresh_token E u =
     bindW (create_refresh_token E u) (\<lambda>token. ret
       [(''refresh_token'', JStr token), (''expires_in'', JInt (ae_refresh_days E * 24 * 60 * 60))])"

definition refresh_access_token :: "auth_env \<Rightarrow> string option \<Rightarrow> auth_response auth_io" where
  "refresh_access_token E cookie =
     (case cookie of
        Some (c # cs) \<Rightarrow>
          bindW (get_valid_refresh_token E (c # cs)) (\<lambda>found.
          case found of
            None \<Rightarrow> ret (signed_out 401 [(''detail'', JStr ''Refresh token invalid'')])
          | Some (t, u) \<Rightarrow>
              bindW auth_now (\<lambda>now.
              let access = ae_access E u now in
              bindW (rotate_refresh_token E t u) (\<lambda>refresh.
              ret (apply_auth_cookies E
                [(''access_token'', JStr access), (''token_type'', JStr ''bearer''), (''user'', JDict (user_dict u))]
                access refresh))))
      | _ \<Rightarrow> ret (signed_out 401 [(''detail'', JStr ''Refresh token missing'')]))"

definition logout :: "auth_env \<Rightarrow> string option \<Rightarrow> auth_response auth_io" where
  "logout E cookie =
     bindW (case cookie of Some (c # cs) \<Rightarrow> revoke_refresh_token E (c # cs) | _ \<Rightarrow> ret ()) (\<lambda>_.
     ret (signed_out 200 [(''success'', JBool True)]))"

subsection \<open>The team\<close>

definition team_member :: "user_row \<Rightarrow> dict" where
  "team_member u =
     [(''id'', JStr (us_id u)), (''email'', JStr (us_email u)),
      (''name'', JStr (case us_name u of None \<Rightarrow> [] | Some n \<Rightarrow> n)), (''role'', JStr (us_role u)),
      (''status'', JStr (if us_active u then ''active'' else ''inactive'')), (''created_at'', JStr (isoformat (us_created u)))]"

definition team_500 :: "string \<Rightarrow> 'a auth_reply \<Rightarrow> 'a auth_reply" where
  "team_500 msg m = catchW m (\<lambda>e. ret (Inl (Http 500 (JStr (msg @ exc_msg e)))))"

definition get_team_members :: "auth_env \<Rightarrow> user_row \<Rightarrow> dict list auth_reply" where
  "get_team_members E u =
     verify_admin_role u (team_500 ''Failed to fetch team members: ''
       (bindW (auth_query E (\<lambda>db. filter us_active (ad_users db))) (\<lambda>us. ret (Inr (map team_member us)))))"

record team_create =
  tc_email :: string
  tc_role :: string
  tc_password :: string

definition add_team_member :: "auth_env \<Rightarrow> team_create \<Rightarrow> user_row \<Rightarrow> dict auth_reply" where
  "add_team_member E b u =
     verify_admin_role u (team_500 ''Failed to add team member: ''
       (bindW (user_where E (\<lambda>v. us_email v = tc_email b)) (\<lambda>found.
        case found of
          Some v \<Rightarrow>
            if us_active v
            then ret (Inl (Http 400 (JStr (''User with email '' @ tc_email b @ '' already exists''))))
            else (let v' = v\<lparr>us_active := True,
                        us_password := (if tc_password b = [] then us_password v else ae_hash E (tc_password b)),
                        us_role := tc_role b\<rparr>
                  in bindW (save_user E v') (\<lambda>_. ret (Inr (team_member v'))))
        | None \<Rightarrow>
            bindW (auth_random (ae_uuid E)) (\<lambda>i.
            bindW auth_now (\<lambda>now.
            let v = \<lparr>us_id = i, us_email = tc_email b, us_password = ae_hash E (tc_password b), us_name = None,
                     us_active = True, us_superuser = False, us_verified = False, us_role = tc_role b, us_created = now,
                     us_updated = now\<rparr>
            in bindW (insert_user E v) (\<lambda>_. ret (Inr (team_member v))))))))"

definition with_member :: "auth_env \<Rightarrow> string \<Rightarrow> (user_row \<Rightarrow> 'a auth_reply) \<Rightarrow> 'a auth_reply" where
  "with_member E i k =
     bindW (lift (ae_parse E i)) (\<lambda>uid.
     bindW (user_where E (\<lambda>v. us_id v = uid)) (\<lambda>found.
     case found of
       None \<Rightarrow> ret (Inl (Http 404 (JStr (''Team member with ID '' @ i @ '' not found''))))
     | Some v \<Rightarrow> k v))"

definition update_member_role :: "auth_env \<Rightarrow> string \<Rightarrow> string \<Rightarrow> user_row \<Rightarrow> dict auth_reply" where
  "update_member_role E i role u =
     verify_admin_role u (team_500 ''Failed to update team member: ''
       (with_member E i (\<lambda>v. bindW (save_user E (v\<lparr>us_role := role\<rparr>)) (\<lambda>_. ret (Inr (team_member (v\<lparr>us_role := role\<rparr>)))))))"

definition remove_team_member :: "auth_env \<Rightarrow> string \<Rightarrow> user_row \<Rightarrow> unit auth_reply" where
  "remove_team_member E i u =
     verify_admin_role u (team_500 ''Failed to remove team member: ''
       (with_member E i (\<lambda>v.
          if us_id v = us_id u then ret (Inl (Http 400 (JStr ''You cannot remove yourself'')))
          else bindW (save_user E (v\<lparr>us_active := False\<rparr>)) (\<lambda>_. ret (Inr ())))))"

end
