(* ===== verification/AuthProps.thy ===== *)
theory AuthProps
  imports Auth
begin

text \<open>
  What the account handlers guarantee and where they fail: a refresh token that was used is refused ever after,
  and it is granted only while it is unrevoked, unexpired and its user active, but two refreshes that overlap
  both succeed; the profile update lets any user become an administrator; nobody can register.
\<close>

subsection \<open>Tables nobody else uses\<close>

definition undisturbed :: "auth_env \<Rightarrow> bool" where
  "undisturbed E \<longleftrightarrow> (\<forall>n db. ae_fails E n = None \<and> ae_others E n db = db)"

lemma undisturbed_query:
  "undisturbed E \<Longrightarrow> auth_query E f a = (Inr (f (au_db a)), a\<lparr>au_waits := Suc (au_waits a)\<rparr>)"
  by (simp add: undisturbed_def auth_query_def auth_wait_def bindW_def)

lemma undisturbed_change:
  "undisturbed E \<Longrightarrow> auth_change E f a =
     (case f (au_db a) of
        Inl e \<Rightarrow> (Inl e, a\<lparr>au_waits := Suc (au_waits a)\<rparr>)
      | Inr db \<Rightarrow> (Inr (), a\<lparr>au_db := db, au_waits := Suc (au_waits a)\<rparr>))"
  by (simp add: undisturbed_def auth_change_def auth_wait_def bindW_def split: sum.split)

lemmas account_steps = undisturbed_query undisturbed_change bindW_def catchW_def auth_now_def auth_random_def

subsection \<open>Registration\<close>

text \<open>
  The user manager's create never creates a user: its test for an existing one calls get_by_email,
  which raises UserNotExists for a new address, so the call ends with that exception, with the 400 for
  a known address, or with the failure of the query; nothing is stored.
\<close>

theorem registration_never_succeeds:
  "fst (create_user E b a) \<in> {Inl user_not_exists, Inr (Inl (Http 400 (JStr ''A user with this email already exists'')))}
       \<union> Inl ` set_option (ae_fails E (au_waits a)) \<and>
   au_db (snd (create_user E b a)) = ae_others E (au_waits a) (au_db a)"
proof (cases "ae_fails E (au_waits a)")
  case (Some e)
  then show ?thesis
    by (simp add: create_user_def get_by_email_def user_where_def auth_query_def auth_wait_def bindW_def)
next
  case None
  show ?thesis
  proof (cases "find (\<lambda>u. us_email u = uc_email b) (ad_users (ae_others E (au_waits a) (au_db a)))")
    case None
    with \<open>ae_fails E (au_waits a) = None\<close> show ?thesis
      by (simp add: create_user_def get_by_email_def user_where_def auth_query_def auth_wait_def bindW_def)
  next
    case (Some u)
    with \<open>ae_fails E (au_waits a) = None\<close> show ?thesis
      by (simp add: create_user_def get_by_email_def user_where_def auth_query_def auth_wait_def bindW_def)
  qed
qed

subsection \<open>The profile\<close>

lemma saved_user:
  assumes "undisturbed E" "valid_user u" "\<forall>v \<in> set (ad_users (au_db a)). us_email v = us_email u \<longrightarrow> us_id v = us_id u"
  shows "save_user E u a = (Inr (), a\<lparr>au_db := (au_db a)\<lparr>ad_users :=
     map (\<lambda>v. if us_id v = us_id u then u\<lparr>us_updated := ad_now (au_db a)\<rparr> else v) (ad_users (au_db a))\<rparr>,
     au_waits := Suc (au_waits a)\<rparr>)"
  using assms by (auto simp: save_user_def undisturbed_change list_ex_iff)

text \<open>
  The profile update gives its caller the rights of an administrator: PATCH /me takes the schema
  of the whole user, and every field sent is set, is_superuser and role too. When the request sends
  is_superuser, the stored row of an ordinary user is one for which the check of administrators passes.
\<close>

theorem profile_update_escalates:
  assumes "undisturbed E" and "u \<in> set (ad_users (au_db a))" and "valid_user u"
    and "\<forall>v \<in> set (ad_users (au_db a)). us_email v = us_email u \<longrightarrow> us_id v = us_id u"
  shows "\<exists>d u'. fst (update_user_profile E (nothing_sent\<lparr>up_superuser := Some (Some True)\<rparr>) u a) = Inr (Inr d) \<and>
     u' \<in> set (ad_users (au_db (snd (update_user_profile E (nothing_sent\<lparr>up_superuser := Some (Some True)\<rparr>) u a)))) \<and>
     us_id u' = us_id u \<and> us_superuser u' \<and> verify_admin_role u' (k :: 'a auth_reply) = k"
proof -
  let ?u = "u\<lparr>us_superuser := True\<rparr>"
  have new: "updated_user E u (nothing_sent\<lparr>up_superuser := Some (Some True)\<rparr>) = Inr ?u"
    by (simp add: updated_user_def nothing_sent_def field_value_def)
  have same: "us_id ?u = us_id u" "us_email ?u = us_email u" by simp_all
  have saved: "save_user E ?u a = (Inr (), a\<lparr>au_db := (au_db a)\<lparr>ad_users :=
     map (\<lambda>v. if us_id v = us_id ?u then ?u\<lparr>us_updated := ad_now (au_db a)\<rparr> else v) (ad_users (au_db a))\<rparr>,
     au_waits := Suc (au_waits a)\<rparr>)"
  proof (rule saved_user[OF assms(1)])
    show "valid_user ?u" using assms(3) by (simp add: valid_user_def)
    show "\<forall>v \<in> set (ad_users (au_db a)). us_email v = us_email ?u \<longrightarrow> us_id v = us_id ?u"
      using assms(4) by (simp only: same)
  qed
  let ?w = "?u\<lparr>us_updated := ad_now (au_db a)\<rparr>"
  let ?reply = "update_user_profile E (nothing_sent\<lparr>up_superuser := Some (Some True)\<rparr>) u a"
  define users where "users = map (\<lambda>v. if us_id v = us_id ?u then ?w else v) (ad_users (au_db a))"
  have reply: "?reply = (Inr (Inr [(''id'', JStr (us_id u)), (''email'', JStr (us_email u)), (''full_name'', or_null (us_name u))]),
      a\<lparr>au_db := (au_db a)\<lparr>ad_users := users\<rparr>, au_waits := Suc (au_waits a)\<rparr>)"
    by (simp add: update_user_profile_def update_user_def new saved[folded users_def] bindW_def catchW_def)
  have stored: "?w \<in> set users" unfolding users_def using assms(2) by force
  show ?thesis
  proof (intro exI conjI)
    show "fst ?reply = Inr (Inr [(''id'', JStr (us_id u)), (''email'', JStr (us_email u)), (''full_name'', or_null (us_name u))])"
      by (simp add: reply)
    show "?w \<in> set (ad_users (au_db (snd ?reply)))" using stored by (simp add: reply)
    show "us_id ?w = us_id u" "us_superuser ?w" by simp_all
    show "verify_admin_role ?w k = k" by (simp add: verify_admin_role_def)
  qed
qed

definition demo_member :: user_row where
  "demo_member = \<lparr>us_id = ''u1'', us_email = ''m@x'', us_password = ''h'', us_name = None, us_active = True,
     us_superuser = False, us_verified = True, us_role = ''member'', us_created = 0, us_updated = 0\<rparr>"

definition demo_auth_env :: auth_env where
  "demo_auth_env = \<lparr>ae_fails = (\<lambda>n. None), ae_others = (\<lambda>n db. db), ae_token = (\<lambda>n. replicate n (CHR ''t'')),
     ae_uuid = (\<lambda>n. ''id''), ae_parse = Inr, ae_sha = (\<lambda>s. CHR ''#'' # s), ae_hash = (\<lambda>s. s), ae_verify = (=),
     ae_access = (\<lambda>u t. ''jwt''), ae_debug = False, ae_refresh_days = 7, ae_access_minutes = 30\<rparr>"

definition demo_accounts :: auth where
  "demo_accounts = \<lparr>au_db = \<lparr>ad_users = [demo_member],
     ad_tokens = [\<lparr>tk_hash = ''#c'', tk_user = ''u1'', tk_expires = 100, tk_revoked = None, tk_created = 0\<rparr>],
     ad_now = 5\<rparr>, au_waits = 0, au_random = 2\<rparr>"

lemma demo_undisturbed: "undisturbed demo_auth_env"
  by (simp add: undisturbed_def demo_auth_env_def)

lemma profile_update_escalates_witness:
  "\<not> us_superuser demo_member \<and>
   (\<exists>d u'. fst (update_user_profile demo_auth_env (nothing_sent\<lparr>up_superuser := Some (Some True)\<rparr>) demo_member demo_accounts) = Inr (Inr d) \<and>
     u' \<in> set (ad_users (au_db (snd (update_user_profile demo_auth_env (nothing_sent\<lparr>up_superuser := Some (Some True)\<rparr>) demo_member demo_accounts)))) \<and>
     us_id u' = ''u1'' \<and> us_superuser u' \<and> verify_admin_role u' (ret (Inr ()) :: unit auth_reply) = ret (Inr ()))"
  using profile_update_escalates[of demo_auth_env demo_member demo_accounts "ret (Inr ())"] demo_undisturbed
  by (simp add: demo_accounts_def demo_member_def valid_user_def)

subsection \<open>Refresh tokens\<close>

definition token_usable :: "int \<Rightarrow> token_row \<Rightarrow> user_row \<Rightarrow> bool" where
  "token_usable now t u \<longleftrightarrow> tk_revoked t = None \<and> now < tk_expires t \<and> us_active u"

definition revoked_at :: "string \<Rightarrow> int \<Rightarrow> token_row list \<Rightarrow> token_row list" where
  "revoked_at h now ts = map (\<lambda>t. if tk_hash t = h then t\<lparr>tk_revoked := Some now\<rparr> else t) ts"

lemma find_revoked: "find (\<lambda>t. tk_hash t = h) ts = Some t \<Longrightarrow>
  find (\<lambda>t. tk_hash t = h) (revoked_at h now ts) = Some (t\<lparr>tk_revoked := Some now\<rparr>)"
  by (induction ts) (auto simp: revoked_at_def split: if_splits)

lemma revoked_hashes: "map tk_hash (revoked_at h now ts) = map tk_hash ts"
  by (induction ts) (simp_all add: revoked_at_def)

lemma read_token: "token_with_user h db = Some (t, u) \<Longrightarrow>
  find (\<lambda>t. tk_hash t = h) (ad_tokens db) = Some t \<and> find (\<lambda>v. us_id v = tk_user t) (ad_users db) = Some u"
  by (auto simp: token_with_user_def bind_eq_Some_conv)

definition fresh_token_row :: "auth_env \<Rightarrow> user_row \<Rightarrow> string \<Rightarrow> int \<Rightarrow> token_row" where
  "fresh_token_row E u token now = \<lparr>tk_hash = ae_sha E token, tk_user = us_id u,
     tk_expires = now + ae_refresh_days E * day_us, tk_revoked = None, tk_created = now\<rparr>"

definition refresh_denied :: "auth_response" where
  "refresh_denied = signed_out 401 [(''detail'', JStr ''Refresh token invalid'')]"

text \<open>
  A token that was stored stays stored, and one whose row is revoked stays revoked: what every handler
  guarantees, and what is asked of everybody else who writes the tables.
\<close>

definition stored :: "string \<Rightarrow> auth_db \<Rightarrow> bool" where
  "stored h db \<longleftrightarrow> h \<in> tk_hash ` set (ad_tokens db)"

definition spent :: "string \<Rightarrow> auth_db \<Rightarrow> bool" where
  "spent h db \<longleftrightarrow> stored h db \<and> (\<forall>t \<in> set (ad_tokens db). tk_hash t = h \<longrightarrow> tk_revoked t \<noteq> None)"

definition tokens_kept :: "string \<Rightarrow> auth_db \<Rightarrow> auth_db \<Rightarrow> bool" where
  "tokens_kept h db db' \<longleftrightarrow> (stored h db \<longrightarrow> stored h db') \<and> (spent h db \<longrightarrow> spent h db')"

interpretation tokens: state_moves au_db "tokens_kept h" for h
  by unfold_locales (auto simp: tokens_kept_def)

lemma tokens_untouched: "ad_tokens db' = ad_tokens db \<Longrightarrow> tokens_kept h db db'"
  by (simp add: tokens_kept_def stored_def spent_def)

lemma token_revoked:
  "tokens_kept h db (db\<lparr>ad_tokens := revoked_at g now (ad_tokens db)\<rparr>)"
  "stored h db \<Longrightarrow> spent h (db\<lparr>ad_tokens := revoked_at h now (ad_tokens db)\<rparr>)"
proof -
  have "tk_hash ` set (revoked_at k now ts) = tk_hash ` set ts" for k ts
    by (simp only: set_map[symmetric] revoked_hashes)
  then have same: "stored h (db\<lparr>ad_tokens := revoked_at k now (ad_tokens db)\<rparr>) = stored h db" for k
    by (simp add: stored_def)
  have row: "tk_revoked r = Some now \<or> (r \<in> set ts \<and> tk_hash r \<noteq> k)" if "r \<in> set (revoked_at k now ts)" for r k ts
    using that by (auto simp: revoked_at_def)
  show "tokens_kept h db (db\<lparr>ad_tokens := revoked_at g now (ad_tokens db)\<rparr>)"
    unfolding tokens_kept_def spent_def same using row[of _ g] by fastforce
  show "stored h db \<Longrightarrow> spent h (db\<lparr>ad_tokens := revoked_at h now (ad_tokens db)\<rparr>)"
    unfolding spent_def same using row[of _ h] by fastforce
qed

lemma token_added:
  assumes "\<not> list_ex (\<lambda>t. tk_hash t = tk_hash new) (ad_tokens db)"
  shows "tokens_kept h db (db\<lparr>ad_tokens := ad_tokens db @ [new]\<rparr>)"
proof -
  have "tk_hash new \<noteq> h" if "stored h db" using that assms by (auto simp: stored_def list_ex_iff)
  then show ?thesis by (auto simp: tokens_kept_def spent_def stored_def)
qed

text \<open>Everybody else keeps the tokens.\<close>

definition others_keep_token :: "auth_env \<Rightarrow> string \<Rightarrow> bool" where
  "others_keep_token E h \<longleftrightarrow> (\<forall>n db. tokens_kept h db (ae_others E n db))"

lemma others_run: "others_keep_token E h \<Longrightarrow> tokens_kept h db (fold (ae_others E) ns db)"
  by (induction ns arbitrary: db) (auto simp: others_keep_token_def intro: tokens.step_refl tokens.step_trans)

lemma keeps_wait:
  assumes "others_keep_token E h"
  shows "tokens.moves h (auth_wait E)" "tokens.moves h (auth_query E f)" "tokens.moves h (user_where E P)"
    "tokens.moves h (get_by_email E email)" "tokens.moves h (get_by_id E i)"
proof -
  show wait: "tokens.moves h (auth_wait E)"
    using assms by (simp add: tokens.moves_def auth_wait_def others_keep_token_def)
  show query: "tokens.moves h (auth_query E f)" for f :: "auth_db \<Rightarrow> 'b"
    unfolding auth_query_def by (rule tokens.moves_bind[OF wait]) (simp add: tokens.moves_def tokens.step_refl)
  show where_: "tokens.moves h (user_where E P)" for P
    unfolding user_where_def by (rule query)
  show "tokens.moves h (get_by_email E email)" "tokens.moves h (get_by_id E i)"
    unfolding get_by_email_def get_by_id_def by (auto intro!: tokens.moves_bind where_ split: option.splits)
qed

lemma keeps_change:
  assumes "others_keep_token E h" and "\<And>db db'. f db = Inr db' \<Longrightarrow> tokens_kept h db db'"
  shows "tokens.moves h (auth_change E f)"
  unfolding auth_change_def
  by (rule tokens.moves_bind[OF keeps_wait(1)[OF assms(1)]])
     (auto simp: tokens.moves_def tokens.step_refl assms(2) split: sum.splits)

lemma keeps_others:
  "tokens.moves h auth_now" "tokens.moves h (auth_random f)" "tokens.moves h (Pair r)"
  by (simp_all add: tokens.moves_def auth_now_def auth_random_def tokens.step_refl)

lemma keeps_transaction: "others_keep_token E h \<Longrightarrow> tokens.moves h m \<Longrightarrow> tokens.moves h (transaction E m)"
  by (auto simp: tokens.moves_def transaction_def others_run split: prod.splits sum.splits) (metis snd_conv)

lemma keeps_users:
  assumes "others_keep_token E h" shows "tokens.moves h (insert_user E u)" "tokens.moves h (save_user E u)"
  unfolding insert_user_def save_user_def
  by (auto intro!: keeps_change[OF assms] tokens_untouched split: if_splits)

lemma keeps_tokens:
  assumes "others_keep_token E h"
  shows "tokens.moves h (revoke_row E g now)" "tokens.moves h (create_refresh_token E u)"
    "tokens.moves h (get_valid_refresh_token E c)" "tokens.moves h (rotate_refresh_token E t u)"
    "tokens.moves h (revoke_refresh_token E c)"
proof -
  show revoke: "tokens.moves h (revoke_row E g now)" for g now
    unfolding revoke_row_def revoked_at_def[symmetric] by (rule keeps_change[OF assms]) (auto simp: token_revoked)
  show create: "tokens.moves h (create_refresh_token E u)"
    unfolding create_refresh_token_def
    by (auto intro!: tokens.moves_bind keeps_others keeps_change[OF assms] token_added split: if_splits)
  show "tokens.moves h (get_valid_refresh_token E c)"
    unfolding get_valid_refresh_token_def by (auto intro!: tokens.moves_bind keeps_others keeps_wait[OF assms])
  show "tokens.moves h (rotate_refresh_token E t u)"
    unfolding rotate_refresh_token_def by (auto intro!: tokens.moves_bind keeps_transaction[OF assms] keeps_others revoke create)
  show "tokens.moves h (revoke_refresh_token E c)"
    unfolding revoke_refresh_token_def by (auto intro!: tokens.moves_bind keeps_wait[OF assms] keeps_others revoke split: option.splits)
qed

text \<open>One step of the account: a handler, the others, the passing of time.\<close>

inductive account_step :: "auth_env \<Rightarrow> auth \<Rightarrow> auth \<Rightarrow> bool" for E where
  "account_step E a (snd (create_user E b a))"
| "account_step E a (snd (is_admin_user E a))"
| "account_step E a (snd (update_user_profile E d u a))"
| "account_step E a (snd (change_user_password E current new u a))"
| "account_step E a (snd (issue_refresh_token E u a))"
| "account_step E a (snd (refresh_access_token E cookie a))"
| "account_step E a (snd (logout E cookie a))"
| "account_step E a (snd (get_team_members E u a))"
| "account_step E a (snd (add_team_member E m u a))"
| "account_step E a (snd (update_member_role E i role u a))"
| "account_step E a (snd (remove_team_member E i u a))"
| "account_step E a (a\<lparr>au_db := ae_others E n (au_db a)\<rparr>)"
| "account_step E a (a\<lparr>au_db := (au_db a)\<lparr>ad_now := later\<rparr>\<rparr>)"

lemma account_moves:
  assumes "others_keep_token E h"
  shows "tokens.moves h (create_user E b)" "tokens.moves h (is_admin_user E)" "tokens.moves h (update_user_profile E d u)"
    "tokens.moves h (change_user_password E current new u)" "tokens.moves h (issue_refresh_token E u)"
    "tokens.moves h (refresh_access_token E cookie)" "tokens.moves h (logout E cookie)"
    "tokens.moves h (get_team_members E u)" "tokens.moves h (add_team_member E m u)"
    "tokens.moves h (update_member_role E i role u)" "tokens.moves h (remove_team_member E i u)"
  unfolding create_user_def is_admin_user_def update_user_profile_def update_user_def change_user_password_def
    issue_refresh_token_def refresh_access_token_def logout_def get_team_members_def add_team_member_def
    update_member_role_def remove_team_member_def verify_admin_role_def team_500_def with_member_def Let_def
  by (auto intro!: tokens.moves_bind tokens.moves_catch keeps_wait[OF assms] keeps_others keeps_users[OF assms]
      keeps_tokens[OF assms] split: option.splits list.splits if_splits)

lemma account_step_keeps:
  assumes "account_step E a b" and "others_keep_token E h" shows "tokens_kept h (au_db a) (au_db b)"
  using assms
  by (induction rule: account_step.induct)
     (auto simp: others_keep_token_def intro: account_moves[unfolded tokens.moves_def, rule_format] tokens_untouched)

lemma account_run_keeps:
  "(account_step E)\<^sup>*\<^sup>* a b \<Longrightarrow> others_keep_token E h \<Longrightarrow> tokens_kept h (au_db a) (au_db b)"
  by (induction rule: rtranclp_induct) (auto intro: tokens.step_refl tokens.step_trans account_step_keeps)

lemma spent_refused:
  assumes "spent (ae_sha E c) (au_db a)" and "others_keep_token E (ae_sha E c)" and "c \<noteq> []"
    and "refresh_access_token E (Some c) a = (Inr resp, a')"
  shows "resp = refresh_denied"
proof -
  obtain x xs where c: "c = x # xs" using assms(3) by (cases c) auto
  obtain found a1 where read: "get_valid_refresh_token E c a = (Inr found, a1)"
    using assms(4) by (auto simp: refresh_access_token_def c bindW_Inr)
  have "spent (ae_sha E c) (ae_others E (au_waits a) (au_db a))"
    using assms(1,2) by (simp add: others_keep_token_def tokens_kept_def)
  then have "tk_revoked t \<noteq> None" if "token_with_user (ae_sha E c) (ae_others E (au_waits a) (au_db a)) = Some (t, u)" for t u
    using read_token[OF that] by (auto simp: spent_def find_Some_iff)
  then have "found = None"
    using read by (auto simp: get_valid_refresh_token_def auth_query_def auth_wait_def bindW_eq auth_now_def split: option.splits if_splits)
  then show ?thesis using assms(4) read by (simp add: refresh_access_token_def c bindW_def refresh_denied_def)
qed

lemma refresh_granted:
  assumes "refresh_access_token E (Some c) a = (Inr resp, a')" and "ar_code resp = 200"
  obtains t u a1 new where "c \<noteq> []" "get_valid_refresh_token E c a = (Inr (Some (t, u)), a1)"
    "rotate_refresh_token E t u a1 = (Inr new, a')"
    "ar_access resp = Some (ae_access E u (ad_now (au_db a1)))" "ar_refresh resp = Some new"
proof -
  obtain x xs where c: "c = x # xs" using assms by (cases c) (auto simp: refresh_access_token_def signed_out_def)
  obtain found a1 where read: "get_valid_refresh_token E c a = (Inr found, a1)"
    using assms(1) by (auto simp: refresh_access_token_def c bindW_Inr)
  obtain t u where tu: "found = Some (t, u)"
    using assms read by (cases found) (auto simp: refresh_access_token_def c bindW_def signed_out_def)
  obtain new where "rotate_refresh_token E t u a1 = (Inr new, a')" and resp: "resp = apply_auth_cookies E
      [(''access_token'', JStr (ae_access E u (ad_now (au_db a1)))), (''token_type'', JStr ''bearer''), (''user'', JDict (user_dict u))]
      (ae_access E u (ad_now (au_db a1))) new"
    using assms(1) read tu
    by (auto simp: refresh_access_token_def c bindW_def auth_now_def Let_def split: prod.splits sum.splits)
  then show thesis using that[of t u a1 new] read tu c by (simp add: apply_auth_cookies_def)
qed

lemma valid_token_read:
  assumes "get_valid_refresh_token E c a = (Inr (Some (t, u)), a1)"
  shows "token_with_user (ae_sha E c) (au_db a1) = Some (t, u) \<and> token_usable (ad_now (au_db a1)) t u"
  using assms
  by (auto simp: get_valid_refresh_token_def auth_query_def auth_wait_def bindW_eq auth_now_def token_usable_def
      split: option.splits if_splits prod.splits)

lemma created_token:
  assumes "create_refresh_token E u a = (Inr token, a')"
  shows "\<exists>row \<in> set (ad_tokens (au_db a')). tk_hash row = ae_sha E token \<and> tk_user row = us_id u \<and> tk_revoked row = None"
  using assms
  by (auto simp: create_refresh_token_def bindW_eq auth_random_def auth_now_def auth_change_def auth_wait_def
      split: if_splits sum.splits option.splits)

lemma rotation_spends:
  assumes "others_keep_token E h" and "stored h (au_db a)" and "tk_hash t = h"
    and "rotate_refresh_token E t u a = (Inr new, a')"
  shows "spent h (au_db a')
    \<and> (\<exists>row \<in> set (ad_tokens (au_db a')). tk_hash row = ae_sha E new \<and> tk_user row = us_id u \<and> tk_revoked row = None)"
proof -
  obtain a1 where revoked: "revoke_row E h (ad_now (au_db a)) a = (Inr (), a1)"
    and created: "create_refresh_token E u a1 = (Inr new, a')"
    using assms(3,4) by (auto simp: rotate_refresh_token_def transaction_def bindW_def auth_now_def split: prod.splits sum.splits)
  have "stored h (ae_others E (au_waits a) (au_db a))" using assms(1,2) by (simp add: others_keep_token_def tokens_kept_def)
  from token_revoked(2)[OF this] have "spent h (au_db a1)"
    using revoked by (auto simp: revoke_row_def revoked_at_def auth_change_def auth_wait_def bindW_eq split: option.splits)
  moreover have "tokens_kept h (au_db a1) (au_db a')"
    using tokens.moves_eq[OF keeps_tokens(2)[OF assms(1)] created] .
  ultimately show ?thesis using created_token[OF created] by (simp add: tokens_kept_def)
qed

lemma read_stored: "token_with_user h db = Some (t, u) \<Longrightarrow> tk_hash t = h \<and> stored h db"
  by (drule read_token) (auto simp: stored_def find_Some_iff intro!: imageI nth_mem)

lemma used_refresh_token_spent:
  assumes "others_keep_token E (ae_sha E c)"
    and "refresh_access_token E (Some c) a = (Inr resp, a')" and "ar_code resp = 200"
  shows "spent (ae_sha E c) (au_db a')"
proof -
  obtain t u a1 new where g: "get_valid_refresh_token E c a = (Inr (Some (t, u)), a1)" "rotate_refresh_token E t u a1 = (Inr new, a')"
    using refresh_granted[OF assms(2,3)] by metis
  have "tk_hash t = ae_sha E c" "stored (ae_sha E c) (au_db a1)"
    using valid_token_read[OF g(1)] read_stored by blast+
  then show ?thesis using rotation_spends[OF assms(1) _ _ g(2)] by blast
qed

text \<open>
  C33: A refresh token that was used is refused ever after.  A refresh that answers 200 read, at that time, a row of the
  token that was not revoked and not expired and whose user was active; the access token it sets is for that user,
  and the new refresh token is stored for that user. From then on, whatever the handlers of the account and the team
  do, at whatever time, and whoever else uses the tables meanwhile, a refresh with the old token is answered with the
  401, when it is answered. The others may do everything the handlers do: they delete no token and unrevoke none. A refresh that
  began before the first one ended is another matter: both may be granted (theorem \<open>refresh_race_doubles_token\<close>).
\<close>

theorem used_refresh_token_refused:
  assumes "others_keep_token E (ae_sha E c)"
    and "refresh_access_token E (Some c) a = (Inr resp, a')" and "ar_code resp = 200"
    and "(account_step E)\<^sup>*\<^sup>* a' b" and "refresh_access_token E (Some c) b = (Inr again, b')"
  shows "again = refresh_denied
    \<and> (\<exists>t u a1 new. get_valid_refresh_token E c a = (Inr (Some (t, u)), a1)
        \<and> token_with_user (ae_sha E c) (au_db a1) = Some (t, u) \<and> token_usable (ad_now (au_db a1)) t u
        \<and> ar_access resp = Some (ae_access E u (ad_now (au_db a1))) \<and> ar_refresh resp = Some new
        \<and> (\<exists>row \<in> set (ad_tokens (au_db a')). tk_hash row = ae_sha E new \<and> tk_user row = us_id u \<and> tk_revoked row = None))"
proof -
  obtain t u a1 new where g: "c \<noteq> []" "get_valid_refresh_token E c a = (Inr (Some (t, u)), a1)"
      "rotate_refresh_token E t u a1 = (Inr new, a')"
      "ar_access resp = Some (ae_access E u (ad_now (au_db a1)))" "ar_refresh resp = Some new"
    using refresh_granted[OF assms(2,3)] by metis
  note read = valid_token_read[OF g(2)]
  have row: "tk_hash t = ae_sha E c" "stored (ae_sha E c) (au_db a1)"
    using read read_stored by blast+
  note spends = rotation_spends[OF assms(1) row(2,1) g(3)]
  have "spent (ae_sha E c) (au_db b)"
    using account_run_keeps[OF assms(4,1)] used_refresh_token_spent[OF assms(1-3)] by (simp add: tokens_kept_def)
  then have "again = refresh_denied" by (rule spent_refused[OF _ assms(1) g(1) assms(5)])
  then show ?thesis using g read spends by blast
qed

text \<open>Tokens that are not touched by a rotation stay usable.\<close>

lemma revoked_others: "h \<notin> tk_hash ` set ts \<Longrightarrow> revoked_at h now ts = ts"
  by (induction ts) (auto simp: revoked_at_def)

lemma revoked_append: "revoked_at h now (xs @ ys) = revoked_at h now xs @ revoked_at h now ys"
  by (simp add: revoked_at_def)

lemma hash_absent: "h \<notin> tk_hash ` set ts \<Longrightarrow> find (\<lambda>t. tk_hash t = h) (revoked_at g now ts) = None"
  by (induction ts) (auto simp: revoked_at_def)

lemma refresh_runs:
  assumes quiet: "\<And>n. ae_fails E n = None" "\<And>n db. n \<noteq> Suc (au_waits a) \<Longrightarrow> ae_others E n db = db"
    and c: "c \<noteq> []" "token_with_user (ae_sha E c) (au_db a) = Some (t, u)" "token_usable (ad_now (au_db a)) t u"
    and db': "ae_others E (Suc (au_waits a)) (au_db a) = db'" "ad_now db' = ad_now (au_db a)"
    and new: "new = ae_token E (au_random a)" "ae_sha E new \<notin> tk_hash ` set (ad_tokens db')"
  shows "\<exists>resp a'. refresh_access_token E (Some c) a = (Inr resp, a') \<and> ar_code resp = 200 \<and> ar_refresh resp = Some new \<and>
     au_db a' = db'\<lparr>ad_tokens := revoked_at (ae_sha E c) (ad_now (au_db a)) (ad_tokens db') @
       [fresh_token_row E u new (ad_now (au_db a))]\<rparr>"
proof -
  obtain x xs where cx: "c = x # xs" using c(1) by (cases c) auto
  have hash: "tk_hash t = ae_sha E c" using read_token[OF c(2)] by (auto simp: find_Some_iff)
  have active: "us_active u" using c(3) by (simp add: token_usable_def)
  let ?b = "a\<lparr>au_waits := Suc (au_waits a)\<rparr>"
  have read: "get_valid_refresh_token E c a = (Inr (Some (t, u)), ?b)"
    using c(2,3) by (simp add: get_valid_refresh_token_def auth_query_def auth_wait_def quiet bindW_def auth_now_def token_usable_def)
  have "\<not> list_ex (\<lambda>t. tk_hash t = ae_sha E new) (revoked_at (ae_sha E c) (ad_now (au_db a)) (ad_tokens db'))"
    using hash_absent[OF new(2)] by (auto simp: list_ex_iff find_None_iff)
  then have "\<exists>b'. rotate_refresh_token E t u ?b = (Inr new, b') \<and> au_db b' =
      db'\<lparr>ad_tokens := revoked_at (ae_sha E c) (ad_now (au_db a)) (ad_tokens db') @ [fresh_token_row E u new (ad_now (au_db a))]\<rparr>"
    by (simp add: rotate_refresh_token_def transaction_def revoke_row_def create_refresh_token_def bindW_def auth_now_def
      auth_random_def auth_change_def auth_wait_def quiet db' hash active new(1) revoked_at_def fresh_token_row_def)
  then obtain b' where rot: "rotate_refresh_token E t u ?b = (Inr new, b')" "au_db b' =
      db'\<lparr>ad_tokens := revoked_at (ae_sha E c) (ad_now (au_db a)) (ad_tokens db') @ [fresh_token_row E u new (ad_now (au_db a))]\<rparr>"
    by blast
  let ?resp = "apply_auth_cookies E [(''access_token'', JStr (ae_access E u (ad_now (au_db a)))), (''token_type'', JStr ''bearer''),
      (''user'', JDict (user_dict u))] (ae_access E u (ad_now (au_db a))) new"
  have "refresh_access_token E (Some c) a = (Inr ?resp, b')"
    using read rot(1) unfolding cx by (simp add: refresh_access_token_def bindW_def auth_now_def Let_def)
  with rot(2) show ?thesis by (intro exI[of _ ?resp] exI[of _ b']) (simp add: apply_auth_cookies_def)
qed

lemma demo_values [simp]:
  "ae_fails demo_auth_env n = None" "ae_others demo_auth_env n db = db" "ae_token demo_auth_env k = replicate k (CHR 0x74)"
  "ae_sha demo_auth_env s = CHR 0x23 # s" "ae_access demo_auth_env u i = ''jwt''" "ae_refresh_days demo_auth_env = 7"
  by (simp_all add: demo_auth_env_def)

lemma demo_token: "token_with_user (ae_sha demo_auth_env ''c'') (au_db demo_accounts) =
  Some (\<lparr>tk_hash = ''#c'', tk_user = ''u1'', tk_expires = 100, tk_revoked = None, tk_created = 0\<rparr>, demo_member)"
  by (simp add: token_with_user_def demo_accounts_def demo_member_def)

lemma used_refresh_token_refused_witness:
  "\<exists>resp a' b again b'. refresh_access_token demo_auth_env (Some ''c'') demo_accounts = (Inr resp, a') \<and> ar_code resp = 200
     \<and> (account_step demo_auth_env)\<^sup>*\<^sup>* a' b \<and> ad_now (au_db b) = 6
     \<and> refresh_access_token demo_auth_env (Some ''c'') b = (Inr again, b') \<and> again = refresh_denied"
proof -
  have "\<exists>resp a'. refresh_access_token demo_auth_env (Some ''c'') demo_accounts = (Inr resp, a') \<and> ar_code resp = 200 \<and>
      ar_refresh resp = Some ''tt'' \<and> au_db a' = (au_db demo_accounts)\<lparr>ad_tokens := revoked_at (ae_sha demo_auth_env ''c'')
        (ad_now (au_db demo_accounts)) (ad_tokens (au_db demo_accounts)) @
        [fresh_token_row demo_auth_env demo_member ''tt'' (ad_now (au_db demo_accounts))]\<rparr>"
    by (rule refresh_runs[OF _ _ _ demo_token])
      (simp_all add: demo_accounts_def token_usable_def demo_member_def numeral_2_eq_2)
  then obtain resp a' where r: "refresh_access_token demo_auth_env (Some ''c'') demo_accounts = (Inr resp, a')" "ar_code resp = 200"
    by blast
  define b where "b = a'\<lparr>au_db := (au_db a')\<lparr>ad_now := 6\<rparr>\<rparr>"
  have kept: "others_keep_token demo_auth_env h" for h
    by (simp add: others_keep_token_def demo_auth_env_def tokens.step_refl)
  have run: "(account_step demo_auth_env)\<^sup>*\<^sup>* a' b" unfolding b_def by (rule r_into_rtranclp) (rule account_step.intros)
  have "spent (ae_sha demo_auth_env ''c'') (au_db a')"
    using used_refresh_token_spent[OF kept r] .
  then have "tk_revoked t \<noteq> None" if "token_with_user (ae_sha demo_auth_env ''c'') (au_db b) = Some (t, u)" for t u
    using read_token[OF that] by (auto simp: spent_def b_def find_Some_iff)
  then have "\<exists>b'. get_valid_refresh_token demo_auth_env ''c'' b = (Inr None, b')"
    by (auto simp: get_valid_refresh_token_def auth_query_def auth_wait_def bindW_def auth_now_def split: option.splits)
  then have "\<exists>again b'. refresh_access_token demo_auth_env (Some ''c'') b = (Inr again, b')"
    by (auto simp: refresh_access_token_def bindW_def)
  then obtain again b' where ended: "refresh_access_token demo_auth_env (Some ''c'') b = (Inr again, b')" by blast
  from used_refresh_token_refused[OF kept r run ended] r run ended show ?thesis unfolding b_def by auto
qed

subsection \<open>Two refreshes at once\<close>

text \<open>The refresh of another request with the same token, run whole at the first write of this one.\<close>

definition racing :: "auth_env \<Rightarrow> string \<Rightarrow> nat \<Rightarrow> auth_env" where
  "racing E c k = E\<lparr>ae_others := (\<lambda>n db.
     if n = 1 then au_db (snd (refresh_access_token E (Some c) \<lparr>au_db = db, au_waits = 0, au_random = k\<rparr>)) else db)\<rparr>"

definition good_for :: "auth_env \<Rightarrow> string \<Rightarrow> user_row \<Rightarrow> auth_db \<Rightarrow> bool" where
  "good_for E token u db \<longleftrightarrow> (\<exists>t. token_with_user (ae_sha E token) db = Some (t, u) \<and> token_usable (ad_now db) t u)"

lemma fresh_good:
  assumes "ad_tokens db = xs @ fresh_token_row E u token (ad_now db) # ys" "ae_sha E token \<notin> tk_hash ` set xs"
    and "find (\<lambda>v. us_id v = us_id u) (ad_users db) = Some u" "us_active u" "0 < ae_refresh_days E"
  shows "good_for E token u db"
proof -
  have "find (\<lambda>t. tk_hash t = ae_sha E token) xs = None" using assms(2) by (auto simp: find_None_iff image_iff)
  then have "find (\<lambda>t. tk_hash t = ae_sha E token) (ad_tokens db) = Some (fresh_token_row E u token (ad_now db))"
    by (simp add: assms(1) find_append fresh_token_row_def)
  moreover have "token_usable (ad_now db) (fresh_token_row E u token (ad_now db)) u"
    using assms(4,5) by (simp add: token_usable_def fresh_token_row_def day_us_def)
  ultimately show ?thesis using assms(3) by (simp add: good_for_def token_with_user_def fresh_token_row_def)
qed

text \<open>
  Two refreshes with one token can both succeed: nothing holds the row between the test of the
  token and its revocation, and the revocation does not ask whether the row is still unrevoked. When
  the whole other refresh runs before this one's write, both answer 200 and both new refresh tokens
  are good, so a token that was stolen and replayed at that moment lives on beside its owner's.
\<close>

theorem refresh_race_doubles_token:
  assumes "undisturbed E" and "c \<noteq> []" and "token_with_user (ae_sha E c) db = Some (t, u)" and "token_usable (ad_now db) t u"
    and "0 < ae_refresh_days E" and "ae_sha E (ae_token E k) \<noteq> ae_sha E (ae_token E r)"
    and "ae_sha E (ae_token E k) \<notin> tk_hash ` set (ad_tokens db)" and "ae_sha E (ae_token E r) \<notin> tk_hash ` set (ad_tokens db)"
  shows "\<exists>mine other a a'.
     refresh_access_token E (Some c) \<lparr>au_db = db, au_waits = 0, au_random = k\<rparr> = (Inr other, a) \<and>
     refresh_access_token (racing E c k) (Some c) \<lparr>au_db = db, au_waits = 0, au_random = r\<rparr> = (Inr mine, a') \<and>
     ar_code other = 200 \<and> ar_code mine = 200 \<and>
     (\<forall>token \<in> set_option (ar_refresh mine) \<union> set_option (ar_refresh other). good_for E token u (au_db a')) \<and>
     ar_refresh mine = Some (ae_token E r) \<and> ar_refresh other = Some (ae_token E k)"
proof -
  let ?F = "racing E c k" and ?h = "ae_sha E c" and ?now = "ad_now db"
  let ?a = "\<lparr>au_db = db, au_waits = 0, au_random = k\<rparr>" and ?b = "\<lparr>au_db = db, au_waits = 0, au_random = r\<rparr>"
  let ?row = "\<lambda>i. fresh_token_row E u (ae_token E i) ?now"
  have same: "ae_fails ?F = ae_fails E" "ae_token ?F = ae_token E" "ae_sha ?F = ae_sha E" "ae_refresh_days ?F = ae_refresh_days E"
    by (simp_all add: racing_def)
  have quiet: "ae_fails E n = None" "ae_others E n d = d" for n d using assms(1) by (simp_all add: undisturbed_def)
  have row: "tk_hash t = ?h" "t \<in> set (ad_tokens db)" "find (\<lambda>v. us_id v = tk_user t) (ad_users db) = Some u"
    using read_token[OF assms(3)] by (auto simp: find_Some_iff)
  then have user: "find (\<lambda>v. us_id v = us_id u) (ad_users db) = Some u" by (auto simp: find_Some_iff)
  have active: "us_active u" using assms(4) by (simp add: token_usable_def)
  obtain other a where first: "refresh_access_token E (Some c) ?a = (Inr other, a)" "ar_code other = 200"
      "ar_refresh other = Some (ae_token E k)" "au_db a = db\<lparr>ad_tokens := revoked_at ?h ?now (ad_tokens db) @ [?row k]\<rparr>"
  proof -
    have "\<exists>other a. refresh_access_token E (Some c) ?a = (Inr other, a) \<and> ar_code other = 200 \<and> ar_refresh other = Some (ae_token E k) \<and>
        au_db a = db\<lparr>ad_tokens := revoked_at ?h (ad_now (au_db ?a)) (ad_tokens db) @
          [fresh_token_row E u (ae_token E k) (ad_now (au_db ?a))]\<rparr>"
      by (rule refresh_runs[where t = t]) (use quiet assms in simp_all)
    then show thesis using that by auto
  qed
  define db' where "db' = db\<lparr>ad_tokens := revoked_at ?h ?now (ad_tokens db) @ [?row k]\<rparr>"
  have hashes: "tk_hash ` set (revoked_at g n ts) = tk_hash ` set ts" for g n ts
    by (simp only: set_map[symmetric] revoked_hashes)
  have unseen: "ae_sha E (ae_token E r) \<notin> tk_hash ` set (ad_tokens db')"
    using assms(6,8) hashes by (simp add: db'_def fresh_token_row_def)
  obtain mine a' where second: "refresh_access_token ?F (Some c) ?b = (Inr mine, a')" "ar_code mine = 200"
      "ar_refresh mine = Some (ae_token E r)" "au_db a' = db'\<lparr>ad_tokens := revoked_at ?h ?now (ad_tokens db') @ [?row r]\<rparr>"
  proof -
    have run: "ae_others ?F (Suc 0) db = db'" using first(1,4) by (simp add: racing_def db'_def)
    have rest: "n \<noteq> Suc 0 \<Longrightarrow> ae_others ?F n d = d" for n d by (simp add: racing_def)
    have "\<exists>mine a'. refresh_access_token ?F (Some c) ?b = (Inr mine, a') \<and> ar_code mine = 200 \<and> ar_refresh mine = Some (ae_token E r) \<and>
        au_db a' = db'\<lparr>ad_tokens := revoked_at (ae_sha ?F c) (ad_now (au_db ?b)) (ad_tokens db') @
          [fresh_token_row ?F u (ae_token E r) (ad_now (au_db ?b))]\<rparr>"
      by (rule refresh_runs[where t = t]) (use quiet rest run unseen assms(2,3,4) in \<open>simp_all add: same db'_def\<close>)
    then show thesis using that by (auto simp: same fresh_token_row_def)
  qed
  have "?h \<noteq> ae_sha E (ae_token E k)" using row(1,2) assms(7) by (metis image_eqI)
  then have tokens: "ad_tokens (au_db a') = revoked_at ?h ?now (revoked_at ?h ?now (ad_tokens db)) @ ?row k # [?row r]"
    using second(4) by (simp add: db'_def revoked_append) (simp add: revoked_at_def fresh_token_row_def)
  have kept: "ad_users (au_db a') = ad_users db" "ad_now (au_db a') = ?now" using second(4) by (simp_all add: db'_def)
  have "good_for E (ae_token E k) u (au_db a')"
    by (rule fresh_good[of _ "revoked_at ?h ?now (revoked_at ?h ?now (ad_tokens db))" E u _ "[?row r]"])
      (use tokens kept user active assms(5,7) hashes in simp_all)
  moreover have "good_for E (ae_token E r) u (au_db a')"
    by (rule fresh_good[of _ "revoked_at ?h ?now (revoked_at ?h ?now (ad_tokens db)) @ [?row k]" E u _ "[]"])
      (use tokens kept user active assms(5,6,8) hashes in \<open>simp_all add: fresh_token_row_def\<close>)
  ultimately show ?thesis using first second by (intro exI conjI) auto
qed

lemma refresh_race_doubles_token_witness:
  "\<exists>mine other a a'.
     refresh_access_token demo_auth_env (Some ''c'') \<lparr>au_db = au_db demo_accounts, au_waits = 0, au_random = 1\<rparr> = (Inr other, a) \<and>
     refresh_access_token (racing demo_auth_env ''c'' 1) (Some ''c'') \<lparr>au_db = au_db demo_accounts, au_waits = 0, au_random = 2\<rparr> = (Inr mine, a') \<and>
     good_for demo_auth_env ''tt'' demo_member (au_db a') \<and> good_for demo_auth_env ''t'' demo_member (au_db a')"
  using refresh_race_doubles_token[OF demo_undisturbed _ demo_token, of 1 2]
  by (auto simp: token_usable_def demo_accounts_def demo_member_def numeral_2_eq_2)

end
