(* ===== verification/JenkinsTools.thy ===== *)
theory JenkinsTools
  imports KubectlTools MemorySafety
begin

text \<open>
  The Jenkins tools of the MCP server, \<open>mcp/tools/jenkins.py\<close>. A request and its response are values; the
  network, the decoding of JSON, of XML and of base64 are parameters, and the credentials come from kubectl
  through \<open>run_command\<close>. The state is the server of theory Commands.
\<close>

subsection \<open>Credentials\<close>

text \<open>\<open>str.isalnum\<close> on the characters of the model: letters, digits and numbers of Latin 1.\<close>

definition py_isalnum :: "char \<Rightarrow> bool" where
  "py_isalnum c \<longleftrightarrow> is_alnum c \<or>
     (let n = of_char c :: nat in n \<in> {0xAA, 0xB2, 0xB3, 0xB5, 0xB9, 0xBA, 0xBC, 0xBD, 0xBE} \<or> 0xC0 \<le> n \<and> n \<notin> {0xD7, 0xF7})"

definition ref_char :: "char \<Rightarrow> bool" where
  "ref_char c \<longleftrightarrow> py_isalnum c \<or> c \<in> set ''-._''"

definition parse_credentials_ref :: "string \<Rightarrow> (string \<times> string) py" where
  "parse_credentials_ref ref =
     (if ref = [] \<or> CHR ''/'' \<notin> set ref \<or> CHR '':'' \<in> set ref
      then Inl (value_error (''credentials_ref must be in the form '' @ quoted ''namespace/name''))
      else case split_once (CHR ''/'') ref of
        (namespace, rest) \<Rightarrow>
          (let name = (case rest of None \<Rightarrow> [] | Some r \<Rightarrow> r) in
           if namespace = [] \<or> name = [] then Inl (value_error ''credentials_ref components cannot be empty'')
           else if list_all ref_char namespace \<and> list_all ref_char name then Inr (namespace, name)
           else Inl (value_error ''credentials_ref contains invalid characters'')))"

subsection \<open>The client\<close>

record http_client =
  hc_base :: string
  hc_user :: string
  hc_token :: string
  hc_verify :: "bool option"

record http_request =
  rq_method :: string
  rq_path :: string
  rq_params :: "dict option"
  rq_data :: "dict option"
  rq_headers :: "(json \<times> json) list"

record http_response =
  rp_status :: int
  rp_headers :: "(string \<times> string) list"
  rp_text :: string

datatype xml = Xml (xml_tag: string) (xml_text: "string option") (xml_children: "xml list")

record 'o jenkins_env =
  je_limits :: limits
  je_host :: "'o host_ops"
  je_send :: "http_client \<Rightarrow> http_request \<Rightarrow> ('o, http_response) op"
  je_close :: "http_client \<Rightarrow> ('o, unit) op"
  je_url :: "string \<Rightarrow> unit py"
  je_loads :: "string \<Rightarrow> json py"
  je_dumps :: "json \<Rightarrow> string"
  je_decode :: "json \<Rightarrow> string py"
  je_xml :: "string \<Rightarrow> xml py"
  je_run :: "string option"

definition is_success :: "http_response \<Rightarrow> bool" where
  "is_success r \<longleftrightarrow> 200 \<le> rp_status r \<and> rp_status r \<le> 299"

definition resp_json :: "'o jenkins_env \<Rightarrow> http_response \<Rightarrow> json py" where
  "resp_json E r = je_loads E (rp_text r)"

definition resolve_credentials_from_k8s :: "'o jenkins_env \<Rightarrow> string \<Rightarrow> ('o, string \<times> string) op" where
  "resolve_credentials_from_k8s E ref =
     bindW (lift (parse_credentials_ref ref)) (\<lambda>(namespace, name).
     bindW (run_command (je_limits E) (je_host E) ''kubectl'' [''-n'', namespace, ''get'', ''secret'', name, ''-o'', ''json'']
       None (Some 5) (Some True) None (je_run E)) (\<lambda>out.
     if error out then
       raise (if error_type out = Some ''timeout''
              then Exc ''TimeoutError'' ''Timeout retrieving credentials Secret via kubectl''
              else Exc ''RuntimeError'' (''Failed to get Secret '' @ namespace @ ''/'' @ name @ '': '' @ out_text out))
     else
       lift (bindE (je_loads E (out_text out)) (\<lambda>secret.
         bindE (jget_def secret ''data'' (JDict [])) (\<lambda>data.
         bindE (jget (por data (JDict [])) ''username'') (\<lambda>user64.
         bindE (jget (por data (JDict [])) ''api-token'') (\<lambda>token64.
         if \<not> truthy user64 \<or> \<not> truthy token64
         then Inl (value_error (''credentials not found in Secret: expected '' @ quoted ''username'' @ '' and ''
           @ quoted ''api-token'' @ '' keys''))
         else bindE (je_decode E user64) (\<lambda>user. bindE (je_decode E token64) (\<lambda>token. Inr (user, token))))))))))"

definition TRANSIENT_STATUSES :: "int list" where
  "TRANSIENT_STATUSES = [429, 502, 503, 504]"

text \<open>The classes of \<open>httpx.TimeoutException\<close>, \<open>NetworkError\<close> and \<open>RemoteProtocolError\<close>.\<close>

definition transient_error :: "py_exc \<Rightarrow> bool" where
  "transient_error e \<longleftrightarrow> exc_type e \<in>
     {''TimeoutException'', ''ConnectTimeout'', ''ReadTimeout'', ''WriteTimeout'', ''PoolTimeout'', ''NetworkError'',
      ''ConnectError'', ''ReadError'', ''WriteError'', ''CloseError'', ''RemoteProtocolError''}"

text \<open>The attempts that are left, and the number of the next one.\<close>

fun send_attempts :: "nat \<Rightarrow> nat \<Rightarrow> 'o jenkins_env \<Rightarrow> http_client \<Rightarrow> http_request \<Rightarrow> ('o, http_response) op" where
  "send_attempts 0 n E c q s = (Inl (Exc ''RuntimeError'' ''Jenkins request failed without a response''), s)"
| "send_attempts (Suc k) n E c q s =
     (case je_send E c q s of
        (Inr r, s') \<Rightarrow>
          if rp_status r \<notin> set TRANSIENT_STATUSES \<or> k = 0 then (Inr r, s')
          else bindW (os_sleep (je_host E) (retry_delay (je_limits E) n)) (\<lambda>_. send_attempts k (Suc n) E c q) s'
      | (Inl e, s') \<Rightarrow>
          if \<not> transient_error e \<or> k = 0 then (Inl e, s')
          else bindW (os_sleep (je_host E) (retry_delay (je_limits E) n)) (\<lambda>_. send_attempts k (Suc n) E c q) s')"

definition jenkins_request :: "'o jenkins_env \<Rightarrow> http_client \<Rightarrow> bool \<Rightarrow> http_request \<Rightarrow> ('o, http_response) op" where
  "jenkins_request E c retry_safe q = send_attempts (if retry_safe then MAX_ATTEMPTS (je_limits E) else 1) 1 E c q"

definition get_request :: "string \<Rightarrow> dict option \<Rightarrow> http_request" where
  "get_request path params =
     \<lparr>rq_method = ''GET'', rq_path = path, rq_params = params, rq_data = None, rq_headers = []\<rparr>"

definition jenkins_get :: "'o jenkins_env \<Rightarrow> http_client \<Rightarrow> string \<Rightarrow> dict option \<Rightarrow> ('o, http_response) op" where
  "jenkins_get E c path params = jenkins_request E c True (get_request path params)"

definition crumb_of :: "json \<Rightarrow> (json \<times> json) list py" where
  "crumb_of data =
     bindE (jget data ''crumbRequestField'') (\<lambda>field.
     bindE (jget data ''crumb'') (\<lambda>crumb.
     if truthy field \<and> truthy crumb
     then (if hashable field then Inr [(field, crumb)] else Inl (unhashable_error field)) else Inr []))"

definition crumb_headers :: "'o jenkins_env \<Rightarrow> http_client \<Rightarrow> ('o, (json \<times> json) list) op" where
  "crumb_headers E c =
     catchW
       (bindW (jenkins_request E c True (get_request ''/crumbIssuer/api/json'' None)) (\<lambda>r.
        if rp_status r = 403 \<or> rp_status r = 404 then ret []
        else if \<not> is_success r then raise (Exc ''HTTPStatusError'' [])
        else lift (bindE (resp_json E r) crumb_of)))
       (\<lambda>e. ret [])"

definition jenkins_post :: "'o jenkins_env \<Rightarrow> http_client \<Rightarrow> string \<Rightarrow> dict option \<Rightarrow> ('o, http_response) op" where
  "jenkins_post E c path data =
     bindW (crumb_headers E c) (\<lambda>crumb.
     jenkins_request E c False
       \<lparr>rq_method = ''POST'', rq_path = path, rq_params = None, rq_data = data, rq_headers = crumb\<rparr>)"

definition is_jenkins_post_success :: "http_response \<Rightarrow> bool" where
  "is_jenkins_post_success r \<longleftrightarrow> is_success r \<or> rp_status r \<in> {302, 303}"

definition job_segments :: "string \<Rightarrow> string list" where
  "job_segments name = filter (\<lambda>s. s \<noteq> []) (map py_strip (split_char (CHR ''/'') name))"

text \<open>\<open>QueryParams({"s": seg}).get("s")\<close> is the segment as it was.\<close>

definition build_job_path :: "string \<Rightarrow> string py" where
  "build_job_path name =
     (if name = [] then Inl (value_error ''jobFullName is required'')
      else Inr (''/'' @ join_str ''/'' (map (\<lambda>s. ''job/'' @ s) (job_segments name))))"

definition extension_headers :: "http_response \<Rightarrow> json" where
  "extension_headers r =
     JDict (map (\<lambda>(k, v). (k, JStr v)) (filter (\<lambda>(k, v). starts_with (py_lower k) ''x-'') (rp_headers r)))"

type_synonym tool_text = "string \<times> bool"

definition normalize_response :: "'o jenkins_env \<Rightarrow> http_response \<Rightarrow> tool_text" where
  "normalize_response E r =
     (je_dumps E (JDict [(''status'', JInt (rp_status r)), (''headers'', extension_headers r),
        (''body'', (case resp_json E r of Inr v \<Rightarrow> v | Inl e \<Rightarrow> JStr (rp_text r)))]),
      \<not> is_success r)"

text \<open>The client around a tool: it is closed however the tool ends.\<close>

definition closing :: "('o, unit) op \<Rightarrow> ('o, 'a) op \<Rightarrow> ('o, 'a) op" where
  "closing close m s =
     (case m s of (r, s') \<Rightarrow> (case close s' of (Inl e, s'') \<Rightarrow> (Inl e, s'') | (Inr u, s'') \<Rightarrow> (r, s'')))"

definition with_client ::
  "'o jenkins_env \<Rightarrow> string \<Rightarrow> string \<Rightarrow> bool option \<Rightarrow> (http_client \<Rightarrow> ('o, tool_text) op) \<Rightarrow> ('o, tool_text) op" where
  "with_client E url ref verify body =
     bindW (resolve_credentials_from_k8s E ref) (\<lambda>(user, token).
     bindW (lift (je_url E (rstrip_char (CHR ''/'') url))) (\<lambda>_.
     let c = \<lparr>hc_base = rstrip_char (CHR ''/'') url, hc_user = user, hc_token = token, hc_verify = verify\<rparr>
     in closing (je_close E c) (body c)))"

subsection \<open>Jobs\<close>

definition tree_params :: "string option \<Rightarrow> dict option" where
  "tree_params tree = (if is_set tree then Some [(''tree'', opt_json tree)] else None)"

definition api_path :: "string \<Rightarrow> string py" where
  "api_path job = bindE (build_job_path job) (\<lambda>p. Inr (p @ ''/api/json''))"

definition get_normalized :: "'o jenkins_env \<Rightarrow> http_client \<Rightarrow> string \<Rightarrow> dict option \<Rightarrow> ('o, tool_text) op" where
  "get_normalized E c path params = bindW (jenkins_get E c path params) (\<lambda>r. ret (normalize_response E r))"

definition jenkins_get_job :: "'o jenkins_env \<Rightarrow> string \<Rightarrow> string \<Rightarrow> string \<Rightarrow> string option \<Rightarrow> ('o, tool_text) op" where
  "jenkins_get_job E url job ref tree =
     with_client E url ref (Some True) (\<lambda>c.
       bindW (lift (api_path job)) (\<lambda>p. get_normalized E c p (tree_params tree)))"

definition int_or :: "int option \<Rightarrow> int \<Rightarrow> int" where
  "int_or v d = (case v of None \<Rightarrow> d | Some i \<Rightarrow> if i = 0 then d else i)"

definition reply :: "'o jenkins_env \<Rightarrow> dict \<Rightarrow> bool \<Rightarrow> ('o, tool_text) op" where
  "reply E d err = ret (je_dumps E (JDict d), err)"

definition status_reply :: "'o jenkins_env \<Rightarrow> int \<Rightarrow> dict \<Rightarrow> bool \<Rightarrow> ('o, tool_text) op" where
  "status_reply E code body err = reply E [(''status'', JInt code), (''body'', JDict body)] err"

definition jenkins_get_jobs ::
  "'o jenkins_env \<Rightarrow> string \<Rightarrow> string \<Rightarrow> int option \<Rightarrow> int option \<Rightarrow> ('o, tool_text) op" where
  "jenkins_get_jobs E url ref start limit =
     with_client E url ref (Some True) (\<lambda>c.
       let first = max 0 (int_or start 0);
           tree = ''jobs[name,url]{'' @ int_str first @ '','' @ int_str (first + max 0 (int_or limit 50)) @ ''}''
       in bindW (jenkins_get E c ''/api/json'' (Some [(''tree'', JStr tree)])) (\<lambda>r.
          if \<not> is_success r then ret (normalize_response E r)
          else bindW (lift (bindE (resp_json E r) (\<lambda>body. jget_def body ''jobs'' (JList [])))) (\<lambda>jobs.
               status_reply E (rp_status r) [(''jobs'', jobs)] False)))"

text \<open>The address of the queued build is asked for at most 30 times.\<close>

definition queue_path :: "http_client \<Rightarrow> string \<Rightarrow> string" where
  "queue_path c queue_url =
     (let p = replace_str (hc_base c) [] queue_url in
      if ends_with p ''/api/json'' then p else rstrip_char (CHR ''/'') p @ ''/api/json'')"

definition started_build :: "'o jenkins_env \<Rightarrow> http_response \<Rightarrow> dict option py" where
  "started_build E r =
     (if \<not> is_success r then Inr None
      else bindE (jget (case resp_json E r of Inr v \<Rightarrow> v | Inl e \<Rightarrow> JDict []) ''executable'') (\<lambda>exe.
        case exe of
          JDict d \<Rightarrow> Inr (case map_of d ''number'' of
              None \<Rightarrow> None | Some n \<Rightarrow> Some [(''buildNumber'', n), (''url'', dget d ''url'')])
        | _ \<Rightarrow> Inr None))"

fun poll_queue :: "nat \<Rightarrow> nat \<Rightarrow> 'o jenkins_env \<Rightarrow> http_client \<Rightarrow> string \<Rightarrow> ('o, dict) op" where
  "poll_queue 0 n E c queue_url = ret [(''message'', JStr ''Timed out waiting for build to start'')]"
| "poll_queue (Suc k) n E c queue_url =
     bindW (jenkins_get E c (queue_path c queue_url) None) (\<lambda>r.
     bindW (lift (started_build E r)) (\<lambda>found.
     case found of
       Some d \<Rightarrow> ret d
     | None \<Rightarrow> bindW (os_sleep (je_host E) (min (2 ^ n) 5)) (\<lambda>_. poll_queue k (Suc n) E c queue_url)))"

definition location_of :: "http_response \<Rightarrow> string option" where
  "location_of r = map_option snd (find (\<lambda>(k, v). py_lower k = ''location'') (rp_headers r))"

definition trigger_build :: "'o jenkins_env \<Rightarrow> string \<Rightarrow> dict option \<Rightarrow> http_client \<Rightarrow> ('o, tool_text) op" where
  "trigger_build E job parameters c =
     (let params = (case parameters of None \<Rightarrow> [] | Some d \<Rightarrow> d) in
      bindW (lift (build_job_path job)) (\<lambda>base.
      bindW (jenkins_post E c (base @ (if params \<noteq> [] then ''/buildWithParameters'' else ''/build'')) (Some params)) (\<lambda>r.
      if \<not> is_jenkins_post_success r then ret (normalize_response E r)
      else (case location_of r of
          Some (l # ls) \<Rightarrow>
            bindW (poll_queue 30 0 E c (l # ls)) (\<lambda>d. reply E d (map_of d ''buildNumber'' = None))
        | _ \<Rightarrow> status_reply E (rp_status r) [(''message'', JStr ''No queue Location header'')] True))))"

definition jenkins_trigger_build ::
  "'o jenkins_env \<Rightarrow> string \<Rightarrow> string \<Rightarrow> string \<Rightarrow> dict option \<Rightarrow> bool option \<Rightarrow> ('o, tool_text) op" where
  "jenkins_trigger_build E url job ref parameters verify =
     with_client E url ref (Some (case verify of None \<Rightarrow> True | Some b \<Rightarrow> b)) (trigger_build E job parameters)"

subsection \<open>Builds\<close>

definition build_or_last :: "string option \<Rightarrow> string" where
  "build_or_last b = (case b of Some (x # xs) \<Rightarrow> x # xs | _ \<Rightarrow> ''lastBuild'')"

definition build_number_or_last :: "int option \<Rightarrow> string" where
  "build_number_or_last b = (case b of None \<Rightarrow> ''lastBuild'' | Some i \<Rightarrow> int_str i)"

definition build_path :: "string \<Rightarrow> string \<Rightarrow> string \<Rightarrow> string py" where
  "build_path job b rest = bindE (build_job_path job) (\<lambda>p. Inr (p @ ''/'' @ b @ rest))"

definition jenkins_get_build ::
  "'o jenkins_env \<Rightarrow> string \<Rightarrow> string \<Rightarrow> string \<Rightarrow> string option \<Rightarrow> string option \<Rightarrow> ('o, tool_text) op" where
  "jenkins_get_build E url job ref b tree =
     with_client E url ref (Some True) (\<lambda>c.
       bindW (lift (build_path job (build_or_last b) ''/api/json'')) (\<lambda>p. get_normalized E c p (tree_params tree)))"

text \<open>
  \<open>builds.sort(key=..., reverse=True)\<close>, newest first and stable: keys that are numbers, or all texts,
  are ordered; two keys that cannot be compared raise.
\<close>

definition build_key :: "json \<Rightarrow> json py" where
  "build_key b = jget_def b ''number'' (JInt 0)"

definition number_key :: "json \<Rightarrow> int" where
  "number_key b = (case build_key b of Inr k \<Rightarrow> the (num_val k) | Inl e \<Rightarrow> 0)"

definition text_key :: "json \<Rightarrow> string" where
  "text_key b = (case build_key b of Inr (JStr s) \<Rightarrow> s | _ \<Rightarrow> [])"

definition newest_first :: "(json \<Rightarrow> 'k::linorder) \<Rightarrow> json list \<Rightarrow> json list" where
  "newest_first key bs = rev (sort_key key (rev bs))"

definition sort_builds :: "json list \<Rightarrow> json list py" where
  "sort_builds bs =
     bindE (each_py build_key bs) (\<lambda>ks.
     if list_all (\<lambda>k. num_val k \<noteq> None) ks then Inr (newest_first number_key bs)
     else if list_all is_str ks then Inr (newest_first text_key bs)
     else if length bs \<le> 1 then Inr bs
     else Inl (Exc ''TypeError'' ''instances cannot be compared''))"

definition builds_of :: "json \<Rightarrow> json list py" where
  "builds_of body =
     bindE (jget_def body ''builds'' (JList [])) (\<lambda>v. case v of JList bs \<Rightarrow> sort_builds bs | _ \<Rightarrow> Inl (attr_error v ''sort''))"

definition jenkins_get_last_builds ::
  "'o jenkins_env \<Rightarrow> string \<Rightarrow> string \<Rightarrow> string \<Rightarrow> int option \<Rightarrow> string option \<Rightarrow> ('o, tool_text) op" where
  "jenkins_get_last_builds E url job ref wanted tree =
     with_client E url ref (Some True) (\<lambda>c.
       let tree = ''builds['' @ (case tree of None \<Rightarrow> ''None'' | Some t \<Rightarrow> t) @ '']{0,''
             @ int_str (max 1 (min (int_or wanted 10) 100)) @ ''}''
       in bindW (lift (api_path job)) (\<lambda>p.
          bindW (jenkins_get E c p (Some [(''tree'', JStr tree)])) (\<lambda>r.
          if \<not> is_success r then ret (normalize_response E r)
          else bindW (lift (bindE (resp_json E r) builds_of)) (\<lambda>bs.
               status_reply E (rp_status r) [(''jobFullName'', JStr job), (''totalBuilds'', JInt (int (length bs))),
                 (''builds'', JList bs)] False))))"

text \<open>One field after the other; a field that is refused ends the tool.\<close>

definition submit_field ::
  "'o jenkins_env \<Rightarrow> http_client \<Rightarrow> string \<Rightarrow> string \<Rightarrow> string option \<Rightarrow> http_response option
     \<Rightarrow> (http_response option \<Rightarrow> ('o, tool_text) op) \<Rightarrow> ('o, tool_text) op" where
  "submit_field E c path field v before k =
     (case v of
        None \<Rightarrow> k before
      | Some x \<Rightarrow> bindW (jenkins_post E c path (Some [(field, JStr x)])) (\<lambda>r.
          if is_jenkins_post_success r then k (Some r) else ret (normalize_response E r)))"

definition update_build ::
  "'o jenkins_env \<Rightarrow> string \<Rightarrow> int option \<Rightarrow> string option \<Rightarrow> string option \<Rightarrow> http_client \<Rightarrow> ('o, tool_text) op" where
  "update_build E job b name description c =
     bindW (lift (build_path job (build_number_or_last b) [])) (\<lambda>target.
     submit_field E c (target @ ''/submitDescription'') ''description'' description None (\<lambda>described.
     submit_field E c (target @ ''/submitDisplayName'') ''displayName'' name described (\<lambda>final.
     case final of
       None \<Rightarrow> status_reply E 400 [(''message'', JStr ''No fields to update'')] True
     | Some r \<Rightarrow> ret (normalize_response E r))))"

definition jenkins_update_build ::
  "'o jenkins_env \<Rightarrow> string \<Rightarrow> string \<Rightarrow> string \<Rightarrow> int option \<Rightarrow> string option \<Rightarrow> string option \<Rightarrow> ('o, tool_text) op" where
  "jenkins_update_build E url job ref b name description =
     with_client E url ref (Some True) (update_build E job b name description)"

subsection \<open>Stopping a build\<close>

definition stop_info_params :: dict where
  "stop_info_params = [(''tree'', JStr ''number,result,building,url'')]"

definition idle_message :: "json \<Rightarrow> json \<Rightarrow> string" where
  "idle_message number result =
     ''Build #'' @ py_str number @ '' is '' @ (if truthy result then ''completed'' else ''not running'')
     @ '' and cannot be stopped'' @ (if truthy result then '' (result: '' @ py_str result @ '')'' else [])"

definition idle_reply :: "'o jenkins_env \<Rightarrow> dict \<Rightarrow> ('o, tool_text) op" where
  "idle_reply E info =
     status_reply E 200
       [(''message'', JStr (idle_message (dget info ''number'') (dget info ''result''))), (''buildNumber'', dget info ''number''),
        (''building'', JBool False), (''result'', dget info ''result''), (''url'', dget_def info ''url'' (JStr []))] False"

definition unverified_reply :: "'o jenkins_env \<Rightarrow> dict \<Rightarrow> http_response \<Rightarrow> ('o, tool_text) op" where
  "unverified_reply E info stopped =
     status_reply E (rp_status stopped)
       [(''message'', JStr (''Stop command sent for build #'' @ py_str (dget info ''number'') @ '' (status: ''
           @ int_str (rp_status stopped) @ ''). Unable to verify completion.'')),
        (''buildNumber'', dget info ''number''), (''stopResponseCode'', JInt (rp_status stopped)),
        (''url'', dget_def info ''url'' (JStr []))] False"

definition stopped_reply :: "'o jenkins_env \<Rightarrow> dict \<Rightarrow> http_response \<Rightarrow> json \<Rightarrow> ('o, tool_text) op" where
  "stopped_reply E info stopped updated =
     bindW (lift (jget_def updated ''building'' (JBool False))) (\<lambda>building.
     bindW (lift (jget updated ''result'')) (\<lambda>result.
     status_reply E 200
       [(''message'', JStr (if \<not> truthy building then ''Successfully stopped build #'' @ py_str (dget info ''number'')
            else ''Stop requested for build #'' @ py_str (dget info ''number'') @ '' (still stopping...)'')),
        (''buildNumber'', dget info ''number''), (''building'', building), (''result'', result),
        (''stopResponseCode'', JInt (rp_status stopped)), (''url'', dget_def info ''url'' (JStr []))] False))"

definition stop_running :: "'o jenkins_env \<Rightarrow> http_client \<Rightarrow> string \<Rightarrow> string \<Rightarrow> dict \<Rightarrow> ('o, tool_text) op" where
  "stop_running E c job info_path info =
     bindW (lift (build_path job (py_str (dget info ''number'')) ''/stop'')) (\<lambda>p.
     bindW (jenkins_post E c p None) (\<lambda>stopped.
     if \<not> is_jenkins_post_success stopped then ret (normalize_response E stopped)
     else bindW (os_sleep (je_host E) 1) (\<lambda>_.
          bindW (jenkins_get E c info_path (Some stop_info_params)) (\<lambda>again.
          if \<not> is_success again then unverified_reply E info stopped
          else bindW (lift (resp_json E again)) (stopped_reply E info stopped)))))"

definition stop_build :: "'o jenkins_env \<Rightarrow> string \<Rightarrow> string option \<Rightarrow> http_client \<Rightarrow> ('o, tool_text) op" where
  "stop_build E job b c =
     bindW (lift (build_path job (build_or_last b) ''/api/json'')) (\<lambda>info_path.
     bindW (jenkins_get E c info_path (Some stop_info_params)) (\<lambda>r.
     if \<not> is_success r then ret (normalize_response E r)
     else bindW (lift (bindE (resp_json E r) (\<lambda>v. case v of JDict d \<Rightarrow> Inr d | _ \<Rightarrow> Inl (attr_error v ''get'')))) (\<lambda>info.
          if \<not> truthy (dget_def info ''building'' (JBool False)) then idle_reply E info
          else stop_running E c job info_path info)))"

definition jenkins_stop_build ::
  "'o jenkins_env \<Rightarrow> string \<Rightarrow> string \<Rightarrow> string \<Rightarrow> string option \<Rightarrow> ('o, tool_text) op" where
  "jenkins_stop_build E url job ref b = with_client E url ref (Some True) (stop_build E job b)"

subsection \<open>Logs, source control and identity\<close>

definition jenkins_get_build_log ::
  "'o jenkins_env \<Rightarrow> string \<Rightarrow> string \<Rightarrow> string \<Rightarrow> int option \<Rightarrow> int option \<Rightarrow> ('o, tool_text) op" where
  "jenkins_get_build_log E url job ref b start =
     with_client E url ref (Some True) (\<lambda>c.
       bindW (lift (build_path job (build_number_or_last b) ''/logText/progressiveText'')) (\<lambda>p.
       bindW (jenkins_get E c p (Some [(''start'', JInt (max 0 (int_or start 0)))])) (\<lambda>r.
       reply E [(''status'', JInt (rp_status r)), (''headers'', extension_headers r), (''body'', JStr (rp_text r))]
         (\<not> is_success r))))"

text \<open>\<open>"scm" in data and data["scm"]\<close>\<close>

definition has_scm :: "json \<Rightarrow> bool py" where
  "has_scm v =
     (case v of
        JDict d \<Rightarrow> Inr (truthy (dget d ''scm''))
      | JList xs \<Rightarrow> if JStr ''scm'' \<in> set xs then Inl (Exc ''TypeError'' ''list indices must be integers or slices, not str'')
          else Inr False
      | JStr s \<Rightarrow> if contains_str s ''scm'' then Inl (Exc ''TypeError'' ''string indices must be integers'') else Inr False
      | _ \<Rightarrow> Inl (iter_error v))"

definition jenkins_get_job_scm :: "'o jenkins_env \<Rightarrow> string \<Rightarrow> string \<Rightarrow> string \<Rightarrow> ('o, tool_text) op" where
  "jenkins_get_job_scm E url job ref =
     with_client E url ref (Some True) (\<lambda>c.
       bindW (lift (build_job_path job)) (\<lambda>p.
       bindW (jenkins_get E c (p @ ''/api/json'') None) (\<lambda>r.
       bindW (if is_success r then lift (bindE (resp_json E r) has_scm) else ret False) (\<lambda>scm.
       if scm then ret (normalize_response E r) else get_normalized E c (p @ ''/config.xml'') None))))"

definition jenkins_get_build_scm ::
  "'o jenkins_env \<Rightarrow> string \<Rightarrow> string \<Rightarrow> string \<Rightarrow> int option \<Rightarrow> ('o, tool_text) op" where
  "jenkins_get_build_scm E url job ref b =
     with_client E url ref (Some True) (\<lambda>c.
       bindW (lift (build_path job (build_number_or_last b) ''/api/json'')) (\<lambda>p. get_normalized E c p None))"

definition jenkins_get_build_changesets ::
  "'o jenkins_env \<Rightarrow> string \<Rightarrow> string \<Rightarrow> string \<Rightarrow> int option \<Rightarrow> ('o, tool_text) op" where
  "jenkins_get_build_changesets E url job ref b =
     with_client E url ref (Some True) (\<lambda>c.
       bindW (lift (build_path job (build_number_or_last b) ''/api/json'')) (\<lambda>p. get_normalized E c p
         (Some [(''tree'', JStr ''changeSets[items[commitId,author[fullName],msg,date]],url,number'')])))"

definition jenkins_whoami :: "'o jenkins_env \<Rightarrow> string \<Rightarrow> string \<Rightarrow> ('o, tool_text) op" where
  "jenkins_whoami E url ref =
     with_client E url ref (Some True) (\<lambda>c. get_normalized E c ''/me/api/json'' None)"

subsection \<open>The parameters of a job\<close>

definition PARAM_TYPES :: "(string \<times> string) list" where
  "PARAM_TYPES =
     [(''StringParameterDefinition'', ''string''), (''BooleanParameterDefinition'', ''boolean''),
      (''ChoiceParameterDefinition'', ''choice''), (''TextParameterDefinition'', ''text''),
      (''PasswordParameterDefinition'', ''password''), (''FileParameterDefinition'', ''file'')]"

definition after_last_dot :: "string \<Rightarrow> string" where
  "after_last_dot s = last (split_char (CHR ''.'') s)"

definition normalize_param_type :: "json \<Rightarrow> string py" where
  "normalize_param_type raw =
     (if \<not> truthy raw then Inr ''string''
      else case raw of
        JStr s \<Rightarrow> Inr (case map_of PARAM_TYPES (after_last_dot s) of None \<Rightarrow> ''string'' | Some t \<Rightarrow> t)
      | _ \<Rightarrow> Inl (attr_error raw ''split''))"

fun xml_descendants :: "xml \<Rightarrow> xml list" where
  "xml_descendants (Xml tag text children) = concat (map (\<lambda>x. x # xml_descendants x) children)"

definition xml_find :: "string \<Rightarrow> xml \<Rightarrow> xml option" where
  "xml_find tag x = find (\<lambda>y. xml_tag y = tag) (xml_children x)"

text \<open>\<open>x.findtext(tag)\<close>: an element without text has the empty text.\<close>

definition xml_findtext :: "string \<Rightarrow> xml \<Rightarrow> string option" where
  "xml_findtext tag x =
     map_option (\<lambda>y. case xml_text y of None \<Rightarrow> [] | Some t \<Rightarrow> t) (xml_find tag x)"

definition xml_choices :: "xml option \<Rightarrow> string list" where
  "xml_choices x =
     (case x of
        None \<Rightarrow> []
      | Some y \<Rightarrow>
          (let strings = List.map_filter xml_text (filter (\<lambda>z. xml_tag z = ''string'') (xml_descendants y)) in
           if strings \<noteq> [] then strings
           else filter (\<lambda>t. t \<noteq> []) (List.map_filter xml_text (xml_children y))))"

definition parameter_entry :: "json \<Rightarrow> string \<Rightarrow> json \<Rightarrow> json \<Rightarrow> json \<Rightarrow> json" where
  "parameter_entry name kind desc dflt choices =
     JDict [(''name'', name), (''type'', JStr kind), (''description'', desc), (''default'', dflt), (''choices'', choices)]"

definition xml_parameter :: "xml \<Rightarrow> json py" where
  "xml_parameter x =
     bindE (normalize_param_type (JStr (after_last_dot (xml_tag x)))) (\<lambda>kind.
     let choices = xml_choices (xml_find ''choices'' x) in
     Inr (parameter_entry (JStr (case xml_findtext ''name'' x of None \<Rightarrow> [] | Some t \<Rightarrow> t)) kind
       (JStr (case xml_findtext ''description'' x of None \<Rightarrow> [] | Some t \<Rightarrow> t))
       (opt_json (xml_findtext ''defaultValue'' x))
       (if choices \<noteq> [] then JList (map JStr choices) else JNull)))"

definition parse_config_xml :: "'o jenkins_env \<Rightarrow> string \<Rightarrow> json list py" where
  "parse_config_xml E t =
     bindE (je_xml E t) (\<lambda>root.
     each_py xml_parameter
       (concat (map xml_children (filter (\<lambda>x. xml_tag x = ''parameterDefinitions'') (xml_descendants root)))))"

definition json_choices :: "json \<Rightarrow> json" where
  "json_choices v =
     (case v of
        JDict d \<Rightarrow> (if map_of d ''values'' \<noteq> None then dget d ''values'' else JNull)
      | JList xs \<Rightarrow> JList xs
      | JStr s \<Rightarrow> JList (map JStr (filter (\<lambda>t. t \<noteq> []) (map py_strip (py_splitlines s))))
      | _ \<Rightarrow> JNull)"

definition json_parameter :: "json \<Rightarrow> json py" where
  "json_parameter d =
     bindE (jget d ''name'') (\<lambda>name.
     bindE (jget d ''description'') (\<lambda>desc.
     bindE (jget d ''_class'') (\<lambda>cls.
     bindE (if truthy cls then Inr cls else jget d ''type'') (\<lambda>raw.
     bindE (jget d ''defaultParameterValue'') (\<lambda>v.
     bindE (jget (por v (JDict [])) ''value'') (\<lambda>dflt.
     bindE (jget d ''choices'') (\<lambda>choices.
     bindE (normalize_param_type raw) (\<lambda>kind.
     Inr (parameter_entry name kind desc dflt (json_choices choices))))))))))"

definition action_parameters :: "json \<Rightarrow> json list py" where
  "action_parameters action =
     bindE (jget action ''parameterDefinitions'') (\<lambda>defs.
     if truthy defs then bindE (py_iter defs) (each_py json_parameter) else Inr [])"

definition json_parameters :: "json \<Rightarrow> json list py" where
  "json_parameters data =
     bindE (jget_def data ''actions'' (JList [])) (\<lambda>actions.
     bindE (py_iter actions) (\<lambda>acts.
     bindE (each_py action_parameters acts) (\<lambda>ps. Inr (concat ps))))"

definition PARAMETER_TREE :: string where
  "PARAMETER_TREE =
     ''actions[parameterDefinitions[name,description,defaultParameterValue[value],choices,type,_class]]''"

definition job_parameters :: "'o jenkins_env \<Rightarrow> string \<Rightarrow> http_client \<Rightarrow> ('o, tool_text) op" where
  "job_parameters E job c =
     catchW
       (bindW (lift (build_job_path job)) (\<lambda>p.
        bindW (jenkins_get E c (p @ ''/api/json'') (Some [(''tree'', JStr PARAMETER_TREE)])) (\<lambda>r.
        bindW (if is_success r then lift (bindE (resp_json E r) json_parameters) else ret []) (\<lambda>ps.
        bindW (if ps \<noteq> [] then ret ps
               else bindW (jenkins_get E c (p @ ''/config.xml'') None) (\<lambda>x.
                    if is_success x then lift (parse_config_xml E (rp_text x)) else ret [])) (\<lambda>final.
        ret (je_dumps E (JList final), False))))))
       (\<lambda>e. reply E [(''error'', JStr (exc_msg e))] True)"

definition jenkins_get_job_parameters ::
  "'o jenkins_env \<Rightarrow> string \<Rightarrow> string \<Rightarrow> string \<Rightarrow> bool option \<Rightarrow> ('o, tool_text) op" where
  "jenkins_get_job_parameters E url job ref verify = with_client E url ref verify (job_parameters E job)"

end
