(* ===== verification/JenkinsProps.thy ===== *)
theory JenkinsProps
  imports JenkinsTools
begin

text \<open>
  What the Jenkins tools send: a mutation is posted at most once, whatever the network answers, reads are
  bounded, and a build is stopped only when Jenkins says that it runs. \<open>tap\<close> reads the requests that were
  sent off the state of the server.
\<close>

subsection \<open>Counting requests\<close>

definition logs_requests :: "'o jenkins_env \<Rightarrow> ('o server \<Rightarrow> http_request list) \<Rightarrow> bool" where
  "logs_requests E tap \<longleftrightarrow>
     (\<forall>c q s. tap (snd (je_send E c q s)) = tap s @ [q]) \<and> (\<forall>d s. tap (snd (os_sleep (je_host E) d s)) = tap s)"

text \<open>However \<open>m\<close> ends, it has sent at most \<open>n\<close> requests of the kind \<open>P\<close>.\<close>

definition sends :: "('o server \<Rightarrow> http_request list) \<Rightarrow> (http_request \<Rightarrow> bool) \<Rightarrow> nat \<Rightarrow> ('o, 'a) op \<Rightarrow> bool" where
  "sends tap P n m \<longleftrightarrow>
     (\<forall>s. \<exists>sent. tap (snd (m s)) = tap s @ sent \<and> length (filter P sent) \<le> n)"

named_theorems send_bounds

lemma sends_step: "sends tap P n m \<Longrightarrow> m s = (r, s') \<Longrightarrow> \<exists>sent. tap s' = tap s @ sent \<and> length (filter P sent) \<le> n"
  unfolding sends_def by (metis snd_conv)

lemma sends_nothing [send_bounds]: "sends tap P n (ret a)" "sends tap P n (raise e)" "sends tap P n (lift x)"
  by (simp_all add: sends_def)

lemma sends_more: "sends tap P n m \<Longrightarrow> n \<le> k \<Longrightarrow> sends tap P k m"
  unfolding sends_def using order_trans by blast

lemma sends_bind:
  assumes "sends tap P n m" "\<And>a. sends tap P k (f a)"
  shows "sends tap P (n + k) (bindW m f)"
  unfolding sends_def
proof
  fix s
  obtain r s1 where m: "m s = (r, s1)" by (cases "m s")
  obtain sent where sent: "tap s1 = tap s @ sent" "length (filter P sent) \<le> n" using sends_step[OF assms(1) m] by blast
  show "\<exists>sent. tap (snd (bindW m f s)) = tap s @ sent \<and> length (filter P sent) \<le> n + k"
  proof (cases r)
    case (Inl e)
    with m sent show ?thesis by (intro exI[of _ sent]) (simp add: bindW_def)
  next
    case (Inr a)
    obtain r2 s2 where f: "f a s1 = (r2, s2)" by (cases "f a s1")
    obtain more where "tap s2 = tap s1 @ more" "length (filter P more) \<le> k" using sends_step[OF assms(2) f] by blast
    with Inr m f sent show ?thesis by (intro exI[of _ "sent @ more"]) (simp add: bindW_def)
  qed
qed

lemma sends_then: "sends tap P 0 m \<Longrightarrow> (\<And>a. sends tap P k (f a)) \<Longrightarrow> sends tap P k (bindW m f)"
  using sends_bind[of tap P 0 m k f] by simp

lemma sends_catch:
  assumes "sends tap P n m" "\<And>e. sends tap P 0 (h e)"
  shows "sends tap P n (catchW m h)"
  unfolding sends_def
proof
  fix s
  obtain r s1 where m: "m s = (r, s1)" by (cases "m s")
  obtain sent where sent: "tap s1 = tap s @ sent" "length (filter P sent) \<le> n" using sends_step[OF assms(1) m] by blast
  have "tap (snd (h e s1)) = tap s1 @ more \<Longrightarrow> length (filter P more) \<le> 0 \<Longrightarrow>
      \<exists>sent. tap (snd (h e s1)) = tap s @ sent \<and> length (filter P sent) \<le> n" for e more
    using sent by (intro exI[of _ "sent @ more"]) simp
  then have "\<exists>sent. tap (snd (h e s1)) = tap s @ sent \<and> length (filter P sent) \<le> n" for e
    using assms(2)[of e] unfolding sends_def by blast
  with m sent show "\<exists>sent. tap (snd (catchW m h s)) = tap s @ sent \<and> length (filter P sent) \<le> n"
    by (cases r) (auto simp: catchW_def)
qed

lemma sends_sleep [send_bounds]: "logs_requests E tap \<Longrightarrow> sends tap P n (os_sleep (je_host E) d)"
  by (simp add: sends_def logs_requests_def)

subsection \<open>What one call sends\<close>

lemma sends_attempts:
  assumes "logs_requests E tap"
  shows "sends tap P (if P q then k else 0) (send_attempts k n E c q)"
proof (induction k arbitrary: n)
  case 0
  then show ?case by (simp add: sends_def)
next
  case (Suc k)
  let ?again = "bindW (os_sleep (je_host E) (retry_delay (je_limits E) n)) (\<lambda>_. send_attempts k (Suc n) E c q)"
  have again: "sends tap P (if P q then k else 0) ?again"
    by (rule sends_then[OF sends_sleep[OF assms]]) (rule Suc.IH)
  show ?case unfolding sends_def
  proof
    fix s
    obtain r s1 where one: "je_send E c q s = (r, s1)" by (cases "je_send E c q s")
    have tap: "tap s1 = tap s @ [q]" using assms one unfolding logs_requests_def by (metis snd_conv)
    obtain more where more: "tap (snd (?again s1)) = tap s1 @ more" "length (filter P more) \<le> (if P q then k else 0)"
      using again unfolding sends_def by blast
    have "snd (send_attempts (Suc k) n E c q s) \<in> {s1, snd (?again s1)}"
      using one by (simp split: sum.split)
    then show "\<exists>sent. tap (snd (send_attempts (Suc k) n E c q s)) = tap s @ sent \<and>
        length (filter P sent) \<le> (if P q then Suc k else 0)"
    proof
      assume "snd (send_attempts (Suc k) n E c q s) = s1"
      with tap show ?thesis by (intro exI[of _ "[q]"]) simp
    next
      assume "snd (send_attempts (Suc k) n E c q s) \<in> {snd (?again s1)}"
      with tap more show ?thesis by (intro exI[of _ "q # more"]) (simp split: if_splits)
    qed
  qed
qed

definition is_post :: "http_request \<Rightarrow> bool" where
  "is_post q \<longleftrightarrow> rq_method q = ''POST''"

lemma get_not_post [simp]: "\<not> is_post (get_request p d)"
  by (simp add: is_post_def get_request_def)

lemma sends_get: "logs_requests E tap \<Longrightarrow> sends tap P (if P (get_request p d) then MAX_ATTEMPTS (je_limits E) else 0) (jenkins_get E c p d)"
  unfolding jenkins_get_def jenkins_request_def by (simp only: if_True) (rule sends_attempts)

lemma sends_get_no_post [send_bounds]: "logs_requests E tap \<Longrightarrow> sends tap is_post n (jenkins_get E c p d)"
  using sends_more[OF sends_get[of E tap is_post p d c]] by simp

lemma sends_get_all: "logs_requests E tap \<Longrightarrow> sends tap (\<lambda>_. True) (MAX_ATTEMPTS (je_limits E)) (jenkins_get E c p d)"
  using sends_get[of E tap "\<lambda>_. True" p d c] by simp

lemma sends_crumb:
  assumes "logs_requests E tap"
  shows "sends tap P (if P (get_request ''/crumbIssuer/api/json'' None) then MAX_ATTEMPTS (je_limits E) else 0) (crumb_headers E c)"
proof -
  have "sends tap P ((if P (get_request ''/crumbIssuer/api/json'' None) then MAX_ATTEMPTS (je_limits E) else 0) + 0)
     (bindW (jenkins_request E c True (get_request ''/crumbIssuer/api/json'' None)) (\<lambda>r.
        if rp_status r = 403 \<or> rp_status r = 404 then ret []
        else if \<not> is_success r then raise (Exc ''HTTPStatusError'' [])
        else lift (bindE (resp_json E r) crumb_of)))"
    using sends_get[OF assms, unfolded jenkins_get_def] by (intro sends_bind) (simp_all add: send_bounds)
  then show ?thesis unfolding crumb_headers_def by (intro sends_catch) (simp_all add: send_bounds)
qed

lemma sends_post:
  assumes "logs_requests E tap"
  shows "sends tap is_post 1 (jenkins_post E c p d)"
    and "sends tap (\<lambda>_. True) (MAX_ATTEMPTS (je_limits E) + 1) (jenkins_post E c p d)"
proof -
  have one: "sends tap P (if P q then 1 else 0) (jenkins_request E c False q)" for P q
    unfolding jenkins_request_def by (simp only: if_False) (rule sends_attempts[OF assms])
  have "sends tap is_post 0 (crumb_headers E c)" using sends_crumb[OF assms, of is_post c] by simp
  then show "sends tap is_post 1 (jenkins_post E c p d)"
    unfolding jenkins_post_def by (rule sends_then) (rule sends_more[OF one], simp)
  have "sends tap (\<lambda>_. True) (MAX_ATTEMPTS (je_limits E)) (crumb_headers E c)"
    using sends_crumb[OF assms, of "\<lambda>_. True" c] by simp
  then show "sends tap (\<lambda>_. True) (MAX_ATTEMPTS (je_limits E) + 1) (jenkins_post E c p d)"
    unfolding jenkins_post_def by (rule sends_bind) (rule sends_more[OF one], simp)
qed

subsection \<open>What a tool sends\<close>

lemma sends_reply [send_bounds]: "sends tap P n (reply E d err)" "sends tap P n (status_reply E code body err)"
  by (simp_all add: reply_def status_reply_def send_bounds)

lemma sends_poll:
  assumes "logs_requests E tap"
  shows "sends tap is_post 0 (poll_queue k n E c url)" and "sends tap (\<lambda>_. True) (k * MAX_ATTEMPTS (je_limits E)) (poll_queue k n E c url)"
proof (induction k arbitrary: n)
  case 0
  { case 1 show ?case unfolding poll_queue.simps by (rule sends_nothing) next
    case 2 show ?case unfolding poll_queue.simps by (rule sends_nothing) }
next
  case (Suc k)
  { case 1 show ?case unfolding poll_queue.simps
      by (intro sends_then[OF sends_get_no_post[OF assms]] sends_then[OF sends_nothing(3)])
        (auto split: option.split intro!: sends_then[OF sends_sleep[OF assms]] sends_nothing Suc.IH)
  next
    case 2 show ?case unfolding poll_queue.simps mult_Suc
      by (intro sends_bind[OF sends_get_all[OF assms]] sends_then[OF sends_nothing(3)])
        (auto split: option.split intro!: sends_then[OF sends_sleep[OF assms]] sends_nothing Suc.IH) }
qed

lemma sends_trigger:
  assumes "logs_requests E tap"
  shows "sends tap is_post 1 (trigger_build E job params c)"
    and "sends tap (\<lambda>_. True) (31 * MAX_ATTEMPTS (je_limits E) + 1) (trigger_build E job params c)"
proof -
  have polled: "sends tap is_post 0 (bindW (poll_queue 30 0 E c u) (\<lambda>d. reply E d (map_of d ''buildNumber'' = None)))"
      "sends tap (\<lambda>_. True) (30 * MAX_ATTEMPTS (je_limits E)) (bindW (poll_queue 30 0 E c u) (\<lambda>d. reply E d (map_of d ''buildNumber'' = None)))" for u
    using sends_bind[OF sends_poll(1)[OF assms, of 30 0 c u] sends_reply(1)[where n = 0]]
      sends_bind[OF sends_poll(2)[OF assms, of 30 0 c u] sends_reply(1)[where n = 0]] by (simp_all only: add_0_right)
  define rest where "rest r = (if \<not> is_jenkins_post_success r then ret (normalize_response E r)
      else (case location_of r of
          Some (l # ls) \<Rightarrow> bindW (poll_queue 30 0 E c (l # ls)) (\<lambda>d. reply E d (map_of d ''buildNumber'' = None))
        | _ \<Rightarrow> status_reply E (rp_status r) [(''message'', JStr ''No queue Location header'')] True))" for r
  have rest: "sends tap is_post 0 (rest r)" "sends tap (\<lambda>_. True) (30 * MAX_ATTEMPTS (je_limits E)) (rest r)" for r
    using polled by (auto simp: rest_def send_bounds split: option.split list.split)
  have "sends tap is_post (1 + 0) (bindW (jenkins_post E c p d) rest)" for p d
    by (rule sends_bind[OF sends_post(1)[OF assms]]) (rule rest)
  then show "sends tap is_post 1 (trigger_build E job params c)"
    unfolding trigger_build_def Let_def rest_def[symmetric, abs_def] by (intro sends_then[OF sends_nothing(3)]) simp
  have "sends tap (\<lambda>_. True) ((MAX_ATTEMPTS (je_limits E) + 1) + 30 * MAX_ATTEMPTS (je_limits E)) (bindW (jenkins_post E c p d) rest)" for p d
    by (rule sends_bind[OF sends_post(2)[OF assms]]) (rule rest)
  moreover have "(MAX_ATTEMPTS (je_limits E) + 1) + 30 * MAX_ATTEMPTS (je_limits E) = 31 * MAX_ATTEMPTS (je_limits E) + 1" by simp
  ultimately show "sends tap (\<lambda>_. True) (31 * MAX_ATTEMPTS (je_limits E) + 1) (trigger_build E job params c)"
    unfolding trigger_build_def Let_def rest_def[symmetric, abs_def] by (intro sends_then[OF sends_nothing(3)]) simp
qed

text \<open>
  C17: A build is triggered at most once. However the network and Jenkins answer, the tool posts at most one
  request, which is never repeated, and sends at most thirty-one times the allowed attempts and one request in all.
\<close>

theorem build_triggered_once:
  assumes "logs_requests E tap"
  shows "\<exists>sent. tap (snd (trigger_build E job params c s)) = tap s @ sent \<and>
     length (filter is_post sent) \<le> 1 \<and> length sent \<le> 31 * MAX_ATTEMPTS (je_limits E) + 1"
proof -
  obtain a b where "tap (snd (trigger_build E job params c s)) = tap s @ a" "length (filter is_post a) \<le> 1"
      "tap (snd (trigger_build E job params c s)) = tap s @ b" "length (filter (\<lambda>_. True) b) \<le> 31 * MAX_ATTEMPTS (je_limits E) + 1"
    using sends_trigger[OF assms, of job params c] unfolding sends_def by blast
  then show ?thesis by (intro exI[of _ a]) simp
qed

text \<open>A network that answers nothing useful and keeps the requests it was sent.\<close>

definition demo_jenkins :: "http_request list jenkins_env" where
  "demo_jenkins = \<lparr>je_limits = default_limits,
     je_host = \<lparr>os_spawn = (\<lambda>_ _ _. ret 7), os_communicate = (\<lambda>_ _ _. ret (0, ''ok'', [])), os_returncode = (\<lambda>_ _. None),
       os_signal = (\<lambda>_ _. ret ()), os_wait = (\<lambda>_ _. ret ()), os_sleep = (\<lambda>_. ret ()), monotonic = (\<lambda>_. 0), fmt_g = (\<lambda>_. [])\<rparr>,
     je_send = (\<lambda>c q s. (Inr \<lparr>rp_status = 503, rp_headers = [], rp_text = []\<rparr>, s\<lparr>host := host s @ [q]\<rparr>)),
     je_close = (\<lambda>_. ret ()), je_url = (\<lambda>_. Inr ()), je_loads = (\<lambda>_. Inl (Exc ''JSONDecodeError'' [])), je_dumps = (\<lambda>_. []),
     je_decode = (\<lambda>_. Inr []), je_xml = (\<lambda>_. Inl (Exc ''ParseError'' [])), je_run = None\<rparr>"

definition demo_client :: http_client where
  "demo_client = \<lparr>hc_base = ''https://ci'', hc_user = ''u'', hc_token = ''t'', hc_verify = Some True\<rparr>"

lemma demo_logs: "logs_requests demo_jenkins host"
  by (simp add: logs_requests_def demo_jenkins_def)

lemma build_triggered_once_witness:
  "\<exists>sent. host (snd (trigger_build demo_jenkins ''job'' None demo_client \<lparr>active = [], cancelled_runs = [], host = []\<rparr>)) = sent \<and>
     length (filter is_post sent) \<le> 1 \<and> length sent \<le> 94"
  using build_triggered_once[OF demo_logs, of "''job''" None demo_client "\<lparr>active = [], cancelled_runs = [], host = []\<rparr>"]
  by (simp add: demo_jenkins_def[THEN arg_cong[of _ _ je_limits]] default_limits_def)

text \<open>The tools that change a build post once for each field, and once to stop.\<close>

lemma sends_submit:
  assumes "logs_requests E tap" "\<And>r. sends tap is_post n (k r)"
  shows "sends tap is_post (n + (if v = None then 0 else 1)) (submit_field E c p f v before k)"
proof (cases v)
  case None
  then show ?thesis using assms(2) by (simp add: submit_field_def)
next
  case (Some x)
  have "sends tap is_post (1 + n) (bindW (jenkins_post E c p (Some [(f, JStr x)])) (\<lambda>r.
      if is_jenkins_post_success r then k (Some r) else ret (normalize_response E r)))"
    using assms(2) by (intro sends_bind[OF sends_post(1)[OF assms(1)]]) (simp add: send_bounds)
  with Some show ?thesis by (simp add: submit_field_def)
qed

lemma updated_once_per_field:
  assumes "logs_requests E tap"
  shows "sends tap is_post ((if description = None then 0 else 1) + (if name = None then 0 else 1)) (update_build E job b name description c)"
proof -
  have final: "sends tap is_post 0 (case r of None \<Rightarrow> status_reply E 400 m True | Some x \<Rightarrow> ret (normalize_response E x))" for r m
    by (simp add: send_bounds split: option.split)
  have "sends tap is_post (0 + (if name = None then 0 else 1) + (if description = None then 0 else 1))
      (submit_field E c p ''description'' description None (\<lambda>d. submit_field E c q ''displayName'' name d (\<lambda>r.
        case r of None \<Rightarrow> status_reply E 400 m True | Some x \<Rightarrow> ret (normalize_response E x))))" for p q m
    by (intro sends_submit[OF assms] final)
  then show ?thesis unfolding update_build_def
    by (intro sends_then[OF sends_nothing(3)]) (simp only: add.commute add_0)
qed

lemma stopped_once:
  assumes "logs_requests E tap"
  shows "sends tap is_post 1 (stop_build E job b c)"
proof -
  have after: "sends tap is_post 0 (bindW (os_sleep (je_host E) 1) (\<lambda>_. bindW (jenkins_get E c p (Some stop_info_params)) (\<lambda>again.
      if \<not> is_success again then unverified_reply E info r else bindW (lift (resp_json E again)) (stopped_reply E info r))))" for p info r
    by (intro sends_then[OF sends_sleep[OF assms]] sends_then[OF sends_get_no_post[OF assms]])
      (auto simp: unverified_reply_def stopped_reply_def send_bounds intro!: sends_then)
  have "sends tap is_post (1 + 0) (bindW (jenkins_post E c q None) (\<lambda>stopped.
      if \<not> is_jenkins_post_success stopped then ret (normalize_response E stopped)
      else bindW (os_sleep (je_host E) 1) (\<lambda>_. bindW (jenkins_get E c p (Some stop_info_params)) (\<lambda>again.
        if \<not> is_success again then unverified_reply E info stopped else bindW (lift (resp_json E again)) (stopped_reply E info stopped)))))" for p q info
    by (rule sends_bind[OF sends_post(1)[OF assms]]) (simp add: after send_bounds)
  then have "sends tap is_post 1 (stop_running E c job p info)" for p info
    unfolding stop_running_def by (intro sends_then[OF sends_nothing(3)]) simp
  then show ?thesis unfolding stop_build_def
    by (intro sends_then[OF sends_nothing(3)] sends_then[OF sends_get_no_post[OF assms]])
      (auto simp: idle_reply_def send_bounds intro!: sends_then[OF sends_nothing(3)])
qed

subsection \<open>The path of a job\<close>

lemma split_part_plain: "t \<in> set (split_char c s) \<Longrightarrow> c \<notin> set t"
  by (induction s arbitrary: t) (auto split: if_splits list.splits)

lemma segment_plain: "s \<in> set (job_segments name) \<Longrightarrow> CHR ''/'' \<notin> set s \<and> s \<noteq> []"
proof -
  assume s: "s \<in> set (job_segments name)"
  then obtain t where t: "t \<in> set (split_char (CHR ''/'') name)" "s = py_strip t" "s \<noteq> []" by (auto simp: job_segments_def)
  have "CHR ''/'' \<notin> set t" using split_part_plain[OF t(1)] .
  then show ?thesis using t strip_chars[of t] by blast
qed

text \<open>
  Every segment of the name is one part of the path after a part \<open>job\<close>, in their order: a name cannot reach
  the pages beside the jobs. The segments are not encoded, so a dot-dot, a question mark or a number sign in
  a name keeps its meaning in a path.
\<close>

lemma job_path_parts:
  assumes "build_job_path name = Inr p" "job_segments name \<noteq> []"
  shows "split_char (CHR ''/'') p = [] # concat (map (\<lambda>s. [''job'', s]) (job_segments name))"
proof -
  have part: "CHR ''/'' \<notin> set s \<Longrightarrow> split_char (CHR ''/'') (''job/'' @ s) = [''job'', s]" for s
    using split_char_append[of "CHR ''/''" "''job''" s] by (simp add: split_char_no_sep)
  have more: "CHR ''/'' \<notin> set s \<Longrightarrow> split_char (CHR ''/'') (''job/'' @ s @ CHR ''/'' # rest) = ''job'' # s # split_char (CHR ''/'') rest" for s rest
    using split_char_append[of "CHR ''/''" "''job''" "s @ CHR ''/'' # rest"] by (simp add: split_char_append)
  have "ss \<noteq> [] \<Longrightarrow> \<forall>s \<in> set ss. CHR ''/'' \<notin> set s \<Longrightarrow>
      split_char (CHR ''/'') (join_str ''/'' (map (\<lambda>s. ''job/'' @ s) ss)) = concat (map (\<lambda>s. [''job'', s]) ss)" for ss
  proof (induction ss)
    case (Cons s ss)
    show ?case
    proof (cases ss)
      case Nil
      then show ?thesis using part[of s] Cons.prems by simp
    next
      case (Cons t ts)
      have "split_char (CHR ''/'') (join_str ''/'' (map (\<lambda>s. ''job/'' @ s) ss)) = concat (map (\<lambda>s. [''job'', s]) ss)"
        using Cons Cons.IH Cons.prems by simp
      then show ?thesis using more[of s "join_str ''/'' (map (\<lambda>s. ''job/'' @ s) ss)"] Cons Cons.prems by simp
    qed
  qed simp
  then have "split_char (CHR ''/'') (join_str ''/'' (map (\<lambda>s. ''job/'' @ s) (job_segments name))) =
      concat (map (\<lambda>s. [''job'', s]) (job_segments name))" using assms(2) segment_plain by blast
  with assms(1) show ?thesis by (auto simp: build_job_path_def split: if_splits)
qed

end
