(* ===== verification/Analytics.thy ===== *)
theory Analytics
  imports ConversationApi
begin

text \<open>
  The metrics of \<open>endpoints/analytics.py\<close> over the tables of theory ChatStore: how a message counts, the
  buckets of time, and the aggregation of a period. Times are microseconds since 1970 (UTC), dates are days
  since then. Floating point numbers are rational numbers, with the two values that are not finite; reading
  one from a text is the parameter \<open>float_text\<close>.
\<close>

subsection \<open>Numbers\<close>

datatype flt = Fin rat | Infinite | Not_a_number

type_synonym float_text = "string \<Rightarrow> flt option"

definition overflow_error :: "string \<Rightarrow> py_exc" where
  "overflow_error msg = Exc ''OverflowError'' msg"

definition float_limit :: int where
  "float_limit = 2 ^ 1024 - 2 ^ 970"

definition trunc_rat :: "rat \<Rightarrow> int" where
  "trunc_rat q = (if 0 \<le> q then \<lfloor>q\<rfloor> else - \<lfloor>- q\<rfloor>)"

text \<open>\<open>int(x)\<close> of a float: a value that is not a number raises ValueError, which is caught.\<close>

definition int_of_flt :: "flt \<Rightarrow> int \<Rightarrow> int py" where
  "int_of_flt x dflt =
     (case x of
        Fin q \<Rightarrow> Inr (trunc_rat q)
      | Infinite \<Rightarrow> Inl (overflow_error ''cannot convert float infinity to integer'')
      | Not_a_number \<Rightarrow> Inr dflt)"

definition safe_int :: "float_text \<Rightarrow> json \<Rightarrow> int \<Rightarrow> int py" where
  "safe_int F v dflt =
     (case v of
        JStr s \<Rightarrow>
          if py_strip s = [] then Inr dflt
          else (case F (py_strip s) of None \<Rightarrow> Inr dflt | Some x \<Rightarrow> int_of_flt x dflt)
      | JInt i \<Rightarrow> Inr i
      | _ \<Rightarrow> Inr dflt)"

definition safe_float :: "float_text \<Rightarrow> json \<Rightarrow> rat \<Rightarrow> flt py" where
  "safe_float F v dflt =
     (case v of
        JStr s \<Rightarrow>
          Inr (if py_strip s = [] then Fin dflt
               else (case F (py_strip s) of None \<Rightarrow> Fin dflt | Some x \<Rightarrow> x))
      | JInt i \<Rightarrow>
          if \<bar>i\<bar> < float_limit then Inr (Fin (of_int i)) else Inl (overflow_error ''int too large to convert to float'')
      | _ \<Rightarrow> Inr (Fin dflt))"

text \<open>\<open>if not math.isfinite(x) or x < 0\<close>\<close>

definition usable :: "flt \<Rightarrow> rat option" where
  "usable x = (case x of Fin q \<Rightarrow> if q < 0 then None else Some q | _ \<Rightarrow> None)"

subsection \<open>What a message says when its row does not\<close>

definition assistant_entries :: "conversation_row \<Rightarrow> dict list" where
  "assistant_entries cv = filter (\<lambda>m. dget m ''type'' = JStr ''assistant'') (rev (history_of cv))"

definition close_in_time :: "int \<Rightarrow> dict \<Rightarrow> bool" where
  "close_in_time ms m = (case num_val (dget m ''timestamp'') of None \<Rightarrow> False | Some t \<Rightarrow> \<bar>t - ms\<bar> \<le> 2000)"

definition message_ms :: "message_row \<Rightarrow> int" where
  "message_ms r = (if 0 \<le> mr_created r then mr_created r div 1000 else - ((- mr_created r) div 1000))"

definition find_assistant_message :: "conversation_row option \<Rightarrow> message_row \<Rightarrow> dict option" where
  "find_assistant_message cv r =
     (case cv of
        None \<Rightarrow> None
      | Some c \<Rightarrow>
          (case find (\<lambda>m. py_str (dget_def m ''id'' (JStr [])) = mr_id r) (assistant_entries c) of
             Some m \<Rightarrow> Some m
           | None \<Rightarrow> find (close_in_time (message_ms r)) (assistant_entries c)))"

text \<open>The usage and the metadata that the history has.\<close>

definition fallback_data :: "conversation_row option \<Rightarrow> message_row \<Rightarrow> json \<times> json" where
  "fallback_data cv r =
     (case find_assistant_message cv r of
        None \<Rightarrow> (JDict [], JDict [])
      | Some [] \<Rightarrow> (JDict [], JDict [])
      | Some m \<Rightarrow>
          (if is_dict (dget m ''token_usage'') then dget m ''token_usage'' else JDict [],
           if is_list (dget m ''segments'') then JDict [(''segments'', dget m ''segments'')] else JDict []))"

definition own_or_fallback :: "conversation_row option \<Rightarrow> message_row \<Rightarrow> json \<times> json" where
  "own_or_fallback cv r =
     (por (mr_usage r) (fst (fallback_data cv r)), por (mr_metadata r) (snd (fallback_data cv r)))"

definition thinking_ms :: "json \<Rightarrow> int" where
  "thinking_ms s =
     (case s of
        JDict d \<Rightarrow>
          if dget d ''kind'' \<noteq> JStr ''thinking'' then 0
          else (case num_val (dget d ''durationMs'') of None \<Rightarrow> 0 | Some n \<Rightarrow> max 0 n)
      | _ \<Rightarrow> 0)"

definition ttr_of_segments :: "json \<Rightarrow> int option py" where
  "ttr_of_segments metadata =
     (case metadata of
        JDict [] \<Rightarrow> Inr None
      | JDict d \<Rightarrow> bindE (py_iter (dget_def d ''segments'' (JList []))) (\<lambda>ss.
          let ms = sum_list (map thinking_ms ss) in Inr (if 0 < ms then Some ms else None))
      | _ \<Rightarrow> Inr None)"

subsection \<open>Buckets\<close>

definition minutes_us :: "int \<Rightarrow> int" where
  "minutes_us n = n * 60000000"

definition hours_us :: "int \<Rightarrow> int" where
  "hours_us n = n * 3600000000"

definition days_us :: "int \<Rightarrow> int" where
  "days_us n = n * 86400000000"

definition select_bucket_size :: "int \<Rightarrow> int \<Rightarrow> int" where
  "select_bucket_size start final =
     (let span = final - start in
      if span \<le> hours_us 2 then minutes_us 5
      else if span \<le> hours_us 12 then minutes_us 15
      else if span \<le> hours_us 48 then hours_us 1
      else if span \<le> days_us 14 then hours_us 6
      else if span \<le> days_us 90 then days_us 1
      else days_us 7)"

definition floor_to_bucket :: "int \<Rightarrow> int \<Rightarrow> int" where
  "floor_to_bucket t width =
     (let secs = trunc_seconds width in
      if secs \<le> 0 then t else (trunc_seconds t div secs * secs) * 1000000)"

subsection \<open>Counting\<close>

record stats =
  sg_cost :: rat
  sg_prompt :: int
  sg_completion :: int
  sg_cached :: int
  sg_total :: int
  sg_ttft_sum :: rat
  sg_ttft_count :: int
  sg_ttr_sum :: int
  sg_ttr_count :: int

definition empty_stats :: stats where
  "empty_stats = \<lparr>sg_cost = 0, sg_prompt = 0, sg_completion = 0, sg_cached = 0, sg_total = 0, sg_ttft_sum = 0,
     sg_ttft_count = 0, sg_ttr_sum = 0, sg_ttr_count = 0\<rparr>"

definition add_stats :: "stats \<Rightarrow> stats \<Rightarrow> stats" where
  "add_stats a b = \<lparr>sg_cost = sg_cost a + sg_cost b, sg_prompt = sg_prompt a + sg_prompt b,
     sg_completion = sg_completion a + sg_completion b, sg_cached = sg_cached a + sg_cached b,
     sg_total = sg_total a + sg_total b, sg_ttft_sum = sg_ttft_sum a + sg_ttft_sum b,
     sg_ttft_count = sg_ttft_count a + sg_ttft_count b, sg_ttr_sum = sg_ttr_sum a + sg_ttr_sum b,
     sg_ttr_count = sg_ttr_count a + sg_ttr_count b\<rparr>"

text \<open>The approvals and rejections among the segments of a message.\<close>

definition approval_of :: "json \<Rightarrow> (int \<times> int) py" where
  "approval_of s =
     (case s of
        JDict d \<Rightarrow>
          if dget d ''kind'' \<noteq> JStr ''tool'' \<or> \<not> truthy (dget d ''toolExecution'') then Inr (0, 0)
          else bindE (jget (dget d ''toolExecution'') ''requires_approval'') (\<lambda>required.
            if \<not> truthy required then Inr (0, 0)
            else bindE (jget (dget d ''toolExecution'') ''status'') (\<lambda>status.
              if \<not> hashable status then Inl (unhashable_error status)
              else if status \<in> {JStr ''completed'', JStr ''error''} then Inr (1, 0)
              else if status = JStr ''denied'' then Inr (0, 1)
              else Inr (0, 0)))
      | _ \<Rightarrow> Inr (0, 0))"

definition approvals_of :: "json \<Rightarrow> (int \<times> int) list py" where
  "approvals_of metadata =
     (case metadata of
        JDict [] \<Rightarrow> Inr []
      | JDict d \<Rightarrow> bindE (py_iter (dget_def d ''segments'' (JList []))) (each_py approval_of)
      | _ \<Rightarrow> Inr [])"

definition usage_int :: "float_text \<Rightarrow> json \<Rightarrow> string \<Rightarrow> int py" where
  "usage_int F usage k =
     bindE (jget_def usage k (JInt 0)) (\<lambda>v. bindE (safe_int F v 0) (\<lambda>n. Inr (max n 0)))"

definition usage_stats :: "float_text \<Rightarrow> json \<Rightarrow> stats py" where
  "usage_stats F usage =
     (if \<not> truthy usage then Inr empty_stats
      else
        bindE (jget_def usage ''cost'' (JInt 0)) (\<lambda>c.
        bindE (safe_float F c 0) (\<lambda>cost.
        bindE (usage_int F usage ''prompt_tokens'') (\<lambda>p.
        bindE (usage_int F usage ''completion_tokens'') (\<lambda>k.
        bindE (usage_int F usage ''total_tokens'') (\<lambda>t.
        bindE (usage_int F usage ''cached_tokens'') (\<lambda>h.
        bindE (jget usage ''ttft_ms'') (\<lambda>v.
        bindE (safe_float F v (-1)) (\<lambda>ttft.
        Inr (empty_stats\<lparr>sg_cost := (case usable cost of None \<Rightarrow> 0 | Some q \<Rightarrow> q),
               sg_prompt := p, sg_completion := k, sg_total := t, sg_cached := h,
               sg_ttft_sum := (case usable ttft of None \<Rightarrow> 0 | Some q \<Rightarrow> q),
               sg_ttft_count := (if usable ttft = None then 0 else 1)\<rparr>))))))))))"

definition ttr_of :: "float_text \<Rightarrow> json \<Rightarrow> json \<Rightarrow> int option py" where
  "ttr_of F usage metadata =
     bindE (if truthy usage then bindE (jget usage ''ttr_ms'') (\<lambda>v. safe_int F v (-1)) else Inr (-1)) (\<lambda>n.
     if 0 \<le> n then Inr (Some n) else ttr_of_segments metadata)"

record counted =
  ct_approvals :: int
  ct_rejections :: int
  ct_stats :: stats

definition count_message :: "float_text \<Rightarrow> conversation_row option \<Rightarrow> message_row \<Rightarrow> counted py" where
  "count_message F cv r =
     (let usage = fst (own_or_fallback cv r); metadata = snd (own_or_fallback cv r) in
      bindE (approvals_of metadata) (\<lambda>found.
      bindE (usage_stats F usage) (\<lambda>s.
      bindE (ttr_of F usage metadata) (\<lambda>ttr.
      Inr \<lparr>ct_approvals = sum_list (map fst found), ct_rejections = sum_list (map snd found),
           ct_stats = (case ttr of None \<Rightarrow> s | Some n \<Rightarrow> s\<lparr>sg_ttr_sum := n, sg_ttr_count := 1\<rparr>)\<rparr>))))"

record aggregate =
  ag_approvals :: int
  ag_rejections :: int
  ag_stats :: stats
  ag_buckets :: "(int \<times> stats) list"

definition bucket_stats :: "int \<Rightarrow> (int \<times> stats) list \<Rightarrow> stats" where
  "bucket_stats b m = (case map_of m b of None \<Rightarrow> empty_stats | Some s \<Rightarrow> s)"

definition add_message :: "int \<Rightarrow> counted \<Rightarrow> aggregate \<Rightarrow> aggregate" where
  "add_message b c a =
     \<lparr>ag_approvals = ag_approvals a + ct_approvals c, ag_rejections = ag_rejections a + ct_rejections c,
      ag_stats = add_stats (ag_stats a) (ct_stats c),
      ag_buckets = AList.update b (add_stats (bucket_stats b (ag_buckets a)) (ct_stats c)) (ag_buckets a)\<rparr>"

definition no_messages :: aggregate where
  "no_messages = \<lparr>ag_approvals = 0, ag_rejections = 0, ag_stats = empty_stats, ag_buckets = []\<rparr>"

definition conversation_of :: "chat_db \<Rightarrow> message_row \<Rightarrow> conversation_row option" where
  "conversation_of db r = find (\<lambda>cv. cv_id cv = mr_conversation r) (db_conversations db)"

fun add_messages :: "float_text \<Rightarrow> chat_db \<Rightarrow> int \<Rightarrow> message_row list \<Rightarrow> aggregate \<Rightarrow> aggregate py" where
  "add_messages F db width [] a = Inr a"
| "add_messages F db width (r # rs) a =
     (if mr_role r \<noteq> ''assistant'' then add_messages F db width rs a
      else bindE (count_message F (conversation_of db r) r) (\<lambda>c.
           add_messages F db width rs (add_message (floor_to_bucket (mr_created r) width) c a)))"

subsection \<open>The metrics of a period\<close>

record metrics_query =
  mq_days :: "int option"
  mq_start_date :: "int option"
  mq_end_date :: "int option"
  mq_start :: "int option"
  mq_end :: "int option"

record period =
  pd_start :: int
  pd_end :: int
  pd_window :: bool

definition days_or_week :: "int option \<Rightarrow> int" where
  "days_or_week n = (case n of None \<Rightarrow> 7 | Some i \<Rightarrow> if i = 0 then 7 else i)"

definition day_of :: "int \<Rightarrow> int" where
  "day_of t = t div days_us 1"

definition period_of :: "int \<Rightarrow> metrics_query \<Rightarrow> http_error + period" where
  "period_of now q =
     (if mq_start q \<noteq> None \<or> mq_end q \<noteq> None then
        (let s = (case mq_start q of Some t \<Rightarrow> t | None \<Rightarrow> now - days_us (days_or_week (mq_days q)));
             e = (case mq_end q of Some t \<Rightarrow> t | None \<Rightarrow> now)
         in if e < s then Inl (Http 400 (JStr ''start_datetime must be before end_datetime''))
            else Inr \<lparr>pd_start = s, pd_end = e, pd_window = True\<rparr>)
      else case mq_start_date q of
        Some d \<Rightarrow>
          (let e = (case mq_end_date q of Some x \<Rightarrow> x | None \<Rightarrow> day_of now) in
           if e < d then Inl (Http 400 (JStr ''start_date must be before end_date''))
           else Inr \<lparr>pd_start = days_us d, pd_end = days_us (e + 1) - 1, pd_window = False\<rparr>)
      | None \<Rightarrow>
          Inr \<lparr>pd_start = days_us (day_of now - max (days_or_week (mq_days q) - 1) 0), pd_end = now, pd_window = False\<rparr>)"

definition bucket_width :: "period \<Rightarrow> int" where
  "bucket_width p = (if pd_window p then select_bucket_size (pd_start p) (pd_end p) else days_us 1)"

definition messages_of_period :: "string \<Rightarrow> period \<Rightarrow> chat_db \<Rightarrow> message_row list" where
  "messages_of_period uid p db =
     filter (\<lambda>r. (case conversation_of db r of None \<Rightarrow> False | Some cv \<Rightarrow> cv_user cv = Some uid)
              \<and> pd_start p \<le> mr_created r \<and> mr_created r \<le> pd_end p) (db_messages db)"

record daily_metrics =
  dm_date :: int
  dm_cost :: rat
  dm_prompt_tokens :: int
  dm_completion_tokens :: int
  dm_cached_tokens :: int
  dm_total_tokens :: int
  dm_avg_ttft :: "rat option"
  dm_avg_ttr :: "rat option"

definition average :: "rat \<Rightarrow> int \<Rightarrow> rat option" where
  "average amount n = (if 0 < n then Some (amount / of_int n) else None)"

definition daily_row :: "int \<Rightarrow> stats \<Rightarrow> daily_metrics" where
  "daily_row b s =
     \<lparr>dm_date = b, dm_cost = sg_cost s, dm_prompt_tokens = sg_prompt s, dm_completion_tokens = sg_completion s,
      dm_cached_tokens = sg_cached s, dm_total_tokens = sg_total s, dm_avg_ttft = average (sg_ttft_sum s) (sg_ttft_count s),
      dm_avg_ttr = average (of_int (sg_ttr_sum s)) (sg_ttr_count s)\<rparr>"

text \<open>The starts of the buckets up to the end of the period; a width is never zero or negative.\<close>

function bucket_starts :: "int \<Rightarrow> int \<Rightarrow> int \<Rightarrow> int list" where
  "bucket_starts width b final =
     (if width \<le> 0 \<or> final < b then [] else b # bucket_starts width (b + width) final)"
  by pat_completeness auto

termination bucket_starts
  by (relation "measure (\<lambda>(width, b, final). nat (final - b + 1))") auto

text \<open>In days, the dates from the one of the start to the one of the end.\<close>

definition breakdown_starts :: "period \<Rightarrow> int list" where
  "breakdown_starts p =
     (if pd_window p then bucket_starts (bucket_width p) (floor_to_bucket (pd_start p) (bucket_width p)) (pd_end p)
      else map days_us (bucket_starts 1 (day_of (pd_start p)) (day_of (pd_end p))))"

record metrics_aggregation =
  ma_start :: int
  ma_end :: int
  ma_cost :: rat
  ma_tokens :: int
  ma_prompt_tokens :: int
  ma_completion_tokens :: int
  ma_cached_tokens :: int
  ma_conversations :: int
  ma_avg_ttft :: "rat option"
  ma_avg_ttr :: "rat option"
  ma_cost_per_conversation :: rat
  ma_tokens_per_conversation :: rat
  ma_cache_hit_rate :: rat
  ma_breakdown :: "daily_metrics list"
  ma_approvals :: int
  ma_rejections :: int
  ma_acceptance_rate :: "rat option"

definition per_conversation :: "rat \<Rightarrow> int \<Rightarrow> rat" where
  "per_conversation amount n = (if 0 < n then amount / of_int n else 0)"

definition cache_hit_rate :: "int \<Rightarrow> int \<Rightarrow> rat" where
  "cache_hit_rate cached prompt = (if 0 < prompt then min (of_int cached / of_int prompt) 1 else 0)"

definition aggregation :: "period \<Rightarrow> int \<Rightarrow> aggregate \<Rightarrow> metrics_aggregation" where
  "aggregation p n a =
     (let s = ag_stats a in
      \<lparr>ma_start = pd_start p, ma_end = pd_end p, ma_cost = sg_cost s, ma_tokens = sg_total s,
       ma_prompt_tokens = sg_prompt s, ma_completion_tokens = sg_completion s, ma_cached_tokens = sg_cached s,
       ma_conversations = n, ma_avg_ttft = average (sg_ttft_sum s) (sg_ttft_count s),
       ma_avg_ttr = average (of_int (sg_ttr_sum s)) (sg_ttr_count s),
       ma_cost_per_conversation = per_conversation (sg_cost s) n,
       ma_tokens_per_conversation = per_conversation (of_int (sg_total s)) n,
       ma_cache_hit_rate = cache_hit_rate (sg_cached s) (sg_prompt s),
       ma_breakdown = map (\<lambda>b. daily_row b (bucket_stats b (ag_buckets a))) (breakdown_starts p),
       ma_approvals = ag_approvals a, ma_rejections = ag_rejections a,
       ma_acceptance_rate = average (of_int (ag_approvals a)) (ag_approvals a + ag_rejections a)\<rparr>)"

definition metrics_of :: "float_text \<Rightarrow> string \<Rightarrow> period \<Rightarrow> chat_db \<Rightarrow> metrics_aggregation py" where
  "metrics_of F uid p db =
     (let rs = messages_of_period uid p db in
      bindE (add_messages F db (bucket_width p) rs no_messages) (\<lambda>a.
      Inr (aggregation p (int (card (set (map mr_conversation rs)))) a)))"

definition get_metrics ::
  "chat_env \<Rightarrow> float_text \<Rightarrow> int \<Rightarrow> metrics_query \<Rightarrow> api_user option \<Rightarrow> metrics_aggregation chat_api" where
  "get_metrics E F now q u =
     catchW
       (case u of
          None \<Rightarrow> fail_with 401 ''Authentication required for metrics''
        | Some x \<Rightarrow>
            (case period_of now q of
               Inl h \<Rightarrow> ret (Inl h)
             | Inr p \<Rightarrow>
                 bindW (chat_query E (metrics_of F (au_id x) p)) (\<lambda>m. bindW (lift m) (\<lambda>r. ret (Inr r)))))
       (\<lambda>e. fail_with 500 ''Failed to retrieve metrics'')"

end
