(* ===== verification/AnalyticsProps.thy ===== *)
theory AnalyticsProps
  imports Analytics
begin

text \<open>
  What a report of metrics guarantees: its rows add up to its totals, whatever the messages say and however
  the period is asked for, and its rates and averages stay in their ranges.
\<close>

subsection \<open>Buckets\<close>

declare bucket_starts.simps [simp del]

lemma bucket_starts_iff:
  "0 < w \<Longrightarrow> x \<in> set (bucket_starts w b final) \<longleftrightarrow> (\<exists>k. x = b + int k * w \<and> x \<le> final)"
proof (induction w b final rule: bucket_starts.induct)
  case (1 w b final)
  show ?case
  proof (cases "final < b")
    case True
    have "b \<le> b + int k * w" for k using 1(2) by simp
    then have "\<not> (\<exists>k. x = b + int k * w \<and> x \<le> final)" using True order_trans not_le by blast
    with True show ?thesis by (subst bucket_starts.simps) simp
  next
    case False
    have step: "(\<exists>k. x = b + w + int k * w \<and> x \<le> final) \<longleftrightarrow> (\<exists>k. x = b + int (Suc k) * w \<and> x \<le> final)" by (simp add: algebra_simps)
    have "(\<exists>k. x = b + int k * w \<and> x \<le> final) \<longleftrightarrow> x = b \<or> (\<exists>k. x = b + int (Suc k) * w \<and> x \<le> final)"
      using False by (metis add.right_neutral mult_zero_left not_less not0_implies_Suc of_nat_0)
    with False 1 step show ?thesis by (subst bucket_starts.simps) simp
  qed
qed

lemma bucket_starts_distinct: "distinct (bucket_starts w b final)"
proof (induction w b final rule: bucket_starts.induct)
  case (1 w b final)
  show ?case
  proof (cases "w \<le> 0 \<or> final < b")
    case True
    then show ?thesis by (subst bucket_starts.simps) simp
  next
    case False
    then have "b \<notin> set (bucket_starts w (b + w) final)"
    proof -
      have "b < b + w + int k * w" for k using False by (simp add: add_pos_nonneg)
      then have "b \<noteq> b + w + int k * w" for k using less_irrefl by metis
      with False show ?thesis by (simp add: bucket_starts_iff)
    qed
    with 1 False show ?thesis by (subst bucket_starts.simps) simp
  qed
qed

lemma bucket_width_seconds: "\<exists>W. 0 < W \<and> bucket_width p = W * 1000000"
proof -
  have "\<exists>W>0. c * 1000000 = W * (1000000 :: int)" if "0 < c" for c :: int using that by blast
  note this[of 300] this[of 900] this[of 3600] this[of 21600] this[of 86400] this[of 604800]
  then show ?thesis
    by (simp add: bucket_width_def select_bucket_size_def minutes_us_def hours_us_def days_us_def Let_def)
qed

lemma floor_div:
  assumes "0 \<le> t" "0 < W"
  shows "floor_to_bucket t (W * 1000000) = t div (W * 1000000) * (W * 1000000)"
proof -
  have "trunc_seconds (W * 1000000) = W" "trunc_seconds t = t div 1000000" using assms by (simp_all add: trunc_seconds_def)
  moreover have "t div (W * 1000000) = t div 1000000 div W" using zdiv_zmult2_eq[of W t 1000000] assms(2) by (simp add: mult.commute)
  ultimately show ?thesis using assms(2) by (simp add: floor_to_bucket_def mult.assoc)
qed

text \<open>A message of the period falls in a bucket that has a row.\<close>

lemma floor_listed:
  assumes "0 \<le> pd_start p" "pd_start p \<le> t" "t \<le> pd_end p"
  shows "floor_to_bucket t (bucket_width p) \<in> set (breakdown_starts p)"
proof -
  obtain W where W: "0 < W" "bucket_width p = W * 1000000" using bucket_width_seconds by blast
  define w where "w = W * 1000000"
  have pos: "0 < w" using W(1) by (simp add: w_def)
  have fl: "floor_to_bucket x (bucket_width p) = x div w * w" if "0 \<le> x" for x using floor_div[OF that W(1)] W(2) by (simp add: w_def)
  have up: "pd_start p div w \<le> t div w" using assms(2) pos by (simp add: zdiv_mono1)
  then obtain k where k: "t div w = pd_start p div w + int k" using zle_iff_zadd by blast
  have le: "t div w * w \<le> t" using div_mult_mod_eq[of t w] pos_mod_sign[OF pos, of t] by linarith
  show ?thesis
  proof (cases "pd_window p")
    case True
    have "t div w * w = pd_start p div w * w + int k * w" by (simp add: k distrib_right)
    with True le assms(3) fl assms(1,2) pos show ?thesis
      by (auto simp: breakdown_starts_def bucket_starts_iff W(2) w_def[symmetric])
  next
    case False
    then have day: "w = days_us 1" using W(2) by (simp add: bucket_width_def w_def)
    have "day_of t \<in> set (bucket_starts 1 (day_of (pd_start p)) (day_of (pd_end p)))"
      using k zdiv_mono1[OF assms(3) pos] by (auto simp: bucket_starts_iff day_of_def day[symmetric])
    moreover have "floor_to_bucket t (bucket_width p) = days_us (day_of t)"
      using fl assms(1,2) by (simp add: day day_of_def days_us_def)
    ultimately show ?thesis using False by (simp add: breakdown_starts_def)
  qed
qed

lemma breakdown_distinct: "distinct (breakdown_starts p)"
  by (simp add: breakdown_starts_def bucket_starts_distinct distinct_map days_us_def inj_on_def)

subsection \<open>Sums\<close>

definition additive :: "(stats \<Rightarrow> 'a::comm_monoid_add) \<Rightarrow> bool" where
  "additive f \<longleftrightarrow> f empty_stats = 0 \<and> (\<forall>a b. f (add_stats a b) = f a + f b)"

lemma additive_fields: "additive sg_cost" "additive sg_prompt" "additive sg_completion" "additive sg_cached" "additive sg_total"
    "additive sg_ttft_sum" "additive sg_ttft_count" "additive sg_ttr_sum" "additive sg_ttr_count"
  by (simp_all add: additive_def empty_stats_def add_stats_def)

definition balanced :: "(stats \<Rightarrow> 'a::comm_monoid_add) \<Rightarrow> int set \<Rightarrow> aggregate \<Rightarrow> bool" where
  "balanced f B a \<longleftrightarrow> (\<Sum>b\<in>B. f (bucket_stats b (ag_buckets a))) = f (ag_stats a)"

lemma balanced_start: "additive f \<Longrightarrow> balanced f B no_messages"
  by (simp add: balanced_def no_messages_def bucket_stats_def additive_def)

lemma balanced_add:
  assumes "additive f" "finite B" "b \<in> B" "balanced f B a"
  shows "balanced f B (add_message b c a)"
proof -
  let ?m = "ag_buckets a" and ?s = "ct_stats c"
  have at: "bucket_stats x (ag_buckets (add_message b c a)) = (if x = b then add_stats (bucket_stats b ?m) ?s else bucket_stats x ?m)" for x
    by (simp add: add_message_def bucket_stats_def update_conv')
  have "(\<Sum>x\<in>B. f (bucket_stats x (ag_buckets (add_message b c a)))) =
      f (add_stats (bucket_stats b ?m) ?s) + (\<Sum>x\<in>B - {b}. f (bucket_stats x ?m))"
    by (subst sum.remove[OF assms(2,3)]) (simp add: at)
  also have "\<dots> = (\<Sum>x\<in>B. f (bucket_stats x ?m)) + f ?s"
    using assms(1) by (subst sum.remove[OF assms(2,3)]) (simp add: additive_def ac_simps)
  finally show ?thesis using assms(1,4) by (simp add: balanced_def add_message_def additive_def)
qed

lemma balanced_messages:
  assumes "additive f" "finite B" "\<And>r. r \<in> set rs \<Longrightarrow> floor_to_bucket (mr_created r) w \<in> B"
    and "balanced f B a" "add_messages F db w rs a = Inr a'"
  shows "balanced f B a'"
  using assms(3-5)
proof (induction rs arbitrary: a)
  case (Cons r rs)
  then show ?case
    by (cases "mr_role r = ''assistant''") (auto simp: bindE_Inr_iff intro: balanced_add[OF assms(1,2)])
qed simp

lemma rows_add_up:
  assumes "metrics_of F uid p db = Inr m" "0 \<le> pd_start p" "additive f"
  shows "\<exists>a. m = aggregation p (ma_conversations m) a \<and>
    sum_list (map (\<lambda>b. f (bucket_stats b (ag_buckets a))) (breakdown_starts p)) = f (ag_stats a)"
proof -
  obtain a where a: "add_messages F db (bucket_width p) (messages_of_period uid p db) no_messages = Inr a"
      "m = aggregation p (int (card (set (map mr_conversation (messages_of_period uid p db))))) a"
    using assms(1) by (auto simp: metrics_of_def Let_def bindE_Inr_iff)
  have "balanced f (set (breakdown_starts p)) a"
    by (rule balanced_messages[OF assms(3) _ _ balanced_start[OF assms(3)] a(1)])
      (auto simp: messages_of_period_def intro: floor_listed assms(2))
  then have "sum_list (map (\<lambda>b. f (bucket_stats b (ag_buckets a))) (breakdown_starts p)) = f (ag_stats a)"
    by (simp add: balanced_def sum_list_distinct_conv_sum_set breakdown_distinct)
  moreover have "m = aggregation p (ma_conversations m) a" by (simp add: a(2) aggregation_def Let_def)
  ultimately show ?thesis by blast
qed

text \<open>
  The rows of a report add up to its totals. For every period after 1970, asked for by days, dates or
  times, and whatever usage the messages of the user carry, the costs and the four counts of tokens of the rows
  sum to the totals of the report: no message falls between two rows, outside of them or into two of them.
\<close>

theorem metrics_rows_add_up:
  assumes "metrics_of F uid p db = Inr m" and "0 \<le> pd_start p"
  shows "sum_list (map dm_cost (ma_breakdown m)) = ma_cost m \<and>
     sum_list (map dm_total_tokens (ma_breakdown m)) = ma_tokens m \<and>
     sum_list (map dm_prompt_tokens (ma_breakdown m)) = ma_prompt_tokens m \<and>
     sum_list (map dm_completion_tokens (ma_breakdown m)) = ma_completion_tokens m \<and>
     sum_list (map dm_cached_tokens (ma_breakdown m)) = ma_cached_tokens m"
proof -
  have "sum_list (map dm_cost (ma_breakdown m)) = ma_cost m"
    using rows_add_up[OF assms additive_fields(1)] by (auto simp: aggregation_def Let_def comp_def daily_row_def elim: ssubst)
  moreover have "sum_list (map dm_total_tokens (ma_breakdown m)) = ma_tokens m"
    using rows_add_up[OF assms additive_fields(5)] by (auto simp: aggregation_def Let_def comp_def daily_row_def elim: ssubst)
  moreover have "sum_list (map dm_prompt_tokens (ma_breakdown m)) = ma_prompt_tokens m"
    using rows_add_up[OF assms additive_fields(2)] by (auto simp: aggregation_def Let_def comp_def daily_row_def elim: ssubst)
  moreover have "sum_list (map dm_completion_tokens (ma_breakdown m)) = ma_completion_tokens m"
    using rows_add_up[OF assms additive_fields(3)] by (auto simp: aggregation_def Let_def comp_def daily_row_def elim: ssubst)
  moreover have "sum_list (map dm_cached_tokens (ma_breakdown m)) = ma_cached_tokens m"
    using rows_add_up[OF assms additive_fields(4)] by (auto simp: aggregation_def Let_def comp_def daily_row_def elim: ssubst)
  ultimately show ?thesis by blast
qed

definition demo_reply :: "string \<Rightarrow> int \<Rightarrow> int \<Rightarrow> message_row" where
  "demo_reply i t n = \<lparr>mr_id = i, mr_conversation = ''c'', mr_role = ''assistant'', mr_content = [], mr_sequence = 1,
     mr_metadata = JList [JNull], mr_created = t, mr_usage = JDict [(''total_tokens'', JInt n)]\<rparr>"

definition demo_spending :: chat_db where
  "demo_spending = \<lparr>db_conversations = [\<lparr>cv_id = ''c'', cv_title = None, cv_user = Some ''u'', cv_active = True,
       cv_metadata = JNull, cv_messages = None, cv_created = 0, cv_updated = 0\<rparr>],
     db_messages = [demo_reply ''a'' 5 3, demo_reply ''b'' 90000000000 4], db_operations = [], db_now = 0\<rparr>"

definition demo_period :: period where
  "demo_period = \<lparr>pd_start = 0, pd_end = 100000000000, pd_window = False\<rparr>"

lemma demo_count: "count_message F cv (demo_reply i t n) =
  Inr \<lparr>ct_approvals = 0, ct_rejections = 0, ct_stats = empty_stats\<lparr>sg_total := max n 0\<rparr>\<rparr>"
  by (simp add: count_message_def demo_reply_def own_or_fallback_def por_def approvals_of_def usage_stats_def usage_int_def
    safe_float_def safe_int_def ttr_of_def ttr_of_segments_def usable_def float_limit_def empty_stats_def Let_def)

lemma metrics_rows_add_up_witness:
  "\<exists>m. metrics_of (\<lambda>_. None) ''u'' demo_period demo_spending = Inr m \<and>
     sum_list (map dm_total_tokens (ma_breakdown m)) = 7"
proof -
  have rows: "messages_of_period ''u'' demo_period demo_spending = [demo_reply ''a'' 5 3, demo_reply ''b'' 90000000000 4]"
    by (simp add: messages_of_period_def demo_period_def demo_spending_def demo_reply_def conversation_of_def)
  have role: "mr_role (demo_reply i t n) = ''assistant''" for i t n by (simp add: demo_reply_def)
  obtain m where m: "metrics_of (\<lambda>_. None) ''u'' demo_period demo_spending = Inr m" "ma_tokens m = 7"
    by (auto simp: metrics_of_def rows role demo_count Let_def aggregation_def add_message_def no_messages_def add_stats_def empty_stats_def)
  moreover have "0 \<le> pd_start demo_period" by (simp add: demo_period_def)
  ultimately show ?thesis using metrics_rows_add_up[OF m(1)] by auto
qed

subsection \<open>Ranges\<close>

definition fine_stats :: "stats \<Rightarrow> bool" where
  "fine_stats s \<longleftrightarrow> 0 \<le> sg_cost s \<and> 0 \<le> sg_prompt s \<and> 0 \<le> sg_completion s \<and> 0 \<le> sg_cached s \<and> 0 \<le> sg_total s \<and>
     0 \<le> sg_ttft_sum s \<and> 0 \<le> sg_ttft_count s \<and> 0 \<le> sg_ttr_sum s \<and> 0 \<le> sg_ttr_count s"

lemma fine_empty [simp]: "fine_stats empty_stats"
  by (simp add: fine_stats_def empty_stats_def)

lemma fine_add [intro]: "fine_stats a \<Longrightarrow> fine_stats b \<Longrightarrow> fine_stats (add_stats a b)"
  by (simp add: fine_stats_def add_stats_def)

lemma usable_nonneg: "0 \<le> (case usable x of None \<Rightarrow> 0 | Some q \<Rightarrow> q)"
  by (auto simp: usable_def split: flt.split)

lemma usable_Some: "usable x = Some q \<Longrightarrow> 0 \<le> q"
  by (auto simp: usable_def split: flt.splits if_splits)

lemma usage_fine: "usage_stats F usage = Inr s \<Longrightarrow> fine_stats s"
  by (auto simp: usage_stats_def bindE_Inr_iff usage_int_def fine_stats_def empty_stats_def usable_nonneg split: if_splits dest: usable_Some)

lemma thinking_nonneg: "0 \<le> thinking_ms v"
  by (auto simp: thinking_ms_def split: json.split option.split)

lemma segments_nonneg: "ttr_of_segments metadata = Inr (Some n) \<Longrightarrow> 0 \<le> n"
proof (cases metadata)
  case (JDict d)
  then show "ttr_of_segments metadata = Inr (Some n) \<Longrightarrow> 0 \<le> n"
    by (cases d) (auto simp: ttr_of_segments_def bindE_Inr_iff Let_def split: if_splits)
qed (simp_all add: ttr_of_segments_def)

lemma ttr_nonneg: "ttr_of F usage metadata = Inr (Some n) \<Longrightarrow> 0 \<le> n"
  unfolding ttr_of_def bindE_Inr_iff by (auto dest: segments_nonneg split: if_splits)

lemma each_py_all: "each_py f xs = Inr ys \<Longrightarrow> (\<And>x y. f x = Inr y \<Longrightarrow> P y) \<Longrightarrow> list_all P ys"
  by (induction xs arbitrary: ys) (auto simp: bindE_Inr_iff)

lemma approval_nonneg: "approval_of v = Inr c \<Longrightarrow> 0 \<le> fst c \<and> 0 \<le> snd c"
proof (cases v)
  case (JDict d)
  let ?e = "dget d ''toolExecution''"
  assume ok: "approval_of v = Inr c"
  show ?thesis
  proof (cases "dget d ''kind'' \<noteq> JStr ''tool'' \<or> \<not> truthy ?e")
    case True
    then show ?thesis using ok by (auto simp: approval_of_def JDict)
  next
    case False
    then obtain required where r: "(if \<not> truthy required then Inr (0, 0) else bindE (jget ?e ''status'') (\<lambda>status.
        if \<not> hashable status then Inl (unhashable_error status)
        else if status \<in> {JStr ''completed'', JStr ''error''} then Inr (1, 0)
        else if status = JStr ''denied'' then Inr (0, 1) else Inr (0, 0))) = Inr c"
      using ok by (auto simp: approval_of_def JDict bindE_Inr_iff)
    show ?thesis
    proof (cases "truthy required")
      case True
      with r obtain status where "(if \<not> hashable status then Inl (unhashable_error status)
        else if status \<in> {JStr ''completed'', JStr ''error''} then Inr (1, 0)
        else if status = JStr ''denied'' then Inr (0, 1) else Inr (0, 0)) = Inr c"
        by (auto simp only: bindE_Inr_iff if_True not_True_eq_False if_False)
      then show ?thesis by (simp split: if_splits) (auto)
    qed (use r in auto)
  qed
qed (auto simp: approval_of_def)

lemma approvals_nonneg:
  assumes "approvals_of metadata = Inr cs"
  shows "0 \<le> sum_list (map fst cs) \<and> 0 \<le> sum_list (map snd cs)"
proof -
  have "list_all (\<lambda>c. 0 \<le> fst c \<and> 0 \<le> snd c) cs"
    using assms each_py_all[of approval_of _ cs "\<lambda>c. 0 \<le> fst c \<and> 0 \<le> snd c", OF _ approval_nonneg]
    by (auto simp: approvals_of_def bindE_Inr_iff split: json.splits list.splits)
  then show ?thesis by (induction cs) auto
qed

definition fine_aggregate :: "aggregate \<Rightarrow> bool" where
  "fine_aggregate a \<longleftrightarrow> 0 \<le> ag_approvals a \<and> 0 \<le> ag_rejections a \<and> fine_stats (ag_stats a) \<and> (\<forall>b. fine_stats (bucket_stats b (ag_buckets a)))"

lemma counted_fine:
  assumes "count_message F cv r = Inr c"
  shows "0 \<le> ct_approvals c \<and> 0 \<le> ct_rejections c \<and> fine_stats (ct_stats c)"
proof -
  obtain cs s ttr where c: "approvals_of (snd (own_or_fallback cv r)) = Inr cs" "usage_stats F (fst (own_or_fallback cv r)) = Inr s"
      "ttr_of F (fst (own_or_fallback cv r)) (snd (own_or_fallback cv r)) = Inr ttr"
      "c = \<lparr>ct_approvals = sum_list (map fst cs), ct_rejections = sum_list (map snd cs),
           ct_stats = (case ttr of None \<Rightarrow> s | Some n \<Rightarrow> s\<lparr>sg_ttr_sum := n, sg_ttr_count := 1\<rparr>)\<rparr>"
    using assms by (auto simp: count_message_def Let_def bindE_Inr_iff)
  have "fine_stats (case ttr of None \<Rightarrow> s | Some n \<Rightarrow> s\<lparr>sg_ttr_sum := n, sg_ttr_count := 1\<rparr>)"
  proof (cases ttr)
    case None
    then show ?thesis using usage_fine[OF c(2)] by simp
  next
    case (Some n)
    then show ?thesis using usage_fine[OF c(2)] ttr_nonneg c(3) by (auto simp: fine_stats_def)
  qed
  then show ?thesis using approvals_nonneg[OF c(1)] by (simp add: c(4))
qed

lemma added_fine:
  assumes "fine_aggregate a" "0 \<le> ct_approvals c \<and> 0 \<le> ct_rejections c \<and> fine_stats (ct_stats c)"
  shows "fine_aggregate (add_message b c a)"
  using assms by (auto simp: fine_aggregate_def add_message_def bucket_stats_def update_conv')

lemma aggregate_fine: "add_messages F db w rs a = Inr a' \<Longrightarrow> fine_aggregate a \<Longrightarrow> fine_aggregate a'"
proof (induction rs arbitrary: a)
  case (Cons r rs)
  show ?case
  proof (cases "mr_role r = ''assistant''")
    case True
    then obtain c where c: "count_message F (conversation_of db r) r = Inr c"
        "add_messages F db w rs (add_message (floor_to_bucket (mr_created r) w) c a) = Inr a'"
      using Cons.prems(1) by (auto simp: bindE_Inr_iff)
    show ?thesis by (rule Cons.IH[OF c(2) added_fine[OF Cons.prems(2) counted_fine[OF c(1)]]])
  next
    case False
    then show ?thesis using Cons by simp
  qed
qed simp

definition unit_range :: "rat \<Rightarrow> bool" where
  "unit_range q \<longleftrightarrow> 0 \<le> q \<and> q \<le> 1"

lemma average_nonneg: "0 \<le> q \<Longrightarrow> 0 \<le> n \<Longrightarrow> average q n \<noteq> Some r \<or> 0 \<le> r"
  by (auto simp: average_def)

text \<open>
  The numbers of a report are in their ranges. The rates of accepted approvals and of cached tokens lie
  between 0 and 1, and no total, count or row is negative, whatever the messages carry: negative counts, texts,
  infinite costs and missing usages included.
\<close>

theorem metrics_in_range:
  assumes "metrics_of F uid p db = Inr m"
  shows "unit_range (ma_cache_hit_rate m) \<and> pred_option unit_range (ma_acceptance_rate m) \<and>
     0 \<le> ma_cost m \<and> 0 \<le> ma_tokens m \<and> 0 \<le> ma_approvals m \<and> 0 \<le> ma_rejections m \<and> 0 \<le> ma_cost_per_conversation m \<and>
     list_all (\<lambda>d. 0 \<le> dm_cost d \<and> 0 \<le> dm_total_tokens d \<and> 0 \<le> dm_prompt_tokens d \<and> 0 \<le> dm_completion_tokens d
       \<and> 0 \<le> dm_cached_tokens d) (ma_breakdown m)"
proof -
  obtain a n where m: "m = aggregation p (int n) a" and a: "fine_aggregate a"
  proof -
    obtain a where "add_messages F db (bucket_width p) (messages_of_period uid p db) no_messages = Inr a"
        "m = aggregation p (int (card (set (map mr_conversation (messages_of_period uid p db))))) a"
      using assms by (auto simp: metrics_of_def Let_def bindE_Inr_iff)
    moreover have "fine_aggregate no_messages" by (simp add: fine_aggregate_def no_messages_def bucket_stats_def)
    ultimately show thesis using that aggregate_fine by blast
  qed
  have s: "fine_stats (ag_stats a)" and b: "fine_stats (bucket_stats x (ag_buckets a))" for x using a by (simp_all add: fine_aggregate_def)
  have "unit_range (cache_hit_rate (sg_cached (ag_stats a)) (sg_prompt (ag_stats a)))"
    using s by (auto simp: unit_range_def cache_hit_rate_def fine_stats_def)
  moreover have "pred_option unit_range (average (of_int (ag_approvals a)) (ag_approvals a + ag_rejections a))"
    using a by (auto simp: average_def unit_range_def fine_aggregate_def)
  ultimately show ?thesis using a s b
    by (auto simp: m aggregation_def Let_def fine_aggregate_def fine_stats_def per_conversation_def daily_row_def list_all_iff)
qed

lemma metrics_in_range_witness:
  "\<exists>m. metrics_of (\<lambda>_. None) ''u'' demo_period demo_spending = Inr m \<and> unit_range (ma_cache_hit_rate m)"
proof -
  have rows: "messages_of_period ''u'' demo_period demo_spending = [demo_reply ''a'' 5 3, demo_reply ''b'' 90000000000 4]"
    by (simp add: messages_of_period_def demo_period_def demo_spending_def demo_reply_def conversation_of_def)
  have "mr_role (demo_reply i t n) = ''assistant''" for i t n by (simp add: demo_reply_def)
  then obtain m where "metrics_of (\<lambda>_. None) ''u'' demo_period demo_spending = Inr m"
    by (auto simp: metrics_of_def rows demo_count Let_def)
  with metrics_in_range show ?thesis by blast
qed

end
