(* ===== verification/McpClient.thy ===== *)
theory McpClient
  imports PyJson IoBase
begin

text \<open>
  The engine's client of the MCP server, \<open>services/mcp_client.py\<close>, and the cache of its tools,
  \<open>services/tools_cache.py\<close>. What the server answers, and the decoding of JSON, are parameters. A call never
  fails but for a cancellation: what goes wrong comes back as a result with \<open>isError\<close>.
\<close>

subsection \<open>Results\<close>

record mcp_result =
  mr_items :: "dict list"
  mr_is_error :: "bool option"

definition RELIABILITY_KEYS :: "string list" where
  "RELIABILITY_KEYS = [''error_type'', ''retryable'', ''attempts'', ''duration_ms'', ''fallback_used'', ''ambiguous_outcome'',
     ''external_execution_started'']"

definition reliability_of :: "dict \<Rightarrow> dict" where
  "reliability_of payload =
     List.map_filter (\<lambda>k. map_option (Pair k) (map_of payload k)) RELIABILITY_KEYS"

text \<open>The block of a tool output, and whether the output is an error.\<close>

definition parsed_tool_output :: "dict \<Rightarrow> string \<Rightarrow> dict \<times> bool" where
  "parsed_tool_output payload fallback =
     ([(''type'', JStr ''text''), (''text'', dget_def payload ''output'' (JStr fallback))]
        @ (if reliability_of payload = [] then [] else [(''reliability'', JDict (reliability_of payload))]),
      truthy (dget payload ''error''))"

definition is_tool_output :: "dict \<Rightarrow> bool" where
  "is_tool_output d \<longleftrightarrow> map_of d ''output'' \<noteq> None \<and> map_of d ''error'' \<noteq> None"

definition decode_failure :: "py_exc \<Rightarrow> bool" where
  "decode_failure e \<longleftrightarrow> exc_type e \<in> {''JSONDecodeError'', ''TypeError'', ''ValueError''}"

definition parse_content_item :: "(string \<Rightarrow> json py) \<Rightarrow> dict \<Rightarrow> (dict \<times> bool) py" where
  "parse_content_item loads cd =
     (if dget cd ''type'' \<noteq> JStr ''text'' then Inr (cd, False)
      else case dget_def cd ''text'' (JStr []) of
        JDict d \<Rightarrow> Inr (if is_tool_output d then parsed_tool_output d [] else (cd, False))
      | JStr s \<Rightarrow>
          (case loads s of
             Inr (JDict d) \<Rightarrow> Inr (if is_tool_output d then parsed_tool_output d s else (cd, False))
           | Inr v \<Rightarrow> Inr (cd, False)
           | Inl e \<Rightarrow> if decode_failure e then Inr (cd, False) else Inl e)
      | _ \<Rightarrow> Inr (cd, False))"

definition reliability_entry :: "json list \<Rightarrow> dict" where
  "reliability_entry rs =
     (case rs of [] \<Rightarrow> [] | [r] \<Rightarrow> [(''reliability'', r)] | _ \<Rightarrow> [(''reliability'', JList rs)])"

definition parse_tool_result :: "(string \<Rightarrow> json py) \<Rightarrow> mcp_result \<Rightarrow> dict py" where
  "parse_tool_result loads r =
     bindE (each_py (parse_content_item loads) (mr_items r)) (\<lambda>items.
     Inr ([(''content'', JList (map (JDict \<circ> fst) items)),
           (''isError'', JBool (mr_is_error r = Some True \<or> list_ex snd items))]
          @ reliability_entry (filter is_dict (map (\<lambda>i. dget (fst i) ''reliability'') items))))"

subsection \<open>Calls\<close>

definition transport_failure :: dict where
  "transport_failure =
     [(''content'', JList [JDict [(''type'', JStr ''text''), (''text'', JStr ''An internal error occurred while calling the tool.'')]]),
      (''isError'', JBool True),
      (''reliability'', JDict [(''error_type'', JStr ''transport_error''), (''retryable'', JBool False),
         (''ambiguous_outcome'', JBool True)])]"

definition ACTION_TYPES :: "(string \<times> string) list" where
  "ACTION_TYPES = [(''get_pods'', ''pod''), (''get_deployments'', ''deployment''), (''get_services'', ''service''),
     (''get_namespaces'', ''namespace''), (''get_nodes'', ''node'')]"

definition inferred_parameters :: "string \<Rightarrow> dict \<Rightarrow> string option \<Rightarrow> dict" where
  "inferred_parameters name params action =
     (case action of
        Some (a # as') \<Rightarrow>
          if name = ''get_resources'' \<and> map_of params ''resource_type'' = None
          then params @ [(''resource_type'', case map_of ACTION_TYPES (a # as') of None \<Rightarrow> JNull | Some t \<Rightarrow> JStr t)]
          else params
      | _ \<Rightarrow> params)"

definition mcp_headers :: "string \<Rightarrow> string option \<Rightarrow> (string \<times> string) list" where
  "mcp_headers key run =
     [(''X-Internal-API-Key'', key)] @ (case run of Some (r # rs) \<Rightarrow> [(''X-Skyflo-Run-ID'', r # rs)] | _ \<Rightarrow> [])"

text \<open>\<open>transport\<close> sends a call with the headers of its connection; the conversation of a call is its run.\<close>

record 'w mcp_env =
  me_key :: string
  me_loads :: "string \<Rightarrow> json py"
  me_transport :: "(string \<times> string) list \<Rightarrow> string \<Rightarrow> dict \<Rightarrow> ('w, mcp_result) st"
  me_list :: "('w, dict list) st"

definition call_tool :: "'w mcp_env \<Rightarrow> string \<Rightarrow> dict \<Rightarrow> string option \<Rightarrow> string option \<Rightarrow> ('w, dict) st" where
  "call_tool E name params action conv =
     catchW
       (bindW (me_transport E (mcp_headers (me_key E) conv) name (inferred_parameters name params action)) (\<lambda>r.
        lift (parse_tool_result (me_loads E) r)))
       (\<lambda>e. ret transport_failure)"

definition get_tools :: "'w mcp_env \<Rightarrow> string option \<Rightarrow> ('w, dict) st" where
  "get_tools E category =
     catchW
       (bindW (me_list E) (\<lambda>ts.
        ret [(''tools'', JList (map JDict (case category of
            Some (c # cs) \<Rightarrow> filter (\<lambda>t. contains_str (py_lower (py_str (dget_def t ''name'' (JStr [])))) (py_lower (c # cs))) ts
          | _ \<Rightarrow> ts)))]))
       (\<lambda>e. ret [(''tools'', JList [])])"

subsection \<open>The cache of the tools\<close>

text \<open>While the lock is waited for, other coroutines run: \<open>te_lock\<close>.\<close>

record 'w cached =
  cc_by_name :: "(string \<times> dict) list"
  cc_all :: "dict list"
  cc_world :: 'w

record 'w tools_env =
  te_fetch :: "('w, dict list) st"
  te_lock :: "('w cached, unit) st"

definition invalidate :: "'w cached \<Rightarrow> 'w cached" where
  "invalidate s = s\<lparr>cc_by_name := [], cc_all := []\<rparr>"

definition tool_named :: "dict \<Rightarrow> bool" where
  "tool_named d \<longleftrightarrow> (case dget d ''name'' of JStr (c # cs) \<Rightarrow> True | _ \<Rightarrow> False)"

definition name_in :: "dict \<Rightarrow> string" where
  "name_in d = (case dget d ''name'' of JStr s \<Rightarrow> s | _ \<Rightarrow> [])"

definition build_cache :: "dict list \<Rightarrow> 'w cached \<Rightarrow> 'w cached" where
  "build_cache ts s =
     s\<lparr>cc_by_name := fold (\<lambda>d m. AList.update (name_in d) d m) (filter tool_named ts) [], cc_all := filter tool_named ts\<rparr>"

definition load_cache :: "'w tools_env \<Rightarrow> ('w cached, unit) st" where
  "load_cache E s =
     (case te_fetch E (cc_world s) of
        (Inl e, w) \<Rightarrow> (Inl e, s\<lparr>cc_world := w\<rparr>)
      | (Inr ts, w) \<Rightarrow> (Inr (), build_cache ts (s\<lparr>cc_world := w\<rparr>)))"

definition load_if_empty :: "'w tools_env \<Rightarrow> ('w cached, unit) st" where
  "load_if_empty E s = (if cc_all s \<noteq> [] then (Inr (), s) else load_cache E s)"

definition ensure_loaded :: "'w tools_env \<Rightarrow> ('w cached, unit) st" where
  "ensure_loaded E s =
     (if cc_all s \<noteq> [] then (Inr (), s) else bindW (te_lock E) (\<lambda>_. load_if_empty E) s)"

definition get_all :: "'w tools_env \<Rightarrow> ('w cached, dict list) st" where
  "get_all E = bindW (ensure_loaded E) (\<lambda>_ s. (Inr (cc_all s), s))"

definition get_by_name :: "'w tools_env \<Rightarrow> string \<Rightarrow> ('w cached, dict option) st" where
  "get_by_name E name =
     bindW (ensure_loaded E) (\<lambda>_ s.
       case map_of (cc_by_name s) name of
         Some d \<Rightarrow> (Inr (Some d), s)
       | None \<Rightarrow>
           bindW (te_lock E) (\<lambda>_. bindW (load_if_empty E) (\<lambda>_ s'. (Inr (map_of (cc_by_name s') name), s'))) s)"

subsection \<open>What the cache and the client guarantee\<close>

text \<open>The two views of the cache agree: each name leads to the last tool of that name.\<close>

definition cache_ok :: "'w cached \<Rightarrow> bool" where
  "cache_ok s \<longleftrightarrow> list_all tool_named (cc_all s) \<and>
     (\<forall>k. map_of (cc_by_name s) k = find (\<lambda>d. name_in d = k) (rev (cc_all s)))"

lemma named_fold:
  "map_of (fold (\<lambda>d m. AList.update (name_in d) d m) ts m) k =
     (case find (\<lambda>d. name_in d = k) (rev ts) of None \<Rightarrow> map_of m k | Some d \<Rightarrow> Some d)"
  by (induction ts arbitrary: m) (auto simp: find_append update_conv' split: option.splits)

lemma build_ok: "cache_ok (build_cache ts s)"
  by (auto simp: cache_ok_def build_cache_def list_all_iff named_fold split: option.split)

lemma invalidate_ok: "cache_ok (invalidate s)"
  by (simp add: cache_ok_def invalidate_def)

lemma load_ok: "load_cache E s = (r, s') \<Longrightarrow> cache_ok s \<Longrightarrow> cache_ok s'"
  using build_ok by (auto simp: load_cache_def cache_ok_def split: prod.splits sum.splits)

lemma ensure_ok:
  assumes "\<And>t r t'. te_lock E t = (r, t') \<Longrightarrow> cache_ok t \<Longrightarrow> cache_ok t'"
    and "ensure_loaded E s = (r, s')" "cache_ok s"
  shows "cache_ok s'"
  using assms(2,3) by (auto simp: ensure_loaded_def load_if_empty_def bindW_eq split: if_splits dest: load_ok intro: assms(1))

text \<open>A tool that is found is the cached tool of that name.\<close>

lemma found_by_name:
  assumes "\<And>t r t'. te_lock E t = (r, t') \<Longrightarrow> cache_ok t \<Longrightarrow> cache_ok t'"
    and "get_by_name E name s = (Inr (Some d), s')" "cache_ok s"
  shows "cache_ok s' \<and> d \<in> set (cc_all s') \<and> dget d ''name'' = JStr name"
proof -
  obtain s1 where s1: "ensure_loaded E s = (Inr (), s1)"
    using assms(2) by (auto simp: get_by_name_def bindW_Inr)
  have ok1: "cache_ok s1" using ensure_ok[OF assms(1) s1 assms(3)] .
  have found: "cache_ok s' \<and> map_of (cc_by_name s') name = Some d"
  proof (cases "map_of (cc_by_name s1) name")
    case (Some x)
    then show ?thesis using assms(2) s1 ok1 by (simp add: get_by_name_def bindW_def)
  next
    case None
    then obtain s2 where s2: "te_lock E s1 = (Inr (), s2)" "load_if_empty E s2 = (Inr (), s')" "map_of (cc_by_name s') name = Some d"
      using assms(2) s1 by (auto simp: get_by_name_def bindW_def split: prod.splits sum.splits)
    have "cache_ok s'" using s2(2) assms(1)[OF s2(1) ok1] by (auto simp: load_if_empty_def split: if_splits dest: load_ok)
    with s2(3) show ?thesis by simp
  qed
  then have "find (\<lambda>d. name_in d = name) (rev (cc_all s')) = Some d" unfolding cache_ok_def by metis
  then have "d \<in> set (cc_all s')" "name_in d = name" by (auto simp: find_Some_iff) (metis length_rev nth_mem set_rev)+
  moreover have "tool_named d" using found \<open>d \<in> set (cc_all s')\<close> by (simp add: cache_ok_def list_all_iff)
  ultimately show ?thesis using found by (auto simp: tool_named_def name_in_def split: json.splits)
qed

text \<open>A call returns a dictionary, unless it is cancelled.\<close>

lemma call_tool_returns:
  assumes "call_tool E name params action conv w = (Inl e, w')"
  shows "cancelled e"
  using assms by (auto simp: call_tool_def catchW_def split: prod.splits sum.splits if_splits)

end
