(* ===== verification/Exposure.thy ===== *)
theory Exposure
  imports McpClient Jenkins Messages
begin

text \<open>
  The tools the model is offered: \<open>get_llm_compatible_tools\<close>, \<open>filter_integrations_tools\<close> and \<open>list_tools\<close> of
  \<open>services/tool_executor.py\<close>, over the cache of theory McpClient. The offered schemas are the cached
  dictionaries themselves, so hiding a parameter changes the cache too: a tool on its way to the model is
  paired with whether it still is the cached one. One preparation runs at a time.
\<close>

definition LOAD_TOOLSET_TOOL :: dict where
  "LOAD_TOOLSET_TOOL =
     [(''type'', JStr ''function''),
      (''function'', JDict
        [(''name'', JStr ''load_toolset''),
         (''description'', JStr (''Load additional tool categories into the current session. ''
            @ ''By default only read-only Kubernetes tools are available. ''
            @ ''Call this to load Helm, Argo Rollouts, or Jenkins tools, ''
            @ ''or to enable write/mutation operations for any toolset. ''
            @ ''Newly loaded tools are not callable in the same response as ''
            @ ''load_toolset. They become available on the next model turn.'')),
         (''parameters'', JDict
           [(''type'', JStr ''object''),
            (''properties'', JDict
              [(''toolset'', JDict [(''type'', JStr ''string''), (''enum'', JList (map JStr AVAILABLE_TOOLSETS)),
                 (''description'', JStr ''The toolset category to load.'')]),
               (''include_write_tools'', JDict [(''type'', JStr ''boolean''),
                 (''description'', JStr (''Set to true to include write/mutation tools ''
                    @ ''(apply, delete, scale, patch, install, etc.). ''
                    @ ''Leave false for read-only operations.''))])]),
            (''required'', JList [JStr ''toolset'', JStr ''include_write_tools''])])])]"

type_synonym shown = "dict \<times> bool"

record 'w exposure_env =
  xe_tools :: "'w tools_env"
  xe_integration :: "('w, integration option) st"
  xe_client :: "'w mcp_env"

definition over_world :: "('w, 'a) st \<Rightarrow> ('w cached, 'a) st" where
  "over_world m s = (case m (cc_world s) of (r, w) \<Rightarrow> (r, s\<lparr>cc_world := w\<rparr>))"

text \<open>The Jenkins tools of an integration in use are copies; whatever fails leaves the tools as they are.\<close>

definition integration_tools :: "dict list \<Rightarrow> integration option \<Rightarrow> shown list py" where
  "integration_tools ts i =
     bindE (filter_jenkins_tools ts (map_option int_status i) (i \<noteq> None)) (\<lambda>ts'.
     Inr (map (\<lambda>t. (t, \<not> tool_has_jenkins_tag t)) ts'))"

definition filter_integrations_tools :: "'w exposure_env \<Rightarrow> dict list \<Rightarrow> ('w cached, shown list) st" where
  "filter_integrations_tools E ts =
     catchW
       (bindW (over_world (xe_integration E)) (\<lambda>i. lift (integration_tools ts i)))
       (\<lambda>e. ret (map (\<lambda>t. (t, True)) ts))"

definition loaded_tools :: "(string \<times> bool) list option \<Rightarrow> shown list \<Rightarrow> shown list py" where
  "loaded_tools loaded ps =
     (case loaded of
        None \<Rightarrow> Inr ps
      | Some l \<Rightarrow> bindE (filter_tools_by_loaded_toolsets (map fst ps) l) (\<lambda>_.
          Inr (filter (\<lambda>p. tool_visible l (fst p) = Inr True) ps)))"

definition offered_entries :: "dict list \<Rightarrow> dict list py" where
  "offered_entries ts =
     strip_internal_memory_params
       (List.map_filter (\<lambda>v. case v of JDict d \<Rightarrow> Some d | _ \<Rightarrow> None)
          (mcp_tools_to_openai_format (JDict [(''tools'', JList (map JDict ts))])) @ [LOAD_TOOLSET_TOOL])"

text \<open>What stripping does to the dictionary the schema came from.\<close>

definition hide_params :: "dict \<Rightarrow> dict" where
  "hide_params t =
     (case dget_def t ''name'' (JStr []) of
        JStr nm \<Rightarrow>
          (case (por (dget t ''input_schema'') (dget t ''inputSchema'')) of
             JDict (x # xs) \<Rightarrow>
               AList.update (if truthy (dget t ''input_schema'') then ''input_schema'' else ''inputSchema'')
                 (JDict (strip_params nm (x # xs))) t
           | _ \<Rightarrow> t)
      | _ \<Rightarrow> t)"

definition hide_in_cache :: "shown list \<Rightarrow> 'w cached \<Rightarrow> 'w cached" where
  "hide_in_cache ps s =
     (let hide = (\<lambda>t. if (t, True) \<in> set ps then hide_params t else t) in
      s\<lparr>cc_all := map hide (cc_all s), cc_by_name := map (\<lambda>(k, t). (k, hide t)) (cc_by_name s)\<rparr>)"

definition offer :: "shown list \<Rightarrow> ('w cached, dict list) st" where
  "offer ps = bindW (lift (offered_entries (map fst ps))) (\<lambda>ts s. (Inr ts, hide_in_cache ps s))"

definition cached_tools :: "'w exposure_env \<Rightarrow> (string \<times> bool) list option \<Rightarrow> ('w cached, dict list) st" where
  "cached_tools E loaded =
     bindW (get_all (xe_tools E)) (\<lambda>ts.
     bindW (filter_integrations_tools E ts) (\<lambda>ps.
     bindW (lift (loaded_tools loaded ps)) offer))"

definition tools_in :: "dict \<Rightarrow> dict list" where
  "tools_in d =
     (case dget_def d ''tools'' (JList []) of
        JList vs \<Rightarrow> List.map_filter (\<lambda>v. case v of JDict t \<Rightarrow> Some t | _ \<Rightarrow> None) vs
      | _ \<Rightarrow> [])"

definition fetched_tools :: "'w exposure_env \<Rightarrow> (string \<times> bool) list option \<Rightarrow> ('w cached, dict list) st" where
  "fetched_tools E loaded =
     bindW (over_world (get_tools (xe_client E) None)) (\<lambda>d.
     lift (bindE (case loaded of None \<Rightarrow> Inr (tools_in d) | Some l \<Rightarrow> filter_tools_by_loaded_toolsets (tools_in d) l) offered_entries))"

definition get_llm_compatible_tools ::
  "'w exposure_env \<Rightarrow> (string \<times> bool) list option \<Rightarrow> ('w cached, dict list) st" where
  "get_llm_compatible_tools E loaded =
     catchW (cached_tools E loaded) (\<lambda>e. catchW (fetched_tools E loaded) (\<lambda>inner. ret [LOAD_TOOLSET_TOOL]))"

definition executor_list_tools :: "'w tools_env \<Rightarrow> string option \<Rightarrow> ('w cached, dict) st" where
  "executor_list_tools E category =
     catchW
       (bindW (get_all E) (\<lambda>ts.
        ret [(''tools'', JList (map JDict (case category of
            Some (c # cs) \<Rightarrow>
              filter (\<lambda>t. case dget t ''name'' of JStr n \<Rightarrow> contains_str (py_lower n) (py_lower (c # cs)) | _ \<Rightarrow> False) ts
          | _ \<Rightarrow> ts)))]))
       (\<lambda>e. ret [(''tools'', JList []), (''error'', JStr (exc_msg e))])"

subsection \<open>What the model sees\<close>

definition shows_internal :: "dict \<Rightarrow> bool" where
  "shows_internal tool =
     (case dget tool ''function'' of
        JDict fn \<Rightarrow>
          (case (dget fn ''name'', dget fn ''parameters'') of
             (JStr nm, JDict params) \<Rightarrow>
               (case dget params ''properties'' of
                  JDict props \<Rightarrow> list_ex (\<lambda>(k, v). internal_param nm k) props
                | _ \<Rightarrow> False)
           | _ \<Rightarrow> False)
      | _ \<Rightarrow> False)"

lemma properties_stripped:
  "dget (strip_params nm params) ''properties'' =
     (case dget params ''properties'' of
        JDict props \<Rightarrow> JDict (filter (\<lambda>(k, v). \<not> internal_param nm k) props)
      | v \<Rightarrow> v)"
  by (simp add: strip_params_def dget_update Let_def split: json.split)

lemma strip_hides:
  assumes "strip_tool t = Inr t'"
  shows "\<not> shows_internal t'"
proof (cases "\<exists>fn nm params. dget t ''function'' = JDict fn \<and> dget fn ''name'' = JStr nm \<and> dget fn ''parameters'' = JDict params")
  case True
  then obtain fn nm params where t: "dget t ''function'' = JDict fn" "dget fn ''name'' = JStr nm" "dget fn ''parameters'' = JDict params"
    by blast
  then have "dget_def t ''function'' (JDict []) = JDict fn" "dget_def fn ''parameters'' (JDict []) = JDict params"
      "map_of fn ''parameters'' \<noteq> None"
    by (auto simp: dget_def_def split: option.splits)
  then have "t' = AList.update ''function'' (JDict (AList.update ''parameters'' (JDict (strip_params nm params)) fn)) t"
    using assms t by (auto simp: strip_tool_def jget_def_def)
  then show ?thesis
    using t by (auto simp: shows_internal_def dget_update properties_stripped list_ex_iff split: json.splits)
next
  case False
  have "t' = t \<or> (\<exists>fn nm params. dget t ''function'' = JDict fn \<and> dget fn ''name'' = JStr nm \<and> dget fn ''parameters'' = JDict params)"
    using assms
    by (auto simp: strip_tool_def bindE_Inr_iff jget_def_def dget_def_def split: json.splits option.splits if_splits)
  with False have "t' = t" by blast
  with False show ?thesis by (auto simp: shows_internal_def split: json.splits)
qed

lemma stripped_hide: "strip_internal_memory_params ts = Inr ts' \<Longrightarrow> \<forall>t \<in> set ts'. \<not> shows_internal t"
  by (induction ts arbitrary: ts') (auto simp: bindE_Inr_iff dest: strip_hides)

lemma load_toolset_plain: "\<not> shows_internal LOAD_TOOLSET_TOOL"
  by code_simp

lemma strip_load: "strip_tool LOAD_TOOLSET_TOOL = Inr LOAD_TOOLSET_TOOL"
  by code_simp

text \<open>The entry a tool becomes.\<close>

definition offered_as :: "dict \<Rightarrow> dict \<Rightarrow> bool" where
  "offered_as t d \<longleftrightarrow> (\<exists>entry. openai_tool t = JDict entry \<and> strip_tool entry = Inr d)"

lemma stripped_from: "strip_internal_memory_params ts = Inr ts' \<Longrightarrow> d \<in> set ts' \<Longrightarrow> \<exists>t \<in> set ts. strip_tool t = Inr d"
  by (induction ts arbitrary: ts') (auto simp: bindE_Inr_iff)

lemma openai_entry: "\<exists>entry. openai_tool t = JDict entry"
  by (simp add: openai_tool_def Let_def)

lemma openai_entries:
  "set (List.map_filter (\<lambda>v. case v of JDict d \<Rightarrow> Some d | _ \<Rightarrow> None) (mcp_tools_to_openai_format (JDict [(''tools'', JList (map JDict ts))])))
     = {entry. \<exists>t \<in> set ts. openai_tool t = JDict entry}"
proof -
  have entries: "List.map_filter (\<lambda>t. case t of JDict tool \<Rightarrow> Some (f tool) | _ \<Rightarrow> None) (map JDict ts) = map f ts" for f :: "dict \<Rightarrow> json"
    by (induction ts) (simp_all add: List.map_filter_simps)
  have "mcp_tools_to_openai_format (JDict [(''tools'', JList (map JDict ts))]) = map openai_tool ts"
    by (simp add: mcp_tools_to_openai_format_def entries)
  moreover have "set (List.map_filter (\<lambda>v. case v of JDict d \<Rightarrow> Some d | _ \<Rightarrow> None) (map openai_tool ts)) =
      {entry. \<exists>t \<in> set ts. openai_tool t = JDict entry}"
  proof (induction ts)
    case (Cons t ts)
    obtain entry where "openai_tool t = JDict entry" using openai_entry by blast
    with Cons show ?case by (auto simp: List.map_filter_simps)
  qed (simp add: List.map_filter_simps)
  ultimately show ?thesis by simp
qed

lemma offered_from:
  assumes "offered_entries ts = Inr ds" "d \<in> set ds"
  shows "\<not> shows_internal d \<and> (d = LOAD_TOOLSET_TOOL \<or> (\<exists>t \<in> set ts. offered_as t d))"
proof -
  obtain e where e: "strip_tool e = Inr d" "e = LOAD_TOOLSET_TOOL \<or> (\<exists>t \<in> set ts. openai_tool t = JDict e)"
    using stripped_from[OF assms(1)[unfolded offered_entries_def] assms(2)] openai_entries[of ts] by auto
  moreover have "\<not> shows_internal d" using strip_hides[OF e(1)] .
  ultimately show ?thesis using strip_load by (auto simp: offered_as_def)
qed

lemma visible_kept: "filter_tools_by_loaded_toolsets ts l = Inr rs \<Longrightarrow> t \<in> set rs \<Longrightarrow> tool_visible l t = Inr True"
  by (induction ts arbitrary: rs) (auto simp: bindE_Inr_iff split: if_splits)

lemma offer_result: "offer ps s = (Inr ts, s') \<longleftrightarrow> offered_entries (map fst ps) = Inr ts \<and> s' = hide_in_cache ps s"
  by (auto simp: offer_def bindW_Inr)

lemma cached_from:
  assumes "cached_tools E (Some l) s = (Inr ds, s')" "d \<in> set ds"
  shows "\<not> shows_internal d \<and> (d = LOAD_TOOLSET_TOOL \<or> (\<exists>t. tool_visible l t = Inr True \<and> offered_as t d))"
proof -
  obtain ps s1 where ps: "loaded_tools (Some l) ps = Inr (filter (\<lambda>p. tool_visible l (fst p) = Inr True) ps)"
      "offer (filter (\<lambda>p. tool_visible l (fst p) = Inr True) ps) s1 = (Inr ds, s')"
    using assms(1) by (auto simp: cached_tools_def bindW_Inr loaded_tools_def bindE_Inr_iff)
  then show ?thesis using offered_from[OF _ assms(2)] by (fastforce simp: offer_result)
qed

lemma fetched_from:
  assumes "fetched_tools E (Some l) s = (Inr ds, s')" "d \<in> set ds"
  shows "\<not> shows_internal d \<and> (d = LOAD_TOOLSET_TOOL \<or> (\<exists>t. tool_visible l t = Inr True \<and> offered_as t d))"
proof -
  obtain ts rs where "filter_tools_by_loaded_toolsets rs l = Inr ts" "offered_entries ts = Inr ds"
    using assms(1) by (auto simp: fetched_tools_def bindW_Inr bindE_Inr_iff)
  then show ?thesis using offered_from[OF _ assms(2)] visible_kept by blast
qed

text \<open>
  C27: The model is offered nothing but load_toolset and tools that are visible with the toolsets it has loaded, which
  the registry knows with the right hints and which are read-only unless writing was asked for; and no entry
  shows a parameter the engine fills in. This holds of the cached tools, of those fetched after a failure, and
  when both fail.
\<close>

theorem offered_tools_are_visible:
  assumes "get_llm_compatible_tools E (Some l) s = (Inr ds, s')" and "d \<in> set ds"
  shows "\<not> shows_internal d \<and> (d = LOAD_TOOLSET_TOOL \<or> (\<exists>t. tool_visible l t = Inr True \<and> offered_as t d))"
proof -
  consider "cached_tools E (Some l) s = (Inr ds, s')" | s1 where "fetched_tools E (Some l) s1 = (Inr ds, s')" | "ds = [LOAD_TOOLSET_TOOL]"
    using assms(1) unfolding get_llm_compatible_tools_def catchW_def
    by (fastforce split: prod.splits sum.splits if_splits)
  then show ?thesis
  proof cases
    case 1
    then show ?thesis by (rule cached_from[OF _ assms(2)])
  next
    case 2
    then show ?thesis by (rule fetched_from[OF _ assms(2)])
  next
    case 3
    with assms(2) load_toolset_plain show ?thesis by simp
  qed
qed

text \<open>When the integration cannot be read, the Jenkins tools stay among the others.\<close>

lemma failed_lookup_filters_nothing:
  assumes "xe_integration E (cc_world s) = (Inl e, w)" "\<not> cancelled e"
  shows "filter_integrations_tools E ts s = (Inr (map (\<lambda>t. (t, True)) ts), s\<lparr>cc_world := w\<rparr>)"
  using assms by (simp add: filter_integrations_tools_def over_world_def bindW_def catchW_def)

subsection \<open>The cache\<close>

lemma hide_cases: "hide_params t = t \<or> (\<exists>k v. k \<noteq> ''name'' \<and> hide_params t = AList.update k v t)"
proof (cases "dget_def t ''name'' (JStr [])")
  case (JStr nm)
  show ?thesis
  proof (cases "por (dget t ''input_schema'') (dget t ''inputSchema'')")
    case (JDict d)
    show ?thesis
    proof (cases d)
      case (Cons x xs)
      with JStr JDict have "hide_params t = AList.update (if truthy (dget t ''input_schema'') then ''input_schema'' else ''inputSchema'')
          (JDict (strip_params nm (x # xs))) t" by (simp add: hide_params_def)
      then show ?thesis by (intro disjI2 exI conjI) auto
    qed (simp add: hide_params_def JStr JDict)
  qed (simp_all add: hide_params_def JStr)
qed (simp_all add: hide_params_def)

lemma hide_name: "name_in (hide_params t) = name_in t" "tool_named (hide_params t) = tool_named t"
  using hide_cases[of t] by (auto simp: name_in_def tool_named_def dget_update)

lemma find_mapped: "(\<And>t. name_in (hide t) = name_in t) \<Longrightarrow>
    find (\<lambda>d. name_in d = k) (map hide ts) = map_option hide (find (\<lambda>d. name_in d = k) ts)"
  by (induction ts) auto

lemma hide_ok:
  assumes "cache_ok s"
  shows "cache_ok (hide_in_cache ps s)"
proof -
  define hide where "hide t = (if (t, True) \<in> set ps then hide_params t else t)" for t
  have same: "name_in (hide t) = name_in t" "tool_named (hide t) = tool_named t" for t by (simp_all add: hide_def hide_name)
  have "map_of (map (\<lambda>(k, t). (k, hide t)) (cc_by_name s)) k = find (\<lambda>d. name_in d = k) (rev (map hide (cc_all s)))" for k
    using assms by (simp add: cache_ok_def map_of_map find_mapped[OF same(1)] rev_map)
  then show ?thesis
    using assms by (simp add: cache_ok_def hide_in_cache_def hide_def[symmetric, abs_def] list_all_iff same)
qed

lemma over_world_ok: "cache_ok s \<Longrightarrow> cache_ok (snd (over_world m s))"
  by (simp add: over_world_def cache_ok_def split: prod.split)

definition lock_ok :: "'w tools_env \<Rightarrow> bool" where
  "lock_ok E \<longleftrightarrow> (\<forall>t. cache_ok t \<longrightarrow> cache_ok (snd (te_lock E t)))"

interpretation cache: state_moves "\<lambda>s. s" "\<lambda>x y. cache_ok x \<longrightarrow> cache_ok y"
  by unfold_locales auto

lemma cache_load [simp]: "cache.moves (load_cache E)"
  by (auto simp: cache.moves_def intro: load_ok surjective_pairing)

lemma cache_lock [simp]: "lock_ok E \<Longrightarrow> cache.moves (te_lock E)"
  by (simp add: cache.moves_def lock_ok_def)

lemma cache_ensure [simp]: "lock_ok (E :: 'w tools_env) \<Longrightarrow> cache.moves (ensure_loaded E)"
proof (unfold cache.moves_def, intro allI impI)
  fix w :: "'w cached" assume E: "lock_ok E" and w: "cache_ok w"
  have lock: "cache_ok t'" if "te_lock E t = (r, t')" "cache_ok t" for t r t'
    using E that by (metis lock_ok_def snd_conv)
  show "cache_ok (snd (ensure_loaded E w))" by (rule ensure_ok[OF lock surjective_pairing w])
qed

lemma cache_get_all [simp]: "lock_ok E \<Longrightarrow> cache.moves (get_all E)"
  unfolding get_all_def by (rule cache.moves_bind[OF cache_ensure]) (simp_all add: cache.moves_def)

lemma cache_over [simp]: "cache.moves (over_world m)"
  by (simp add: cache.moves_def over_world_ok)

lemma cache_offer [simp]: "cache.moves (offer ps)"
  unfolding offer_def by (rule cache.moves_bind[OF cache.moves_lift]) (simp add: cache.moves_def hide_ok)

lemma cache_exposure:
  assumes "lock_ok (xe_tools E)"
  shows "cache.moves (get_llm_compatible_tools E loaded)"
proof -
  have "cache.moves (filter_integrations_tools E ts)" for ts
    unfolding filter_integrations_tools_def by (intro cache.moves_catch cache.moves_bind) simp_all
  with assms have "cache.moves (cached_tools E loaded)" unfolding cached_tools_def by (intro cache.moves_bind) simp_all
  moreover have "cache.moves (fetched_tools E loaded)" unfolding fetched_tools_def by (intro cache.moves_bind) simp_all
  ultimately show ?thesis unfolding get_llm_compatible_tools_def by (intro cache.moves_catch) simp_all
qed

text \<open>
  C28: The cache of the tools stays well formed: it holds tools with a name, and the look-up by name leads to the
  last tool of the list with that name. Offering the tools to the model, which changes their schemas in the
  cache, listing them and looking one up keep this, and a tool that is found is a cached one with that name.
\<close>

theorem tool_cache_well_formed:
  assumes "\<And>t. cache_ok t \<Longrightarrow> cache_ok (snd (te_lock (xe_tools E) t))" and "cache_ok s"
  shows "cache_ok (snd (get_llm_compatible_tools E loaded s)) \<and> cache_ok (snd (executor_list_tools (xe_tools E) category s)) \<and>
     (\<forall>d s'. get_by_name (xe_tools E) name s = (Inr (Some d), s') \<longrightarrow>
        cache_ok s' \<and> d \<in> set (cc_all s') \<and> dget d ''name'' = JStr name)"
proof -
  have lock: "lock_ok (xe_tools E)" using assms(1) by (simp add: lock_ok_def)
  then have "cache.moves (executor_list_tools (xe_tools E) category)"
    unfolding executor_list_tools_def by (intro cache.moves_catch cache.moves_bind) simp_all
  moreover have "cache_ok t'" if "te_lock (xe_tools E) t = (r, t')" "cache_ok t" for t r t' using assms(1)[OF that(2)] that(1) by simp
  ultimately show ?thesis
    using cache_exposure[OF lock, of loaded] assms(2) found_by_name[of "xe_tools E" name s] by (auto simp: cache.moves_def)
qed

subsection \<open>Witnesses\<close>

text \<open>A server with one memory tool, and a cache that is empty.\<close>

definition demo_memory_tool :: dict where
  "demo_memory_tool =
     [(''name'', JStr ''memory_search''), (''annotations'', JDict [(''readOnlyHint'', JBool True)]),
      (''inputSchema'', JDict [(''properties'', JDict [(''query'', JDict []), (''_user_id'', JDict [])]),
         (''required'', JList [JStr ''query'', JStr ''_user_id''])])]"

definition demo_exposure :: "unit exposure_env" where
  "demo_exposure = \<lparr>xe_tools = \<lparr>te_fetch = ret [demo_memory_tool], te_lock = ret ()\<rparr>, xe_integration = ret None,
     xe_client = \<lparr>me_key = [], me_loads = (\<lambda>_. Inl (Exc ''JSONDecodeError'' [])),
       me_transport = (\<lambda>_ _ _. raise (Exc ''RuntimeError'' [])), me_list = ret [demo_memory_tool]\<rparr>\<rparr>"

definition demo_cache :: "unit cached" where
  "demo_cache = \<lparr>cc_by_name = [], cc_all = [], cc_world = ()\<rparr>"

definition demo_loaded :: "(string \<times> bool) list" where
  "demo_loaded = [(''memory'', False)]"

lemma demo_offer:
  "map_prod (\<lambda>r. case r of Inr ds \<Rightarrow> Some (map (\<lambda>d. jget (dget d ''function'') ''name'') ds) | Inl e \<Rightarrow> None) cc_all
     (get_llm_compatible_tools demo_exposure (Some demo_loaded) demo_cache)
   = (Some [Inr (JStr ''memory_search''), Inr (JStr ''load_toolset'')],
      [[(''name'', JStr ''memory_search''), (''annotations'', JDict [(''readOnlyHint'', JBool True)]),
        (''inputSchema'', JDict [(''properties'', JDict [(''query'', JDict [])]), (''required'', JList [JStr ''query''])])]])"
  by code_simp

lemma offered_tools_are_visible_witness:
  "\<exists>ds s' d. get_llm_compatible_tools demo_exposure (Some demo_loaded) demo_cache = (Inr ds, s') \<and> d \<in> set ds \<and>
     d \<noteq> LOAD_TOOLSET_TOOL \<and> \<not> shows_internal d \<and> (\<exists>t. tool_visible demo_loaded t = Inr True \<and> offered_as t d)"
proof -
  obtain r s' where rs: "get_llm_compatible_tools demo_exposure (Some demo_loaded) demo_cache = (r, s')" by (meson surj_pair)
  then obtain ds where ds: "r = Inr ds" "map (\<lambda>d. jget (dget d ''function'') ''name'') ds = [Inr (JStr ''memory_search''), Inr (JStr ''load_toolset'')]"
    using demo_offer by (cases r) auto
  then obtain d rest where d: "ds = d # rest" "jget (dget d ''function'') ''name'' = Inr (JStr ''memory_search'')" by (cases ds) auto
  have "jget (dget LOAD_TOOLSET_TOOL ''function'') ''name'' = Inr (JStr ''load_toolset'')" by code_simp
  with d(2) have "d \<noteq> LOAD_TOOLSET_TOOL" by auto
  moreover have "d \<in> set ds" using d by simp
  ultimately show ?thesis using offered_tools_are_visible[of demo_exposure demo_loaded demo_cache ds s' d] rs ds(1) by blast
qed

lemma tool_cache_well_formed_witness:
  "cache_ok (snd (get_llm_compatible_tools demo_exposure (Some demo_loaded) demo_cache)) \<and>
   cache_ok (snd (executor_list_tools (xe_tools demo_exposure) None demo_cache))"
proof -
  have "cache_ok t \<Longrightarrow> cache_ok (snd (te_lock (xe_tools demo_exposure) t))" for t by (simp add: demo_exposure_def)
  moreover have "cache_ok demo_cache" by (simp add: cache_ok_def demo_cache_def)
  ultimately show ?thesis
    using tool_cache_well_formed[of demo_exposure demo_cache "Some demo_loaded" None] by blast
qed

end
