(* ===== verification/Integrations.thy ===== *)
theory Integrations
  imports Auth Jenkins McpClient
begin

text \<open>
  The integrations of the engine: \<open>services/integrations.py\<close>, \<open>endpoints/integrations.py\<close>,
  \<open>models/integration.py\<close> and the Secret of \<open>integrations/jenkins/jenkins.py\<close>. Credentials go to the
  cluster through the MCP client; the table keeps a reference to them. Other coroutines may use the
  table at every wait (\<open>ie_others\<close>) and a query may fail (\<open>ie_fails\<close>). That the user of a row exists is
  not checked here.
\<close>

subsection \<open>The table\<close>

record integration_row =
  ig_id :: string
  ig_user :: string
  ig_provider :: string
  ig_name :: "string option"
  ig_metadata :: "dict option"
  ig_ref :: string
  ig_status :: string
  ig_created :: int
  ig_updated :: int

record 'w integrations =
  it_rows :: "integration_row list"
  it_now :: int
  it_waits :: nat
  it_random :: nat
  it_world :: 'w

text \<open>\<open>ie_open\<close> opens the session of a client the service makes for one call.\<close>

record 'w integ_env =
  ie_fails :: "nat \<Rightarrow> py_exc option"
  ie_others :: "nat \<Rightarrow> integration_row list \<Rightarrow> integration_row list"
  ie_hex :: "nat \<Rightarrow> string"
  ie_uuid :: "nat \<Rightarrow> string"
  ie_parse :: "string \<Rightarrow> string py"
  ie_namespace :: string
  ie_owns :: bool
  ie_open :: "('w, unit) st"
  ie_mcp :: "'w mcp_env"

type_synonym ('w, 'a) integ_io = "('w integrations, 'a) st"

definition integ_wait :: "'w integ_env \<Rightarrow> ('w, unit) integ_io" where
  "integ_wait E s =
     (case ie_fails E (it_waits s) of None \<Rightarrow> Inr () | Some e \<Rightarrow> Inl e,
      s\<lparr>it_rows := ie_others E (it_waits s) (it_rows s), it_waits := Suc (it_waits s)\<rparr>)"

definition integ_query :: "'w integ_env \<Rightarrow> (integration_row list \<Rightarrow> 'a) \<Rightarrow> ('w, 'a) integ_io" where
  "integ_query E f = bindW (integ_wait E) (\<lambda>_ s. (Inr (f (it_rows s)), s))"

definition integ_change ::
  "'w integ_env \<Rightarrow> (integration_row list \<Rightarrow> integration_row list py) \<Rightarrow> ('w, unit) integ_io" where
  "integ_change E f = bindW (integ_wait E) (\<lambda>_ s.
     case f (it_rows s) of Inl e \<Rightarrow> (Inl e, s) | Inr rows \<Rightarrow> (Inr (), s\<lparr>it_rows := rows\<rparr>))"

definition integ_random :: "(nat \<Rightarrow> string) \<Rightarrow> ('w, string) integ_io" where
  "integ_random f s = (Inr (f (it_random s)), s\<lparr>it_random := Suc (it_random s)\<rparr>)"

definition integ_now :: "('w, int) integ_io" where
  "integ_now s = (Inr (it_now s), s)"

definition in_world :: "('w, 'a) st \<Rightarrow> ('w, 'a) integ_io" where
  "in_world m s = (case m (it_world s) of (r, w) \<Rightarrow> (r, s\<lparr>it_world := w\<rparr>))"

text \<open>The lengths of the columns, checked before a row is sent.\<close>

definition valid_integration :: "integration_row \<Rightarrow> bool" where
  "valid_integration r \<longleftrightarrow> length (ig_provider r) \<le> 50 \<and> (case ig_name r of None \<Rightarrow> True | Some n \<Rightarrow> length n \<le> 100) \<and>
     length (ig_ref r) \<le> 255 \<and> length (ig_status r) \<le> 20"

definition too_long :: py_exc where
  "too_long = Exc ''ValidationError'' ''Length is over the limit''"

definition insert_integration :: "'w integ_env \<Rightarrow> integration_row \<Rightarrow> ('w, unit) integ_io" where
  "insert_integration E r = (if \<not> valid_integration r then raise too_long else integ_change E (\<lambda>rows.
     if list_ex (\<lambda>x. ig_provider x = ig_provider r \<or> ig_id x = ig_id r) rows then Inl integrity_error else Inr (rows @ [r])))"

definition save_integration :: "'w integ_env \<Rightarrow> integration_row \<Rightarrow> ('w, integration_row) integ_io" where
  "save_integration E r = (if \<not> valid_integration r then raise too_long else
     bindW integ_now (\<lambda>now.
     let r' = r\<lparr>ig_updated := now\<rparr> in
     bindW (integ_change E (\<lambda>rows.
       if list_ex (\<lambda>x. ig_provider x = ig_provider r \<and> ig_id x \<noteq> ig_id r) rows then Inl integrity_error
       else Inr (map (\<lambda>x. if ig_id x = ig_id r then r' else x) rows))) (\<lambda>_. ret r')))"

definition integration_by_id :: "'w integ_env \<Rightarrow> string \<Rightarrow> ('w, integration_row) integ_io" where
  "integration_by_id E i =
     bindW (lift (ie_parse E i)) (\<lambda>k.
     bindW (integ_query E (find (\<lambda>r. ig_id r = k))) (\<lambda>found.
     case found of None \<Rightarrow> raise (Exc ''DoesNotExist'' ''Object does not exist'') | Some r \<Rightarrow> ret r))"

subsection \<open>The Secret\<close>

definition first_value :: "(string \<times> string) list \<Rightarrow> string list \<Rightarrow> string" where
  "first_value d ks =
     (case filter (\<lambda>v. v \<noteq> []) (List.map_filter (map_of d) ks) of [] \<Rightarrow> [] | v # _ \<Rightarrow> v)"

text \<open>The template of \<open>secret.yaml\<close>; the values are put in as they are.\<close>

definition secret_lines :: "string \<Rightarrow> string \<Rightarrow> string \<Rightarrow> string \<Rightarrow> string list" where
  "secret_lines name namespace username token =
     [''apiVersion: v1'', ''kind: Secret'', ''metadata:'', ''  name: '' @ name, ''  namespace: '' @ namespace,
      ''type: Opaque'', ''stringData:'', ''  username: '' @ username, ''  api-token: '' @ token]"

definition build_jenkins_secret_yaml :: "string \<Rightarrow> string \<Rightarrow> (string \<times> string) list \<Rightarrow> string py" where
  "build_jenkins_secret_yaml name namespace creds =
     (let username = first_value creds [''username'', ''user''];
          token = first_value creds [''api_token'', ''api-token'', ''token'']
      in if username = [] \<or> token = []
         then Inl (value_error (''Jenkins credentials must include '' @ quoted ''username'' @ '' and '' @ quoted ''api_token''))
         else Inr (concat (map (\<lambda>l. l @ nl) (secret_lines name namespace username token))))"

definition dns_safe_uid :: "'w integ_env \<Rightarrow> int \<Rightarrow> ('w, string) integ_io" where
  "dns_safe_uid E max_len = bindW (integ_random (ie_hex E)) (\<lambda>raw. ret (take (nat (max 1 max_len)) raw))"

definition provider_secret_name :: "'w integ_env \<Rightarrow> string \<Rightarrow> ('w, string) integ_io" where
  "provider_secret_name E provider = bindW (dns_safe_uid E 20) (\<lambda>uid. ret (provider @ ''-cred-'' @ uid))"

definition secret_call :: "'w integ_env \<Rightarrow> string \<Rightarrow> dict \<Rightarrow> ('w, dict) integ_io" where
  "secret_call E tool args =
     in_world (bindW (if ie_owns E then ie_open E else ret ()) (\<lambda>_. call_tool (ie_mcp E) tool args None None))"

definition apply_secret :: "'w integ_env \<Rightarrow> string \<Rightarrow> string \<Rightarrow> ('w, dict) integ_io" where
  "apply_secret E content namespace =
     secret_call E ''k8s_apply'' [(''content'', JStr content), (''namespace'', JStr namespace)]"

definition delete_secret :: "'w integ_env \<Rightarrow> string \<Rightarrow> string \<Rightarrow> ('w, dict) integ_io" where
  "delete_secret E name namespace =
     secret_call E ''k8s_delete''
       [(''name'', JStr name), (''resource_type'', JStr ''secret''), (''namespace'', JStr namespace)]"

definition secret_namespace :: "'w integ_env \<Rightarrow> string option \<Rightarrow> string" where
  "secret_namespace E namespace =
     (case namespace of
        Some (c # cs) \<Rightarrow> c # cs
      | _ \<Rightarrow> if ie_namespace E \<noteq> [] then ie_namespace E else ''default'')"

text \<open>The answer of the server is not looked at.\<close>

definition create_or_replace_secret ::
  "'w integ_env \<Rightarrow> string \<Rightarrow> (string \<times> string) list \<Rightarrow> string option \<Rightarrow> ('w, string \<times> string) integ_io" where
  "create_or_replace_secret E provider creds namespace =
     (let ns = secret_namespace E namespace in
      bindW (provider_secret_name E provider) (\<lambda>name.
      bindW (lift (if provider = ''jenkins'' then build_jenkins_secret_yaml name ns creds
                   else Inl (value_error (''Unsupported provider: '' @ provider)))) (\<lambda>content.
      bindW (apply_secret E content ns) (\<lambda>_. ret (ns, name)))))"

definition discard_secret :: "'w integ_env \<Rightarrow> string \<Rightarrow> ('w, unit) integ_io" where
  "discard_secret E ref =
     catchW
       (case split_once (CHR ''/'') ref of
          (ns, None) \<Rightarrow> raise (value_error ''not enough values to unpack (expected 2, got 1)'')
        | (ns, Some name) \<Rightarrow> bindW (delete_secret E name ns) (\<lambda>_. ret ()))
       (\<lambda>e. ret ())"

subsection \<open>The operations\<close>

definition credentials_ref :: "string \<times> string \<Rightarrow> string" where
  "credentials_ref r = fst r @ CHR ''/'' # snd r"

definition new_integration ::
  "string \<Rightarrow> int \<Rightarrow> string \<Rightarrow> string \<Rightarrow> string option \<Rightarrow> dict option \<Rightarrow> string \<Rightarrow> integration_row" where
  "new_integration i now user provider name metadata ref =
     \<lparr>ig_id = i, ig_user = user, ig_provider = provider, ig_name = name,
      ig_metadata = Some (case metadata of None \<Rightarrow> [] | Some d \<Rightarrow> d), ig_ref = ref, ig_status = ''active'',
      ig_created = now, ig_updated = now\<rparr>"

definition create_integration ::
  "'w integ_env \<Rightarrow> string \<Rightarrow> string \<Rightarrow> dict option \<Rightarrow> (string \<times> string) list \<Rightarrow> string option \<Rightarrow> ('w, integration_row) integ_io" where
  "create_integration E user provider metadata creds name =
     (let p = py_lower (py_strip provider) in
      if p = [] then raise (value_error ''provider is required'')
      else bindW (integ_query E (find (\<lambda>r. ig_provider r = p))) (\<lambda>existing.
           if existing \<noteq> None
           then raise (value_error (''Integration for provider '' @ quoted p @ '' already exists''))
           else bindW (create_or_replace_secret E p creds None) (\<lambda>secret.
                bindW (integ_random (ie_uuid E)) (\<lambda>i.
                bindW integ_now (\<lambda>now.
                let r = new_integration i now user p name metadata (credentials_ref secret) in
                bindW (insert_integration E r) (\<lambda>_. ret r))))))"

record integration_update =
  iu_name :: "string option"
  iu_metadata :: "dict option"
  iu_credentials :: "(string \<times> string) list option"
  iu_status :: "string option"

definition replace_credentials ::
  "'w integ_env \<Rightarrow> (string \<times> string) list \<Rightarrow> integration_row \<Rightarrow> ('w, integration_row) integ_io" where
  "replace_credentials E creds r =
     bindW (create_or_replace_secret E (ig_provider r) creds None) (\<lambda>secret.
     bindW (if ig_ref r = [] then ret () else discard_secret E (ig_ref r)) (\<lambda>_.
     ret (r\<lparr>ig_ref := credentials_ref secret\<rparr>)))"

definition set_fields :: "integration_update \<Rightarrow> integration_row \<Rightarrow> integration_row" where
  "set_fields d r =
     r\<lparr>ig_metadata := (case iu_metadata d of None \<Rightarrow> ig_metadata r | Some m \<Rightarrow> Some m),
       ig_name := (case iu_name d of None \<Rightarrow> ig_name r | Some n \<Rightarrow> Some n),
       ig_status := (case iu_status d of None \<Rightarrow> ig_status r | Some st \<Rightarrow> st)\<rparr>"

definition update_integration ::
  "'w integ_env \<Rightarrow> string \<Rightarrow> integration_update \<Rightarrow> ('w, integration_row) integ_io" where
  "update_integration E i d =
     bindW (integration_by_id E i) (\<lambda>r.
     bindW (case iu_credentials d of None \<Rightarrow> ret r | Some creds \<Rightarrow> replace_credentials E creds r) (\<lambda>r1.
     save_integration E (set_fields d r1)))"

definition delete_integration :: "'w integ_env \<Rightarrow> string \<Rightarrow> ('w, unit) integ_io" where
  "delete_integration E i =
     bindW (integration_by_id E i) (\<lambda>r.
     bindW (if ig_ref r = [] then ret () else discard_secret E (ig_ref r)) (\<lambda>_.
     integ_change E (\<lambda>rows. Inr (filter (\<lambda>x. ig_id x \<noteq> ig_id r) rows))))"

definition list_integrations :: "'w integ_env \<Rightarrow> string option \<Rightarrow> ('w, integration_row list) integ_io" where
  "list_integrations E provider =
     integ_query E (case provider of
        Some (c # cs) \<Rightarrow> filter (\<lambda>r. ig_provider r = py_lower (c # cs))
      | _ \<Rightarrow> (\<lambda>rows. rows))"

definition get_integration :: "'w integ_env \<Rightarrow> string \<Rightarrow> ('w, integration_row option) integ_io" where
  "get_integration E provider = integ_query E (find (\<lambda>r. ig_provider r = py_lower provider))"

subsection \<open>The endpoints\<close>

definition integration_read :: "integration_row \<Rightarrow> dict" where
  "integration_read r =
     [(''id'', JStr (ig_id r)), (''provider'', JStr (ig_provider r)), (''name'', or_null (ig_name r)),
      (''metadata'', (case ig_metadata r of None \<Rightarrow> JNull | Some d \<Rightarrow> JDict d)), (''status'', JStr (ig_status r)),
      (''created_at'', JStr (isoformat (ig_created r))), (''updated_at'', JStr (isoformat (ig_updated r)))]"

record integration_create =
  ic_provider :: string
  ic_name :: "string option"
  ic_metadata :: "dict option"
  ic_credentials :: "(string \<times> string) list"

definition value_failure :: "py_exc \<Rightarrow> bool" where
  "value_failure e \<longleftrightarrow> exc_type e \<in> {''ValueError'', ''UnicodeDecodeError'', ''UnicodeEncodeError'', ''JSONDecodeError''}"

definition integration_500 ::
  "string \<Rightarrow> ('w, http_error + 'a) integ_io \<Rightarrow> ('w, http_error + 'a) integ_io" where
  "integration_500 what m = catchW m (\<lambda>e. ret (Inl (Http 500 (JStr (''Failed to '' @ what @ '': '' @ exc_msg e)))))"

definition create_integration_endpoint ::
  "'w integ_env \<Rightarrow> integration_create \<Rightarrow> user_row \<Rightarrow> ('w, http_error + dict) integ_io" where
  "create_integration_endpoint E b u =
     verify_admin_role u
       (catchW
          (bindW (create_integration E (us_id u) (ic_provider b) (ic_metadata b) (ic_credentials b) (ic_name b)) (\<lambda>r.
           ret (Inr (integration_read r))))
          (\<lambda>e. ret (Inl (if value_failure e then Http 400 (JStr (exc_msg e))
                         else Http 500 (JStr (''Failed to create integration: '' @ exc_msg e))))))"

definition list_integrations_endpoint ::
  "'w integ_env \<Rightarrow> string option \<Rightarrow> ('w, http_error + dict list) integ_io" where
  "list_integrations_endpoint E provider =
     integration_500 ''list integrations''
       (bindW (list_integrations E provider) (\<lambda>rs. ret (Inr (map integration_read rs))))"

definition update_integration_endpoint ::
  "'w integ_env \<Rightarrow> string \<Rightarrow> integration_update \<Rightarrow> user_row \<Rightarrow> ('w, http_error + dict) integ_io" where
  "update_integration_endpoint E i d u =
     verify_admin_role u (integration_500 ''update integration''
       (bindW (update_integration E i d) (\<lambda>r. ret (Inr (integration_read r)))))"

definition delete_integration_endpoint ::
  "'w integ_env \<Rightarrow> string \<Rightarrow> user_row \<Rightarrow> ('w, http_error + unit) integ_io" where
  "delete_integration_endpoint E i u =
     verify_admin_role u (integration_500 ''delete integration''
       (bindW (delete_integration E i) (\<lambda>_. ret (Inr ()))))"

end
