(* ===== verification/IntegrationProps.thy ===== *)
theory IntegrationProps
  imports Integrations JenkinsTools
begin

text \<open>
  What the integrations guarantee and where they fail: one row for each provider, references the MCP
  server can resolve, and a row that becomes active although the cluster refused its Secret.
\<close>

subsection \<open>The table\<close>

definition table_ok :: "integration_row list \<Rightarrow> bool" where
  "table_ok rows \<longleftrightarrow> distinct (map ig_id rows) \<and> distinct (map ig_provider rows)"

interpretation ints: state_moves it_rows "\<lambda>x y. table_ok x \<longrightarrow> table_ok y"
  by unfold_locales auto

definition keeps_table :: "'w integ_env \<Rightarrow> bool" where
  "keeps_table E \<longleftrightarrow> (\<forall>n rows. table_ok rows \<longrightarrow> table_ok (ie_others E n rows))"

lemma ints_query [simp]: "keeps_table E \<Longrightarrow> ints.moves (integ_query E f)"
  by (simp add: ints.moves_def keeps_table_def integ_query_def integ_wait_def bindW_def split: option.split)

lemma ints_change:
  assumes "keeps_table E" "\<And>rows rows'. table_ok rows \<Longrightarrow> f rows = Inr rows' \<Longrightarrow> table_ok rows'"
  shows "ints.moves (integ_change E f)"
  using assms
  by (auto simp: ints.moves_def keeps_table_def integ_change_def integ_wait_def bindW_def split: option.split sum.split)

lemma ints_plain [simp]: "ints.moves (integ_random f)" "ints.moves integ_now" "ints.moves (in_world m)"
  by (simp_all add: ints.moves_def integ_random_def integ_now_def in_world_def split: prod.split)

lemma ints_pair [simp]: "ints.moves (Pair r)"
  by (simp add: ints.moves_def)

lemma distinct_replace:
  assumes "distinct (map k rows)" "\<forall>x \<in> set rows. ig_id x \<noteq> ig_id r \<longrightarrow> k x \<noteq> k r'" "distinct (map ig_id rows)"
  shows "distinct (map k (map (\<lambda>x. if ig_id x = ig_id r then r' else x) rows))"
  using assms
proof (induction rows)
  case (Cons x rows)
  have "k r' \<notin> k ` set rows" if "ig_id x = ig_id r" using Cons.prems that by (metis distinct.simps(2) image_iff list.set_intros(2) list.simps(9) set_map)
  moreover have "ig_id y \<noteq> ig_id r" if "ig_id x = ig_id r" "y \<in> set rows" for y using Cons.prems(3) that by (metis distinct.simps(2) image_eqI list.simps(9) set_map)
  ultimately show ?case using Cons by (auto simp: image_iff)
qed simp

lemma replaced_ok:
  assumes "table_ok rows" "\<not> list_ex (\<lambda>x. ig_provider x = ig_provider r \<and> ig_id x \<noteq> ig_id r) rows"
    and "ig_id r' = ig_id r" "ig_provider r' = ig_provider r"
  shows "table_ok (map (\<lambda>x. if ig_id x = ig_id r then r' else x) rows)"
  using assms unfolding table_ok_def by (intro conjI distinct_replace) (auto simp: list_ex_iff)

lemma appended_ok:
  "table_ok rows \<Longrightarrow> \<not> list_ex (\<lambda>x. ig_provider x = ig_provider r \<or> ig_id x = ig_id r) rows \<Longrightarrow> table_ok (rows @ [r])"
  by (auto simp: table_ok_def list_ex_iff)

lemma insert_keeps: "keeps_table E \<Longrightarrow> ints.moves (insert_integration E r)"
  unfolding insert_integration_def by (auto simp del: list_ex_iff split: if_splits intro!: ints_change appended_ok)

lemma save_keeps: "keeps_table E \<Longrightarrow> ints.moves (save_integration E r)"
  unfolding save_integration_def Let_def
  by (auto simp del: list_ex_iff split: if_splits intro!: ints.moves_bind ints_change replaced_ok)

lemma secret_keeps: "ints.moves (create_or_replace_secret E p creds ns)" "ints.moves (discard_secret E ref)"
  by (auto simp: create_or_replace_secret_def provider_secret_name_def dns_safe_uid_def apply_secret_def discard_secret_def
      delete_secret_def secret_call_def Let_def split: prod.split option.split intro!: ints.moves_bind ints.moves_catch)

lemma by_id_keeps: "keeps_table E \<Longrightarrow> ints.moves (integration_by_id E i)"
  by (auto simp: integration_by_id_def split: option.split intro!: ints.moves_bind)

text \<open>
  A provider has at most one row. Creating, updating and deleting an integration, each with its calls of
  the cluster and however they end, keep the identifiers and the providers of the table distinct, as
  long as the other users of the table do.
\<close>

theorem one_row_per_provider:
  assumes "\<And>n rows. table_ok rows \<Longrightarrow> table_ok (ie_others E n rows)" and "table_ok (it_rows s)"
  shows "table_ok (it_rows (snd (create_integration_endpoint E b u s))) \<and>
     table_ok (it_rows (snd (update_integration_endpoint E i d u s))) \<and>
     table_ok (it_rows (snd (delete_integration_endpoint E i u s)))"
proof -
  have E: "keeps_table E" using assms(1) by (simp add: keeps_table_def)
  have delete: "ints.moves (integ_change E (\<lambda>rows. Inr (filter (\<lambda>x. ig_id x \<noteq> j) rows)))" for j
    by (rule ints_change[OF E]) (auto simp: table_ok_def intro: distinct_map_filter)
  have "ints.moves (create_integration_endpoint E b u)"
    unfolding create_integration_endpoint_def verify_admin_role_def create_integration_def Let_def
    by (auto simp: E intro!: ints.moves_catch ints.moves_bind insert_keeps secret_keeps)
  moreover have "ints.moves (update_integration_endpoint E i d u)"
    unfolding update_integration_endpoint_def verify_admin_role_def integration_500_def update_integration_def
      replace_credentials_def
    by (auto simp: E split: option.split intro!: ints.moves_catch ints.moves_bind by_id_keeps save_keeps secret_keeps)
  moreover have "ints.moves (delete_integration_endpoint E i u)"
    unfolding delete_integration_endpoint_def verify_admin_role_def integration_500_def delete_integration_def
    by (auto simp: E delete intro!: ints.moves_catch ints.moves_bind by_id_keeps secret_keeps)
  ultimately show ?thesis using assms(2) by (simp add: ints.moves_def)
qed


subsection \<open>The reference\<close>

lemma split_once_at: "c \<notin> set a \<Longrightarrow> split_once c (a @ c # b) = (a, Some b)"
  by (induction a) auto

lemma reference_parses:
  assumes "list_all ref_char a" "a \<noteq> []" "list_all ref_char b" "b \<noteq> []"
  shows "parse_credentials_ref (credentials_ref (a, b)) = Inr (a, b)"
proof -
  have no: "\<not> ref_char (CHR ''/'')" "\<not> ref_char (CHR '':'')"
    by (simp_all add: ref_char_def py_isalnum_def is_alnum_def is_digit_def)
  with assms have "CHR ''/'' \<notin> set a" "CHR '':'' \<notin> set a" "CHR '':'' \<notin> set b" by (auto simp: list_all_iff)
  with assms show ?thesis by (simp add: parse_credentials_ref_def credentials_ref_def split_once_at)
qed

text \<open>The call of the MCP server that sends this Secret.\<close>

definition secret_sent :: "'w integ_env \<Rightarrow> string \<Rightarrow> string \<Rightarrow> 'w \<Rightarrow> 'w \<Rightarrow> bool" where
  "secret_sent E content namespace w w' \<longleftrightarrow>
     (\<exists>answer. bindW (if ie_owns E then ie_open E else ret ()) (\<lambda>_. call_tool (ie_mcp E) ''k8s_apply''
        [(''content'', JStr content), (''namespace'', JStr namespace)] None None) w = (Inr answer, w'))"

lemma secret_result:
  assumes "create_or_replace_secret E p creds None s = (Inr (ns, name), s')"
  shows "p = ''jenkins'' \<and> ns = secret_namespace E None \<and> name = p @ ''-cred-'' @ take 20 (ie_hex E (it_random s)) \<and>
     (\<exists>content. build_jenkins_secret_yaml name ns creds = Inr content \<and> secret_sent E content ns (it_world s) (it_world s'))"
proof -
  let ?ns = "secret_namespace E None" and ?s = "s\<lparr>it_random := Suc (it_random s)\<rparr>"
  let ?nm = "p @ ''-cred-'' @ take 20 (ie_hex E (it_random s))"
  have "provider_secret_name E p s = (Inr ?nm, ?s)"
    by (simp add: provider_secret_name_def dns_safe_uid_def integ_random_def bindW_def)
  with assms have run: "bindW (lift (if p = ''jenkins'' then build_jenkins_secret_yaml ?nm ?ns creds
        else Inl (value_error (''Unsupported provider: '' @ p)))) (\<lambda>content. bindW (apply_secret E content ?ns) (\<lambda>_. ret (?ns, ?nm))) ?s
      = (Inr (ns, name), s')"
    unfolding create_or_replace_secret_def Let_def by (simp only: bindW_def[of "provider_secret_name E p"] prod.case sum.case)
  then have jenkins: "p = ''jenkins''" by (rule contrapos_pp) (simp add: bindW_def)
  obtain content answer where content: "build_jenkins_secret_yaml ?nm ?ns creds = Inr content"
      and sent: "apply_secret E content ?ns ?s = (Inr answer, s')" and ends: "ns = ?ns" "name = ?nm"
    using run unfolding if_P[OF jenkins] bindW_Inr lift_simp ret_simp by blast
  have "secret_sent E content ?ns (it_world s) (it_world s')"
    using sent unfolding apply_secret_def secret_call_def in_world_def secret_sent_def by (auto split: prod.splits)
  then show ?thesis using jenkins content ends by auto
qed

lemma integ_wait_frame:
  "integ_query E f s = (x, s') \<Longrightarrow> it_world s' = it_world s \<and> it_random s' = it_random s"
  "integ_change E g s = (y, s') \<Longrightarrow> it_world s' = it_world s \<and> it_random s' = it_random s"
  by (auto simp: integ_query_def integ_change_def integ_wait_def bindW_def split: option.splits sum.splits)

lemma insert_frame: "insert_integration E r s = (x, s') \<Longrightarrow> it_world s' = it_world s"
  by (auto simp: insert_integration_def split: if_splits dest: integ_wait_frame(2))

lemma secret_text:
  "build_jenkins_secret_yaml nm ns creds = Inr content \<Longrightarrow>
     \<exists>username token. content = concat (map (\<lambda>l. l @ nl) (secret_lines nm ns username token))"
  by (auto simp: build_jenkins_secret_yaml_def Let_def split: if_splits)

text \<open>
  C34: The reference an integration stores is the one of the Secret it sent. Whenever creating an integration
  succeeds, a Secret was sent to the MCP server, whose lines have the configured namespace and the name made of
  the provider and the random text of this creation; the server's parser reads exactly this namespace, first, and this
  name, second, back from the stored reference, provided that the configured namespace has characters of a name.
  Whether the cluster took the Secret is another matter (theorem \<open>refused_secret_becomes_active\<close>).
\<close>

theorem stored_reference_resolves:
  assumes "create_integration E user provider metadata creds name s = (Inr r, s')"
    and "list_all ref_char (ie_namespace E)" and "\<And>n. list_all ref_char (ie_hex E n)"
    and "ns = secret_namespace E None" and "nm = ''jenkins-cred-'' @ take 20 (ie_hex E (it_random s))"
  shows "parse_credentials_ref (ig_ref r) = Inr (ns, nm) \<and> ig_provider r = ''jenkins''
    \<and> (\<exists>content username token. build_jenkins_secret_yaml nm ns creds = Inr content
        \<and> content = concat (map (\<lambda>l. l @ nl) (secret_lines nm ns username token))
        \<and> secret_sent E content ns (it_world s) (it_world s'))"
proof -
  let ?p = "py_lower (py_strip provider)"
  obtain found s1 secret s2 s3 where read: "integ_query E (find (\<lambda>r. ig_provider r = ?p)) s = (Inr found, s1)"
      and made: "create_or_replace_secret E ?p creds None s1 = (Inr secret, s2)"
      and put: "insert_integration E r (s2\<lparr>it_random := Suc (it_random s2)\<rparr>) = (Inr (), s')"
      and row: "ig_ref r = credentials_ref secret" "ig_provider r = ?p"
    using assms(1)
    by (fastforce simp: create_integration_def bindW_Inr Let_def new_integration_def integ_random_def integ_now_def split: if_splits)
  obtain ns' nm' where pair: "secret = (ns', nm')" by (cases secret)
  note first = integ_wait_frame(1)[OF read] and last = insert_frame[OF put]
  obtain content where content: "?p = ''jenkins''" "ns' = ns" "nm' = nm" "build_jenkins_secret_yaml nm ns creds = Inr content"
      "secret_sent E content ns (it_world s) (it_world s')"
    using secret_result[OF made[unfolded pair]] first last assms(4,5) by auto
  have "list_all ref_char (take 20 (ie_hex E (it_random s)))"
    using assms(3)[of "it_random s"] by (auto simp: list_all_iff dest: in_set_takeD)
  moreover have "list_all ref_char ''jenkins-cred-''" "list_all ref_char ''default''"
    by (simp_all add: ref_char_def py_isalnum_def is_alnum_def is_digit_def)
  ultimately have "list_all ref_char ns" "ns \<noteq> []" "list_all ref_char nm" "nm \<noteq> []"
    using assms(2,4,5) by (auto simp: secret_namespace_def split: if_splits)
  then have "parse_credentials_ref (ig_ref r) = Inr (ns, nm)"
    using row(1) pair content(2,3) reference_parses by simp
  then show ?thesis using row(2) content secret_text[OF content(4)] by auto
qed

subsection \<open>A Secret that was refused\<close>

definition integ_calm :: "'w integ_env \<Rightarrow> bool" where
  "integ_calm E \<longleftrightarrow> (\<forall>n rows. ie_fails E n = None \<and> ie_others E n rows = rows)"

lemma calm_query: "integ_calm E \<Longrightarrow> integ_query E f s = (Inr (f (it_rows s)), s\<lparr>it_waits := Suc (it_waits s)\<rparr>)"
  by (simp add: integ_calm_def integ_query_def integ_wait_def bindW_def)

lemma calm_change: "integ_calm E \<Longrightarrow> integ_change E f s =
    (case f (it_rows s) of Inl e \<Rightarrow> (Inl e, s\<lparr>it_waits := Suc (it_waits s)\<rparr>)
     | Inr rows \<Rightarrow> (Inr (), s\<lparr>it_rows := rows, it_waits := Suc (it_waits s)\<rparr>))"
  by (simp add: integ_calm_def integ_change_def integ_wait_def bindW_def split: sum.split)

text \<open>
  Whether the cluster took the credentials is not asked. When the server answers the call that applies the
  Secret with any result at all, an error too, the integration is stored and active, with a reference to a
  Secret that need not exist.
\<close>

theorem refused_secret_becomes_active:
  assumes "integ_calm E" and "\<not> ie_owns E"
    and "\<And>args w. \<exists>w'. call_tool (ie_mcp E) ''k8s_apply'' args None None w = (Inr answer, w')"
    and "list_all (\<lambda>r. ig_provider r \<noteq> ''jenkins'' \<and> ig_id r \<noteq> ie_uuid E (Suc (it_random s))) (it_rows s)"
    and "build_jenkins_secret_yaml (''jenkins-cred-'' @ take 20 (ie_hex E (it_random s))) (secret_namespace E None) creds = Inr content"
    and "length (ie_namespace E) \<le> 63"
  shows "\<exists>r s'. create_integration E user ''jenkins'' metadata creds None s = (Inr r, s') \<and>
     ig_status r = ''active'' \<and> r \<in> set (it_rows s') \<and>
     ig_ref r = secret_namespace E None @ ''/jenkins-cred-'' @ take 20 (ie_hex E (it_random s))"
proof -
  let ?nm = "''jenkins-cred-'' @ take 20 (ie_hex E (it_random s))" and ?ns = "secret_namespace E None"
  let ?s1 = "s\<lparr>it_waits := Suc (it_waits s), it_random := Suc (it_random s)\<rparr>"
  have lower: "py_lower (py_strip ''jenkins'') = ''jenkins''" by code_simp
  have free: "find (\<lambda>r. ig_provider r = ''jenkins'') (it_rows s) = None"
    using assms(4) by (auto simp: find_None_iff list_all_iff)
  obtain w where w: "call_tool (ie_mcp E) ''k8s_apply'' [(''content'', JStr content), (''namespace'', JStr ?ns)] None None (it_world s) = (Inr answer, w)"
    using assms(3) by blast
  have secret: "create_or_replace_secret E ''jenkins'' creds None (s\<lparr>it_waits := Suc (it_waits s)\<rparr>) = (Inr (?ns, ?nm), ?s1\<lparr>it_world := w\<rparr>)"
    using assms(2,5) w
    by (simp add: create_or_replace_secret_def provider_secret_name_def dns_safe_uid_def integ_random_def bindW_def
        apply_secret_def secret_call_def in_world_def Let_def)
  define r where "r = new_integration (ie_uuid E (Suc (it_random s))) (it_now s) user ''jenkins'' None metadata (credentials_ref (?ns, ?nm))"
  have "length ?ns \<le> 63" using assms(6) by (simp add: secret_namespace_def)
  then have "valid_integration r" by (simp add: valid_integration_def r_def new_integration_def credentials_ref_def)
  moreover have "\<not> list_ex (\<lambda>x. ig_provider x = ig_provider r \<or> ig_id x = ig_id r) (it_rows s)"
    using assms(4) by (auto simp: list_ex_iff list_all_iff r_def new_integration_def)
  ultimately have stored: "\<exists>s'. insert_integration E r (?s1\<lparr>it_world := w, it_random := Suc (Suc (it_random s))\<rparr>) = (Inr (), s') \<and> r \<in> set (it_rows s')"
    by (simp add: insert_integration_def calm_change[OF assms(1)])
  then obtain s' where "insert_integration E r (?s1\<lparr>it_world := w, it_random := Suc (Suc (it_random s))\<rparr>) = (Inr (), s')" "r \<in> set (it_rows s')"
    by blast
  then have "create_integration E user ''jenkins'' metadata creds None s = (Inr r, s')"
    using free secret
    by (simp add: create_integration_def lower calm_query[OF assms(1)] bindW_def integ_random_def integ_now_def Let_def r_def)
  then show ?thesis using \<open>r \<in> set (it_rows s')\<close> by (intro exI[of _ r] exI[of _ s']) (simp add: r_def new_integration_def credentials_ref_def)
qed

subsection \<open>Witnesses\<close>

text \<open>A server that refuses every call.\<close>

definition demo_mcp :: "nat mcp_env" where
  "demo_mcp = \<lparr>me_key = ''k'', me_loads = (\<lambda>_. Inl (Exc ''JSONDecodeError'' [])),
     me_transport = (\<lambda>_ _ _ n. (Inr \<lparr>mr_items = [], mr_is_error = Some True\<rparr>, Suc n)), me_list = ret []\<rparr>"

definition demo_integ_env :: "nat integ_env" where
  "demo_integ_env = \<lparr>ie_fails = (\<lambda>_. None), ie_others = (\<lambda>_ rows. rows), ie_hex = (\<lambda>_. ''0a1b2c''), ie_uuid = (\<lambda>_. ''i1''),
     ie_parse = Inr, ie_namespace = ''ops'', ie_owns = False, ie_open = ret (), ie_mcp = demo_mcp\<rparr>"

definition demo_integrations :: "nat integrations" where
  "demo_integrations = \<lparr>it_rows = [], it_now = 7, it_waits = 0, it_random = 0, it_world = 0\<rparr>"

definition demo_credentials :: "(string \<times> string) list" where
  "demo_credentials = [(''user'', ''ci''), (''token'', ''t'')]"

definition demo_admin :: user_row where
  "demo_admin = \<lparr>us_id = ''u1'', us_email = ''a@x'', us_password = ''h'', us_name = None, us_active = True,
     us_superuser = False, us_verified = True, us_role = ''admin'', us_created = 0, us_updated = 0\<rparr>"

lemma one_row_per_provider_witness:
  "table_ok (it_rows (snd (create_integration_endpoint demo_integ_env
     \<lparr>ic_provider = ''Jenkins'', ic_name = None, ic_metadata = None, ic_credentials = demo_credentials\<rparr> demo_admin demo_integrations)))"
  using one_row_per_provider[of demo_integ_env demo_integrations]
  by (simp add: demo_integ_env_def demo_integrations_def table_ok_def)

lemma refusing_server: "call_tool demo_mcp ''k8s_apply'' args None None n =
    (Inr [(''content'', JList []), (''isError'', JBool True)], Suc n)"
  by (simp add: call_tool_def demo_mcp_def inferred_parameters_def mcp_headers_def bindW_def catchW_def parse_tool_result_def
      reliability_entry_def)

lemma demo_secret: "\<exists>content. build_jenkins_secret_yaml nm ns demo_credentials = Inr content"
  by (simp add: build_jenkins_secret_yaml_def first_value_def demo_credentials_def List.map_filter_def)

lemma refused_secret_becomes_active_witness:
  "\<exists>r s'. create_integration demo_integ_env ''u1'' ''jenkins'' None demo_credentials None demo_integrations = (Inr r, s') \<and>
     ig_status r = ''active'' \<and> r \<in> set (it_rows s') \<and> ig_ref r = ''ops/jenkins-cred-0a1b2c''"
proof -
  let ?E = demo_integ_env and ?s = demo_integrations
  obtain content where "build_jenkins_secret_yaml (''jenkins-cred-'' @ take 20 (ie_hex ?E (it_random ?s)))
      (secret_namespace ?E None) demo_credentials = Inr content" using demo_secret by blast
  moreover have "list_all (\<lambda>r. ig_provider r \<noteq> ''jenkins'' \<and> ig_id r \<noteq> ie_uuid ?E (Suc (it_random ?s))) (it_rows ?s)"
      "length (ie_namespace ?E) \<le> 63" "integ_calm ?E" "\<not> ie_owns ?E"
    by (simp_all add: demo_integrations_def demo_integ_env_def integ_calm_def)
  moreover have "\<exists>w'. call_tool (ie_mcp ?E) ''k8s_apply'' args None None w =
      (Inr [(''content'', JList []), (''isError'', JBool True)], w')" for args w
    by (simp add: demo_integ_env_def refusing_server)
  ultimately have "\<exists>r s'. create_integration ?E ''u1'' ''jenkins'' None demo_credentials None ?s = (Inr r, s') \<and>
     ig_status r = ''active'' \<and> r \<in> set (it_rows s') \<and>
     ig_ref r = secret_namespace ?E None @ ''/jenkins-cred-'' @ take 20 (ie_hex ?E (it_random ?s))"
    by (intro refused_secret_becomes_active)
  moreover have "secret_namespace ?E None @ ''/jenkins-cred-'' @ take 20 (ie_hex ?E (it_random ?s)) = ''ops/jenkins-cred-0a1b2c''"
    by (simp add: demo_integ_env_def secret_namespace_def)
  ultimately show ?thesis by simp
qed

lemma demo_creation:
  "\<exists>r s'. create_integration demo_integ_env ''u1'' ''jenkins'' None demo_credentials None demo_integrations = (Inr r, s') \<and>
     ig_ref r = ''ops/jenkins-cred-0a1b2c''"
proof -
  have lower: "py_lower (py_strip ''jenkins'') = ''jenkins''" by code_simp
  obtain content where "build_jenkins_secret_yaml ''jenkins-cred-0a1b2c'' ''ops'' demo_credentials = Inr content"
    using demo_secret by blast
  then show ?thesis
    by (simp add: create_integration_def lower integ_query_def integ_wait_def bindW_def create_or_replace_secret_def
      provider_secret_name_def dns_safe_uid_def integ_random_def apply_secret_def secret_call_def in_world_def Let_def
      demo_integ_env_def demo_integrations_def refusing_server integ_now_def insert_integration_def integ_change_def
      valid_integration_def new_integration_def credentials_ref_def secret_namespace_def)
qed

lemma stored_reference_resolves_witness:
  "parse_credentials_ref ''ops/jenkins-cred-0a1b2c'' = Inr (''ops'', ''jenkins-cred-0a1b2c'')"
proof -
  obtain r s' where made: "create_integration demo_integ_env ''u1'' ''jenkins'' None demo_credentials None demo_integrations = (Inr r, s')"
      "ig_ref r = ''ops/jenkins-cred-0a1b2c''" using demo_creation by blast
  have "list_all ref_char (ie_namespace demo_integ_env)" "\<And>n. list_all ref_char (ie_hex demo_integ_env n)"
    by (simp_all add: demo_integ_env_def ref_char_def py_isalnum_def is_alnum_def is_digit_def)
  from stored_reference_resolves[OF made(1) this refl refl] made(2) show ?thesis
    by (simp add: demo_integ_env_def secret_namespace_def)
qed

end
