(* ===== verification/MutationApi.thy ===== *)
theory MutationApi
  imports JournalProps Auth
begin

text \<open>
  \<open>endpoints/mutations.py\<close>: what an administrator reads of the mutation journal. Both handlers only read, so
  they are functions of the table; a query that fails ends them with its exception. The bounds of
  the limit are checked before the handler runs.
\<close>

fun outcome_value :: "policy_outcome \<Rightarrow> string" where
  "outcome_value ALLOW = ''allow''"
| "outcome_value DENY = ''deny''"

fun approval_value :: "approval_status \<Rightarrow> string" where
  "approval_value AP_NOT_REQUIRED = ''not_required''"
| "approval_value AP_PENDING = ''pending''"
| "approval_value AP_APPROVED = ''approved''"
| "approval_value AP_DENIED = ''denied''"

definition operation_summary :: "mutation_operation \<Rightarrow> dict" where
  "operation_summary r =
     [(''operation_id'', JStr (op_id r)), (''conversation_id'', conversation_id r), (''run_id'', JStr (op_run_id r)),
      (''call_id'', JStr (op_call_id r)), (''tool'', JStr (op_tool r)), (''target_identity'', target_identity r),
      (''policy_decision'', JStr (outcome_value (policy_decision r))), (''policy_reason'', JStr (policy_reason r)),
      (''approval_status'', JStr (approval_value (approval_status r))), (''approval_reason'', approval_reason r),
      (''execution_status'', JStr (exec_value (execution_status r))),
      (''verification_status'', JStr (ver_value (verification_status r))),
      (''attempt_count'', JInt (attempt_count r)),
      (''verification_attempt_count'', JInt (verification_attempt_count r)),
      (''created_at'', JStr (isoformat (created_at r))), (''updated_at'', JStr (isoformat (updated_at r)))]"

text \<open>A text that is no value of the enumeration is refused when the query is built.\<close>

definition status_filter :: "(mutation_operation \<Rightarrow> string) \<Rightarrow> string list \<Rightarrow> string option \<Rightarrow> (mutation_operation \<Rightarrow> bool) py" where
  "status_filter f known wanted =
     (case wanted of
        Some (c # cs) \<Rightarrow> if c # cs \<in> set known then Inr (\<lambda>r. f r = c # cs) else Inl (value_error (repr_str (c # cs)))
      | _ \<Rightarrow> Inr (\<lambda>r. True))"

definition EXECUTION_STATUSES :: "string list" where
  "EXECUTION_STATUSES = map exec_value [PREPARED, EXECUTING, REPORTED_SUCCESS, EXEC_FAILED, UNKNOWN, CANCELLED]"

definition VERIFICATION_STATUSES :: "string list" where
  "VERIFICATION_STATUSES = map ver_value [NOT_REQUIRED, PENDING, VERIFYING, PASSED, FAILED, INCONCLUSIVE, NEEDS_REVIEW]"

definition conversation_filter :: "string option \<Rightarrow> mutation_operation \<Rightarrow> bool" where
  "conversation_filter wanted r = (case wanted of Some (c # cs) \<Rightarrow> conversation_id r = JStr (c # cs) | _ \<Rightarrow> True)"

record mutation_query =
  mq_execution :: "string option"
  mq_verification :: "string option"
  mq_conversation :: "string option"
  mq_limit :: int

definition selected :: "mutation_query \<Rightarrow> journal \<Rightarrow> journal py" where
  "selected q J =
     bindE (status_filter (exec_value \<circ> execution_status) EXECUTION_STATUSES (mq_execution q)) (\<lambda>by_exec.
     bindE (status_filter (ver_value \<circ> verification_status) VERIFICATION_STATUSES (mq_verification q)) (\<lambda>by_ver.
     Inr (filter (\<lambda>r. by_exec r \<and> by_ver r \<and> conversation_filter (mq_conversation q) r) J)))"

definition newest :: "journal \<Rightarrow> journal" where
  "newest J = rev (sort_key created_at J)"

definition list_mutation_operations :: "mutation_query \<Rightarrow> user_row \<Rightarrow> (journal, http_error + dict) st" where
  "list_mutation_operations q u =
     verify_admin_role u (\<lambda>J.
       (if mq_limit q < 1 \<or> 200 < mq_limit q then Inr (Inl (Http 422 (JStr ''Invalid limit'')))
        else bindE (selected q J) (\<lambda>rs.
             Inr (Inr [(''items'', JList (map (JDict \<circ> operation_summary) (take (nat (mq_limit q)) (newest rs))))])), J))"

definition operation_details :: "mutation_operation \<Rightarrow> dict" where
  "operation_details r =
     [(''redacted_args'', JDict (redacted_args r)), (''args_hmac'', JStr (args_hmac r)),
      (''desired_state_hmac'', JStr (desired_state_hmac r)), (''external_reference'', external_reference r),
      (''execution_error'', execution_error r), (''verification_plan'', JDict (verification_plan r)),
      (''verification_result'', verification_result r), (''started_at'', iso_or_null (started_at r)),
      (''finished_at'', iso_or_null (finished_at r)), (''lease_expires_at'', iso_or_null (lease_expires_at r)),
      (''verification_lease_owner'', or_null (verification_lease_owner r)),
      (''verification_lease_expires_at'', iso_or_null (verification_lease_expires_at r)), (''version'', JInt (version r))]"

definition get_mutation_operation ::
  "(string \<Rightarrow> string py) \<Rightarrow> string \<Rightarrow> user_row \<Rightarrow> (journal, http_error + dict) st" where
  "get_mutation_operation parse oid u =
     verify_admin_role u (\<lambda>J.
       (case parse oid of
          Inl e \<Rightarrow> Inr (Inl (Http 400 (JStr ''Invalid operation ID'')))
        | Inr k \<Rightarrow>
            (case find_row k J of
               None \<Rightarrow> Inr (Inl (Http 404 (JStr ''Mutation operation not found'')))
             | Some r \<Rightarrow> Inr (Inr (operation_summary r @ operation_details r))), J))"

subsection \<open>What an administrator sees\<close>

text \<open>Only administrators read the journal, and reading changes nothing.\<close>

lemma journal_for_admins:
  assumes "us_role u \<noteq> ''admin''" "\<not> us_superuser u"
  shows "fst (list_mutation_operations q u J) = Inr (Inl (Http 403 (JStr ''Only administrators can perform this action'')))"
    and "fst (get_mutation_operation parse oid u J) = Inr (Inl (Http 403 (JStr ''Only administrators can perform this action'')))"
  using assms by (simp_all add: list_mutation_operations_def get_mutation_operation_def verify_admin_role_def)

lemma journal_only_read: "snd (list_mutation_operations q u J) = J" "snd (get_mutation_operation parse oid u J) = J"
  by (simp_all add: list_mutation_operations_def get_mutation_operation_def verify_admin_role_def)

lemma details_read:
  "dget (operation_summary r @ operation_details r) ''redacted_args'' = JDict (redacted_args r)"
  "dget (operation_summary r @ operation_details r) ''execution_error'' = execution_error r"
  "dget (operation_summary r @ operation_details r) ''verification_result'' = verification_result r"
  "dget (operation_summary r @ operation_details r) ''external_reference'' = external_reference r"
  by (simp_all add: operation_summary_def operation_details_def dget_def_def)

text \<open>
  No credential reaches the administrator who inspects an operation: of every journal the service can reach,
  what the endpoint shows of the arguments, the error, the verification result and the external reference
  keeps nothing under a sensitive key but the redaction mark.
\<close>

theorem audit_shows_no_secrets:
  assumes "valid_settings S" and "(jstep hmac uuid S Y)\<^sup>*\<^sup>* [] J"
    and "get_mutation_operation parse oid u J = (Inr (Inr d), J')"
  shows "leak_free (dget d ''redacted_args'') \<and> leak_free (dget d ''execution_error'') \<and>
     leak_free (dget d ''verification_result'') \<and> leak_free (dget d ''external_reference'')"
proof -
  obtain k r where r: "find_row k J = Some r" "d = operation_summary r @ operation_details r"
    using assms(3) by (auto simp: get_mutation_operation_def verify_admin_role_def split: if_splits sum.splits option.splits)
  then have "r \<in> set J" by (auto simp: find_row_def find_Some_iff)
  then have "row_inv S r"
    using jruns_moves[OF assms(2,1) empty_journal] by (auto simp: journal_inv_def list_all_iff)
  then show ?thesis unfolding r(2) details_read by (simp add: row_inv_def audit_inv_def)
qed

end
