(* ===== verification/TitleGenerator.thy ===== *)
theory TitleGenerator
  imports ConversationProps ModelTurn
begin

text \<open>
  The title of a conversation, \<open>services/title_generator.py\<close>: it waits for an answer of the assistant, asks the
  model for a title, falls back to the words of the user and stores what is left after cleaning. The
  call of the model, reading its JSON and the announcement of the title are parameters; while the task
  sleeps the other coroutines of theory ChatStore run.
\<close>

definition title_newline :: string where
  "title_newline = [CHR 0x0A]"

definition CHAT_TITLE_PROMPT :: string where
  "CHAT_TITLE_PROMPT = concat (map (\<lambda>l. l @ title_newline)
     [''You are generating a short chat title for the given conversation.'',
      ''Rules:'',
      ''- 3-6 words, concise, descriptive.'',
      ''- No punctuation, quotes, emojis, or trailing periods.'',
      ''- Use nouns/verbs; avoid filler words.'',
      ''- Prefer domain terms from the conversation; avoid hallucinations.'',
      ''- English only.'',
      ''Return JSON: {\"title\": \"...\"}''])"

subsection \<open>Cleaning\<close>

definition PUNCTUATION :: "char list" where
  "PUNCTUATION = ''.!?,;:'' @ [CHR 0x22, CHR 0x27, CHR 0x60]"

fun collapse_blanks :: "bool \<Rightarrow> string \<Rightarrow> string" where
  "collapse_blanks after_blank [] = []"
| "collapse_blanks after_blank (c # cs) =
     (if is_space c then (if after_blank then [] else '' '') @ collapse_blanks True cs else c # collapse_blanks False cs)"

definition clean_text_for_title :: "string \<Rightarrow> string" where
  "clean_text_for_title t =
     py_strip (filter (\<lambda>c. c \<notin> set PUNCTUATION)
       (collapse_blanks False (py_strip (map (\<lambda>c. if c \<in> {CHR 0x0A, CHR 0x0D, CHR 0x09} then CHR '' '' else c) t))))"

subsection \<open>The model\<close>

record title_env =
  ti_chat :: chat_env
  ti_complete :: "string \<Rightarrow> string option \<Rightarrow> string option \<Rightarrow> dict list \<Rightarrow> string chat_io"
  ti_loads :: "string \<Rightarrow> json py"
  ti_config :: "string \<Rightarrow> string option py"
  ti_announce :: "string \<Rightarrow> string \<Rightarrow> unit chat_io"
  ti_model :: string
  ti_host :: "string option"

text \<open>\<open>TitleDecision.model_validate_json\<close>\<close>

definition title_decision :: "title_env \<Rightarrow> string \<Rightarrow> string py" where
  "title_decision E content =
     bindE (ti_loads E content) (\<lambda>v.
     case v of
       JDict d \<Rightarrow>
         (case dget d ''title'' of
            JStr t \<Rightarrow> if 1 \<le> length t \<and> length t \<le> 60 then Inr t else Inl (Exc ''ValidationError'' ''title'')
          | _ \<Rightarrow> Inl (Exc ''ValidationError'' ''title''))
     | _ \<Rightarrow> Inl (Exc ''ValidationError'' ''TitleDecision''))"

definition recent_messages :: "dict list \<Rightarrow> dict list" where
  "recent_messages ms = (if 6 < length ms then drop (length ms - 6) ms else ms)"

definition last_user_text :: "dict list \<Rightarrow> string" where
  "last_user_text ms =
     (case find (\<lambda>m. dget m ''role'' = JStr ''user'') (rev ms) of
        None \<Rightarrow> []
      | Some m \<Rightarrow> py_str (dget_def m ''content'' (JStr [])))"

text \<open>A cleaned text has no blank but the space, so its words are what stands between spaces.\<close>

definition fallback_title :: "dict list \<Rightarrow> string" where
  "fallback_title ms =
     (let words = join_str '' '' (take 6 (words_of (clean_text_for_title (last_user_text ms)))) in
      if last_user_text ms = [] \<or> words = [] then ''New Conversation'' else words)"

definition generate_chat_title :: "title_env \<Rightarrow> dict list \<Rightarrow> string option \<Rightarrow> string chat_io" where
  "generate_chat_title E messages key =
     (let curated = recent_messages messages in
      catchW
        (bindW (ti_complete E (ti_model E) key (ti_host E)
             (curated @ [[(''role'', JStr ''user''), (''content'', JStr CHAT_TITLE_PROMPT)]])) (\<lambda>content.
         lift (bindE (title_decision E content) (\<lambda>t. Inr (clean_text_for_title t)))))
        (\<lambda>e. ret (fallback_title curated)))"

subsection \<open>Waiting for an answer\<close>

definition pause :: "chat_env \<Rightarrow> unit chat_io" where
  "pause E c = (Inr (), c\<lparr>ch_db := ce_others E (ch_waits c) (ch_db c), ch_waits := Suc (ch_waits c)\<rparr>)"

definition title_messages :: "conversation_row \<Rightarrow> dict list" where
  "title_messages cv =
     (case build_llm_messages_for_title_generation (history_of cv) of Inr ms \<Rightarrow> ms | Inl e \<Rightarrow> [])"

definition answered :: "dict list \<Rightarrow> bool" where
  "answered ms \<longleftrightarrow> list_ex (\<lambda>m. dget m ''role'' = JStr ''assistant''
     \<and> py_strip (py_str (dget_def m ''content'' (JStr []))) \<noteq> []) ms"

text \<open>The messages, or None when the conversation has a title by then.\<close>

fun await_answer :: "nat \<Rightarrow> title_env \<Rightarrow> string \<Rightarrow> dict list \<Rightarrow> dict list option chat_io" where
  "await_answer 0 E cid ms =
     ret (Some (case find (\<lambda>m. dget m ''role'' = JStr ''user'') (rev ms) of
       None \<Rightarrow> [] | Some m \<Rightarrow> if m = [] then [] else [m]))"
| "await_answer (Suc n) E cid ms =
     bindW (get_conversation_row (ti_chat E) cid) (\<lambda>cv.
     if (case cv_title cv of Some (c # cs) \<Rightarrow> True | _ \<Rightarrow> False) then ret None
     else if answered (title_messages cv) then ret (Some (title_messages cv))
     else bindW (pause (ti_chat E)) (\<lambda>_. await_answer n E cid (title_messages cv)))"

definition store_generated_title :: "title_env \<Rightarrow> string \<Rightarrow> string \<Rightarrow> unit chat_io" where
  "store_generated_title E cid generated =
     (let title = take 60 (clean_text_for_title generated) in
      if title = [] then ret ()
      else bindW (set_title (ti_chat E) cid title) (\<lambda>done.
           if done then ti_announce E cid title else ret ()))"

definition generate_and_store_title :: "title_env \<Rightarrow> string \<Rightarrow> unit chat_io" where
  "generate_and_store_title E cid =
     catchW
       (let key = get_api_key_for_provider (ti_config E) (provider_of (ti_model E)) in
        bindW (await_answer 16 E cid []) (\<lambda>found.
        case found of
          None \<Rightarrow> ret ()
        | Some ms \<Rightarrow> bindW (generate_chat_title E ms key) (store_generated_title E cid)))
       (\<lambda>e. ret ())"

subsection \<open>The title that is stored\<close>

definition title_char :: "char \<Rightarrow> bool" where
  "title_char c \<longleftrightarrow> c \<notin> set PUNCTUATION \<and> (is_space c \<longrightarrow> c = CHR '' '')"

lemma collapse_chars: "c \<in> set (collapse_blanks b t) \<Longrightarrow> is_space c \<Longrightarrow> c = CHR '' ''"
  by (induction b t rule: collapse_blanks.induct) (auto split: if_splits)

lemma clean_chars: "c \<in> set (clean_text_for_title t) \<Longrightarrow> title_char c"
  using strip_chars by (fastforce simp: clean_text_for_title_def title_char_def dest: collapse_chars)

text \<open>A service nobody else uses meanwhile, and a model and an announcement that leave the tables alone.\<close>

definition title_quiet :: "title_env \<Rightarrow> bool" where
  "title_quiet E \<longleftrightarrow> still (ti_chat E) \<and> (\<forall>m k h ms c. ch_db (snd (ti_complete E m k h ms c)) = ch_db c) \<and>
     (\<forall>i t c. ch_db (snd (ti_announce E i t c)) = ch_db c)"

interpretation untitled: state_moves ch_db "(=)"
  by unfold_locales auto

lemma untitled_row: "still E \<Longrightarrow> untitled.moves (get_conversation_row E cid)"
  unfolding get_conversation_row_def by (rule untitled.moves_bind) (simp_all add: untitled.moves_def still_query)

lemma untitled_wait: "title_quiet E \<Longrightarrow> untitled.moves (await_answer n E cid ms)"
proof (induction n arbitrary: ms)
  case 0
  show ?case unfolding await_answer.simps by (rule untitled.moves_ret)
next
  case (Suc n)
  have "still (ti_chat E)" using Suc.prems by (simp add: title_quiet_def)
  moreover from this have "untitled.moves (pause (ti_chat E))" by (simp add: untitled.moves_def pause_def still_def)
  ultimately show ?case unfolding await_answer.simps using Suc by (auto intro!: untitled.moves_bind untitled_row)
qed

lemma untitled_generate: "title_quiet E \<Longrightarrow> untitled.moves (generate_chat_title E ms key)"
  unfolding generate_chat_title_def Let_def
  by (intro untitled.moves_catch untitled.moves_bind) (simp_all add: untitled.moves_def title_quiet_def)

lemma stored_title:
  assumes "title_quiet E"
  shows "db_conversations (ch_db (snd (store_generated_title E cid g c))) = db_conversations (ch_db c) \<or>
    (\<exists>old t. old \<in> set (db_conversations (ch_db c)) \<and> cv_id old = cid \<and>
       py_strip (case cv_title old of None \<Rightarrow> [] | Some x \<Rightarrow> x) = [] \<and> t \<noteq> [] \<and> length t \<le> 60 \<and> list_all title_char t \<and>
       db_conversations (ch_db (snd (store_generated_title E cid g c))) =
         map (\<lambda>r. if cv_id r = cid then old\<lparr>cv_title := Some t, cv_updated := db_now (ch_db c)\<rparr> else r) (db_conversations (ch_db c)))"
proof -
  let ?t = "take 60 (clean_text_for_title g)"
  have E: "still (ti_chat E)" and says: "\<And>i t c. ch_db (snd (ti_announce E i t c)) = ch_db c"
    using assms by (simp_all add: title_quiet_def)
  show ?thesis
  proof (cases "?t = [] \<or> get_row cv_id cid (db_conversations (ch_db c)) = Inl does_not_exist")
    case True
    then show ?thesis
      by (auto simp: store_generated_title_def Let_def set_title_def get_conversation_row_def bindW_def still_query[OF E])
  next
    case False
    then obtain old where old: "find (\<lambda>r. cv_id r = cid) (db_conversations (ch_db c)) = Some old"
      by (auto simp: get_row_def split: option.splits)
    then have in_table: "old \<in> set (db_conversations (ch_db c))" "cv_id old = cid" by (auto simp: find_Some_iff)
    let ?blank = "py_strip (case cv_title old of None \<Rightarrow> [] | Some x \<Rightarrow> x) = []"
    have steps: "snd (set_title (ti_chat E) cid ?t c) =
        (if ?blank \<and> py_strip ?t \<noteq> [] then c\<lparr>ch_db := (ch_db c)\<lparr>db_conversations := map (\<lambda>r. if cv_id r = cid
           then old\<lparr>cv_title := Some (py_strip ?t), cv_updated := db_now (ch_db c)\<rparr> else r) (db_conversations (ch_db c))\<rparr>,
           ch_waits := Suc (Suc (ch_waits c))\<rparr> else c\<lparr>ch_waits := Suc (ch_waits c)\<rparr>)"
      using in_table(2)
      by (simp add: set_title_def get_conversation_row_def get_row_def old bindW_def still_query[OF E] save_conversation_def
          change_db_def still_wait[OF E])
    have db: "ch_db (snd (store_generated_title E cid g c)) = ch_db (snd (set_title (ti_chat E) cid ?t c))"
      using False says by (auto simp: store_generated_title_def Let_def bindW_def split: prod.split sum.split)
    have chars: "list_all title_char (py_strip ?t)"
      using strip_chars clean_chars by (fastforce simp: list_all_iff dest: in_set_takeD)
    have "length (py_strip ?t) \<le> length ?t" by (rule strip_length)
    then have "length (py_strip ?t) \<le> 60" by (rule order_trans) simp
    note short = this
    show ?thesis
    proof (cases "?blank \<and> py_strip ?t \<noteq> []")
      case True
      then have "snd (set_title (ti_chat E) cid ?t c) = c\<lparr>ch_db := (ch_db c)\<lparr>db_conversations := map (\<lambda>r. if cv_id r = cid
           then old\<lparr>cv_title := Some (py_strip ?t), cv_updated := db_now (ch_db c)\<rparr> else r) (db_conversations (ch_db c))\<rparr>,
           ch_waits := Suc (Suc (ch_waits c))\<rparr>" using steps by simp
      then show ?thesis unfolding db
        by (intro disjI2 exI[of _ old] exI[of _ "py_strip ?t"]) (use True in_table chars short in simp)
    next
      case False
      with steps have "ch_db (snd (set_title (ti_chat E) cid ?t c)) = ch_db c" by simp
      then show ?thesis unfolding db by simp
    qed
  qed
qed

text \<open>
  A generated title is stored only over a blank one, and it is clean: not empty, at most sixty characters, on one
  line and without punctuation, whatever the model answers and whether or not it answers. Nothing else in the
  table of conversations changes, and the task ends without an exception unless it is cancelled.
\<close>

theorem generated_title_is_clean:
  assumes "title_quiet E" and "generate_and_store_title E cid c = (res, c')"
  shows "(res = Inr () \<or> (\<exists>e. res = Inl e \<and> cancelled e)) \<and>
    (db_conversations (ch_db c') = db_conversations (ch_db c) \<or>
     (\<exists>old t. old \<in> set (db_conversations (ch_db c)) \<and> cv_id old = cid \<and>
        py_strip (case cv_title old of None \<Rightarrow> [] | Some x \<Rightarrow> x) = [] \<and> t \<noteq> [] \<and> length t \<le> 60 \<and> list_all title_char t \<and>
        db_conversations (ch_db c') =
          map (\<lambda>r. if cv_id r = cid then old\<lparr>cv_title := Some t, cv_updated := db_now (ch_db c)\<rparr> else r) (db_conversations (ch_db c))))"
proof
  show "res = Inr () \<or> (\<exists>e. res = Inl e \<and> cancelled e)"
    using assms(2) by (auto simp: generate_and_store_title_def catchW_def Let_def split: prod.splits sum.splits if_splits)
next
  define key where "key = get_api_key_for_provider (ti_config E) (provider_of (ti_model E))"
  let ?body = "bindW (await_answer 16 E cid []) (\<lambda>found. case found of None \<Rightarrow> ret ()
      | Some ms \<Rightarrow> bindW (generate_chat_title E ms key) (store_generated_title E cid))"
  have same: "c' = snd (?body c)"
    using assms(2) by (auto simp: generate_and_store_title_def catchW_def Let_def key_def split: prod.splits sum.splits if_splits)
  obtain found c1 where 1: "await_answer 16 E cid [] c = (found, c1)" by (meson surj_pair)
  have db1: "ch_db c1 = ch_db c" using untitled.moves_eq[OF untitled_wait[OF assms(1)] 1] by simp
  show "db_conversations (ch_db c') = db_conversations (ch_db c) \<or>
     (\<exists>old t. old \<in> set (db_conversations (ch_db c)) \<and> cv_id old = cid \<and>
        py_strip (case cv_title old of None \<Rightarrow> [] | Some x \<Rightarrow> x) = [] \<and> t \<noteq> [] \<and> length t \<le> 60 \<and> list_all title_char t \<and>
        db_conversations (ch_db c') =
          map (\<lambda>r. if cv_id r = cid then old\<lparr>cv_title := Some t, cv_updated := db_now (ch_db c)\<rparr> else r) (db_conversations (ch_db c)))"
  proof (cases "\<exists>ms. found = Inr (Some ms)")
    case False
    then have "c' = c1" using same 1 by (auto simp: bindW_def split: sum.splits option.splits)
    with db1 show ?thesis by simp
  next
    case True
    then obtain ms where ms: "found = Inr (Some ms)" by blast
    obtain g c2 where 2: "generate_chat_title E ms key c1 = (g, c2)" by (meson surj_pair)
    have db2: "ch_db c2 = ch_db c" using untitled.moves_eq[OF untitled_generate[OF assms(1)] 2] db1 by simp
    show ?thesis
    proof (cases g)
      case (Inl e)
      then have "c' = c2" using same 1 2 ms by (simp add: bindW_def)
      with db2 show ?thesis by simp
    next
      case (Inr title)
      then have "c' = snd (store_generated_title E cid title c2)" using same 1 2 ms by (simp add: bindW_def)
      then show ?thesis using stored_title[OF assms(1), of cid title c2] unfolding db2 by simp
    qed
  qed
qed


text \<open>A model that cannot be reached, and a conversation with one answer.\<close>

definition demo_titles :: title_env where
  "demo_titles = \<lparr>ti_chat = \<lparr>ce_fails = (\<lambda>_. None), ce_others = (\<lambda>_ db. db), ce_uuid = (\<lambda>_. []), ce_parse = Inr\<rparr>,
     ti_complete = (\<lambda>_ _ _ _. raise (Exc ''APIConnectionError'' [])), ti_loads = (\<lambda>_. Inl (Exc ''ValidationError'' [])),
     ti_config = (\<lambda>_. Inr None), ti_announce = (\<lambda>_ _. ret ()), ti_model = ''gpt'', ti_host = None\<rparr>"

definition demo_untitled :: chat where
  "demo_untitled = \<lparr>ch_db = \<lparr>db_conversations = [\<lparr>cv_id = ''c'', cv_title = None, cv_user = Some ''u'', cv_active = True,
       cv_metadata = JNull, cv_messages = Some
         [[(''type'', JStr ''user''), (''content'', JStr (''Why is the  pod'' @ title_newline @ ''failing?''))],
          [(''type'', JStr ''assistant''), (''content'', JStr ''It has no image.'')]],
       cv_created = 0, cv_updated = 0\<rparr>], db_messages = [], db_operations = [], db_now = 9\<rparr>,
     ch_usage = [], ch_message = None, ch_waits = 0, ch_ids = 0\<rparr>"

lemma demo_titled:
  "map cv_title (db_conversations (ch_db (snd (generate_and_store_title demo_titles ''c'' demo_untitled)))) = [Some ''Why is the pod failing'']"
  by code_simp

lemma generated_title_is_clean_witness:
  "\<exists>old t. old \<in> set (db_conversations (ch_db demo_untitled)) \<and> t \<noteq> [] \<and> length t \<le> 60 \<and> list_all title_char t \<and>
     map cv_title (db_conversations (ch_db (snd (generate_and_store_title demo_titles ''c'' demo_untitled)))) = [Some t]"
proof -
  have "title_quiet demo_titles" by (simp add: title_quiet_def still_def demo_titles_def)
  moreover obtain res c' where run: "generate_and_store_title demo_titles ''c'' demo_untitled = (res, c')" by (meson surj_pair)
  moreover have rows: "db_conversations (ch_db c') \<noteq> db_conversations (ch_db demo_untitled)"
    using demo_titled run by (auto simp: demo_untitled_def)
  ultimately obtain old t where "old \<in> set (db_conversations (ch_db demo_untitled))" "t \<noteq> []" "length t \<le> 60" "list_all title_char t"
      "db_conversations (ch_db c') = map (\<lambda>r. if cv_id r = ''c''
         then old\<lparr>cv_title := Some t, cv_updated := db_now (ch_db demo_untitled)\<rparr> else r) (db_conversations (ch_db demo_untitled))"
    using generated_title_is_clean[of demo_titles "''c''" demo_untitled res c'] by blast
  then show ?thesis using run by (intro exI[of _ old] exI[of _ t]) (simp add: demo_untitled_def)
qed

end
