(* ===== verification/Lifespan.thy ===== *)
theory Lifespan
  imports AgentApi Verifier MemorySeed McpClient
begin

text \<open>
  \<open>asgi.py\<close>: how the engine starts and stops, and the bridge from the recovery worker of
  \<open>services/mutation_verifier.py\<close> to the chat and its stream. With it, what the start-up sets up: the rate
  limiter (\<open>services/limiter.py\<close>, \<open>config/rate_limit.py\<close>), the checkpointer (\<open>services/checkpointer.py\<close>) and the
  database (\<open>config/database.py\<close>). The libraries behind them are parameters.
\<close>

subsection \<open>What a recovered mutation leaves behind\<close>

definition recovered_event :: "bool \<Rightarrow> string \<Rightarrow> string" where
  "recovered_event passed status =
     (if passed then ''mutation.verified''
      else if status = ''needs_review'' then ''mutation.manual_review_required''
      else if status = ''failed'' then ''mutation.verification_failed''
      else ''mutation.inconclusive'')"

definition recovered_text :: "bool \<Rightarrow> string \<Rightarrow> string" where
  "recovered_text passed status =
     (if passed then ''Mutation completed and background verification passed.''
      else if status = ''needs_review''
      then ''Mutation verification exhausted its bounded retry budget and requires manual review.''
      else ''Background mutation verification finished with status: '' @ status @ ''.'')"

definition reported_status :: "dict \<Rightarrow> string" where
  "reported_status result = py_str (por (dget result ''status'') (JStr ''inconclusive''))"

definition recovered_payload :: "mutation_operation \<Rightarrow> dict \<Rightarrow> int \<Rightarrow> dict" where
  "recovered_payload r result now =
     [(''type'', JStr (recovered_event (truthy (dget result ''passed'')) (reported_status result))),
      (''run_id'', JStr (op_run_id r)), (''operation_id'', JStr (op_id r)), (''call_id'', JStr (op_call_id r)),
      (''tool'', JStr (op_tool r)), (''verification_status'', JStr (reported_status result)),
      (''evidence'', por (dget result ''evidence'') (JDict [])), (''timestamp'', JInt now)]"

definition tool_outcome :: "bool \<Rightarrow> string" where
  "tool_outcome passed = (if passed then ''tool.result'' else ''tool.error'')"

definition recovered_tool_payload :: "mutation_operation \<Rightarrow> bool \<Rightarrow> string \<Rightarrow> int \<Rightarrow> dict" where
  "recovered_tool_payload r passed text now =
     [(''type'', JStr (tool_outcome passed)), (''run_id'', JStr (op_run_id r)), (''call_id'', JStr (op_call_id r)),
      (''tool'', JStr (op_tool r)),
      (if passed then (''result'', JList [text_block text]) else (''error'', JStr text)),
      (''timestamp'', JInt now)]"

definition recovered_completion :: "mutation_operation \<Rightarrow> string \<Rightarrow> int \<Rightarrow> dict" where
  "recovered_completion r status now =
     [(''type'', JStr ''workflow_complete''), (''run_id'', JStr (op_run_id r)),
      (''result'', JDict [(''done'', JBool True), (''operation_id'', JStr (op_id r)),
         (''verification_status'', JStr status)]),
      (''status'', JStr ''recovered''), (''timestamp'', JInt now)]"

definition store_recovered :: "agent_env \<Rightarrow> mutation_operation \<Rightarrow> bool \<Rightarrow> string \<Rightarrow> unit agent_io" where
  "store_recovered V r passed text =
     (if truthy (conversation_id r) \<and> op_call_id r \<noteq> [] then
        catchW (in_chat (update_tool_segment_status (av_chat V) (py_str (conversation_id r)) (JStr (op_call_id r))
            (if passed then ''completed'' else ''error'') (if passed then JNull else JStr text)
            (JList [text_block text]) True))
          (\<lambda>e. ret ())
      else ret ())"

definition publish_now :: "agent_env \<Rightarrow> string \<Rightarrow> string \<Rightarrow> (int \<Rightarrow> dict) \<Rightarrow> unit agent_io" where
  "publish_now V channel event payload =
     bindW (now_ms V) (\<lambda>t. in_redis (publish_event (av_redis V) channel event (payload t)))"

definition publish_recovered_mutation :: "agent_env \<Rightarrow> mutation_operation \<Rightarrow> dict \<Rightarrow> unit agent_io" where
  "publish_recovered_mutation V r result =
     (let passed = truthy (dget result ''passed''); status = reported_status result;
          text = recovered_text passed status; channel = run_channel (op_run_id r)
      in bindW (store_recovered V r passed text) (\<lambda>_.
         if op_run_id r = [] then ret ()
         else bindW (if truthy (conversation_id r)
                then in_redis (remember_run_conversation (av_redis V) (op_run_id r) (Some (py_str (conversation_id r))))
                else ret ()) (\<lambda>_.
           bindW (publish_now V channel (recovered_event passed status) (recovered_payload r result)) (\<lambda>_.
           bindW (publish_now V channel (tool_outcome passed) (recovered_tool_payload r passed text)) (\<lambda>_.
           publish_now V channel ''workflow_complete'' (recovered_completion r status))))))"

subsection \<open>The worker\<close>

text \<open>The endpoints' state is the environment of the worker's world; the journal is the same table.\<close>

definition in_engine :: "'a agent_io \<Rightarrow> (agent_api, 'a) io" where
  "in_engine m w =
     (case m ((wenv w)\<lparr>aa_journal := wj w\<rparr>) of (r, s) \<Rightarrow> (r, w\<lparr>wj := aa_journal s, wenv := s\<rparr>))"

definition on_reconciled :: "agent_env \<Rightarrow> mutation_operation \<Rightarrow> dict \<Rightarrow> (agent_api, unit) io" where
  "on_reconciled V r result = in_engine (publish_recovered_mutation V r result)"

text \<open>
  Between two passes the worker waits, up to the interval, for the flag that stops it. How the wait ends, and
  what happened meanwhile, is a parameter of every pass, as are the values of \<open>uuid4()\<close> it draws. Nothing is
  awaited between the end of the wait and the test at the head of the loop, so the test finds what the wait found;
  a worker that is stopped before its first pass is cancelled, and does nothing.
\<close>

datatype wait_end = Interval_over | Stop_set | Wait_cancelled

datatype worker_end = Still_running | Returned | Raised py_exc

definition cancelled_error_exc :: py_exc where
  "cancelled_error_exc = Exc ''CancelledError'' []"

text \<open>Every exception of a pass but a cancellation is logged.\<close>

definition pass_failure :: "nat py \<Rightarrow> py_exc option" where
  "pass_failure outcome = (case outcome of Inl e \<Rightarrow> if cancelled e then Some e else None | Inr n \<Rightarrow> None)"

fun run_worker ::
  "(string list \<Rightarrow> 'e world \<Rightarrow> (nat py \<times> 'e world) option)
     \<Rightarrow> (string list \<times> ('e world \<Rightarrow> wait_end \<times> 'e world)) list \<Rightarrow> 'e world
     \<Rightarrow> (worker_end \<times> 'e world) option" where
  "run_worker reconcile [] w = Some (Still_running, w)"
| "run_worker reconcile ((uuids, pause) # passes) w =
     (case reconcile uuids w of
        None \<Rightarrow> None
      | Some (outcome, w1) \<Rightarrow>
          (case pass_failure outcome of
             Some e \<Rightarrow> Some (Raised e, w1)
           | None \<Rightarrow>
               (case pause w1 of
                  (Interval_over, w2) \<Rightarrow> run_worker reconcile passes w2
                | (Stop_set, w2) \<Rightarrow> Some (Returned, w2)
                | (Wait_cancelled, w2) \<Rightarrow> Some (Raised cancelled_error_exc, w2))))"

definition recovery_worker ::
  "'e mcp \<Rightarrow> (string \<Rightarrow> json py) \<Rightarrow> yaml \<Rightarrow> settings
     \<Rightarrow> (mutation_operation \<Rightarrow> dict \<Rightarrow> ('e, unit) io) option
     \<Rightarrow> (string list \<times> ('e world \<Rightarrow> wait_end \<times> 'e world)) list \<Rightarrow> 'e world
     \<Rightarrow> (worker_end \<times> 'e world) option" where
  "recovery_worker M loads Y S callback passes w =
     run_worker (reconcile_once M loads Y S callback) passes (start_recovery w)"


subsection \<open>The process\<close>

datatype checkpointer = Memory_saver | Postgres_saver "string option"

record 'x process =
  ps_outside :: 'x
  ps_world :: "agent_api world"
  ps_memory :: memory
  ps_database :: bool
  ps_limiter_client :: bool
  ps_limiter_ready :: bool
  ps_checkpointer :: "checkpointer option"
  ps_worker :: bool

text \<open>
  What the libraries do: the MCP client, \<open>asyncio.sleep\<close>, Tortoise, the Redis client and FastAPILimiter, the
  Postgres connection and its saver. They see and change the outside of the process.
\<close>

record 'x services =
  sv_mcp :: "'x mcp_env"
  sv_sleep :: "int \<Rightarrow> ('x, unit) st"
  sv_open_database :: "('x, unit) st"
  sv_close_database :: "('x, unit) st"
  sv_redis_client :: "unit py"
  sv_redis_ping :: "('x, unit) st"
  sv_limiter_init :: "('x, unit) st"
  sv_redis_close :: "('x, unit) st"
  sv_connect :: "string option \<Rightarrow> ('x, unit) st"
  sv_setup :: "('x, unit) st"
  sv_close_saver :: "checkpointer \<Rightarrow> ('x, unit) st"
  sv_sha :: "string \<Rightarrow> string"
  sv_others :: "memory \<Rightarrow> memory"
  sv_memory_available :: bool

definition outside :: "('x, 'a) st \<Rightarrow> ('x process, 'a) st" where
  "outside m p = (case m (ps_outside p) of (r, x) \<Rightarrow> (r, p\<lparr>ps_outside := x\<rparr>))"

definition become :: "('x process \<Rightarrow> 'x process) \<Rightarrow> ('x process, unit) st" where
  "become f p = (Inr (), f p)"

subsection \<open>The MCP server\<close>

definition MCP_RETRY_ATTEMPTS :: nat where
  "MCP_RETRY_ATTEMPTS = 5"

definition MCP_RETRY_DELAY :: int where
  "MCP_RETRY_DELAY = 3"

definition unreachable :: "string \<Rightarrow> py_exc" where
  "unreachable e = Exc ''RuntimeError''
     (''MCP server unreachable after '' @ int_str (int MCP_RETRY_ATTEMPTS) @ '' attempts. Last error: '' @ e)"

fun attempt_mcp :: "'x services \<Rightarrow> nat \<Rightarrow> string \<Rightarrow> ('x, unit) st" where
  "attempt_mcp V 0 e = raise (unreachable e)"
| "attempt_mcp V (Suc left) e =
     bindW (catchW (bindW (me_list (sv_mcp V)) (\<lambda>tools. ret None)) (\<lambda>e'. ret (Some e'))) (\<lambda>failed.
     case failed of
       None \<Rightarrow> ret ()
     | Some e' \<Rightarrow> bindW (if left = 0 then ret () else sv_sleep V MCP_RETRY_DELAY) (\<lambda>_. attempt_mcp V left (exc_msg e')))"

definition verify_mcp_connection :: "'x services \<Rightarrow> ('x, unit) st" where
  "verify_mcp_connection V = attempt_mcp V MCP_RETRY_ATTEMPTS ''None''"

subsection \<open>The database, the rate limiter and the checkpointer\<close>

definition init_db :: "'x services \<Rightarrow> ('x process, unit) st" where
  "init_db V = bindW (outside (sv_open_database V)) (\<lambda>_. become (\<lambda>p. p\<lparr>ps_database := True\<rparr>))"

definition close_db_connection :: "'x services \<Rightarrow> ('x process, unit) st" where
  "close_db_connection V = bindW (outside (sv_close_database V)) (\<lambda>_. become (\<lambda>p. p\<lparr>ps_database := False\<rparr>))"

definition init_limiter :: "settings \<Rightarrow> 'x services \<Rightarrow> ('x process, unit) st" where
  "init_limiter S V =
     (if \<not> RATE_LIMITING_ENABLED S then ret ()
      else catchW
        (bindW (lift (sv_redis_client V)) (\<lambda>_. bindW (become (\<lambda>p. p\<lparr>ps_limiter_client := True\<rparr>)) (\<lambda>_.
         bindW (outside (sv_redis_ping V)) (\<lambda>_. bindW (outside (sv_limiter_init V)) (\<lambda>_.
         become (\<lambda>p. p\<lparr>ps_limiter_ready := True\<rparr>))))))
        (\<lambda>e. ret ()))"

definition close_limiter :: "'x services \<Rightarrow> ('x process, unit) st" where
  "close_limiter V p =
     (if ps_limiter_client p
      then bindW (outside (sv_redis_close V)) (\<lambda>_. become (\<lambda>p. p\<lparr>ps_limiter_client := False\<rparr>)) p
      else (Inr (), p))"

definition limiter_client :: "settings \<Rightarrow> 'x services \<Rightarrow> ('x process, bool) st" where
  "limiter_client S V p =
     bindW (if \<not> ps_limiter_client p \<and> RATE_LIMITING_ENABLED S then init_limiter S V else ret ())
       (\<lambda>_ p. (Inr (ps_limiter_client p), p)) p"

text \<open>Which dependency the limited routes carry is decided once, when the module is imported.\<close>

datatype rate_limit = Rate_limiter int int | No_limit

definition rate_limit_dependency :: "settings \<Rightarrow> rate_limit" where
  "rate_limit_dependency S =
     (if RATE_LIMITING_ENABLED S then Rate_limiter (RATE_LIMIT_PER_MINUTE S) 60 else No_limit)"

definition init_graph_checkpointer :: "settings \<Rightarrow> 'x services \<Rightarrow> ('x process, unit) st" where
  "init_graph_checkpointer S V p =
     (if ps_checkpointer p \<noteq> None then (Inr (), p)
      else if \<not> ENABLE_POSTGRES_CHECKPOINTER S then (Inr (), p\<lparr>ps_checkpointer := Some Memory_saver\<rparr>)
      else catchW
        (bindW (outside (sv_connect V (CHECKPOINTER_DATABASE_URL S))) (\<lambda>_. bindW (outside (sv_setup V)) (\<lambda>_.
         become (\<lambda>p. p\<lparr>ps_checkpointer := Some (Postgres_saver (CHECKPOINTER_DATABASE_URL S))\<rparr>))))
        (\<lambda>e. become (\<lambda>p. p\<lparr>ps_checkpointer := Some Memory_saver\<rparr>)) p)"

definition close_graph_checkpointer :: "'x services \<Rightarrow> ('x process, unit) st" where
  "close_graph_checkpointer V p =
     (case (case ps_checkpointer p of None \<Rightarrow> (Inr (), p) | Some c \<Rightarrow> outside (sv_close_saver V c) p) of
        (r, p1) \<Rightarrow> (r, p1\<lparr>ps_checkpointer := None\<rparr>))"

text \<open>
  The saver of a graph: the one of the process, or a memory of its own. A graph is built for every run, so a
  memory of its own ends with the run: \<open>saved_state\<close> is what a run finds of the earlier ones of its thread.
\<close>

datatype saver = Shared checkpointer | Fresh_memory

definition get_checkpointer :: "'x process \<Rightarrow> saver" where
  "get_checkpointer p = (case ps_checkpointer p of None \<Rightarrow> Fresh_memory | Some c \<Rightarrow> Shared c)"

definition compile_graph :: "settings \<Rightarrow> 'x process \<Rightarrow> saver" where
  "compile_graph S p = (if ENABLE_POSTGRES_CHECKPOINTER S then get_checkpointer p else Fresh_memory)"

definition saved_state :: "(checkpointer \<Rightarrow> string \<Rightarrow> 'st option) \<Rightarrow> saver \<Rightarrow> string \<Rightarrow> 'st option" where
  "saved_state store s thread = (case s of Shared c \<Rightarrow> store c thread | Fresh_memory \<Rightarrow> None)"

subsection \<open>Start and stop\<close>

definition start_worker :: "('x process, unit) st" where
  "start_worker = become (\<lambda>p. p\<lparr>ps_world := start_recovery (ps_world p), ps_worker := True\<rparr>)"

text \<open>The flag is set, the task cancelled and waited for; only its cancellation is expected.\<close>

definition stop_worker :: "('x process, unit) st" where
  "stop_worker = become (\<lambda>p. p\<lparr>ps_worker := False\<rparr>)"

definition in_memory :: "'a mem \<Rightarrow> ('x process, 'a) st" where
  "in_memory m p = (case m (ps_memory p) of (r, db) \<Rightarrow> (r, p\<lparr>ps_memory := db\<rparr>))"

definition missing_key :: py_exc where
  "missing_key = Exc ''RuntimeError'' (''INTERNAL_API_KEY must be set when MEMORY_ENABLED=true. ''
     @ ''Generate with: openssl rand -base64 32. ''
     @ ''Set MEMORY_ENABLED=false to run without the memory system.'')"

definition lifespan_start :: "settings \<Rightarrow> 'x services \<Rightarrow> ('x process, unit) st" where
  "lifespan_start S V =
     (if MEMORY_ENABLED S \<and> INTERNAL_API_KEY S = [] then raise missing_key
      else bindW (outside (verify_mcp_connection V)) (\<lambda>_. bindW (init_db V) (\<lambda>_.
           bindW (if MUTATION_CONTROL_ENABLED S then start_worker else ret ()) (\<lambda>_.
           bindW (init_limiter S V) (\<lambda>_. bindW (init_graph_checkpointer S V) (\<lambda>_.
           if MEMORY_ENABLED S
           then catchW (in_memory (seed_memory_stores (sv_sha V) (sv_others V) (sv_memory_available V))) (\<lambda>e. ret ())
           else ret ()))))))"

definition lifespan_stop :: "'x services \<Rightarrow> ('x process, unit) st" where
  "lifespan_stop V p =
     bindW (if ps_worker p then stop_worker else ret ()) (\<lambda>_.
     bindW (close_db_connection V) (\<lambda>_. bindW (close_limiter V) (\<lambda>_. close_graph_checkpointer V))) p"

end
