(* ===== verification/LifespanProps.thy ===== *)
theory LifespanProps
  imports Lifespan AgentApiProps VerifierProps
begin

text \<open>
  What the start of the engine and the recovery worker guarantee.
\<close>

subsection \<open>A recovered mutation ends the stream of its run\<close>

lemma nothing_stripped:
  "map_of p ''args'' = None \<Longrightarrow> map_of p ''tools'' = None \<Longrightarrow> strip_integration_meta_keys p = Inr p"
  by (simp add: strip_integration_meta_keys_def)

lemma recovered_not_stripped [simp]:
  "strip_integration_meta_keys (recovered_payload r result t) = Inr (recovered_payload r result t)"
  "strip_integration_meta_keys (recovered_tool_payload r passed text t) = Inr (recovered_tool_payload r passed text t)"
  "strip_integration_meta_keys (recovered_completion r status t) = Inr (recovered_completion r status t)"
  by (rule nothing_stripped; simp add: recovered_payload_def recovered_tool_payload_def recovered_completion_def)+

lemma completion_ends: "is_terminal_payload (recovered_completion r status t)"
  by (simp add: is_terminal_payload_def recovered_completion_def dget_def_def)

lemma published_now:
  assumes "av_redis V = calm" and "\<And>t. strip_integration_meta_keys (p t) = Inr (p t)"
  obtains s' n t where "publish_now V c e p s = (Inr (), s')"
    and "rd_published (aa_redis s') = rd_published (aa_redis s) @ [(c, sse_format e (p t) (Some n))]"
proof -
  define t where "t = av_clock V (aa_ticks s)"
  obtain s' n where s': "in_redis (publish_event calm c e (p t)) (s\<lparr>aa_ticks := Suc (aa_ticks s)\<rparr>) = (Inr (), s')"
    and "rd_published (aa_redis s') = rd_published (aa_redis (s\<lparr>aa_ticks := Suc (aa_ticks s)\<rparr>)) @ [(c, sse_format e (p t) (Some n))]"
    using in_redis_publish[OF assms(2)] by metis
  moreover from s' have "publish_now V c e p s = (Inr (), s')"
    by (simp add: publish_now_def bindW_def now_ms_def assms(1) t_def)
  ultimately show thesis using that by simp
qed

lemma stored_recovered:
  assumes "store_recovered V r passed text s = (x, s1)"
  shows "aa_redis s1 = aa_redis s \<and> (\<forall>e. x = Inl e \<longrightarrow> cancelled e)"
  using assms in_chat_redis
  by (auto simp: store_recovered_def catchW_def split: if_splits prod.splits sum.splits dest!: in_chat_result)



lemma recovered_keeps_journal: "rows.moves (publish_recovered_mutation V r result)"
  unfolding publish_recovered_mutation_def store_recovered_def publish_now_def Let_def
  by (auto intro!: rows.moves_bind rows.moves_catch)

lemma on_reconciled_journal: "wj (snd (on_reconciled V r result w)) = wj w"
  using recovered_keeps_journal[of V r result, unfolded rows.moves_def, rule_format, of "(wenv w)\<lparr>aa_journal := wj w\<rparr>"]
  by (auto simp: on_reconciled_def in_engine_def split: prod.split)

lemma recovered_published:
  assumes "av_redis V = calm" and "op_run_id r \<noteq> []" and "publish_recovered_mutation V r result s = (Inr (), s')"
  shows "ends_with_terminal (run_channel (op_run_id r)) (aa_redis s')"
proof -
  define status where "status = reported_status result"
  define c where "c = run_channel (op_run_id r)"
  from assms(2,3) obtain s1 where fin: "publish_now V c ''workflow_complete'' (recovered_completion r status) s1 = (Inr (), s')"
    unfolding publish_recovered_mutation_def Let_def c_def status_def
    by (auto simp: bindW_Inr)
  obtain s2 n t where sent: "publish_now V c ''workflow_complete'' (recovered_completion r status) s1 = (Inr (), s2)"
    and pub: "rd_published (aa_redis s2) = rd_published (aa_redis s1) @ [(c, sse_format ''workflow_complete'' (recovered_completion r status t) (Some n))]"
    by (rule published_now[OF assms(1) recovered_not_stripped(3)])
  from fin sent have "s2 = s'" by simp
  with pub show ?thesis using completion_ends unfolding ends_with_terminal_def closes_def c_def by blast
qed

lemma remembers: "\<exists>s'. in_redis (remember_run_conversation calm run conv) s = (Inr (), s')"
  by (cases conv; cases "the conv") (simp_all add: in_redis_def remember_run_conversation_def redis_call_calm)

lemma recovered_returns:
  assumes "av_redis V = calm" and "publish_recovered_mutation V r result s = (x, s')"
    and "\<And>passed msg. fst (store_recovered V r passed msg s) = x \<Longrightarrow> x = Inr ()"
  shows "x = Inr ()"
proof -
  define passed where "passed = truthy (dget result ''passed'')"
  define status where "status = reported_status result"
  define msg where "msg = recovered_text passed status"
  define c where "c = run_channel (op_run_id r)"
  obtain y s1 where st: "store_recovered V r passed msg s = (y, s1)" by (cases "store_recovered V r passed msg s")
  have pub: "publish_recovered_mutation V r result s = bindW (store_recovered V r passed msg) (\<lambda>_.
         if op_run_id r = [] then ret ()
         else bindW (if truthy (conversation_id r)
                then in_redis (remember_run_conversation (av_redis V) (op_run_id r) (Some (py_str (conversation_id r))))
                else ret ()) (\<lambda>_.
           bindW (publish_now V c (recovered_event passed status) (recovered_payload r result)) (\<lambda>_.
           bindW (publish_now V c (tool_outcome passed) (recovered_tool_payload r passed msg)) (\<lambda>_.
           publish_now V c ''workflow_complete'' (recovered_completion r status))))) s"
    by (simp add: publish_recovered_mutation_def Let_def passed_def status_def msg_def c_def)
  show ?thesis
  proof (cases y)
    case (Inl e)
    then have "x = Inl e" using assms(2) by (simp add: pub bindW_def st)
    then show ?thesis using assms(3)[of passed msg] st Inl by simp
  next
    case (Inr u)
    obtain s2 where remembered: "(if truthy (conversation_id r)
        then in_redis (remember_run_conversation calm (op_run_id r) (Some (py_str (conversation_id r)))) else ret ()) s1 = (Inr (), s2)"
      using remembers[of "op_run_id r" "Some (py_str (conversation_id r))" s1] by (cases "truthy (conversation_id r)") (auto simp: ret_def)
    obtain s3 n t where one: "publish_now V c (recovered_event passed status) (recovered_payload r result) s2 = (Inr (), s3)"
      by (rule published_now[OF assms(1) recovered_not_stripped(1)])
    obtain s4 n t where two: "publish_now V c (tool_outcome passed) (recovered_tool_payload r passed msg) s3 = (Inr (), s4)"
      by (rule published_now[OF assms(1) recovered_not_stripped(2)])
    obtain s5 n t where three: "publish_now V c ''workflow_complete'' (recovered_completion r status) s4 = (Inr (), s5)"
      by (rule published_now[OF assms(1) recovered_not_stripped(3)])
    show ?thesis
    proof (cases "op_run_id r = []")
      case True
      then show ?thesis using assms(2) by (simp add: pub bindW_def[of "store_recovered V r passed msg"] st Inr)
    next
      case False
      have "publish_recovered_mutation V r result s = (Inr (), s5)"
        unfolding pub bindW_def assms(1) st Inr
        by (simp add: False remembered one two three)
      then show ?thesis using assms(2) by simp
    qed
  qed
qed

text \<open>
  C21: A background verdict ends the stream of its run.  When the recovery worker verifies an abandoned operation of a
  run and the verdict is final (passed, failed or needs review), then, with a Redis that answers and without a
  cancellation, the operation counts as reconciled, the last thing published on the channel of its run is a
  \<open>workflow_complete\<close> that ends the stream, and the report leaves the journal as the verification left it, whatever the
  database does to the write of the tool segment.
\<close>

theorem recovered_run_ends_stream:
  assumes "av_redis V = calm" and "verify M loads Y S oid owner w = Some (Inr result, w1)" and "publishes result"
    and "find_row oid (wj w1) = Some r" and "op_run_id r \<noteq> []"
    and "reconcile_one (Some (on_reconciled V)) (verify M loads Y S oid owner) oid w = Some (Inr n, w')"
  shows "n = 1 \<and> ends_with_terminal (run_channel (op_run_id r)) (aa_redis (wenv w')) \<and> wj w' = wj w1"
proof -
  obtain x s' where p: "publish_recovered_mutation V r result ((wenv w1)\<lparr>aa_journal := wj w1\<rparr>) = (x, s')"
    by (cases "publish_recovered_mutation V r result ((wenv w1)\<lparr>aa_journal := wj w1\<rparr>)")
  then have report: "on_reconciled V r result w1 = (x, w1\<lparr>wj := aa_journal s', wenv := s'\<rparr>)"
    by (simp add: on_reconciled_def in_engine_def)
  have calm: "x = Inr ()"
  proof (rule recovered_returns[OF assms(1) p])
    fix passed msg
    assume stored: "fst (store_recovered V r passed msg ((wenv w1)\<lparr>aa_journal := wj w1\<rparr>)) = x"
    have "\<not> cancelled e" if "x = Inl e" for e
      using that assms(2-4,6) report by (auto simp: reconcile_one_def split: if_splits)
    moreover have "cancelled e" if "x = Inl e" for e
      using stored_recovered[OF surjective_pairing] stored that by blast
    ultimately show "x = Inr ()" by (cases x) auto
  qed
  then have w': "w' = w1\<lparr>wj := aa_journal s', wenv := s'\<rparr>" "n = 1"
    using assms(2-4,6) report by (simp_all add: reconcile_one_def)
  then show ?thesis
    using recovered_published[OF assms(1,5) p[unfolded calm]] on_reconciled_journal[of V r result w1] report by simp
qed

definition idle_mcp :: "agent_api mcp" where
  "idle_mcp = \<lparr>mcp_call = \<lambda>tool args run. ret [(''isError'', JBool True)],
     mcp_sleep = \<lambda>us w. (Inr (), w\<lparr>wmono := wmono w + us, wnow := wnow w + us\<rparr>)\<rparr>"

definition engine_world :: "agent_api world" where
  "engine_world = \<lparr>wj = [passed_row], wnow = 4, wmono = 0, wevents = [], wenv = demo_api\<rparr>"

lemma engine_verify:
  "verify idle_mcp no_json demo_yaml default_settings ''op'' ow engine_world
     = Some (Inr (unclaimed_result passed_row), engine_world)"
  "find_row ''op'' (wj engine_world) = Some passed_row" "publishes (unclaimed_result passed_row)" "op_run_id passed_row = ''run''"
  by (simp_all add: verify_def on_journal_def engine_world_def find_row_def claim_verification_def publishes_def
      unclaimed_result_def summary_result_def bool_result_def dget_def_def
      with_row_def demo_defs VERIFIABLE_def TERMINAL_def)

lemma engine_reconciles:
  "\<exists>w'. reconcile_one (Some (on_reconciled demo_env)) (verify idle_mcp no_json demo_yaml default_settings ''op'' ow) ''op''
     engine_world = Some (Inr 1, w')"
proof -
  obtain x s' where p: "publish_recovered_mutation demo_env passed_row (unclaimed_result passed_row)
      ((wenv engine_world)\<lparr>aa_journal := wj engine_world\<rparr>) = (x, s')" by fastforce
  have quiet: "conversation_id passed_row = JNull" by (simp add: demo_defs)
  have "x = Inr ()"
    by (rule recovered_returns[OF _ p]) (simp_all add: demo_env_def store_recovered_def quiet)
  then show ?thesis using engine_verify p
    by (simp add: reconcile_one_def on_reconciled_def in_engine_def)
qed

lemma recovered_run_ends_stream_witness:
  "\<exists>w'. reconcile_one (Some (on_reconciled demo_env)) (verify idle_mcp no_json demo_yaml default_settings ''op'' ''v'') ''op''
      engine_world = Some (Inr 1, w') \<and> ends_with_terminal ''run:run'' (aa_redis (wenv w'))"
proof -
  obtain w' where w': "reconcile_one (Some (on_reconciled demo_env))
      (verify idle_mcp no_json demo_yaml default_settings ''op'' ''v'') ''op'' engine_world = Some (Inr 1, w')"
    using engine_reconciles by blast
  have "av_redis demo_env = calm" by (simp add: demo_env_def)
  from recovered_run_ends_stream[OF this engine_verify(1,3,2) _ w'] w'
  show ?thesis by (simp add: engine_verify(4) run_channel_def)
qed

subsection \<open>The worker keeps the protocol of the journal and every pass returns\<close>

lemma reconcile_one_cases:
  assumes "reconcile_one callback check oid w = Some (x, w')"
  obtains (quiet) res where "check w = Some (res, w')"
  | (reported) result w1 report r y where "check w = Some (Inr result, w1)" and "callback = Some report"
      and "publishes result" and "find_row oid (wj w1) = Some r" and "report r result w1 = (y, w')"
proof -
  obtain res w1 where c: "check w = Some (res, w1)" using assms by (auto simp: reconcile_one_def split: option.splits)
  show thesis
  proof (cases "\<exists>result report r. res = Inr result \<and> callback = Some report \<and> publishes result \<and> find_row oid (wj w1) = Some r")
    case True
    then obtain result report r where t: "res = Inr result" "callback = Some report" "publishes result" "find_row oid (wj w1) = Some r"
      by blast
    obtain y w2 where y: "report r result w1 = (y, w2)" by (cases "report r result w1")
    then have "w2 = w'" using assms by (cases y) (simp_all add: reconcile_one_def c t)
    then show thesis using reported[of result w1 report r y] c t y by simp
  next
    case False
    then have "w1 = w'" using assms
      by (cases res; cases callback) (auto simp: reconcile_one_def c split: option.splits if_splits)
    then show thesis using quiet c by blast
  qed
qed

lemma reconcile_one_moves:
  assumes "\<And>res w'. check w = Some (res, w') \<Longrightarrow> (jstep hmac uuid S Y)\<^sup>*\<^sup>* (wj w) (wj w')"
    and "\<And>report r result w. callback = Some report \<Longrightarrow> (jstep hmac uuid S Y)\<^sup>*\<^sup>* (wj w) (wj (snd (report r result w)))"
    and "reconcile_one callback check oid w = Some (x, w')"
  shows "(jstep hmac uuid S Y)\<^sup>*\<^sup>* (wj w) (wj w')"
  using assms(3)
proof (cases rule: reconcile_one_cases)
  case (quiet res)
  then show ?thesis by (rule assms(1))
next
  case (reported result w1 report r y)
  then have "(jstep hmac uuid S Y)\<^sup>*\<^sup>* (wj w1) (wj w')" using assms(2)[of report w1 r result] by simp
  with assms(1)[OF reported(1)] show ?thesis by (rule rtranclp_trans)
qed

lemma reconcile_batch_moves:
  assumes "\<And>oid owner w res w'. check oid owner w = Some (res, w') \<Longrightarrow> (jstep hmac uuid S Y)\<^sup>*\<^sup>* (wj w) (wj w')"
    and "\<And>report r result w. callback = Some report \<Longrightarrow> (jstep hmac uuid S Y)\<^sup>*\<^sup>* (wj w) (wj (snd (report r result w)))"
  shows "reconcile_batch callback check ops n w = Some (x, w') \<Longrightarrow> (jstep hmac uuid S Y)\<^sup>*\<^sup>* (wj w) (wj w')"
proof (induction ops arbitrary: n w)
  case (Cons a ops)
  obtain oid owner where a: "a = (oid, owner)" by (cases a)
  obtain y w1 where one: "reconcile_one callback (check oid owner) oid w = Some (y, w1)"
    using Cons.prems by (auto simp: a split: option.splits)
  have first: "(jstep hmac uuid S Y)\<^sup>*\<^sup>* (wj w) (wj w1)"
    by (rule reconcile_one_moves[OF _ _ one]) (fact assms)+
  show ?case
  proof (cases y)
    case (Inl e)
    then show ?thesis using Cons.prems first one by (simp add: a)
  next
    case (Inr k)
    then have "reconcile_batch callback check ops (n + k) w1 = Some (x, w')" using Cons.prems one by (simp add: a)
    from rtranclp_trans[OF first Cons.IH[OF this]] show ?thesis .
  qed
qed simp

lemma start_recovery_moves: "(jstep hmac uuid S Y)\<^sup>*\<^sup>* (wj w) (wj (start_recovery w))"
proof -
  have "wj (start_recovery w) = snd (recover_stale_verifications (wnow w) (snd (recover_stale_executions (wnow w) (wj w))))"
    by (simp add: start_recovery_def on_journal_def split: prod.split)
  then show ?thesis
    by (metis jstep.recover_executions jstep.recover_verifications rtranclp.rtrancl_into_rtrancl rtranclp.rtrancl_refl)
qed



lemma run_worker_moves:
  assumes "\<And>uuids w res w'. reconcile uuids w = Some (res, w') \<Longrightarrow> (jstep hmac uuid S Y)\<^sup>*\<^sup>* (wj w) (wj w')"
    and "\<And>pause w. pause \<in> snd ` set passes \<Longrightarrow> (jstep hmac uuid S Y)\<^sup>*\<^sup>* (wj w) (wj (snd (pause w)))"
  shows "run_worker reconcile passes w = Some (outcome, w') \<Longrightarrow> (jstep hmac uuid S Y)\<^sup>*\<^sup>* (wj w) (wj w')"
  using assms(2)
proof (induction passes arbitrary: w)
  case (Cons a passes)
  obtain uuids pause where a: "a = (uuids, pause)" by (cases a)
  obtain res w1 where pass: "reconcile uuids w = Some (res, w1)"
    using Cons.prems(1) by (auto simp: a split: option.splits)
  have first: "(jstep hmac uuid S Y)\<^sup>*\<^sup>* (wj w) (wj w1)" by (rule assms(1)[OF pass])
  obtain e w2 where rest: "pause w1 = (e, w2)" by (cases "pause w1")
  have second: "(jstep hmac uuid S Y)\<^sup>*\<^sup>* (wj w) (wj w2)"
    using Cons.prems(2)[of pause w1] rest by (auto simp: a intro: rtranclp_trans[OF first])
  show ?case
  proof (cases "pass_failure res")
    case (Some x)
    then show ?thesis using Cons.prems(1) first pass by (simp add: a)
  next
    case None
    show ?thesis
    proof (cases e)
      case Interval_over
      then have "run_worker reconcile passes w2 = Some (outcome, w')"
        using Cons.prems(1) pass rest None by (simp add: a)
      then have "(jstep hmac uuid S Y)\<^sup>*\<^sup>* (wj w2) (wj w')"
        by (rule Cons.IH) (use Cons.prems(2) in auto)
      with second show ?thesis by (rule rtranclp_trans)
    qed (use Cons.prems(1) pass rest None second in \<open>simp_all add: a\<close>)
  qed
qed simp

text \<open>
  C13: The recovery worker moves the journal only by the journal's own methods: if the calls, the pauses of a
  verification and the pauses of the worker do, then so does the worker from its start to any later moment, the
  reports of recovered mutations to chat and stream included, so whatever holds of a reachable journal survives it.
\<close>

theorem recovery_keeps_protocol:
  assumes "\<And>tool args run w. (jstep hmac uuid S Y)\<^sup>*\<^sup>* (wj w) (wj (snd (mcp_call M tool args run w)))"
    and "\<And>us w. (jstep hmac uuid S Y)\<^sup>*\<^sup>* (wj w) (wj (snd (mcp_sleep M us w)))"
    and "\<And>pause w. pause \<in> snd ` set passes \<Longrightarrow> (jstep hmac uuid S Y)\<^sup>*\<^sup>* (wj w) (wj (snd (pause w)))"
    and "recovery_worker M loads Y S (Some (on_reconciled V)) passes w = Some (outcome, w')"
  shows "(jstep hmac uuid S Y)\<^sup>*\<^sup>* (wj w) (wj w')"
proof -
  have "(jstep hmac uuid S Y)\<^sup>*\<^sup>* (wj v) (wj v')"
    if "reconcile_once M loads Y S (Some (on_reconciled V)) uuids v = Some (res, v')" for uuids v res v'
  proof (rule rtranclp_trans[OF start_recovery_moves])
    from that have batch: "reconcile_batch (Some (on_reconciled V)) (verify M loads Y S)
        (recovery_ops S uuids (start_recovery v)) 0 (start_recovery v) = Some (res, v')"
      by (simp add: reconcile_once_def Let_def)
    show "(jstep hmac uuid S Y)\<^sup>*\<^sup>* (wj (start_recovery v)) (wj v')"
      by (rule reconcile_batch_moves[OF _ _ batch])
        (auto intro: verify_moves_journal[OF assms(1,2)] simp: on_reconciled_journal)
  qed
  then have "(jstep hmac uuid S Y)\<^sup>*\<^sup>* (wj (start_recovery w)) (wj w')"
    by (rule run_worker_moves[OF _ _ assms(4)[unfolded recovery_worker_def]]) (blast, rule assms(3))
  with start_recovery_moves show ?thesis by (rule rtranclp_trans)
qed

lemma reconcile_one_some:
  assumes "\<exists>y. check w = Some y"
  shows "\<exists>y. reconcile_one callback check oid w = Some y"
proof -
  obtain r w1 where "check w = Some (r, w1)" using assms by auto
  then show ?thesis by (cases r) (auto simp: reconcile_one_def split: option.split prod.split sum.split)
qed

lemma reconcile_batch_some:
  assumes "\<And>oid owner w. \<exists>y. check oid owner w = Some y"
  shows "\<exists>y. reconcile_batch callback check ops n w = Some y"
proof (induction ops arbitrary: n w)
  case (Cons a ops)
  obtain oid owner where a: "a = (oid, owner)" by (cases a)
  have "\<exists>y. reconcile_one callback (check oid owner) oid w = Some y" by (rule reconcile_one_some) (rule assms)
  then obtain r w1 where "reconcile_one callback (check oid owner) oid w = Some (r, w1)" by auto
  then show ?case using Cons.IH by (cases r) (simp_all add: a)
qed simp

text \<open>
  A recovery pass returns: with settings in their bounds, a clock that reading does not turn back and pauses that
  advance it by the interval, \<open>reconcile_once\<close> has a result whatever the journal holds, the cluster answers and the
  report of a recovered mutation does, and it takes no more operations than the size of the batch.
\<close>

theorem recovery_pass_returns:
  assumes "valid_settings S"
    and "\<And>tool args run w. wmono w \<le> wmono (snd (mcp_call M tool args run w))"
    and "\<And>us w. wmono w + us \<le> wmono (snd (mcp_sleep M us w))"
  shows "(\<exists>y. reconcile_once M loads Y S callback uuids w = Some y)
    \<and> int (length (recovery_ops S uuids w)) \<le> MUTATION_RECOVERY_BATCH_SIZE S"
proof
  show "\<exists>y. reconcile_once M loads Y S callback uuids w = Some y"
    unfolding reconcile_once_def Let_def
    by (rule reconcile_batch_some) (rule verify_some, rule rounds_return[OF assms])
  have "0 \<le> MUTATION_RECOVERY_BATCH_SIZE S" using assms(1) by (simp add: valid_settings_def)
  then show "int (length (recovery_ops S uuids w)) \<le> MUTATION_RECOVERY_BATCH_SIZE S"
    by (simp add: recovery_ops_def; linarith)
qed

lemma recovery_pass_returns_witness:
  "\<exists>y. reconcile_once quiet_mcp no_json demo_yaml default_settings None [''u''] quiet_world = Some y"
  by (rule recovery_pass_returns[OF default_valid, THEN conjunct1]) (simp_all add: quiet_mcp_def)

lemma recovery_keeps_protocol_witness:
  "\<exists>outcome w'. recovery_worker idle_mcp no_json demo_yaml default_settings (Some (on_reconciled demo_env))
       [([''u''], \<lambda>w. (Stop_set, w))] engine_world = Some (outcome, w')
     \<and> (jstep (\<lambda>k s. []) Inr default_settings demo_yaml)\<^sup>*\<^sup>* (wj engine_world) (wj w')"
proof -
  have rounds: "poll (verify_round idle_mcp no_json demo_yaml r run)
      (mcp_sleep idle_mcp (MUTATION_VERIFICATION_INTERVAL_US default_settings)) d w \<noteq> None" for r run d w
    by (rule rounds_return[OF default_valid]) (simp_all add: idle_mcp_def)
  have "\<exists>y. reconcile_once idle_mcp no_json demo_yaml default_settings (Some (on_reconciled demo_env)) [''u'']
      (start_recovery engine_world) = Some y"
    unfolding reconcile_once_def Let_def by (rule reconcile_batch_some) (rule verify_some, rule rounds)
  then obtain x w1 where pass: "reconcile_once idle_mcp no_json demo_yaml default_settings (Some (on_reconciled demo_env)) [''u'']
      (start_recovery engine_world) = Some (x, w1)" by auto
  have "\<exists>y. recovery_worker idle_mcp no_json demo_yaml default_settings (Some (on_reconciled demo_env))
       [([''u''], \<lambda>w. (Stop_set, w))] engine_world = Some y"
    by (simp add: recovery_worker_def pass split: option.split)
  then obtain outcome w' where w': "recovery_worker idle_mcp no_json demo_yaml default_settings (Some (on_reconciled demo_env))
       [([''u''], \<lambda>w. (Stop_set, w))] engine_world = Some (outcome, w')" by auto
  have "(jstep (\<lambda>k s. []) Inr default_settings demo_yaml)\<^sup>*\<^sup>* (wj engine_world) (wj w')"
    by (rule recovery_keeps_protocol[OF _ _ _ w']) (auto simp: idle_mcp_def)
  with w' show ?thesis by blast
qed

subsection \<open>The start of the engine\<close>

lemma outside_world: "outside m p = (r, p') \<Longrightarrow> ps_world p' = ps_world p"
  by (auto simp: outside_def split: prod.splits)

text \<open>What a step of the start leaves alone: everything but the outside, the limiter and the checkpointer.\<close>

definition core :: "'x process \<Rightarrow> agent_api world \<times> memory \<times> bool \<times> bool" where
  "core p = (ps_world p, ps_memory p, ps_database p, ps_worker p)"

interpretation core: state_moves core "(=)"
  by unfold_locales auto

lemma core_steps [simp]:
  "core.moves (outside m)" "core.moves (become (\<lambda>p. p\<lparr>ps_limiter_client := b\<rparr>))"
  "core.moves (become (\<lambda>p. p\<lparr>ps_limiter_ready := b\<rparr>))" "core.moves (become (\<lambda>p. p\<lparr>ps_checkpointer := c\<rparr>))"
  by (simp_all add: core.moves_def outside_def become_def core_def split: prod.split)

lemma core_limiter: "core.moves (init_limiter S V)"
  unfolding init_limiter_def by (auto intro!: core.moves_bind core.moves_catch)

lemma core_checkpointer: "core.moves (init_graph_checkpointer S V)"
proof -
  have "core.moves (catchW
        (bindW (outside (sv_connect V (CHECKPOINTER_DATABASE_URL S))) (\<lambda>_. bindW (outside (sv_setup V)) (\<lambda>_.
         become (\<lambda>p. p\<lparr>ps_checkpointer := Some (Postgres_saver (CHECKPOINTER_DATABASE_URL S))\<rparr>))))
        (\<lambda>e. become (\<lambda>p. p\<lparr>ps_checkpointer := Some Memory_saver\<rparr>)))"
    by (auto intro!: core.moves_bind core.moves_catch)
  then show ?thesis by (auto simp: core.moves_def init_graph_checkpointer_def core_def)
qed

text \<open>Initialising the checkpointer leaves one behind, unless it is cancelled, whatever Postgres does.\<close>

lemma checkpointer_set: "init_graph_checkpointer S V p = (Inr (), p') \<Longrightarrow> ps_checkpointer p' \<noteq> None"
  by (auto simp: init_graph_checkpointer_def become_def bindW_Inr split: if_splits dest!: catch_result)

text \<open>
  When Redis cannot be reached at the start, the limiter is never set up, although the client is there, so it is
  not tried again, and the limited routes keep the dependency that was chosen at import.
\<close>

lemma failed_limiter_not_retried:
  assumes "RATE_LIMITING_ENABLED S" and "sv_redis_client V = Inr ()" and "sv_redis_ping V (ps_outside p) = (Inl e, x)"
    and "\<not> cancelled e" and "\<not> ps_limiter_ready p"
  shows "\<exists>p'. init_limiter S V p = (Inr (), p') \<and> ps_limiter_client p' \<and> \<not> ps_limiter_ready p'
    \<and> limiter_client S V p' = (Inr True, p') \<and> rate_limit_dependency S \<noteq> No_limit"
  using assms
  by (simp add: init_limiter_def catchW_def bindW_def become_def outside_def limiter_client_def rate_limit_dependency_def)

lemma recovery_leaves_nothing_stale:
  assumes "r \<in> set (wj (start_recovery w))"
  shows "\<not> stale_execution (wnow w) r \<and> \<not> stale_verification (wnow w) r"
proof -
  define J where "J = snd (recover_stale_executions (wnow w) (wj w))"
  have first: "\<not> stale_execution (wnow w) x" if "x \<in> set J" for x
    using that by (auto simp: J_def recover_stale_executions_def update_where_def stale_execution_def abandoned_row_def bump_def)
  have "wj (start_recovery w) = snd (recover_stale_verifications (wnow w) J)"
    by (simp add: start_recovery_def on_journal_def J_def split: prod.split)
  then obtain x where x: "x \<in> set J"
      "r = (if stale_verification (wnow w) x then release_row [(''reason'', JStr ''verification_lease_expired'')] (wnow w) x else x)"
    using assms by (auto simp: recover_stale_verifications_def update_where_def)
  have "execution_status r = execution_status x \<and> lease_expires_at r = lease_expires_at x"
    by (simp add: x(2) release_row_def bump_def)
  then have "\<not> stale_execution (wnow w) r" using first[OF x(1)] by (simp add: stale_execution_def)
  moreover have "\<not> stale_verification (wnow w) r"
    by (auto simp: x(2) stale_verification_def release_row_def bump_def)
  ultimately show ?thesis by blast
qed

lemma mcp_answered:
  "attempt_mcp V n e x = (Inr (), x') \<Longrightarrow> \<exists>x0 tools x1. me_list (sv_mcp V) x0 = (Inr tools, x1)"
proof (induction n arbitrary: e x)
  case (Suc n)
  show ?case
  proof (cases "me_list (sv_mcp V) x")
    case (Pair a x1)
    show ?thesis
    proof (cases a)
      case (Inr tools)
      then show ?thesis using Pair by blast
    next
      case (Inl e')
      obtain x2 where "attempt_mcp V n (exc_msg e') x2 = (Inr (), x')"
        using Suc.prems Pair Inl by (auto simp: bindW_Inr catchW_def bindW_def[of "me_list (sv_mcp V)"] split: if_splits)
      then show ?thesis by (rule Suc.IH)
    qed
  qed
qed simp

definition prepared :: "settings \<Rightarrow> int \<Rightarrow> 'x process \<Rightarrow> bool" where
  "prepared S now p \<longleftrightarrow> ps_database p \<and> ps_checkpointer p \<noteq> None
     \<and> (MUTATION_CONTROL_ENABLED S \<longrightarrow> ps_worker p
        \<and> (\<forall>r \<in> set (wj (ps_world p)). \<not> stale_execution now r \<and> \<not> stale_verification now r))"

text \<open>
  A process that accepts requests is prepared for them.  If the start of the engine comes to its end, then the
  MCP server has listed its tools, the internal key is set or memory is off, the database is open, there is a
  checkpointer, and with mutation control the worker runs and no execution and no verification of an earlier
  process is left under a lease that ran out before, whatever the rate limiter, Postgres and the seeding do.
\<close>

theorem started_process_prepared:
  fixes p p' :: "'a process"
  assumes "lifespan_start S V p = (Inr (), p')"
  shows "prepared S (wnow (ps_world p)) p' \<and> (MEMORY_ENABLED S \<longrightarrow> INTERNAL_API_KEY S \<noteq> [])
    \<and> (\<exists>x0 tools x1. me_list (sv_mcp V) x0 = (Inr tools, x1))"
proof -
  have key: "\<not> (MEMORY_ENABLED S \<and> INTERNAL_API_KEY S = [])" using assms by (auto simp: lifespan_start_def)
  define seed :: "('a process, unit) st" where "seed = (if MEMORY_ENABLED S
           then catchW (in_memory (seed_memory_stores (sv_sha V) (sv_others V) (sv_memory_available V))) (\<lambda>e. ret ())
           else ret ())"
  obtain p1 p2 p3 p4 p5 where connected: "outside (verify_mcp_connection V) p = (Inr (), p1)"
    and opened: "init_db V p1 = (Inr (), p2)"
    and worker: "(if MUTATION_CONTROL_ENABLED S then start_worker else ret ()) p2 = (Inr (), p3)"
    and limiter: "init_limiter S V p3 = (Inr (), p4)" and saver: "init_graph_checkpointer S V p4 = (Inr (), p5)"
    and seeded: "seed p5 = (Inr (), p')"
    using assms key unfolding lifespan_start_def seed_def[symmetric] by (auto simp: bindW_Inr)
  have w1: "ps_world p1 = ps_world p" by (rule outside_world[OF connected])
  obtain q where q: "outside (sv_open_database V) p1 = (Inr (), q)" "p2 = q\<lparr>ps_database := True\<rparr>"
    using opened by (auto simp: init_db_def bindW_Inr become_def)
  have p2: "ps_world p2 = ps_world p" "ps_database p2"
    using outside_world[OF q(1)] w1 q(2) by simp_all
  have "core p3 = core p4" "core p4 = core p5"
    using core.moves_eq[OF core_limiter limiter] core.moves_eq[OF core_checkpointer saver] by simp_all
  then have p5: "ps_world p5 = ps_world p3" "ps_database p5 = ps_database p3" "ps_worker p5 = ps_worker p3" by (simp_all add: core_def)
  have p': "ps_world p' = ps_world p5 \<and> ps_database p' = ps_database p5 \<and> ps_worker p' = ps_worker p5 \<and> ps_checkpointer p' = ps_checkpointer p5"
    using seeded by (auto simp: seed_def catchW_def in_memory_def split: if_splits prod.splits sum.splits)
  have "ps_checkpointer p' \<noteq> None" using checkpointer_set[OF saver] p' by simp
  moreover have "ps_database p'" using p' p5 p2 worker by (auto simp: start_worker_def become_def split: if_splits)
  moreover have "ps_worker p' \<and> ps_world p' = start_recovery (ps_world p)" if "MUTATION_CONTROL_ENABLED S"
    using p' p5 p2 worker that by (auto simp: start_worker_def become_def)
  ultimately have "prepared S (wnow (ps_world p)) p'"
    by (auto simp: prepared_def dest: recovery_leaves_nothing_stale)
  moreover have "\<exists>x0 tools x1. me_list (sv_mcp V) x0 = (Inr tools, x1)"
    using connected by (auto simp: outside_def verify_mcp_connection_def split: prod.splits dest: mcp_answered)
  ultimately show ?thesis using key by blast
qed

text \<open>A server that refuses the first \<open>k\<close> requests; the outside counts the requests and the seconds slept.\<close>

definition refusing :: "nat \<Rightarrow> (nat \<times> int) services" where
  "refusing k =
     \<lparr>sv_mcp = \<lparr>me_key = ''k'', me_loads = (\<lambda>s. Inr JNull), me_transport = (\<lambda>hs n ps. ret \<lparr>mr_items = [], mr_is_error = None\<rparr>),
        me_list = (\<lambda>(n, t). (if n < k then Inl (Exc ''ConnectError'' ''refused'') else Inr [], (Suc n, t)))\<rparr>,
      sv_sleep = (\<lambda>d (n, t). (Inr (), (n, t + d))), sv_open_database = ret (), sv_close_database = ret (),
      sv_redis_client = Inr (), sv_redis_ping = raise (Exc ''ConnectionError'' ''no redis''), sv_limiter_init = ret (),
      sv_redis_close = ret (), sv_connect = (\<lambda>url. raise (Exc ''OperationalError'' ''no database'')), sv_setup = ret (),
      sv_close_saver = (\<lambda>c. ret ()), sv_sha = id, sv_others = id, sv_memory_available = False\<rparr>"

lemma refused_attempts:
  "attempt_mcp (refusing k) m e (n, t) =
     (if k < n + m \<and> 0 < m then (Inr (), (max (Suc n) (Suc k), t + 3 * int (k - n)))
      else (Inl (unreachable (if m = 0 then e else ''refused'')), (n + m, t + 3 * int (m - 1))))"
proof (induction m arbitrary: n t e)
  case (Suc m)
  have ask: "me_list (sv_mcp (refusing k)) (n, t) = (if n < k then Inl (Exc ''ConnectError'' ''refused'') else Inr [], (Suc n, t))"
    by (simp add: refusing_def)
  have rest: "sv_sleep (refusing k) MCP_RETRY_DELAY (n, t) = (Inr (), (n, t + 3))" for n t
    by (simp add: refusing_def MCP_RETRY_DELAY_def)
  show ?case
  proof (cases "n < k")
    case False
    then show ?thesis by (simp add: catchW_def bindW_def ask)
  next
    case True
    then have step: "attempt_mcp (refusing k) (Suc m) e (n, t) =
        attempt_mcp (refusing k) m ''refused'' (Suc n, if m = 0 then t else t + 3)"
      by (simp add: catchW_def bindW_def ask rest cancelled_def)
    show ?thesis unfolding step Suc.IH using True
      by (cases "m = 0") (auto simp: of_nat_diff max_def algebra_simps)
  qed
qed simp

text \<open>
  The wait for the MCP server is bounded.  Against a server that refuses the first \<open>k\<close> requests the engine connects
  exactly when \<open>k < 5\<close>, with one more request than were refused and a pause of three seconds after each refusal; else
  it gives up with an error after five requests and twelve seconds of pauses.
\<close>

theorem mcp_connection_bounded:
  "verify_mcp_connection (refusing k) (0, 0) =
     (if k < 5 then (Inr (), (Suc k, 3 * int k)) else (Inl (unreachable ''refused''), (5, 12)))"
  by (simp add: verify_mcp_connection_def MCP_RETRY_ATTEMPTS_def refused_attempts)

definition first_process :: "(nat \<times> int) process" where
  "first_process = \<lparr>ps_outside = (0, 0), ps_world = engine_world, ps_memory = empty_memory, ps_database = False,
     ps_limiter_client = False, ps_limiter_ready = False, ps_checkpointer = None, ps_worker = False\<rparr>"

lemma started_process_prepared_witness:
  "\<exists>p'. lifespan_start (default_settings\<lparr>INTERNAL_API_KEY := ''k''\<rparr>) (refusing 2) first_process = (Inr (), p')
     \<and> prepared default_settings 4 p' \<and> ps_checkpointer p' = Some Memory_saver"
proof -
  let ?S = "default_settings\<lparr>INTERNAL_API_KEY := ''k''\<rparr>"
  have refused: "sv_open_database (refusing 2) = ret ()" "sv_redis_client (refusing 2) = Inr ()"
    "sv_redis_ping (refusing 2) = raise (Exc ''ConnectionError'' ''no redis'')"
    "sv_connect (refusing 2) url = raise (Exc ''OperationalError'' ''no database'')" "\<not> sv_memory_available (refusing 2)" for url
    by (simp_all add: refusing_def)
  have connect: "verify_mcp_connection (refusing 2) (0, 0) = (Inr (), (3, 6))"
    by (simp add: verify_mcp_connection_def MCP_RETRY_ATTEMPTS_def refused_attempts)
  obtain p' where p': "lifespan_start ?S (refusing 2) first_process = (Inr (), p')" "ps_checkpointer p' = Some Memory_saver"
    by (simp add: lifespan_start_def bindW_def outside_def first_process_def connect init_db_def become_def start_worker_def
        init_limiter_def init_graph_checkpointer_def catchW_def in_memory_def seed_memory_stores_def default_settings_def cancelled_def
        refused)
  have "wnow (ps_world first_process) = 4" by (simp add: first_process_def engine_world_def)
  then have "prepared ?S 4 p'" using started_process_prepared[OF p'(1)] by simp
  then have "prepared default_settings 4 p'" by (simp add: prepared_def)
  with p' show ?thesis by blast
qed

text \<open>
  Turns share their state only with the Postgres checkpointer enabled.  After the start of the engine, a run finds
  the state its thread was left in under the one saver of the process, Postgres or, when that could not be reached,
  the memory of the process; with the checkpointer disabled it finds none, although the start made a memory saver
  for the process: each graph takes a new one.
\<close>

theorem saved_state_shared:
  assumes "lifespan_start S V p = (Inr (), p')"
  shows "\<exists>c. ps_checkpointer p' = Some c
    \<and> saved_state store (compile_graph S p') thread = (if ENABLE_POSTGRES_CHECKPOINTER S then store c thread else None)"
proof -
  obtain p4 p5 where saver: "init_graph_checkpointer S V p4 = (Inr (), p5)"
    and seeded: "(if MEMORY_ENABLED S
           then catchW (in_memory (seed_memory_stores (sv_sha V) (sv_others V) (sv_memory_available V))) (\<lambda>e. ret ())
           else ret ()) p5 = (Inr (), p')"
    using assms unfolding lifespan_start_def by (auto simp: bindW_Inr split: if_splits)
  have "ps_checkpointer p' = ps_checkpointer p5"
    using seeded by (auto simp: catchW_def in_memory_def split: if_splits prod.splits sum.splits)
  then obtain c where "ps_checkpointer p' = Some c" using checkpointer_set[OF saver] by auto
  then show ?thesis by (simp add: compile_graph_def get_checkpointer_def saved_state_def)
qed

lemma saved_state_shared_witness:
  "\<exists>p'. lifespan_start (default_settings\<lparr>INTERNAL_API_KEY := ''k'', ENABLE_POSTGRES_CHECKPOINTER := False\<rparr>) (refusing 0)
       first_process = (Inr (), p')
     \<and> saved_state (\<lambda>c t. Some ''state'') (compile_graph (default_settings\<lparr>ENABLE_POSTGRES_CHECKPOINTER := False\<rparr>) p') ''thread'' = None"
proof -
  let ?S = "default_settings\<lparr>INTERNAL_API_KEY := ''k'', ENABLE_POSTGRES_CHECKPOINTER := False\<rparr>"
  have connect: "verify_mcp_connection (refusing 0) (0, 0) = (Inr (), (1, 0))"
    by (simp add: verify_mcp_connection_def MCP_RETRY_ATTEMPTS_def refused_attempts)
  have refused: "sv_open_database (refusing 0) = ret ()" "sv_redis_client (refusing 0) = Inr ()"
    "sv_redis_ping (refusing 0) = raise (Exc ''ConnectionError'' ''no redis'')" "\<not> sv_memory_available (refusing 0)"
    by (simp_all add: refusing_def)
  obtain p' where p': "lifespan_start ?S (refusing 0) first_process = (Inr (), p')"
    by (simp add: lifespan_start_def bindW_def outside_def first_process_def connect init_db_def become_def start_worker_def
        init_limiter_def init_graph_checkpointer_def catchW_def in_memory_def seed_memory_stores_def default_settings_def cancelled_def
        refused)
  from saved_state_shared[OF p', of "\<lambda>c t. Some ''state''" "''thread''"] p' show ?thesis
    by (auto simp: compile_graph_def)
qed

end
