(* ===== verification/Collaborators.thy ===== *)
theory Collaborators
  imports McpClient Lifespan
begin

text \<open>
  How the objects a run works with are made, shared and closed: \<open>WorkflowGraph\<close> (\<open>agent/graph.py\<close>),
  \<open>ToolExecutor\<close> (\<open>services/tool_executor.py\<close>) and the connection of \<open>MCPClient\<close> (\<open>services/mcp_client.py\<close>).
  An object is a number: what matters is which of them are the same.
\<close>

subsection \<open>The executor of the tools\<close>

text \<open>The journal and the policy are made with the executor; an approval service may be handed to it.\<close>

record executor_parts =
  xp_client :: "nat option"
  xp_owns :: bool
  xp_approvals :: nat
  xp_journal :: nat
  xp_fetcher :: bool

definition new_executor :: "nat option \<Rightarrow> nat option \<Rightarrow> bool \<Rightarrow> nat \<Rightarrow> executor_parts \<times> nat" where
  "new_executor approvals client owns fresh =
     (let parts = \<lparr>xp_client = client, xp_owns = (if client = None then owns else False),
           xp_approvals = (case approvals of Some a \<Rightarrow> a | None \<Rightarrow> Suc fresh), xp_journal = fresh, xp_fetcher = True\<rparr>
      in (parts, fresh + (if approvals = None then 2 else 1)))"

definition get_mcp_client :: "executor_parts \<Rightarrow> nat \<Rightarrow> nat \<times> executor_parts \<times> nat" where
  "get_mcp_client x fresh =
     (case xp_client x of
        None \<Rightarrow> (fresh, x\<lparr>xp_client := Some fresh, xp_owns := True\<rparr>, Suc fresh)
      | Some c \<Rightarrow> (c, x, fresh))"

definition close_executor :: "executor_parts \<Rightarrow> executor_parts" where
  "close_executor x = x\<lparr>xp_client := None\<rparr>"

subsection \<open>The graph of a run\<close>

record graph_parts =
  gp_client :: nat
  gp_approvals :: nat
  gp_executor :: executor_parts
  gp_verifier_client :: nat
  gp_verifier_journal :: nat
  gp_saver :: "saver option"

definition new_graph :: "nat \<Rightarrow> graph_parts \<times> nat" where
  "new_graph fresh =
     (let approvals = fresh; client = Suc fresh; (x, next) = new_executor (Some approvals) (Some client) False (fresh + 2)
      in (\<lparr>gp_client = client, gp_approvals = approvals, gp_executor = x, gp_verifier_client = client,
           gp_verifier_journal = xp_journal x, gp_saver = None\<rparr>, next))"

definition ensure_compiled :: "settings \<Rightarrow> 'x process \<Rightarrow> graph_parts \<Rightarrow> graph_parts" where
  "ensure_compiled S p g = (if gp_saver g = None then g\<lparr>gp_saver := Some (compile_graph S p)\<rparr> else g)"

definition close_graph :: "graph_parts \<Rightarrow> graph_parts" where
  "close_graph g = g\<lparr>gp_executor := close_executor (gp_executor g)\<rparr>"

subsection \<open>The connection of the client\<close>

text \<open>What the library's client does when it is entered, left and asked.\<close>

record 'w library_client =
  lc_enter :: "('w, unit) st"
  lc_exit :: "('w, unit) st"
  lc_list :: "('w, dict list) st"

record 'w connection =
  cn_open :: bool
  cn_world :: 'w

definition on_client :: "('w, 'a) st \<Rightarrow> ('w connection, 'a) st" where
  "on_client m s = (case m (cn_world s) of (r, w) \<Rightarrow> (r, s\<lparr>cn_world := w\<rparr>))"

definition hang_up :: "('w connection, unit) st" where
  "hang_up s = (Inr (), s\<lparr>cn_open := False\<rparr>)"

text \<open>\<open>try: m finally: self._client = None\<close>\<close>

definition then_hang_up :: "('w connection, 'a) st \<Rightarrow> ('w connection, 'a) st" where
  "then_hang_up m s = (case m s of (r, s') \<Rightarrow> (r, s'\<lparr>cn_open := False\<rparr>))"

definition client_enter :: "'w library_client \<Rightarrow> ('w connection, unit) st" where
  "client_enter L s =
     catchW (on_client (lc_enter L))
       (\<lambda>e. bindW (then_hang_up (on_client (lc_exit L))) (\<lambda>_. raise e)) (s\<lparr>cn_open := True\<rparr>)"

definition client_exit :: "'w library_client \<Rightarrow> ('w connection, unit) st" where
  "client_exit L s =
     (if cn_open s then then_hang_up (catchW (on_client (lc_exit L)) (\<lambda>e. ret ())) s else (Inr (), s))"

text \<open>\<open>async with client: ...\<close>: the exit runs whatever happened, and its own exception prevails.\<close>

definition entered :: "'w library_client \<Rightarrow> ('w, 'a) st \<Rightarrow> ('w, 'a) st" where
  "entered L m = bindW (lc_enter L) (\<lambda>_ w.
     case m w of (r, w') \<Rightarrow> (case lc_exit L w' of (Inl e, w'') \<Rightarrow> (Inl e, w'') | (Inr _, w'') \<Rightarrow> (r, w'')))"

definition list_tools_raw :: "'w library_client \<Rightarrow> ('w connection, dict list) st" where
  "list_tools_raw L s = on_client (if cn_open s then lc_list L else entered L (lc_list L)) s"

subsection \<open>What is shared, and what stays open\<close>

text \<open>
  The executor and the verifier of one run use one client and one journal, so an operation the executor prepared is
  the one the verifier claims, and closing the graph does not close the client it lent out.
\<close>

lemma run_shares_journal:
  assumes "new_graph fresh = (g, n)"
  shows "gp_verifier_journal g = xp_journal (gp_executor g) \<and> xp_client (gp_executor g) = Some (gp_client g)
    \<and> gp_verifier_client g = gp_client g \<and> xp_approvals (gp_executor g) = gp_approvals g \<and> \<not> xp_owns (gp_executor g)
    \<and> gp_approvals g \<noteq> gp_client g \<and> gp_client g \<noteq> gp_verifier_journal g \<and> n = fresh + 3"
  using assms by (auto simp: new_graph_def new_executor_def Let_def)

lemma compiled_once: "ensure_compiled S p (ensure_compiled S q g) = ensure_compiled S q g"
  by (simp add: ensure_compiled_def)

text \<open>
  A connection is closed on every way out.  After the exit no client is left, whatever the library raises, even a
  cancellation; an entry that fails leaves none either, unless the entry was cancelled, which leaves one.
\<close>

theorem connection_closed:
  "\<not> cn_open (snd (client_exit L s))
   \<and> (\<forall>e. fst (client_enter L s) = Inl e \<longrightarrow> cn_open (snd (client_enter L s)) \<longrightarrow>
        cancelled e \<and> fst (lc_enter L (cn_world s)) = Inl e)"
proof -
  have "\<not> cn_open (snd (client_exit L s))" by (simp add: client_exit_def then_hang_up_def split: prod.split)
  moreover have "cancelled e \<and> fst (lc_enter L (cn_world s)) = Inl e"
    if "fst (client_enter L s) = Inl e" and "cn_open (snd (client_enter L s))" for e
    using that by (auto simp: client_enter_def catchW_def bindW_def on_client_def then_hang_up_def
        split: prod.splits sum.splits if_splits)
  ultimately show ?thesis by blast
qed

definition refusing_client :: "nat library_client" where
  "refusing_client = \<lparr>lc_enter = (\<lambda>n. (Inl (Exc ''ConnectError'' ''refused''), Suc n)), lc_exit = (\<lambda>n. (Inr (), Suc n)),
     lc_list = ret []\<rparr>"

lemma connection_closed_witness:
  "fst (client_enter refusing_client \<lparr>cn_open = False, cn_world = 0\<rparr>) = Inl (Exc ''ConnectError'' ''refused'')
   \<and> \<not> cn_open (snd (client_enter refusing_client \<lparr>cn_open = False, cn_world = 0\<rparr>))"
proof -
  let ?s = "\<lparr>cn_open = False, cn_world = 0 :: nat\<rparr>"
  have failed: "fst (client_enter refusing_client ?s) = Inl (Exc ''ConnectError'' ''refused'')"
    by (simp add: client_enter_def refusing_client_def catchW_def on_client_def bindW_def then_hang_up_def cancelled_def)
  have "\<not> cn_open (snd (client_enter refusing_client ?s))"
    using connection_closed[of refusing_client ?s, THEN conjunct2, rule_format, OF failed] by (auto simp: cancelled_def)
  with failed show ?thesis by blast
qed

end
