(* ===== verification/McpServer.thy ===== *)
theory McpServer
  imports CommandStop PyJson
begin

text \<open>
  The routes of the MCP server beside its tools, \<open>mcp/config/server.py\<close>, and the health routes of the engine,
  \<open>endpoints/health.py\<close>. What \<open>shutil.which\<close> finds, the parser of UUIDs and the database are parameters.
\<close>

type_synonym answer = "int \<times> dict"

definition health_check :: answer where
  "health_check = (200, [(''status'', JStr ''ok'')])"

definition health_ready :: "(string \<Rightarrow> string option) \<Rightarrow> answer" where
  "health_ready which =
     (let missing = filter (\<lambda>t. which t = None) [''kubectl'', ''helm'', ''kubectl-argo-rollouts''] in
      if missing \<noteq> [] then (503, [(''status'', JStr ''error''), (''missing_tools'', JList (map JStr missing))])
      else (200, [(''status'', JStr ''ready'')]))"

text \<open>\<open>secrets.compare_digest\<close> of two texts: only ASCII is compared.\<close>

definition compare_digest :: "string \<Rightarrow> string \<Rightarrow> bool py" where
  "compare_digest a b =
     (if list_all (\<lambda>c. of_char c < (128 :: nat)) a \<and> list_all (\<lambda>c. of_char c < (128 :: nat)) b then Inr (a = b)
      else Inl (Exc ''TypeError'' ''comparing strings with non-ASCII characters is not supported''))"

definition cancel_result :: "cancel_report \<Rightarrow> dict" where
  "cancel_result c =
     [(''matched'', JInt (int (matched c))), (''terminated'', JInt (int (terminated c))), (''killed'', JInt (int (killed c))),
      (''cancelled'', JInt (int (was_cancelled c)))]"

definition invalid_uuid :: "py_exc \<Rightarrow> bool" where
  "invalid_uuid e \<longleftrightarrow> exc_type e \<in> {''ValueError'', ''TypeError'', ''AttributeError''}"

definition cancel_run ::
  "limits \<Rightarrow> 'o host_ops \<Rightarrow> string \<Rightarrow> (string \<Rightarrow> string py) \<Rightarrow> string option \<Rightarrow> string option \<Rightarrow> ('o, answer) op" where
  "cancel_run L H secret uuid header path s =
     (case compare_digest (case header of None \<Rightarrow> [] | Some k \<Rightarrow> k) secret of
        Inl e \<Rightarrow> (Inl e, s)
      | Inr same \<Rightarrow>
          if \<not> same then (Inr (401, [(''detail'', JStr ''Unauthorized'')]), s)
          else (case uuid (case path of None \<Rightarrow> [] | Some p \<Rightarrow> p) of
             Inl e \<Rightarrow> if invalid_uuid e then (Inr (400, [(''detail'', JStr ''Invalid run_id'')]), s) else (Inl e, s)
           | Inr run \<Rightarrow>
               (case cancel_run_processes L H run s of
                  (c, s') \<Rightarrow> (Inr (200, (''run_id'', JStr run) # cancel_result c), s'))))"

definition database_health_check :: "('s, unit) st \<Rightarrow> ('s, dict) st" where
  "database_health_check ask =
     catchW (bindW ask (\<lambda>_. ret [(''status'', JStr ''ok''), (''database'', JStr ''connected'')]))
       (\<lambda>e. ret [(''status'', JStr ''error''), (''database'', JStr ''disconnected''), (''error'', JStr (exc_msg e))])"

text \<open>A run is cancelled only for the holder of the key; any other answer leaves the processes alone.\<close>

lemma cancellation_guarded:
  assumes "cancel_run L H secret uuid header path s = (Inr (code, d), s')"
  shows "(code \<noteq> 200 \<longrightarrow> s' = s)
    \<and> (code = 200 \<longrightarrow> (case header of None \<Rightarrow> secret = [] | Some k \<Rightarrow> k = secret)
        \<and> (\<exists>run. uuid (case path of None \<Rightarrow> [] | Some p \<Rightarrow> p) = Inr run \<and> s' = snd (cancel_run_processes L H run s)))"
  using assms by (auto simp: cancel_run_def compare_digest_def split: sum.splits if_splits option.splits prod.splits)

text \<open>The key may be the empty text: then a request without one cancels.\<close>

lemma empty_key_cancels:
  assumes "uuid p = Inr run"
  shows "\<exists>d s'. cancel_run L H [] uuid None (Some p) s = (Inr (200, d), s')"
  by (simp add: cancel_run_def compare_digest_def assms split: prod.split)

text \<open>A server is ready exactly when its three programs are on the path.\<close>

lemma ready_iff:
  "fst (health_ready which) = 200 \<longleftrightarrow>
     which ''kubectl'' \<noteq> None \<and> which ''helm'' \<noteq> None \<and> which ''kubectl-argo-rollouts'' \<noteq> None"
  by (auto simp: health_ready_def Let_def)

end
