(* ===== verification/McpFiles.thy ===== *)
theory McpFiles
  imports McpTools Executor
begin

text \<open>
  The tools of the MCP server that do more than run one command: the Helm tools that put their values into a
  temporary file (\<open>mcp/tools/helm.py\<close>) and the listing of Argo experiments of one rollout
  (\<open>mcp/tools/argo.py\<close>). What runs a command is a parameter; so are the names of temporary files, what opening,
  writing and removing one raises, and the decoding of JSON.
\<close>

subsection \<open>Temporary files\<close>

record 'w tmp =
  tp_files :: "(string \<times> string) list"
  tp_made :: nat
  tp_world :: 'w

record 'w tool_env =
  tv_name :: "nat \<Rightarrow> string"
  tv_open :: "nat \<Rightarrow> py_exc option"
  tv_write :: "nat \<Rightarrow> py_exc option"
  tv_unlink :: "string \<Rightarrow> py_exc option"
  tv_run :: "command \<Rightarrow> ('w, tool_output) st"
  tv_loads :: "string \<Rightarrow> json py"

text \<open>An answer is that of the command, or a text of the tool's own with its error flag.\<close>

datatype tool_answer = Ran tool_output | Plain string bool

definition run_plain :: "'w tool_env \<Rightarrow> command \<Rightarrow> ('w tmp, tool_answer) st" where
  "run_plain E c s = (case tv_run E c (tp_world s) of
     (Inl e, w) \<Rightarrow> (Inl e, s\<lparr>tp_world := w\<rparr>) | (Inr a, w) \<Rightarrow> (Inr (Ran a), s\<lparr>tp_world := w\<rparr>))"

text \<open>
  \<open>NamedTemporaryFile(delete=False)\<close> and the write: the name is known to the caller only when both succeed, the
  file exists when the first does.
\<close>

definition write_values :: "'w tool_env \<Rightarrow> string \<Rightarrow> ('w tmp, string) st" where
  "write_values E values s =
     (let n = tp_made s; s1 = s\<lparr>tp_made := Suc n\<rparr> in
      case tv_open E n of
        Some e \<Rightarrow> (Inl e, s1)
      | None \<Rightarrow>
          (case tv_write E n of
             Some e \<Rightarrow> (Inl e, s1\<lparr>tp_files := (tv_name E n, []) # tp_files s1\<rparr>)
           | None \<Rightarrow> (Inr (tv_name E n), s1\<lparr>tp_files := (tv_name E n, values) # tp_files s1\<rparr>)))"

definition unlink :: "'w tool_env \<Rightarrow> string \<Rightarrow> ('w tmp, unit) st" where
  "unlink E f s =
     (case tv_unlink E f of
        Some e \<Rightarrow> (Inl e, s)
      | None \<Rightarrow> (Inr (), s\<lparr>tp_files := filter (\<lambda>p. fst p \<noteq> f) (tp_files s)\<rparr>))"

definition os_error :: "py_exc \<Rightarrow> bool" where
  "os_error e \<longleftrightarrow> exc_type e \<in> {''OSError'', ''FileNotFoundError'', ''PermissionError'', ''IsADirectoryError''}"

definition try_unlink :: "'w tool_env \<Rightarrow> string \<Rightarrow> ('w tmp, unit) st" where
  "try_unlink E f s =
     (case unlink E f s of (Inl e, s') \<Rightarrow> if os_error e then (Inr (), s') else (Inl e, s') | (Inr u, s') \<Rightarrow> (Inr u, s'))"

text \<open>
  The command is run between the write and the removal; any exception but a cancellation is answered, after
  another attempt at the removal when the name is known.
\<close>

definition with_values ::
  "'w tool_env \<Rightarrow> string \<Rightarrow> (string \<Rightarrow> command) \<Rightarrow> string \<Rightarrow> ('w tmp, tool_answer) st" where
  "with_values E failure cmd values s =
     (case write_values E values s of
        (Inl e, s1) \<Rightarrow> if cancelled e then (Inl e, s1) else (Inr (Plain (failure @ exc_msg e) True), s1)
      | (Inr f, s1) \<Rightarrow>
          catchW (bindW (run_plain E (cmd f)) (\<lambda>a. bindW (unlink E f) (\<lambda>_. ret a)))
            (\<lambda>e. bindW (try_unlink E f) (\<lambda>_. ret (Plain (failure @ exc_msg e) True))) s1)"

definition helm_install_with_values_tool ::
  "'w tool_env \<Rightarrow> string \<Rightarrow> string \<Rightarrow> string \<Rightarrow> string option \<Rightarrow> bool option \<Rightarrow> bool option \<Rightarrow> string option
     \<Rightarrow> ('w tmp, tool_answer) st" where
  "helm_install_with_values_tool E release chart values ns create wait oid =
     with_values E ''Error installing Helm chart: ''
       (\<lambda>file. helm_install_with_values release chart file ns create wait oid) values"

definition helm_template_tool ::
  "'w tool_env \<Rightarrow> string \<Rightarrow> string \<Rightarrow> string option \<Rightarrow> string option \<Rightarrow> bool option \<Rightarrow> ('w tmp, tool_answer) st" where
  "helm_template_tool E release chart ns values crds =
     (case values of
        Some (c # cs) \<Rightarrow>
          with_values E ''Error rendering Helm template: '' (\<lambda>file. helm_template release chart ns values crds file) (c # cs)
      | _ \<Rightarrow> run_plain E (helm_template release chart ns None crds []))"

subsection \<open>The experiments of a rollout\<close>

definition no_experiments :: "string \<Rightarrow> string" where
  "no_experiments rollout = ''No experiments found for rollout '' @ [CHR 0x27] @ rollout @ [CHR 0x27]"

definition experiments_answer :: "string \<Rightarrow> json \<Rightarrow> tool_answer py" where
  "experiments_answer rollout data =
     bindE (jget_def data ''items'' (JList [])) (\<lambda>its. bindE (py_iter its) (\<lambda>xs.
     bindE (experiments_of rollout xs) (\<lambda>found.
     Inr (if found = [] then Plain (no_experiments rollout) False
          else Plain (json_indent 0 (JDict [(''items'', JList found)])) False))))"

definition read_experiments :: "(string \<Rightarrow> json py) \<Rightarrow> string \<Rightarrow> tool_output \<Rightarrow> tool_answer py" where
  "read_experiments loads rollout a =
     (if error a then Inr (Ran a)
      else case loads (out_text a) of
        Inl e \<Rightarrow>
          if exc_type e = ''JSONDecodeError'' then Inr (Plain (''Failed to parse experiments JSON: '' @ exc_msg e) True) else Inl e
      | Inr data \<Rightarrow> experiments_answer rollout data)"

definition argo_list_experiments_tool ::
  "'w tool_env \<Rightarrow> string option \<Rightarrow> string option \<Rightarrow> bool option \<Rightarrow> ('w tmp, tool_answer) st" where
  "argo_list_experiments_tool E rollout ns all =
     bindW (lift (argo_list_experiments rollout ns all)) (\<lambda>c.
     case rollout of
       Some (r # rs) \<Rightarrow>
         bindW (run_plain E c) (\<lambda>a. case a of Ran out \<Rightarrow> lift (read_experiments (tv_loads E) (r # rs) out) | Plain t b \<Rightarrow> ret a)
     | _ \<Rightarrow> run_plain E c)"

subsection \<open>What is left behind\<close>

lemma run_plain_files [simp]: "tp_files (snd (run_plain E c s)) = tp_files s"
  by (simp add: run_plain_def split: prod.split sum.split)

lemma run_plain_same: "run_plain E c s = (r, s') \<Longrightarrow> tp_files s' = tp_files s"
  by (metis run_plain_files snd_conv)

text \<open>
  The values of a chart do not stay on the disk: when the temporary file has a new name and can be written and
  removed, then after the tool, whatever the command answered or raised, the files are those there were before,
  unless it was cancelled.
\<close>

theorem values_file_removed:
  assumes "tv_write E (tp_made s) = None" and "tv_name E (tp_made s) \<notin> fst ` set (tp_files s)"
    and "\<And>f. tv_unlink E f = None"
    and "helm_install_with_values_tool E release chart values ns create wait oid s = (r, s')"
    and "\<And>e. r = Inl e \<Longrightarrow> \<not> cancelled e"
  shows "tp_files s' = tp_files s"
proof (cases "tv_open E (tp_made s)")
  case (Some e)
  then show ?thesis
    using assms(4) by (auto simp: helm_install_with_values_tool_def with_values_def write_values_def Let_def split: if_splits)
next
  case None
  define f where "f = tv_name E (tp_made s)"
  define s1 where "s1 = s\<lparr>tp_made := Suc (tp_made s), tp_files := (f, values) # tp_files s\<rparr>"
  have gone: "filter (\<lambda>p. fst p \<noteq> f) (tp_files u) = tp_files s" if "tp_files u = tp_files s1" for u :: "'a tmp"
    using assms(2) that by (force simp: s1_def f_def filter_id_conv)
  define c where "c = helm_install_with_values release chart f ns create wait oid"
  have run: "catchW (bindW (run_plain E c) (\<lambda>a. bindW (unlink E f) (\<lambda>_. ret a)))
      (\<lambda>e. bindW (try_unlink E f) (\<lambda>_. ret (Plain (''Error installing Helm chart: '' @ exc_msg e) True))) s1 = (r, s')"
    using assms(4) None assms(1)
    by (simp add: helm_install_with_values_tool_def with_values_def write_values_def Let_def c_def f_def s1_def)
  obtain x u where cmd: "run_plain E c s1 = (x, u)" by (cases "run_plain E c s1")
  note files = gone[OF run_plain_same[OF cmd]]
  show ?thesis
  proof (cases x)
    case (Inl e)
    then show ?thesis using run cmd assms(3,5) files
      by (auto simp: catchW_def bindW_def try_unlink_def unlink_def split: if_splits)
  next
    case (Inr a)
    then show ?thesis using run cmd assms(3) files by (auto simp: catchW_def bindW_def unlink_def)
  qed
qed

text \<open>A cancelled installation and one whose values cannot be written leave the file behind.\<close>

lemma cancelled_values_stay:
  assumes "tv_open E (tp_made s) = None" and "tv_write E (tp_made s) = None" and "cancelled e"
    and "\<And>c w. fst (tv_run E c w) = Inl e"
  shows "(tv_name E (tp_made s), values) \<in>
    set (tp_files (snd (helm_install_with_values_tool E release chart values ns create wait oid s)))"
proof -
  have "\<exists>w. tv_run E c v = (Inl e, w)" for c v using assms(4)[of c v] by (metis prod.collapse)
  then obtain g where "tv_run E c v = (Inl e, g c v)" for c v by metis
  then show ?thesis
    using assms(1-3) by (simp add: helm_install_with_values_tool_def with_values_def write_values_def run_plain_def bindW_def catchW_def Let_def)
qed

lemma unwritten_values_stay:
  assumes "tv_open E (tp_made s) = None" and "tv_write E (tp_made s) = Some e"
  shows "(tv_name E (tp_made s), []) \<in>
    set (tp_files (snd (helm_install_with_values_tool E release chart values ns create wait oid s)))"
  using assms by (simp add: helm_install_with_values_tool_def with_values_def write_values_def Let_def)

definition failing_helm :: "unit tool_env" where
  "failing_helm = \<lparr>tv_name = (\<lambda>n. ''/tmp/v''), tv_open = (\<lambda>n. None), tv_write = (\<lambda>n. None), tv_unlink = (\<lambda>f. None),
     tv_run = (\<lambda>c w. (Inl (Exc ''RuntimeError'' ''no helm''), w)), tv_loads = (\<lambda>s. Inr JNull)\<rparr>"

lemma values_file_removed_witness:
  "tp_files (snd (helm_install_with_values_tool failing_helm ''web'' ''repo/web'' ''a: 1'' None None None None
     \<lparr>tp_files = [(''/tmp/other'', ''x'')], tp_made = 0, tp_world = ()\<rparr>)) = [(''/tmp/other'', ''x'')]"
proof -
  let ?s = "\<lparr>tp_files = [(''/tmp/other'', ''x'')], tp_made = 0, tp_world = ()\<rparr>"
  obtain s' where run: "helm_install_with_values_tool failing_helm ''web'' ''repo/web'' ''a: 1'' None None None None ?s =
      (Inr (Plain ''Error installing Helm chart: no helm'' True), s')"
    by (simp add: helm_install_with_values_tool_def with_values_def write_values_def run_plain_def bindW_def catchW_def
        cancelled_def try_unlink_def unlink_def failing_helm_def)
  have "tp_files s' = tp_files ?s"
    by (rule values_file_removed[OF _ _ _ run]) (simp_all add: failing_helm_def)
  then show ?thesis by (simp add: run)
qed

end
