(* ===== verification/ToolCatalog.thy ===== *)
theory ToolCatalog
  imports Exposure Executor
begin

text \<open>
  The executor over the tool cache: the catalogue a call is checked against is what the MCP server listed. The
  interface is the locale \<open>tool_catalog\<close>; the cache of theory McpClient provides it, and the rule of
  \<open>services/approvals.py\<close> is its client.
\<close>

text \<open>What the annotations of a tool say of it.\<close>

definition exempt :: "dict \<Rightarrow> bool" where
  "exempt d \<longleftrightarrow> (\<exists>a. dget_def d ''annotations'' (JDict []) = JDict a \<and>
     (truthy (dget_def a ''systemTool'' (JBool False)) \<or> truthy (dget_def a ''readOnlyHint'' (JBool False))))"

subsection \<open>The interface\<close>

locale tool_catalog =
  fixes lookup :: "string \<Rightarrow> ('s, json) st"
    and usable :: "'s \<Rightarrow> bool"
    and listed :: "'s \<Rightarrow> dict list"
  assumes lookup_usable: "lookup n s = (r, s') \<Longrightarrow> usable s \<Longrightarrow> usable s'"
    and lookup_listed: "lookup n s = (Inr m, s') \<Longrightarrow> usable s \<Longrightarrow>
      m = JNull \<or> (\<exists>d \<in> set (listed s'). m = JDict d \<and> dget d ''name'' = JStr n)"
begin

lemma unasked_exempt: "\<not> need_approval (Some (\<lambda>_. Inr (JDict d))) n \<Longrightarrow> exempt d"
  by (cases "dget_def d ''annotations'' (JDict [])")
    (auto simp: need_approval_def exempt_def bindE_def jget_def_def split: if_splits)

text \<open>A tool that is not asked about is in the catalogue, under its name, as exempt.\<close>

lemma unasked_listed:
  assumes "lookup n s = (Inr m, s')" and "usable s" and "\<not> need_approval (Some (\<lambda>_. Inr m)) n"
  shows "\<exists>d \<in> set (listed s'). dget d ''name'' = JStr n \<and> exempt d"
proof -
  have "m \<noteq> JNull" using assms(3) by (auto simp: need_approval_def bindE_def)
  then obtain d where "d \<in> set (listed s')" "m = JDict d" "dget d ''name'' = JStr n"
    using lookup_listed[OF assms(1,2)] by blast
  with unasked_exempt assms(3) show ?thesis by blast
qed

end

subsection \<open>The cache is a catalogue\<close>

text \<open>Other coroutines, while the lock is awaited, leave the cache well formed.\<close>

definition lock_ok :: "'w tools_env \<Rightarrow> bool" where
  "lock_ok T \<longleftrightarrow> (\<forall>t r t'. te_lock T t = (r, t') \<longrightarrow> cache_ok t \<longrightarrow> cache_ok t')"

definition cached_metadata :: "'w tools_env \<Rightarrow> string \<Rightarrow> ('w cached, json) st" where
  "cached_metadata T name =
     bindW (get_by_name T name) (\<lambda>d. ret (case d of None \<Rightarrow> JNull | Some x \<Rightarrow> JDict x))"

lemma get_by_name_ok:
  assumes "lock_ok T" and "get_by_name T n s = (r, s')" and "cache_ok s"
  shows "cache_ok s'"
proof -
  have locked: "te_lock T t = (x, t') \<Longrightarrow> cache_ok t \<Longrightarrow> cache_ok t'" for t x t'
    using assms(1) by (auto simp: lock_ok_def)
  have empty: "cache_ok t'" if "load_if_empty T t = (x, t')" "cache_ok t" for t x t'
    using that by (auto simp: load_if_empty_def split: if_splits dest: load_ok)
  show ?thesis
  proof (cases "ensure_loaded T s")
    case (Pair x s1)
    have ok1: "cache_ok s1" using ensure_ok[OF locked Pair assms(3)] .
    show ?thesis
    proof (cases "\<exists>e. x = Inl e \<or> map_of (cc_by_name s1) n \<noteq> None")
      case True
      then show ?thesis using assms(2) Pair ok1 by (cases x) (auto simp: get_by_name_def bindW_def)
    next
      case False
      obtain y s2 where lock: "te_lock T s1 = (y, s2)" by (cases "te_lock T s1")
      obtain z s3 where load: "load_if_empty T s2 = (z, s3)" by (cases "load_if_empty T s2")
      have "s' = s2 \<or> s' = s3" using assms(2) Pair False lock load
        by (cases x; cases y; cases z) (auto simp: get_by_name_def bindW_def)
      then show ?thesis using locked[OF lock ok1] empty[OF load] by blast
    qed
  qed
qed

interpretation catalog: tool_catalog "cached_metadata T" "\<lambda>s. cache_ok s \<and> lock_ok T" cc_all for T
proof unfold_locales
  fix n s r s'
  assume m: "cached_metadata T n s = (r, s')" and ok: "cache_ok s \<and> lock_ok T"
  obtain x t where found: "get_by_name T n s = (x, t)" by (cases "get_by_name T n s")
  then have "s' = t" using m by (cases x) (simp_all add: cached_metadata_def bindW_def)
  with get_by_name_ok[OF _ found] ok show "cache_ok s' \<and> lock_ok T" by blast
next
  fix n s m s'
  assume found: "cached_metadata T n s = (Inr m, s')" and ok: "cache_ok s \<and> lock_ok T"
  then obtain x where x: "get_by_name T n s = (Inr x, s')" "m = (case x of None \<Rightarrow> JNull | Some d \<Rightarrow> JDict d)"
    by (auto simp: cached_metadata_def bindW_Inr)
  show "m = JNull \<or> (\<exists>d \<in> set (cc_all s'). m = JDict d \<and> dget d ''name'' = JStr n)"
  proof (cases x)
    case (Some d)
    have "cache_ok s' \<and> d \<in> set (cc_all s') \<and> dget d ''name'' = JStr n"
      by (rule found_by_name[OF _ x(1)[unfolded Some]]) (use ok in \<open>auto simp: lock_ok_def\<close>)
    with x(2) Some show ?thesis by auto
  qed (simp add: x(2))
qed

subsection \<open>When a call is not asked about\<close>

text \<open>A collaborator whose state is the environment of the executor's world.\<close>

definition in_env :: "('e, 'a) st \<Rightarrow> ('e, 'a) io" where
  "in_env m w = (case m (wenv w) of (r, s) \<Rightarrow> (r, w\<lparr>wenv := s\<rparr>))"

text \<open>
  C30: Approval is skipped only for what is known to be harmless.  When the executor needs no approval for a tool, its
  capability is registered as one that only reads, or the tool is in the catalogue the MCP server listed, under
  that very name, marked there as read-only or as a system tool, whatever else the cache holds, loads or is told
  by other coroutines, and whatever fails.
\<close>

theorem approval_skipped_only_for_listed:
  assumes "\<And>n. en_metadata E n = in_env (cached_metadata T n)" and "lock_ok T" and "cache_ok (wenv w)"
    and "approval_needed E name w = (Inr False, w')"
  shows "(\<exists>cap. get_tool_capability name = Some cap \<and> effect cap = READ)
    \<or> (\<exists>d \<in> set (cc_all (wenv w')). dget d ''name'' = JStr name \<and> exempt d)"
proof -
  have asked: "\<exists>d \<in> set (cc_all (wenv w')). dget d ''name'' = JStr name \<and> exempt d"
    if "bindW (get_tool_metadata E name) (\<lambda>m. ret (need_approval (Some (\<lambda>_. Inr m)) name)) w = (Inr False, w')"
  proof -
    from that obtain m where m: "get_tool_metadata E name w = (Inr m, w')" "\<not> need_approval (Some (\<lambda>_. Inr m)) name"
      by (auto simp: bindW_Inr)
    have "m \<noteq> JNull" using m(2) by (auto simp: need_approval_def bindE_def)
    then have "in_env (cached_metadata T name) w = (Inr m, w')"
      using m(1) assms(1) by (auto simp: get_tool_metadata_def catchW_def split: prod.splits sum.splits if_splits)
    then have "cached_metadata T name (wenv w) = (Inr m, wenv w')"
      by (auto simp: in_env_def split: prod.splits)
    from catalog.unasked_listed[OF this _ m(2)] assms(2,3) show ?thesis by blast
  qed
  show ?thesis
  proof (cases "get_tool_capability name")
    case None
    then show ?thesis using assms(4) asked by (simp add: approval_needed_def)
  next
    case (Some cap)
    show ?thesis
    proof (cases "is_infrastructure_tool name")
      case True
      then have "effect cap \<noteq> MUTATION" using assms(4) Some by (simp add: approval_needed_def requires_approval_def)
      then show ?thesis using Some by (cases "effect cap") auto
    next
      case False
      then show ?thesis using assms(4) Some asked by (simp add: approval_needed_def)
    qed
  qed
qed

definition search_tool :: dict where
  "search_tool = [(''name'', JStr ''memory_search''), (''annotations'', JDict [(''readOnlyHint'', JBool True)])]"

definition tool_listing :: "unit tools_env" where
  "tool_listing = \<lparr>te_fetch = ret [search_tool], te_lock = ret ()\<rparr>"

definition catalog_engine :: "unit cached engine" where
  "catalog_engine = \<lparr>en_settings = default_settings,
     en_yaml = \<lparr>safe_load_all = \<lambda>_. Inr [], safe_load = \<lambda>_. Inr JNull, safe_dump_all = \<lambda>_. [], safe_dump = \<lambda>_. []\<rparr>,
     en_hmac = \<lambda>k s. ''h'', en_uuid = Inr, en_sse = True, en_metadata = \<lambda>n. in_env (cached_metadata tool_listing n),
     en_integration = ret None, en_mcp = \<lparr>mcp_call = \<lambda>tool args run. ret [], mcp_sleep = \<lambda>us. ret ()\<rparr>,
     en_publish = ret (), en_transaction = ret ()\<rparr>"

definition empty_world :: "unit cached world" where
  "empty_world = \<lparr>wj = [], wnow = 0, wmono = 0, wevents = [], wenv = \<lparr>cc_by_name = [], cc_all = [], cc_world = ()\<rparr>\<rparr>"

lemma approval_skipped_only_for_listed_witness:
  "\<exists>w'. approval_needed catalog_engine ''memory_search'' empty_world = (Inr False, w')
     \<and> (\<exists>d \<in> set (cc_all (wenv w')). dget d ''name'' = JStr ''memory_search'' \<and> exempt d)"
proof -
  have unknown: "get_tool_capability ''memory_search'' = None" by code_simp
  have found: "cached_metadata tool_listing ''memory_search'' (wenv empty_world) =
      (Inr (JDict search_tool), \<lparr>cc_by_name = [(''memory_search'', search_tool)], cc_all = [search_tool], cc_world = ()\<rparr>)"
    by (simp add: cached_metadata_def get_by_name_def ensure_loaded_def load_if_empty_def load_cache_def build_cache_def
        bindW_def tool_listing_def empty_world_def search_tool_def tool_named_def name_in_def dget_def_def)
  have exempted: "\<not> need_approval (Some (\<lambda>_. Inr (JDict search_tool))) ''memory_search''"
    by (simp add: need_approval_def bindE_def search_tool_def jget_def_def dget_def_def)
  obtain w' where w': "approval_needed catalog_engine ''memory_search'' empty_world = (Inr False, w')"
    by (simp add: approval_needed_def unknown get_tool_metadata_def catchW_def catalog_engine_def in_env_def found bindW_def exempted)
  have "lock_ok tool_listing" "cache_ok (wenv empty_world)" "\<And>n. en_metadata catalog_engine n = in_env (cached_metadata tool_listing n)"
    by (simp_all add: lock_ok_def tool_listing_def cache_ok_def empty_world_def catalog_engine_def)
  from approval_skipped_only_for_listed[OF this(3,1,2) w'] unknown w' show ?thesis by auto
qed

end
