(* ===== verification/ExecutorClient.thy ===== *)
theory ExecutorClient
  imports ToolCatalog ExecutorProps
begin

text \<open>
  The executor over the MCP client of theory McpClient: what becomes of a controlled mutation whose answer never
  arrives, while the recovery of leases, the stop of the run and the verification go on beside it.
\<close>

subsection \<open>What others do to a row that is executing\<close>

text \<open>A method of the journal that does not record the outcome of the operation \<open>oid\<close>.\<close>

inductive bystander ::
  "(string \<Rightarrow> string \<Rightarrow> string) \<Rightarrow> (string \<Rightarrow> string py) \<Rightarrow> settings \<Rightarrow> yaml \<Rightarrow> string \<Rightarrow> journal \<Rightarrow> journal \<Rightarrow> bool"
  for hmac uuid S Y oid where
  prepare: "bystander hmac uuid S Y oid J
     (snd (prepare hmac uuid S Y k run call tool args context policy plan now J0 J))"
| mark_executing: "bystander hmac uuid S Y oid J (snd (mark_executing S k owner t1 t2 J))"
| record_execution: "k \<noteq> oid \<Longrightarrow> bystander hmac uuid S Y oid J (snd (record_execution k status result error now J))"
| claim: "bystander hmac uuid S Y oid J (snd (claim_verification S k owner now now' J))"
| record_verification: "bystander hmac uuid S Y oid J (snd (record_verification k owner verdict result ext now J))"
| abandon: "bystander hmac uuid S Y oid J (snd (abandon_verification k owner why now J))"
| recover_executions: "bystander hmac uuid S Y oid J (snd (recover_stale_executions now J))"
| recover_verifications: "bystander hmac uuid S Y oid J (snd (recover_stale_verifications now J))"
| cancel_prepared: "bystander hmac uuid S Y oid J (snd (cancel_prepared run now J))"
| interrupt_executing: "bystander hmac uuid S Y oid J (snd (interrupt_executing run now J))"

text \<open>The row is there, with one of these states of its execution.\<close>

definition in_state :: "execution_status set \<Rightarrow> string \<Rightarrow> journal \<Rightarrow> bool" where
  "in_state E oid J \<longleftrightarrow> (\<exists>r. find_row oid J = Some r \<and> execution_status r \<in> E)"

lemma in_state_saved:
  assumes "find_row k J = Some r" and "op_id r' = op_id r" and "in_state E oid J"
    and "k = oid \<Longrightarrow> execution_status r \<in> E \<Longrightarrow> execution_status r' \<in> E"
  shows "in_state E oid (save_row r' J)"
proof (cases "k = oid")
  case True
  then show ?thesis using assms by (auto simp: in_state_def)
next
  case False
  then have "op_id r' \<noteq> oid" using assms(1,2) by (simp add: find_row_id)
  then have "find_row oid (save_row r' J) = find_row oid J"
    unfolding find_row_def save_row_def by (induction J) auto
  then show ?thesis using assms(3) by (simp add: in_state_def)
qed

lemma in_state_with_row:
  assumes "in_state E oid J"
    and "\<And>r. find_row k J = Some r \<Longrightarrow> snd (f r) = J \<or> (\<exists>r'. snd (f r) = save_row r' J \<and> op_id r' = op_id r
      \<and> (k = oid \<longrightarrow> execution_status r \<in> E \<longrightarrow> execution_status r' \<in> E))"
  shows "in_state E oid (snd (with_row k J f))"
proof (cases "find_row k J")
  case (Some r)
  then show ?thesis using assms(2)[OF Some] assms(1) by (auto simp: with_row_def intro: in_state_saved)
qed (simp add: with_row_def assms(1))

lemma find_row_map: "(\<And>r. op_id (f r) = op_id r) \<Longrightarrow> find_row oid (map f J) = map_option f (find_row oid J)"
  by (induction J) (auto simp: find_row_def)

lemma in_state_update:
  assumes "in_state E oid J" and "\<And>r. op_id (f r) = op_id r"
    and "\<And>r. P r \<Longrightarrow> execution_status r \<in> E \<Longrightarrow> execution_status (f r) \<in> E"
  shows "in_state E oid (snd (update_where P f J))"
proof -
  obtain r where "find_row oid J = Some r" "execution_status r \<in> E" using assms(1) by (auto simp: in_state_def)
  then show ?thesis using assms(2,3) by (cases "P r") (auto simp: in_state_def update_where_def find_row_map)
qed

lemma find_row_append: "find_row oid J = Some r \<Longrightarrow> find_row oid (J @ K) = Some r"
  unfolding find_row_def by (induction J) auto

lemma in_state_if:
  "(b \<Longrightarrow> in_state E oid (snd x)) \<Longrightarrow> (\<not> b \<Longrightarrow> in_state E oid (snd y)) \<Longrightarrow> in_state E oid (snd (if b then x else y))"
  by simp

lemma bystander_keeps:
  assumes "bystander hmac uuid S Y oid J J'" and "in_state E oid J" and "E = {EXECUTING, UNKNOWN} \<or> E = {UNKNOWN}"
  shows "in_state E oid J'"
  using assms
proof (induction rule: bystander.induct)
  case (prepare J k run call tool args ctx policy plan now J0)
  from prepare_appends[of J hmac uuid S Y k run call tool args ctx policy plan now J0] prepare(1) show ?case
    unfolding appends_fresh_def in_state_def by (metis find_row_append)
qed (unfold mark_executing_def record_execution_def claim_verification_def record_verification_def
    abandon_verification_def recover_stale_executions_def recover_stale_verifications_def cancel_prepared_def
    interrupt_executing_def,
    (((rule in_state_if, simp)?, erule in_state_with_row in_state_update);
      (auto simp: stale_execution_def row_defs; fail))+)

text \<open>What goes on while an operation is awaited leaves the outcome of \<open>oid\<close> to its executor.\<close>

definition leaves_outcome :: "'e engine \<Rightarrow> string \<Rightarrow> ('e, 'a) io \<Rightarrow> bool" where
  "leaves_outcome E oid m \<longleftrightarrow>
     (\<forall>w. (bystander (en_hmac E) (en_uuid E) (en_settings E) (en_yaml E) oid)\<^sup>*\<^sup>* (wj w) (wj (snd (m w))))"

lemma bystanders_keep:
  assumes "(bystander hmac uuid S Y oid)\<^sup>*\<^sup>* J J'" and "in_state E oid J" and "E = {EXECUTING, UNKNOWN} \<or> E = {UNKNOWN}"
  shows "in_state E oid J'"
  using assms by (induction rule: rtranclp_induct) (auto intro: bystander_keeps)

lemma leaves_keep:
  "leaves_outcome E oid m \<Longrightarrow> m w = (x, w') \<Longrightarrow> in_state {EXECUTING, UNKNOWN} oid (wj w) \<Longrightarrow> in_state {EXECUTING, UNKNOWN} oid (wj w')"
  "leaves_outcome E oid m \<Longrightarrow> m w = (x, w') \<Longrightarrow> in_state {UNKNOWN} oid (wj w) \<Longrightarrow> in_state {UNKNOWN} oid (wj w')"
  unfolding leaves_outcome_def using bystanders_keep by (metis snd_conv)+

subsection \<open>The lost answer\<close>

lemma emit_leaves:
  assumes "leaves_outcome E oid (en_publish E)" shows "leaves_outcome E oid (emit E on t d)"
  unfolding leaves_outcome_def
proof
  fix w :: "'a world"
  let ?v = "w\<lparr>wevents := wevents w @ [(t, d @ [(''timestamp'', JInt (wnow w div 1000))])]\<rparr>"
  from assms have "(bystander (en_hmac E) (en_uuid E) (en_settings E) (en_yaml E) oid)\<^sup>*\<^sup>* (wj ?v) (wj (snd (en_publish E ?v)))"
    unfolding leaves_outcome_def by blast
  then show "(bystander (en_hmac E) (en_uuid E) (en_settings E) (en_yaml E) oid)\<^sup>*\<^sup>* (wj w) (wj (snd (emit E on t d w)))"
    by (simp add: emit_def publish_def bindW_def)
qed

lemma emit_answers: "(\<And>w. fst (en_publish E w) = Inr ()) \<Longrightarrow> \<exists>w'. emit E on t d w = (Inr (), w')"
  by (simp add: emit_def publish_def bindW_def) (metis prod.collapse)

text \<open>
  Recording the outcome as unknown: done when the row is still executing, refused when recovery or a stop
  took it first; unknown it is either way.
\<close>

lemma recorded_unknown:
  assumes "in_state {EXECUTING, UNKNOWN} oid (wj w)" and "fst (en_transaction E w) = Inr ()"
    and "leaves_outcome E oid (en_transaction E)"
  shows "\<exists>x w'. transact E (\<lambda>now. record_execution oid UNKNOWN res err now) w = (x, w')
    \<and> in_state {UNKNOWN} oid (wj w') \<and> (\<forall>e. x = Inl e \<longrightarrow> exc_type e = ''InvalidMutationTransition'')"
proof -
  obtain w1 where w1: "en_transaction E w = (Inr (), w1)" using assms(2) by (metis prod.collapse)
  obtain r where r: "find_row oid (wj w1) = Some r" "execution_status r = EXECUTING \<or> execution_status r = UNKNOWN"
    using leaves_keep(1)[OF assms(3) w1 assms(1)] by (auto simp: in_state_def)
  have row: "op_id (outcome_row UNKNOWN res err t r) = op_id r" "execution_status (outcome_row UNKNOWN res err t r) = UNKNOWN" for t
    by (simp_all add: row_defs)
  show ?thesis
    using r by (auto simp: transact_def bindW_def w1 on_journal_def record_execution_def with_row_def OUTCOMES_def
        in_state_def row invalid_transition_def split: prod.splits)
qed

lemma transport_failure_texts:
  "truthy (dget_def transport_failure ''isError'' (JBool False))"
  "\<exists>msg. error_message transport_failure = Inr msg"
  by (simp_all add: transport_failure_def dget_def_def error_message_def error_part_def bindE_def py_iter_def Let_def)


lemma failed_answers:
  assumes "\<And>w. fst (en_publish E w) = Inr ()" and "leaves_outcome E oid (en_publish E)"
    and "is_system_tool metadata = Inr sys" and "exc_type e \<noteq> ''ApprovalPending''"
    and "in_state {UNKNOWN} oid (wj w)"
  shows "\<exists>blocks w'. execution_failed E c metadata e w = (Inr blocks, w') \<and> in_state {UNKNOWN} oid (wj w')"
proof -
  define s where "s = (\<not> (en_sse E \<longrightarrow> sys))"
  obtain w' where w': "emit E s ''tool.error'' (tool_event c (case tool_title metadata (tc_name c) of Inr t \<Rightarrow> t | Inl _ \<Rightarrow> JStr (tc_name c))
      [(''error'', JStr (exc_msg e))]) w = (Inr (), w')"
    using emit_answers[OF assms(1)] by blast
  have "in_state {UNKNOWN} oid (wj w')" by (rule leaves_keep(2)[OF emit_leaves[OF assms(2)] w' assms(5)])
  moreover have "execution_failed E c metadata e w = (Inr (JList [text_block (failure_text (tc_name c) e)]), w')"
    using w' assms(3,4) by (cases "en_sse E") (simp_all add: execution_failed_def bindW_def s_def)
  ultimately show ?thesis by blast
qed

text \<open>
  C11: A lost answer is neither success nor failure.  A controlled mutation is sent with its row executing, and the
  connection fails or is cancelled. Meanwhile anybody may run the methods of the journal (recovery of leases, stop,
  claims, verdicts), on this row too, except that no one else records its outcome; events are published,
  transactions begin, and the metadata of the tool can be read. Then the row is unknown afterwards, whether the executor recorded it or came too late and its
  record was refused, and the execution ends with the cancellation or with an answer to the model, never with
  another exception.
\<close>

theorem lost_answer_left_unknown:
  assumes "\<And>args run. mcp_call (en_mcp E) (tc_name c) args run = call_tool C (tc_name c) args None (Some run)"
    and "\<And>w. fst (me_transport C (mcp_headers (me_key C) (Some (tc_run c))) (tc_name c) args w) = Inl e"
    and "\<And>hs name ps. leaves_outcome E oid (me_transport C hs name ps)"
    and "leaves_outcome E oid (en_publish E)" and "leaves_outcome E oid (en_transaction E)"
    and "\<And>w. fst (en_publish E w) = Inr ()" and "\<And>w. fst (en_transaction E w) = Inr ()"
    and "is_system_tool metadata = Inr sys"
    and "find_row oid (wj w) = Some r" and "execution_status r = EXECUTING"
    and "catchW (call_stage E c title on shown (Some oid) args) (execution_failed E c metadata) w = (x, w')"
  shows "(\<exists>r'. find_row oid (wj w') = Some r' \<and> execution_status r' = UNKNOWN)
    \<and> (if cancelled e then x = Inl e else \<exists>blocks. x = Inr blocks)"
proof -
  obtain w1 where started: "emit E on ''tool.executing'' (tool_event c title [(''args'', JDict shown)]) w = (Inr (), w1)"
    using emit_answers[OF assms(6)] by blast
  have "in_state {EXECUTING, UNKNOWN} oid (wj w)" using assms(9,10) by (simp add: in_state_def)
  note s1 = leaves_keep(1)[OF emit_leaves[OF assms(4)] started this]
  obtain w2 where lost: "me_transport C (mcp_headers (me_key C) (Some (tc_run c))) (tc_name c) args w1 = (Inl e, w2)"
    using assms(2) by (metis prod.collapse)
  note s2 = leaves_keep(1)[OF assms(3) lost s1]
  have call: "mcp_call (en_mcp E) (tc_name c) args (tc_run c) w1 =
      (if cancelled e then (Inl e, w2) else (Inr transport_failure, w2))"
    by (simp add: assms(1) call_tool_def inferred_parameters_def catchW_def bindW_def lost)
  note recorded = recorded_unknown[OF s2 assms(7,5)]
  have "in_state {UNKNOWN} oid (wj w') \<and> (if cancelled e then x = Inl e else \<exists>blocks. x = Inr blocks)"
  proof (cases "cancelled e")
    case True
    obtain y w3 where rec: "transact E (\<lambda>now. record_execution oid UNKNOWN [] cancelled_error now) w2 = (y, w3)"
        "in_state {UNKNOWN} oid (wj w3)" "\<forall>e. y = Inl e \<longrightarrow> exc_type e = ''InvalidMutationTransition''"
      using recorded by blast
    have "send E c (Some oid) args w1 = (Inl e, w3)"
      using rec(1,3) True by (cases y) (auto simp: send_def on_cancel_def call catchW_def bindW_def cancelled_def)
    then show ?thesis
      using assms(11) True rec(2) started by (simp add: call_stage_def bindW_def catchW_def)
  next
    case False
    have "send E c (Some oid) args w1 = (Inr transport_failure, w2)"
      by (simp add: send_def on_cancel_def call False)
    then have body: "call_stage E c title on shown (Some oid) args w = finish_error E c title on (Some oid) transport_failure w2"
      using started transport_failure_texts(1) by (simp add: call_stage_def bindW_def)
    obtain msg where msg: "error_message transport_failure = Inr msg" using transport_failure_texts(2) by blast
    define err where "err = [(''error_hmac'', JStr (hmac_fingerprint (en_hmac E) (INTERNAL_API_KEY (en_settings E)) [JStr msg])),
            (''reliability'', JDict (AList.update ''external_execution_started'' (JBool True)
               (AList.update ''ambiguous_outcome'' (JBool True) (reliability_dict transport_failure))))]"
    obtain y w3 where rec: "transact E (\<lambda>now. record_execution oid UNKNOWN [] err now) w2 = (y, w3)"
        "in_state {UNKNOWN} oid (wj w3)" "\<forall>e. y = Inl e \<longrightarrow> exc_type e = ''InvalidMutationTransition''"
      using recorded by blast
    obtain w4 where told: "emit E on ''mutation.outcome''
           [(''run_id'', JStr (tc_run c)), (''call_id'', JStr (tc_call c)), (''operation_id'', JStr oid),
            (''tool'', JStr (tc_name c)), (''execution_status'', JStr (exec_value UNKNOWN))] w3 = (Inr (), w4)"
      using emit_answers[OF assms(6)] by blast
    show ?thesis
    proof (cases y)
      case (Inr r')
      then have "\<exists>blocks. finish_error E c title on (Some oid) transport_failure w2 = (Inr blocks, w4)"
        by (simp add: finish_error_def bindW_def msg err_def[symmetric] rec(1) told[simplified])
      then show ?thesis
        using assms(11) False leaves_keep(2)[OF emit_leaves[OF assms(4)] told rec(2)] by (auto simp: body catchW_def)
    next
      case (Inl e')
      then have e': "exc_type e' = ''InvalidMutationTransition''" using rec(3) by simp
      have "finish_error E c title on (Some oid) transport_failure w2 = (Inl e', w3)"
        using Inl by (simp add: finish_error_def bindW_def msg err_def[symmetric] rec(1))
      moreover have "exc_type e' \<noteq> ''ApprovalPending''" using e' by simp
      note failed_answers[OF assms(6,4,8) this rec(2), of c]
      ultimately show ?thesis using assms(11) False e' by (auto simp: body catchW_def cancelled_def)
    qed
  qed
  then show ?thesis by (simp add: in_state_def)
qed

text \<open>A client whose connection breaks after 1000 seconds, in which the recovery of stale executions has run.\<close>

definition broken_client :: "unit world mcp_env" where
  "broken_client = \<lparr>me_key = ''k'', me_loads = (\<lambda>s. Inr JNull),
     me_transport = (\<lambda>hs n ps w. (Inl (Exc ''ReadError'' ''reset''), recover_now w)), me_list = ret []\<rparr>"

definition client_engine :: "unit engine" where
  "client_engine = demo_engine\<lparr>en_mcp :=
     \<lparr>mcp_call = (\<lambda>tool args run. call_tool broken_client tool args None (Some run)), mcp_sleep = (\<lambda>us. ret ())\<rparr>\<rparr>"

lemma lost_answer_left_unknown_witness:
  "\<exists>r'. find_row ''op'' (wj (snd (catchW (call_stage client_engine (upgrade_call []) JNull True [] (Some ''op'') [])
      (execution_failed client_engine (upgrade_call []) JNull) (quiet_world\<lparr>wj := [stuck_row]\<rparr>)))) = Some r'
    \<and> execution_status r' = UNKNOWN"
proof -
  obtain x w' where run: "catchW (call_stage client_engine (upgrade_call []) JNull True [] (Some ''op'') [])
      (execution_failed client_engine (upgrade_call []) JNull) (quiet_world\<lparr>wj := [stuck_row]\<rparr>) = (x, w')"
    using prod.exhaust by blast
  have "(\<exists>r'. find_row ''op'' (wj w') = Some r' \<and> execution_status r' = UNKNOWN)
    \<and> (if cancelled (Exc ''ReadError'' ''reset'') then x = Inl (Exc ''ReadError'' ''reset'') else \<exists>blocks. x = Inr blocks)"
  proof (rule lost_answer_left_unknown[OF _ _ _ _ _ _ _ _ _ _ run, where C = broken_client and r = stuck_row and sys = False])
    show "find_row ''op'' (wj (quiet_world\<lparr>wj := [stuck_row]\<rparr>)) = Some stuck_row" "execution_status stuck_row = EXECUTING"
      by (simp_all add: find_row_def stuck_row_def demo_defs)
  next
    fix hs name ps
    show "leaves_outcome client_engine ''op'' (me_transport broken_client hs name ps)"
      by (auto simp: leaves_outcome_def broken_client_def recover_now_def Let_def intro: r_into_rtranclp bystander.recover_executions)
  qed (simp_all add: client_engine_def demo_engine_def leaves_outcome_def broken_client_def is_system_tool_def)
  then show ?thesis by (simp add: run)
qed

end
