(* ===== verification/AgentBodies.thy ===== *)
theory AgentBodies
  imports MemoryAgentApi AgentApi
begin

text \<open>
  The bodies of the internal endpoints (the classes of \<open>endpoints/memory_agent.py\<close>) and the routes that
  read one, check its bounds and call the handler. With them the memory tools of the MCP server and the
  endpoints are one system: a tool's payload is read back as the arguments it was given, and what the tool
  answers is what the handler answers. The one thing left open is what pydantic makes of a string where an
  \<open>int\<close> is declared, the argument \<open>num\<close>; the tools send no such string.
\<close>

subsection \<open>Fields\<close>

definition body_str_def :: "dict \<Rightarrow> string \<Rightarrow> string \<Rightarrow> string py" where
  "body_str_def d k v = (if map_of d k = None then Inr v else body_str d k)"

fun read_strs :: "json list \<Rightarrow> string list py" where
  "read_strs [] = Inr []"
| "read_strs (JStr s # vs) = bindE (read_strs vs) (\<lambda>ss. Inr (s # ss))"
| "read_strs (v # vs) = Inl invalid_body"

definition body_strs :: "dict \<Rightarrow> string \<Rightarrow> string list py" where
  "body_strs d k = (case dget_def d k (JList []) of JList vs \<Rightarrow> read_strs vs | _ \<Rightarrow> Inl invalid_body)"

definition body_strs_opt :: "dict \<Rightarrow> string \<Rightarrow> string list option py" where
  "body_strs_opt d k =
     (case dget d k of
        JNull \<Rightarrow> Inr None
      | JList vs \<Rightarrow> bindE (read_strs vs) (\<lambda>ss. Inr (Some ss))
      | _ \<Rightarrow> Inl invalid_body)"

definition body_dict_opt :: "dict \<Rightarrow> string \<Rightarrow> dict option py" where
  "body_dict_opt d k =
     (case dget d k of JNull \<Rightarrow> Inr None | JDict e \<Rightarrow> Inr (Some e) | _ \<Rightarrow> Inl invalid_body)"

definition bounded_int :: "int \<Rightarrow> int \<Rightarrow> int \<Rightarrow> int py" where
  "bounded_int lo hi i = (if lo \<le> i \<and> i \<le> hi then Inr i else Inl invalid_body)"

text \<open>An \<open>int\<close> with a default, a lower and an upper bound.\<close>

definition body_int :: "(string \<Rightarrow> int option) \<Rightarrow> dict \<Rightarrow> string \<Rightarrow> int \<Rightarrow> int \<Rightarrow> int \<Rightarrow> int py" where
  "body_int num d k v lo hi =
     (case dget_def d k (JInt v) of
        JInt i \<Rightarrow> bounded_int lo hi i
      | JBool b \<Rightarrow> bounded_int lo hi (of_bool b)
      | JStr s \<Rightarrow> (case num s of None \<Rightarrow> Inl invalid_body | Some i \<Rightarrow> bounded_int lo hi i)
      | _ \<Rightarrow> Inl invalid_body)"

definition body_context :: "dict \<Rightarrow> agent_context py" where
  "body_context d =
     bindE (body_str_opt d ''user_id'') (\<lambda>u. bindE (body_str_opt d ''conversation_id'') (\<lambda>c.
     bindE (body_str_opt d ''run_id'') (\<lambda>r. Inr \<lparr>ctx_user = u, ctx_conversation = c, ctx_run = r\<rparr>)))"

subsection \<open>Bodies\<close>

record search_body =
  sb_query :: string
  sb_hints :: "dict option"
  sb_types :: "string list option"
  sb_max :: int

definition read_search_body :: "(string \<Rightarrow> int option) \<Rightarrow> dict \<Rightarrow> search_body py" where
  "read_search_body num d =
     bindE (body_str d ''query'') (\<lambda>q. bindE (body_dict_opt d ''scope_hints'') (\<lambda>h.
     bindE (body_strs_opt d ''document_types'') (\<lambda>ts. bindE (body_int num d ''max_results'' 6 1 20) (\<lambda>n.
     Inr \<lparr>sb_query = q, sb_hints = h, sb_types = ts, sb_max = n\<rparr>))))"

record read_body =
  rb_document :: "string option"
  rb_slug :: "string option"
  rb_path :: "string option"

definition read_read_body :: "dict \<Rightarrow> read_body py" where
  "read_read_body d =
     bindE (body_str_opt d ''document_id'') (\<lambda>i. bindE (body_str_opt d ''store_slug'') (\<lambda>s.
     bindE (body_str_opt d ''path'') (\<lambda>p. Inr \<lparr>rb_document = i, rb_slug = s, rb_path = p\<rparr>)))"

definition read_list_body :: "dict \<Rightarrow> (string \<times> string) py" where
  "read_list_body d =
     bindE (body_str d ''store_slug'') (\<lambda>s. bindE (body_str_def d ''path_prefix'' ''/'') (\<lambda>p. Inr (s, p)))"

definition read_history_body :: "(string \<Rightarrow> int option) \<Rightarrow> dict \<Rightarrow> (string \<times> int) py" where
  "read_history_body num d =
     bindE (body_str d ''document_id'') (\<lambda>i. bindE (body_int num d ''limit'' 5 1 50) (\<lambda>n. Inr (i, n)))"

text \<open>
  The type of the document is still a string here; the handler looks it up. The request it makes names no
  entities.
\<close>

definition read_remember_body :: "(string \<Rightarrow> int option) \<Rightarrow> dict \<Rightarrow> (string \<times> write_request) py" where
  "read_remember_body num d =
     bindE (body_str d ''target_store_slug'') (\<lambda>sl. bindE (body_str d ''path'') (\<lambda>p.
     bindE (body_str_opt d ''title'') (\<lambda>t. bindE (body_str_def d ''document_type'' ''conversation_note'') (\<lambda>ty.
     bindE (body_str d ''content'') (\<lambda>c. bindE (body_int num d ''confidence'' 80 0 100) (\<lambda>n.
     bindE (body_strs d ''source_tool_call_ids'') (\<lambda>ids. bindE (body_str d ''evidence_summary'') (\<lambda>ev.
     bindE (body_strs d ''tags'') (\<lambda>tags. bindE (body_str_opt d ''expected_sha256'') (\<lambda>sha.
     Inr (ty, \<lparr>wr_slug = sl, wr_path = p, wr_title = t, wr_type = CONVERSATION_NOTE, wr_content = c,
               wr_confidence = n, wr_tags = tags, wr_entities = [], wr_calls = ids, wr_evidence = ev,
               wr_expected_sha = sha\<rparr>)))))))))))"

definition read_patch_body :: "dict \<Rightarrow> patch_request py" where
  "read_patch_body d =
     bindE (body_str d ''document_id'') (\<lambda>i. bindE (body_str d ''expected_sha256'') (\<lambda>sha.
     bindE (body_str d ''new_content'') (\<lambda>c. bindE (body_str d ''patch_summary'') (\<lambda>s.
     bindE (body_strs d ''source_tool_call_ids'') (\<lambda>ids. bindE (body_str d ''evidence_summary'') (\<lambda>ev.
     Inr \<lparr>pr_document = i, pr_expected_sha = sha, pr_content = c, pr_summary = s, pr_calls = ids,
          pr_evidence = ev\<rparr>))))))"

definition read_promotion_body :: "dict \<Rightarrow> (string \<times> promote_request) py" where
  "read_promotion_body d =
     bindE (body_str d ''source_document_id'') (\<lambda>i. bindE (body_str d ''target_store_slug'') (\<lambda>s.
     bindE (body_str d ''target_path'') (\<lambda>p. bindE (body_str d ''promotion_reason'') (\<lambda>r.
     bindE (body_str_def d ''risk_level'' ''low'') (\<lambda>risk. bindE (body_str d ''evidence_summary'') (\<lambda>ev.
     Inr (risk, \<lparr>pm_source = i, pm_store = s, pm_path = p, pm_reason = r, pm_risk = LOW_RISK,
                 pm_evidence = ev\<rparr>)))))))"

subsection \<open>Routes\<close>

text \<open>The scope hints are built, and so checked, in the handler: a bad one is an exception of the handler.\<close>

record scope_hints =
  sh_workspace :: bool
  sh_user :: bool
  sh_conversation :: "string option"
  sh_environment :: "string option"
  sh_namespace :: "string option"
  sh_service :: "string option"

definition scope_hints_of :: "string option \<Rightarrow> dict \<Rightarrow> scope_hints py" where
  "scope_hints_of cid d =
     bindE (lax_bool (dget_def d ''workspace'' (JBool True))) (\<lambda>w.
     bindE (lax_bool (dget_def d ''user'' (JBool True))) (\<lambda>u. bindE (body_str_opt d ''environment'') (\<lambda>e.
     bindE (body_str_opt d ''namespace'') (\<lambda>n. bindE (body_str_opt d ''service'') (\<lambda>s.
     Inr \<lparr>sh_workspace = w, sh_user = u, sh_conversation = cid, sh_environment = e, sh_namespace = n,
          sh_service = s\<rparr>)))))"

text \<open>What the endpoints use of the rest of the engine, and what other runs do while they wait.\<close>

record memory_engine =
  me_settings :: settings
  me_sha :: "string \<Rightarrow> string"
  me_uuid :: "string \<Rightarrow> string py"
  me_num :: "string \<Rightarrow> int option"
  me_fts :: "string \<Rightarrow> memory_document \<Rightarrow> rat option"
  me_decay :: "int \<Rightarrow> rat"
  me_others :: "memory \<Rightarrow> memory"
  me_others' :: "memory \<Rightarrow> memory"
  me_model :: "string option"

definition search_route :: "memory_engine \<Rightarrow> agent_context \<Rightarrow> search_body \<Rightarrow> dict api" where
  "search_route V ctx b =
     call (lift (scope_hints_of (safe_uuid (me_uuid V) (ctx_conversation ctx))
            (case sb_hints b of None \<Rightarrow> [] | Some h \<Rightarrow> h))) (\<lambda>_.
     agent_memory_search (me_fts V) (me_decay V) (me_uuid V) ctx (sb_query b)
       (case sb_types b of None \<Rightarrow> [] | Some ts \<Rightarrow> ts) (nat (sb_max b)))"

definition with_body :: "dict \<Rightarrow> 'b py \<Rightarrow> (agent_context \<Rightarrow> 'b \<Rightarrow> 'a api) \<Rightarrow> 'a api" where
  "with_body d b k =
     (case body_context d of
        Inl e \<Rightarrow> http 422 (exc_msg e)
      | Inr ctx \<Rightarrow> (case b of Inl e \<Rightarrow> http 422 (exc_msg e) | Inr x \<Rightarrow> k ctx x))"

definition agent_paths :: "string list" where
  "agent_paths = [''search'', ''read'', ''list'', ''history'', ''remember'', ''patch'', ''propose-promotion'']"

definition answer_path :: "memory_engine \<Rightarrow> string \<Rightarrow> dict \<Rightarrow> dict api" where
  "answer_path V p d =
     (if p = ''search'' then with_body d (read_search_body (me_num V) d) (search_route V)
      else if p = ''read'' then with_body d (read_read_body d) (\<lambda>ctx b.
        agent_memory_read (me_uuid V) ctx (rb_document b) (rb_slug b) (rb_path b))
      else if p = ''list'' then with_body d (read_list_body d) (\<lambda>ctx (sl, path).
        agent_memory_list (me_uuid V) ctx sl path)
      else if p = ''history'' then with_body d (read_history_body (me_num V) d) (\<lambda>ctx (did, n).
        agent_memory_history (me_uuid V) ctx did (nat n))
      else if p = ''remember'' then with_body d (read_remember_body (me_num V) d) (\<lambda>ctx (ty, req).
        agent_memory_remember (me_sha V) (me_uuid V) (me_settings V) (me_others V) (me_others' V) ctx ty req)
      else if p = ''patch'' then with_body d (read_patch_body d) (\<lambda>ctx req.
        agent_memory_patch (me_sha V) (me_uuid V) (me_settings V) (me_others V) ctx req)
      else if p = ''propose-promotion'' then with_body d (read_promotion_body d) (\<lambda>ctx (risk, req).
        agent_memory_propose_promotion (me_uuid V) (me_model V) risk req)
      else http 404 ''Not Found'')"

text \<open>The key is a dependency of every route; a request that has no such header is not valid.\<close>

definition agent_route :: "memory_engine \<Rightarrow> string \<Rightarrow> dict \<Rightarrow> dict \<Rightarrow> dict api" where
  "agent_route V p headers d =
     (if p \<notin> set agent_paths then http 404 ''Not Found''
      else case map_of headers ''x-internal-api-key'' of
        Some (JStr key) \<Rightarrow> verify_internal_key (me_settings V) key (answer_path V p d)
      | _ \<Rightarrow> http 422 (exc_msg invalid_body))"

text \<open>
  The engine as the HTTP client of the MCP server sees it, at an address and in a state: an exception of a
  handler is answered 500.
\<close>

definition http_answer :: "(py_exc + (http_error + dict)) \<Rightarrow> http_reply" where
  "http_answer r =
     (case r of
        Inl e \<Rightarrow> Status_error 500
      | Inr (Inl h) \<Rightarrow> Status_error (http_status h)
      | Inr (Inr d) \<Rightarrow> Reply d)"

definition engine_at :: "memory_engine \<Rightarrow> string \<Rightarrow> memory \<Rightarrow> poster" where
  "engine_at V address m url d headers =
     (case find (\<lambda>p. url = address @ ''/api/v1/memory/agent/'' @ p) agent_paths of
        None \<Rightarrow> Status_error 404
      | Some p \<Rightarrow> http_answer (fst (agent_route V p headers d m)))"

subsection \<open>The tools\<close>

text \<open>A call of a memory tool with its arguments, as the server hands them to the function.\<close>

datatype memory_call =
    Search_call string "dict option" "string list option" "int option"
  | Read_call "string option" "string option" "string option"
  | List_call string "string option"
  | History_call string "int option"
  | Remember_call string string string string string "string option" "int option" "string list option"
      "string list option" "string option"
  | Patch_call string string string string string "string list option"
  | Propose_call string string string string string "string option"

definition int_or_null :: "int option \<Rightarrow> json" where
  "int_or_null v = (case v of None \<Rightarrow> JNull | Some i \<Rightarrow> JInt i)"

fun call_path :: "memory_call \<Rightarrow> string" where
  "call_path (Search_call q h ts n) = ''search''"
| "call_path (Read_call i s p) = ''read''"
| "call_path (List_call s p) = ''list''"
| "call_path (History_call i n) = ''history''"
| "call_path (Remember_call s p ty c ev t n ids tags sha) = ''remember''"
| "call_path (Patch_call i sha c s ev ids) = ''patch''"
| "call_path (Propose_call i s p why ev risk) = ''propose-promotion''"

fun call_payload :: "agent_context \<Rightarrow> memory_call \<Rightarrow> dict" where
  "call_payload ctx (Search_call q h ts n) =
     memory_search_payload ctx q (map_option JDict h) (map_option strs ts) (int_or_null n)"
| "call_payload ctx (Read_call i s p) = memory_read_payload ctx i s p"
| "call_payload ctx (List_call s p) = memory_list_payload ctx s (or_null p)"
| "call_payload ctx (History_call i n) = memory_history_payload ctx i (int_or_null n)"
| "call_payload ctx (Remember_call s p ty c ev t n ids tags sha) =
     memory_remember_payload ctx s p ty c ev t n ids tags sha"
| "call_payload ctx (Patch_call i sha c s ev ids) = memory_patch_payload ctx i sha c s ev ids"
| "call_payload ctx (Propose_call i s p why ev risk) =
     memory_propose_payload ctx i s p why ev (or_null risk)"

definition call_memory_tool :: "poster \<Rightarrow> string \<Rightarrow> string \<Rightarrow> agent_context \<Rightarrow> memory_call \<Rightarrow> string" where
  "call_memory_tool post base key ctx c = memory_tool post base key (call_path c) (call_payload ctx c)"

subsection \<open>What a call asks of the engine\<close>

text \<open>
  \<open>v or n\<close> of a number and of a text; the numbers the engine takes; and the handler with the arguments of
  the call in the place of a body.
\<close>

definition or_int :: "int option \<Rightarrow> int \<Rightarrow> int" where
  "or_int v n = (case v of None \<Rightarrow> n | Some i \<Rightarrow> if i = 0 then n else i)"

definition or_text :: "string option \<Rightarrow> string \<Rightarrow> string" where
  "or_text v s = (case v of None \<Rightarrow> s | Some t \<Rightarrow> if t = [] then s else t)"

definition or_list :: "'a list option \<Rightarrow> 'a list" where
  "or_list v = (case v of None \<Rightarrow> [] | Some xs \<Rightarrow> xs)"

fun in_bounds :: "memory_call \<Rightarrow> bool" where
  "in_bounds (Search_call q h ts n) \<longleftrightarrow> 1 \<le> or_int n 6 \<and> or_int n 6 \<le> 20"
| "in_bounds (History_call i n) \<longleftrightarrow> 1 \<le> or_int n 5 \<and> or_int n 5 \<le> 50"
| "in_bounds (Remember_call s p ty c ev t n ids tags sha) \<longleftrightarrow>
     (case n of None \<Rightarrow> True | Some k \<Rightarrow> 0 \<le> k \<and> k \<le> 100)"
| "in_bounds _ \<longleftrightarrow> True"

fun handle_call :: "memory_engine \<Rightarrow> agent_context \<Rightarrow> memory_call \<Rightarrow> dict api" where
  "handle_call V ctx (Search_call q h ts n) =
     search_route V ctx \<lparr>sb_query = q, sb_hints = h, sb_types = ts, sb_max = or_int n 6\<rparr>"
| "handle_call V ctx (Read_call i s p) = agent_memory_read (me_uuid V) ctx i s p"
| "handle_call V ctx (List_call s p) = agent_memory_list (me_uuid V) ctx s (or_text p ''/'')"
| "handle_call V ctx (History_call i n) = agent_memory_history (me_uuid V) ctx i (nat (or_int n 5))"
| "handle_call V ctx (Remember_call s p ty c ev t n ids tags sha) =
     agent_memory_remember (me_sha V) (me_uuid V) (me_settings V) (me_others V) (me_others' V) ctx ty
       \<lparr>wr_slug = s, wr_path = p, wr_title = t, wr_type = CONVERSATION_NOTE, wr_content = c,
        wr_confidence = (case n of None \<Rightarrow> 80 | Some k \<Rightarrow> k), wr_tags = or_list tags, wr_entities = [],
        wr_calls = or_list ids, wr_evidence = ev, wr_expected_sha = sha\<rparr>"
| "handle_call V ctx (Patch_call i sha c s ev ids) =
     agent_memory_patch (me_sha V) (me_uuid V) (me_settings V) (me_others V) ctx
       \<lparr>pr_document = i, pr_expected_sha = sha, pr_content = c, pr_summary = s, pr_calls = or_list ids,
        pr_evidence = ev\<rparr>"
| "handle_call V ctx (Propose_call i s p why ev risk) =
     agent_memory_propose_promotion (me_uuid V) (me_model V) (or_text risk ''low'')
       \<lparr>pm_source = i, pm_store = s, pm_path = p, pm_reason = why, pm_risk = LOW_RISK, pm_evidence = ev\<rparr>"

subsection \<open>The payloads are read back\<close>

named_theorems body_fields

lemma read_strs_map [simp]: "read_strs (map JStr xs) = Inr xs"
  by (induction xs) (simp_all add: bindE_simps)

lemma str_field [body_fields]: "map_of d k = Some (JStr s) \<Longrightarrow> body_str d k = Inr s"
  by (simp add: body_str_def dget_def_def)

lemma str_def_field [body_fields]: "map_of d k = Some (JStr s) \<Longrightarrow> body_str_def d k v = Inr s"
  by (simp add: body_str_def_def body_str_def dget_def_def)

lemma str_opt_field [body_fields]: "map_of d k = Some (or_null v) \<Longrightarrow> body_str_opt d k = Inr v"
  by (cases v) (simp_all add: body_str_opt_def dget_def_def or_null_def)

lemma strs_field [body_fields]: "map_of d k = Some (strs xs) \<Longrightarrow> body_strs d k = Inr xs"
  by (simp add: body_strs_def dget_def_def)

lemma strs_opt_field [body_fields]:
  "map_of d k = None \<Longrightarrow> body_strs_opt d k = Inr None"
  "map_of d k = Some (strs xs) \<Longrightarrow> body_strs_opt d k = Inr (Some xs)"
  by (simp_all add: body_strs_opt_def dget_def_def bindE_simps)

lemma dict_opt_field [body_fields]:
  "map_of d k = None \<Longrightarrow> body_dict_opt d k = Inr None"
  "map_of d k = Some (JDict e) \<Longrightarrow> body_dict_opt d k = Inr (Some e)"
  by (simp_all add: body_dict_opt_def dget_def_def)

lemma int_field [body_fields]: "map_of d k = Some (JInt i) \<Longrightarrow> body_int num d k v lo hi = bounded_int lo hi i"
  by (simp add: body_int_def dget_def_def)

lemma por_int: "n \<noteq> 0 \<Longrightarrow> por (int_or_null v) (JInt n) = JInt (or_int v n)"
  by (cases v) (simp_all add: por_def int_or_null_def or_int_def)

lemma por_text: "por (or_null v) (JStr s) = JStr (or_text v s)"
  by (cases v) (simp_all add: por_def or_null_def or_text_def)

lemmas payload_defs = memory_search_payload_def memory_read_payload_def memory_list_payload_def
  memory_history_payload_def memory_remember_payload_def memory_patch_payload_def memory_propose_payload_def
  opt_entry_def injected_def

lemma context_field [body_fields]:
  "map_of d ''user_id'' = Some (or_null (ctx_user ctx)) \<Longrightarrow>
   map_of d ''conversation_id'' = Some (or_null (ctx_conversation ctx)) \<Longrightarrow>
   map_of d ''run_id'' = Some (or_null (ctx_run ctx)) \<Longrightarrow> body_context d = Inr ctx"
  by (simp add: body_context_def body_fields bindE_simps)

lemma context_read_back: "body_context (call_payload ctx c) = Inr ctx"
  by (rule context_field; cases c) (simp_all add: payload_defs split: option.splits)

lemma with_read_back [simp]: "with_body (call_payload ctx c) b k =
    (case b of Inl e \<Rightarrow> http 422 (exc_msg e) | Inr x \<Rightarrow> k ctx x)"
  by (simp add: with_body_def context_read_back)

lemma search_read_back: "read_search_body num (call_payload ctx (Search_call q h ts n)) =
    bindE (bounded_int 1 20 (or_int n 6)) (\<lambda>k. Inr \<lparr>sb_query = q, sb_hints = h, sb_types = ts, sb_max = k\<rparr>)"
  by (cases h; cases ts) (simp_all add: read_search_body_def payload_defs por_int body_fields bindE_simps)

lemma read_read_back: "read_read_body (call_payload ctx (Read_call i s p)) =
    Inr \<lparr>rb_document = i, rb_slug = s, rb_path = p\<rparr>"
  by (simp add: read_read_body_def payload_defs body_fields bindE_simps)

lemma list_read_back: "read_list_body (call_payload ctx (List_call s p)) = Inr (s, or_text p ''/'')"
  by (simp add: read_list_body_def payload_defs por_text body_fields bindE_simps)

lemma history_read_back: "read_history_body num (call_payload ctx (History_call i n)) =
    bindE (bounded_int 1 50 (or_int n 5)) (\<lambda>k. Inr (i, k))"
  by (simp add: read_history_body_def payload_defs por_int body_fields bindE_simps)

lemma remember_read_back: "read_remember_body num (call_payload ctx (Remember_call s p ty c ev t n ids tags sha)) =
    bindE (bounded_int 0 100 (case n of None \<Rightarrow> 80 | Some k \<Rightarrow> k)) (\<lambda>k. Inr (ty,
      \<lparr>wr_slug = s, wr_path = p, wr_title = t, wr_type = CONVERSATION_NOTE, wr_content = c,
       wr_confidence = k, wr_tags = or_list tags, wr_entities = [],
       wr_calls = or_list ids, wr_evidence = ev, wr_expected_sha = sha\<rparr>))"
  by (simp add: read_remember_body_def payload_defs body_fields bindE_simps or_list_def split: option.splits)

lemma patch_read_back: "read_patch_body (call_payload ctx (Patch_call i sha c s ev ids)) =
    Inr \<lparr>pr_document = i, pr_expected_sha = sha, pr_content = c, pr_summary = s, pr_calls = or_list ids,
         pr_evidence = ev\<rparr>"
  by (simp add: read_patch_body_def payload_defs body_fields bindE_simps or_list_def)

lemma promotion_read_back: "read_promotion_body (call_payload ctx (Propose_call i s p why ev risk)) =
    Inr (or_text risk ''low'',
      \<lparr>pm_source = i, pm_store = s, pm_path = p, pm_reason = why, pm_risk = LOW_RISK, pm_evidence = ev\<rparr>)"
  by (simp add: read_promotion_body_def payload_defs por_text body_fields bindE_simps)

lemmas bodies_read_back = search_read_back read_read_back list_read_back history_read_back
  remember_read_back patch_read_back promotion_read_back

lemma call_answered: "answer_path V (call_path c) (call_payload ctx c) =
    (if in_bounds c then handle_call V ctx c else http 422 ''validation error'')"
  by (cases c) (auto simp: answer_path_def bodies_read_back bounded_int_def bindE_simps invalid_body_def
      simp del: call_payload.simps split: option.splits)

lemma call_path_known: "call_path c \<in> set agent_paths"
  by (cases c) (simp_all add: agent_paths_def)

lemma call_routed: "engine_at V (rstrip_char (CHR ''/'') base) m (engine_url base (call_path c)) d headers =
    http_answer (fst (agent_route V (call_path c) headers d m))"
proof -
  have "lstrip_char (CHR ''/'') (call_path c) = call_path c"
    by (cases c) (simp_all add: lstrip_char_def)
  then have url: "engine_url base (call_path c)
      = rstrip_char (CHR ''/'') base @ ''/api/v1/memory/agent/'' @ call_path c"
    by (simp add: engine_url_def)
  have "find (\<lambda>q. call_path c = q) ps = (if call_path c \<in> set ps then Some (call_path c) else None)" for ps
    by (induction ps) auto
  then show ?thesis
    using call_path_known [of c] unfolding url engine_at_def by simp
qed

definition error_text :: "int \<Rightarrow> string" where
  "error_text code = memory_result_text (error_dict (''Memory service error: '' @ int_str code))"

definition answer_text :: "http_reply \<Rightarrow> string" where
  "answer_text r =
     (case r of
        Reply d \<Rightarrow> memory_result_text d
      | Status_error code \<Rightarrow> error_text code
      | No_reply msg \<Rightarrow> memory_result_text (error_dict (''Memory service unavailable: '' @ msg)))"

text \<open>
  C35: A memory tool and its endpoint are one operation: whatever the address is configured as, what the
  tool answers is what the handler answers to the tool's own arguments and the injected context (each
  default filled in where the code fills it in), unless the two sides have different keys (401) or a number
  is outside the bounds the engine sets and the tool does not (422).
\<close>

theorem memory_tool_reaches_handler:
  "call_memory_tool (engine_at V (rstrip_char (CHR ''/'') base) m) base key ctx c =
     (if key \<noteq> INTERNAL_API_KEY (me_settings V) then error_text 401
      else if \<not> in_bounds c then error_text 422
      else answer_text (http_answer (fst (handle_call V ctx c m))))"
  by (simp add: call_memory_tool_def memory_tool_def post_memory_def call_routed agent_route_def
      call_path_known internal_headers_def verify_internal_key_def call_answered http_def http_answer_def
      error_text_def answer_text_def split: sum.splits)

text \<open>A scope hint of the wrong type passes the body and is an exception of the handler: 500, not 422.\<close>

lemma bad_hint_not_refused: "in_bounds (Search_call q (Some [(''namespace'', JList xs)]) ts None)"
    "handle_call V ctx (Search_call q (Some [(''namespace'', JList xs)]) ts None) m = (Inl invalid_body, m)"
  by (simp_all add: search_route_def call_def bindW_def scope_hints_of_def body_str_opt_def dget_def_def
      lax_bool_def bindE_simps or_int_def)

lemma history_limit_refused: "50 < n \<Longrightarrow> \<not> in_bounds (History_call i (Some n))"
  by (simp add: or_int_def)

end
