(* ===== verification/Spec2Isabelle.thy ===== *)
theory Spec2Isabelle
  imports AgentProps CommandProps CommandStop ToolProps RetrievalProps MemoryAgentApi ModelProps JsonText EventProps ChatProps ConversationProps AgentApiProps AuthProps JenkinsProps AnalyticsProps Exposure IntegrationProps MutationApi MemorySeed TitleGenerator LifespanProps Collaborators McpServer McpFiles ToolCatalog ExecutorClient AgentBodies
begin

text \<open>
  A model of the engine (\<open>engine/src/api\<close>) and of the MCP server (\<open>mcp\<close>) of cloudops-agent, and what makes them
  correct.

  \<^bold>\<open>The program.\<close> A user chats with an agent about a Kubernetes cluster. The engine runs the agent as a graph of
  nodes: the model proposes tool calls, the gate executes them, a verification node checks what they changed. Tools
  run in the MCP server, which starts \<open>kubectl\<close>, \<open>helm\<close> and Argo commands and talks to Jenkins. A tool that changes
  infrastructure is a mutation: it needs an approval, passes a policy, is written to a durable journal before it is
  sent, and is verified against the cluster afterwards, by the run or by a recovery worker. Events of a run go through
  Redis to the browser; conversations, memory, accounts and integrations are tables of one database.

  \<^bold>\<open>How Python is modelled.\<close> PyBase and PyJson hold strings, dictionaries (association lists in insertion order), the
  values of JSON and the exceptions of their operations; an operation that may raise has a result of type
  \<open>py_exc + 'a\<close>. IoBase has coroutines: functions from a state to a result and the next state, with \<open>catchW\<close> for
  \<open>except Exception\<close>, which lets a \<open>CancelledError\<close> pass. While something is awaited other coroutines run: where the
  code reads, awaits and writes, the model has a parameter for what others do meanwhile. Integers are unbounded, as in
  Python. A character is a byte; floats are rational numbers in the analytics, and numbers of JSON are integers
  elsewhere. Regex is the backtracking matcher the patterns of the program need. Libraries (YAML, HMAC, SHA-256,
  litellm, the HTTP clients, Postgres ranking, FastAPI's validation) are parameters; what a theorem needs of them is a
  hypothesis of it.

  \<^bold>\<open>The mutation control plane.\<close> Config is \<open>config/settings.py\<close>. Capabilities is the registry of tools and the rule of
  approval (\<open>tool_capabilities.py\<close>, \<open>approvals.py\<close>); MutationUtils the redaction, fingerprints and manifests
  (\<open>mutation_utils.py\<close>), with JsonText, a reader for canonical JSON; Policy is \<open>mutation_policy.py\<close>; Journal the row and
  every transition (\<open>mutation_journal.py\<close>, \<open>models/mutation.py\<close>). JournalLife gives the row an invariant, the abstract
  life cycle it refines (\<open>life_step\<close>) and the runs of the table under any interleaving (\<open>jstep\<close>), through the locale
  \<open>keyed_table\<close> of Tables. Verifier is \<open>mutation_verifier.py\<close>, Executor is \<open>ToolExecutor.execute\<close>, AgentGraph the graph
  (\<open>agent/graph.py\<close>), with World for what a coroutine sees: journal, clocks, events, environment. While the executor
  publishes an event or waits for a transaction, others run and may fail it: \<open>en_publish\<close> and \<open>en_transaction\<close> of its
  engine, which the theorems restrict to methods of the journal (\<open>others_keep_protocol\<close>, \<open>bystander\<close>). Properties:
  JournalProps, VerifierProps, ExecutorProps, AgentProps: a mutation is executed at most once, a verdict is final, a
  lease excludes, nothing is sent without approval and, with mutation control on, without an administrator and a row
  that was marked executing (it may have been moved on since: \<open>call_after_recovery\<close>), the redacted fields of the journal
  hold no secret (its plan is stored as it is: \<open>plan_stored_unredacted\<close>), a pass is evidence (ExecutorClient: an answer
  that is lost leaves an unknown operation behind), and no answer of the model precedes the verification.

  \<^bold>\<open>Tools.\<close> McpClient and Exposure: what the server lists, the cache, what the model is offered. ToolCatalog: the locale
  \<open>tool_catalog\<close>, provided by the cache, with the approval rule as its client. Jenkins, JenkinsTools, JenkinsProps: the
  Jenkins tools (\<open>mcp/tools/jenkins.py\<close>), which post a mutation at most once. Commands, KubectlTools, McpTools,
  McpFiles, McpServer: the command runner with retries, timeouts and the stop of a run, every command line, the
  temporary files and the routes of the server; CommandProps, CommandStop, ToolProps: a mutation is started at most
  once, a stopped run starts nothing, the output of \<open>k8s_get\<close> for Secrets has no \<open>data\<close>. Collaborators: who shares which
  client.

  \<^bold>\<open>Model and conversation.\<close> Messages and MessageProps (\<open>utils/sanitization.py\<close>), ModelTurn and ModelProps
  (\<open>agent/model_node.py\<close>): tool calls and answers are paired in what is sent, fragments are put together, requests
  are bounded. ChatHistory, ChatStore, ChatProps (\<open>conversation_persistence.py\<close>), ConversationApi, ConversationProps
  (\<open>endpoints/conversation.py\<close>): history, journal overlay, pages. TitleGenerator: \<open>title_generator.py\<close>. EventStream,
  EventProps: publication and replay of events over Redis, with the locale \<open>channel_log\<close>, the contract of a channel
  that runs, stops and recoveries rely on. AgentEvents, AgentApi, AgentApiProps: \<open>endpoints/agent.py\<close>.

  \<^bold>\<open>Memory.\<close> MemoryBase, MemoryTables, MemoryPolicy, MemorySafety, MemoryService, MemoryRetrieval, MemoryApi,
  MemoryAgentApi, MemorySeed and their properties (MemoryProps, MemoryAccess, RetrievalProps): versions, access, budgets
  of retrieval, confinement of the agent's writes, idempotent seeding. AgentBodies reads the bodies of the internal
  endpoints and puts the MCP server's memory tools and the engine together: a tool answers what its handler answers.

  \<^bold>\<open>The rest of the engine.\<close> Auth and AuthProps (accounts, refresh tokens, team), Integrations and IntegrationProps,
  Analytics and AnalyticsProps, MutationApi (audit endpoints), Lifespan and LifespanProps (\<open>asgi.py\<close>: start and stop,
  the recovery worker's report to chat and stream, limiter, checkpointer).

  \<^bold>\<open>Locales.\<close> \<open>state_moves\<close> (IoBase) says that an operation changes one part of its state only along a relation, and
  carries most invariant proofs; \<open>world_moves\<close> (World) extends it to the executor's world; \<open>keyed_table\<close> (Tables) lifts
  what holds of a row to the table; \<open>channel_log\<close> (EventProps) and \<open>tool_catalog\<close> (ToolCatalog) are interfaces between
  components. Each is interpreted on the model's own definitions.

  \<^bold>\<open>Loops and fuel.\<close> Loops over data are structural. The polling of a verification is a partial function and its return
  is proved (\<open>verify_returns\<close>, \<open>recovery_pass_returns\<close>) for a clock the pauses advance. The graph is bounded by the
  recursion limit of LangGraph; retries by their settings. The recovery worker has no end of its own: \<open>run_worker\<close>
  takes the waits it goes through as a list and says when it is still running after them.

  \<^bold>\<open>What theorems about defects say.\<close> Some lemmas and theorems show that the code does not do what it means to
  (\<open>call_after_recovery\<close>, \<open>silent_channel_loses_events\<close>, \<open>overtaken_event_lost\<close>, \<open>counted_event_taken_for_gap\<close>,
  \<open>refresh_race_doubles_token\<close>, \<open>secret_by_name_not_redacted\<close>, \<open>registration_never_succeeds\<close>, \<open>refused_secret_becomes_active\<close>,
  \<open>saved_state_shared\<close> with the checkpointer disabled, \<open>cancelled_values_stay\<close> and others).

  \<^bold>\<open>Where steps are coarser than the code.\<close> A method of the journal is one step of \<open>jstep\<close>, and the two statements with
  which a stop settles its run are two (\<open>cancel_prepared\<close>, \<open>interrupt_executing\<close>); the endpoint of the stop runs both, and
  the cancellation at the MCP server before, with no other writer of the journal in between. \<open>terminate_all\<close> ends the
  processes of a run one after the other, where the code gathers them. A result of a memory search is rendered
  without its score, a float.

  \<^bold>\<open>Not modelled.\<close> The text of the system prompt (prose, partly outside ASCII), HTTP middleware and logging, routing and
  the generated routes of the user library, database migrations, the entry point of the MCP server, tests; the Go
  controller, the web interface and the deployment, which are in other languages. Rounding of floats, Unicode beyond
  Latin-1, and the scheduling of the event loop inside a step that awaits nothing are outside the model.
\<close>

end
